(* ===== verification/Py_Base.thy ===== *)
theory Py_Base
  imports Main "HOL-Library.Word" "HOL-Library.Sublist"
begin

text \<open>
  The prelude of the development: the Python values and exceptions the models pass around,
  the state-and-exception computations the stateful code is translated to, dictionaries in
  insertion order, and the string methods the sources call, each with the lemmas the
  component theories rely on.

  A Python dictionary is an association list in insertion order.  A Python function that
  changes a state of type \<open>'s\<close> and may raise is a function of type
  \<open>'s \<Rightarrow> (exc + 'a) \<times> 's\<close>: the state the
  exception leaves behind is part of the result, because the code that catches it sees it.
\<close>

unbundle bit_operations_syntax

named_theorems py_run \<open>equations that run a computation on a state\<close>
named_theorems dict_simps \<open>lookup after update in dictionaries\<close>

section \<open>Values and exceptions\<close>

text \<open>
  The values that cross a component boundary: JSON messages, QMP arguments and replies, test
  parameters.  The sources exchange no floating point value over these boundaries.
\<close>

datatype pyval =
    PNone
  | PBool bool
  | PInt int
  | PStr string
  | PList "pyval list"
  | PDict "(string \<times> pyval) list"

type_synonym pydict = "(string \<times> pyval) list"

text \<open>The exception classes the sources raise or catch, with what they carry.\<close>

datatype exc =
    KeyError string
  | AttributeError string
  | IndexError
  | TypeError string
  | ValueError string
  | AssertionError string
  | RuntimeError string
  | IOError string
  | StructError string
  | UnboundLocalError string
  | NotImplementedError
  | KeyboardInterrupt
  | SystemExit int
  | TestFail string
  | TestError string
  | TestCancel string
  | QMPCmdError string
  | ExpectTimeoutError string
  | MessageNotFoundError pyval string
  | UnknownEventError string
  | OtherError string string

text \<open>What \<open>except Exception\<close> catches.\<close>

definition is_exception :: "exc \<Rightarrow> bool" where
  "is_exception e = (case e of KeyboardInterrupt \<Rightarrow> False | SystemExit _ \<Rightarrow> False | _ \<Rightarrow> True)"

type_synonym 'a res = "exc + 'a"
type_synonym ('s, 'a) py = "'s \<Rightarrow> 'a res \<times> 's"

section \<open>Computations\<close>

definition ret :: "'a \<Rightarrow> ('s, 'a) py" where
  "ret x s = (Inr x, s)"

definition throw :: "exc \<Rightarrow> ('s, 'a) py" where
  "throw e s = (Inl e, s)"

definition bnd :: "('s, 'a) py \<Rightarrow> ('a \<Rightarrow> ('s, 'b) py) \<Rightarrow> ('s, 'b) py" where
  "bnd m f s = (case m s of (Inl e, s') \<Rightarrow> (Inl e, s') | (Inr x, s') \<Rightarrow> f x s')"

definition thn :: "('s, 'a) py \<Rightarrow> ('s, 'b) py \<Rightarrow> ('s, 'b) py" where
  "thn m n = bnd m (\<lambda>_. n)"

definition gets :: "('s \<Rightarrow> 'a) \<Rightarrow> ('s, 'a) py" where
  "gets f s = (Inr (f s), s)"

definition modify :: "('s \<Rightarrow> 's) \<Rightarrow> ('s, unit) py" where
  "modify f s = (Inr (), f s)"

text \<open>A pure computation that may raise, run without touching the state.\<close>

definition lift_res :: "'a res \<Rightarrow> ('s, 'a) py" where
  "lift_res r s = (r, s)"

text \<open>\<open>try: m  except e: h e\<close>, where \<open>h\<close> answers \<open>None\<close> for an exception it does not catch.\<close>

definition try_except :: "('s, 'a) py \<Rightarrow> (exc \<Rightarrow> ('s, 'a) py option) \<Rightarrow> ('s, 'a) py" where
  "try_except m h s =
     (case m s of
        (Inl e, s') \<Rightarrow> (case h e of None \<Rightarrow> (Inl e, s') | Some k \<Rightarrow> k s')
      | (Inr x, s') \<Rightarrow> (Inr x, s'))"

text \<open>\<open>try: m  finally: f\<close>: an exception of the \<open>finally\<close> block replaces the one of the body.\<close>

definition try_finally :: "('s, 'a) py \<Rightarrow> ('s, unit) py \<Rightarrow> ('s, 'a) py" where
  "try_finally m f s =
     (case m s of (r, s') \<Rightarrow> (case f s' of (Inl e, s'') \<Rightarrow> (Inl e, s'') | (Inr _, s'') \<Rightarrow> (r, s'')))"

definition py_assert :: "bool \<Rightarrow> string \<Rightarrow> ('s, unit) py" where
  "py_assert b msg = (if b then ret () else throw (AssertionError msg))"

text \<open>A \<open>for\<close> loop whose body returns nothing, and one that collects the results of its body.\<close>

fun for_each :: "'a list \<Rightarrow> ('a \<Rightarrow> ('s, unit) py) \<Rightarrow> ('s, unit) py" where
  "for_each [] f = ret ()"
| "for_each (x # xs) f = bnd (f x) (\<lambda>_. for_each xs f)"

fun map_each :: "'a list \<Rightarrow> ('a \<Rightarrow> ('s, 'b) py) \<Rightarrow> ('s, 'b list) py" where
  "map_each [] f = ret []"
| "map_each (x # xs) f = bnd (f x) (\<lambda>y. bnd (map_each xs f) (\<lambda>ys. ret (y # ys)))"

text \<open>Sequencing of computations that only may raise.\<close>

definition rbind :: "'a res \<Rightarrow> ('a \<Rightarrow> 'b res) \<Rightarrow> 'b res" where
  "rbind r f = (case r of Inl e \<Rightarrow> Inl e | Inr x \<Rightarrow> f x)"

fun rmap :: "('a \<Rightarrow> 'b res) \<Rightarrow> 'a list \<Rightarrow> 'b list res" where
  "rmap f [] = Inr []"
| "rmap f (x # xs) = rbind (f x) (\<lambda>y. rbind (rmap f xs) (\<lambda>ys. Inr (y # ys)))"

section \<open>Dictionaries\<close>

text \<open>\<open>d.get(k)\<close>, \<open>d[k] = v\<close>, \<open>d.pop(k, None)\<close>, \<open>d.update(e)\<close>, \<open>d[k]\<close> and \<open>k in d\<close>.\<close>

abbreviation dget :: "('k \<times> 'v) list \<Rightarrow> 'k \<Rightarrow> 'v option" where
  "dget d k \<equiv> map_of d k"

fun dset :: "'k \<Rightarrow> 'v \<Rightarrow> ('k \<times> 'v) list \<Rightarrow> ('k \<times> 'v) list" where
  "dset k v [] = [(k, v)]"
| "dset k v ((k', v') # d) = (if k = k' then (k, v) # d else (k', v') # dset k v d)"

definition dpop :: "'k \<Rightarrow> ('k \<times> 'v) list \<Rightarrow> ('k \<times> 'v) list" where
  "dpop k d = filter (\<lambda>p. fst p \<noteq> k) d"

definition dupdate :: "('k \<times> 'v) list \<Rightarrow> ('k \<times> 'v) list \<Rightarrow> ('k \<times> 'v) list" where
  "dupdate d e = fold (\<lambda>(k, v). dset k v) e d"

definition dindex :: "(string \<times> 'v) list \<Rightarrow> string \<Rightarrow> 'v res" where
  "dindex d k = (case dget d k of None \<Rightarrow> Inl (KeyError k) | Some v \<Rightarrow> Inr v)"

definition din :: "'k \<Rightarrow> ('k \<times> 'v) list \<Rightarrow> bool" where
  "din k d \<longleftrightarrow> k \<in> set (map fst d)"

definition dget_default :: "('k \<times> 'v) list \<Rightarrow> 'k \<Rightarrow> 'v \<Rightarrow> 'v" where
  "dget_default d k v = (case dget d k of None \<Rightarrow> v | Some w \<Rightarrow> w)"

text \<open>Well-formed dictionaries: no key occurs twice.\<close>

definition dict_ok :: "('k \<times> 'v) list \<Rightarrow> bool" where
  "dict_ok d \<longleftrightarrow> distinct (map fst d)"

text \<open>\<open>d[k]\<close> on a dynamically typed value: subscripting anything but a dictionary by a string raises.\<close>

definition pindex :: "pyval \<Rightarrow> string \<Rightarrow> pyval res" where
  "pindex v k = (case v of PDict d \<Rightarrow> dindex d k | _ \<Rightarrow> Inl (TypeError k))"

text \<open>Subscripting a dictionary by a value: lists and dictionaries cannot be keys.\<close>

definition hashable :: "pyval \<Rightarrow> bool" where
  "hashable v = (case v of PList _ \<Rightarrow> False | PDict _ \<Rightarrow> False | _ \<Rightarrow> True)"

text \<open>The truth value Python gives a value.\<close>

fun truthy :: "pyval \<Rightarrow> bool" where
  "truthy PNone = False"
| "truthy (PBool b) = b"
| "truthy (PInt i) = (i \<noteq> 0)"
| "truthy (PStr s) = (s \<noteq> [])"
| "truthy (PList l) = (l \<noteq> [])"
| "truthy (PDict d) = (d \<noteq> [])"

text \<open>Python's \<open>==\<close>: booleans are integers, dictionaries are compared without regard to order.\<close>

fun py_eq :: "pyval \<Rightarrow> pyval \<Rightarrow> bool"
  and py_eq_list :: "pyval list \<Rightarrow> pyval list \<Rightarrow> bool"
  and py_eq_items :: "(string \<times> pyval) list \<Rightarrow> (string \<times> pyval) list \<Rightarrow> bool" where
  "py_eq PNone w = (w = PNone)"
| "py_eq (PBool b) w = (case w of PBool c \<Rightarrow> b = c | PInt i \<Rightarrow> i = (if b then 1 else 0) | _ \<Rightarrow> False)"
| "py_eq (PInt i) w = (case w of PInt j \<Rightarrow> i = j | PBool c \<Rightarrow> i = (if c then 1 else 0) | _ \<Rightarrow> False)"
| "py_eq (PStr s) w = (w = PStr s)"
| "py_eq (PList l) w = (case w of PList m \<Rightarrow> py_eq_list l m | _ \<Rightarrow> False)"
| "py_eq (PDict d) w = (case w of PDict e \<Rightarrow> length d = length e \<and> py_eq_items d e | _ \<Rightarrow> False)"
| "py_eq_list [] m = (m = [])"
| "py_eq_list (v # vs) m = (case m of [] \<Rightarrow> False | w # ws \<Rightarrow> py_eq v w \<and> py_eq_list vs ws)"
| "py_eq_items [] e = True"
| "py_eq_items ((k, v) # d) e =
     ((case dget e k of None \<Rightarrow> False | Some w \<Rightarrow> py_eq v w) \<and> py_eq_items d e)"

section \<open>Strings\<close>

text \<open>The ASCII characters \<open>str.split\<close> and \<open>str.strip\<close> treat as white space.\<close>

definition is_ws :: "char \<Rightarrow> bool" where
  "is_ws c \<longleftrightarrow> of_char c \<in> {9, 10, 11, 12, 13, 28, 29, 30, 31, 32 :: int}"

definition startswith :: "string \<Rightarrow> string \<Rightarrow> bool" where
  "startswith s p \<longleftrightarrow> take (length p) s = p"

definition endswith :: "string \<Rightarrow> string \<Rightarrow> bool" where
  "endswith s p \<longleftrightarrow> startswith (rev s) (rev p)"

definition lstrip_set :: "(char \<Rightarrow> bool) \<Rightarrow> string \<Rightarrow> string" where
  "lstrip_set p s = dropWhile p s"

definition rstrip_set :: "(char \<Rightarrow> bool) \<Rightarrow> string \<Rightarrow> string" where
  "rstrip_set p s = rev (dropWhile p (rev s))"

definition strip_set :: "(char \<Rightarrow> bool) \<Rightarrow> string \<Rightarrow> string" where
  "strip_set p s = lstrip_set p (rstrip_set p s)"

text \<open>\<open>os.path.join(a, b)\<close>.\<close>

definition path_join :: "string \<Rightarrow> string \<Rightarrow> string" where
  "path_join a b =
     (if startswith b ''/'' then b else if a = [] \<or> endswith a ''/'' then a @ b else a @ ''/'' @ b)"

text \<open>\<open>s.split(c)\<close> for a one-character separator, and \<open>s.split(c, 1)\<close>.\<close>

fun split_char :: "char \<Rightarrow> string \<Rightarrow> string list" where
  "split_char c [] = [[]]"
| "split_char c (x # xs) =
     (if x = c then [] # split_char c xs
      else (case split_char c xs of [] \<Rightarrow> [[x]] | w # ws \<Rightarrow> (x # w) # ws))"

fun split_char1 :: "char \<Rightarrow> string \<Rightarrow> string list" where
  "split_char1 c [] = [[]]"
| "split_char1 c (x # xs) =
     (if x = c then [[], xs]
      else (case split_char1 c xs of [] \<Rightarrow> [[x]] | w # ws \<Rightarrow> (x # w) # ws))"

text \<open>\<open>s.split()\<close>: the maximal runs of characters that are not white space.\<close>

fun split_ws_acc :: "string \<Rightarrow> string \<Rightarrow> string list" where
  "split_ws_acc acc [] = (if acc = [] then [] else [rev acc])"
| "split_ws_acc acc (x # xs) =
     (if is_ws x then (if acc = [] then [] else [rev acc]) @ split_ws_acc [] xs
      else split_ws_acc (x # acc) xs)"

definition split_ws :: "string \<Rightarrow> string list" where
  "split_ws s = split_ws_acc [] s"

text \<open>\<open>str.splitlines()\<close>: the line boundaries among the characters of the output.\<close>

definition is_line_end :: "char \<Rightarrow> bool" where
  "is_line_end c \<longleftrightarrow> of_char c \<in> {10, 11, 12, 13, 28, 29, 30, 133 :: int}"

fun splitlines_acc :: "string \<Rightarrow> string \<Rightarrow> string list" where
  "splitlines_acc acc [] = (if acc = [] then [] else [rev acc])"
| "splitlines_acc acc (c # cs) =
     (if is_line_end c then
        rev acc # (case cs of
                     d # ds \<Rightarrow> if c = CHR 0x0D \<and> d = CHR 0x0A then splitlines_acc [] ds else splitlines_acc [] cs
                   | [] \<Rightarrow> splitlines_acc [] cs)
      else splitlines_acc (c # acc) cs)"

definition splitlines :: "string \<Rightarrow> string list" where
  "splitlines s = splitlines_acc [] s"

text \<open>\<open>sep.join(parts)\<close>.\<close>

fun join :: "string \<Rightarrow> string list \<Rightarrow> string" where
  "join sep [] = []"
| "join sep [x] = x"
| "join sep (x # xs) = x @ sep @ join sep xs"

definition lower_char :: "char \<Rightarrow> char" where
  "lower_char c = (if 65 \<le> (of_char c :: int) \<and> (of_char c :: int) \<le> 90 then char_of ((of_char c :: int) + 32) else c)"

definition lower :: "string \<Rightarrow> string" where
  "lower s = map lower_char s"

text \<open>Decimal notation of an integer, as \<open>str(i)\<close> gives it.\<close>

function nat_digits :: "int \<Rightarrow> string" where
  "nat_digits n =
     (if n < 10 then [char_of (48 + n)] else nat_digits (n div 10) @ [char_of (48 + n mod 10)])"
  by pat_completeness auto
termination
  by (relation "measure nat") auto

declare nat_digits.simps [simp del]

definition int_str :: "int \<Rightarrow> string" where
  "int_str i = (if i < 0 then CHR ''-'' # nat_digits (- i) else nat_digits i)"

text \<open>\<open>str(v)\<close> and \<open>"%s" % v\<close>; the code formats no lists or dictionaries this way.\<close>

definition py_str :: "pyval \<Rightarrow> string" where
  "py_str v =
     (case v of
        PStr s \<Rightarrow> s
      | PInt i \<Rightarrow> int_str i
      | PBool b \<Rightarrow> (if b then ''True'' else ''False'')
      | PNone \<Rightarrow> ''None''
      | _ \<Rightarrow> [])"

definition digit_val :: "char \<Rightarrow> int option" where
  "digit_val c =
     (let n = (of_char c :: int) in
      if 48 \<le> n \<and> n \<le> 57 then Some (n - 48)
      else if 97 \<le> n \<and> n \<le> 122 then Some (n - 87)
      else if 65 \<le> n \<and> n \<le> 90 then Some (n - 55)
      else None)"

text \<open>
  Digits of \<open>int(s, base)\<close>: at least one, each below the base, single underscores allowed
  between two digits.
\<close>

fun digits_val :: "int \<Rightarrow> int \<Rightarrow> string \<Rightarrow> int option" where
  "digits_val base acc [] = Some acc"
| "digits_val base acc (c # cs) =
     (case digit_val c of
        Some d \<Rightarrow> if d < base then digits_val base (acc * base + d) cs else None
      | None \<Rightarrow> if c = CHR ''_'' \<and> cs \<noteq> [] \<and> hd cs \<noteq> CHR ''_'' then digits_val base acc cs else None)"

definition unsigned_val :: "int \<Rightarrow> string \<Rightarrow> int option" where
  "unsigned_val base s =
     (case s of
        [] \<Rightarrow> None
      | c # cs \<Rightarrow> (case digit_val c of None \<Rightarrow> None | Some d \<Rightarrow> if d < base then digits_val base 0 s else None))"

text \<open>\<open>int(s)\<close>, and \<open>int(s, 16)\<close>, which also accepts a \<open>0x\<close> prefix.\<close>

definition signed_val :: "(string \<Rightarrow> int option) \<Rightarrow> string \<Rightarrow> int option" where
  "signed_val f s =
     (case strip_set is_ws s of
        [] \<Rightarrow> None
      | c # cs \<Rightarrow>
          if c = CHR ''-'' then map_option uminus (f cs)
          else if c = CHR ''+'' then f cs
          else f (c # cs))"

definition hex_body :: "string \<Rightarrow> int option" where
  "hex_body s =
     (if startswith s ''0x'' \<or> startswith s ''0X''
      then unsigned_val 16 (if startswith (drop 2 s) ''_'' then drop 3 s else drop 2 s)
      else unsigned_val 16 s)"

definition int_of_str :: "string \<Rightarrow> int res" where
  "int_of_str s =
     (case signed_val (unsigned_val 10) s of None \<Rightarrow> Inl (ValueError s) | Some i \<Rightarrow> Inr i)"

definition int_of_hex :: "string \<Rightarrow> int res" where
  "int_of_hex s =
     (case signed_val hex_body s of None \<Rightarrow> Inl (ValueError s) | Some i \<Rightarrow> Inr i)"

text \<open>\<open>int(v)\<close>; a value used where only a string makes sense; \<open>d.setdefault(k, v)\<close>.\<close>

definition py_int :: "pyval \<Rightarrow> int res" where
  "py_int v =
     (case v of
        PInt i \<Rightarrow> Inr i
      | PBool b \<Rightarrow> Inr (if b then 1 else 0)
      | PStr s \<Rightarrow> int_of_str s
      | _ \<Rightarrow> Inl (TypeError ''int''))"

definition str_of :: "pyval \<Rightarrow> string" where
  "str_of v = (case v of PStr s \<Rightarrow> s | _ \<Rightarrow> [])"

definition setdefault :: "string \<Rightarrow> 'v \<Rightarrow> (string \<times> 'v) list \<Rightarrow> (string \<times> 'v) list" where
  "setdefault k v d = (case dget d k of None \<Rightarrow> dset k v d | Some _ \<Rightarrow> d)"

section \<open>Laws of computations\<close>

lemmas py_defs = ret_def throw_def bnd_def thn_def gets_def modify_def lift_res_def

lemma ret_run [py_run]: "ret x s = (Inr x, s)"
  by (simp add: ret_def)

lemma throw_run [py_run]: "throw e s = (Inl e, s)"
  by (simp add: throw_def)

lemma gets_run [py_run]: "gets f s = (Inr (f s), s)"
  by (simp add: gets_def)

lemma modify_run [py_run]: "modify f s = (Inr (), f s)"
  by (simp add: modify_def)

lemma lift_res_run [py_run]: "lift_res r s = (r, s)"
  by (simp add: lift_res_def)

lemma bnd_Inr [py_run]: "m s = (Inr x, s') \<Longrightarrow> bnd m f s = f x s'"
  by (simp add: bnd_def)

lemma bnd_Inl [py_run]: "m s = (Inl e, s') \<Longrightarrow> bnd m f s = (Inl e, s')"
  by (simp add: bnd_def)

lemma thn_Inr [py_run]: "m s = (Inr x, s') \<Longrightarrow> thn m n s = n s'"
  by (simp add: thn_def bnd_def)

lemma thn_Inl [py_run]: "m s = (Inl e, s') \<Longrightarrow> thn m n s = (Inl e, s')"
  by (simp add: thn_def bnd_def)

lemma bnd_ret_left [simp]: "bnd (ret x) f = f x"
  by (rule ext) (simp add: bnd_def ret_def)

lemma bnd_throw_left [simp]: "bnd (throw e) f = throw e"
  by (rule ext) (simp add: bnd_def throw_def)

lemma bnd_lift_Inr [simp]: "bnd (lift_res (Inr x)) f = f x"
  by (rule ext) (simp add: bnd_def lift_res_def)

lemma bnd_lift_Inl [simp]: "bnd (lift_res (Inl e)) f = throw e"
  by (rule ext) (simp add: bnd_def lift_res_def throw_def)

lemma bnd_assoc: "bnd (bnd m f) g = bnd m (\<lambda>x. bnd (f x) g)"
  by (rule ext) (auto simp: bnd_def split: prod.splits sum.splits)

lemma bnd_InrE:
  assumes "bnd m f s = (Inr y, t)"
  obtains x s' where "m s = (Inr x, s')" and "f x s' = (Inr y, t)"
  using assms by (auto simp: bnd_def split: prod.splits sum.splits)

lemma py_assert_run [py_run]:
  "py_assert b msg s = (if b then Inr () else Inl (AssertionError msg), s)"
  by (simp add: py_assert_def py_defs)

lemma rbind_simps [simp]: "rbind (Inr x) f = f x" "rbind (Inl e) f = Inl e"
  by (simp_all add: rbind_def)

lemma rbind_InrE:
  assumes "rbind r f = Inr y"
  obtains x where "r = Inr x" and "f x = Inr y"
  using assms by (cases r) auto

text \<open>An invariant every step of a loop keeps is kept by the loop, whether or not it raises.\<close>

lemma for_each_inv:
  assumes "\<And>x s. x \<in> set xs \<Longrightarrow> P s \<Longrightarrow> P (snd (f x s))" and "P s"
  shows "P (snd (for_each xs f s))"
  using assms
proof (induction xs arbitrary: s)
  case Nil
  then show ?case by (simp add: ret_def)
next
  case (Cons x xs)
  have "P (snd (f x s))" using Cons.prems by simp
  then show ?case using Cons.IH[of "snd (f x s)"] Cons.prems
    by (cases "f x s") (auto simp: bnd_def split: sum.splits)
qed

lemma for_each_append:
  "for_each (xs @ ys) f = bnd (for_each xs f) (\<lambda>_. for_each ys f)"
  by (induction xs) (simp_all add: bnd_assoc)

section \<open>Laws of dictionaries\<close>

lemma dget_dset [simp, dict_simps]: "dget (dset k v d) k' = (if k' = k then Some v else dget d k')"
  by (induction k v d rule: dset.induct) auto

lemma keys_dset: "map fst (dset k v d) = (if k \<in> set (map fst d) then map fst d else map fst d @ [k])"
  by (induction k v d rule: dset.induct) auto

lemma set_keys_dset [simp]: "set (map fst (dset k v d)) = insert k (set (map fst d))"
  by (induction k v d rule: dset.induct) auto

lemma fst_set_dset [simp]: "fst ` set (dset k v d) = insert k (fst ` set d)"
  using set_keys_dset[of k v d] by simp

lemma dict_ok_dset [simp]: "dict_ok d \<Longrightarrow> dict_ok (dset k v d)"
  by (simp add: dict_ok_def keys_dset)

lemma dict_ok_Nil [simp]: "dict_ok []"
  by (simp add: dict_ok_def)

lemma dget_dpop [simp, dict_simps]: "dget (dpop k d) k' = (if k' = k then None else dget d k')"
  by (induction d) (auto simp: dpop_def)

lemma dict_ok_dpop [simp]: "dict_ok d \<Longrightarrow> dict_ok (dpop k d)"
  by (simp add: dict_ok_def dpop_def distinct_map_filter)

lemma dupdate_simps [simp, dict_simps]:
  "dupdate d [] = d"
  "dupdate d ((k, v) # e) = dupdate (dset k v d) e"
  by (simp_all add: dupdate_def)

lemma dget_dupdate:
  "dict_ok e \<Longrightarrow> dget (dupdate d e) k = (case dget e k of None \<Rightarrow> dget d k | Some v \<Rightarrow> Some v)"
proof (induction e arbitrary: d)
  case Nil
  then show ?case by simp
next
  case (Cons p e)
  obtain k' v where p: "p = (k', v)" by (cases p)
  from Cons.prems have "dict_ok e" and "k' \<notin> set (map fst e)"
    by (auto simp: dict_ok_def p)
  moreover from this have "dget e k' = None" by (simp add: map_of_eq_None_iff)
  ultimately show ?case using Cons.IH[of "dset k' v d"] by (auto simp: p split: option.splits)
qed

lemma din_iff: "din k d \<longleftrightarrow> dget d k \<noteq> None"
  by (simp add: din_def map_of_eq_None_iff)

lemma din_dset [simp]: "din k (dset k' v d) \<longleftrightarrow> k = k' \<or> din k d"
  by (simp add: din_iff)

lemma dindex_Inr_iff [simp]: "dindex d k = Inr v \<longleftrightarrow> dget d k = Some v"
  by (simp add: dindex_def split: option.split)

lemma dindex_Inl_iff: "dindex d k = Inl e \<longleftrightarrow> dget d k = None \<and> e = KeyError k"
  by (auto simp: dindex_def split: option.split)

lemma pindex_Inr_iff [simp]: "pindex v k = Inr w \<longleftrightarrow> (\<exists>d. v = PDict d \<and> dget d k = Some w)"
  by (cases v) (simp_all add: pindex_def)

section \<open>Laws of strings\<close>

lemma startswith_append [simp]: "startswith (p @ s) p"
  by (simp add: startswith_def)

lemma startswith_iff: "startswith s p \<longleftrightarrow> (\<exists>t. s = p @ t)"
  by (metis append_eq_conv_conj startswith_def)

lemma endswith_iff: "endswith s p \<longleftrightarrow> (\<exists>t. s = t @ p)"
proof -
  have "(\<exists>t. rev s = rev p @ t) \<longleftrightarrow> (\<exists>t. s = t @ p)"
    by (metis rev_append rev_rev_ident)
  then show ?thesis by (simp add: endswith_def startswith_iff)
qed

lemma split_char_nonempty [simp]: "split_char c s \<noteq> []"
  by (induction c s rule: split_char.induct) (auto split: list.splits)

lemma split_char_notin: "c \<notin> set s \<Longrightarrow> split_char c s = [s]"
  by (induction c s rule: split_char.induct) auto

lemma split_char_append: "c \<notin> set s \<Longrightarrow> split_char c (s @ c # t) = s # split_char c t"
  by (induction s) auto

lemma split_join:
  assumes "xs \<noteq> []" and "\<forall>x \<in> set xs. c \<notin> set x"
  shows "split_char c (join [c] xs) = xs"
  using assms
proof (induction "[c]" xs rule: join.induct)
  case (3 x y zs)
  then show ?case by (simp add: split_char_append)
qed (simp_all add: split_char_notin)

lemma join_split: "join [c] (split_char c s) = s"
proof (induction c s rule: split_char.induct)
  case (2 c x xs)
  then show ?case
    by (cases "split_char c xs"; cases "tl (split_char c xs)") (auto split: list.splits)
qed simp

lemma split_char1_append: "c \<notin> set s \<Longrightarrow> split_char1 c (s @ c # t) = [s, t]"
  by (induction s) auto

lemma split_char1_notin: "c \<notin> set s \<Longrightarrow> split_char1 c s = [s]"
  by (induction c s rule: split_char1.induct) auto

lemma digit_val_char_of [simp]: "0 \<le> d \<Longrightarrow> d < 10 \<Longrightarrow> digit_val (char_of (48 + d)) = Some d"
  by (simp add: digit_val_def)

lemma nat_digits_nonempty [simp]: "nat_digits n \<noteq> []"
  by (subst nat_digits.simps) simp

lemma digits_val_append:
  assumes "set s \<subseteq> {c. digit_val c \<noteq> None}"
  shows "digits_val b a (s @ t) = (case digits_val b a s of None \<Rightarrow> None | Some m \<Rightarrow> digits_val b m t)"
  using assms by (induction s arbitrary: a) (auto split: option.splits)

lemma nat_digits_are_digits:
  "0 \<le> n \<Longrightarrow> c \<in> set (nat_digits n) \<Longrightarrow> \<exists>d::int. 0 \<le> d \<and> d < 10 \<and> c = char_of (48 + d)"
proof (induction n rule: nat_digits.induct)
  case (1 n)
  show ?case
  proof (cases "n < 10")
    case True
    with 1 show ?thesis by (subst (asm) nat_digits.simps) auto
  next
    case False
    with 1 have "c \<in> set (nat_digits (n div 10)) \<or> c = char_of (48 + n mod 10)"
      by (subst (asm) nat_digits.simps) auto
    moreover have "0 \<le> n mod 10" "n mod 10 < 10" "0 \<le> n div 10" using 1(2) by simp_all
    ultimately show ?thesis using 1 False by blast
  qed
qed

lemma digits_val_nat_digits: "0 \<le> n \<Longrightarrow> digits_val 10 0 (nat_digits n) = Some n"
proof (induction n rule: nat_digits.induct)
  case (1 n)
  show ?case
  proof (cases "n < 10")
    case True
    with 1 show ?thesis by (subst nat_digits.simps) simp
  next
    case False
    have "set (nat_digits (n div 10)) \<subseteq> {c. digit_val c \<noteq> None}"
      using nat_digits_are_digits[of "n div 10"] False 1(2) by fastforce
    with False 1 show ?thesis
      by (subst nat_digits.simps) (simp add: digits_val_append)
  qed
qed

end
