(* ===== verification/Json.thy ===== *)
theory Json
  imports Py_Base
begin

text \<open>
  The part of Python's \<^verbatim>\<open>json\<close> module the input agents and the proxy use: \<open>dumps\<close> with the
  default separators and \<open>ensure_ascii\<close>, and \<open>loads\<close>.  Texts with a fraction, an exponent,
  \<^verbatim>\<open>NaN\<close> or \<^verbatim>\<open>Infinity\<close> denote floating point values, and escapes above \<^verbatim>\<open>\u00ff\<close> denote
  characters outside the model's strings; \<open>loads\<close> answers \<open>None\<close> there as it does where Python
  raises \<^verbatim>\<open>JSONDecodeError\<close>.  The recursive descent is driven by fuel; twice the length of the text
  is always enough (\<open>parse_fuel_enough\<close>).
\<close>

section \<open>dumps\<close>

definition hex_digit :: "int \<Rightarrow> char" where
  "hex_digit n = (if n < 10 then char_of (48 + n) else char_of (87 + n))"

definition esc_char :: "char \<Rightarrow> string" where
  "esc_char c =
     (if c = CHR 0x22 then [CHR 0x5C, CHR 0x22]
      else if c = CHR 0x5C then [CHR 0x5C, CHR 0x5C]
      else if c = CHR 0x0A then [CHR 0x5C, CHR ''n'']
      else if c = CHR 0x0D then [CHR 0x5C, CHR ''r'']
      else if c = CHR 0x09 then [CHR 0x5C, CHR ''t'']
      else if c = CHR 0x0C then [CHR 0x5C, CHR ''f'']
      else if c = CHR 0x08 then [CHR 0x5C, CHR ''b'']
      else if 32 \<le> (of_char c :: int) \<and> (of_char c :: int) \<le> 126 then [c]
      else [CHR 0x5C, CHR ''u'', CHR ''0'', CHR ''0'',
            hex_digit (of_char c div 16), hex_digit (of_char c mod 16)])"

definition dumps_str :: "string \<Rightarrow> string" where
  "dumps_str s = CHR 0x22 # concat (map esc_char s) @ [CHR 0x22]"

fun dumps :: "pyval \<Rightarrow> string"
  and dumps_elems :: "pyval list \<Rightarrow> string"
  and dumps_members :: "(string \<times> pyval) list \<Rightarrow> string" where
  "dumps PNone = ''null''"
| "dumps (PBool b) = (if b then ''true'' else ''false'')"
| "dumps (PInt i) = int_str i"
| "dumps (PStr s) = dumps_str s"
| "dumps (PList l) = ''['' @ dumps_elems l @ '']''"
| "dumps (PDict d) = ''{'' @ dumps_members d @ ''}''"
| "dumps_elems [] = []"
| "dumps_elems (v # vs) = dumps v @ (if vs = [] then [] else '', '' @ dumps_elems vs)"
| "dumps_members [] = []"
| "dumps_members ((k, v) # d) =
     dumps_str k @ '': '' @ dumps v @ (if d = [] then [] else '', '' @ dumps_members d)"

section \<open>loads\<close>

definition json_ws :: "char \<Rightarrow> bool" where
  "json_ws c \<longleftrightarrow> c \<in> {CHR 0x20, CHR 0x09, CHR 0x0A, CHR 0x0D}"

definition skip_ws :: "string \<Rightarrow> string" where
  "skip_ws s = dropWhile json_ws s"

definition simple_esc :: "char \<Rightarrow> char option" where
  "simple_esc c =
     map_of [(CHR 0x22, CHR 0x22), (CHR 0x5C, CHR 0x5C), (CHR 0x2F, CHR 0x2F), (CHR ''b'', CHR 0x08),
             (CHR ''f'', CHR 0x0C), (CHR ''n'', CHR 0x0A), (CHR ''r'', CHR 0x0D), (CHR ''t'', CHR 0x09)] c"

definition hex_val :: "char \<Rightarrow> int option" where
  "hex_val c = (case digit_val c of Some d \<Rightarrow> if d < 16 then Some d else None | None \<Rightarrow> None)"

definition hex4 :: "char \<Rightarrow> char \<Rightarrow> char \<Rightarrow> char \<Rightarrow> int option" where
  "hex4 a b c d =
     (case (hex_val a, hex_val b, hex_val c, hex_val d) of
        (Some i, Some j, Some k, Some l) \<Rightarrow> Some (((i * 16 + j) * 16 + k) * 16 + l)
      | _ \<Rightarrow> None)"

definition push_char :: "char \<Rightarrow> (string \<times> string) option \<Rightarrow> (string \<times> string) option" where
  "push_char x r = map_option (\<lambda>(s, t). (x # s, t)) r"

text \<open>The text after the opening quote, up to and including the closing one.\<close>

fun parse_str :: "string \<Rightarrow> (string \<times> string) option" where
  "parse_str [] = None"
| "parse_str (c # cs) =
     (if c = CHR 0x22 then Some ([], cs)
      else if c = CHR 0x5C then
        (case cs of
           [] \<Rightarrow> None
         | e # r \<Rightarrow>
             if e = CHR ''u'' then
               (case r of
                  h1 # h2 # h3 # h4 # r' \<Rightarrow>
                    (case hex4 h1 h2 h3 h4 of
                       None \<Rightarrow> None
                     | Some n \<Rightarrow> if n < 256 then push_char (char_of n) (parse_str r') else None)
                | _ \<Rightarrow> None)
             else (case simple_esc e of None \<Rightarrow> None | Some x \<Rightarrow> push_char x (parse_str r)))
      else if (of_char c :: int) < 32 then None
      else push_char c (parse_str cs))"

definition is_digit :: "char \<Rightarrow> bool" where
  "is_digit c \<longleftrightarrow> 48 \<le> (of_char c :: int) \<and> (of_char c :: int) \<le> 57"

text \<open>What follows the integer part of a number turns it into a floating point literal.\<close>

definition float_tail :: "string \<Rightarrow> bool" where
  "float_tail s =
     (case s of
        c # d # r \<Rightarrow>
          (c = CHR ''.'' \<and> is_digit d)
          \<or> (c \<in> {CHR ''e'', CHR ''E''} \<and> (is_digit d \<or> (d \<in> {CHR ''+'', CHR ''-''} \<and> r \<noteq> [] \<and> is_digit (hd r))))
      | _ \<Rightarrow> False)"

definition parse_nat :: "string \<Rightarrow> (int \<times> string) option" where
  "parse_nat s =
     (case s of
        [] \<Rightarrow> None
      | c # cs \<Rightarrow>
          if \<not> is_digit c then None
          else
            let (ds, r) = (if c = CHR ''0'' then ([c], cs) else (takeWhile is_digit s, dropWhile is_digit s))
            in if float_tail r then None else map_option (\<lambda>n. (n, r)) (digits_val 10 0 ds))"

definition parse_int :: "string \<Rightarrow> (pyval \<times> string) option" where
  "parse_int s =
     (case s of
        [] \<Rightarrow> None
      | c # cs \<Rightarrow>
          if c = CHR ''-'' then map_option (\<lambda>(n, r). (PInt (- n), r)) (parse_nat cs)
          else map_option (\<lambda>(n, r). (PInt n, r)) (parse_nat s))"

fun parse_value :: "nat \<Rightarrow> string \<Rightarrow> (pyval \<times> string) option"
  and parse_elems :: "nat \<Rightarrow> string \<Rightarrow> (pyval list \<times> string) option"
  and parse_members :: "nat \<Rightarrow> string \<Rightarrow> ((string \<times> pyval) list \<times> string) option" where
  "parse_value 0 s = None"
| "parse_value (Suc f) s =
     (case s of
        [] \<Rightarrow> None
      | c # cs \<Rightarrow>
          if c = CHR 0x22 then map_option (\<lambda>(x, r). (PStr x, r)) (parse_str cs)
          else if c = CHR ''{'' then
            (case skip_ws cs of
               [] \<Rightarrow> None
             | d # r \<Rightarrow> if d = CHR ''}'' then Some (PDict [], r)
                        else map_option (\<lambda>(m, t). (PDict (dupdate [] m), t)) (parse_members f (d # r)))
          else if c = CHR ''['' then
            (case skip_ws cs of
               [] \<Rightarrow> None
             | d # r \<Rightarrow> if d = CHR '']'' then Some (PList [], r)
                        else map_option (\<lambda>(l, t). (PList l, t)) (parse_elems f (d # r)))
          else if startswith s ''null'' then Some (PNone, drop 4 s)
          else if startswith s ''true'' then Some (PBool True, drop 4 s)
          else if startswith s ''false'' then Some (PBool False, drop 5 s)
          else parse_int s)"
| "parse_elems 0 s = None"
| "parse_elems (Suc f) s =
     (case parse_value f s of
        None \<Rightarrow> None
      | Some (v, r) \<Rightarrow>
          (case skip_ws r of
             [] \<Rightarrow> None
           | c # cs \<Rightarrow>
               if c = CHR '']'' then Some ([v], cs)
               else if c = CHR '','' then map_option (\<lambda>(l, t). (v # l, t)) (parse_elems f (skip_ws cs))
               else None))"
| "parse_members 0 s = None"
| "parse_members (Suc f) s =
     (case s of
        [] \<Rightarrow> None
      | q # qs \<Rightarrow>
          if q \<noteq> CHR 0x22 then None
          else
            (case parse_str qs of
               None \<Rightarrow> None
             | Some (k, r) \<Rightarrow>
                 (case skip_ws r of
                    [] \<Rightarrow> None
                  | c # cs \<Rightarrow>
                      if c \<noteq> CHR '':'' then None
                      else
                        (case parse_value f (skip_ws cs) of
                           None \<Rightarrow> None
                         | Some (v, t) \<Rightarrow>
                             (case skip_ws t of
                                [] \<Rightarrow> None
                              | e # es \<Rightarrow>
                                  if e = CHR ''}'' then Some ([(k, v)], es)
                                  else if e = CHR '','' then
                                    map_option (\<lambda>(m, u). ((k, v) # m, u)) (parse_members f (skip_ws es))
                                  else None)))))"

definition loads :: "string \<Rightarrow> pyval option" where
  "loads s =
     (case parse_value (2 * length s + 2) (skip_ws s) of
        None \<Rightarrow> None
      | Some (v, r) \<Rightarrow> if skip_ws r = [] then Some v else None)"

text \<open>The values \<open>dumps\<close> renders without loss: no dictionary has a key twice.\<close>

fun json_ok :: "pyval \<Rightarrow> bool"
  and json_ok_list :: "pyval list \<Rightarrow> bool"
  and json_ok_items :: "(string \<times> pyval) list \<Rightarrow> bool" where
  "json_ok (PList l) = json_ok_list l"
| "json_ok (PDict d) = (dict_ok d \<and> json_ok_items d)"
| "json_ok _ = True"
| "json_ok_list [] = True"
| "json_ok_list (v # vs) = (json_ok v \<and> json_ok_list vs)"
| "json_ok_items [] = True"
| "json_ok_items ((k, v) # d) = (json_ok v \<and> json_ok_items d)"

section \<open>Notions of the proofs\<close>

definition num_stop :: "string \<Rightarrow> bool" where
  "num_stop s = (case s of [] \<Rightarrow> True | c # _ \<Rightarrow> \<not> is_digit c \<and> c \<notin> {CHR ''.'', CHR ''e'', CHR ''E''})"

text \<open>How deep the recursive descent goes: the fuel a value needs.\<close>

fun need :: "pyval \<Rightarrow> nat"
  and need_list :: "pyval list \<Rightarrow> nat"
  and need_items :: "(string \<times> pyval) list \<Rightarrow> nat" where
  "need (PList l) = Suc (need_list l)"
| "need (PDict d) = Suc (need_items d)"
| "need _ = 1"
| "need_list [] = 0"
| "need_list (v # vs) = Suc (max (need v) (need_list vs))"
| "need_items [] = 0"
| "need_items ((k, v) # d) = Suc (max (need v) (need_items d))"

definition value_head :: "char \<Rightarrow> bool" where
  "value_head c \<longleftrightarrow> \<not> json_ws c \<and> c \<noteq> CHR '']'' \<and> c \<noteq> CHR ''}''"

text \<open>Every successful step of the descent consumes a character.\<close>

definition consumes :: "(string \<Rightarrow> ('a \<times> string) option) \<Rightarrow> bool" where
  "consumes p \<longleftrightarrow> (\<forall>s v r. p s = Some (v, r) \<longrightarrow> length r < length s)"

section \<open>Strings and numbers read back\<close>

lemma hex_val_hex_digit [simp]: "0 \<le> d \<Longrightarrow> d < 16 \<Longrightarrow> hex_val (hex_digit d) = Some d"
  by (simp add: hex_val_def hex_digit_def digit_val_def)

lemma hex4_byte [simp]:
  "0 \<le> n \<Longrightarrow> n < 256 \<Longrightarrow> hex4 (CHR ''0'') (CHR ''0'') (hex_digit (n div 16)) (hex_digit (n mod 16)) = Some n"
proof -
  assume "0 \<le> n" "n < 256"
  then have "0 \<le> n div 16" "n div 16 < 16" "0 \<le> n mod 16" "n mod 16 < 16" by auto
  moreover have "hex_val (CHR ''0'') = Some 0" by code_simp
  ultimately show ?thesis by (simp add: hex4_def)
qed

lemma of_char_int_range: "0 \<le> (of_char c :: int)" "(of_char c :: int) < 256"
proof -
  have "(of_char c :: int) mod 256 = of_char c" by simp
  then show "0 \<le> (of_char c :: int)" "(of_char c :: int) < 256"
    by (metis pos_mod_sign pos_mod_bound zero_less_numeral)+
qed

lemma parse_str_esc: "parse_str (esc_char c @ t) = push_char c (parse_str t)"
proof -
  have lt: "0 \<le> (of_char c :: int)" "(of_char c :: int) < 256" by (rule of_char_int_range)+
  consider (special) "c \<in> {CHR 0x22, CHR 0x5C, CHR 0x0A, CHR 0x0D, CHR 0x09, CHR 0x0C, CHR 0x08}"
    | (plain) "c \<notin> {CHR 0x22, CHR 0x5C, CHR 0x0A, CHR 0x0D, CHR 0x09, CHR 0x0C, CHR 0x08}"
        "32 \<le> (of_char c :: int) \<and> (of_char c :: int) \<le> 126"
    | (hex) "c \<notin> {CHR 0x22, CHR 0x5C, CHR 0x0A, CHR 0x0D, CHR 0x09, CHR 0x0C, CHR 0x08}"
        "\<not> (32 \<le> (of_char c :: int) \<and> (of_char c :: int) \<le> 126)"
    by blast
  then show ?thesis
  proof cases
    case special
    then show ?thesis by (auto simp: esc_char_def simple_esc_def)
  next
    case plain
    then show ?thesis by (auto simp: esc_char_def)
  next
    case hex
    then show ?thesis using lt by (auto simp: esc_char_def)
  qed
qed

lemma parse_str_dumps: "parse_str (concat (map esc_char s) @ CHR 0x22 # rest) = Some (s, rest)"
  by (induction s) (simp_all add: parse_str_esc push_char_def)

lemma num_stop_Cons:
  "num_stop (c # s) \<longleftrightarrow> \<not> is_digit c \<and> c \<notin> {CHR ''.'', CHR ''e'', CHR ''E''}"
  by (simp add: num_stop_def)

lemma is_digit_char_of: "0 \<le> (d::int) \<Longrightarrow> d < 10 \<Longrightarrow> is_digit (char_of (48 + d))"
  by (simp add: is_digit_def)

lemma is_digit_nat_digits: "0 \<le> n \<Longrightarrow> c \<in> set (nat_digits n) \<Longrightarrow> is_digit c"
  using nat_digits_are_digits is_digit_char_of by blast

lemma hd_nat_digits: "0 < n \<Longrightarrow> hd (nat_digits n) \<noteq> CHR ''0''"
proof (induction n rule: nat_digits.induct)
  case (1 n)
  show ?case
  proof (cases "n < 10")
    case True
    have "(of_char (char_of (48 + n) :: char) :: int) = 48 + n" using True "1.prems" by simp
    moreover have "(of_char (CHR ''0'') :: int) = 48" by code_simp
    ultimately have "char_of (48 + n) \<noteq> CHR ''0''" using "1.prems" by (metis add_cancel_right_right less_numeral_extra(3))
    then show ?thesis using True by (subst nat_digits.simps) simp
  next
    case False
    with 1 show ?thesis by (subst nat_digits.simps) simp
  qed
qed

lemma float_tail_stop: "num_stop s \<Longrightarrow> \<not> float_tail s"
  by (auto simp: num_stop_def float_tail_def split: list.splits)

lemma parse_nat_digits:
  assumes "num_stop rest" and "0 \<le> n"
  shows "parse_nat (nat_digits n @ rest) = Some (n, rest)"
proof -
  obtain c cs where c: "nat_digits n = c # cs" by (cases "nat_digits n") auto
  have dig: "\<forall>x \<in> set (nat_digits n). is_digit x" using is_digit_nat_digits assms(2) by blast
  have tw: "takeWhile is_digit (nat_digits n @ rest) = nat_digits n"
      "dropWhile is_digit (nat_digits n @ rest) = rest"
    using dig assms(1) by (auto simp: num_stop_def split: list.splits)
  show ?thesis
  proof (cases "n = 0")
    case True
    have "nat_digits 0 = [CHR ''0'']" by (subst nat_digits.simps) code_simp
    moreover have "digits_val 10 0 [CHR ''0''] = Some 0" by code_simp
    moreover have "is_digit (CHR ''0'')" by code_simp
    ultimately show ?thesis using True float_tail_stop[OF assms(1)] by (simp add: parse_nat_def)
  next
    case False
    then have "c \<noteq> CHR ''0''" using hd_nat_digits[of n] c assms(2) by simp
    then show ?thesis
      using c dig tw float_tail_stop[OF assms(1)] digits_val_nat_digits[OF assms(2)]
      by (simp add: parse_nat_def)
  qed
qed

lemma parse_int_str:
  assumes "num_stop rest"
  shows "parse_int (int_str i @ rest) = Some (PInt i, rest)"
proof (cases "i < 0")
  case True
  then show ?thesis using parse_nat_digits[OF assms, of "- i"] by (simp add: parse_int_def int_str_def)
next
  case False
  obtain c cs where c: "nat_digits i = c # cs" by (cases "nat_digits i") auto
  then have "is_digit c" using is_digit_nat_digits[of i c] False by simp
  then have "c \<noteq> CHR ''-''" by (auto simp: is_digit_def)
  then show ?thesis
    using False c parse_nat_digits[OF assms, of i] by (simp add: parse_int_def int_str_def)
qed

section \<open>The round trip\<close>

lemma int_str_nonempty [simp]: "int_str i \<noteq> []"
  by (simp add: int_str_def)

lemma length_int_str: "1 \<le> length (int_str i)"
  by (cases "int_str i") simp_all

lemma need_le_length:
  "need v \<le> length (dumps v)"
  "need_list l \<le> Suc (length (dumps_elems l))"
  "need_items d \<le> Suc (length (dumps_members d))"
proof (induction v and l and d rule: dumps_dumps_elems_dumps_members.induct)
  case (3 i)
  then show ?case using length_int_str[of i] by simp
qed (auto simp: dumps_str_def)

lemma digit_value_head: "is_digit c \<Longrightarrow> value_head c"
  by (auto simp: is_digit_def value_head_def json_ws_def)

lemma int_str_head:
  obtains c cs where "int_str i = c # cs" and "c = CHR ''-'' \<or> is_digit c"
proof (cases "i < 0")
  case True
  then show ?thesis using that by (simp add: int_str_def)
next
  case False
  obtain c cs where c: "nat_digits i = c # cs" by (cases "nat_digits i") auto
  then have "is_digit c" using is_digit_nat_digits[of i c] False by simp
  then show ?thesis using that False c by (simp add: int_str_def)
qed

lemma dumps_head_ex: "\<exists>c cs. dumps v = c # cs \<and> value_head c"
proof (cases v)
  case (PInt i)
  obtain c cs where c: "int_str i = c # cs" and "c = CHR ''-'' \<or> is_digit c" by (rule int_str_head)
  then have "value_head c" using digit_value_head by (auto simp: value_head_def json_ws_def)
  then show ?thesis using PInt c by simp
qed (simp_all add: value_head_def json_ws_def dumps_str_def)

lemma dumps_head:
  obtains c cs where "dumps v = c # cs" and "value_head c"
  using dumps_head_ex[of v] by blast

lemma skip_ws_dumps [simp]: "skip_ws (dumps v @ r) = dumps v @ r"
  by (rule dumps_head[of v]) (simp add: skip_ws_def value_head_def)

lemma skip_ws_simps [simp]:
  "skip_ws [] = []"
  "skip_ws (CHR '' '' # s) = skip_ws s"
  "\<not> json_ws c \<Longrightarrow> skip_ws (c # s) = c # s"
  by (simp_all add: skip_ws_def json_ws_def)

lemma json_ws_punct [simp]:
  "\<not> json_ws (CHR '','')" "\<not> json_ws (CHR '']'')" "\<not> json_ws (CHR ''}'')"
  "\<not> json_ws (CHR '':'')" "\<not> json_ws (CHR 0x22)"
  by (simp_all add: json_ws_def)

lemma num_stop_punct [simp]:
  "num_stop (CHR '','' # s)" "num_stop (CHR '']'' # s)" "num_stop (CHR ''}'' # s)"
  by (simp_all add: num_stop_def is_digit_def)

lemma dset_append: "k \<notin> set (map fst d) \<Longrightarrow> dset k v d = d @ [(k, v)]"
  by (induction k v d rule: dset.induct) auto

lemma dupdate_append: "dict_ok (d @ e) \<Longrightarrow> dupdate d e = d @ e"
proof (induction e arbitrary: d)
  case (Cons p e)
  then show ?case by (cases p) (auto simp: dset_append dict_ok_def)
qed simp

lemma dupdate_Nil [simp]: "dict_ok e \<Longrightarrow> dupdate [] e = e"
  using dupdate_append[of "[]" e] by simp

lemma parse_value_int:
  assumes "num_stop rest"
  shows "parse_value (Suc f) (int_str i @ rest) = Some (PInt i, rest)"
proof -
  obtain c cs where c: "int_str i = c # cs" "c = CHR ''-'' \<or> is_digit c" by (rule int_str_head)
  then have "c \<notin> {CHR 0x22, CHR ''{'', CHR ''['', CHR ''n'', CHR ''t'', CHR ''f''}"
    by (auto simp: is_digit_def)
  then show ?thesis using parse_int_str[OF assms, of i] c(1)
    by (simp add: startswith_def)
qed

lemma parse_dumps:
  "json_ok v \<Longrightarrow> need v \<le> f \<Longrightarrow> num_stop rest \<Longrightarrow> parse_value f (dumps v @ rest) = Some (v, rest)"
  "l \<noteq> [] \<Longrightarrow> json_ok_list l \<Longrightarrow> need_list l \<le> f \<Longrightarrow>
     parse_elems f (dumps_elems l @ CHR '']'' # rest) = Some (l, rest)"
  "d \<noteq> [] \<Longrightarrow> json_ok_items d \<Longrightarrow> need_items d \<le> f \<Longrightarrow>
     parse_members f (dumps_members d @ CHR ''}'' # rest) = Some (d, rest)"
proof (induction v and l and d arbitrary: f rest and f rest and f rest
       rule: dumps_dumps_elems_dumps_members.induct)
  case 1
  then show ?case by (cases f) (simp_all add: startswith_def)
next
  case (2 b)
  then show ?case by (cases f) (simp_all add: startswith_def)
next
  case (3 i)
  then show ?case by (cases f) (simp_all add: parse_value_int del: parse_value.simps)
next
  case (4 s)
  then show ?case by (cases f) (simp_all add: dumps_str_def parse_str_dumps)
next
  case (5 l)
  then obtain g where f: "f = Suc g" by (cases f) auto
  show ?case
  proof (cases l)
    case Nil
    then show ?thesis by (simp add: f)
  next
    case (Cons v vs)
    obtain c cs where c: "dumps v = c # cs" "value_head c" by (rule dumps_head)
    have "parse_elems g (dumps_elems l @ CHR '']'' # rest) = Some (l, rest)"
      using "5" f Cons by simp
    then show ?thesis using c by (simp add: f Cons value_head_def)
  qed
next
  case (6 d)
  then obtain g where f: "f = Suc g" by (cases f) auto
  show ?case
  proof (cases d)
    case Nil
    then show ?thesis by (simp add: f)
  next
    case (Cons p d')
    have "parse_members g (dumps_members d @ CHR ''}'' # rest) = Some (d, rest)"
      using "6" f Cons by simp
    moreover have "dupdate [] d = d" using "6.prems" by simp
    ultimately show ?thesis by (cases p) (simp add: f Cons dumps_str_def del: dupdate_simps)
  qed
next
  case (8 v vs)
  then obtain g where f: "f = Suc g" "need v \<le> g" "need_list vs \<le> g" by (cases f) auto
  show ?case
  proof (cases vs)
    case Nil
    then show ?thesis using "8" f by simp
  next
    case (Cons w ws)
    have "parse_elems g (dumps_elems vs @ CHR '']'' # rest) = Some (vs, rest)"
      using "8.IH"(2) "8.prems" f Cons by simp
    then show ?thesis using "8.IH"(1) "8.prems" f Cons by simp
  qed
next
  case (10 k v d)
  then obtain g where f: "f = Suc g" "need v \<le> g" "need_items d \<le> g" by (cases f) auto
  show ?case
  proof (cases d)
    case Nil
    then show ?thesis using "10" f by (simp add: dumps_str_def parse_str_dumps)
  next
    case (Cons p d')
    have "parse_members g (dumps_members d @ CHR ''}'' # rest) = Some (d, rest)"
      using "10.IH"(2) "10.prems" f Cons by simp
    then show ?thesis using "10.IH"(1) "10.prems" f Cons
      by (cases p) (simp add: dumps_str_def parse_str_dumps)
  qed
qed simp_all

lemma json_ws_not_number: "json_ws c \<Longrightarrow> \<not> is_digit c \<and> c \<notin> {CHR ''.'', CHR ''e'', CHR ''E''}"
  unfolding json_ws_def by (elim insertE emptyE) (simp_all add: is_digit_def)

lemma num_stop_ws: "\<forall>c \<in> set w. json_ws c \<Longrightarrow> num_stop w"
  by (cases w) (simp_all add: num_stop_def json_ws_not_number del: insert_iff)

lemma loads_dumps_ws:
  assumes "json_ok v" and "\<forall>c \<in> set w. json_ws c"
  shows "loads (dumps v @ w) = Some v"
proof -
  have "need v \<le> 2 * length (dumps v @ w) + 2"
    using need_le_length(1)[of v] by simp
  then have "parse_value (2 * length (dumps v @ w) + 2) (dumps v @ w) = Some (v, w)"
    by (rule parse_dumps(1)[OF assms(1) _ num_stop_ws[OF assms(2)]])
  moreover have "skip_ws w = []" using assms(2) by (simp add: skip_ws_def)
  ultimately show ?thesis by (simp only: loads_def skip_ws_dumps option.case prod.case simp_thms if_True)
qed

section \<open>The fuel is enough\<close>

lemma length_skip_ws: "length (skip_ws s) \<le> length s"
  by (simp add: skip_ws_def length_dropWhile_le)

lemma skip_ws_Cons_length: "skip_ws s = c # cs \<Longrightarrow> length cs < length s"
  using length_skip_ws[of s] by simp

lemma parse_str_length: "parse_str s = Some (x, r) \<Longrightarrow> length r < length s"
proof (induction s arbitrary: x r rule: parse_str.induct)
  case (2 c cs)
  then show ?case
    by (fastforce simp: push_char_def split: if_splits list.splits option.splits)
qed simp

lemma parse_nat_length: "parse_nat s = Some (n, r) \<Longrightarrow> length r < length s"
  by (auto simp: parse_nat_def length_dropWhile_le le_imp_less_Suc split: list.splits if_splits)

lemma parse_int_length: "parse_int s = Some (v, r) \<Longrightarrow> length r < length s"
  by (fastforce simp: parse_int_def split: list.splits if_splits dest: parse_nat_length)

lemma startswith_length: "startswith s p \<Longrightarrow> length p \<le> length s"
  by (auto simp: startswith_iff)

lemma consumesD: "consumes p \<Longrightarrow> p s = Some (v, r) \<Longrightarrow> length r < length s"
  by (simp add: consumes_def)

lemma parse_value_consumes:
  assumes "consumes (parse_elems f)" and "consumes (parse_members f)"
  shows "consumes (parse_value (Suc f))"
  unfolding consumes_def
proof (intro allI impI)
  fix s v r
  assume p: "parse_value (Suc f) s = Some (v, r)"
  then obtain c cs where s: "s = c # cs" by (cases s) auto
  note lens = parse_str_length parse_int_length skip_ws_Cons_length startswith_length
    consumesD[OF assms(1)] consumesD[OF assms(2)]
  show "length r < length s"
    using p unfolding s by (auto split: list.splits if_splits dest!: lens)
qed

lemma parse_elems_consumes:
  assumes "consumes (parse_value f)" and "consumes (parse_elems f)"
  shows "consumes (parse_elems (Suc f))"
  unfolding consumes_def
proof (intro allI impI)
  fix s l r
  assume p: "parse_elems (Suc f) s = Some (l, r)"
  then obtain v t where v: "parse_value f s = Some (v, t)" by (auto split: option.splits)
  obtain c cs where c: "skip_ws t = c # cs" using p v by (auto split: list.splits)
  have "length cs < length s"
    using consumesD[OF assms(1) v] skip_ws_Cons_length[OF c] by simp
  moreover have "r = cs \<or> length r < length (skip_ws cs)"
    using p v c by (auto split: if_splits dest!: consumesD[OF assms(2)])
  ultimately show "length r < length s" using length_skip_ws[of cs] by auto
qed

lemma parse_members_consumes:
  assumes "consumes (parse_value f)" and "consumes (parse_members f)"
  shows "consumes (parse_members (Suc f))"
  unfolding consumes_def
proof (intro allI impI)
  fix s d r
  assume p: "parse_members (Suc f) s = Some (d, r)"
  then obtain q qs k r1 where q: "s = q # qs" "parse_str qs = Some (k, r1)"
    by (auto split: list.splits option.splits if_splits)
  obtain c cs v t where c: "skip_ws r1 = c # cs" "parse_value f (skip_ws cs) = Some (v, t)"
    using p q by (auto split: list.splits option.splits if_splits)
  obtain e es where e: "skip_ws t = e # es"
    using p q c by (auto split: list.splits if_splits)
  have "r = es \<or> length r < length (skip_ws es)"
    using p q c e by (auto split: if_splits dest!: consumesD[OF assms(2)])
  then show "length r < length s"
    using q(1) parse_str_length[OF q(2)] skip_ws_Cons_length[OF c(1)] consumesD[OF assms(1) c(2)]
      skip_ws_Cons_length[OF e] length_skip_ws[of cs] length_skip_ws[of es]
    by (elim disjE) simp_all
qed

lemma parse_consumes:
  "consumes (parse_value f) \<and> consumes (parse_elems f) \<and> consumes (parse_members f)"
proof (induction f)
  case 0
  show ?case by (simp add: consumes_def)
next
  case (Suc f)
  then show ?case
    by (simp only: parse_value_consumes parse_elems_consumes parse_members_consumes simp_thms)
qed

lemmas parse_lengths = parse_consumes[THEN conjunct1, THEN consumesD]
  parse_consumes[THEN conjunct2, THEN conjunct1, THEN consumesD]
  parse_consumes[THEN conjunct2, THEN conjunct2, THEN consumesD]

lemma parse_fuel_step:
  "(2 * length s + 1 \<le> f \<longrightarrow> parse_value (Suc f) s = parse_value f s)
   \<and> (2 * length s + 2 \<le> f \<longrightarrow> parse_elems (Suc f) s = parse_elems f s)
   \<and> (2 * length s + 2 \<le> f \<longrightarrow> parse_members (Suc f) s = parse_members f s)"
proof (induction f arbitrary: s)
  case 0
  then show ?case by simp
next
  case (Suc f)
  note IHv = Suc.IH[THEN conjunct1, THEN mp]
    and IHe = Suc.IH[THEN conjunct2, THEN conjunct1, THEN mp]
    and IHm = Suc.IH[THEN conjunct2, THEN conjunct2, THEN mp]
  have V: "parse_value (Suc (Suc f)) s = parse_value (Suc f) s" if le: "2 * length s + 1 \<le> Suc f"
  proof (cases s)
    case (Cons c cs)
    have "parse_elems (Suc f) (d # r) = parse_elems f (d # r)"
      and "parse_members (Suc f) (d # r) = parse_members f (d # r)" if "skip_ws cs = d # r" for d r
      using skip_ws_Cons_length[OF that] le Cons by (intro IHe IHm, simp)+
    then show ?thesis by (simp add: Cons split: list.split del: parse_elems.simps parse_members.simps)
  qed simp
  have pv: "parse_value (Suc f) t = parse_value f t" if "length t \<le> length s" "2 * length s + 2 \<le> Suc f" for t
    using that by (intro IHv) simp
  have E: "parse_elems (Suc (Suc f)) s = parse_elems (Suc f) s" if le: "2 * length s + 2 \<le> Suc f"
  proof (cases "parse_value f s")
    case None
    then show ?thesis using pv[OF order_refl le] by (simp del: parse_value.simps)
  next
    case (Some p)
    obtain v t where p: "p = (v, t)" by (cases p)
    have "parse_elems (Suc f) (skip_ws cs) = parse_elems f (skip_ws cs)" if "skip_ws t = c # cs" for c cs
      using skip_ws_Cons_length[OF that] parse_lengths(1)[of f s v t] Some p le length_skip_ws[of cs]
      by (intro IHe) simp
    then show ?thesis using Some p pv[OF order_refl le]
      by (simp split: list.split del: parse_value.simps parse_elems.simps(2)
          add: parse_elems.simps(2)[of "Suc f" s] parse_elems.simps(2)[of f s])
  qed
  have M: "parse_members (Suc (Suc f)) s = parse_members (Suc f) s" if le: "2 * length s + 2 \<le> Suc f"
  proof (cases s)
    case (Cons q qs)
    have val: "parse_value (Suc f) (skip_ws cs) = parse_value f (skip_ws cs)"
      if "parse_str qs = Some (k, r)" "skip_ws r = c # cs" for k r c cs
      using parse_str_length[OF that(1)] skip_ws_Cons_length[OF that(2)] length_skip_ws[of cs] Cons
      by (intro pv le) simp
    have mem: "parse_members (Suc f) (skip_ws es) = parse_members f (skip_ws es)"
      if "parse_str qs = Some (k, r)" "skip_ws r = c # cs" "parse_value f (skip_ws cs) = Some (v, t)"
        "skip_ws t = e # es" for k r c cs v t e es
      using parse_str_length[OF that(1)] skip_ws_Cons_length[OF that(2)] length_skip_ws[of cs] Cons le
        parse_lengths(1)[OF that(3)] skip_ws_Cons_length[OF that(4)] length_skip_ws[of es]
      by (intro IHm) simp
    show ?thesis
      using val mem unfolding Cons parse_members.simps(2)[of "Suc f"] parse_members.simps(2)[of f]
      by (auto split: list.split option.split simp del: parse_value.simps parse_members.simps)
  qed simp
  show ?case using V E M by blast
qed

text \<open>More fuel than \<open>loads\<close> supplies never changes what it reads.\<close>

lemma parse_fuel_enough: "parse_value (2 * length s + 2 + k) (skip_ws s) = parse_value (2 * length s + 2) (skip_ws s)"
proof (induction k)
  case (Suc k)
  have "2 * length (skip_ws s) + 1 \<le> 2 * length s + 2 + k" using length_skip_ws[of s] by simp
  then have "parse_value (Suc (2 * length s + 2 + k)) (skip_ws s) = parse_value (2 * length s + 2 + k) (skip_ws s)"
    using parse_fuel_step[THEN conjunct1, THEN mp] by blast
  then show ?case using Suc by simp
qed simp

text \<open>Dictionaries built up key by key stay encodable.\<close>

lemma json_ok_items_dset: "json_ok_items d \<Longrightarrow> json_ok v \<Longrightarrow> json_ok_items (dset k v d)"
  by (induction k v d rule: dset.induct) auto

lemma json_ok_dset: "json_ok (PDict d) \<Longrightarrow> json_ok v \<Longrightarrow> json_ok (PDict (dset k v d))"
  by (simp add: json_ok_items_dset)

lemma json_ok_Nil: "json_ok (PDict [])"
  by simp

lemma json_ok_dget: "json_ok_items d \<Longrightarrow> dget d k = Some v \<Longrightarrow> json_ok v"
  by (induction d) (auto split: if_splits)

lemma json_ok_list_map_PStr [simp]: "json_ok_list (map PStr ss)"
  by (induction ss) simp_all

section \<open>The codec as an interface\<close>

text \<open>
  What the message channel relies on: a text rendered by one end and followed by the line
  terminator is read back as the value that was sent.
\<close>

locale line_codec =
  fixes enc :: "'v \<Rightarrow> string" and dec :: "string \<Rightarrow> 'v option" and valid :: "'v \<Rightarrow> bool"
  assumes dec_enc: "valid v \<Longrightarrow> \<forall>c \<in> set w. json_ws c \<Longrightarrow> dec (enc v @ w) = Some v"
begin

lemma enc_inj:
  assumes "valid v" and "valid w" and "enc v = enc w"
  shows "v = w"
  using dec_enc[of v "[]"] dec_enc[of w "[]"] assms by simp

lemma decode_stream:
  assumes "\<forall>v \<in> set vs. valid v" and "\<forall>c \<in> set eol. json_ws c"
  shows "map (\<lambda>v. dec (enc v @ eol)) vs = map Some vs"
  using assms by (induction vs) (simp_all add: dec_enc)

end

interpretation json: line_codec dumps loads json_ok
  by unfold_locales (rule loads_dumps_ws)

end
