(* ===== verification/Agent_Messages.thy ===== *)
theory Agent_Messages
  imports Json
begin

text \<open>
  The message format both guest agents (\<^verbatim>\<open>deps/input_event\<close>) speak: an object with a type and a
  content, one per line.  The locale states what a component that reads the lines relies on of an
  agent's \<open>send_message\<close>; each agent interprets it on its own definition.
\<close>

definition TYPE_SYNC :: string where "TYPE_SYNC = ''SYNC''"
definition TYPE_INFO :: string where "TYPE_INFO = ''INFO''"
definition TYPE_READY :: string where "TYPE_READY = ''READY''"
definition TYPE_EVENT :: string where "TYPE_EVENT = ''EVENT''"
definition TYPE_ERROR :: string where "TYPE_ERROR = ''ERROR''"

lemmas TYPE_defs = TYPE_SYNC_def TYPE_INFO_def TYPE_READY_def TYPE_EVENT_def TYPE_ERROR_def

definition message :: "string \<Rightarrow> pyval \<Rightarrow> pyval" where
  "message mtype content = PDict [(''type'', PStr mtype), (''content'', content)]"

lemma json_ok_message [simp]: "json_ok (message t c) = json_ok c"
  by (simp add: message_def dict_ok_def)

lemma message_inject [simp]: "message t c = message t' c' \<longleftrightarrow> t = t' \<and> c = c'"
  by (simp add: message_def)

locale message_writer =
  fixes out :: "'s \<Rightarrow> string list" and send :: "string \<Rightarrow> pyval \<Rightarrow> ('s, unit) py"
  assumes send_ok: "fst (send t c s) = Inr ()"
    and send_line: "json_ok c \<Longrightarrow> \<exists>l. out (snd (send t c s)) = out s @ [l] \<and> loads l = Some (message t c)"
begin

text \<open>What a sequence of messages leaves on the channel decodes to that sequence.\<close>

lemma send_all:
  assumes "\<forall>(t, c) \<in> set ms. json_ok c"
  shows "\<exists>ls s'. for_each ms (\<lambda>(t, c). send t c) s = (Inr (), s') \<and> out s' = out s @ ls
    \<and> map loads ls = map (\<lambda>(t, c). Some (message t c)) ms"
  using assms
proof (induction ms arbitrary: s)
  case Nil
  then show ?case by (simp add: ret_def)
next
  case (Cons m ms)
  obtain t c where m: "m = (t, c)" by (cases m)
  obtain s1 where s1: "send t c s = (Inr (), s1)" using send_ok[of t c s] by (cases "send t c s") auto
  moreover obtain l where l: "out s1 = out s @ [l]" "loads l = Some (message t c)"
    using send_line[of c t s] Cons.prems s1 m by auto
  moreover obtain ls s' where "for_each ms (\<lambda>(t, c). send t c) s1 = (Inr (), s')" "out s' = out s1 @ ls"
      "map loads ls = map (\<lambda>(t, c). Some (message t c)) ms"
    using Cons.IH[of s1] Cons.prems by auto
  ultimately show ?case by (intro exI[of _ "l # ls"]) (simp add: m py_defs)
qed

end

end
