(* ===== verification/Input_Tables.thy ===== *)
theory Input_Tables
  imports Py_Base
begin

text \<open>
  The code tables of the input event subsystem, each Python dictionary literal as the
  association list of its entries in source order: the Linux event types and codes
  (\<^verbatim>\<open>deps/input_event/input_event_linux.py\<close>), the Windows message types and virtual key codes
  (\<^verbatim>\<open>deps/input_event/input_event_win.py\<close>), and the translation of virtual keys to Linux key names
  of the proxy (\<^verbatim>\<open>provider/input_event_proxy.py\<close>).  The three large literals are cut into runs of
  consecutive source lines.  The lemmas show that no literal repeats a key, and how the three
  tables fit together.
\<close>

section \<open>The Linux agent\<close>

definition EV_TYPES :: "(int \<times> string) list" where
  "EV_TYPES = [
    (0, ''EV_SYN''), (1, ''EV_KEY''), (2, ''EV_REL''), (3, ''EV_ABS''), (4, ''EV_MSC''),
    (5, ''EV_SW''), (17, ''EV_LED''), (18, ''EV_SND''), (20, ''EV_REP''), (21, ''EV_FF''),
    (22, ''EV_PWR''), (23, ''EV_FF_STATUS'')]"

definition EV_SYN_CODES :: "(int \<times> string) list" where
  "EV_SYN_CODES = [
    (0, ''SYN_REPORT''), (1, ''SYN_CONFIG''), (2, ''SYN_MT_REPORT''), (3, ''SYN_DROPPED'')]"

definition EV_KEY_CODES_1 :: "(int \<times> string) list" where
  "EV_KEY_CODES_1 = [
    (0, ''KEY_RESERVED''), (1, ''KEY_ESC''), (2, ''KEY_1''), (3, ''KEY_2''), (4, ''KEY_3''),
    (5, ''KEY_4''), (6, ''KEY_5''), (7, ''KEY_6''), (8, ''KEY_7''), (9, ''KEY_8''),
    (10, ''KEY_9''), (11, ''KEY_0''), (12, ''KEY_MINUS''), (13, ''KEY_EQUAL''),
    (14, ''KEY_BACKSPACE''), (15, ''KEY_TAB''), (16, ''KEY_Q''), (17, ''KEY_W''),
    (18, ''KEY_E''), (19, ''KEY_R''), (20, ''KEY_T''), (21, ''KEY_Y''), (22, ''KEY_U''),
    (23, ''KEY_I''), (24, ''KEY_O''), (25, ''KEY_P''), (26, ''KEY_LEFTBRACE''),
    (27, ''KEY_RIGHTBRACE''), (28, ''KEY_ENTER''), (29, ''KEY_LEFTCTRL''), (30, ''KEY_A''),
    (31, ''KEY_S''), (32, ''KEY_D''), (33, ''KEY_F''), (34, ''KEY_G''), (35, ''KEY_H''),
    (36, ''KEY_J''), (37, ''KEY_K''), (38, ''KEY_L''), (39, ''KEY_SEMICOLON''),
    (40, ''KEY_APOSTROPHE''), (41, ''KEY_GRAVE''), (42, ''KEY_LEFTSHIFT''),
    (43, ''KEY_BACKSLASH''), (44, ''KEY_Z''), (45, ''KEY_X''), (46, ''KEY_C''), (47, ''KEY_V''),
    (48, ''KEY_B''), (49, ''KEY_N''), (50, ''KEY_M''), (51, ''KEY_COMMA''), (52, ''KEY_DOT''),
    (53, ''KEY_SLASH''), (54, ''KEY_RIGHTSHIFT''), (55, ''KEY_KPASTERISK''),
    (56, ''KEY_LEFTALT''), (57, ''KEY_SPACE''), (58, ''KEY_CAPSLOCK''), (59, ''KEY_F1''),
    (60, ''KEY_F2''), (61, ''KEY_F3''), (62, ''KEY_F4''), (63, ''KEY_F5'')]"

definition EV_KEY_CODES_2 :: "(int \<times> string) list" where
  "EV_KEY_CODES_2 = [
    (64, ''KEY_F6''), (65, ''KEY_F7''), (66, ''KEY_F8''), (67, ''KEY_F9''), (68, ''KEY_F10''),
    (69, ''KEY_NUMLOCK''), (70, ''KEY_SCROLLLOCK''), (71, ''KEY_KP7''), (72, ''KEY_KP8''),
    (73, ''KEY_KP9''), (74, ''KEY_KPMINUS''), (75, ''KEY_KP4''), (76, ''KEY_KP5''),
    (77, ''KEY_KP6''), (78, ''KEY_KPPLUS''), (79, ''KEY_KP1''), (80, ''KEY_KP2''),
    (81, ''KEY_KP3''), (82, ''KEY_KP0''), (83, ''KEY_KPDOT''), (85, ''KEY_ZENKAKUHANKAKU''),
    (86, ''KEY_102ND''), (87, ''KEY_F11''), (88, ''KEY_F12''), (89, ''KEY_RO''),
    (90, ''KEY_KATAKANA''), (91, ''KEY_HIRAGANA''), (92, ''KEY_HENKAN''),
    (93, ''KEY_KATAKANAHIRAGANA''), (94, ''KEY_MUHENKAN''), (95, ''KEY_KPJPCOMMA''),
    (96, ''KEY_KPENTER''), (97, ''KEY_RIGHTCTRL''), (98, ''KEY_KPSLASH''), (99, ''KEY_SYSRQ''),
    (100, ''KEY_RIGHTALT''), (101, ''KEY_LINEFEED''), (102, ''KEY_HOME''), (103, ''KEY_UP''),
    (104, ''KEY_PAGEUP''), (105, ''KEY_LEFT''), (106, ''KEY_RIGHT''), (107, ''KEY_END''),
    (108, ''KEY_DOWN''), (109, ''KEY_PAGEDOWN''), (110, ''KEY_INSERT''), (111, ''KEY_DELETE''),
    (112, ''KEY_MACRO''), (113, ''KEY_MUTE''), (114, ''KEY_VOLUMEDOWN''),
    (115, ''KEY_VOLUMEUP''), (116, ''KEY_POWER''), (117, ''KEY_KPEQUAL''),
    (118, ''KEY_KPPLUSMINUS''), (119, ''KEY_PAUSE''), (120, ''KEY_SCALE''),
    (121, ''KEY_KPCOMMA''), (122, ''KEY_HANGEUL''), (123, ''KEY_HANJA''), (124, ''KEY_YEN''),
    (125, ''KEY_LEFTMETA''), (126, ''KEY_RIGHTMETA''), (127, ''KEY_COMPOSE''),
    (128, ''KEY_STOP'')]"

definition EV_KEY_CODES_3 :: "(int \<times> string) list" where
  "EV_KEY_CODES_3 = [
    (129, ''KEY_AGAIN''), (130, ''KEY_PROPS''), (131, ''KEY_UNDO''), (132, ''KEY_FRONT''),
    (133, ''KEY_COPY''), (134, ''KEY_OPEN''), (135, ''KEY_PASTE''), (136, ''KEY_FIND''),
    (137, ''KEY_CUT''), (138, ''KEY_HELP''), (139, ''KEY_MENU''), (140, ''KEY_CALC''),
    (141, ''KEY_SETUP''), (142, ''KEY_SLEEP''), (143, ''KEY_WAKEUP''), (144, ''KEY_FILE''),
    (145, ''KEY_SENDFILE''), (146, ''KEY_DELETEFILE''), (147, ''KEY_XFER''),
    (148, ''KEY_PROG1''), (149, ''KEY_PROG2''), (150, ''KEY_WWW''), (151, ''KEY_MSDOS''),
    (152, ''KEY_SCREENLOCK''), (153, ''KEY_DIRECTION''), (154, ''KEY_CYCLEWINDOWS''),
    (155, ''KEY_MAIL''), (156, ''KEY_BOOKMARKS''), (157, ''KEY_COMPUTER''), (158, ''KEY_BACK''),
    (159, ''KEY_FORWARD''), (160, ''KEY_CLOSECD''), (161, ''KEY_EJECTCD''),
    (162, ''KEY_EJECTCLOSECD''), (163, ''KEY_NEXTSONG''), (164, ''KEY_PLAYPAUSE''),
    (165, ''KEY_PREVIOUSSONG''), (166, ''KEY_STOPCD''), (167, ''KEY_RECORD''),
    (168, ''KEY_REWIND''), (169, ''KEY_PHONE''), (170, ''KEY_ISO''), (171, ''KEY_CONFIG''),
    (172, ''KEY_HOMEPAGE''), (173, ''KEY_REFRESH''), (174, ''KEY_EXIT''), (175, ''KEY_MOVE''),
    (176, ''KEY_EDIT''), (177, ''KEY_SCROLLUP''), (178, ''KEY_SCROLLDOWN''),
    (179, ''KEY_KPLEFTPAREN''), (180, ''KEY_KPRIGHTPAREN''), (181, ''KEY_NEW''),
    (182, ''KEY_REDO''), (183, ''KEY_F13''), (184, ''KEY_F14''), (185, ''KEY_F15''),
    (186, ''KEY_F16''), (187, ''KEY_F17''), (188, ''KEY_F18''), (189, ''KEY_F19''),
    (190, ''KEY_F20''), (191, ''KEY_F21''), (192, ''KEY_F22'')]"

definition EV_KEY_CODES_4 :: "(int \<times> string) list" where
  "EV_KEY_CODES_4 = [
    (193, ''KEY_F23''), (194, ''KEY_F24''), (200, ''KEY_PLAYCD''), (201, ''KEY_PAUSECD''),
    (202, ''KEY_PROG3''), (203, ''KEY_PROG4''), (204, ''KEY_DASHBOARD''),
    (205, ''KEY_SUSPEND''), (206, ''KEY_CLOSE''), (207, ''KEY_PLAY''),
    (208, ''KEY_FASTFORWARD''), (209, ''KEY_BASSBOOST''), (210, ''KEY_PRINT''),
    (211, ''KEY_HP''), (212, ''KEY_CAMERA''), (213, ''KEY_SOUND''), (214, ''KEY_QUESTION''),
    (215, ''KEY_EMAIL''), (216, ''KEY_CHAT''), (217, ''KEY_SEARCH''), (218, ''KEY_CONNECT''),
    (219, ''KEY_FINANCE''), (220, ''KEY_SPORT''), (221, ''KEY_SHOP''), (222, ''KEY_ALTERASE''),
    (223, ''KEY_CANCEL''), (224, ''KEY_BRIGHTNESSDOWN''), (225, ''KEY_BRIGHTNESSUP''),
    (226, ''KEY_MEDIA''), (227, ''KEY_SWITCHVIDEOMODE''), (228, ''KEY_KBDILLUMTOGGLE''),
    (229, ''KEY_KBDILLUMDOWN''), (230, ''KEY_KBDILLUMUP''), (231, ''KEY_SEND''),
    (232, ''KEY_REPLY''), (233, ''KEY_FORWARDMAIL''), (234, ''KEY_SAVE''),
    (235, ''KEY_DOCUMENTS''), (236, ''KEY_BATTERY''), (237, ''KEY_BLUETOOTH''),
    (238, ''KEY_WLAN''), (239, ''KEY_UWB''), (240, ''KEY_UNKNOWN''), (241, ''KEY_VIDEO_NEXT''),
    (242, ''KEY_VIDEO_PREV''), (243, ''KEY_BRIGHTNESS_CYCLE''), (244, ''KEY_BRIGHTNESS_ZERO''),
    (245, ''KEY_DISPLAY_OFF''), (246, ''KEY_WIMAX''), (247, ''KEY_RFKILL''),
    (248, ''KEY_MICMUTE''), (256, ''BTN_0''), (257, ''BTN_1''), (258, ''BTN_2''),
    (259, ''BTN_3''), (260, ''BTN_4''), (261, ''BTN_5''), (262, ''BTN_6''), (263, ''BTN_7''),
    (264, ''BTN_8''), (265, ''BTN_9''), (272, ''BTN_LEFT''), (273, ''BTN_RIGHT''),
    (274, ''BTN_MIDDLE'')]"

definition EV_KEY_CODES_5 :: "(int \<times> string) list" where
  "EV_KEY_CODES_5 = [
    (275, ''BTN_SIDE''), (276, ''BTN_EXTRA''), (277, ''BTN_FORWARD''), (278, ''BTN_BACK''),
    (279, ''BTN_TASK''), (288, ''BTN_TRIGGER''), (289, ''BTN_THUMB''), (290, ''BTN_THUMB2''),
    (291, ''BTN_TOP''), (292, ''BTN_TOP2''), (293, ''BTN_PINKIE''), (294, ''BTN_BASE''),
    (295, ''BTN_BASE2''), (296, ''BTN_BASE3''), (297, ''BTN_BASE4''), (298, ''BTN_BASE5''),
    (299, ''BTN_BASE6''), (303, ''BTN_DEAD''), (304, ''BTN_A''), (305, ''BTN_B''),
    (306, ''BTN_C''), (307, ''BTN_X''), (308, ''BTN_Y''), (309, ''BTN_Z''), (310, ''BTN_TL''),
    (311, ''BTN_TR''), (312, ''BTN_TL2''), (313, ''BTN_TR2''), (314, ''BTN_SELECT''),
    (315, ''BTN_START''), (316, ''BTN_MODE''), (317, ''BTN_THUMBL''), (318, ''BTN_THUMBR''),
    (320, ''BTN_TOOL_PEN''), (321, ''BTN_TOOL_RUBBER''), (322, ''BTN_TOOL_BRUSH''),
    (323, ''BTN_TOOL_PENCIL''), (324, ''BTN_TOOL_AIRBRUSH''), (325, ''BTN_TOOL_FINGER''),
    (326, ''BTN_TOOL_MOUSE''), (327, ''BTN_TOOL_LENS''), (328, ''BTN_TOOL_QUINTTAP''),
    (329, ''BTN_STYLUS3''), (330, ''BTN_TOUCH''), (331, ''BTN_STYLUS''), (332, ''BTN_STYLUS2''),
    (333, ''BTN_TOOL_DOUBLETAP''), (334, ''BTN_TOOL_TRIPLETAP''), (335, ''BTN_TOOL_QUADTAP''),
    (336, ''BTN_GEAR_DOWN''), (337, ''BTN_GEAR_UP''), (352, ''KEY_OK''), (353, ''KEY_SELECT''),
    (354, ''KEY_GOTO''), (355, ''KEY_CLEAR''), (356, ''KEY_POWER2''), (357, ''KEY_OPTION''),
    (358, ''KEY_INFO''), (359, ''KEY_TIME''), (360, ''KEY_VENDOR''), (361, ''KEY_ARCHIVE''),
    (362, ''KEY_PROGRAM''), (363, ''KEY_CHANNEL''), (364, ''KEY_FAVORITES'')]"

definition EV_KEY_CODES_6 :: "(int \<times> string) list" where
  "EV_KEY_CODES_6 = [
    (365, ''KEY_EPG''), (366, ''KEY_PVR''), (367, ''KEY_MHP''), (368, ''KEY_LANGUAGE''),
    (369, ''KEY_TITLE''), (370, ''KEY_SUBTITLE''), (371, ''KEY_ANGLE''), (372, ''KEY_ZOOM''),
    (373, ''KEY_MODE''), (374, ''KEY_KEYBOARD''), (375, ''KEY_SCREEN''), (376, ''KEY_PC''),
    (377, ''KEY_TV''), (378, ''KEY_TV2''), (379, ''KEY_VCR''), (380, ''KEY_VCR2''),
    (381, ''KEY_SAT''), (382, ''KEY_SAT2''), (383, ''KEY_CD''), (384, ''KEY_TAPE''),
    (385, ''KEY_RADIO''), (386, ''KEY_TUNER''), (387, ''KEY_PLAYER''), (388, ''KEY_TEXT''),
    (389, ''KEY_DVD''), (390, ''KEY_AUX''), (391, ''KEY_MP3''), (392, ''KEY_AUDIO''),
    (393, ''KEY_VIDEO''), (394, ''KEY_DIRECTORY''), (395, ''KEY_LIST''), (396, ''KEY_MEMO''),
    (397, ''KEY_CALENDAR''), (398, ''KEY_RED''), (399, ''KEY_GREEN''), (400, ''KEY_YELLOW''),
    (401, ''KEY_BLUE''), (402, ''KEY_CHANNELUP''), (403, ''KEY_CHANNELDOWN''),
    (404, ''KEY_FIRST''), (405, ''KEY_LAST''), (406, ''KEY_AB''), (407, ''KEY_NEXT''),
    (408, ''KEY_RESTART''), (409, ''KEY_SLOW''), (410, ''KEY_SHUFFLE''), (411, ''KEY_BREAK''),
    (412, ''KEY_PREVIOUS''), (413, ''KEY_DIGITS''), (414, ''KEY_TEEN''), (415, ''KEY_TWEN''),
    (416, ''KEY_VIDEOPHONE''), (417, ''KEY_GAMES''), (418, ''KEY_ZOOMIN''),
    (419, ''KEY_ZOOMOUT''), (420, ''KEY_ZOOMRESET''), (421, ''KEY_WORDPROCESSOR''),
    (422, ''KEY_EDITOR''), (423, ''KEY_SPREADSHEET''), (424, ''KEY_GRAPHICSEDITOR''),
    (425, ''KEY_PRESENTATION''), (426, ''KEY_DATABASE''), (427, ''KEY_NEWS''),
    (428, ''KEY_VOICEMAIL'')]"

definition EV_KEY_CODES_7 :: "(int \<times> string) list" where
  "EV_KEY_CODES_7 = [
    (429, ''KEY_ADDRESSBOOK''), (430, ''KEY_MESSENGER''), (431, ''KEY_DISPLAYTOGGLE''),
    (432, ''KEY_SPELLCHECK''), (433, ''KEY_LOGOFF''), (434, ''KEY_DOLLAR''),
    (435, ''KEY_EURO''), (436, ''KEY_FRAMEBACK''), (437, ''KEY_FRAMEFORWARD''),
    (438, ''KEY_CONTEXT_MENU''), (439, ''KEY_MEDIA_REPEAT''), (440, ''KEY_10CHANNELSUP''),
    (441, ''KEY_10CHANNELSDOWN''), (442, ''KEY_IMAGES''), (448, ''KEY_DEL_EOL''),
    (449, ''KEY_DEL_EOS''), (450, ''KEY_INS_LINE''), (451, ''KEY_DEL_LINE''), (464, ''KEY_FN''),
    (465, ''KEY_FN_ESC''), (466, ''KEY_FN_F1''), (467, ''KEY_FN_F2''), (468, ''KEY_FN_F3''),
    (469, ''KEY_FN_F4''), (470, ''KEY_FN_F5''), (471, ''KEY_FN_F6''), (472, ''KEY_FN_F7''),
    (473, ''KEY_FN_F8''), (474, ''KEY_FN_F9''), (475, ''KEY_FN_F10''), (476, ''KEY_FN_F11''),
    (477, ''KEY_FN_F12''), (478, ''KEY_FN_1''), (479, ''KEY_FN_2''), (480, ''KEY_FN_D''),
    (481, ''KEY_FN_E''), (482, ''KEY_FN_F''), (483, ''KEY_FN_S''), (484, ''KEY_FN_B''),
    (497, ''KEY_BRL_DOT1''), (498, ''KEY_BRL_DOT2''), (499, ''KEY_BRL_DOT3''),
    (500, ''KEY_BRL_DOT4''), (501, ''KEY_BRL_DOT5''), (502, ''KEY_BRL_DOT6''),
    (503, ''KEY_BRL_DOT7''), (504, ''KEY_BRL_DOT8''), (505, ''KEY_BRL_DOT9''),
    (506, ''KEY_BRL_DOT10''), (512, ''KEY_NUMERIC_0''), (513, ''KEY_NUMERIC_1''),
    (514, ''KEY_NUMERIC_2''), (515, ''KEY_NUMERIC_3''), (516, ''KEY_NUMERIC_4''),
    (517, ''KEY_NUMERIC_5''), (518, ''KEY_NUMERIC_6''), (519, ''KEY_NUMERIC_7''),
    (520, ''KEY_NUMERIC_8''), (521, ''KEY_NUMERIC_9''), (522, ''KEY_NUMERIC_STAR''),
    (523, ''KEY_NUMERIC_POUND''), (528, ''KEY_CAMERA_FOCUS''), (529, ''KEY_WPS_BUTTON''),
    (530, ''KEY_TOUCHPAD_TOGGLE'')]"

definition EV_KEY_CODES_8 :: "(int \<times> string) list" where
  "EV_KEY_CODES_8 = [
    (531, ''KEY_TOUCHPAD_ON''), (532, ''KEY_TOUCHPAD_OFF''), (533, ''KEY_CAMERA_ZOOMIN''),
    (534, ''KEY_CAMERA_ZOOMOUT''), (535, ''KEY_CAMERA_UP''), (536, ''KEY_CAMERA_DOWN''),
    (537, ''KEY_CAMERA_LEFT''), (538, ''KEY_CAMERA_RIGHT''), (539, ''KEY_ATTENDANT_ON''),
    (540, ''KEY_ATTENDANT_OFF''), (541, ''KEY_ATTENDANT_TOGGLE''), (542, ''KEY_LIGHTS_TOGGLE''),
    (561, ''KEY_ROTATE_LOCK_TOGGLE''), (576, ''KEY_BUTTONCONFIG''), (579, ''KEY_CONTROLPANEL''),
    (582, ''KEY_VOICECOMMAND''), (592, ''KEY_BRIGHTNESS_MIN''),
    (632, ''KEY_ONSCREEN_KEYBOARD''), (704, ''BTN_TRIGGER_HAPPY1''),
    (705, ''BTN_TRIGGER_HAPPY2''), (706, ''BTN_TRIGGER_HAPPY3''), (707, ''BTN_TRIGGER_HAPPY4''),
    (708, ''BTN_TRIGGER_HAPPY5''), (709, ''BTN_TRIGGER_HAPPY6''), (710, ''BTN_TRIGGER_HAPPY7''),
    (711, ''BTN_TRIGGER_HAPPY8''), (712, ''BTN_TRIGGER_HAPPY9''),
    (713, ''BTN_TRIGGER_HAPPY10''), (714, ''BTN_TRIGGER_HAPPY11''),
    (715, ''BTN_TRIGGER_HAPPY12''), (716, ''BTN_TRIGGER_HAPPY13''),
    (717, ''BTN_TRIGGER_HAPPY14''), (718, ''BTN_TRIGGER_HAPPY15''),
    (719, ''BTN_TRIGGER_HAPPY16''), (720, ''BTN_TRIGGER_HAPPY17''),
    (721, ''BTN_TRIGGER_HAPPY18''), (722, ''BTN_TRIGGER_HAPPY19''),
    (723, ''BTN_TRIGGER_HAPPY20''), (724, ''BTN_TRIGGER_HAPPY21''),
    (725, ''BTN_TRIGGER_HAPPY22''), (726, ''BTN_TRIGGER_HAPPY23''),
    (727, ''BTN_TRIGGER_HAPPY24''), (728, ''BTN_TRIGGER_HAPPY25''),
    (729, ''BTN_TRIGGER_HAPPY26''), (730, ''BTN_TRIGGER_HAPPY27''),
    (731, ''BTN_TRIGGER_HAPPY28''), (732, ''BTN_TRIGGER_HAPPY29''),
    (733, ''BTN_TRIGGER_HAPPY30''), (734, ''BTN_TRIGGER_HAPPY31''),
    (735, ''BTN_TRIGGER_HAPPY32''), (736, ''BTN_TRIGGER_HAPPY33''),
    (737, ''BTN_TRIGGER_HAPPY34''), (738, ''BTN_TRIGGER_HAPPY35''),
    (739, ''BTN_TRIGGER_HAPPY36''), (740, ''BTN_TRIGGER_HAPPY37''),
    (741, ''BTN_TRIGGER_HAPPY38''), (742, ''BTN_TRIGGER_HAPPY39''),
    (743, ''BTN_TRIGGER_HAPPY40'')]"

definition EV_KEY_CODES :: "(int \<times> string) list" where
  "EV_KEY_CODES =
     EV_KEY_CODES_1 @ EV_KEY_CODES_2 @ EV_KEY_CODES_3 @ EV_KEY_CODES_4 @ EV_KEY_CODES_5 @ EV_KEY_CODES_6 @ EV_KEY_CODES_7 @ EV_KEY_CODES_8"

definition EV_REL_CODES :: "(int \<times> string) list" where
  "EV_REL_CODES = [
    (0, ''REL_X''), (1, ''REL_Y''), (2, ''REL_Z''), (3, ''REL_RX''), (4, ''REL_RY''),
    (5, ''REL_RZ''), (6, ''REL_HWHEEL''), (7, ''REL_DIAL''), (8, ''REL_WHEEL''),
    (9, ''REL_MISC'')]"

definition EV_ABS_CODES :: "(int \<times> string) list" where
  "EV_ABS_CODES = [
    (0, ''ABS_X''), (1, ''ABS_Y''), (2, ''ABS_Z''), (3, ''ABS_RX''), (4, ''ABS_RY''),
    (5, ''ABS_RZ''), (6, ''ABS_THROTTLE''), (7, ''ABS_RUDDER''), (8, ''ABS_WHEEL''),
    (9, ''ABS_GAS''), (10, ''ABS_BRAKE''), (16, ''ABS_HAT0X''), (17, ''ABS_HAT0Y''),
    (18, ''ABS_HAT1X''), (19, ''ABS_HAT1Y''), (20, ''ABS_HAT2X''), (21, ''ABS_HAT2Y''),
    (22, ''ABS_HAT3X''), (23, ''ABS_HAT3Y''), (24, ''ABS_PRESSURE''), (25, ''ABS_DISTANCE''),
    (26, ''ABS_TILT_X''), (27, ''ABS_TILT_Y''), (28, ''ABS_TOOL_WIDTH''), (32, ''ABS_VOLUME''),
    (40, ''ABS_MISC''), (47, ''ABS_MT_SLOT''), (48, ''ABS_MT_TOUCH_MAJOR''),
    (49, ''ABS_MT_TOUCH_MINOR''), (50, ''ABS_MT_WIDTH_MAJOR''), (51, ''ABS_MT_WIDTH_MINOR''),
    (52, ''ABS_MT_ORIENTATION''), (53, ''ABS_MT_POSITION_X''), (54, ''ABS_MT_POSITION_Y''),
    (55, ''ABS_MT_TOOL_TYPE''), (56, ''ABS_MT_BLOB_ID''), (57, ''ABS_MT_TRACKING_ID''),
    (58, ''ABS_MT_PRESSURE''), (59, ''ABS_MT_DISTANCE''), (60, ''ABS_MT_TOOL_X''),
    (61, ''ABS_MT_TOOL_Y'')]"

definition EV_MSC_CODES :: "(int \<times> string) list" where
  "EV_MSC_CODES = [
    (0, ''MSC_SERIAL''), (1, ''MSC_PULSELED''), (2, ''MSC_GESTURE''), (3, ''MSC_RAW''),
    (4, ''MSC_SCAN''), (5, ''MSC_TIMESTAMP'')]"

definition EV_LED_CODES :: "(int \<times> string) list" where
  "EV_LED_CODES = [
    (0, ''LED_NUML''), (1, ''LED_CAPSL''), (2, ''LED_SCROLLL''), (3, ''LED_COMPOSE''),
    (4, ''LED_KANA''), (5, ''LED_SLEEP''), (6, ''LED_SUSPEND''), (7, ''LED_MUTE''),
    (8, ''LED_MISC''), (9, ''LED_MAIL''), (10, ''LED_CHARGING'')]"

definition EV_REP_CODES :: "(int \<times> string) list" where
  "EV_REP_CODES = [
    (0, ''REP_DELAY''), (1, ''REP_PERIOD'')]"

definition EV_CODE_MAP :: "(int \<times> (int \<times> string) list) list" where
  "EV_CODE_MAP =
     [(0, EV_SYN_CODES), (1, EV_KEY_CODES), (2, EV_REL_CODES), (3, EV_ABS_CODES),
      (4, EV_MSC_CODES), (17, EV_LED_CODES), (20, EV_REP_CODES)]"

section \<open>The Windows agent\<close>

definition WPARAM_TYPES :: "(int \<times> string) list" where
  "WPARAM_TYPES = [
    (256, ''WM_KEYDOWN''), (257, ''WM_KEYUP''), (260, ''WM_SYSKEYDOWN''),
    (261, ''WM_SYSKEYUP''), (512, ''WM_MOUSEMOVE''), (513, ''WM_LBUTTONDOWN''),
    (514, ''WM_LBUTTONUP''), (516, ''WM_RBUTTONDOWN''), (517, ''WM_RBUTTONUP''),
    (519, ''WM_MBUTTONDOWN''), (520, ''WM_MBUTTONUP''), (522, ''WM_MOUSEWHEEL''),
    (523, ''WM_XBUTTONDOWN''), (524, ''WM_XBUTTONUP''), (526, ''WM_MOUSEHWHEEL'')]"

definition VK_CODES_1 :: "(int \<times> string) list" where
  "VK_CODES_1 = [
    (1, ''VK_LBUTTON''), (2, ''VK_RBUTTON''), (3, ''VK_CANCEL''), (4, ''VK_MBUTTON''),
    (5, ''VK_XBUTTON1''), (6, ''VK_XBUTTON2'')]"

definition VK_CODES_2 :: "(int \<times> string) list" where
  "VK_CODES_2 = [
    (8, ''VK_BACK''), (9, ''VK_TAB''), (12, ''VK_CLEAR''), (13, ''VK_RETURN''),
    (16, ''VK_SHIFT''), (17, ''VK_CONTROL''), (18, ''VK_MENU''), (19, ''VK_PAUSE''),
    (20, ''VK_CAPITAL''), (21, ''VK_HANGUL''), (23, ''VK_JUNJA''), (24, ''VK_FINAL''),
    (25, ''VK_KANJI''), (27, ''VK_ESCAPE''), (28, ''VK_CONVERT''), (29, ''VK_NONCONVERT''),
    (30, ''VK_ACCEPT''), (31, ''VK_MODECHANGE''), (32, ''VK_SPACE''), (33, ''VK_PRIOR''),
    (34, ''VK_NEXT''), (35, ''VK_END''), (36, ''VK_HOME''), (37, ''VK_LEFT''), (38, ''VK_UP''),
    (39, ''VK_RIGHT''), (40, ''VK_DOWN''), (41, ''VK_SELECT''), (42, ''VK_PRINT''),
    (43, ''VK_EXECUTE''), (44, ''VK_SNAPSHOT''), (45, ''VK_INSERT''), (46, ''VK_DELETE''),
    (47, ''VK_HELP''), (48, ''VK_0''), (49, ''VK_1''), (50, ''VK_2''), (51, ''VK_3''),
    (52, ''VK_4''), (53, ''VK_5''), (54, ''VK_6''), (55, ''VK_7''), (56, ''VK_8''),
    (57, ''VK_9'')]"

definition VK_CODES_3 :: "(int \<times> string) list" where
  "VK_CODES_3 = [
    (65, ''VK_A''), (66, ''VK_B''), (67, ''VK_C''), (68, ''VK_D''), (69, ''VK_E''),
    (70, ''VK_F''), (71, ''VK_G''), (72, ''VK_H''), (73, ''VK_I''), (74, ''VK_J''),
    (75, ''VK_K''), (76, ''VK_L''), (77, ''VK_M''), (78, ''VK_N''), (79, ''VK_O''),
    (80, ''VK_P''), (81, ''VK_Q''), (82, ''VK_R''), (83, ''VK_S''), (84, ''VK_T''),
    (85, ''VK_U''), (86, ''VK_V''), (87, ''VK_W''), (88, ''VK_X''), (89, ''VK_Y''),
    (90, ''VK_Z''), (91, ''VK_LWIN''), (92, ''VK_RWIN''), (93, ''VK_APPS''), (95, ''VK_SLEEP''),
    (96, ''VK_NUMPAD0''), (97, ''VK_NUMPAD1''), (98, ''VK_NUMPAD2''), (99, ''VK_NUMPAD3''),
    (100, ''VK_NUMPAD4''), (101, ''VK_NUMPAD5''), (102, ''VK_NUMPAD6''), (103, ''VK_NUMPAD7''),
    (104, ''VK_NUMPAD8''), (105, ''VK_NUMPAD9''), (106, ''VK_MULTIPLY''), (107, ''VK_ADD''),
    (108, ''VK_SEPARATOR''), (109, ''VK_SUBTRACT''), (110, ''VK_DECIMAL''), (111, ''VK_DIVIDE'')]"

definition VK_CODES_4 :: "(int \<times> string) list" where
  "VK_CODES_4 = [
    (112, ''VK_F1''), (113, ''VK_F2''), (114, ''VK_F3''), (115, ''VK_F4''), (116, ''VK_F5''),
    (117, ''VK_F6''), (118, ''VK_F7''), (119, ''VK_F8''), (120, ''VK_F9''), (121, ''VK_F10''),
    (122, ''VK_F11''), (123, ''VK_F12''), (124, ''VK_F13''), (125, ''VK_F14''),
    (126, ''VK_F15''), (127, ''VK_F16''), (128, ''VK_F17''), (129, ''VK_F18''),
    (130, ''VK_F19''), (131, ''VK_F20''), (132, ''VK_F21''), (133, ''VK_F22''),
    (134, ''VK_F23''), (135, ''VK_F24''), (144, ''VK_NUMLOCK''), (145, ''VK_SCROLL''),
    (146, ''VK_OEM_0x92''), (147, ''VK_OEM_0x93''), (148, ''VK_OEM_0x94''),
    (149, ''VK_OEM_0x95''), (150, ''VK_OEM_0x96''), (160, ''VK_LSHIFT''), (161, ''VK_RSHIFT''),
    (162, ''VK_LCONTROL''), (163, ''VK_RCONTROL''), (164, ''VK_LMENU''), (165, ''VK_RMENU'')]"

definition VK_CODES_5 :: "(int \<times> string) list" where
  "VK_CODES_5 = [
    (166, ''VK_BROWSER_BACK''), (167, ''VK_BROWSER_FORWARD''), (168, ''VK_BROWSER_REFRESH''),
    (169, ''VK_BROWSER_STOP''), (170, ''VK_BROWSER_SEARCH''), (171, ''VK_BROWSER_FAVORITES''),
    (172, ''VK_BROWSER_HOME''), (173, ''VK_VOLUME_MUTE''), (174, ''VK_VOLUME_DOWN''),
    (175, ''VK_VOLUME_UP''), (176, ''VK_MEDIA_NEXT_TRACK''), (177, ''VK_MEDIA_PREV_TRACK''),
    (178, ''VK_MEDIA_STOP''), (179, ''VK_MEDIA_PLAY_PAUSE''), (180, ''VK_LAUNCH_MAIL''),
    (181, ''VK_LAUNCH_MEDIA_SELECT''), (182, ''VK_LAUNCH_APP1''), (183, ''VK_LAUNCH_APP2''),
    (186, ''VK_OEM_1''), (187, ''VK_OEM_PLUS''), (188, ''VK_OEM_COMMA''),
    (189, ''VK_OEM_MINUS''), (190, ''VK_OEM_PERIOD''), (191, ''VK_OEM_2''), (192, ''VK_OEM_3''),
    (219, ''VK_OEM_4''), (220, ''VK_OEM_5''), (221, ''VK_OEM_6''), (222, ''VK_OEM_7''),
    (223, ''VK_OEM_8''), (225, ''VK_OEM_0xE1''), (226, ''VK_OEM_102''), (227, ''VK_OEM_0xE3''),
    (228, ''VK_OEM_0xE4''), (229, ''VK_PROCESSKEY''), (230, ''VK_OEM_0xE6''),
    (231, ''VK_PACKET''), (233, ''VK_OEM_0xE9''), (234, ''VK_OEM_0xEA''),
    (235, ''VK_OEM_0xEB''), (236, ''VK_OEM_0xEC''), (237, ''VK_OEM_0xED''),
    (238, ''VK_OEM_0xEE''), (239, ''VK_OEM_0xEF''), (240, ''VK_OEM_0xF0''),
    (241, ''VK_OEM_0xF1''), (242, ''VK_OEM_0xF2''), (243, ''VK_OEM_0xF3''),
    (244, ''VK_OEM_0xF4''), (245, ''VK_OEM_0xF5''), (246, ''VK_ATTN''), (247, ''VK_CRSEL''),
    (248, ''VK_EXSEL''), (249, ''VK_EREOF''), (250, ''VK_PLAY''), (251, ''VK_ZOOM''),
    (252, ''VK_NONAME''), (253, ''VK_PA1''), (254, ''VK_OEM_CLEAR'')]"

definition VK_CODES :: "(int \<times> string) list" where
  "VK_CODES =
     VK_CODES_1 @ VK_CODES_2 @ VK_CODES_3 @ VK_CODES_4 @ VK_CODES_5"

section \<open>The proxy\<close>

definition UNMAPPED :: string where
  "UNMAPPED = ''UNMAPPED''"

definition VK2Linux_1 :: "(string \<times> string) list" where
  "VK2Linux_1 = [
    (''VK_BACK'', ''KEY_BACKSPACE''), (''VK_TAB'', ''KEY_TAB''), (''VK_CLEAR'', ''KEY_CLEAR''),
    (''VK_RETURN'', ''KEY_ENTER''), (''VK_SHIFT'', ''KEY_LEFTSHIFT''),
    (''VK_CONTROL'', ''KEY_LEFTCTRL''), (''VK_MENU'', ''KEY_LEFTALT''),
    (''VK_PAUSE'', ''KEY_PAUSE''), (''VK_CAPITAL'', ''KEY_CAPSLOCK''),
    (''VK_KANA'', ''KEY_KATAKANA''), (''VK_HANGUEL'', ''KEY_HANGEUL''),
    (''VK_HANGUL'', ''KEY_HANGEUL''), (''VK_JUNJA'', UNMAPPED), (''VK_FINAL'', UNMAPPED),
    (''VK_HANJA'', ''KEY_HANJA''), (''VK_KANJI'', UNMAPPED), (''VK_ESCAPE'', ''KEY_ESC''),
    (''VK_CONVERT'', ''KEY_HENKAN''), (''VK_NONCONVERT'', ''KEY_MUHENKAN''),
    (''VK_ACCEPT'', UNMAPPED), (''VK_MODECHANGE'', UNMAPPED), (''VK_SPACE'', ''KEY_SPACE''),
    (''VK_PRIOR'', ''KEY_PAGEUP''), (''VK_NEXT'', ''KEY_PAGEDOWN''), (''VK_END'', ''KEY_END''),
    (''VK_HOME'', ''KEY_HOME''), (''VK_LEFT'', ''KEY_LEFT''), (''VK_UP'', ''KEY_UP''),
    (''VK_RIGHT'', ''KEY_RIGHT''), (''VK_DOWN'', ''KEY_DOWN''), (''VK_SELECT'', ''KEY_SELECT''),
    (''VK_PRINT'', ''KEY_PRINT''), (''VK_EXECUTE'', UNMAPPED), (''VK_SNAPSHOT'', ''KEY_SYSRQ''),
    (''VK_INSERT'', ''KEY_INSERT''), (''VK_DELETE'', ''KEY_DELETE''),
    (''VK_HELP'', ''KEY_HELP''), (''VK_0'', ''KEY_0''), (''VK_1'', ''KEY_1''),
    (''VK_2'', ''KEY_2''), (''VK_3'', ''KEY_3''), (''VK_4'', ''KEY_4''), (''VK_5'', ''KEY_5''),
    (''VK_6'', ''KEY_6''), (''VK_7'', ''KEY_7''), (''VK_8'', ''KEY_8''), (''VK_9'', ''KEY_9'')]"

definition VK2Linux_2 :: "(string \<times> string) list" where
  "VK2Linux_2 = [
    (''VK_A'', ''KEY_A''), (''VK_B'', ''KEY_B''), (''VK_C'', ''KEY_C''), (''VK_D'', ''KEY_D''),
    (''VK_E'', ''KEY_E''), (''VK_F'', ''KEY_F''), (''VK_G'', ''KEY_G''), (''VK_H'', ''KEY_H''),
    (''VK_I'', ''KEY_I''), (''VK_J'', ''KEY_J''), (''VK_K'', ''KEY_K''), (''VK_L'', ''KEY_L''),
    (''VK_M'', ''KEY_M''), (''VK_N'', ''KEY_N''), (''VK_O'', ''KEY_O''), (''VK_P'', ''KEY_P''),
    (''VK_Q'', ''KEY_Q''), (''VK_R'', ''KEY_R''), (''VK_S'', ''KEY_S''), (''VK_T'', ''KEY_T''),
    (''VK_U'', ''KEY_U''), (''VK_V'', ''KEY_V''), (''VK_W'', ''KEY_W''), (''VK_X'', ''KEY_X''),
    (''VK_Y'', ''KEY_Y''), (''VK_Z'', ''KEY_Z''), (''VK_LWIN'', ''KEY_LEFTMETA''),
    (''VK_RWIN'', ''KEY_RIGHTMETA''), (''VK_APPS'', ''KEY_COMPOSE''),
    (''VK_SLEEP'', ''KEY_SLEEP''), (''VK_NUMPAD0'', ''KEY_KP0''), (''VK_NUMPAD1'', ''KEY_KP1''),
    (''VK_NUMPAD2'', ''KEY_KP2''), (''VK_NUMPAD3'', ''KEY_KP3''), (''VK_NUMPAD4'', ''KEY_KP4''),
    (''VK_NUMPAD5'', ''KEY_KP5''), (''VK_NUMPAD6'', ''KEY_KP6''), (''VK_NUMPAD7'', ''KEY_KP7''),
    (''VK_NUMPAD8'', ''KEY_KP8''), (''VK_NUMPAD9'', ''KEY_KP9''),
    (''VK_MULTIPLY'', ''KEY_KPASTERISK''), (''VK_ADD'', ''KEY_KPPLUS''),
    (''VK_SEPARATOR'', ''KEY_KPCOMMA''), (''VK_SUBTRACT'', ''KEY_KPMINUS''),
    (''VK_DECIMAL'', ''KEY_KPDOT''), (''VK_DIVIDE'', ''KEY_KPSLASH'')]"

definition VK2Linux_3 :: "(string \<times> string) list" where
  "VK2Linux_3 = [
    (''VK_F1'', ''KEY_F1''), (''VK_F2'', ''KEY_F2''), (''VK_F3'', ''KEY_F3''),
    (''VK_F4'', ''KEY_F4''), (''VK_F5'', ''KEY_F5''), (''VK_F6'', ''KEY_F6''),
    (''VK_F7'', ''KEY_F7''), (''VK_F8'', ''KEY_F8''), (''VK_F9'', ''KEY_F9''),
    (''VK_F10'', ''KEY_F10''), (''VK_F11'', ''KEY_F11''), (''VK_F12'', ''KEY_F12''),
    (''VK_F13'', ''KEY_F13''), (''VK_F14'', ''KEY_F14''), (''VK_F15'', ''KEY_F15''),
    (''VK_F16'', ''KEY_F16''), (''VK_F17'', ''KEY_F17''), (''VK_F18'', ''KEY_F18''),
    (''VK_F19'', ''KEY_F19''), (''VK_F20'', ''KEY_F20''), (''VK_F21'', ''KEY_F21''),
    (''VK_F22'', ''KEY_F22''), (''VK_F23'', ''KEY_F23''), (''VK_F24'', ''KEY_F24''),
    (''VK_NUMLOCK'', ''KEY_NUMLOCK''), (''VK_SCROLL'', ''KEY_SCROLLLOCK''),
    (''VK_OEM_0x92'', UNMAPPED), (''VK_OEM_0x93'', UNMAPPED), (''VK_OEM_0x94'', UNMAPPED),
    (''VK_OEM_0x95'', UNMAPPED), (''VK_OEM_0x96'', UNMAPPED),
    (''VK_LSHIFT'', ''KEY_LEFTSHIFT''), (''VK_RSHIFT'', ''KEY_RIGHTSHIFT''),
    (''VK_LCONTROL'', ''KEY_LEFTCTRL''), (''VK_RCONTROL'', ''KEY_RIGHTCTRL''),
    (''VK_LMENU'', ''KEY_LEFTALT''), (''VK_RMENU'', ''KEY_RIGHTALT'')]"

definition VK2Linux_4 :: "(string \<times> string) list" where
  "VK2Linux_4 = [
    (''VK_BROWSER_BACK'', ''KEY_BACK''), (''VK_BROWSER_FORWARD'', ''KEY_FORWARD''),
    (''VK_BROWSER_REFRESH'', ''KEY_REFRESH''), (''VK_BROWSER_STOP'', ''KEY_STOP''),
    (''VK_BROWSER_SEARCH'', ''KEY_SEARCH''), (''VK_BROWSER_FAVORITES'', ''KEY_FAVORITES''),
    (''VK_BROWSER_HOME'', ''KEY_HOMEPAGE''), (''VK_VOLUME_MUTE'', ''KEY_MUTE''),
    (''VK_VOLUME_DOWN'', ''KEY_VOLUMEDOWN''), (''VK_VOLUME_UP'', ''KEY_VOLUMEUP''),
    (''VK_MEDIA_NEXT_TRACK'', ''KEY_NEXTSONG''),
    (''VK_MEDIA_PREV_TRACK'', ''KEY_PREVIOUSSONG''), (''VK_MEDIA_STOP'', ''KEY_STOPCD''),
    (''VK_MEDIA_PLAY_PAUSE'', ''KEY_PLAYPAUSE''), (''VK_LAUNCH_MAIL'', ''KEY_EMAIL''),
    (''VK_LAUNCH_MEDIA_SELECT'', UNMAPPED), (''VK_LAUNCH_APP1'', UNMAPPED),
    (''VK_LAUNCH_APP2'', UNMAPPED), (''VK_OEM_1'', ''KEY_SEMICOLON''),
    (''VK_OEM_PLUS'', ''KEY_EQUAL''), (''VK_OEM_COMMA'', ''KEY_COMMA''),
    (''VK_OEM_MINUS'', ''KEY_MINUS''), (''VK_OEM_PERIOD'', ''KEY_DOT''),
    (''VK_OEM_2'', ''KEY_SLASH''), (''VK_OEM_3'', ''KEY_GRAVE''),
    (''VK_OEM_4'', ''KEY_LEFTBRACE''), (''VK_OEM_5'', ''KEY_BACKSLASH''),
    (''VK_OEM_6'', ''KEY_RIGHTBRACE''), (''VK_OEM_7'', ''KEY_APOSTROPHE''),
    (''VK_OEM_8'', UNMAPPED), (''VK_OEM_0xE1'', UNMAPPED), (''VK_OEM_102'', ''KEY_102ND''),
    (''VK_OEM_0xE3'', UNMAPPED), (''VK_OEM_0xE4'', UNMAPPED), (''VK_PROCESSKEY'', UNMAPPED),
    (''VK_OEM_0xE6'', UNMAPPED), (''VK_PACKET'', UNMAPPED), (''VK_OEM_0xE9'', UNMAPPED),
    (''VK_OEM_0xEA'', UNMAPPED), (''VK_OEM_0xEB'', UNMAPPED), (''VK_OEM_0xEC'', UNMAPPED),
    (''VK_OEM_0xED'', UNMAPPED), (''VK_OEM_0xEE'', UNMAPPED), (''VK_OEM_0xEF'', UNMAPPED),
    (''VK_OEM_0xF0'', UNMAPPED), (''VK_OEM_0xF1'', UNMAPPED), (''VK_OEM_0xF2'', UNMAPPED),
    (''VK_OEM_0xF3'', UNMAPPED), (''VK_OEM_0xF4'', UNMAPPED), (''VK_OEM_0xF5'', UNMAPPED),
    (''VK_ATTN'', UNMAPPED), (''VK_CRSEL'', UNMAPPED), (''VK_EXSEL'', UNMAPPED),
    (''VK_EREOF'', UNMAPPED), (''VK_PLAY'', ''KEY_PLAY''), (''VK_ZOOM'', ''KEY_ZOOM''),
    (''VK_NONAME'', UNMAPPED), (''VK_PA1'', UNMAPPED), (''VK_OEM_CLEAR'', UNMAPPED)]"

definition VK2Linux :: "(string \<times> string) list" where
  "VK2Linux =
     VK2Linux_1 @ VK2Linux_2 @ VK2Linux_3 @ VK2Linux_4"

section \<open>No literal repeats a key\<close>

lemma increasing_keys_ok: "successively (<) (map fst (d :: (int \<times> 'v) list)) \<Longrightarrow> dict_ok d"
  by (simp add: dict_ok_def successively_conv_sorted_wrt strict_sorted_iff)

lemma small_tables_ok:
  "dict_ok EV_TYPES" "dict_ok EV_SYN_CODES" "dict_ok EV_REL_CODES" "dict_ok EV_ABS_CODES"
  "dict_ok EV_MSC_CODES" "dict_ok EV_LED_CODES" "dict_ok EV_REP_CODES" "dict_ok EV_CODE_MAP"
  "dict_ok WPARAM_TYPES"
  by (simp_all add: dict_ok_def EV_TYPES_def EV_SYN_CODES_def EV_REL_CODES_def EV_ABS_CODES_def
      EV_MSC_CODES_def EV_LED_CODES_def EV_REP_CODES_def EV_CODE_MAP_def WPARAM_TYPES_def)

text \<open>The codes of \<open>EV_KEY_CODES\<close>, run by run.\<close>

lemma EV_KEY_CODES_1_keys: "map fst EV_KEY_CODES_1 = [0, 1, 2, 3, 4, 5, 6, 7, 8, 9, 10, 11, 12, 13, 14, 15, 16, 17, 18, 19, 20, 21, 22, 23, 24, 25, 26, 27, 28, 29, 30, 31, 32, 33, 34, 35, 36, 37, 38, 39, 40, 41, 42, 43, 44, 45, 46, 47, 48, 49, 50, 51, 52, 53, 54, 55, 56, 57, 58, 59, 60, 61, 62, 63]"
  by (simp add: EV_KEY_CODES_1_def)

lemma EV_KEY_CODES_2_keys: "map fst EV_KEY_CODES_2 = [64, 65, 66, 67, 68, 69, 70, 71, 72, 73, 74, 75, 76, 77, 78, 79, 80, 81, 82, 83, 85, 86, 87, 88, 89, 90, 91, 92, 93, 94, 95, 96, 97, 98, 99, 100, 101, 102, 103, 104, 105, 106, 107, 108, 109, 110, 111, 112, 113, 114, 115, 116, 117, 118, 119, 120, 121, 122, 123, 124, 125, 126, 127, 128]"
  by (simp add: EV_KEY_CODES_2_def)

lemma EV_KEY_CODES_3_keys: "map fst EV_KEY_CODES_3 = [129, 130, 131, 132, 133, 134, 135, 136, 137, 138, 139, 140, 141, 142, 143, 144, 145, 146, 147, 148, 149, 150, 151, 152, 153, 154, 155, 156, 157, 158, 159, 160, 161, 162, 163, 164, 165, 166, 167, 168, 169, 170, 171, 172, 173, 174, 175, 176, 177, 178, 179, 180, 181, 182, 183, 184, 185, 186, 187, 188, 189, 190, 191, 192]"
  by (simp add: EV_KEY_CODES_3_def)

lemma EV_KEY_CODES_4_keys: "map fst EV_KEY_CODES_4 = [193, 194, 200, 201, 202, 203, 204, 205, 206, 207, 208, 209, 210, 211, 212, 213, 214, 215, 216, 217, 218, 219, 220, 221, 222, 223, 224, 225, 226, 227, 228, 229, 230, 231, 232, 233, 234, 235, 236, 237, 238, 239, 240, 241, 242, 243, 244, 245, 246, 247, 248, 256, 257, 258, 259, 260, 261, 262, 263, 264, 265, 272, 273, 274]"
  by (simp add: EV_KEY_CODES_4_def)

lemma EV_KEY_CODES_5_keys: "map fst EV_KEY_CODES_5 = [275, 276, 277, 278, 279, 288, 289, 290, 291, 292, 293, 294, 295, 296, 297, 298, 299, 303, 304, 305, 306, 307, 308, 309, 310, 311, 312, 313, 314, 315, 316, 317, 318, 320, 321, 322, 323, 324, 325, 326, 327, 328, 329, 330, 331, 332, 333, 334, 335, 336, 337, 352, 353, 354, 355, 356, 357, 358, 359, 360, 361, 362, 363, 364]"
  by (simp add: EV_KEY_CODES_5_def)

lemma EV_KEY_CODES_6_keys: "map fst EV_KEY_CODES_6 = [365, 366, 367, 368, 369, 370, 371, 372, 373, 374, 375, 376, 377, 378, 379, 380, 381, 382, 383, 384, 385, 386, 387, 388, 389, 390, 391, 392, 393, 394, 395, 396, 397, 398, 399, 400, 401, 402, 403, 404, 405, 406, 407, 408, 409, 410, 411, 412, 413, 414, 415, 416, 417, 418, 419, 420, 421, 422, 423, 424, 425, 426, 427, 428]"
  by (simp add: EV_KEY_CODES_6_def)

lemma EV_KEY_CODES_7_keys: "map fst EV_KEY_CODES_7 = [429, 430, 431, 432, 433, 434, 435, 436, 437, 438, 439, 440, 441, 442, 448, 449, 450, 451, 464, 465, 466, 467, 468, 469, 470, 471, 472, 473, 474, 475, 476, 477, 478, 479, 480, 481, 482, 483, 484, 497, 498, 499, 500, 501, 502, 503, 504, 505, 506, 512, 513, 514, 515, 516, 517, 518, 519, 520, 521, 522, 523, 528, 529, 530]"
  by (simp add: EV_KEY_CODES_7_def)

lemma EV_KEY_CODES_8_keys: "map fst EV_KEY_CODES_8 = [531, 532, 533, 534, 535, 536, 537, 538, 539, 540, 541, 542, 561, 576, 579, 582, 592, 632, 704, 705, 706, 707, 708, 709, 710, 711, 712, 713, 714, 715, 716, 717, 718, 719, 720, 721, 722, 723, 724, 725, 726, 727, 728, 729, 730, 731, 732, 733, 734, 735, 736, 737, 738, 739, 740, 741, 742, 743]"
  by (simp add: EV_KEY_CODES_8_def)

lemma EV_KEY_CODES_ok: "dict_ok EV_KEY_CODES"
  by (rule increasing_keys_ok) (simp add: EV_KEY_CODES_def EV_KEY_CODES_1_keys EV_KEY_CODES_2_keys EV_KEY_CODES_3_keys EV_KEY_CODES_4_keys EV_KEY_CODES_5_keys EV_KEY_CODES_6_keys EV_KEY_CODES_7_keys EV_KEY_CODES_8_keys)

text \<open>The codes of \<open>VK_CODES\<close>, run by run.\<close>

lemma VK_CODES_1_keys: "map fst VK_CODES_1 = [1, 2, 3, 4, 5, 6]"
  by (simp add: VK_CODES_1_def)

lemma VK_CODES_2_keys: "map fst VK_CODES_2 = [8, 9, 12, 13, 16, 17, 18, 19, 20, 21, 23, 24, 25, 27, 28, 29, 30, 31, 32, 33, 34, 35, 36, 37, 38, 39, 40, 41, 42, 43, 44, 45, 46, 47, 48, 49, 50, 51, 52, 53, 54, 55, 56, 57]"
  by (simp add: VK_CODES_2_def)

lemma VK_CODES_3_keys: "map fst VK_CODES_3 = [65, 66, 67, 68, 69, 70, 71, 72, 73, 74, 75, 76, 77, 78, 79, 80, 81, 82, 83, 84, 85, 86, 87, 88, 89, 90, 91, 92, 93, 95, 96, 97, 98, 99, 100, 101, 102, 103, 104, 105, 106, 107, 108, 109, 110, 111]"
  by (simp add: VK_CODES_3_def)

lemma VK_CODES_4_keys: "map fst VK_CODES_4 = [112, 113, 114, 115, 116, 117, 118, 119, 120, 121, 122, 123, 124, 125, 126, 127, 128, 129, 130, 131, 132, 133, 134, 135, 144, 145, 146, 147, 148, 149, 150, 160, 161, 162, 163, 164, 165]"
  by (simp add: VK_CODES_4_def)

lemma VK_CODES_5_keys: "map fst VK_CODES_5 = [166, 167, 168, 169, 170, 171, 172, 173, 174, 175, 176, 177, 178, 179, 180, 181, 182, 183, 186, 187, 188, 189, 190, 191, 192, 219, 220, 221, 222, 223, 225, 226, 227, 228, 229, 230, 231, 233, 234, 235, 236, 237, 238, 239, 240, 241, 242, 243, 244, 245, 246, 247, 248, 249, 250, 251, 252, 253, 254]"
  by (simp add: VK_CODES_5_def)

lemma VK_CODES_ok: "dict_ok VK_CODES"
  by (rule increasing_keys_ok) (simp add: VK_CODES_def VK_CODES_1_keys VK_CODES_2_keys VK_CODES_3_keys VK_CODES_4_keys VK_CODES_5_keys)

section \<open>The translated key names are Linux key names\<close>

definition key_names :: "string set" where
  "key_names = snd ` set EV_KEY_CODES"

lemma key_names_parts: "key_names = snd ` set EV_KEY_CODES_1 \<union> snd ` set EV_KEY_CODES_2 \<union> snd ` set EV_KEY_CODES_3 \<union> snd ` set EV_KEY_CODES_4 \<union> snd ` set EV_KEY_CODES_5 \<union> snd ` set EV_KEY_CODES_6 \<union> snd ` set EV_KEY_CODES_7 \<union> snd ` set EV_KEY_CODES_8"
  by (simp add: key_names_def EV_KEY_CODES_def image_Un Un_assoc)

lemma subseq_set_subset: "subseq xs ys \<Longrightarrow> set xs \<subseteq> set ys"
  by (induction xs ys rule: list_emb.induct) auto

lemma subseq_key_names:
  assumes "subseq ns (map snd c)" and "snd ` set c \<subseteq> key_names"
  shows "list_all (\<lambda>n. n \<in> key_names) ns"
  using assms(2) subseq_set_subset[OF assms(1)] by (auto simp: list_all_iff)

lemma key_names_1:
  "list_all (\<lambda>n. n \<in> key_names)
     [''KEY_ESC'', ''KEY_1'', ''KEY_2'', ''KEY_3'', ''KEY_4'',
      ''KEY_5'', ''KEY_6'', ''KEY_7'', ''KEY_8'', ''KEY_9'',
      ''KEY_0'', ''KEY_MINUS'', ''KEY_EQUAL'', ''KEY_BACKSPACE'', ''KEY_TAB'',
      ''KEY_Q'', ''KEY_W'', ''KEY_E'', ''KEY_R'', ''KEY_T'',
      ''KEY_Y'', ''KEY_U'', ''KEY_I'', ''KEY_O'', ''KEY_P'',
      ''KEY_LEFTBRACE'', ''KEY_RIGHTBRACE'', ''KEY_ENTER'', ''KEY_LEFTCTRL'', ''KEY_A'',
      ''KEY_S'', ''KEY_D'', ''KEY_F'', ''KEY_G'', ''KEY_H'',
      ''KEY_J'', ''KEY_K'', ''KEY_L'', ''KEY_SEMICOLON'', ''KEY_APOSTROPHE'',
      ''KEY_GRAVE'', ''KEY_LEFTSHIFT'', ''KEY_BACKSLASH'', ''KEY_Z'', ''KEY_X'',
      ''KEY_C'', ''KEY_V'', ''KEY_B'', ''KEY_N'', ''KEY_M'',
      ''KEY_COMMA'', ''KEY_DOT'', ''KEY_SLASH'', ''KEY_RIGHTSHIFT'', ''KEY_KPASTERISK'',
      ''KEY_LEFTALT'', ''KEY_SPACE'', ''KEY_CAPSLOCK'', ''KEY_F1'', ''KEY_F2'',
      ''KEY_F3'', ''KEY_F4'', ''KEY_F5'']"
proof (rule subseq_key_names)
  show "subseq [''KEY_ESC'', ''KEY_1'', ''KEY_2'', ''KEY_3'', ''KEY_4'',
      ''KEY_5'', ''KEY_6'', ''KEY_7'', ''KEY_8'', ''KEY_9'',
      ''KEY_0'', ''KEY_MINUS'', ''KEY_EQUAL'', ''KEY_BACKSPACE'', ''KEY_TAB'',
      ''KEY_Q'', ''KEY_W'', ''KEY_E'', ''KEY_R'', ''KEY_T'',
      ''KEY_Y'', ''KEY_U'', ''KEY_I'', ''KEY_O'', ''KEY_P'',
      ''KEY_LEFTBRACE'', ''KEY_RIGHTBRACE'', ''KEY_ENTER'', ''KEY_LEFTCTRL'', ''KEY_A'',
      ''KEY_S'', ''KEY_D'', ''KEY_F'', ''KEY_G'', ''KEY_H'',
      ''KEY_J'', ''KEY_K'', ''KEY_L'', ''KEY_SEMICOLON'', ''KEY_APOSTROPHE'',
      ''KEY_GRAVE'', ''KEY_LEFTSHIFT'', ''KEY_BACKSLASH'', ''KEY_Z'', ''KEY_X'',
      ''KEY_C'', ''KEY_V'', ''KEY_B'', ''KEY_N'', ''KEY_M'',
      ''KEY_COMMA'', ''KEY_DOT'', ''KEY_SLASH'', ''KEY_RIGHTSHIFT'', ''KEY_KPASTERISK'',
      ''KEY_LEFTALT'', ''KEY_SPACE'', ''KEY_CAPSLOCK'', ''KEY_F1'', ''KEY_F2'',
      ''KEY_F3'', ''KEY_F4'', ''KEY_F5''] (map snd EV_KEY_CODES_1)"
    unfolding EV_KEY_CODES_1_def by simp
qed (unfold key_names_parts, blast)

lemma key_names_2:
  "list_all (\<lambda>n. n \<in> key_names)
     [''KEY_F6'', ''KEY_F7'', ''KEY_F8'', ''KEY_F9'', ''KEY_F10'',
      ''KEY_NUMLOCK'', ''KEY_SCROLLLOCK'', ''KEY_KP7'', ''KEY_KP8'', ''KEY_KP9'',
      ''KEY_KPMINUS'', ''KEY_KP4'', ''KEY_KP5'', ''KEY_KP6'', ''KEY_KPPLUS'',
      ''KEY_KP1'', ''KEY_KP2'', ''KEY_KP3'', ''KEY_KP0'', ''KEY_KPDOT'',
      ''KEY_102ND'', ''KEY_F11'', ''KEY_F12'', ''KEY_KATAKANA'', ''KEY_HENKAN'',
      ''KEY_MUHENKAN'', ''KEY_RIGHTCTRL'', ''KEY_KPSLASH'', ''KEY_SYSRQ'', ''KEY_RIGHTALT'',
      ''KEY_HOME'', ''KEY_UP'', ''KEY_PAGEUP'', ''KEY_LEFT'', ''KEY_RIGHT'',
      ''KEY_END'', ''KEY_DOWN'', ''KEY_PAGEDOWN'', ''KEY_INSERT'', ''KEY_DELETE'',
      ''KEY_MUTE'', ''KEY_VOLUMEDOWN'', ''KEY_VOLUMEUP'', ''KEY_PAUSE'', ''KEY_KPCOMMA'',
      ''KEY_HANGEUL'', ''KEY_HANJA'', ''KEY_LEFTMETA'', ''KEY_RIGHTMETA'', ''KEY_COMPOSE'',
      ''KEY_STOP'']"
proof (rule subseq_key_names)
  show "subseq [''KEY_F6'', ''KEY_F7'', ''KEY_F8'', ''KEY_F9'', ''KEY_F10'',
      ''KEY_NUMLOCK'', ''KEY_SCROLLLOCK'', ''KEY_KP7'', ''KEY_KP8'', ''KEY_KP9'',
      ''KEY_KPMINUS'', ''KEY_KP4'', ''KEY_KP5'', ''KEY_KP6'', ''KEY_KPPLUS'',
      ''KEY_KP1'', ''KEY_KP2'', ''KEY_KP3'', ''KEY_KP0'', ''KEY_KPDOT'',
      ''KEY_102ND'', ''KEY_F11'', ''KEY_F12'', ''KEY_KATAKANA'', ''KEY_HENKAN'',
      ''KEY_MUHENKAN'', ''KEY_RIGHTCTRL'', ''KEY_KPSLASH'', ''KEY_SYSRQ'', ''KEY_RIGHTALT'',
      ''KEY_HOME'', ''KEY_UP'', ''KEY_PAGEUP'', ''KEY_LEFT'', ''KEY_RIGHT'',
      ''KEY_END'', ''KEY_DOWN'', ''KEY_PAGEDOWN'', ''KEY_INSERT'', ''KEY_DELETE'',
      ''KEY_MUTE'', ''KEY_VOLUMEDOWN'', ''KEY_VOLUMEUP'', ''KEY_PAUSE'', ''KEY_KPCOMMA'',
      ''KEY_HANGEUL'', ''KEY_HANJA'', ''KEY_LEFTMETA'', ''KEY_RIGHTMETA'', ''KEY_COMPOSE'',
      ''KEY_STOP''] (map snd EV_KEY_CODES_2)"
    unfolding EV_KEY_CODES_2_def by simp
qed (unfold key_names_parts, blast)

lemma key_names_3:
  "list_all (\<lambda>n. n \<in> key_names)
     [''KEY_HELP'', ''KEY_SLEEP'', ''KEY_BACK'', ''KEY_FORWARD'', ''KEY_NEXTSONG'',
      ''KEY_PLAYPAUSE'', ''KEY_PREVIOUSSONG'', ''KEY_STOPCD'', ''KEY_HOMEPAGE'', ''KEY_REFRESH'',
      ''KEY_F13'', ''KEY_F14'', ''KEY_F15'', ''KEY_F16'', ''KEY_F17'',
      ''KEY_F18'', ''KEY_F19'', ''KEY_F20'', ''KEY_F21'', ''KEY_F22'']"
proof (rule subseq_key_names)
  show "subseq [''KEY_HELP'', ''KEY_SLEEP'', ''KEY_BACK'', ''KEY_FORWARD'', ''KEY_NEXTSONG'',
      ''KEY_PLAYPAUSE'', ''KEY_PREVIOUSSONG'', ''KEY_STOPCD'', ''KEY_HOMEPAGE'', ''KEY_REFRESH'',
      ''KEY_F13'', ''KEY_F14'', ''KEY_F15'', ''KEY_F16'', ''KEY_F17'',
      ''KEY_F18'', ''KEY_F19'', ''KEY_F20'', ''KEY_F21'', ''KEY_F22''] (map snd EV_KEY_CODES_3)"
    unfolding EV_KEY_CODES_3_def by simp
qed (unfold key_names_parts, blast)

lemma key_names_4:
  "list_all (\<lambda>n. n \<in> key_names)
     [''KEY_F23'', ''KEY_F24'', ''KEY_PLAY'', ''KEY_PRINT'', ''KEY_EMAIL'',
      ''KEY_SEARCH'']"
proof (rule subseq_key_names)
  show "subseq [''KEY_F23'', ''KEY_F24'', ''KEY_PLAY'', ''KEY_PRINT'', ''KEY_EMAIL'',
      ''KEY_SEARCH''] (map snd EV_KEY_CODES_4)"
    unfolding EV_KEY_CODES_4_def by simp
qed (unfold key_names_parts, blast)

lemma key_names_5:
  "list_all (\<lambda>n. n \<in> key_names)
     [''KEY_SELECT'', ''KEY_CLEAR'', ''KEY_FAVORITES'']"
proof (rule subseq_key_names)
  show "subseq [''KEY_SELECT'', ''KEY_CLEAR'', ''KEY_FAVORITES''] (map snd EV_KEY_CODES_5)"
    unfolding EV_KEY_CODES_5_def by simp
qed (unfold key_names_parts, blast)

lemma key_names_6:
  "list_all (\<lambda>n. n \<in> key_names)
     [''KEY_ZOOM'']"
proof (rule subseq_key_names)
  show "subseq [''KEY_ZOOM''] (map snd EV_KEY_CODES_6)"
    unfolding EV_KEY_CODES_6_def by simp
qed (unfold key_names_parts, blast)

lemmas key_names_used = key_names_1[simplified] key_names_2[simplified] key_names_3[simplified] key_names_4[simplified] key_names_5[simplified] key_names_6[simplified]

lemma VK2Linux_1_names: "list_all (\<lambda>(k, v). v = UNMAPPED \<or> v \<in> key_names) VK2Linux_1"
  by (simp add: VK2Linux_1_def key_names_used)

lemma VK2Linux_2_names: "list_all (\<lambda>(k, v). v = UNMAPPED \<or> v \<in> key_names) VK2Linux_2"
  by (simp add: VK2Linux_2_def key_names_used)

lemma VK2Linux_3_names: "list_all (\<lambda>(k, v). v = UNMAPPED \<or> v \<in> key_names) VK2Linux_3"
  by (simp add: VK2Linux_3_def key_names_used)

lemma VK2Linux_4_names: "list_all (\<lambda>(k, v). v = UNMAPPED \<or> v \<in> key_names) VK2Linux_4"
  by (simp add: VK2Linux_4_def key_names_used)

lemma VK2Linux_names: "dget VK2Linux k = Some v \<Longrightarrow> v = UNMAPPED \<or> v \<in> key_names"
proof -
  assume "dget VK2Linux k = Some v"
  then have "(k, v) \<in> set VK2Linux" by (rule map_of_SomeD)
  moreover have "list_all (\<lambda>(k, v). v = UNMAPPED \<or> v \<in> key_names) VK2Linux"
    by (simp add: VK2Linux_def VK2Linux_1_names VK2Linux_2_names VK2Linux_3_names VK2Linux_4_names)
  ultimately show ?thesis by (auto simp: list_all_iff)
qed

section \<open>Which virtual keys the proxy translates\<close>

text \<open>The mouse buttons and the break key are virtual keys the agent names but the proxy cannot translate.\<close>

definition untranslated :: "string list" where
  "untranslated = [''VK_LBUTTON'', ''VK_RBUTTON'', ''VK_CANCEL'', ''VK_MBUTTON'', ''VK_XBUTTON1'', ''VK_XBUTTON2'']"

lemma VK_CODES_2_translated: "subseq (map snd VK_CODES_2) (map fst VK2Linux_1)"
  unfolding VK_CODES_2_def VK2Linux_1_def by simp

lemma VK_CODES_3_translated: "subseq (map snd VK_CODES_3) (map fst VK2Linux_2)"
  unfolding VK_CODES_3_def VK2Linux_2_def by simp

lemma VK_CODES_4_translated: "subseq (map snd VK_CODES_4) (map fst VK2Linux_3)"
  unfolding VK_CODES_4_def VK2Linux_3_def by simp

lemma VK_CODES_5_translated: "subseq (map snd VK_CODES_5) (map fst VK2Linux_4)"
  unfolding VK_CODES_5_def VK2Linux_4_def by simp

lemma VK2Linux_1_missing:
  "list_all (\<lambda>k. k \<notin> set untranslated \<and> k \<noteq> ''UNKNOWN'') (map fst VK2Linux_1)"
  by (simp add: VK2Linux_1_def untranslated_def)

lemma VK2Linux_2_missing:
  "list_all (\<lambda>k. k \<notin> set untranslated \<and> k \<noteq> ''UNKNOWN'') (map fst VK2Linux_2)"
  by (simp add: VK2Linux_2_def untranslated_def)

lemma VK2Linux_3_missing:
  "list_all (\<lambda>k. k \<notin> set untranslated \<and> k \<noteq> ''UNKNOWN'') (map fst VK2Linux_3)"
  by (simp add: VK2Linux_3_def untranslated_def)

lemma VK2Linux_4_missing:
  "list_all (\<lambda>k. k \<notin> set untranslated \<and> k \<noteq> ''UNKNOWN'') (map fst VK2Linux_4)"
  by (simp add: VK2Linux_4_def untranslated_def)

lemma VK2Linux_missing: "n \<in> set untranslated \<or> n = ''UNKNOWN'' \<Longrightarrow> dget VK2Linux n = None"
proof -
  assume n: "n \<in> set untranslated \<or> n = ''UNKNOWN''"
  have "list_all (\<lambda>k. k \<notin> set untranslated \<and> k \<noteq> ''UNKNOWN'') (map fst VK2Linux)"
    by (simp add: VK2Linux_def VK2Linux_1_missing VK2Linux_2_missing VK2Linux_3_missing VK2Linux_4_missing)
  with n show ?thesis by (auto simp: list_all_iff map_of_eq_None_iff)
qed

lemma VK_CODES_translated:
  assumes "dget VK_CODES c = Some n" and "n \<notin> set untranslated"
  obtains v where "dget VK2Linux n = Some v"
proof -
  have "n \<in> set (map snd VK_CODES)" using map_of_SomeD[OF assms(1)] by force
  moreover have "set (map snd VK_CODES) \<subseteq> set (map snd VK_CODES_1) \<union> set (map fst VK2Linux)"
    using VK_CODES_2_translated[THEN subseq_set_subset]
      VK_CODES_3_translated[THEN subseq_set_subset]
      VK_CODES_4_translated[THEN subseq_set_subset]
      VK_CODES_5_translated[THEN subseq_set_subset]
    unfolding VK_CODES_def VK2Linux_def map_append set_append by blast
  ultimately have "n \<in> set (map snd VK_CODES_1) \<or> n \<in> set (map fst VK2Linux)" by blast
  moreover have "n \<notin> set (map snd VK_CODES_1)"
    using assms(2) by (simp add: VK_CODES_1_def untranslated_def)
  ultimately have "dget VK2Linux n \<noteq> None" by (simp add: map_of_eq_None_iff)
  then show ?thesis using that by blast
qed

end
