(* ===== verification/Input_Agent_Linux.thy ===== *)
theory Input_Agent_Linux
  imports Agent_Messages Input_Tables
begin

text \<open>
  The agent that runs inside a Linux guest (\<^verbatim>\<open>deps/input_event/input_event_linux.py\<close>): it reads the
  list of input devices from procfs, opens the pointers and keyboards, and writes one JSON message
  per line to its standard output.  What the operating system answers is a parameter: the lines of
  \<^verbatim>\<open>/proc/bus/input/devices\<close>, the result of each \<^verbatim>\<open>open\<close>, and the rounds of \<^verbatim>\<open>select\<close> with what
  each \<^verbatim>\<open>read\<close> returns.  Records of \<^verbatim>\<open>struct input_event\<close> have the layout of a little-endian LP64
  Linux, where \<^verbatim>\<open>struct.calcsize("llHHI")\<close> is 24.
\<close>

section \<open>State and environment\<close>

record agent =
  stdout :: "string list"
  open_fds :: "int list"
  ready :: bool
  cover :: bool

definition agent_start :: agent where
  "agent_start = \<lparr>stdout = [], open_fds = [], ready = False, cover = False\<rparr>"

text \<open>A \<open>read\<close> of a ready descriptor fails with a message or returns bytes.\<close>

type_synonym read_result = "string + 8 word list"

text \<open>
  What \<open>select\<close> wakes up for: some descriptors are ready (with what reading them will give), or the
  user interrupts the process.
\<close>

datatype os_event = Ready "(int \<times> read_result) list" | Interrupt

record linux_os =
  procfs :: "string list"
  os_open :: "string \<Rightarrow> string + int"
  runlevel_out :: "string option"
  cover_shown :: bool
  os_events :: "os_event list"

section \<open>Messages\<close>

definition linesep :: string where
  "linesep = [CHR 0x0A]"

definition send_message :: "string \<Rightarrow> pyval \<Rightarrow> (agent, unit) py" where
  "send_message mtype content =
     modify (\<lambda>s. s\<lparr>stdout := stdout s @ [dumps (message mtype content) @ linesep]\<rparr>)"

definition sync_notify :: "(agent, unit) py" where
  "sync_notify = send_message TYPE_SYNC (PDict [])"

definition info_notify :: "pyval \<Rightarrow> pyval \<Rightarrow> (agent, unit) py" where
  "info_notify dev info = send_message TYPE_INFO (PDict [(''device'', dev), (''info'', info)])"

definition ready_notify :: "(agent, unit) py" where
  "ready_notify = send_message TYPE_READY (PDict [])"

definition event_notify :: "pyval \<Rightarrow> pyval \<Rightarrow> (agent, unit) py" where
  "event_notify dev event = send_message TYPE_EVENT (PDict [(''device'', dev), (''event'', event)])"

definition error_notify :: "string \<Rightarrow> pyval \<Rightarrow> (agent, unit) py" where
  "error_notify err dev = send_message TYPE_ERROR (PDict [(''device'', dev), (''message'', PStr err)])"

section \<open>The list of devices\<close>

text \<open>\<open>item[1]\<close>, and \<open>item[1].split("=", 1)[1]\<close>.\<close>

definition second :: "string list \<Rightarrow> string res" where
  "second xs = (case xs of _ # y # _ \<Rightarrow> Inr y | _ \<Rightarrow> Inl IndexError)"

definition value_of :: "string list \<Rightarrow> string res" where
  "value_of item = rbind (second item) (\<lambda>s. second (split_char1 (CHR ''='') s))"

text \<open>\<open>key, val = parts\<close>\<close>

definition unpack2 :: "string list \<Rightarrow> (string \<times> string) res" where
  "unpack2 xs = (case xs of [k, v] \<Rightarrow> Inr (k, v) | _ \<Rightarrow> Inl (ValueError ''unpack''))"

fun id_pairs :: "string list \<Rightarrow> pydict \<Rightarrow> pydict res" where
  "id_pairs [] acc = Inr acc"
| "id_pairs (p # ps) acc =
     rbind (unpack2 (split_char (CHR ''='') p)) (\<lambda>(k, v).
     rbind (int_of_hex v) (\<lambda>n. id_pairs ps (dset (lower k) (PInt n) acc)))"

definition quote_char :: "char \<Rightarrow> bool" where
  "quote_char c \<longleftrightarrow> c = CHR 0x27 \<or> c = CHR 0x22"

definition as_dict :: "pyval option \<Rightarrow> pydict" where
  "as_dict v = (case v of Some (PDict d) \<Rightarrow> d | _ \<Rightarrow> [])"

text \<open>One line of the file: the sections read so far and the one being read.\<close>

definition procfs_line :: "string \<Rightarrow> pydict list \<times> pydict \<Rightarrow> (pydict list \<times> pydict) res" where
  "procfs_line line st =
     (let (devs, dev_info) = st;
          item = split_char1 (CHR '' '') (rstrip_set is_ws line);
          tag = hd item in
      if tag = [] then Inr (devs @ [dev_info], [])
      else if tag = ''I:'' then
        rbind (second item) (\<lambda>s. rbind (id_pairs (split_char (CHR '' '') s) [])
          (\<lambda>id_info. Inr (devs, dset ''id'' (PDict id_info) dev_info)))
      else if tag = ''N:'' then
        rbind (value_of item) (\<lambda>val. Inr (devs, dset ''name'' (PStr (strip_set quote_char val)) dev_info))
      else if tag = ''P:'' then
        rbind (value_of item) (\<lambda>val. Inr (devs, dset ''phys'' (PStr val) dev_info))
      else if tag = ''S:'' then
        rbind (value_of item) (\<lambda>val. Inr (devs, dset ''sysfs'' (PStr val) dev_info))
      else if tag = ''U:'' then
        rbind (value_of item) (\<lambda>val. Inr (devs, dset ''uniq'' (PStr val) dev_info))
      else if tag = ''H:'' then
        rbind (value_of item)
          (\<lambda>val. Inr (devs, dset ''handlers'' (PList (map PStr (split_ws val))) dev_info))
      else if tag = ''B:'' then
        rbind (second item) (\<lambda>s. rbind (unpack2 (split_char1 (CHR ''='') s)) (\<lambda>(k, v).
          Inr (devs, dset ''bitmaps''
                 (PDict (dset (lower k) (PStr v) (as_dict (dget dev_info ''bitmaps'')))) dev_info)))
      else Inr (devs, dev_info))"

fun procfs_lines :: "string list \<Rightarrow> pydict list \<times> pydict \<Rightarrow> pydict list res" where
  "procfs_lines [] st = Inr (fst st)"
| "procfs_lines (l # ls) st = rbind (procfs_line l st) (procfs_lines ls)"

definition parse_procfs_entry :: "string list \<Rightarrow> pydict list res" where
  "parse_procfs_entry lines = procfs_lines lines ([], [])"

section \<open>Opening the devices\<close>

definition dev_name :: "pyval \<Rightarrow> string" where
  "dev_name dev = (case dev of PStr s \<Rightarrow> s | _ \<Rightarrow> ''None'')"

definition open_dev :: "linux_os \<Rightarrow> pyval \<Rightarrow> (agent, int) py" where
  "open_dev os name =
     (case os_open os (''/dev/input/'' @ dev_name name) of
        Inl details \<Rightarrow>
          bnd (error_notify (''could not open device: '' @ details) name) (\<lambda>_. throw (SystemExit (-1)))
      | Inr fd \<Rightarrow> bnd (modify (\<lambda>s. s\<lparr>open_fds := open_fds s @ [fd]\<rparr>)) (\<lambda>_. ret fd))"

definition close_dev :: "int \<Rightarrow> (agent, unit) py" where
  "close_dev fd = modify (\<lambda>s. s\<lparr>open_fds := filter (\<lambda>f. f \<noteq> fd) (open_fds s)\<rparr>)"

definition str_items :: "pyval \<Rightarrow> string list res" where
  "str_items v =
     (case v of
        PList l \<Rightarrow> rmap (\<lambda>x. case x of PStr s \<Rightarrow> Inr s | _ \<Rightarrow> Inl (AttributeError ''startswith'')) l
      | _ \<Rightarrow> Inl (TypeError ''iter''))"

text \<open>EV_SYN, EV_KEY, EV_LED and EV_REP.\<close>

definition keyboard_mask :: int where
  "keyboard_mask = 0x120003"

definition is_keyboard :: "pydict \<Rightarrow> bool res" where
  "is_keyboard info =
     rbind (dindex info ''bitmaps'') (\<lambda>b. rbind (pindex b ''ev'') (\<lambda>ev.
       rbind (int_of_hex (''0x'' @ (case ev of PStr s \<Rightarrow> s | _ \<Rightarrow> [])))
         (\<lambda>flags. Inr ((NOT flags) AND keyboard_mask = 0))))"

fun scan_handlers :: "pydict \<Rightarrow> string list \<Rightarrow> pyval \<times> bool \<Rightarrow> (pyval \<times> bool) res" where
  "scan_handlers info [] st = Inr st"
| "scan_handlers info (h # hs) (dev, is_target) =
     (if startswith h ''event'' then scan_handlers info hs (PStr h, is_target)
      else if startswith h ''mouse'' then scan_handlers info hs (dev, True)
      else if startswith h ''kbd'' then
        rbind (is_keyboard info) (\<lambda>k. scan_handlers info hs (dev, if k then True else is_target))
      else scan_handlers info hs (dev, is_target))"

type_synonym devs = "(int \<times> (pyval \<times> pydict)) list"

fun open_targets :: "linux_os \<Rightarrow> pydict list \<Rightarrow> devs \<Rightarrow> (agent, devs) py" where
  "open_targets os [] entries = ret entries"
| "open_targets os (info # infos) entries =
     bnd (lift_res (rbind (dindex info ''handlers'') (\<lambda>h. rbind (str_items h)
            (\<lambda>hs. scan_handlers info hs (PNone, False))))) (\<lambda>(dev, is_target).
       if is_target then
         bnd (info_notify dev (PDict info)) (\<lambda>_.
         bnd (open_dev os dev) (\<lambda>fd. open_targets os infos (dset fd (dev, info) entries)))
       else open_targets os infos entries)"

definition get_devs :: "linux_os \<Rightarrow> (agent, devs) py" where
  "get_devs os = bnd (lift_res (parse_procfs_entry (procfs os))) (\<lambda>infos. open_targets os infos [])"

section \<open>Events\<close>

type_synonym raw_event = "int \<times> int \<times> int \<times> int \<times> int"

fun le_val :: "8 word list \<Rightarrow> int" where
  "le_val [] = 0"
| "le_val (b # bs) = uint b + 256 * le_val bs"

definition le_long :: "8 word list \<Rightarrow> int" where
  "le_long bs = sint (word_of_int (le_val bs) :: 64 word)"

definition EV_PACK_SIZE :: nat where
  "EV_PACK_SIZE = 24"

definition unpack_event :: "8 word list \<Rightarrow> raw_event res" where
  "unpack_event data =
     (if length data = EV_PACK_SIZE then
        Inr (le_long (take 8 data), le_long (take 8 (drop 8 data)), le_val (take 2 (drop 16 data)),
             le_val (take 2 (drop 18 data)), le_val (take 4 (drop 20 data)))
      else Inl (StructError ''unpack requires a buffer of 24 bytes''))"

definition code_name :: "int \<Rightarrow> int \<Rightarrow> string" where
  "code_name ev_type ev_code = dget_default (dget_default EV_CODE_MAP ev_type []) ev_code ''UNKNOWN''"

definition format_event :: "raw_event \<Rightarrow> pydict" where
  "format_event raw_event =
     (let (tv_sec, tv_usec, ev_type, ev_code, ev_value) = raw_event in
      [(''typeNum'', PInt ev_type),
       (''typeName'', PStr (dget_default EV_TYPES ev_type ''UNKNOWN'')),
       (''codeNum'', PInt ev_code),
       (''codeName'', PStr (code_name ev_type ev_code)),
       (''value'', PInt ev_value),
       (''timestamp'', PInt (tv_sec * 10 ^ 6 + tv_usec))])"

text \<open>
  One ready descriptor.  \<open>raw_event\<close> is a local variable of the whole function, so a failed read
  leaves in it what the last successful one put there.
\<close>

definition read_event :: "read_result \<Rightarrow> (string + raw_event)" where
  "read_event r =
     (case r of
        Inl details \<Rightarrow> Inl details
      | Inr data \<Rightarrow> (case unpack_event data of Inl e \<Rightarrow> Inl ''unpack requires a buffer of 24 bytes'' | Inr ev \<Rightarrow> Inr ev))"

type_synonym loop_vars = "int list \<times> raw_event option"

definition py_remove :: "'a \<Rightarrow> 'a list \<Rightarrow> 'a list res" where
  "py_remove x xs = (if x \<in> set xs then Inr (remove1 x xs) else Inl (ValueError ''list.remove(x): x not in list''))"

definition listen_fd :: "devs \<Rightarrow> int \<times> read_result \<Rightarrow> loop_vars \<Rightarrow> (agent, loop_vars) py" where
  "listen_fd devs p lv =
     (let (fd, r) = p; (watch, raw_event) = lv in
      case dget devs fd of
        None \<Rightarrow> throw (KeyError (int_str fd))
      | Some (dev, info) \<Rightarrow>
          bnd (case read_event r of
                 Inl details \<Rightarrow>
                   bnd (error_notify (''failed to get event: '' @ details) dev) (\<lambda>_.
                   bnd (lift_res (py_remove fd watch)) (\<lambda>watch'. ret (watch', raw_event)))
               | Inr ev \<Rightarrow> ret (watch, Some ev)) (\<lambda>(watch', raw_event').
            case raw_event' of
              None \<Rightarrow> throw (UnboundLocalError ''raw_event'')
            | Some ev \<Rightarrow>
                bnd (event_notify dev (PDict (format_event ev))) (\<lambda>_. ret (watch', raw_event'))))"

fun listen_fds :: "devs \<Rightarrow> (int \<times> read_result) list \<Rightarrow> loop_vars \<Rightarrow> (agent, loop_vars) py" where
  "listen_fds devs [] lv = ret lv"
| "listen_fds devs (p # ps) lv = bnd (listen_fd devs p lv) (listen_fds devs ps)"

text \<open>
  The loop over the rounds the environment supplies.  The result is \<open>True\<close> when the loop ended
  because nothing is left to watch, \<open>False\<close> when the agent is still blocked in \<open>select\<close>.
\<close>

fun listen_rounds :: "devs \<Rightarrow> os_event list \<Rightarrow> loop_vars \<Rightarrow> (agent, bool) py" where
  "listen_rounds devs [] lv = ret False"
| "listen_rounds devs (Interrupt # evs) lv = throw KeyboardInterrupt"
| "listen_rounds devs (Ready fds # evs) lv =
     bnd (listen_fds devs fds lv) (\<lambda>lv'.
       if fst lv' = [] then ret True else listen_rounds devs evs lv')"

definition listen :: "linux_os \<Rightarrow> devs \<Rightarrow> (agent, bool) py" where
  "listen os devs = listen_rounds devs (os_events os) (map fst devs, None)"

section \<open>The main program\<close>

text \<open>
  \<open>is_graphical_env\<close>: the second word that \<^verbatim>\<open>runlevel\<close> prints is 5; \<open>None\<close> stands for a pipe that cannot be read.
\<close>

definition is_graphical_env :: "linux_os \<Rightarrow> bool" where
  "is_graphical_env os =
     (case runlevel_out os of
        None \<Rightarrow> False
      | Some out \<Rightarrow>
          (case rbind (second (split_ws (strip_set is_ws out))) int_of_str of
             Inl _ \<Rightarrow> False
           | Inr runlevel \<Rightarrow> runlevel = 5))"

text \<open>
  \<open>setup\<close>.  The result \<open>None\<close>: the agent is blocked in \<open>READY.wait()\<close> because the cover window never
  got full screen.
\<close>

definition agent_setup :: "linux_os \<Rightarrow> (agent, devs option) py" where
  "agent_setup os =
     bnd (get_devs os) (\<lambda>devs.
     bnd (modify (\<lambda>s. if is_graphical_env os then s\<lparr>ready := cover_shown os, cover := True\<rparr>
                      else s\<lparr>ready := True\<rparr>)) (\<lambda>_.
     bnd (gets ready) (\<lambda>r.
       if r then bnd ready_notify (\<lambda>_. ret (Some devs)) else ret None)))"

definition cleanup :: "linux_os \<Rightarrow> devs \<Rightarrow> (agent, unit) py" where
  "cleanup os devs =
     bnd (for_each (map fst devs) close_dev) (\<lambda>_.
       if is_graphical_env os then modify (\<lambda>s. s\<lparr>cover := False\<rparr>) else ret ())"

text \<open>
  The event loop under its handler and its \<open>finally\<close> block.  The result is \<open>True\<close> when the
  process ends, \<open>False\<close> when it is still waiting.
\<close>

definition listen_guarded :: "linux_os \<Rightarrow> devs \<Rightarrow> (agent, bool) py" where
  "listen_guarded os devs s =
     (case try_except (listen os devs) (\<lambda>e. if e = KeyboardInterrupt then Some (ret True) else None) s of
        (Inr False, s') \<Rightarrow> (Inr False, s')
      | (r, s') \<Rightarrow> try_finally (\<lambda>t. (r, t)) (cleanup os devs) s')"

definition main_loop :: "linux_os \<Rightarrow> (agent, bool) py" where
  "main_loop os =
     bnd sync_notify (\<lambda>_.
     bnd (agent_setup os) (\<lambda>d.
       case d of None \<Rightarrow> ret False | Some devs \<Rightarrow> listen_guarded os devs))"


section \<open>Notions of the proofs\<close>

text \<open>The bytes of a little-endian integer, and the record the kernel writes for an event.\<close>

fun le_bytes :: "nat \<Rightarrow> int \<Rightarrow> 8 word list" where
  "le_bytes 0 v = []"
| "le_bytes (Suc n) v = word_of_int v # le_bytes n (v div 256)"

definition pack_event :: "raw_event \<Rightarrow> 8 word list" where
  "pack_event ev =
     (let (sec, usec, ty, code, value) = ev in
      le_bytes 8 sec @ le_bytes 8 usec @ le_bytes 2 ty @ le_bytes 2 code @ le_bytes 4 value)"

text \<open>A line that carries a message of a given type.\<close>

definition msg_line :: "string \<Rightarrow> string \<Rightarrow> bool" where
  "msg_line t l \<longleftrightarrow> (\<exists>c. json_ok c \<and> l = dumps (message t c) @ linesep)"

text \<open>A computation that only appends lines of the given types.\<close>

definition emits :: "string set \<Rightarrow> agent \<Rightarrow> agent \<Rightarrow> bool" where
  "emits T s s' \<longleftrightarrow> (\<exists>ls. stdout s' = stdout s @ ls \<and> (\<forall>l \<in> set ls. \<exists>t \<in> T. msg_line t l))"

text \<open>The section a run of lines without an empty one describes.\<close>

fun section_info :: "string list \<Rightarrow> pydict \<Rightarrow> pydict res" where
  "section_info [] info = Inr info"
| "section_info (l # ls) info = rbind (procfs_line l ([], info)) (\<lambda>st. section_info ls (snd st))"

definition blank :: "string \<Rightarrow> bool" where
  "blank l \<longleftrightarrow> hd (split_char1 (CHR '' '') (rstrip_set is_ws l)) = []"

section \<open>The event record\<close>

lemma length_le_bytes [simp]: "length (le_bytes n v) = n"
  by (induction n arbitrary: v) auto

lemma le_val_le_bytes: "le_val (le_bytes n v) = v mod 256 ^ n"
proof (induction n arbitrary: v)
  case (Suc n)
  have "uint (word_of_int v :: 8 word) = v mod 256" by (simp add: uint_word_of_int)
  then show ?case using Suc by (simp add: zmod_zmult2_eq)
qed simp

lemma le_long_le_bytes:
  assumes "- (2 ^ 63) \<le> v" and "v < 2 ^ 63"
  shows "le_long (le_bytes 8 v) = v"
proof -
  have "(word_of_int (v mod 256 ^ 8) :: 64 word) = word_of_int v"
    by (rule word_of_int_eq_iff[THEN iffD2]) (simp add: take_bit_eq_mod)
  then show ?thesis
    using assms by (simp add: le_long_def le_val_le_bytes sint_sbintrunc' signed_take_bit_int_eq_self)
qed

lemma le_val_bounds: "0 \<le> le_val bs \<and> le_val bs < 256 ^ length bs"
proof (induction bs)
  case (Cons b bs)
  have "0 \<le> uint b" "uint b < 256" using uint_bounded[of b] by simp_all
  then show ?case using Cons by auto
qed simp

lemma unpack_pack:
  assumes "- (2 ^ 63) \<le> sec" "sec < 2 ^ 63" "- (2 ^ 63) \<le> usec" "usec < 2 ^ 63"
    and "0 \<le> ty" "ty < 2 ^ 16" "0 \<le> code" "code < 2 ^ 16"
  shows "unpack_event (pack_event (sec, usec, ty, code, value)) = Inr (sec, usec, ty, code, value mod 2 ^ 32)"
  using assms by (simp add: unpack_event_def pack_event_def EV_PACK_SIZE_def le_long_le_bytes le_val_le_bytes)

section \<open>Keyboards\<close>

lemma keyboard_mask_bits: "bit keyboard_mask n \<longleftrightarrow> n \<in> {0, 1, 17, 20}"
proof -
  have eq: "keyboard_mask = 2 ^ 0 OR 2 ^ 1 OR 2 ^ 17 OR 2 ^ 20" by (simp add: keyboard_mask_def)
  show ?thesis unfolding eq by (simp only: bit_or_iff bit_exp_iff) auto
qed

lemma mask_subset: "(NOT f) AND m = 0 \<longleftrightarrow> (\<forall>n. bit m n \<longrightarrow> bit (f::int) n)"
  by (auto simp: bit_eq_iff bit_and_iff bit_not_iff)

lemma keyboard_flags:
  "(NOT f) AND keyboard_mask = 0 \<longleftrightarrow> bit f 0 \<and> bit f 1 \<and> bit f 17 \<and> bit f 20"
  by (auto simp: mask_subset keyboard_mask_bits)

lemma scan_handlers_select:
  assumes "is_keyboard info = Inr k"
  shows "scan_handlers info hs (dev, t) =
    Inr (case filter (\<lambda>h. startswith h ''event'') hs of [] \<Rightarrow> dev | e # es \<Rightarrow> PStr (last (e # es)),
         t \<or> (\<exists>h \<in> set hs. startswith h ''mouse'') \<or> (\<exists>h \<in> set hs. startswith h ''kbd'') \<and> k)"
proof (induction hs arbitrary: dev t)
  case (Cons h hs)
  have "\<not> (startswith h ''event'' \<and> startswith h ''mouse'')" "\<not> (startswith h ''event'' \<and> startswith h ''kbd'')"
    "\<not> (startswith h ''mouse'' \<and> startswith h ''kbd'')" by (auto simp: startswith_iff)
  then show ?case using Cons.IH assms by (auto split: list.split)
qed simp

section \<open>The sections of procfs\<close>

lemma procfs_line_blank: "blank l \<Longrightarrow> procfs_line l (devs, info) = Inr (devs @ [info], [])"
  by (simp add: procfs_line_def blank_def)

lemma procfs_line_frame:
  assumes "\<not> blank l"
  shows "procfs_line l (devs, info) = rbind (procfs_line l ([], info)) (\<lambda>st. Inr (devs, snd st))"
  using assms unfolding blank_def procfs_line_def Let_def
  by (auto simp: rbind_def split: sum.splits prod.splits)

lemma procfs_lines_section:
  assumes "\<forall>l \<in> set ls. \<not> blank l"
  shows "procfs_lines (ls @ rest) (devs, info) =
           rbind (section_info ls info) (\<lambda>i. procfs_lines rest (devs, i))"
  using assms
proof (induction ls arbitrary: info)
  case (Cons l ls)
  then show ?case
    by (cases "procfs_line l ([], info)") (auto simp: procfs_line_frame[of l devs])
qed simp

lemma procfs_lines_sections:
  assumes "\<forall>sec \<in> set secs. \<forall>l \<in> set sec. \<not> blank l"
  shows "procfs_lines (concat (map (\<lambda>sec. sec @ [[]]) secs) @ rest) (devs, []) =
           rbind (rmap (\<lambda>sec. section_info sec []) secs) (\<lambda>infos. procfs_lines rest (devs @ infos, []))"
  using assms
proof (induction secs arbitrary: devs)
  case (Cons sec secs)
  have "blank []" by (simp add: blank_def rstrip_set_def)
  note step = procfs_line_blank[OF this]
  show ?case
  proof (cases "section_info sec []")
    case (Inl e)
    then show ?thesis using Cons.prems by (simp add: procfs_lines_section)
  next
    case (Inr i)
    then show ?thesis using Cons.prems Cons.IH[of "devs @ [i]"]
      by (cases "rmap (\<lambda>sec. section_info sec []) secs") (auto simp: procfs_lines_section step)
  qed
qed simp

section \<open>Every line the agent writes can be read back\<close>

lemma id_pairs_json_ok: "id_pairs ps acc = Inr d \<Longrightarrow> json_ok (PDict acc) \<Longrightarrow> json_ok (PDict d)"
proof (induction ps acc rule: id_pairs.induct)
  case (2 p ps acc)
  then show ?case
    by (auto elim!: rbind_InrE simp del: json_ok.simps(2) simp: json_ok_dset)
qed simp

lemma as_dict_json_ok: "json_ok (PDict info) \<Longrightarrow> json_ok (PDict (as_dict (dget info k)))"
  by (auto simp: as_dict_def split: option.splits pyval.splits dest: json_ok_dget)

lemma procfs_line_json_ok:
  assumes "procfs_line l (devs, info) = Inr (devs', info')"
    and "json_ok (PDict info)" and "\<forall>d \<in> set devs. json_ok (PDict d)"
  shows "json_ok (PDict info') \<and> (\<forall>d \<in> set devs'. json_ok (PDict d))"
  using assms as_dict_json_ok[OF assms(2), of "''bitmaps''"]
  unfolding procfs_line_def Let_def prod.case
  by (auto simp del: json_ok.simps(2) simp: json_ok_Nil elim!: rbind_InrE split: if_splits prod.splits
      intro!: json_ok_dset dest!: id_pairs_json_ok[OF _ json_ok_Nil])


lemma procfs_lines_json_ok:
  assumes "procfs_lines ls (devs, info) = Inr ds"
    and "json_ok (PDict info)" and "\<forall>d \<in> set devs. json_ok (PDict d)"
  shows "\<forall>d \<in> set ds. json_ok (PDict d)"
  using assms
proof (induction ls arbitrary: devs info)
  case (Cons l ls)
  obtain devs' info' where st: "procfs_line l (devs, info) = Inr (devs', info')"
    using Cons.prems(1) by (auto elim: rbind_InrE)
  then show ?case using Cons.IH[of devs' info'] procfs_line_json_ok[OF st Cons.prems(2,3)] Cons.prems(1)
    by (simp del: json_ok.simps(2))
qed simp

lemma parse_procfs_json_ok:
  "parse_procfs_entry lines = Inr ds \<Longrightarrow> \<forall>d \<in> set ds. json_ok (PDict d)"
  unfolding parse_procfs_entry_def by (erule procfs_lines_json_ok) simp_all

lemma msg_line_loads: "msg_line t l \<Longrightarrow> \<exists>c. loads l = Some (message t c)"
proof -
  assume "msg_line t l"
  then obtain c where c: "json_ok c" "l = dumps (message t c) @ linesep" by (auto simp: msg_line_def)
  then have "json_ok (message t c)" by simp
  then show ?thesis using json.dec_enc[of "message t c" linesep] c(2) by (auto simp: linesep_def json_ws_def)
qed

interpretation linux_out: message_writer stdout send_message
proof unfold_locales
  fix t c s
  show "fst (send_message t c s) = Inr ()" by (simp add: send_message_def modify_def)
  assume "json_ok c"
  then show "\<exists>l. stdout (snd (send_message t c s)) = stdout s @ [l] \<and> loads l = Some (message t c)"
    using json.dec_enc[of "message t c" linesep]
    by (simp add: send_message_def modify_def linesep_def json_ws_def)
qed

lemma emits_refl [simp]: "emits T s s"
  by (simp add: emits_def)

lemma emits_trans: "emits T s s' \<Longrightarrow> emits T s' s'' \<Longrightarrow> emits T s s''"
  by (fastforce simp: emits_def)

lemma emits_mono: "emits T s s' \<Longrightarrow> T \<subseteq> U \<Longrightarrow> emits U s s'"
  by (fastforce simp: emits_def)

lemma send_message_emits: "json_ok c \<Longrightarrow> emits {t} s (snd (send_message t c s))"
  by (auto simp: send_message_def modify_def emits_def msg_line_def)

lemma send_message_run [py_run]:
  "send_message t c s = (Inr (), s\<lparr>stdout := stdout s @ [dumps (message t c) @ linesep]\<rparr>)"
  by (simp add: send_message_def modify_def)

text \<open>Only the listed state components change with a message.\<close>

lemmas notify_defs = sync_notify_def info_notify_def ready_notify_def event_notify_def error_notify_def

lemma json_ok_format_event: "json_ok (PDict (format_event ev))"
  by (cases ev) (simp add: format_event_def dict_ok_def)

lemma emits_step:
  "json_ok c \<Longrightarrow> t \<in> T \<Longrightarrow>
   emits T s (s\<lparr>stdout := stdout s @ [dumps (message t c) @ linesep]\<rparr>)"
  by (auto simp: emits_def msg_line_def)

lemma emits_other [simp]: "emits T s (s\<lparr>open_fds := f\<rparr>)" "emits T s (s\<lparr>ready := r\<rparr>)"
  "emits T s (s\<lparr>cover := c\<rparr>)"
  by (simp_all add: emits_def)


definition devs_ok :: "devs \<Rightarrow> bool" where
  "devs_ok devs \<longleftrightarrow> (\<forall>fd dev info. dget devs fd = Some (dev, info) \<longrightarrow> json_ok dev)"

lemma devs_ok_Nil [simp]: "devs_ok []"
  by (simp add: devs_ok_def)

lemma devs_ok_dset: "devs_ok devs \<Longrightarrow> json_ok dev \<Longrightarrow> devs_ok (dset fd (dev, info) devs)"
  by (auto simp: devs_ok_def)

lemma scan_handlers_dev:
  "scan_handlers info hs (dev, b) = Inr (dev', b') \<Longrightarrow> json_ok dev \<Longrightarrow> json_ok dev'"
  by (induction info hs "(dev, b)" arbitrary: dev b rule: scan_handlers.induct)
     (auto split: if_splits elim!: rbind_InrE)

text \<open>What opening the devices does to the state: messages, descriptors and the table of devices.\<close>

definition opened :: "agent \<Rightarrow> devs \<Rightarrow> devs res \<times> agent \<Rightarrow> bool" where
  "opened s entries r \<longleftrightarrow>
     (case r of
        (Inr devs, s') \<Rightarrow>
          emits {TYPE_INFO} s s' \<and> devs_ok devs \<and> set (map fst entries) \<subseteq> set (map fst devs)
          \<and> set (open_fds s') \<subseteq> set (open_fds s) \<union> set (map fst devs)
          \<and> cover s' = cover s
      | (Inl e, s') \<Rightarrow> emits {TYPE_INFO, TYPE_ERROR} s s')"

lemma opened_trans:
  assumes "emits {TYPE_INFO} s s1" "set (open_fds s1) \<subseteq> set (open_fds s) \<union> {fd}" "cover s1 = cover s"
    and "opened s1 (dset fd x entries) r"
  shows "opened s entries r"
proof -
  have "emits {TYPE_INFO, TYPE_ERROR} s s1" using assms(1) by (rule emits_mono) simp
  then show ?thesis using assms
    unfolding opened_def by (auto split: prod.splits sum.splits intro: emits_trans)
qed

lemma open_targets_opened:
  assumes "\<forall>i \<in> set infos. json_ok (PDict i)" and "devs_ok entries"
  shows "opened s entries (open_targets os infos entries s)"
  using assms
proof (induction infos arbitrary: entries s)
  case Nil
  then show ?case by (simp add: opened_def ret_def)
next
  case (Cons info infos)
  let ?scan = "rbind (dindex info ''handlers'') (\<lambda>h. rbind (str_items h)
            (\<lambda>hs. scan_handlers info hs (PNone, False)))"
  show ?case
  proof (cases ?scan)
    case (Inl e)
    then show ?thesis by (simp add: opened_def throw_def)
  next
    case (Inr p)
    obtain dev tgt where p: "p = (dev, tgt)" by (cases p)
    have dev: "json_ok dev" using Inr p scan_handlers_dev by (auto elim!: rbind_InrE)
    define s1 where "s1 = s\<lparr>stdout := stdout s @ [dumps (message TYPE_INFO
      (PDict [(''device'', dev), (''info'', PDict info)])) @ linesep]\<rparr>"
    have e1: "emits {TYPE_INFO} s s1"
      unfolding s1_def using Cons.prems dev by (intro emits_step) (auto simp: dict_ok_def)
    show ?thesis
    proof (cases tgt)
      case False
      then show ?thesis using Cons Inr p by simp
    next
      case True
      show ?thesis
      proof (cases "os_open os (''/dev/input/'' @ dev_name dev)")
        case (Inl d)
        let ?s2 = "snd (error_notify (''could not open device: '' @ d) dev s1)"
        have "emits {TYPE_INFO, TYPE_ERROR} s1 ?s2"
          using dev by (simp add: error_notify_def py_run emits_step dict_ok_def)
        then have "emits {TYPE_INFO, TYPE_ERROR} s ?s2"
          using emits_mono[OF e1, of "{TYPE_INFO, TYPE_ERROR}"] by (auto intro: emits_trans)
        moreover have "open_targets os (info # infos) entries s = (Inl (SystemExit (-1)), ?s2)"
          using True Inl \<open>?scan = Inr p\<close> p
          by (simp add: open_dev_def info_notify_def error_notify_def py_defs send_message_def s1_def)
        ultimately show ?thesis by (simp add: opened_def)
      next
        case (Inr fd)
        define s2 where "s2 = s1\<lparr>open_fds := open_fds s1 @ [fd]\<rparr>"
        have run: "open_targets os (info # infos) entries s = open_targets os infos (dset fd (dev, info) entries) s2"
          using True Inr \<open>?scan = Inr p\<close> p
          by (simp add: open_dev_def info_notify_def py_defs send_message_def s1_def s2_def)
        have "emits {TYPE_INFO} s s2" using emits_trans[OF e1] by (simp add: s2_def)
        moreover have "set (open_fds s2) \<subseteq> set (open_fds s) \<union> {fd}" "cover s2 = cover s" by (simp_all add: s2_def s1_def)
        moreover have "opened s2 (dset fd (dev, info) entries) (open_targets os infos (dset fd (dev, info) entries) s2)"
          using Cons.prems dev by (intro Cons.IH devs_ok_dset) simp_all
        ultimately show ?thesis unfolding run by (rule opened_trans)
      qed
    qed
  qed
qed

lemma get_devs_opened: "opened s [] (get_devs os s)"
  using open_targets_opened[of _ "[]" s os] parse_procfs_json_ok[of "procfs os"]
  by (cases "parse_procfs_entry (procfs os)") (auto simp: get_devs_def opened_def throw_def)


text \<open>What the event loop does to the state: messages only.\<close>

definition listened :: "agent \<Rightarrow> 'a res \<times> agent \<Rightarrow> bool" where
  "listened s r \<longleftrightarrow> emits {TYPE_EVENT, TYPE_ERROR} s (snd r) \<and> open_fds (snd r) = open_fds s \<and> cover (snd r) = cover s"

lemma listened_bnd:
  assumes "listened s (m s)" and "\<And>x s'. m s = (Inr x, s') \<Longrightarrow> listened s' (f x s')"
  shows "listened s (bnd m f s)"
  using assms by (auto simp: listened_def bnd_def split: prod.splits sum.splits intro: emits_trans)

lemma listened_ret [simp]: "listened s (ret x s)" "listened s (throw e s)" "listened s (lift_res r s)"
  by (simp_all add: listened_def py_run)

lemma listened_notify:
  "json_ok dev \<Longrightarrow> listened s (error_notify m dev s)"
  "json_ok dev \<Longrightarrow> listened s (event_notify dev (PDict (format_event ev)) s)"
  using json_ok_format_event[of ev]
  by (auto simp: listened_def error_notify_def event_notify_def py_run dict_ok_def intro!: emits_step)

lemma listen_fd_listened:
  assumes "devs_ok devs"
  shows "listened s (listen_fd devs p lv s)"
proof (cases "dget devs (fst p)")
  case None
  then show ?thesis by (cases p; cases lv) (simp add: listen_fd_def)
next
  case (Some q)
  obtain dev info where q: "q = (dev, info)" by (cases q)
  then have dev: "json_ok dev" using Some assms by (auto simp: devs_ok_def)
  show ?thesis using Some
    by (cases p; cases lv)
       (auto simp: listen_fd_def q intro!: listened_bnd listened_notify dev split: sum.split option.split)
qed

lemma listen_fds_listened: "devs_ok devs \<Longrightarrow> listened s (listen_fds devs ps lv s)"
  by (induction ps arbitrary: lv s) (auto intro!: listened_bnd listen_fd_listened)

lemma listen_rounds_listened: "devs_ok devs \<Longrightarrow> listened s (listen_rounds devs evs lv s)"
  by (induction devs evs lv arbitrary: s rule: listen_rounds.induct)
     (auto intro!: listened_bnd listen_fds_listened)

lemma listen_listened: "devs_ok devs \<Longrightarrow> listened s (listen os devs s)"
  by (simp add: listen_def listen_rounds_listened)

lemma close_all_run:
  "for_each fds close_dev s = (Inr (), s\<lparr>open_fds := filter (\<lambda>fd. fd \<notin> set fds) (open_fds s)\<rparr>)"
  by (induction fds arbitrary: s) (auto simp: close_dev_def py_defs)

lemma cleanup_run:
  "cleanup os devs s =
     (Inr (), s\<lparr>open_fds := filter (\<lambda>fd. fd \<notin> set (map fst devs)) (open_fds s),
               cover := (if is_graphical_env os then False else cover s)\<rparr>)"
  by (simp add: cleanup_def close_all_run py_defs)

lemma listen_guarded_emits:
  assumes "devs_ok devs"
  shows "emits {TYPE_EVENT, TYPE_ERROR} s (snd (listen_guarded os devs s))"
proof -
  obtain r s' where r: "listen os devs s = (r, s')" by (cases "listen os devs s")
  have "emits {TYPE_EVENT, TYPE_ERROR} s s'"
    using listen_listened[OF assms, of s os] r by (simp add: listened_def)
  then show ?thesis
    by (auto simp: listen_guarded_def try_except_def try_finally_def r cleanup_run ret_def emits_def
        split: sum.splits bool.splits option.splits)
qed


section \<open>Properties of the agent\<close>

lemma emits_split:
  "emits T s s' \<Longrightarrow> \<exists>ls. stdout s' = stdout s @ ls \<and> (\<forall>l \<in> set ls. \<exists>t \<in> T. msg_line t l)"
  by (simp add: emits_def)

text \<open>The run of the main program up to the point where the event loop starts.\<close>

lemma main_loop_run:
  assumes "get_devs os (s\<lparr>stdout := stdout s @ [dumps (message TYPE_SYNC (PDict [])) @ linesep]\<rparr>) = (Inr devs, s1)"
    and "s2 = s1\<lparr>ready := True, cover := (is_graphical_env os \<or> cover s1), stdout := stdout s1 @ [dumps (message TYPE_READY (PDict [])) @ linesep]\<rparr>"
  shows "main_loop os s =
     (if is_graphical_env os \<and> \<not> cover_shown os then (Inr False, s1\<lparr>ready := False, cover := True\<rparr>)
      else listen_guarded os devs s2)"
  using assms
  by (auto simp: main_loop_def agent_setup_def sync_notify_def ready_notify_def send_message_def py_defs)

lemma main_loop_fails:
  assumes "get_devs os (s\<lparr>stdout := stdout s @ [dumps (message TYPE_SYNC (PDict [])) @ linesep]\<rparr>) = (Inl e, s1)"
  shows "main_loop os s = (Inl e, s1)"
  using assms by (simp add: main_loop_def agent_setup_def sync_notify_def send_message_def py_defs)

text \<open>
  C4. The order of the messages of the agent, on every run and however it ends: one SYNC first,
  then descriptions of devices; either nothing but an error report follows those, or one READY
  and then only events and error reports.
\<close>

theorem main_loop_protocol:
  assumes "main_loop os agent_start = (r, s)"
  shows "\<exists>pre post.
    stdout s = (dumps (message TYPE_SYNC (PDict [])) @ linesep) # pre @ post
    \<and> (\<forall>l \<in> set pre. msg_line TYPE_INFO l \<or> post = [] \<and> msg_line TYPE_ERROR l)
    \<and> (post = [] \<or> (\<exists>evs. post = (dumps (message TYPE_READY (PDict [])) @ linesep) # evs
           \<and> (\<forall>l \<in> set evs. msg_line TYPE_EVENT l \<or> msg_line TYPE_ERROR l)))"
proof -
  let ?sync = "dumps (message TYPE_SYNC (PDict [])) @ linesep"
  let ?rdy = "dumps (message TYPE_READY (PDict [])) @ linesep"
  let ?s0 = "agent_start\<lparr>stdout := stdout agent_start @ [?sync]\<rparr>"
  obtain d s1 where g: "get_devs os ?s0 = (d, s1)" by (cases "get_devs os ?s0")
  have s0: "stdout ?s0 = [?sync]" by (simp add: agent_start_def)
  show ?thesis
  proof (cases d)
    case (Inl e)
    then have "emits {TYPE_INFO, TYPE_ERROR} ?s0 s1" using get_devs_opened[of ?s0 os] g by (simp add: opened_def)
    then obtain ls where "stdout s1 = ?sync # ls" "\<forall>l \<in> set ls. msg_line TYPE_INFO l \<or> msg_line TYPE_ERROR l"
      using s0 by (auto dest!: emits_split)
    moreover have "s = s1" using assms main_loop_fails[of os agent_start e s1] g Inl by simp
    ultimately show ?thesis by (intro exI[of _ ls] exI[of _ "[]"]) simp
  next
    case (Inr devs)
    then have o: "emits {TYPE_INFO} ?s0 s1" "devs_ok devs"
      using get_devs_opened[of ?s0 os] g by (simp_all add: opened_def)
    then obtain ls where ls: "stdout s1 = ?sync # ls" "\<forall>l \<in> set ls. msg_line TYPE_INFO l"
      using s0 by (auto dest!: emits_split)
    define s2 where "s2 = s1\<lparr>ready := True, cover := (is_graphical_env os \<or> cover s1), stdout := stdout s1 @ [?rdy]\<rparr>"
    note run = main_loop_run[OF g[unfolded Inr] s2_def]
    show ?thesis
    proof (cases "is_graphical_env os \<and> \<not> cover_shown os")
      case True
      then have "stdout s = ?sync # ls" using assms run ls by auto
      then show ?thesis using ls by (intro exI[of _ ls] exI[of _ "[]"]) simp
    next
      case False
      then have "listen_guarded os devs s2 = (r, s)" using assms run by (auto split: if_splits)
      then have "emits {TYPE_EVENT, TYPE_ERROR} s2 s"
        using listen_guarded_emits[OF o(2), of s2 os] by simp
      then obtain evs where evs: "stdout s = stdout s2 @ evs"
          "\<forall>l \<in> set evs. msg_line TYPE_EVENT l \<or> msg_line TYPE_ERROR l"
        by (auto dest!: emits_split)
      then have "stdout s = ?sync # ls @ ?rdy # evs" using ls by (simp add: s2_def)
      then show ?thesis using ls evs by (intro exI[of _ ls] exI[of _ "?rdy # evs"]) simp
    qed
  qed
qed



text \<open>A text-mode guest with one mouse, and a run in which the user interrupts the agent.\<close>

definition demo_os :: linux_os where
  "demo_os = \<lparr>procfs = [''H: Handlers=mouse0 event1'', []], os_open = (\<lambda>_. Inr 3),
     runlevel_out = Some ''N 3'', cover_shown = False, os_events = [Interrupt]\<rparr>"


theorem main_loop_protocol_witness:
  "\<exists>s pre post. main_loop demo_os agent_start = (Inr True, s)
    \<and> stdout s = (dumps (message TYPE_SYNC (PDict [])) @ linesep) # pre @ post
    \<and> length (stdout s) = 3"
proof -
  have run: "fst (main_loop demo_os agent_start) = Inr True" by code_simp
  then have eq: "main_loop demo_os agent_start = (Inr True, snd (main_loop demo_os agent_start))"
    by (metis prod.collapse)
  have "length (stdout (snd (main_loop demo_os agent_start))) = 3" by code_simp
  then show ?thesis using eq main_loop_protocol[OF eq] by blast
qed

text \<open>
  C23. A record the kernel writes on a little-endian LP64 system is read back field
  by field, the value as an unsigned 32-bit number: a relative motion of -1 arrives as 4294967295.
  A buffer of any other length is refused.
\<close>

theorem unpack_event_kernel_record:
  assumes "- (2 ^ 63) \<le> sec" "sec < 2 ^ 63" "- (2 ^ 63) \<le> usec" "usec < 2 ^ 63"
    and "0 \<le> ty" "ty < 2 ^ 16" "0 \<le> code" "code < 2 ^ 16"
  shows "unpack_event (pack_event (sec, usec, ty, code, value)) = Inr (sec, usec, ty, code, value mod 2 ^ 32)
    \<and> (length data \<noteq> 24 \<longrightarrow> (\<exists>m. unpack_event data = Inl (StructError m)))"
  using unpack_pack[OF assms] by (simp add: unpack_event_def EV_PACK_SIZE_def)

theorem unpack_event_kernel_record_witness:
  "unpack_event (pack_event (1700000000, 5, 2, 0, - 1)) = Inr (1700000000, 5, 2, 0, 4294967295)
    \<and> (\<exists>m. unpack_event [1, 2, 3] = Inl (StructError m))"
  using unpack_event_kernel_record[of 1700000000 5 2 0 "- 1" "[1, 2, 3]"] by simp

text \<open>
  Which devices are opened: those with a pointer handler, and those with a keyboard
  handler whose capability bitmap has synchronisation, keys, LEDs and auto-repeat; the node to open is
  the last event handler.
\<close>

lemma scan_handlers_selects:
  assumes "dget info ''bitmaps'' = Some (PDict b)" and "dget b ''ev'' = Some (PStr ev)"
    and "int_of_hex (''0x'' @ ev) = Inr flags"
  shows "scan_handlers info hs (PNone, False) =
    Inr (case filter (\<lambda>h. startswith h ''event'') hs of [] \<Rightarrow> PNone | e # es \<Rightarrow> PStr (last (e # es)),
         (\<exists>h \<in> set hs. startswith h ''mouse'')
         \<or> (\<exists>h \<in> set hs. startswith h ''kbd'') \<and> bit flags 0 \<and> bit flags 1 \<and> bit flags 17 \<and> bit flags 20)"
proof -
  have k: "is_keyboard info = Inr (bit flags 0 \<and> bit flags 1 \<and> bit flags 17 \<and> bit flags 20)"
    using assms by (simp add: is_keyboard_def dindex_def pindex_def keyboard_flags)
  show ?thesis unfolding scan_handlers_select[OF k] by simp
qed

text \<open>
  Each section of the device list that an empty line ends gives one
  description, read from that section alone, and a malformed line of any of them fails the whole
  parse; a last section that no empty line ends is left out.
\<close>

lemma parse_procfs_sections:
  assumes "\<forall>sec \<in> set (open_sec # secs). \<forall>l \<in> set sec. \<not> blank l" and "section_info open_sec [] = Inr i"
  shows "parse_procfs_entry (concat (map (\<lambda>sec. sec @ [[]]) secs) @ open_sec) = rmap (\<lambda>sec. section_info sec []) secs"
  using assms procfs_lines_sections[of secs open_sec "[]"]
  by (cases "rmap (\<lambda>sec. section_info sec []) secs")
     (auto simp: parse_procfs_entry_def procfs_lines_section[of open_sec "[]", simplified])

text \<open>
  A failed read reports the error and stops watching the descriptor, and
  then reports an event all the same: the last one read, from whichever device it came, under the name
  of the device that failed.  When no event was read before, the agent dies of an unbound variable.
\<close>

lemma listen_fd_failed_read:
  assumes "dget devs fd = Some (dev, info)" and "read_event r = Inl m" and "fd \<in> set watch"
  shows "listen_fd devs (fd, r) (watch, Some ev) s =
      (Inr (remove1 fd watch, Some ev), s\<lparr>stdout := stdout s @
         [dumps (message TYPE_ERROR (PDict [(''device'', dev), (''message'', PStr (''failed to get event: '' @ m))])) @ linesep,
          dumps (message TYPE_EVENT (PDict [(''device'', dev), (''event'', PDict (format_event ev))])) @ linesep]\<rparr>)
    \<and> fst (listen_fd devs (fd, r) (watch, None) s) = Inl (UnboundLocalError ''raw_event'')"
  using assms by (simp add: listen_fd_def error_notify_def event_notify_def py_remove_def py_defs send_message_def)

end
