(* ===== verification/Input_Agent_Win.thy ===== *)
theory Input_Agent_Win
  imports Agent_Messages Input_Tables
begin

text \<open>
  The agent that runs inside a Windows guest (\<^verbatim>\<open>deps/input_event/input_event_win.py\<close>): two low-level
  hooks that turn every keyboard and pointer event into a message, and a full-screen window whose
  first configure event announces that the agent is ready.  The functions and constants of the
  Windows API are a parameter, the structures the hooks receive keep their 32-bit fields.
\<close>

section \<open>State and environment\<close>

record win_agent =
  wout :: "string list"
  KEYBOARD_HOOK :: "int option"
  MOUSE_HOOK :: "int option"
  exit_unhook :: "int list"
  notified :: bool

definition win_start :: win_agent where
  "win_start = \<lparr>wout = [], KEYBOARD_HOOK = None, MOUSE_HOOK = None, exit_unhook = [], notified = False\<rparr>"

record win_api =
  HC_ACTION :: int
  VK_F11 :: int
  WH_KEYBOARD_LL :: int
  WH_MOUSE_LL :: int
  SetWindowsHook :: "int \<Rightarrow> int"
  CallNextHookEx :: "int option \<Rightarrow> int \<Rightarrow> 64 word \<Rightarrow> int"

record KBDLLHOOKSTRUCT =
  vkCode :: "32 word"
  scanCode :: "32 word"
  kflags :: "32 word"
  ktime :: "32 word"

record MSLLHOOKSTRUCT =
  pt_x :: "32 word"
  pt_y :: "32 word"
  mouseData :: "32 word"
  mflags :: "32 word"
  mtime :: "32 word"

text \<open>What the message loop of the window dispatches.\<close>

datatype win_event =
    KeyEvent int "64 word" KBDLLHOOKSTRUCT
  | MouseEvent int "64 word" MSLLHOOKSTRUCT
  | Configure

section \<open>Messages\<close>

definition win_linesep :: string where
  "win_linesep = [CHR 0x0D, CHR 0x0A]"

definition win_send_message :: "string \<Rightarrow> pyval \<Rightarrow> (win_agent, unit) py" where
  "win_send_message mtype content =
     modify (\<lambda>s. s\<lparr>wout := wout s @ [dumps (message mtype content) @ win_linesep]\<rparr>)"

definition win_sync_notify :: "(win_agent, unit) py" where
  "win_sync_notify = win_send_message TYPE_SYNC (PDict [])"

definition win_info_notify :: "string \<Rightarrow> pyval \<Rightarrow> (win_agent, unit) py" where
  "win_info_notify dev info = win_send_message TYPE_INFO (PDict [(''device'', PStr dev), (''info'', info)])"

definition win_ready_notify :: "(win_agent, unit) py" where
  "win_ready_notify = win_send_message TYPE_READY (PDict [])"

definition win_event_notify :: "string \<Rightarrow> pyval \<Rightarrow> (win_agent, unit) py" where
  "win_event_notify dev event = win_send_message TYPE_EVENT (PDict [(''device'', PStr dev), (''event'', event)])"

definition win_error_notify :: "string \<Rightarrow> pyval \<Rightarrow> (win_agent, unit) py" where
  "win_error_notify err dev = win_send_message TYPE_ERROR (PDict [(''device'', dev), (''message'', PStr err)])"

section \<open>The keyboard hook\<close>

definition KEYBOARD_DEV :: string where "KEYBOARD_DEV = ''keyboard''"
definition MOUSE_DEV :: string where "MOUSE_DEV = ''pointer''"

definition flags_text :: "32 word \<Rightarrow> string list" where
  "flags_text flags =
     (if flags AND 1 \<noteq> 0 then [''EXTENDED''] else [])
     @ (if drop_bit 5 flags AND 1 \<noteq> 0 then [''ALTDOWN''] else [])
     @ (if drop_bit 7 flags AND 1 \<noteq> 0 then [''UP''] else [])"

definition key_event :: "64 word \<Rightarrow> KBDLLHOOKSTRUCT \<Rightarrow> pydict" where
  "key_event wParam raw_event =
     [(''typeNum'', PInt (uint wParam)),
      (''typeName'', PStr (dget_default WPARAM_TYPES (uint wParam) ''UNKNOWN'')),
      (''vkCode'', PInt (uint (vkCode raw_event))),
      (''vkCodeName'', PStr (dget_default VK_CODES (uint (vkCode raw_event)) ''UNKNOWN'')),
      (''scanCode'', PInt (uint (scanCode raw_event))),
      (''flags'', PInt (uint (kflags raw_event))),
      (''flagsText'', PList (map PStr (flags_text (kflags raw_event)))),
      (''timestamp'', PInt (uint (ktime raw_event)))]"

definition LowLevelKeyboardProc ::
    "win_api \<Rightarrow> int \<Rightarrow> 64 word \<Rightarrow> KBDLLHOOKSTRUCT \<Rightarrow> (win_agent, int) py" where
  "LowLevelKeyboardProc api nCode wParam raw_event =
     (if nCode \<noteq> HC_ACTION api
      then gets (\<lambda>s. CallNextHookEx api (KEYBOARD_HOOK s) nCode wParam)
      else bnd (win_event_notify KEYBOARD_DEV (PDict (key_event wParam raw_event))) (\<lambda>_.
        if uint (vkCode raw_event) = VK_F11 api
        then gets (\<lambda>s. CallNextHookEx api (KEYBOARD_HOOK s) nCode wParam)
        else ret 1))"

definition register_keyboard_hook :: "win_api \<Rightarrow> (win_agent, unit) py" where
  "register_keyboard_hook api =
     (let h = SetWindowsHook api (WH_KEYBOARD_LL api) in
      modify (\<lambda>s. s\<lparr>KEYBOARD_HOOK := Some h, exit_unhook := exit_unhook s @ [h]\<rparr>))"

definition disable_hotkeys :: "(win_agent, unit) py" where
  "disable_hotkeys = ret ()"

section \<open>The pointer hook\<close>

definition mouse_data_text :: "64 word \<Rightarrow> 32 word \<Rightarrow> string" where
  "mouse_data_text wParam mouse_data =
     (let value = drop_bit 16 mouse_data in
      if wParam = 0x020A \<or> wParam = 0x020E then
        (if value = 0x0078 then ''WHEELFORWARD'' else if value = 0xFF88 then ''WHEELBACKWARD'' else [])
      else if wParam = 0x020B \<or> wParam = 0x020C then
        (if value AND 1 \<noteq> 0 then ''XBUTTON1'' else if value AND 2 \<noteq> 0 then ''XBUTTON2'' else [])
      else [])"

definition mouse_event :: "64 word \<Rightarrow> MSLLHOOKSTRUCT \<Rightarrow> pydict" where
  "mouse_event wParam raw_event =
     [(''typeNum'', PInt (uint wParam)),
      (''typeName'', PStr (dget_default WPARAM_TYPES (uint wParam) ''UNKNOWN'')),
      (''xPos'', PInt (sint (pt_x raw_event))),
      (''yPos'', PInt (sint (pt_y raw_event))),
      (''mouseData'', PInt (uint (mouseData raw_event))),
      (''mouseDataText'', PStr (mouse_data_text wParam (mouseData raw_event))),
      (''flags'', PInt (uint (mflags raw_event))),
      (''timestamp'', PInt (uint (mtime raw_event)))]"

definition LowLevelMouseProc ::
    "win_api \<Rightarrow> int \<Rightarrow> 64 word \<Rightarrow> MSLLHOOKSTRUCT \<Rightarrow> (win_agent, int) py" where
  "LowLevelMouseProc api nCode wParam raw_event =
     (if nCode \<noteq> HC_ACTION api
      then gets (\<lambda>s. CallNextHookEx api (MOUSE_HOOK s) nCode wParam)
      else bnd (win_event_notify MOUSE_DEV (PDict (mouse_event wParam raw_event))) (\<lambda>_.
        gets (\<lambda>s. CallNextHookEx api (MOUSE_HOOK s) nCode wParam)))"

definition register_pointer_hook :: "win_api \<Rightarrow> (win_agent, unit) py" where
  "register_pointer_hook api =
     (let h = SetWindowsHook api (WH_MOUSE_LL api) in
      modify (\<lambda>s. s\<lparr>MOUSE_HOOK := Some h, exit_unhook := exit_unhook s @ [h]\<rparr>))"

section \<open>The window and the main program\<close>

definition on_fullscreen :: "(win_agent, unit) py" where
  "on_fullscreen =
     bnd (gets notified) (\<lambda>n.
       if \<not> n then bnd win_ready_notify (\<lambda>_. modify (\<lambda>s. s\<lparr>notified := True\<rparr>)) else ret ())"

text \<open>The loop returns the answers of the hooks to the system, in order.\<close>

fun mainloop :: "win_api \<Rightarrow> win_event list \<Rightarrow> (win_agent, int list) py" where
  "mainloop api [] = ret []"
| "mainloop api (KeyEvent n w k # evs) =
     bnd (LowLevelKeyboardProc api n w k) (\<lambda>r. bnd (mainloop api evs) (\<lambda>rs. ret (r # rs)))"
| "mainloop api (MouseEvent n w k # evs) =
     bnd (LowLevelMouseProc api n w k) (\<lambda>r. bnd (mainloop api evs) (\<lambda>rs. ret (r # rs)))"
| "mainloop api (Configure # evs) = bnd on_fullscreen (\<lambda>_. mainloop api evs)"

definition win_main :: "win_api \<Rightarrow> win_event list \<Rightarrow> (win_agent, int list) py" where
  "win_main api evs =
     bnd win_sync_notify (\<lambda>_.
     bnd disable_hotkeys (\<lambda>_.
     bnd (register_keyboard_hook api) (\<lambda>_.
     bnd (win_info_notify KEYBOARD_DEV (PDict [])) (\<lambda>_.
     bnd (register_pointer_hook api) (\<lambda>_.
     bnd (win_info_notify MOUSE_DEV (PDict [])) (\<lambda>_.
     bnd (modify (\<lambda>s. s\<lparr>notified := False\<rparr>)) (\<lambda>_. mainloop api evs)))))))"

section \<open>Notions of the proofs\<close>

text \<open>The message an event of the loop gives rise to, given whether readiness was announced before.\<close>

fun event_messages :: "int \<Rightarrow> bool \<Rightarrow> win_event list \<Rightarrow> pyval list" where
  "event_messages act n [] = []"
| "event_messages act n (KeyEvent c w k # evs) =
     (if c = act then [message TYPE_EVENT (PDict [(''device'', PStr KEYBOARD_DEV), (''event'', PDict (key_event w k))])]
      else []) @ event_messages act n evs"
| "event_messages act n (MouseEvent c w k # evs) =
     (if c = act then [message TYPE_EVENT (PDict [(''device'', PStr MOUSE_DEV), (''event'', PDict (mouse_event w k))])]
      else []) @ event_messages act n evs"
| "event_messages act n (Configure # evs) =
     (if n then [] else [message TYPE_READY (PDict [])]) @ event_messages act True evs"

definition announced :: "string list \<Rightarrow> pyval list" where
  "announced = map (\<lambda>l. the (loads l))"

section \<open>Lemmas\<close>

lemma key_event_ok [simp]: "json_ok_items (key_event w k)" "dict_ok (key_event w k)"
  by (simp_all add: key_event_def dict_ok_def)

lemma mouse_event_ok [simp]: "json_ok_items (mouse_event w k)" "dict_ok (mouse_event w k)"
  by (simp_all add: mouse_event_def dict_ok_def)

lemma dict_ok_two [simp]: "dict_ok [(k, v), (k', v')] \<longleftrightarrow> k \<noteq> k'"
  by (simp add: dict_ok_def)

lemma loads_win_line: "json_ok c \<Longrightarrow> loads (dumps (message t c) @ win_linesep) = Some (message t c)"
  using json.dec_enc[of "message t c" win_linesep] by (simp add: win_linesep_def json_ws_def)

interpretation win_out: message_writer wout win_send_message
  by unfold_locales (simp_all add: win_send_message_def modify_def loads_win_line)

lemma win_send_run [py_run]:
  "win_send_message t c s = (Inr (), s\<lparr>wout := wout s @ [dumps (message t c) @ win_linesep]\<rparr>)"
  by (simp add: win_send_message_def modify_def)

lemma keyboard_proc_run:
  "LowLevelKeyboardProc api n w k s =
     (if n \<noteq> HC_ACTION api then (Inr (CallNextHookEx api (KEYBOARD_HOOK s) n w), s)
      else (Inr (if uint (vkCode k) = VK_F11 api then CallNextHookEx api (KEYBOARD_HOOK s) n w else 1),
            s\<lparr>wout := wout s @ [dumps (message TYPE_EVENT (PDict [(''device'', PStr KEYBOARD_DEV),
                (''event'', PDict (key_event w k))])) @ win_linesep]\<rparr>))"
  by (simp add: LowLevelKeyboardProc_def win_event_notify_def win_send_message_def py_defs)

lemma mouse_proc_run:
  "LowLevelMouseProc api n w k s =
     (Inr (CallNextHookEx api (MOUSE_HOOK s) n w),
      if n \<noteq> HC_ACTION api then s
      else s\<lparr>wout := wout s @ [dumps (message TYPE_EVENT (PDict [(''device'', PStr MOUSE_DEV),
             (''event'', PDict (mouse_event w k))])) @ win_linesep]\<rparr>)"
  by (simp add: LowLevelMouseProc_def win_event_notify_def win_send_message_def py_defs)

lemma on_fullscreen_run:
  "on_fullscreen s =
     (Inr (), if notified s then s
              else s\<lparr>wout := wout s @ [dumps (message TYPE_READY (PDict [])) @ win_linesep], notified := True\<rparr>)"
  by (simp add: on_fullscreen_def win_ready_notify_def win_send_message_def py_defs)

lemma announced_append [simp]: "announced (xs @ ys) = announced xs @ announced ys"
  by (simp add: announced_def)

lemma announced_line [simp]:
  "json_ok c \<Longrightarrow> announced [dumps (message t c) @ win_linesep] = [message t c]"
  by (simp add: announced_def loads_win_line)

lemma mainloop_run:
  "\<exists>rs s'. mainloop api evs s = (Inr rs, s')
    \<and> announced (wout s') = announced (wout s) @ event_messages (HC_ACTION api) (notified s) evs
    \<and> exit_unhook s' = exit_unhook s
    \<and> KEYBOARD_HOOK s' = KEYBOARD_HOOK s \<and> MOUSE_HOOK s' = MOUSE_HOOK s"
proof (induction api evs arbitrary: s rule: mainloop.induct)
  case (1 api)
  then show ?case by (simp add: ret_def)
next
  case (2 api n w k evs)
  let ?s1 = "snd (LowLevelKeyboardProc api n w k s)"
  obtain rs s' where r: "mainloop api evs ?s1 = (Inr rs, s')"
    "announced (wout s') = announced (wout ?s1) @ event_messages (HC_ACTION api) (notified ?s1) evs"
    "exit_unhook s' = exit_unhook ?s1" "KEYBOARD_HOOK s' = KEYBOARD_HOOK ?s1" "MOUSE_HOOK s' = MOUSE_HOOK ?s1"
    using 2 by blast
  then show ?case by (auto simp: keyboard_proc_run py_defs)
next
  case (3 api n w k evs)
  let ?s1 = "snd (LowLevelMouseProc api n w k s)"
  obtain rs s' where r: "mainloop api evs ?s1 = (Inr rs, s')"
    "announced (wout s') = announced (wout ?s1) @ event_messages (HC_ACTION api) (notified ?s1) evs"
    "exit_unhook s' = exit_unhook ?s1" "KEYBOARD_HOOK s' = KEYBOARD_HOOK ?s1" "MOUSE_HOOK s' = MOUSE_HOOK ?s1"
    using 3 by blast
  then show ?case by (auto simp: mouse_proc_run py_defs)
next
  case (4 api evs)
  let ?s1 = "snd (on_fullscreen s)"
  obtain rs s' where r: "mainloop api evs ?s1 = (Inr rs, s')"
    "announced (wout s') = announced (wout ?s1) @ event_messages (HC_ACTION api) (notified ?s1) evs"
    "exit_unhook s' = exit_unhook ?s1" "KEYBOARD_HOOK s' = KEYBOARD_HOOK ?s1" "MOUSE_HOOK s' = MOUSE_HOOK ?s1"
    using 4 by blast
  then show ?case by (auto simp: on_fullscreen_run py_defs)
qed

lemma ready_count:
  "count_list (event_messages act n evs) (message TYPE_READY (PDict [])) =
     (if n \<or> Configure \<notin> set evs then 0 else 1)"
  by (induction act n evs rule: event_messages.induct) (auto simp: TYPE_defs)

lemma uint_high_half: "uint (drop_bit 16 (d :: 32 word)) = uint d div 2 ^ 16"
  using uint_lt2p[of d] by (subst unsigned_drop_bit_eq) (simp add: drop_bit_eq_div take_bit_int_eq_self)

lemma sint_low_half: "sint (ucast (w :: 32 word) :: 16 word) = signed_take_bit 15 (uint w)"
  by transfer (simp add: signed_take_bit_take_bit)

lemma signed_half:
  fixes v :: int
  assumes "0 \<le> v" and "v < 2 ^ 16"
  shows "signed_take_bit 15 v = (if v < 2 ^ 15 then v else v - 2 ^ 16)"
proof (cases "v < 2 ^ 15")
  case True
  then show ?thesis using assms by (simp add: signed_take_bit_int_eq_self)
next
  case False
  have "signed_take_bit 15 v = signed_take_bit 15 (v - 2 ^ 16)"
    by (simp add: signed_take_bit_eq_iff_take_bit_eq take_bit_eq_mod)
  also have "\<dots> = v - 2 ^ 16" using False assms by (intro signed_take_bit_int_eq_self) auto
  finally show ?thesis using False by simp
qed

text \<open>The notch delta is the signed upper half of the mouse data.\<close>

lemma wheel_delta:
  fixes d :: "32 word"
  shows "drop_bit 16 d = 0x0078 \<longleftrightarrow> sint (ucast (drop_bit 16 d) :: 16 word) = 120"
    and "drop_bit 16 d = 0xFF88 \<longleftrightarrow> sint (ucast (drop_bit 16 d) :: 16 word) = - 120"
proof -
  define v where "v = uint (drop_bit 16 d)"
  have v: "0 \<le> v" "v < 2 ^ 16"
    using uint_lt2p[of d] by (auto simp: v_def uint_high_half div_int_pos_iff)
  have eq: "drop_bit 16 d = w \<longleftrightarrow> v = uint w" for w
    unfolding v_def by (rule word_uint_eq_iff)
  have s: "sint (ucast (drop_bit 16 d) :: 16 word) = (if v < 2 ^ 15 then v else v - 2 ^ 16)"
    unfolding sint_low_half v_def[symmetric] by (rule signed_half[OF v])
  show "drop_bit 16 d = 0x0078 \<longleftrightarrow> sint (ucast (drop_bit 16 d) :: 16 word) = 120"
    using v unfolding s eq by auto
  show "drop_bit 16 d = 0xFF88 \<longleftrightarrow> sint (ucast (drop_bit 16 d) :: 16 word) = - 120"
    using v unfolding s eq by auto
qed

section \<open>Properties of the agent\<close>

text \<open>
  What the agent writes on any run: a SYNC, the two devices, and then one event message for each
  event that is an action, in order, with READY exactly once, at the first configure event of the
  window; every hook it installed is registered to be removed at exit.
\<close>

lemma win_main_messages:
  "\<exists>rs s. win_main api evs win_start = (Inr rs, s)
    \<and> announced (wout s) =
        message TYPE_SYNC (PDict [])
        # message TYPE_INFO (PDict [(''device'', PStr KEYBOARD_DEV), (''info'', PDict [])])
        # message TYPE_INFO (PDict [(''device'', PStr MOUSE_DEV), (''info'', PDict [])])
        # event_messages (HC_ACTION api) False evs
    \<and> count_list (announced (wout s)) (message TYPE_READY (PDict [])) = (if Configure \<in> set evs then 1 else 0)
    \<and> exit_unhook s = [the (KEYBOARD_HOOK s), the (MOUSE_HOOK s)]"
proof -
  let ?l = "\<lambda>t c. dumps (message t c) @ win_linesep"
  let ?s = "\<lparr>wout = [?l TYPE_SYNC (PDict []),
      ?l TYPE_INFO (PDict [(''device'', PStr KEYBOARD_DEV), (''info'', PDict [])]),
      ?l TYPE_INFO (PDict [(''device'', PStr MOUSE_DEV), (''info'', PDict [])])],
      KEYBOARD_HOOK = Some (SetWindowsHook api (WH_KEYBOARD_LL api)),
      MOUSE_HOOK = Some (SetWindowsHook api (WH_MOUSE_LL api)),
      exit_unhook = [SetWindowsHook api (WH_KEYBOARD_LL api), SetWindowsHook api (WH_MOUSE_LL api)],
      notified = False\<rparr>"
  have "win_main api evs win_start = mainloop api evs ?s"
    by (simp add: win_main_def win_start_def win_sync_notify_def disable_hotkeys_def register_keyboard_hook_def
        win_info_notify_def register_pointer_hook_def win_send_message_def Let_def py_defs)
  moreover have "announced (wout ?s) = [message TYPE_SYNC (PDict []),
      message TYPE_INFO (PDict [(''device'', PStr KEYBOARD_DEV), (''info'', PDict [])]),
      message TYPE_INFO (PDict [(''device'', PStr MOUSE_DEV), (''info'', PDict [])])]" (is "_ = ?ms")
    by (simp add: announced_def loads_win_line)
  moreover have "count_list ?ms (message TYPE_READY (PDict [])) = 0" by (simp add: TYPE_defs)
  ultimately show ?thesis using mainloop_run[of api evs ?s] by (auto simp: ready_count)
qed

text \<open>
  Every key event is reported once and kept from the rest of the system, save F11, which is
  passed on; a call that is not an action is passed on and reports nothing.
\<close>

lemma keyboard_proc_swallows:
  "\<exists>r s'. LowLevelKeyboardProc api n w k s = (Inr r, s')
    \<and> announced (wout s') = announced (wout s) @ (if n = HC_ACTION api
        then [message TYPE_EVENT (PDict [(''device'', PStr KEYBOARD_DEV), (''event'', PDict (key_event w k))])] else [])
    \<and> r = (if n = HC_ACTION api \<and> uint (vkCode k) \<noteq> VK_F11 api then 1
           else CallNextHookEx api (KEYBOARD_HOOK s) n w)"
  by (simp add: keyboard_proc_run)

text \<open>
  A wheel message is a forward or backward notch exactly when the signed 16-bit delta in the upper
  half of the mouse data is 120 or -120; other deltas, such as those of a high-resolution wheel, get
  an empty text.
\<close>

lemma wheel_direction:
  fixes d :: "32 word"
  assumes "w \<in> {0x020A, 0x020E}" and "delta = sint (ucast (drop_bit 16 d) :: 16 word)"
  shows "mouse_data_text w d =
    (if delta = 120 then ''WHEELFORWARD'' else if delta = - 120 then ''WHEELBACKWARD'' else [])"
  using assms(1) unfolding mouse_data_text_def Let_def wheel_delta assms(2) by auto

end
