(* ===== verification/Input_Proxy.thy ===== *)
theory Input_Proxy
  imports Input_Agent_Linux Input_Agent_Win
begin

text \<open>
  The listener on the host (\<^verbatim>\<open>provider/input_event_proxy.py\<close>): it copies an agent into the guest, starts
  it, reads its lines and queues the input events.  A class is the pair of methods its subclass
  overrides, passed to the methods of the base class.  The guest session belongs to the framework: the
  lines it delivers before each poll of \<open>wait_for\<close>, the exceptions of the callback it survives, and the
  answers of the VM object are parameters.
\<close>

section \<open>State\<close>

datatype agent_state = STOPPED | GREETING | LISTENING

record listener =
  events :: "pydict list"
  targets :: "(pyval \<times> pyval) list"
  ctrl_sh :: bool
  agent_sh :: bool
  agent_st :: agent_state
  buffers :: "(pyval \<times> pydict) list option"
  guest_log :: "string list"

text \<open>
  \<open>buffers\<close> is the attribute \<^verbatim>\<open>_buffers\<close> of the Linux class, \<open>None\<close> while it is not set; \<open>guest_log\<close> is
  the sequence of commands and files sent to the guest.
\<close>

record guest =
  agent_exists :: bool
  login :: "unit res"
  copy_files_to :: "unit res"
  polls :: "string list list"
  survives :: "exc \<Rightarrow> bool"

section \<open>Constants\<close>

definition EventTypeKey :: string where "EventTypeKey = ''type''"
definition DevNameKey :: string where "DevNameKey = ''device''"

definition EventType_KEYDOWN :: string where "EventType_KEYDOWN = ''KEYDOWN''"
definition EventType_KEYUP :: string where "EventType_KEYUP = ''KEYUP''"
definition EventType_POINTERMOVE :: string where "EventType_POINTERMOVE = ''POINTERMOVE''"
definition EventType_WHEELFORWARD :: string where "EventType_WHEELFORWARD = ''WHEELFORWARD''"
definition EventType_WHEELBACKWARD :: string where "EventType_WHEELBACKWARD = ''WHEELBACKWARD''"
definition EventType_UNKNOWN :: string where "EventType_UNKNOWN = ''UNKNOWN''"

lemmas EventType_defs = EventType_KEYDOWN_def EventType_KEYUP_def EventType_POINTERMOVE_def
  EventType_WHEELFORWARD_def EventType_WHEELBACKWARD_def EventType_UNKNOWN_def EventTypeKey_def DevNameKey_def

datatype agent_message_type = MT_SYNC | MT_INFO | MT_READY | MT_EVENT | MT_ERROR

fun AgentMessageType :: "agent_message_type \<Rightarrow> string" where
  "AgentMessageType MT_SYNC = ''SYNC''"
| "AgentMessageType MT_INFO = ''INFO''"
| "AgentMessageType MT_READY = ''READY''"
| "AgentMessageType MT_EVENT = ''EVENT''"
| "AgentMessageType MT_ERROR = ''ERROR''"

definition check_key :: "pyval \<Rightarrow> (listener, unit) py" where
  "check_key k = (if hashable k then ret () else throw (TypeError ''unhashable type''))"

definition key_text :: "pyval \<Rightarrow> string" where
  "key_text v = (case v of PStr s \<Rightarrow> s | _ \<Rightarrow> dumps v)"

section \<open>The base class\<close>

type_synonym handler = "pyval \<Rightarrow> (listener, unit) py"

definition base_report_info :: handler where
  "base_report_info content =
     bnd (lift_res (pindex content ''device'')) (\<lambda>dev.
     bnd (lift_res (pindex content ''info'')) (\<lambda>info.
     bnd (check_key dev) (\<lambda>_. modify (\<lambda>s. s\<lparr>targets := dset dev info (targets s)\<rparr>))))"

definition report_error :: handler where
  "report_error content = ret ()"

definition set_state :: "agent_state \<Rightarrow> (listener, unit) py" where
  "set_state st = modify (\<lambda>s. s\<lparr>agent_st := st\<rparr>)"

definition parse_output :: "handler \<Rightarrow> handler \<Rightarrow> string \<Rightarrow> (listener, unit) py" where
  "parse_output report_info parse_platform_event line =
     (case loads line of
        None \<Rightarrow> ret ()
      | Some msg \<Rightarrow>
          bnd (lift_res (pindex msg ''type'')) (\<lambda>mtype.
          bnd (lift_res (pindex msg ''content'')) (\<lambda>content.
            if mtype = PStr (AgentMessageType MT_SYNC) then set_state GREETING
            else if mtype = PStr (AgentMessageType MT_INFO) then report_info content
            else if mtype = PStr (AgentMessageType MT_READY) then set_state LISTENING
            else if mtype = PStr (AgentMessageType MT_EVENT) then parse_platform_event content
            else if mtype = PStr (AgentMessageType MT_ERROR) then report_error content
            else ret ())))"

definition is_listening :: "listener \<Rightarrow> bool" where
  "is_listening s \<longleftrightarrow> agent_st s = LISTENING"

text \<open>
  The session hands each line to \<open>parse_output\<close>; an exception it does not survive ends the delivery.
\<close>

fun deliver :: "(exc \<Rightarrow> bool) \<Rightarrow> (string \<Rightarrow> (listener, unit) py) \<Rightarrow> string list \<Rightarrow> listener \<Rightarrow> bool \<times> listener" where
  "deliver surv f [] s = (True, s)"
| "deliver surv f (l # ls) s =
     (case f l s of
        (Inr _, s') \<Rightarrow> deliver surv f ls s'
      | (Inl e, s') \<Rightarrow> if surv e then deliver surv f ls s' else (False, s'))"

text \<open>\<open>wait_for(self.is_listening, ...)\<close>: the lines of each poll arrive before it looks at the state.\<close>

fun wait_listening :: "(exc \<Rightarrow> bool) \<Rightarrow> (string \<Rightarrow> (listener, unit) py) \<Rightarrow> string list list \<Rightarrow> listener \<Rightarrow> bool \<times> listener" where
  "wait_listening surv f [] s = (False, s)"
| "wait_listening surv f (ls # lss) s =
     (case deliver surv f ls s of
        (alive, s') \<Rightarrow>
          if is_listening s' then (True, s')
          else if alive then wait_listening surv f lss s' else (False, s'))"

definition log :: "string \<Rightarrow> (listener, unit) py" where
  "log l = modify (\<lambda>s. s\<lparr>guest_log := guest_log s @ [l]\<rparr>)"

definition listener_install :: "guest \<Rightarrow> string \<Rightarrow> (listener, unit) py" where
  "listener_install g agent_target =
     (if \<not> agent_exists g then throw (IOError ''agent program is missing'')
      else bnd (lift_res (copy_files_to g)) (\<lambda>_. log agent_target))"

definition listener_launch :: "guest \<Rightarrow> string \<Rightarrow> string \<Rightarrow> (listener, unit) py" where
  "listener_launch g python_bin agent_target =
     bnd (lift_res (login g)) (\<lambda>_.
     bnd (modify (\<lambda>s. s\<lparr>agent_sh := True\<rparr>)) (\<lambda>_.
       log (join '' '' [python_bin, agent_target])))"

definition listener_terminate :: "(listener, unit) py" where
  "listener_terminate =
     bnd (gets agent_sh) (\<lambda>sh.
       if \<not> sh then throw (AttributeError ''sendcontrol'')
       else bnd (log ''^c'') (\<lambda>_. modify (\<lambda>s. s\<lparr>agent_sh := False, agent_st := STOPPED\<rparr>)))"

definition listener_listen :: "guest \<Rightarrow> handler \<Rightarrow> handler \<Rightarrow> string \<Rightarrow> string \<Rightarrow> (listener, unit) py" where
  "listener_listen g report_info parse_platform_event python_bin agent_target =
     bnd (listener_launch g python_bin agent_target) (\<lambda>_ s.
       case wait_listening (survives g) (parse_output report_info parse_platform_event) (polls g) s of
         (ok, s') \<Rightarrow> (if ok then Inr () else Inl (AssertionError ''agent program is not running''), s'))"

definition listener_cleanup :: "(listener, unit) py \<Rightarrow> (listener, unit) py" where
  "listener_cleanup uninstall =
     bnd listener_terminate (\<lambda>_. bnd uninstall (\<lambda>_. modify (\<lambda>s. s\<lparr>ctrl_sh := False\<rparr>)))"

text \<open>\<open>while not self.events.empty(): self.events.get()\<close>\<close>

function drain :: "listener \<Rightarrow> listener" where
  "drain s = (if events s = [] then s else drain (s\<lparr>events := tl (events s)\<rparr>))"
  by pat_completeness auto
termination
  by (relation "measure (\<lambda>s. length (events s))") auto

declare drain.simps [simp del]

definition clear_events :: "(listener, unit) py" where
  "clear_events = modify drain"

definition listener_fresh :: listener where
  "listener_fresh = \<lparr>events = [], targets = [], ctrl_sh = False, agent_sh = False, agent_st = STOPPED,
     buffers = None, guest_log = []\<rparr>"

definition base_init :: "guest \<Rightarrow> handler \<Rightarrow> handler \<Rightarrow> string \<Rightarrow> string \<Rightarrow> (listener, unit) py" where
  "base_init g report_info parse_platform_event python_bin agent_target =
     bnd (modify (\<lambda>s. s\<lparr>events := [], targets := []\<rparr>)) (\<lambda>_.
     bnd (lift_res (login g)) (\<lambda>_.
     bnd (modify (\<lambda>s. s\<lparr>ctrl_sh := True, agent_sh := False, agent_st := STOPPED\<rparr>)) (\<lambda>_.
     bnd (listener_install g agent_target) (\<lambda>_.
       listener_listen g report_info parse_platform_event python_bin agent_target))))"

section \<open>The Linux listener\<close>

definition linux_agent_target :: string where "linux_agent_target = ''/tmp/input_event.py''"
definition linux_python_bin :: string where "linux_python_bin = ''`command -v python python3 | head -1`''"
definition WHEEL_FORWARD_VALUE :: int where "WHEEL_FORWARD_VALUE = 0x00000001"
definition WHEEL_BACKWARD_VALUE :: int where "WHEEL_BACKWARD_VALUE = 0xFFFFFFFF"

definition linux_uninstall :: "(listener, unit) py" where
  "linux_uninstall = log (join '' '' [''rm'', ''-f'', linux_agent_target])"

text \<open>\<open>self._buffers\<close>, which does not exist before the constructor of the base class has returned.\<close>

definition get_buffers :: "(listener, (pyval \<times> pydict) list) py" where
  "get_buffers =
     bnd (gets buffers) (\<lambda>b. case b of None \<Rightarrow> throw (AttributeError ''_buffers'') | Some bs \<Rightarrow> ret bs)"

definition set_buffer :: "pyval \<Rightarrow> pydict \<Rightarrow> (listener, unit) py" where
  "set_buffer dev b =
     bnd get_buffers (\<lambda>bs. modify (\<lambda>s. s\<lparr>buffers := Some (dset dev b bs)\<rparr>))"

definition linux_report_info :: handler where
  "linux_report_info content =
     bnd (base_report_info content) (\<lambda>_.
     bnd (lift_res (pindex content ''device'')) (\<lambda>dev. set_buffer dev []))"

definition put_event :: "pydict \<Rightarrow> (listener, unit) py" where
  "put_event e = modify (\<lambda>s. s\<lparr>events := events s @ [e]\<rparr>)"

definition wheel_type :: "pyval \<Rightarrow> pydict \<Rightarrow> pydict" where
  "wheel_type value ebuf =
     (if py_eq value (PInt WHEEL_FORWARD_VALUE) then dset EventTypeKey (PStr EventType_WHEELFORWARD) ebuf
      else if py_eq value (PInt WHEEL_BACKWARD_VALUE) then dset EventTypeKey (PStr EventType_WHEELBACKWARD) ebuf
      else ebuf)"

definition pointer_move :: "string \<Rightarrow> pyval \<Rightarrow> int \<Rightarrow> pydict \<Rightarrow> pydict" where
  "pointer_move subtype value absolute ebuf =
     (let b1 = dset EventTypeKey (PStr EventType_POINTERMOVE) ebuf;
          b2 = dset (if endswith subtype ''X'' then ''xPos'' else ''yPos'') value b1 in
      dset ''abs'' (PInt absolute) b2)"

text \<open>The branches that only fill the buffer of the device, given the name of the code.\<close>

definition fill_key :: "pyval \<Rightarrow> pyval \<Rightarrow> pydict \<Rightarrow> pydict" where
  "fill_key keycode value ebuf =
     (let mtype = (if py_eq value (PInt 1) then PStr EventType_KEYDOWN
                   else if py_eq value (PInt 0) then PStr EventType_KEYUP
                   else value);
          b1 = (if truthy mtype then dset EventTypeKey mtype ebuf else ebuf) in
      dset ''keyCode'' keycode b1)"

definition fill_rel :: "pyval \<Rightarrow> pyval \<Rightarrow> pydict \<Rightarrow> pydict" where
  "fill_rel subtype value ebuf =
     (if subtype = PStr ''REL_X'' \<or> subtype = PStr ''REL_Y''
      then pointer_move (key_text subtype) value 0 ebuf
      else if subtype = PStr ''REL_HWHEEL'' \<or> subtype = PStr ''REL_WHEEL''
      then dset ''abs'' (PInt 0)
             (dset ''hScroll'' (PInt (if endswith (key_text subtype) ''HWHEEL'' then 1 else 0)) (wheel_type value ebuf))
      else ebuf)"

definition fill_abs :: "pyval \<Rightarrow> pyval \<Rightarrow> pydict \<Rightarrow> pydict" where
  "fill_abs subtype value ebuf =
     (if subtype = PStr ''ABS_X'' \<or> subtype = PStr ''ABS_Y''
      then pointer_move (key_text subtype) value 1 ebuf
      else if subtype = PStr ''ABS_WHEEL''
      then dset ''abs'' (PInt 1) (dset ''hScroll'' (PInt 0) (wheel_type value ebuf))
      else ebuf)"

definition fill_msc :: "pyval \<Rightarrow> pyval \<Rightarrow> pydict \<Rightarrow> pydict" where
  "fill_msc subtype value ebuf =
     (if subtype = PStr ''MSC_SCAN'' then dset ''scanCode'' value ebuf else ebuf)"

definition linux_dispatch :: "pyval \<Rightarrow> pyval \<Rightarrow> pyval res \<Rightarrow> pyval \<Rightarrow> pydict \<Rightarrow> (listener, unit) py" where
  "linux_dispatch dev etype codeName value ebuf =
     (if etype = PStr ''EV_SYN'' then
        bnd (lift_res codeName) (\<lambda>subtype.
          if subtype = PStr ''SYN_REPORT'' then
            bnd (put_event (dset DevNameKey dev ebuf)) (\<lambda>_.
              set_buffer dev [(EventTypeKey, PStr EventType_UNKNOWN)])
          else set_buffer dev ebuf)
      else if etype = PStr ''EV_KEY'' then
        bnd (lift_res codeName) (\<lambda>keycode. set_buffer dev (fill_key keycode value ebuf))
      else if etype = PStr ''EV_REL'' then
        bnd (lift_res codeName) (\<lambda>subtype. set_buffer dev (fill_rel subtype value ebuf))
      else if etype = PStr ''EV_ABS'' then
        bnd (lift_res codeName) (\<lambda>subtype. set_buffer dev (fill_abs subtype value ebuf))
      else if etype = PStr ''EV_MSC'' then
        bnd (lift_res codeName) (\<lambda>subtype. set_buffer dev (fill_msc subtype value ebuf))
      else if etype = PStr ''EV_LED'' then set_buffer dev ebuf
      else if etype = PStr ''EV_REP'' then set_buffer dev ebuf
      else set_buffer dev (dset EventTypeKey (PStr EventType_UNKNOWN) ebuf))"

definition linux_parse_platform_event :: handler where
  "linux_parse_platform_event content =
     bnd (lift_res (pindex content ''device'')) (\<lambda>dev.
     bnd (lift_res (pindex content ''event'')) (\<lambda>nevent.
     bnd (lift_res (pindex nevent ''typeName'')) (\<lambda>etype.
     bnd (lift_res (pindex nevent ''value'')) (\<lambda>value.
     bnd get_buffers (\<lambda>bs.
     bnd (check_key dev) (\<lambda>_.
     bnd (lift_res (case dget bs dev of None \<Rightarrow> Inl (KeyError (key_text dev)) | Some b \<Rightarrow> Inr b)) (\<lambda>ebuf.
       linux_dispatch dev etype (pindex nevent ''codeName'') value ebuf)))))))"

definition linux_init :: "guest \<Rightarrow> (listener, unit) py" where
  "linux_init g =
     bnd (base_init g linux_report_info linux_parse_platform_event linux_python_bin linux_agent_target)
       (\<lambda>_. modify (\<lambda>s. s\<lparr>buffers := Some []\<rparr>))"

section \<open>The Windows listener\<close>

definition win_agent_target :: string where "win_agent_target = ''%TEMP%'' @ [CHR 0x5C] @ ''input_event.py''"
definition win_python_bin :: string where "win_python_bin = ''python''"

definition win_uninstall :: "(listener, unit) py" where
  "win_uninstall = log (join '' '' [''del'', win_agent_target])"

definition vk_to_linux :: "pyval \<Rightarrow> string res" where
  "vk_to_linux v =
     (case v of
        PStr s \<Rightarrow> dindex VK2Linux s
      | _ \<Rightarrow> if hashable v then Inl (KeyError (key_text v)) else Inl (TypeError ''unhashable type''))"

definition KEY_MESSAGES :: "string list" where
  "KEY_MESSAGES = [''WM_KEYDOWN'', ''WM_KEYUP'', ''WM_SYSKEYDOWN'', ''WM_SYSKEYUP'']"

definition BUTTON_MESSAGES :: "string list" where
  "BUTTON_MESSAGES = [''WM_LBUTTONDOWN'', ''WM_LBUTTONUP'', ''WM_RBUTTONDOWN'', ''WM_RBUTTONUP'',
     ''WM_MBUTTONDOWN'', ''WM_MBUTTONUP'', ''WM_XBUTTONDOWN'', ''WM_XBUTTONUP'']"

definition WHEEL_MESSAGES :: "string list" where
  "WHEEL_MESSAGES = [''WM_MOUSEWHEEL'', ''WM_MOUSEHWHEEL'']"

definition down_or_up :: "string \<Rightarrow> string" where
  "down_or_up etype = (if endswith etype ''DOWN'' then EventType_KEYDOWN else EventType_KEYUP)"

definition button_name :: "string \<Rightarrow> pyval \<Rightarrow> pyval res" where
  "button_name etype nevent =
     (let button = etype ! 3 in
      if button = CHR ''L'' then Inr (PStr ''BTN_LEFT'')
      else if button = CHR ''R'' then Inr (PStr ''BTN_RIGHT'')
      else if button = CHR ''M'' then Inr (PStr ''BTN_MIDDLE'')
      else rbind (pindex nevent ''mouseDataText'') (\<lambda>xbutton.
        Inr (if xbutton = PStr ''XBUTTON1'' then PStr ''BTN_SIDE''
             else if xbutton = PStr ''XBUTTON2'' then PStr ''BTN_EXTRA''
             else xbutton)))"

text \<open>The type of the event and the other keys of its dictionary, for each kind of message.\<close>

definition translate_win :: "string \<Rightarrow> pyval \<Rightarrow> (string \<times> pydict) res" where
  "translate_win etype nevent =
     (if etype \<in> set KEY_MESSAGES then
        rbind (pindex nevent ''vkCodeName'') (\<lambda>vk.
        rbind (vk_to_linux vk) (\<lambda>keycode.
        rbind (pindex nevent ''scanCode'') (\<lambda>scancode.
          Inr (down_or_up etype, [(''keyCode'', PStr keycode), (''scanCode'', scancode)]))))
      else if etype \<in> set BUTTON_MESSAGES then
        rbind (button_name etype nevent) (\<lambda>keycode. Inr (down_or_up etype, [(''keyCode'', keycode)]))
      else if etype \<in> set WHEEL_MESSAGES then
        rbind (pindex nevent ''mouseDataText'') (\<lambda>direction.
          Inr (if direction = PStr ''WHEELFORWARD'' then EventType_WHEELFORWARD
               else if direction = PStr ''WHEELBACKWARD'' then EventType_WHEELBACKWARD
               else EventType_UNKNOWN,
               [(''hScroll'', PInt (if endswith etype ''MOUSEHWHEEL'' then 1 else 0))]))
      else if etype = ''WM_MOUSEMOVE'' then
        rbind (pindex nevent ''xPos'') (\<lambda>xpos.
        rbind (pindex nevent ''yPos'') (\<lambda>ypos.
          Inr (EventType_POINTERMOVE, [(''xPos'', xpos), (''yPos'', ypos)])))
      else Inr (EventType_UNKNOWN, []))"

definition win_parse_platform_event :: handler where
  "win_parse_platform_event content =
     bnd (lift_res (pindex content ''device'')) (\<lambda>dev.
     bnd (lift_res (pindex content ''event'')) (\<lambda>nevent.
     bnd (lift_res (pindex nevent ''typeName'')) (\<lambda>etype.
     bnd (lift_res (case etype of PStr e \<Rightarrow> translate_win e nevent | _ \<Rightarrow> Inr (EventType_UNKNOWN, []))) (\<lambda>(mtype, event).
       put_event (dset DevNameKey dev (dset EventTypeKey (PStr mtype) event))))))"

definition win_init :: "guest \<Rightarrow> (listener, unit) py" where
  "win_init g = base_init g base_report_info win_parse_platform_event win_python_bin win_agent_target"

section \<open>The factory\<close>

definition EventListener :: "guest \<Rightarrow> pydict \<Rightarrow> (listener, unit) py" where
  "EventListener g params =
     bnd (lift_res (dindex params ''os_type'')) (\<lambda>os_type.
       if os_type = PStr ''linux'' then linux_init g
       else if os_type = PStr ''windows'' then win_init g
       else throw (ValueError ''unsupported guest os type''))"

section \<open>Notions of the proofs\<close>

text \<open>How a message moves the state of the agent as the listener sees it.\<close>

definition msg_type :: "pyval \<Rightarrow> string option" where
  "msg_type v =
     (case (pindex v ''type'', pindex v ''content'') of (Inr (PStr t), Inr c) \<Rightarrow> Some t | _ \<Rightarrow> None)"

definition next_state :: "string \<Rightarrow> agent_state \<Rightarrow> agent_state" where
  "next_state line st =
     (case loads line of
        None \<Rightarrow> st
      | Some v \<Rightarrow>
          if msg_type v = Some ''SYNC'' then GREETING
          else if msg_type v = Some ''READY'' then LISTENING
          else st)"

definition is_event_line :: "string \<Rightarrow> bool" where
  "is_event_line line = (case loads line of None \<Rightarrow> False | Some v \<Rightarrow> msg_type v = Some ''EVENT'')"

section \<open>The contract of a platform\<close>

text \<open>
  What the base class relies on of the two methods a platform provides: reporting a device only
  records it, and reporting an event only appends at most one event to the queue.
\<close>

locale platform_listener =
  fixes report_info parse_platform_event :: handler
  assumes info_frame: "agent_st (snd (report_info c s)) = agent_st s" "events (snd (report_info c s)) = events s"
    and event_frame: "agent_st (snd (parse_platform_event c s)) = agent_st s"
      "targets (snd (parse_platform_event c s)) = targets s"
      "\<exists>es. events (snd (parse_platform_event c s)) = events s @ es \<and> length es \<le> 1"
    and info_registers: "report_info c s = (Inr (), s') \<Longrightarrow>
      \<exists>dev info. pindex c ''device'' = Inr dev \<and> pindex c ''info'' = Inr info \<and> targets s' = dset dev info (targets s)"
begin

lemma parse_output_step:
  "agent_st (snd (parse_output report_info parse_platform_event l s)) = next_state l (agent_st s)
   \<and> (\<exists>es. events (snd (parse_output report_info parse_platform_event l s)) = events s @ es
        \<and> length es \<le> (if is_event_line l then 1 else 0))"
proof (cases "loads l")
  case None
  then show ?thesis by (simp add: parse_output_def next_state_def is_event_line_def ret_def)
next
  case (Some v)
  show ?thesis
  proof (cases "pindex v ''type''"; cases "pindex v ''content''")
    fix t c
    assume "pindex v ''type'' = Inr t" "pindex v ''content'' = Inr c"
    then show ?thesis using Some info_frame[of c s] event_frame[of c s]
      by (cases t) (auto simp: parse_output_def next_state_def is_event_line_def msg_type_def set_state_def
          report_error_def py_defs simp del: pindex_Inr_iff)
  qed (use Some in \<open>auto simp: parse_output_def next_state_def is_event_line_def msg_type_def py_defs
         simp del: pindex_Inr_iff split: sum.splits pyval.splits\<close>)
qed

text \<open>A session that delivers lines: the state, and the queue, are those of the lines handed over.\<close>

lemma deliver_run:
  "\<exists>ls' es. prefix ls' ls \<and> (fst (deliver surv (parse_output report_info parse_platform_event) ls s) \<longrightarrow> ls' = ls)
    \<and> agent_st (snd (deliver surv (parse_output report_info parse_platform_event) ls s)) = fold next_state ls' (agent_st s)
    \<and> events (snd (deliver surv (parse_output report_info parse_platform_event) ls s)) = events s @ es
    \<and> length es \<le> length (filter is_event_line ls')"
proof (induction ls arbitrary: s)
  case Nil
  then show ?case by (intro exI[of _ "[]"]) simp
next
  case (Cons l ls)
  let ?f = "parse_output report_info parse_platform_event"
  obtain r s1 where r: "?f l s = (r, s1)" by (cases "?f l s")
  obtain e1 where e1: "agent_st s1 = next_state l (agent_st s)" "events s1 = events s @ e1"
      "length e1 \<le> (if is_event_line l then 1 else 0)"
    using parse_output_step[of l s] r by auto
  obtain ls' es where IH: "prefix ls' ls" "fst (deliver surv ?f ls s1) \<longrightarrow> ls' = ls"
      "agent_st (snd (deliver surv ?f ls s1)) = fold next_state ls' (agent_st s1)"
      "events (snd (deliver surv ?f ls s1)) = events s1 @ es" "length es \<le> length (filter is_event_line ls')"
    using Cons.IH[of s1] by blast
  have stop: "deliver surv ?f (l # ls) s = (if isl r \<and> \<not> surv (projl r) then (False, s1) else deliver surv ?f ls s1)"
    by (cases r) (simp_all add: r)
  show ?case
  proof (cases "isl r \<and> \<not> surv (projl r)")
    case True
    then show ?thesis using stop e1 by (intro exI[of _ "[l]"] exI[of _ e1]) auto
  next
    case False
    then show ?thesis using stop e1 IH
      by (intro exI[of _ "l # ls'"] exI[of _ "e1 @ es"]) (auto split: if_splits)
  qed
qed

lemma garbage_ignored: "loads l = None \<Longrightarrow> parse_output report_info parse_platform_event l s = (Inr (), s)"
  by (simp add: parse_output_def ret_def)

lemma wait_listening_sound:
  "wait_listening surv (parse_output report_info parse_platform_event) lss s = (True, s') \<Longrightarrow> is_listening s'"
  by (induction surv "parse_output report_info parse_platform_event" lss s rule: wait_listening.induct)
     (auto split: prod.splits if_splits)

lemma init_listens:
  "base_init g report_info parse_platform_event py target s = (Inr (), s') \<Longrightarrow> is_listening s'"
  by (auto simp: base_init_def listener_listen_def elim!: bnd_InrE split: prod.splits if_splits
      dest: wait_listening_sound)

lemma info_line:
  assumes "loads l = Some (message TYPE_INFO c)"
    and "parse_output report_info parse_platform_event l s = (Inr (), s')"
  shows "\<exists>dev info. pindex c ''device'' = Inr dev \<and> pindex c ''info'' = Inr info \<and> dget (targets s') dev = Some info"
  using assms info_registers[of c s s'] by (auto simp: parse_output_def message_def TYPE_defs pindex_def dindex_def)

end

section \<open>Both platforms keep the contract\<close>

text \<open>A computation that leaves the state of the agent and the targets alone and queues at most \<open>n\<close> events.\<close>

definition queues :: "nat \<Rightarrow> listener \<Rightarrow> 'a res \<times> listener \<Rightarrow> bool" where
  "queues n s r \<longleftrightarrow> agent_st (snd r) = agent_st s \<and> targets (snd r) = targets s
     \<and> (\<exists>es. events (snd r) = events s @ es \<and> length es \<le> n)"

lemma queues_bnd:
  assumes "queues 0 s (m s)" and "\<And>x s'. m s = (Inr x, s') \<Longrightarrow> queues n s' (f x s')"
  shows "queues n s (bnd m f s)"
proof (cases "m s")
  case (Pair r s')
  then show ?thesis using assms by (cases r) (auto simp: queues_def bnd_def)
qed

lemma queues_simple [simp]:
  "queues n s (ret x s)" "queues n s (throw e s)" "queues n s (lift_res r s)" "queues n s (check_key k s)"
  "queues n s (get_buffers s)" "queues n s (set_buffer d b s)"
  by (simp_all add: queues_def check_key_def get_buffers_def set_buffer_def py_defs split: option.split)

lemma put_event_queues: "queues 1 s (put_event e s)"
  by (simp add: queues_def put_event_def py_defs)

lemma put_set_queues: "queues 1 s (bnd (put_event e) (\<lambda>_. set_buffer d b) s)"
  by (auto simp: queues_def put_event_def set_buffer_def get_buffers_def py_defs split: option.split)

lemma queues_if: "queues n s (x s) \<Longrightarrow> queues n s (y s) \<Longrightarrow> queues n s ((if b then x else y) s)"
  by simp

lemma linux_dispatch_queues: "queues 1 s (linux_dispatch dev t c v b s)"
  unfolding linux_dispatch_def by (intro queues_if queues_bnd queues_simple put_set_queues)

lemma linux_event_queues: "queues 1 s (linux_parse_platform_event c s)"
  unfolding linux_parse_platform_event_def by (intro queues_bnd queues_simple linux_dispatch_queues)

lemma win_event_queues: "queues 1 s (win_parse_platform_event c s)"
  unfolding win_parse_platform_event_def
  by (intro queues_bnd queues_simple) (auto simp: put_event_queues[simplified])

lemma base_info_run:
  assumes "pindex c ''device'' = Inr dev" and "pindex c ''info'' = Inr info" and "hashable dev"
  shows "base_report_info c s = (Inr (), s\<lparr>targets := dset dev info (targets s)\<rparr>)"
  using assms by (simp add: base_report_info_def check_key_def py_defs del: pindex_Inr_iff)

lemma base_info_cases:
  obtains (fails) e where "base_report_info c s = (Inl e, s)"
  | (ok) dev info where "pindex c ''device'' = Inr dev" "pindex c ''info'' = Inr info"
      "base_report_info c s = (Inr (), s\<lparr>targets := dset dev info (targets s)\<rparr>)"
proof (cases "pindex c ''device''"; cases "pindex c ''info''")
  fix dev info
  assume "pindex c ''device'' = Inr dev" "pindex c ''info'' = Inr info"
  then show ?thesis using that
    by (cases "hashable dev") (auto simp: base_report_info_def check_key_def py_defs simp del: pindex_Inr_iff)
qed (use that in \<open>auto simp: base_report_info_def py_defs simp del: pindex_Inr_iff\<close>)

interpretation windows: platform_listener base_report_info win_parse_platform_event
proof unfold_locales
  fix c s s'
  show "agent_st (snd (base_report_info c s)) = agent_st s" "events (snd (base_report_info c s)) = events s"
    by (rule base_info_cases[of c s]; simp)+
  show "agent_st (snd (win_parse_platform_event c s)) = agent_st s"
    "targets (snd (win_parse_platform_event c s)) = targets s"
    "\<exists>es. events (snd (win_parse_platform_event c s)) = events s @ es \<and> length es \<le> 1"
    using win_event_queues[of s c] by (simp_all add: queues_def)
  show "base_report_info c s = (Inr (), s') \<Longrightarrow> \<exists>dev info. pindex c ''device'' = Inr dev \<and>
      pindex c ''info'' = Inr info \<and> targets s' = dset dev info (targets s)"
    by (rule base_info_cases[of c s]) auto
qed

lemma linux_info_cases:
  obtains (fails) e s' where "linux_report_info c s = (Inl e, s')" "agent_st s' = agent_st s" "events s' = events s"
  | (ok) dev info bs where "pindex c ''device'' = Inr dev" "pindex c ''info'' = Inr info" "buffers s = Some bs"
      "linux_report_info c s = (Inr (), s\<lparr>targets := dset dev info (targets s), buffers := Some (dset dev [] bs)\<rparr>)"
proof (rule base_info_cases[of c s])
  fix e
  assume "base_report_info c s = (Inl e, s)"
  then show ?thesis using that(1) by (simp add: linux_report_info_def bnd_def)
next
  fix dev info
  assume *: "pindex c ''device'' = Inr dev" "pindex c ''info'' = Inr info"
    "base_report_info c s = (Inr (), s\<lparr>targets := dset dev info (targets s)\<rparr>)"
  show ?thesis
  proof (cases "buffers s")
    case None
    then show ?thesis using that(1) *
      by (simp add: linux_report_info_def set_buffer_def get_buffers_def py_defs del: pindex_Inr_iff)
  next
    case (Some bs)
    then show ?thesis using that(2) *
      by (simp add: linux_report_info_def set_buffer_def get_buffers_def py_defs del: pindex_Inr_iff)
  qed
qed

interpretation linux: platform_listener linux_report_info linux_parse_platform_event
proof unfold_locales
  fix c s s'
  show "agent_st (snd (linux_report_info c s)) = agent_st s" "events (snd (linux_report_info c s)) = events s"
    by (rule linux_info_cases[of c s]; simp)+
  show "agent_st (snd (linux_parse_platform_event c s)) = agent_st s"
    "targets (snd (linux_parse_platform_event c s)) = targets s"
    "\<exists>es. events (snd (linux_parse_platform_event c s)) = events s @ es \<and> length es \<le> 1"
    using linux_event_queues[of s c] by (simp_all add: queues_def)
  show "linux_report_info c s = (Inr (), s') \<Longrightarrow> \<exists>dev info. pindex c ''device'' = Inr dev \<and>
      pindex c ''info'' = Inr info \<and> targets s' = dset dev info (targets s)"
    by (rule linux_info_cases[of c s]) auto
qed

section \<open>The decoder of a device\<close>

text \<open>
  The reference: each device has a decoder of its own, a buffer that its events fill and that a
  synchronisation report empties into the queue.
\<close>

definition linux_step :: "pyval \<Rightarrow> raw_event \<Rightarrow> pydict \<Rightarrow> pydict list \<times> pydict" where
  "linux_step dev ev b =
     (let (sec, usec, ty, code, value) = ev; t = dget_default EV_TYPES ty ''UNKNOWN'';
          c = code_name ty code; v = PInt value in
      if t = ''EV_SYN'' then
        (if c = ''SYN_REPORT'' then ([dset DevNameKey dev b], [(EventTypeKey, PStr EventType_UNKNOWN)]) else ([], b))
      else if t = ''EV_KEY'' then ([], fill_key (PStr c) v b)
      else if t = ''EV_REL'' then ([], fill_rel (PStr c) v b)
      else if t = ''EV_ABS'' then ([], fill_abs (PStr c) v b)
      else if t = ''EV_MSC'' then ([], fill_msc (PStr c) v b)
      else if t = ''EV_LED'' \<or> t = ''EV_REP'' then ([], b)
      else ([], dset EventTypeKey (PStr EventType_UNKNOWN) b))"

fun decode :: "pyval \<Rightarrow> pydict \<Rightarrow> raw_event list \<Rightarrow> pydict list" where
  "decode dev b [] = []"
| "decode dev b (ev # evs) = (let (es, b') = linux_step dev ev b in es @ decode dev b' evs)"

definition event_line :: "pyval \<Rightarrow> raw_event \<Rightarrow> string" where
  "event_line dev ev =
     dumps (message TYPE_EVENT (PDict [(''device'', dev), (''event'', PDict (format_event ev))])) @ linesep"

definition from_dev :: "pyval \<Rightarrow> pydict \<Rightarrow> bool" where
  "from_dev dev e \<longleftrightarrow> dget e DevNameKey = Some dev"

abbreviation linux_parse :: "string \<Rightarrow> (listener, unit) py" where
  "linux_parse \<equiv> parse_output linux_report_info linux_parse_platform_event"

abbreviation win_parse :: "string \<Rightarrow> (listener, unit) py" where
  "win_parse \<equiv> parse_output base_report_info win_parse_platform_event"

lemma loads_line: "json_ok c \<Longrightarrow> loads (dumps (message t c) @ linesep) = Some (message t c)"
  using json.dec_enc[of "message t c" linesep] by (simp add: linesep_def json_ws_def)

lemma format_event_ok [simp]: "json_ok_items (format_event ev)" "dict_ok (format_event ev)"
  using json_ok_format_event[of ev] by simp_all

lemma parse_event_message:
  "loads l = Some (message TYPE_EVENT c) \<Longrightarrow> parse_output ri pe l = pe c"
  by (simp add: parse_output_def message_def TYPE_defs pindex_def dindex_def)

lemma linux_dispatch_run:
  assumes "buffers s = Some bs"
  shows "linux_dispatch dev (PStr (dget_default EV_TYPES ty ''UNKNOWN'')) (Inr (PStr (code_name ty code))) (PInt value) b s =
    (Inr (), s\<lparr>events := events s @ fst (linux_step dev (sec, usec, ty, code, value) b),
              buffers := Some (dset dev (snd (linux_step dev (sec, usec, ty, code, value) b)) bs)\<rparr>)"
  using assms
  by (simp add: linux_dispatch_def linux_step_def put_event_def set_buffer_def get_buffers_def py_defs Let_def)

lemma linux_line_run:
  assumes "json_ok dev" and "hashable dev" and "buffers s = Some bs" and "dget bs dev = Some b"
  shows "linux_parse (event_line dev ev) s =
    (Inr (), s\<lparr>events := events s @ fst (linux_step dev ev b),
              buffers := Some (dset dev (snd (linux_step dev ev b)) bs)\<rparr>)"
proof -
  obtain sec usec ty code val where ev: "ev = (sec, usec, ty, code, val)" by (cases ev)
  have "loads (event_line dev ev) =
      Some (message TYPE_EVENT (PDict [(''device'', dev), (''event'', PDict (format_event ev))]))"
    unfolding event_line_def using assms(1) by (intro loads_line) simp
  note p = parse_event_message[OF this]
  show ?thesis
    unfolding p unfolding linux_parse_platform_event_def ev format_event_def
    using linux_dispatch_run[OF assms(3)] assms
    by (simp add: get_buffers_def check_key_def pindex_def dindex_def py_defs)
qed

lemma linux_step_from: "e \<in> set (fst (linux_step dev ev b)) \<Longrightarrow> from_dev dev e"
  by (cases ev) (auto simp: linux_step_def from_dev_def Let_def split: if_splits)

lemma linux_stream:
  assumes "buffers s = Some bs" and "\<forall>(dev, ev) \<in> set fs. json_ok dev \<and> hashable dev \<and> din dev bs"
  shows "\<exists>s'. deliver surv linux_parse (map (\<lambda>(dev, ev). event_line dev ev) fs) s = (True, s')
    \<and> (\<forall>dev b. dget bs dev = Some b \<longrightarrow>
         filter (from_dev dev) (events s') = filter (from_dev dev) (events s)
           @ decode dev b (map snd (filter (\<lambda>p. fst p = dev) fs)))"
  using assms
proof (induction fs arbitrary: s bs)
  case Nil
  then show ?case by simp
next
  case (Cons f fs)
  obtain d ev where f: "f = (d, ev)" by (cases f)
  obtain b where b: "dget bs d = Some b" using Cons.prems(2) f by (auto simp: din_iff)
  define bs1 where "bs1 = dset d (snd (linux_step d ev b)) bs"
  define s1 where "s1 = s\<lparr>events := events s @ fst (linux_step d ev b), buffers := Some bs1\<rparr>"
  have run: "linux_parse (event_line d ev) s = (Inr (), s1)"
    unfolding s1_def bs1_def using Cons.prems f b by (intro linux_line_run) auto
  have "buffers s1 = Some bs1" "\<forall>(dev, ev) \<in> set fs. json_ok dev \<and> hashable dev \<and> din dev bs1"
    using Cons.prems(2) by (auto simp: s1_def bs1_def)
  then obtain s' where s': "deliver surv linux_parse (map (\<lambda>(dev, ev). event_line dev ev) fs) s1 = (True, s')"
    "\<And>dev b. dget bs1 dev = Some b \<Longrightarrow> filter (from_dev dev) (events s') = filter (from_dev dev) (events s1)
       @ decode dev b (map snd (filter (\<lambda>p. fst p = dev) fs))"
    using Cons.IH[of s1 bs1] by blast
  have "filter (from_dev dev) (events s') = filter (from_dev dev) (events s)
      @ decode dev b' (map snd (filter (\<lambda>p. fst p = dev) ((d, ev) # fs)))" if "dget bs dev = Some b'" for dev b'
  proof (cases "dev = d")
    case True
    then have "filter (from_dev dev) (fst (linux_step d ev b)) = fst (linux_step d ev b)"
      using linux_step_from[of _ d ev b] by (auto simp: filter_id_conv)
    then show ?thesis using True that b s'(2)[of d "snd (linux_step d ev b)"]
      by (simp add: s1_def bs1_def split_beta)
  next
    case False
    then have "filter (from_dev dev) (fst (linux_step d ev b)) = []"
      using linux_step_from[of _ d ev b] by (auto simp: filter_empty_conv from_dev_def)
    then show ?thesis using False that s'(2)[of dev b'] by (auto simp: s1_def bs1_def)
  qed
  then show ?case using run s'(1) f by auto
qed


section \<open>Translation of a Windows line\<close>

text \<open>The event a line of the Windows agent stands for, if any.\<close>

definition win_event_of :: "string \<Rightarrow> pydict option" where
  "win_event_of line =
     (case loads line of
        Some v \<Rightarrow>
          if msg_type v = Some ''EVENT'' then
            (case rbind (pindex v ''content'') (\<lambda>c. rbind (pindex c ''device'') (\<lambda>dev. rbind (pindex c ''event'') (\<lambda>nev.
                rbind (pindex nev ''typeName'') (\<lambda>t.
                rbind (case t of PStr e \<Rightarrow> translate_win e nev | _ \<Rightarrow> Inr (EventType_UNKNOWN, [])) (\<lambda>(mt, d).
                  Inr (dset DevNameKey dev (dset EventTypeKey (PStr mt) d))))))) of
               Inr e \<Rightarrow> Some e | Inl _ \<Rightarrow> None)
          else None
      | None \<Rightarrow> None)"

lemma win_line_run:
  "snd (win_parse l s) = (case win_event_of l of
       Some e \<Rightarrow> s\<lparr>events := events s @ [e]\<rparr>
     | None \<Rightarrow> if \<not> is_event_line l then snd (win_parse l s) else s)"
proof (cases "is_event_line l")
  case False
  then show ?thesis by (auto simp: win_event_of_def is_event_line_def split: option.splits)
next
  case True
  then obtain v where v: "loads l = Some v" "msg_type v = Some ''EVENT''"
    by (auto simp: is_event_line_def split: option.splits)
  then obtain c where c: "pindex v ''type'' = Inr (PStr ''EVENT'')" "pindex v ''content'' = Inr c"
    by (auto simp: msg_type_def split: sum.splits pyval.splits)
  have "win_parse l = win_parse_platform_event c" using v c by (simp add: parse_output_def del: pindex_Inr_iff)
  then show ?thesis using v c True
    by (auto simp: win_event_of_def win_parse_platform_event_def put_event_def rbind_def py_defs
        simp del: pindex_Inr_iff split: sum.splits)
qed

lemma win_line_events:
  "events (snd (win_parse l s)) = events s @ (case win_event_of l of Some e \<Rightarrow> [e] | None \<Rightarrow> [])"
  using win_line_run[of l s] windows.parse_output_step[of l s] by (auto split: option.splits if_splits)

lemma deliver_all:
  "deliver (\<lambda>_. True) f ls s = (True, fold (\<lambda>l s. snd (f l s)) ls s)"
  by (induction ls arbitrary: s) (auto split: prod.splits sum.splits)

lemma win_stream:
  "events (fold (\<lambda>l s. snd (win_parse l s)) ls s) = events s @ List.map_filter win_event_of ls
   \<and> agent_st (fold (\<lambda>l s. snd (win_parse l s)) ls s) = fold next_state ls (agent_st s)"
  by (induction ls arbitrary: s)
     (auto simp: win_line_events windows.parse_output_step List.map_filter_simps split: option.splits)

section \<open>Starting and stopping\<close>

definition listening_on :: "pyval list \<Rightarrow> listener" where
  "listening_on devs = listener_fresh\<lparr>agent_st := LISTENING, buffers := Some (map (\<lambda>d. (d, [])) devs)\<rparr>"

definition demo_guest :: guest where
  "demo_guest = \<lparr>agent_exists = True, login = Inr (), copy_files_to = Inr (),
     polls = [[dumps (message TYPE_SYNC (PDict []))], [dumps (message TYPE_READY (PDict []))]], survives = (\<lambda>_. False)\<rparr>"

lemma init_needs_agent: "base_init g ri pe py target s = (Inr (), s') \<Longrightarrow> agent_exists g"
  by (auto simp: base_init_def listener_install_def throw_def elim!: bnd_InrE split: if_splits)

lemma drain_run: "drain s = s\<lparr>events := []\<rparr>"
proof (induction s rule: drain.induct)
  case (1 s)
  then show ?case by (subst drain.simps) (cases "events s"; simp)
qed

lemma linux_info_unset:
  assumes "buffers s = None" and "hashable dev"
  shows "linux_report_info (PDict [(''device'', dev), (''info'', info)]) s =
    (Inl (AttributeError ''_buffers''), s\<lparr>targets := dset dev info (targets s)\<rparr>)"
  using assms
  by (simp add: linux_report_info_def base_report_info_def check_key_def set_buffer_def get_buffers_def
      pindex_def dindex_def py_defs)

lemma linux_event_unregistered:
  assumes "buffers s = Some []"
  shows "\<exists>e. linux_parse_platform_event c s = (Inl e, s)"
  using assms unfolding linux_parse_platform_event_def
  by (cases "pindex c ''device''"; cases "pindex c ''event''"; cases "pindex (projr (pindex c ''event'')) ''typeName''";
      cases "pindex (projr (pindex c ''event'')) ''value''")
     (auto simp: py_defs get_buffers_def check_key_def simp del: pindex_Inr_iff)

section \<open>Properties of the listener\<close>



text \<open>
  Whatever the lines of the session, the listener's view of the agent is the one the
  lines handed over so far announce (the last SYNC or READY), the queue only grows at its end, and by
  at most one event per event message.
\<close>

lemma linux_lines_tracked:
  "\<exists>ls' es. prefix ls' ls \<and> (fst (deliver surv linux_parse ls s) \<longrightarrow> ls' = ls)
    \<and> agent_st (snd (deliver surv linux_parse ls s)) = fold next_state ls' (agent_st s)
    \<and> events (snd (deliver surv linux_parse ls s)) = events s @ es
    \<and> length es \<le> length (filter is_event_line ls')"
  by (rule linux.deliver_run)

text \<open>
  The Windows listener queues, in order, the translation of each event message it can translate, and
  nothing else; its view of the agent is the one the lines announce.  A session that survives every
  exception is assumed.
\<close>

lemma win_events_translated:
  "\<exists>s'. deliver (\<lambda>_. True) win_parse ls s = (True, s')
    \<and> events s' = events s @ List.map_filter win_event_of ls \<and> agent_st s' = fold next_state ls (agent_st s)"
  by (simp add: deliver_all win_stream)

text \<open>
  The constructor of the Linux listener creates its table of buffers only after the agent
  has announced itself: a device announced before that makes the callback raise, and a constructed
  listener starts with no device, so that every event message raises until a device is announced again.
\<close>

lemma linux_init_forgets_devices:
  assumes "linux_init g listener_fresh = (Inr (), s)" and "buffers t = None" and "hashable dev"
  shows "is_listening s \<and> buffers s = Some []
    \<and> (\<forall>c. \<exists>e. linux_parse_platform_event c s = (Inl e, s))
    \<and> fst (linux_report_info (PDict [(''device'', dev), (''info'', info)]) t) = Inl (AttributeError ''_buffers'')"
proof -
  obtain s1 where "base_init g linux_report_info linux_parse_platform_event linux_python_bin linux_agent_target
      listener_fresh = (Inr (), s1)" "s = s1\<lparr>buffers := Some []\<rparr>"
    using assms(1) by (auto simp: linux_init_def modify_def elim!: bnd_InrE)
  then have "is_listening s" "buffers s = Some []"
    using linux.init_listens by (auto simp: is_listening_def)
  then show ?thesis using linux_event_unregistered[of s] linux_info_unset[OF assms(2,3)] by simp
qed

text \<open>
  The factory refuses every guest that is neither Linux nor Windows, and a listener it
  returns has seen the agent announce that it is ready; without the agent program nothing is sent.
\<close>

lemma factory_listens:
  "(EventListener g params s = (Inr (), s') \<longrightarrow>
      is_listening s' \<and> agent_exists g \<and> dget params ''os_type'' \<in> {Some (PStr ''linux''), Some (PStr ''windows'')})
   \<and> (\<forall>v. dget params ''os_type'' = Some v \<longrightarrow> v \<noteq> PStr ''linux'' \<longrightarrow> v \<noteq> PStr ''windows'' \<longrightarrow>
      EventListener g params s = (Inl (ValueError ''unsupported guest os type''), s))"
proof -
  have ok: "is_listening s' \<and> agent_exists g" if "linux_init g s = (Inr (), s') \<or> win_init g s = (Inr (), s')"
    using that linux.init_listens windows.init_listens init_needs_agent
    by (fastforce simp: linux_init_def win_init_def is_listening_def modify_def elim!: bnd_InrE)
  show ?thesis
  proof (cases "dget params ''os_type''")
    case None
    then show ?thesis by (simp add: EventListener_def dindex_def py_defs)
  next
    case (Some v)
    then show ?thesis using ok by (auto simp: EventListener_def dindex_def throw_def)
  qed
qed

text \<open>
  Clean-up stops the agent, removes the program from the guest and closes the session; on a
  listener whose agent was already stopped it raises and does nothing.
\<close>

lemma listener_cleanup_stops:
  "(agent_sh s \<longrightarrow> listener_cleanup linux_uninstall s =
      (Inr (), s\<lparr>agent_sh := False, agent_st := STOPPED, ctrl_sh := False,
                guest_log := guest_log s @ [''^c'', ''rm -f /tmp/input_event.py'']\<rparr>))
   \<and> (\<not> agent_sh s \<longrightarrow> listener_cleanup linux_uninstall s = (Inl (AttributeError ''sendcontrol''), s))
   \<and> fst (clear_events s) = Inr () \<and> snd (clear_events s) = s\<lparr>events := []\<rparr>"
  by (simp add: listener_cleanup_def listener_terminate_def linux_uninstall_def linux_agent_target_def log_def
      clear_events_def drain_run py_defs)

end
