(* ===== verification/Input_Pipeline.thy ===== *)
theory Input_Pipeline
  imports Input_Proxy
begin

text \<open>
  The input path from end to end: records of the kernel or calls of the Windows hooks on one side,
  the queue of the listener on the other.  The lemmas here say what an agent writes for a run of
  records and what the listener makes of a line of the Windows agent.
\<close>

section \<open>From kernel records to lines\<close>

definition in_range :: "raw_event \<Rightarrow> bool" where
  "in_range ev =
     (let (sec, usec, ty, code, val) = ev in
      - (2 ^ 63) \<le> sec \<and> sec < 2 ^ 63 \<and> - (2 ^ 63) \<le> usec \<and> usec < 2 ^ 63
      \<and> 0 \<le> ty \<and> ty < 2 ^ 16 \<and> 0 \<le> code \<and> code < 2 ^ 16 \<and> 0 \<le> val \<and> val < 2 ^ 32)"

lemma read_packed: "in_range ev \<Longrightarrow> read_event (Inr (pack_event ev)) = Inr ev"
  by (cases ev) (simp add: in_range_def read_event_def unpack_pack)

lemma listen_fd_packed:
  assumes "in_range ev" and "dget devs fd = Some (dev, info)"
  shows "listen_fd devs (fd, Inr (pack_event ev)) (watch, prev) a =
    (Inr (watch, Some ev), a\<lparr>stdout := stdout a @ [event_line dev ev]\<rparr>)"
  using assms read_packed[OF assms(1)]
  by (simp add: listen_fd_def event_notify_def event_line_def send_message_def py_defs)

lemma listen_fds_packed:
  assumes "\<forall>ev \<in> set evs. in_range ev" and "dget devs fd = Some (dev, info)"
  shows "\<exists>prev'. listen_fds devs (map (\<lambda>ev. (fd, Inr (pack_event ev))) evs) (watch, prev) a =
    (Inr (watch, prev'), a\<lparr>stdout := stdout a @ map (event_line dev) evs\<rparr>)"
  using assms(1)
proof (induction evs arbitrary: prev a)
  case Nil
  then show ?case by (simp add: ret_def)
next
  case (Cons ev evs)
  obtain prev' where "listen_fds devs (map (\<lambda>ev. (fd, Inr (pack_event ev))) evs) (watch, Some ev)
      (a\<lparr>stdout := stdout a @ [event_line dev ev]\<rparr>) =
      (Inr (watch, prev'), a\<lparr>stdout := (stdout a @ [event_line dev ev]) @ map (event_line dev) evs\<rparr>)"
    using Cons.IH[of "Some ev" "a\<lparr>stdout := stdout a @ [event_line dev ev]\<rparr>"] Cons.prems by auto
  then show ?case using listen_fd_packed[OF _ assms(2), of ev watch prev a] Cons.prems
    by (simp add: bnd_def)
qed

section \<open>Frames of the Linux agent\<close>

lemma EV_KEY_CODES_range: "(code, name) \<in> set EV_KEY_CODES \<Longrightarrow> 0 \<le> code \<and> code < 2 ^ 16"
proof -
  assume "(code, name) \<in> set EV_KEY_CODES"
  then have "code \<in> set (map fst EV_KEY_CODES)" by force
  moreover have "list_all (\<lambda>c. 0 \<le> c \<and> c < 2 ^ 16) (map fst EV_KEY_CODES)"
    by (simp add: EV_KEY_CODES_def EV_KEY_CODES_1_keys EV_KEY_CODES_2_keys EV_KEY_CODES_3_keys
        EV_KEY_CODES_4_keys EV_KEY_CODES_5_keys EV_KEY_CODES_6_keys EV_KEY_CODES_7_keys EV_KEY_CODES_8_keys)
  ultimately show ?thesis unfolding list_all_iff by blast
qed

lemma type_names:
  "dget_default EV_TYPES 0 ''UNKNOWN'' = ''EV_SYN''" "dget_default EV_TYPES 1 ''UNKNOWN'' = ''EV_KEY''"
  "dget_default EV_TYPES 2 ''UNKNOWN'' = ''EV_REL''" "dget_default EV_TYPES 3 ''UNKNOWN'' = ''EV_ABS''"
  "dget_default EV_TYPES 4 ''UNKNOWN'' = ''EV_MSC''"
  by (simp_all add: dget_default_def EV_TYPES_def)

lemma code_names:
  "code_name 0 0 = ''SYN_REPORT''" "code_name 4 4 = ''MSC_SCAN''"
  by (simp_all add: code_name_def dget_default_def EV_CODE_MAP_def EV_SYN_CODES_def EV_MSC_CODES_def)

lemma key_code_name: "(code, name) \<in> set EV_KEY_CODES \<Longrightarrow> code_name 1 code = name"
  using EV_KEY_CODES_ok by (simp add: code_name_def dget_default_def EV_CODE_MAP_def dict_ok_def)

text \<open>The three records the kernel writes for a key: its scan code, the key, and the end of the report.\<close>

definition key_frame :: "int \<Rightarrow> int \<Rightarrow> int \<Rightarrow> int \<Rightarrow> int \<Rightarrow> raw_event list" where
  "key_frame sec usec scan code v = [(sec, usec, 4, 4, scan), (sec, usec, 1, code, v), (sec, usec, 0, 0, 0)]"

definition key_event_of :: "pyval \<Rightarrow> pydict \<Rightarrow> int \<Rightarrow> string \<Rightarrow> int \<Rightarrow> pydict" where
  "key_event_of dev b scan name v =
     dset DevNameKey dev (dset ''keyCode'' (PStr name)
       (dset EventTypeKey (PStr (if v = 1 then EventType_KEYDOWN else EventType_KEYUP)) (dset ''scanCode'' (PInt scan) b)))"

lemma key_frame_steps:
  assumes "(code, name) \<in> set EV_KEY_CODES" and "v = 0 \<or> v = 1"
  shows "linux_step dev (sec, usec, 4, 4, scan) b = ([], dset ''scanCode'' (PInt scan) b)"
    and "linux_step dev (sec, usec, 1, code, v) b =
      ([], dset ''keyCode'' (PStr name) (dset EventTypeKey (PStr (if v = 1 then EventType_KEYDOWN else EventType_KEYUP)) b))"
    and "linux_step dev (sec, usec, 0, 0, 0) b = ([dset DevNameKey dev b], [(EventTypeKey, PStr EventType_UNKNOWN)])"
  using assms
  by (auto simp: linux_step_def type_names code_names key_code_name fill_msc_def fill_key_def EventType_defs Let_def)

lemma key_frame_delivered:
  assumes "(code, name) \<in> set EV_KEY_CODES" and "v = 0 \<or> v = 1"
    and "buffers l = Some bs" and "dget bs (PStr dev) = Some b"
  shows "deliver surv linux_parse (map (event_line (PStr dev)) (key_frame sec usec scan code v)) l =
    (True, l\<lparr>events := events l @ [key_event_of (PStr dev) b scan name v],
            buffers := Some (dset (PStr dev) [(EventTypeKey, PStr EventType_UNKNOWN)]
              (dset (PStr dev) (dset ''keyCode'' (PStr name) (dset EventTypeKey
                (PStr (if v = 1 then EventType_KEYDOWN else EventType_KEYUP)) (dset ''scanCode'' (PInt scan) b)))
              (dset (PStr dev) (dset ''scanCode'' (PInt scan) b) bs)))\<rparr>)"
  using assms(3,4)
  by (simp add: key_frame_def linux_line_run hashable_def key_frame_steps[OF assms(1,2)] key_event_of_def)

lemma key_frame_in_range:
  assumes "(code, name) \<in> set EV_KEY_CODES" and "v = 0 \<or> v = 1" and "0 \<le> scan" "scan < 2 ^ 32"
    and "- (2 ^ 63) \<le> sec" "sec < 2 ^ 63" "- (2 ^ 63) \<le> usec" "usec < 2 ^ 63"
  shows "\<forall>ev \<in> set (key_frame sec usec scan code v). in_range ev"
  using assms EV_KEY_CODES_range[OF assms(1)] by (auto simp: key_frame_def in_range_def)

section \<open>Lines of the Windows agent\<close>

definition win_key_line :: "64 word \<Rightarrow> KBDLLHOOKSTRUCT \<Rightarrow> string" where
  "win_key_line w k =
     dumps (message TYPE_EVENT (PDict [(''device'', PStr KEYBOARD_DEV), (''event'', PDict (key_event w k))])) @ win_linesep"

lemma win_key_line_parse:
  "win_parse (win_key_line w k) =
     win_parse_platform_event (PDict [(''device'', PStr KEYBOARD_DEV), (''event'', PDict (key_event w k))])"
  unfolding win_key_line_def by (rule parse_event_message[OF loads_win_line]) simp

lemma wparam_names:
  "dget_default WPARAM_TYPES 0x100 ''UNKNOWN'' = ''WM_KEYDOWN''" "dget_default WPARAM_TYPES 0x101 ''UNKNOWN'' = ''WM_KEYUP''"
  "dget_default WPARAM_TYPES 0x104 ''UNKNOWN'' = ''WM_SYSKEYDOWN''" "dget_default WPARAM_TYPES 0x105 ''UNKNOWN'' = ''WM_SYSKEYUP''"
  by (simp_all add: dget_default_def WPARAM_TYPES_def)

lemma win_key_translate:
  assumes "w \<in> {0x100, 0x101, 0x104, 0x105}"
  shows "translate_win (dget_default WPARAM_TYPES (uint (w :: 64 word)) ''UNKNOWN'') (PDict (key_event w k)) =
    rbind (dindex VK2Linux (dget_default VK_CODES (uint (vkCode k)) ''UNKNOWN'')) (\<lambda>kc.
      Inr (if w \<in> {0x100, 0x104} then EventType_KEYDOWN else EventType_KEYUP,
           [(''keyCode'', PStr kc), (''scanCode'', PInt (uint (scanCode k)))]))"
  using assms
  by (auto simp: wparam_names translate_win_def KEY_MESSAGES_def vk_to_linux_def key_event_def pindex_def dindex_def
      down_or_up_def endswith_def startswith_def EventType_defs)

lemma win_key_parse:
  assumes "w \<in> {0x100, 0x101, 0x104, 0x105}" and "(uint (vkCode k), vk) \<in> set VK_CODES"
  shows "win_parse (win_key_line w k) l =
    (case dget VK2Linux vk of
       None \<Rightarrow> (Inl (KeyError vk), l)
     | Some kc \<Rightarrow> (Inr (), l\<lparr>events := events l @ [[(''keyCode'', PStr kc), (''scanCode'', PInt (uint (scanCode k))),
         (''type'', PStr (if w \<in> {0x100, 0x104} then ''KEYDOWN'' else ''KEYUP'')), (''device'', PStr ''keyboard'')]]\<rparr>))"
proof -
  have vk: "dget_default VK_CODES (uint (vkCode k)) ''UNKNOWN'' = vk"
    using assms(2) VK_CODES_ok by (simp add: dget_default_def dict_ok_def)
  have t: "dget (key_event w k) ''typeName'' = Some (PStr (dget_default WPARAM_TYPES (uint w) ''UNKNOWN''))"
    by (simp add: key_event_def)
  show ?thesis
    unfolding win_key_line_parse win_parse_platform_event_def
    by (simp add: pindex_def dindex_def[of "[_, _]"] dindex_def[of "key_event w k"] t win_key_translate[OF assms(1)] vk
        dindex_def[of VK2Linux] put_event_def py_defs KEYBOARD_DEV_def EventType_defs split: option.split)
qed

end
