(* ===== verification/Vm_Env.thy ===== *)
theory Vm_Env
  imports Py_Base
begin

text \<open>
  The virtual machine as the block providers see it.  Everything that is not in the repository is a
  field of \<open>vm_env\<close>: what the monitor answers (\<^verbatim>\<open>vm.monitor.cmd\<close>, \<^verbatim>\<open>vm.monitor.get_events\<close>), what
  time does to the machine (\<^verbatim>\<open>time.sleep\<close>), how \<^verbatim>\<open>utils_misc.wait_for\<close> polls and which exception the
  decorator \<^verbatim>\<open>avocado.fail_on\<close> raises.  The state keeps, beside the machine, the list of commands sent to the
  monitor, so that the theorems can speak about it.
\<close>

section \<open>State and environment\<close>

record 'w vst =
  world :: 'w
  sent :: "(string \<times> pydict) list"

record 'w vm_env =
  qmp :: "string \<Rightarrow> pydict \<Rightarrow> 'w \<Rightarrow> pyval res \<times> 'w"
  qmp_events :: "'w \<Rightarrow> pyval list res \<times> 'w"
  pause_ms :: "int \<Rightarrow> 'w \<Rightarrow> 'w"
  env_wait_for :: "int \<Rightarrow> int \<Rightarrow> ('w vst, bool) py \<Rightarrow> ('w vst, bool) py"
  fail_exc :: "exc \<Rightarrow> exc"

text \<open>\<open>vm.monitor.cmd(cmd, arguments)\<close>, with \<open>{}\<close> for absent arguments; \<open>vm.monitor.get_events()\<close>; \<open>time.sleep\<close>.\<close>

definition monitor_cmd :: "'w vm_env \<Rightarrow> string \<Rightarrow> pydict \<Rightarrow> ('w vst, pyval) py" where
  "monitor_cmd vm cmd args s =
     (case qmp vm cmd args (world s) of (r, w) \<Rightarrow> (r, s\<lparr>world := w, sent := sent s @ [(cmd, args)]\<rparr>))"

definition get_events :: "'w vm_env \<Rightarrow> ('w vst, pyval list) py" where
  "get_events vm s = (case qmp_events vm (world s) of (r, w) \<Rightarrow> (r, s\<lparr>world := w\<rparr>))"

definition sleep_ms :: "'w vm_env \<Rightarrow> int \<Rightarrow> ('w vst, unit) py" where
  "sleep_ms vm t = modify (\<lambda>s. s\<lparr>world := pause_ms vm t (world s)\<rparr>)"

text \<open>A function decorated with \<open>@fail_on\<close>: whatever it raises, the decorator raises its own exception.\<close>

definition fail_on :: "'w vm_env \<Rightarrow> ('w vst, 'a) py \<Rightarrow> ('w vst, 'a) py" where
  "fail_on vm m = try_except m (\<lambda>e. Some (throw (fail_exc vm e)))"

text \<open>
  \<open>for x in v\<close> on a dynamically typed value, and \<open>v.get(k)\<close>.
\<close>

definition py_iter :: "pyval \<Rightarrow> pyval list res" where
  "py_iter v =
     (case v of
        PList l \<Rightarrow> Inr l
      | PDict d \<Rightarrow> Inr (map (\<lambda>p. PStr (fst p)) d)
      | PStr t \<Rightarrow> Inr (map (\<lambda>c. PStr [c]) t)
      | _ \<Rightarrow> Inl (TypeError ''not iterable''))"

definition py_get :: "pyval \<Rightarrow> string \<Rightarrow> pyval \<Rightarrow> pyval res" where
  "py_get v k dflt = (case v of PDict d \<Rightarrow> Inr (dget_default d k dflt) | _ \<Rightarrow> Inl (AttributeError ''get''))"

text \<open>An \<open>assert\<close> inside a computation.\<close>

abbreviation check :: "bool \<Rightarrow> string \<Rightarrow> ('w vst, unit) py" where
  "check b msg \<equiv> py_assert b msg"

section \<open>What is assumed of the environment\<close>

text \<open>
  \<open>wait_for\<close> calls the function until it returns true or time is up, doing nothing but let time pass in
  between; \<open>fail_on\<close> turns every exception into a test failure.
\<close>

fun poll :: "'w vm_env \<Rightarrow> int list \<Rightarrow> ('w vst, bool) py \<Rightarrow> ('w vst, bool) py" where
  "poll vm [] f = ret False"
| "poll vm (t # ts) f =
     bnd (sleep_ms vm t) (\<lambda>_. bnd f (\<lambda>b. if b then ret True else poll vm ts f))"

definition wait_polls :: "'w vm_env \<Rightarrow> bool" where
  "wait_polls vm \<longleftrightarrow> (\<forall>first timeout f s. \<exists>ts. env_wait_for vm first timeout f s = poll vm ts f s)"

definition fails_tests :: "'w vm_env \<Rightarrow> bool" where
  "fails_tests vm \<longleftrightarrow> (\<forall>e. \<exists>m. fail_exc vm e = TestFail m)"

section \<open>Which commands a computation sends\<close>

text \<open>The computation only adds commands of the given kind to the log, whether or not it raises.\<close>

definition sends :: "(string \<times> pydict \<Rightarrow> bool) \<Rightarrow> ('w vst, 'a) py \<Rightarrow> bool" where
  "sends P m \<longleftrightarrow> (\<forall>s. \<exists>cs. sent (snd (m s)) = sent s @ cs \<and> list_all P cs)"

lemma sendsI: "(\<And>s. \<exists>cs. sent (snd (m s)) = sent s @ cs \<and> list_all P cs) \<Longrightarrow> sends P m"
  by (simp add: sends_def)

lemma sends_mono: "sends P m \<Longrightarrow> (\<And>c. P c \<Longrightarrow> Q c) \<Longrightarrow> sends Q m"
  by (fastforce simp: sends_def list_all_iff)

lemma sends_bnd [intro]:
  assumes "sends P m" and "\<And>x. sends P (f x)"
  shows "sends P (bnd m f)"
proof (rule sendsI)
  fix s
  obtain r s1 where r: "m s = (r, s1)" by (cases "m s")
  obtain cs where cs: "sent s1 = sent s @ cs" "list_all P cs" using assms(1) r by (metis sends_def snd_conv)
  show "\<exists>cs. sent (snd (bnd m f s)) = sent s @ cs \<and> list_all P cs"
  proof (cases r)
    case (Inl e)
    then show ?thesis using r cs by (simp add: bnd_def)
  next
    case (Inr x)
    obtain cs' where "sent (snd (f x s1)) = sent s1 @ cs'" "list_all P cs'" using assms(2)[of x] by (auto simp: sends_def)
    then show ?thesis using r cs Inr by (intro exI[of _ "cs @ cs'"]) (simp add: bnd_def)
  qed
qed

lemma sends_simple [intro!, simp]:
  "sends P (ret x)" "sends P (throw e)" "sends P (lift_res r)" "sends P (get_events vm)" "sends P (sleep_ms vm t)"
  "sends P (py_assert b msg)" "sends P (gets f)"
  by (simp_all add: sends_def py_defs get_events_def sleep_ms_def py_assert_def split: prod.split)

lemma sends_cmd [intro!]: "P (c, a) \<Longrightarrow> sends P (monitor_cmd vm c a)"
  by (simp add: sends_def monitor_cmd_def split: prod.split)

lemma sends_fail_on [intro!]: "sends P m \<Longrightarrow> sends P (fail_on vm m)"
  by (auto simp: sends_def fail_on_def try_except_def throw_def split: prod.splits sum.splits)
    (metis snd_conv)+

lemma sends_try [intro]:
  "sends P m \<Longrightarrow> (\<And>e k. h e = Some k \<Longrightarrow> sends P k) \<Longrightarrow> sends P (try_except m h)"
proof (rule sendsI)
  fix s
  assume m: "sends P m" and h: "\<And>e k. h e = Some k \<Longrightarrow> sends P k"
  obtain r s1 where r: "m s = (r, s1)" by (cases "m s")
  obtain cs where cs: "sent s1 = sent s @ cs" "list_all P cs" using m r by (metis sends_def snd_conv)
  show "\<exists>cs. sent (snd (try_except m h s)) = sent s @ cs \<and> list_all P cs"
  proof (cases "\<exists>e k. r = Inl e \<and> h e = Some k")
    case True
    then obtain e k where k: "r = Inl e" "h e = Some k" by blast
    obtain cs' where "sent (snd (k s1)) = sent s1 @ cs'" "list_all P cs'" using h[OF k(2)] by (auto simp: sends_def)
    then show ?thesis using r cs k by (intro exI[of _ "cs @ cs'"]) (simp add: try_except_def)
  next
    case False
    then show ?thesis using r cs by (auto simp: try_except_def split: sum.split option.split)
  qed
qed

lemma sends_finally [intro]:
  assumes "sends P m" and "sends P f"
  shows "sends P (try_finally m f)"
proof (rule sendsI)
  fix s
  obtain r s1 where r: "m s = (r, s1)" by (cases "m s")
  obtain r2 s2 where r2: "f s1 = (r2, s2)" by (cases "f s1")
  obtain cs where cs: "sent s1 = sent s @ cs" "list_all P cs" using assms(1) r by (metis sends_def snd_conv)
  obtain cs' where "sent s2 = sent s1 @ cs'" "list_all P cs'" using assms(2) r2 by (metis sends_def snd_conv)
  then show "\<exists>cs. sent (snd (try_finally m f s)) = sent s @ cs \<and> list_all P cs"
    using r r2 cs by (intro exI[of _ "cs @ cs'"]) (simp add: try_finally_def split: sum.split)
qed

lemma sends_if [intro]: "sends P m \<Longrightarrow> sends P n \<Longrightarrow> sends P (if b then m else n)"
  by simp

lemma sends_poll [intro]: "sends P f \<Longrightarrow> sends P (poll vm ts f)"
  by (induction ts) (auto intro!: sends_bnd)

lemma sends_wait [intro]: "wait_polls vm \<Longrightarrow> sends P f \<Longrightarrow> sends P (env_wait_for vm a t f)"
  unfolding wait_polls_def by (metis sends_def sends_poll)

lemma sends_for_each [intro]: "(\<And>x. x \<in> set xs \<Longrightarrow> sends P (f x)) \<Longrightarrow> sends P (for_each xs f)"
  by (induction xs) auto

lemma sends_map_each [intro]: "(\<And>x. x \<in> set xs \<Longrightarrow> sends P (f x)) \<Longrightarrow> sends P (map_each xs f)"
  by (induction xs) auto

section \<open>What a successful wait has seen\<close>

lemma poll_True:
  assumes "poll vm ts f s = (Inr True, s')"
  shows "\<exists>s0. f s0 = (Inr True, s')"
  using assms
  by (induction ts arbitrary: s) (auto simp: ret_def elim!: bnd_InrE split: if_splits)

lemma wait_True:
  assumes "wait_polls vm" and "env_wait_for vm a t f s = (Inr True, s')"
  shows "\<exists>s0. f s0 = (Inr True, s')"
  using assms poll_True unfolding wait_polls_def by metis

lemma poll_error:
  assumes "poll vm ts f s = (Inl e, s')"
  shows "\<exists>s0. f s0 = (Inl e, s')"
  using assms
proof (induction ts arbitrary: s)
  case (Cons t ts)
  then show ?case
    by (auto simp: bnd_def sleep_ms_def modify_def ret_def split: prod.splits sum.splits if_splits)
qed (simp add: ret_def)

lemma fail_on_Inr [simp]: "fail_on vm m s = (Inr x, s') \<longleftrightarrow> m s = (Inr x, s')"
  by (auto simp: fail_on_def try_except_def throw_def split: prod.split sum.split)

lemma fail_on_run: "fail_on vm m s = (case m s of (Inl e, s') \<Rightarrow> (Inl (fail_exc vm e), s') | (Inr x, s') \<Rightarrow> (Inr x, s'))"
  by (simp add: fail_on_def try_except_def throw_def split: prod.split sum.split)

lemma fail_on_fst: "fst (m s) = Inr x \<Longrightarrow> fst (fail_on vm m s) = Inr x"
  by (cases "m s") (simp add: fail_on_run)

lemma fail_on_test_fail:
  "fails_tests vm \<Longrightarrow> fail_on vm m s = (Inl e, s') \<Longrightarrow> \<exists>msg. e = TestFail msg"
  by (auto simp: fail_on_run fails_tests_def split: prod.splits sum.splits)

section \<open>A scripted machine\<close>

text \<open>
  A machine that answers from a script, used where a theorem is applied at a concrete input: replies
  to the commands in order, and the batches of events in order.  \<open>wait_for\<close> polls at the given times.
\<close>

type_synonym script = "pyval res list \<times> pyval list list"

definition script_qmp :: "script \<Rightarrow> pyval res \<times> script" where
  "script_qmp w = (case w of ([], es) \<Rightarrow> (Inl (QMPCmdError ''no reply''), ([], es)) | (r # rs, es) \<Rightarrow> (r, (rs, es)))"

definition script_events :: "script \<Rightarrow> pyval list res \<times> script" where
  "script_events w = (case w of (rs, []) \<Rightarrow> (Inr [], (rs, [])) | (rs, e # es) \<Rightarrow> (Inr e, (rs, es)))"

definition script_fail :: "exc \<Rightarrow> exc" where
  "script_fail e = (case e of TestFail m \<Rightarrow> TestFail m | _ \<Rightarrow> TestFail [])"

definition scripted0 :: "script vm_env" where
  "scripted0 = \<lparr>qmp = (\<lambda>_ _. script_qmp), qmp_events = script_events, pause_ms = (\<lambda>_ w. w),
     env_wait_for = (\<lambda>_ _ _. ret False), fail_exc = script_fail\<rparr>"

definition scripted :: "int list \<Rightarrow> script vm_env" where
  "scripted ts = scripted0\<lparr>env_wait_for := (\<lambda>_ _. poll scripted0 ts)\<rparr>"

definition vm_start :: "script \<Rightarrow> script vst" where
  "vm_start w = \<lparr>world = w, sent = []\<rparr>"

lemma poll_cong: "pause_ms vm = pause_ms vm' \<Longrightarrow> poll vm ts f = poll vm' ts f"
  by (induction ts) (simp_all add: sleep_ms_def cong: if_cong)

lemma scripted_ok: "wait_polls (scripted ts)" "fails_tests (scripted ts)"
proof -
  have "poll (scripted ts) ts = poll scripted0 ts"
    by (intro ext) (rule fun_cong[OF poll_cong], simp add: scripted_def scripted0_def)
  then show "wait_polls (scripted ts)" by (auto simp: wait_polls_def scripted_def intro!: exI[of _ ts])
  show "fails_tests (scripted ts)"
    by (auto simp: fails_tests_def scripted_def scripted0_def script_fail_def split: exc.split)
qed

end
