(* ===== verification/Job_Utils.thy ===== *)
theory Job_Utils
  imports Vm_Env
begin

text \<open>
  Block jobs (\<^verbatim>\<open>provider/job_utils.py\<close>): queries, the waits for a status, completion and dismissal, events
  and the checks that a job has started, runs or is paused.  Times are in milliseconds where the code
  sleeps and in seconds where it passes a timeout on.
\<close>

section \<open>Queries\<close>

definition BLOCK_JOB_COMPLETED_EVENT :: string where "BLOCK_JOB_COMPLETED_EVENT = ''BLOCK_JOB_COMPLETED''"
definition BLOCK_JOB_CANCELLED_EVENT :: string where "BLOCK_JOB_CANCELLED_EVENT = ''BLOCK_JOB_CANCELLED''"
definition BLOCK_JOB_ERROR_EVENT :: string where "BLOCK_JOB_ERROR_EVENT = ''BLOCK_JOB_ERROR''"
definition BLOCK_IO_ERROR_EVENT :: string where "BLOCK_IO_ERROR_EVENT = ''BLOCK_IO_ERROR''"

definition query_jobs :: "'w vm_env \<Rightarrow> ('w vst, pyval) py" where
  "query_jobs vm = monitor_cmd vm ''query-jobs'' []"

definition query_block_jobs :: "'w vm_env \<Rightarrow> ('w vst, pyval) py" where
  "query_block_jobs vm = monitor_cmd vm ''query-block-jobs'' []"

text \<open>The first job of a list whose key has the given value; \<open>{}\<close> when there is none.\<close>

fun find_job :: "string \<Rightarrow> string \<Rightarrow> pyval list \<Rightarrow> pydict res" where
  "find_job key job_id [] = Inr []"
| "find_job key job_id (job # jobs) =
     rbind (pindex job key) (\<lambda>v.
       if v = PStr job_id then (case job of PDict d \<Rightarrow> Inr d | _ \<Rightarrow> Inl (TypeError key)) else find_job key job_id jobs)"

definition get_job_by_id :: "'w vm_env \<Rightarrow> string \<Rightarrow> ('w vst, pydict) py" where
  "get_job_by_id vm job_id =
     fail_on vm (bnd (query_jobs vm) (\<lambda>r. lift_res (rbind (py_iter r) (find_job ''id'' job_id))))"

definition get_block_job_by_id :: "'w vm_env \<Rightarrow> string \<Rightarrow> ('w vst, pydict) py" where
  "get_block_job_by_id vm job_id =
     fail_on vm (bnd (query_block_jobs vm) (\<lambda>r. lift_res (rbind (py_iter r) (find_job ''device'' job_id))))"

definition get_job_status :: "'w vm_env \<Rightarrow> string \<Rightarrow> ('w vst, pyval) py" where
  "get_job_status vm device =
     bnd (get_job_by_id vm device) (\<lambda>job. ret (dget_default job ''status'' PNone))"

section \<open>Waiting for a status, finalize, complete, dismiss\<close>

definition status_is :: "'w vm_env \<Rightarrow> string \<Rightarrow> string \<Rightarrow> ('w vst, bool) py" where
  "status_is vm status device = bnd (get_job_status vm device) (\<lambda>st. ret (st = PStr status))"

definition wait_until_job_status_match :: "'w vm_env \<Rightarrow> string \<Rightarrow> string \<Rightarrow> int \<Rightarrow> ('w vst, unit) py" where
  "wait_until_job_status_match vm status device timeout =
     fail_on vm (bnd (env_wait_for vm 0 timeout (status_is vm status device)) (\<lambda>matched.
       check matched (''wait job status to '' @ status @ '' timeout in '' @ int_str timeout @ '' seconds'')))"

definition job_complete :: "'w vm_env \<Rightarrow> string \<Rightarrow> int \<Rightarrow> ('w vst, unit) py" where
  "job_complete vm job_id timeout =
     fail_on vm (bnd (wait_until_job_status_match vm ''ready'' job_id timeout) (\<lambda>_.
       bnd (monitor_cmd vm ''job-complete'' [(''id'', PStr job_id)]) (\<lambda>_. ret ())))"

definition block_job_complete :: "'w vm_env \<Rightarrow> string \<Rightarrow> int \<Rightarrow> ('w vst, unit) py" where
  "block_job_complete vm job_id timeout = fail_on vm (job_complete vm job_id timeout)"

definition job_dismiss_cmd :: "'w vm_env \<Rightarrow> string \<Rightarrow> int \<Rightarrow> ('w vst, pyval) py" where
  "job_dismiss_cmd vm job_id timeout =
     bnd (wait_until_job_status_match vm ''concluded'' job_id timeout) (\<lambda>_.
       monitor_cmd vm ''job-dismiss'' [(''id'', PStr job_id)])"

definition block_job_dismiss :: "'w vm_env \<Rightarrow> string \<Rightarrow> int \<Rightarrow> ('w vst, unit) py" where
  "block_job_dismiss vm job_id timeout =
     fail_on vm (bnd (get_block_job_by_id vm job_id) (\<lambda>job.
       if dget_default job ''auto-dismiss'' (PBool True) = PBool False then
         bnd (job_dismiss_cmd vm job_id timeout) (\<lambda>_.
         bnd (sleep_ms vm 100) (\<lambda>_.
         bnd (get_block_job_by_id vm job_id) (\<lambda>job'.
           check (job' = []) (''Block job '' @ job_id @ '' exists''))))
       else ret ()))"

definition job_dismiss :: "'w vm_env \<Rightarrow> string \<Rightarrow> int \<Rightarrow> ('w vst, unit) py" where
  "job_dismiss vm job_id timeout =
     fail_on vm (bnd (job_dismiss_cmd vm job_id timeout) (\<lambda>_.
       bnd (sleep_ms vm 100) (\<lambda>_.
       bnd (get_job_by_id vm job_id) (\<lambda>job. check (job = []) (''Job '' @ job_id @ '' exists'')))))"

text \<open>
  \<open>_job_finalize(vm, job_id, is_block_job=False, timeout=120)\<close>: the third argument is not used.
\<close>

definition job_finalize_cmd :: "'w vm_env \<Rightarrow> string \<Rightarrow> int \<Rightarrow> int \<Rightarrow> ('w vst, unit) py" where
  "job_finalize_cmd vm job_id is_block_job timeout =
     fail_on vm (bnd (wait_until_job_status_match vm ''pending'' job_id timeout) (\<lambda>_.
       bnd (monitor_cmd vm ''job-finalize'' [(''id'', PStr job_id)]) (\<lambda>_. ret ())))"

definition block_job_finalize :: "'w vm_env \<Rightarrow> string \<Rightarrow> int \<Rightarrow> ('w vst, unit) py" where
  "block_job_finalize vm job_id timeout =
     bnd (get_block_job_by_id vm job_id) (\<lambda>job.
       if dget_default job ''auto-finalize'' (PBool True) = PBool False
       then job_finalize_cmd vm job_id timeout 120 else ret ())"

definition job_finalize :: "'w vm_env \<Rightarrow> string \<Rightarrow> int \<Rightarrow> ('w vst, unit) py" where
  "job_finalize vm job_id timeout = job_finalize_cmd vm job_id timeout 120"

section \<open>Waiting for completion\<close>

text \<open>
  The handler of a failed \<open>job-complete\<close> logs the description the monitor gave; an exception without one
  makes the handler itself raise.
\<close>

definition complete_failed :: "exc \<Rightarrow> ('w vst, unit) py option" where
  "complete_failed e =
     (case e of
        KeyboardInterrupt \<Rightarrow> None
      | SystemExit _ \<Rightarrow> None
      | QMPCmdError _ \<Rightarrow> Some (ret ())
      | _ \<Rightarrow> Some (throw (AttributeError ''data'')))"

text \<open>The loop over the events: whether the completion of this job is among them.\<close>

fun scan_events :: "string \<Rightarrow> pyval list \<Rightarrow> bool res" where
  "scan_events job_id [] = Inr False"
| "scan_events job_id (event # events) =
     rbind (py_get event ''event'' PNone) (\<lambda>name.
       if name \<noteq> PStr BLOCK_JOB_COMPLETED_EVENT then scan_events job_id events
       else
         rbind (py_get event ''data'' (PDict [])) (\<lambda>data.
         rbind (py_get data ''id'' PNone) (\<lambda>i.
         rbind (py_get data ''device'' PNone) (\<lambda>d.
           if i = PStr job_id \<or> d = PStr job_id then
             rbind (py_get data ''error'' PNone) (\<lambda>err.
               if truthy err then Inl (AssertionError ''block backup job finished with error'') else Inr True)
           else scan_events job_id events))))"

definition poll_job_completed :: "'w vm_env \<Rightarrow> string \<Rightarrow> ('w vst, bool) py" where
  "poll_job_completed vm job_id =
     bnd (get_job_status vm job_id) (\<lambda>status.
     bnd (if status = PStr ''pending'' then block_job_finalize vm job_id 120 else ret ()) (\<lambda>_.
     bnd (if status = PStr ''ready''
          then try_except (bnd (monitor_cmd vm ''job-complete'' [(''id'', PStr job_id)]) (\<lambda>_. ret ())) complete_failed
          else ret ()) (\<lambda>_.
     try_finally (bnd (get_events vm) (\<lambda>es. lift_res (scan_events job_id es)))
       (bnd (get_job_status vm job_id) (\<lambda>status'.
          if status' = PStr ''concluded'' then block_job_dismiss vm job_id 120 else ret ())))))"

definition wait_until_block_job_completed :: "'w vm_env \<Rightarrow> string \<Rightarrow> int \<Rightarrow> ('w vst, unit) py" where
  "wait_until_block_job_completed vm job_id timeout =
     fail_on vm (bnd (env_wait_for vm 100 timeout (poll_job_completed vm job_id)) (\<lambda>finished.
       check finished (''wait for block job complete event timeout in '' @ int_str timeout @ '' seconds'')))"

section \<open>Events by condition\<close>

text \<open>\<open>item in e["data"].items()\<close> for every item of the condition.\<close>

definition data_matches :: "pydict \<Rightarrow> pyval \<Rightarrow> bool res" where
  "data_matches condition data =
     (case data of
        PDict d \<Rightarrow> Inr (list_all (\<lambda>(k, v). case dget d k of Some w \<Rightarrow> py_eq w v | None \<Rightarrow> False) condition)
      | _ \<Rightarrow> if condition = [] then Inr True else Inl (AttributeError ''items''))"

fun filter_res :: "('a \<Rightarrow> bool res) \<Rightarrow> 'a list \<Rightarrow> 'a list res" where
  "filter_res p [] = Inr []"
| "filter_res p (x # xs) =
     rbind (p x) (\<lambda>keep. rbind (filter_res p xs) (\<lambda>rest. Inr (if keep then x # rest else rest)))"

definition named_event :: "string \<Rightarrow> pyval \<Rightarrow> bool res" where
  "named_event name e = rbind (py_get e ''event'' PNone) (\<lambda>n. Inr (n = PStr name))"

definition event_matches :: "pydict \<Rightarrow> pyval \<Rightarrow> bool res" where
  "event_matches condition e =
     rbind (py_get e ''data'' PNone) (\<lambda>data. if truthy data then data_matches condition data else Inr False)"

definition filter_events :: "string \<Rightarrow> pydict \<Rightarrow> pyval list \<Rightarrow> pyval list res" where
  "filter_events name condition es =
     rbind (filter_res (named_event name) es) (\<lambda>events.
       if condition = [] then Inr events else filter_res (event_matches condition) events)"

fun event_rounds :: "'w vm_env \<Rightarrow> string \<Rightarrow> pydict \<Rightarrow> nat \<Rightarrow> ('w vst, pyval) py" where
  "event_rounds vm name condition 0 = ret PNone"
| "event_rounds vm name condition (Suc n) =
     bnd (get_events vm) (\<lambda>all_events.
     bnd (lift_res (filter_events name condition all_events)) (\<lambda>events.
       case events of
         e # _ \<Rightarrow> ret e
       | [] \<Rightarrow> bnd (sleep_ms vm 1000) (\<lambda>_. event_rounds vm name condition n)))"

definition get_event_by_condition :: "'w vm_env \<Rightarrow> string \<Rightarrow> int \<Rightarrow> pydict \<Rightarrow> ('w vst, pyval) py" where
  "get_event_by_condition vm event_name tmo condition =
     fail_on vm (event_rounds vm event_name condition (nat tmo))"

section \<open>Started, running, paused\<close>

text \<open>\<open>a > b\<close> between numbers; the monitor reports offsets as numbers, anything else is treated as not comparable.\<close>

definition py_gt :: "pyval \<Rightarrow> pyval \<Rightarrow> bool res" where
  "py_gt v w =
     (case (v, w) of
        (PInt i, PInt j) \<Rightarrow> Inr (i > j)
      | _ \<Rightarrow> Inl (TypeError ''not supported between instances''))"

fun started_rounds :: "'w vm_env \<Rightarrow> string \<Rightarrow> nat \<Rightarrow> ('w vst, bool) py" where
  "started_rounds vm jobid 0 = ret False"
| "started_rounds vm jobid (Suc n) =
     bnd (get_block_job_by_id vm jobid) (\<lambda>job.
       if job = [] then ret False
       else bnd (lift_res (rbind (dindex job ''offset'') (\<lambda>o1. py_gt o1 (PInt 0)))) (\<lambda>moved.
         if moved then ret True
         else bnd (sleep_ms vm 1000) (\<lambda>_. started_rounds vm jobid n)))"

definition is_block_job_started :: "'w vm_env \<Rightarrow> string \<Rightarrow> int \<Rightarrow> ('w vst, bool) py" where
  "is_block_job_started vm jobid tmo = started_rounds vm jobid (nat tmo)"

definition check_block_jobs_started :: "'w vm_env \<Rightarrow> string list \<Rightarrow> int \<Rightarrow> ('w vst, unit) py" where
  "check_block_jobs_started vm jobid_list tmo =
     bnd (map_each jobid_list (\<lambda>j. is_block_job_started vm j tmo)) (\<lambda>started.
       check (list_all id started) ''Not all block jobs start successfully'')"

fun running_rounds :: "'w vm_env \<Rightarrow> string \<Rightarrow> pyval \<Rightarrow> nat \<Rightarrow> ('w vst, bool) py" where
  "running_rounds vm jobid offset 0 = ret False"
| "running_rounds vm jobid offset (Suc n) =
     bnd (get_block_job_by_id vm jobid) (\<lambda>job.
       if job = [] then ret False
       else bnd (lift_res (dindex job ''status'')) (\<lambda>status.
         if status \<notin> {PStr ''running'', PStr ''pending'', PStr ''ready''} then ret False
         else if offset = PNone then
           (if status \<in> {PStr ''pending'', PStr ''ready''} then ret True
            else bnd (lift_res (dindex job ''offset'')) (\<lambda>o1.
              bnd (sleep_ms vm 1000) (\<lambda>_. running_rounds vm jobid o1 n)))
         else bnd (lift_res (rbind (dindex job ''offset'') (\<lambda>o1. py_gt o1 offset))) (\<lambda>moved.
           if moved then ret True
           else bnd (sleep_ms vm 1000) (\<lambda>_. running_rounds vm jobid offset n))))"

definition is_block_job_running :: "'w vm_env \<Rightarrow> string \<Rightarrow> int \<Rightarrow> ('w vst, bool) py" where
  "is_block_job_running vm jobid tmo = running_rounds vm jobid PNone (nat tmo)"

definition check_block_jobs_running :: "'w vm_env \<Rightarrow> string list \<Rightarrow> int \<Rightarrow> ('w vst, unit) py" where
  "check_block_jobs_running vm jobid_list tmo =
     bnd (map_each jobid_list (\<lambda>j. is_block_job_running vm j tmo)) (\<lambda>running.
       check (list_all id running) ''Not all block jobs are running'')"

fun paused_rounds :: "'w vm_env \<Rightarrow> string \<Rightarrow> pyval \<Rightarrow> nat \<Rightarrow> ('w vst, bool) py" where
  "paused_rounds vm jobid offset 0 = ret True"
| "paused_rounds vm jobid offset (Suc n) =
     bnd (get_block_job_by_id vm jobid) (\<lambda>job.
       if job = [] then ret False
       else bnd (lift_res (dindex job ''status'')) (\<lambda>status.
         if status \<noteq> PStr ''running'' then ret False
         else bnd (lift_res (dindex job ''offset'')) (\<lambda>o1.
           if offset = PNone then bnd (sleep_ms vm 1000) (\<lambda>_. paused_rounds vm jobid o1 n)
           else if \<not> py_eq offset o1 then ret False
           else bnd (sleep_ms vm 1000) (\<lambda>_. paused_rounds vm jobid offset n))))"

definition is_block_job_paused :: "'w vm_env \<Rightarrow> string \<Rightarrow> int \<Rightarrow> ('w vst, bool) py" where
  "is_block_job_paused vm jobid tmo =
     bnd (sleep_ms vm 10000) (\<lambda>_. paused_rounds vm jobid PNone (nat tmo))"

definition check_block_jobs_paused :: "'w vm_env \<Rightarrow> string list \<Rightarrow> int \<Rightarrow> ('w vst, unit) py" where
  "check_block_jobs_paused vm jobid_list tmo =
     bnd (map_each jobid_list (\<lambda>j. is_block_job_paused vm j tmo)) (\<lambda>paused.
       check (list_all id paused) ''Not all block jobs are paused'')"

section \<open>Notions of the proofs\<close>

text \<open>An event that says the job has completed without an error.\<close>

definition completed :: "string \<Rightarrow> pyval \<Rightarrow> bool" where
  "completed job_id e \<longleftrightarrow>
     (\<exists>ev d. e = PDict ev \<and> dget ev ''event'' = Some (PStr ''BLOCK_JOB_COMPLETED'') \<and> dget ev ''data'' = Some (PDict d)
        \<and> (dget d ''id'' = Some (PStr job_id) \<or> dget d ''device'' = Some (PStr job_id))
        \<and> (\<forall>err. dget d ''error'' = Some err \<longrightarrow> \<not> truthy err))"

text \<open>The commands that control one job.\<close>

definition job_cmd :: "string \<Rightarrow> string \<times> pydict \<Rightarrow> bool" where
  "job_cmd job_id c \<longleftrightarrow>
     c \<in> {(''query-jobs'', []), (''query-block-jobs'', []), (''job-finalize'', [(''id'', PStr job_id)]),
          (''job-complete'', [(''id'', PStr job_id)]), (''job-dismiss'', [(''id'', PStr job_id)])}"

text \<open>What a number of rounds a second apart see of a job.\<close>

fun observe :: "'w vm_env \<Rightarrow> string \<Rightarrow> nat \<Rightarrow> ('w vst, pydict list) py" where
  "observe vm jobid 0 = ret []"
| "observe vm jobid (Suc n) =
     bnd (get_block_job_by_id vm jobid) (\<lambda>j. bnd (sleep_ms vm 1000) (\<lambda>_.
       bnd (observe vm jobid n) (\<lambda>js. ret (j # js))))"

definition job_info_ok :: "pydict \<Rightarrow> bool" where
  "job_info_ok j \<longleftrightarrow> j = [] \<or> (\<exists>st i. dget j ''status'' = Some (PStr st) \<and> dget j ''offset'' = Some (PInt i))"

definition job_st :: "pydict \<Rightarrow> string" where
  "job_st j = (case dget j ''status'' of Some (PStr st) \<Rightarrow> st | _ \<Rightarrow> [])"

definition job_off :: "pydict \<Rightarrow> int" where
  "job_off j = (case dget j ''offset'' of Some (PInt i) \<Rightarrow> i | _ \<Rightarrow> 0)"

definition live :: "pydict \<Rightarrow> bool" where
  "live j \<longleftrightarrow> j \<noteq> [] \<and> job_st j \<in> {''running'', ''pending'', ''ready''}"

section \<open>Which commands are sent\<close>

lemma sends_get_job [intro!, simp]:
  "sends (job_cmd i) (get_job_by_id vm j)" "sends (job_cmd i) (get_block_job_by_id vm j)"
  "sends (job_cmd i) (get_job_status vm j)"
  unfolding get_job_by_id_def get_block_job_by_id_def get_job_status_def query_jobs_def query_block_jobs_def
  by (intro sends_fail_on sends_bnd sends_cmd sends_simple; simp add: job_cmd_def)+

lemma sends_status_match [intro]:
  "wait_polls vm \<Longrightarrow> sends (job_cmd i) (wait_until_job_status_match vm st j t)"
  by (auto simp: wait_until_job_status_match_def status_is_def)

lemma sends_job_ops:
  assumes "wait_polls vm"
  shows "sends (job_cmd i) (job_dismiss_cmd vm i t)" "sends (job_cmd i) (block_job_dismiss vm i t)"
    "sends (job_cmd i) (job_dismiss vm i t)" "sends (job_cmd i) (job_finalize_cmd vm i b t)"
    "sends (job_cmd i) (block_job_finalize vm i t)" "sends (job_cmd i) (job_complete vm i t)"
proof -
  show d: "sends (job_cmd i) (job_dismiss_cmd vm i t)" for t
    unfolding job_dismiss_cmd_def using assms by (intro sends_bnd sends_status_match sends_cmd) (auto simp: job_cmd_def)
  show "sends (job_cmd i) (block_job_dismiss vm i t)"
    unfolding block_job_dismiss_def by (intro sends_fail_on sends_bnd sends_if d sends_get_job sends_simple)
  show "sends (job_cmd i) (job_dismiss vm i t)"
    unfolding job_dismiss_def by (intro sends_fail_on sends_bnd d sends_get_job sends_simple)
  show f: "sends (job_cmd i) (job_finalize_cmd vm i b t)" for b t
    unfolding job_finalize_cmd_def using assms
    by (intro sends_fail_on sends_bnd sends_status_match sends_cmd sends_simple) (auto simp: job_cmd_def)
  show "sends (job_cmd i) (block_job_finalize vm i t)"
    unfolding block_job_finalize_def by (intro sends_bnd sends_if f sends_get_job sends_simple)
  show "sends (job_cmd i) (job_complete vm i t)"
    unfolding job_complete_def using assms
    by (intro sends_fail_on sends_bnd sends_status_match sends_cmd sends_simple) (auto simp: job_cmd_def)
qed

lemma complete_failed_sends: "complete_failed e = Some k \<Longrightarrow> sends P k"
  by (auto simp: complete_failed_def split: exc.splits)

lemma sends_poll_completed: "wait_polls vm \<Longrightarrow> sends (job_cmd i) (poll_job_completed vm i)"
  unfolding poll_job_completed_def
  by (intro sends_bnd sends_if sends_try sends_finally sends_get_job sends_job_ops sends_simple sends_cmd)
     (auto simp: job_cmd_def complete_failed_sends)

lemma sends_wait_completed: "wait_polls vm \<Longrightarrow> sends (job_cmd i) (wait_until_block_job_completed vm i t)"
  unfolding wait_until_block_job_completed_def
  by (intro sends_fail_on sends_bnd sends_wait sends_poll_completed sends_simple)

section \<open>What a successful call has seen\<close>

lemma scan_events_True:
  "scan_events i es = Inr True \<Longrightarrow> \<exists>e \<in> set es. completed i e"
proof (induction i es rule: scan_events.induct)
  case (2 i e es)
  obtain ev where e: "e = PDict ev" using 2(3) by (cases e) (auto simp: py_get_def)
  show ?case
  proof (cases "dget_default ev ''event'' PNone = PStr BLOCK_JOB_COMPLETED_EVENT")
    case False
    then show ?thesis using 2 e by (simp add: py_get_def)
  next
    case True
    then obtain d where d: "dget_default ev ''data'' (PDict []) = PDict d"
      using 2(3) e by (auto simp: py_get_def split: pyval.splits elim!: rbind_InrE)
    show ?thesis
    proof (cases "dget_default d ''id'' PNone = PStr i \<or> dget_default d ''device'' PNone = PStr i")
      case hit: True
      then have "dget d ''id'' = Some (PStr i) \<or> dget d ''device'' = Some (PStr i)"
        by (auto simp: dget_default_def split: option.splits)
      moreover from this have "dget ev ''data'' = Some (PDict d)"
        using d by (auto simp: dget_default_def split: option.splits)
      ultimately have "completed i e" using 2(3) e True d
        by (auto simp: completed_def py_get_def dget_default_def BLOCK_JOB_COMPLETED_EVENT_def split: option.splits if_splits)
      then show ?thesis by simp
    next
      case miss: False
      then show ?thesis using 2 e True d by (simp add: py_get_def)
    qed
  qed
qed simp

lemma try_finally_Inr: "try_finally m f s = (Inr x, s') \<Longrightarrow> \<exists>s1. m s = (Inr x, s1) \<and> f s1 = (Inr (), s')"
  by (auto simp: try_finally_def split: prod.splits sum.splits)

lemma poll_completed_True:
  assumes "poll_job_completed vm i s = (Inr True, s')"
  shows "\<exists>w es w' e. qmp_events vm w = (Inr es, w') \<and> e \<in> set es \<and> completed i e"
proof -
  obtain s1 s2 es where "get_events vm s1 = (Inr es, s2)" "scan_events i es = Inr True"
    using assms unfolding poll_job_completed_def
    by (auto simp: lift_res_def elim!: bnd_InrE dest!: try_finally_Inr)
  then show ?thesis using scan_events_True[of i es]
    by (auto simp: get_events_def split: prod.splits)
qed

lemma find_job_none:
  "find_job key i jobs = Inr [] \<Longrightarrow> j \<in> set jobs \<Longrightarrow> pindex j key \<noteq> Inr (PStr i)"
  by (induction key i jobs rule: find_job.induct)
     (auto simp: pindex_def dindex_def split: pyval.splits option.splits if_splits elim!: rbind_InrE)

lemma get_job_run:
  "get_job_by_id vm i s = (Inr j, s') \<Longrightarrow>
   \<exists>r jobs w. qmp vm ''query-jobs'' [] (world s) = (Inr r, w) \<and> py_iter r = Inr jobs \<and> find_job ''id'' i jobs = Inr j
     \<and> s' = s\<lparr>world := w, sent := sent s @ [(''query-jobs'', [])]\<rparr>"
  by (auto simp: get_job_by_id_def query_jobs_def monitor_cmd_def lift_res_def elim!: bnd_InrE rbind_InrE split: prod.splits)

lemma wait_status_seen:
  assumes "wait_polls vm" and "wait_until_job_status_match vm st i t s = (Inr (), s')"
  shows "\<exists>s0. get_job_status vm i s0 = (Inr (PStr st), s')"
  using assms wait_True[OF assms(1), of 0 t "status_is vm st i"]
  by (fastforce simp: wait_until_job_status_match_def status_is_def py_assert_run ret_def elim!: bnd_InrE split: if_splits)

lemma status_sends_queries:
  assumes "wait_polls vm"
  shows "sends (\<lambda>c. c = (''query-jobs'', [])) (wait_until_job_status_match vm st i t)"
  unfolding wait_until_job_status_match_def status_is_def get_job_status_def get_job_by_id_def query_jobs_def
  by (intro sends_fail_on sends_bnd sends_wait sends_simple sends_cmd refl assms)

section \<open>The job service as an interface\<close>

text \<open>
  What the operations that start block jobs rely on: the wait for a job sends only commands that
  control that job, and returns only after an event has announced its completion without error.
\<close>

locale job_service =
  fixes vm :: "'w vm_env" and wait_done :: "string \<Rightarrow> int \<Rightarrow> ('w vst, unit) py"
  assumes wait_sends: "wait_polls vm \<Longrightarrow> sends (job_cmd i) (wait_done i t)"
    and wait_sound: "wait_polls vm \<Longrightarrow> wait_done i t s = (Inr (), s') \<Longrightarrow>
      \<exists>w es w' e. qmp_events vm w = (Inr es, w') \<and> e \<in> set es \<and> completed i e"
begin

lemma start_and_wait:
  assumes "wait_polls vm" and "bnd (monitor_cmd vm c a) (\<lambda>_. wait_done i t) s = (Inr (), s')"
  shows "(\<exists>cs. sent s' = sent s @ (c, a) # cs \<and> list_all (job_cmd i) cs)
    \<and> (\<exists>w es w' e. qmp_events vm w = (Inr es, w') \<and> e \<in> set es \<and> completed i e)"
proof -
  obtain r s1 where s1: "monitor_cmd vm c a s = (Inr r, s1)" "wait_done i t s1 = (Inr (), s')"
    using assms(2) by (auto elim: bnd_InrE)
  then have "sent s1 = sent s @ [(c, a)]" by (auto simp: monitor_cmd_def split: prod.splits)
  moreover obtain cs where "sent s' = sent s1 @ cs" "list_all (job_cmd i) cs"
    using wait_sends[OF assms(1), of i t] s1(2) by (metis sends_def snd_conv)
  ultimately show ?thesis using wait_sound[OF assms(1) s1(2)] by simp
qed

lemma wait_all:
  assumes "wait_polls vm"
  shows "sends (\<lambda>c. \<exists>i \<in> set ids. job_cmd i c) (for_each ids (\<lambda>i. wait_done i t))"
  by (rule sends_for_each) (rule sends_mono[OF wait_sends[OF assms]], blast)

lemma wait_all_sound:
  assumes "wait_polls vm" and "for_each ids (\<lambda>i. wait_done i t) s = (Inr (), s')" and "i \<in> set ids"
  shows "\<exists>w es w' e. qmp_events vm w = (Inr es, w') \<and> e \<in> set es \<and> completed i e"
  using assms(2,3)
proof (induction ids arbitrary: s)
  case (Cons j ids)
  then show ?case using wait_sound[OF assms(1)] by (auto elim!: bnd_InrE)
qed simp

end

lemma wait_completed_seen:
  assumes "wait_polls vm" and "wait_until_block_job_completed vm i t s = (Inr (), s')"
  shows "\<exists>w es w' e. qmp_events vm w = (Inr es, w') \<and> e \<in> set es \<and> completed i e"
proof -
  obtain b s1 where "env_wait_for vm 100 t (poll_job_completed vm i) s = (Inr b, s1)" "b"
    using assms(2) by (auto simp: wait_until_block_job_completed_def py_assert_run elim!: bnd_InrE split: if_splits)
  then obtain s0 where "poll_job_completed vm i s0 = (Inr True, s1)" using wait_True[OF assms(1), of 100 t "poll_job_completed vm i" s s1] by auto
  then show ?thesis by (rule poll_completed_True)
qed

interpretation jobs: job_service vm "wait_until_block_job_completed vm" for vm
  by unfold_locales (use sends_wait_completed wait_completed_seen in blast)+

section \<open>Rounds of observation\<close>

lemma job_lookup:
  assumes "job_info_ok j" and "j \<noteq> []"
  shows "dindex j ''status'' = Inr (PStr (job_st j))" "dindex j ''offset'' = Inr (PInt (job_off j))"
  using assms by (auto simp: job_info_ok_def job_st_def job_off_def)

lemma observe_Suc:
  assumes "observe vm i (Suc n) s = (Inr jobs, s')"
  obtains j js s1 s2 where "jobs = j # js" "get_block_job_by_id vm i s = (Inr j, s1)"
    "sleep_ms vm 1000 s1 = (Inr (), s2)" "observe vm i n s2 = (Inr js, s')"
  using assms that by (auto simp: ret_def elim!: bnd_InrE)

lemma started_rounds_obs:
  assumes "observe vm i n s = (Inr jobs, s')" and "\<forall>j \<in> set jobs. job_info_ok j"
  shows "fst (started_rounds vm i n s) = Inr (\<exists>j \<in> set (takeWhile (\<lambda>j. j \<noteq> []) jobs). job_off j > 0)"
  using assms
proof (induction n arbitrary: s jobs)
  case 0
  then show ?case by (simp add: ret_def)
next
  case (Suc n)
  from Suc.prems(1) obtain j js s1 s2 where j: "jobs = j # js" "get_block_job_by_id vm i s = (Inr j, s1)"
    "sleep_ms vm 1000 s1 = (Inr (), s2)" "observe vm i n s2 = (Inr js, s')" by (rule observe_Suc)
  have "fst (started_rounds vm i n s2) = Inr (\<exists>j \<in> set (takeWhile (\<lambda>j. j \<noteq> []) js). job_off j > 0)"
    using Suc.IH[OF j(4)] Suc.prems(2) j(1) by simp
  then show ?case using j Suc.prems(2) job_lookup[of j]
    by (cases "j = []") (auto simp: bnd_def ret_def lift_res_def live_def[of j] live_def[of "[]"] py_gt_def simp del: dindex_Inr_iff)
qed

lemma paused_rounds_obs:
  assumes "observe vm i n s = (Inr jobs, s')" and "\<forall>j \<in> set jobs. job_info_ok j"
  shows "fst (paused_rounds vm i (PInt o0) n s) =
    Inr (\<forall>j \<in> set jobs. j \<noteq> [] \<and> job_st j = ''running'' \<and> job_off j = o0)"
  using assms
proof (induction n arbitrary: s jobs)
  case 0
  then show ?case by (simp add: ret_def)
next
  case (Suc n)
  from Suc.prems(1) obtain j js s1 s2 where j: "jobs = j # js" "get_block_job_by_id vm i s = (Inr j, s1)"
    "sleep_ms vm 1000 s1 = (Inr (), s2)" "observe vm i n s2 = (Inr js, s')" by (rule observe_Suc)
  have "fst (paused_rounds vm i (PInt o0) n s2) =
      Inr (\<forall>j \<in> set js. j \<noteq> [] \<and> job_st j = ''running'' \<and> job_off j = o0)"
    using Suc.IH[OF j(4)] Suc.prems(2) j(1) by simp
  then show ?case using j Suc.prems(2) job_lookup[of j]
    by (cases "j = []") (auto simp: bnd_def ret_def lift_res_def live_def[of j] live_def[of "[]"] py_gt_def simp del: dindex_Inr_iff)
qed

lemma paused_first_obs:
  assumes "observe vm i n s = (Inr jobs, s')" and "\<forall>j \<in> set jobs. job_info_ok j"
  shows "fst (paused_rounds vm i PNone n s) =
    Inr (\<forall>j \<in> set jobs. j \<noteq> [] \<and> job_st j = ''running'' \<and> job_off j = job_off (hd jobs))"
proof (cases n)
  case 0
  then show ?thesis using assms by (auto simp: ret_def)
next
  case (Suc m)
  from assms(1)[unfolded Suc] obtain j js s1 s2 where j: "jobs = j # js" "get_block_job_by_id vm i s = (Inr j, s1)"
    "sleep_ms vm 1000 s1 = (Inr (), s2)" "observe vm i m s2 = (Inr js, s')" by (rule observe_Suc)
  then show ?thesis using assms(2) paused_rounds_obs[OF j(4)] job_lookup[of j]
    by (cases "j = []") (auto simp: Suc bnd_def ret_def lift_res_def simp del: dindex_Inr_iff)
qed

lemma running_rounds_obs:
  assumes "observe vm i n s = (Inr jobs, s')" and "\<forall>j \<in> set jobs. job_info_ok j"
  shows "fst (running_rounds vm i (PInt o0) n s) = Inr (\<exists>j \<in> set (takeWhile live jobs). job_off j > o0)"
  using assms
proof (induction n arbitrary: s jobs)
  case 0
  then show ?case by (simp add: ret_def)
next
  case (Suc n)
  from Suc.prems(1) obtain j js s1 s2 where j: "jobs = j # js" "get_block_job_by_id vm i s = (Inr j, s1)"
    "sleep_ms vm 1000 s1 = (Inr (), s2)" "observe vm i n s2 = (Inr js, s')" by (rule observe_Suc)
  have "fst (running_rounds vm i (PInt o0) n s2) = Inr (\<exists>j \<in> set (takeWhile live js). job_off j > o0)"
    using Suc.IH[OF j(4)] Suc.prems(2) j(1) by simp
  then show ?case using j Suc.prems(2) job_lookup[of j]
    by (cases "j = []") (auto simp: bnd_def ret_def lift_res_def live_def[of j] live_def[of "[]"] py_gt_def simp del: dindex_Inr_iff)
qed

lemma running_first_obs:
  assumes "observe vm i n s = (Inr jobs, s')" and "\<forall>j \<in> set jobs. job_info_ok j"
  shows "fst (running_rounds vm i PNone n s) =
    Inr (\<exists>j \<in> set (takeWhile live jobs). job_st (hd jobs) \<noteq> ''running'' \<or> job_off j > job_off (hd jobs))"
proof (cases n)
  case 0
  then show ?thesis using assms by (auto simp: ret_def)
next
  case (Suc m)
  from assms(1)[unfolded Suc] obtain j js s1 s2 where j: "jobs = j # js" "get_block_job_by_id vm i s = (Inr j, s1)"
    "sleep_ms vm 1000 s1 = (Inr (), s2)" "observe vm i m s2 = (Inr js, s')" by (rule observe_Suc)
  then show ?thesis using assms(2) running_rounds_obs[OF j(4)] job_lookup[of j]
    by (cases "j = []") (auto simp: Suc bnd_def ret_def lift_res_def live_def[of j] live_def[of "[]"] simp del: dindex_Inr_iff)
qed

section \<open>Events by condition\<close>

text \<open>The batches of events a number of rounds a second apart see, and the events of a batch that are wanted.\<close>

fun event_batches :: "'w vm_env \<Rightarrow> nat \<Rightarrow> ('w vst, pyval list list) py" where
  "event_batches vm 0 = ret []"
| "event_batches vm (Suc n) =
     bnd (get_events vm) (\<lambda>b. bnd (sleep_ms vm 1000) (\<lambda>_. bnd (event_batches vm n) (\<lambda>bs. ret (b # bs))))"

definition event_ok :: "pyval \<Rightarrow> bool" where
  "event_ok e \<longleftrightarrow> (\<exists>ev. e = PDict ev \<and> (dget ev ''data'' \<in> {None, Some PNone} \<or> (\<exists>d. dget ev ''data'' = Some (PDict d))))"

definition wanted :: "string \<Rightarrow> pydict \<Rightarrow> pyval \<Rightarrow> bool" where
  "wanted name condition e \<longleftrightarrow>
     (\<exists>ev. e = PDict ev \<and> dget ev ''event'' = Some (PStr name)
        \<and> (condition = [] \<or> (\<exists>d. d \<noteq> [] \<and> dget ev ''data'' = Some (PDict d)
              \<and> (\<forall>(k, v) \<in> set condition. \<exists>w. dget d k = Some w \<and> py_eq w v))))"

lemma filter_res_total: "(\<And>x. x \<in> set xs \<Longrightarrow> p x = Inr (q x)) \<Longrightarrow> filter_res p xs = Inr (filter q xs)"
  by (induction p xs rule: filter_res.induct) auto

lemma named_event_run: "event_ok e \<Longrightarrow> named_event name e = Inr (\<exists>ev. e = PDict ev \<and> dget ev ''event'' = Some (PStr name))"
  by (auto simp: event_ok_def named_event_def py_get_def dget_default_def split: option.splits)

lemma item_in: "(case dget d k of Some w \<Rightarrow> py_eq w v | None \<Rightarrow> False) \<longleftrightarrow> (\<exists>w. dget d k = Some w \<and> py_eq w v)"
  by (simp split: option.split)

lemma event_matches_run:
  "event_ok e \<Longrightarrow> event_matches condition e = Inr (\<exists>ev d. e = PDict ev \<and> d \<noteq> [] \<and> dget ev ''data'' = Some (PDict d)
     \<and> (\<forall>(k, v) \<in> set condition. \<exists>w. dget d k = Some w \<and> py_eq w v))"
  by (auto simp: event_ok_def event_matches_def py_get_def dget_default_def data_matches_def list_all_iff item_in)

lemma filter_events_run:
  assumes "\<forall>e \<in> set es. event_ok e"
  shows "filter_events name condition es = Inr (filter (wanted name condition) es)"
proof -
  let ?named = "\<lambda>e. \<exists>ev. e = PDict ev \<and> dget ev ''event'' = Some (PStr name)"
  let ?match = "\<lambda>e. \<exists>ev d. e = PDict ev \<and> d \<noteq> [] \<and> dget ev ''data'' = Some (PDict d)
     \<and> (\<forall>(k, v) \<in> set condition. \<exists>w. dget d k = Some w \<and> py_eq w v)"
  have 1: "filter_res (named_event name) es = Inr (filter ?named es)"
    using assms named_event_run by (intro filter_res_total) blast
  have 2: "filter_res (event_matches condition) (filter ?named es) = Inr (filter ?match (filter ?named es))"
    using assms event_matches_run by (intro filter_res_total) auto
  have w: "wanted name condition e \<longleftrightarrow> ?named e \<and> (condition = [] \<or> ?match e)" for e
    unfolding wanted_def by auto
  show ?thesis using 1 2 by (simp add: filter_events_def w filter_filter conj_commute cong: filter_cong)
qed

lemma event_rounds_run:
  assumes "event_batches vm n s = (Inr bs, s')" and "\<forall>e \<in> set (concat bs). event_ok e"
  shows "fst (event_rounds vm name condition n s) =
    Inr (case filter (wanted name condition) (concat bs) of [] \<Rightarrow> PNone | e # _ \<Rightarrow> e)"
  using assms
proof (induction n arbitrary: s bs)
  case 0
  then show ?case by (simp add: ret_def)
next
  case (Suc n)
  obtain b bs' s1 s2 where b: "get_events vm s = (Inr b, s1)" "sleep_ms vm 1000 s1 = (Inr (), s2)"
    "event_batches vm n s2 = (Inr bs', s')" "bs = b # bs'"
    using Suc.prems(1) by (auto simp: ret_def elim!: bnd_InrE)
  have "filter_events name condition b = Inr (filter (wanted name condition) b)"
    using Suc.prems(2) b(4) by (intro filter_events_run) auto
  then show ?case using b Suc.IH[OF b(3)] Suc.prems(2)
    by (auto simp: bnd_def lift_res_def ret_def split: list.split)
qed

section \<open>Properties of the job utilities\<close>

text \<open>
  C3. When the wait for a block job returns, an event has announced the completion of that very
  job without an error; and the commands the wait sends are queries and the finalize, complete and
  dismiss commands of that job.
\<close>

theorem block_job_completion:
  assumes "wait_polls vm" and "wait_until_block_job_completed vm job_id timeout s = (Inr (), s')"
  shows "(\<exists>w es w' e. qmp_events vm w = (Inr es, w') \<and> e \<in> set es \<and> completed job_id e)
    \<and> (\<exists>cs. sent s' = sent s @ cs \<and> list_all (job_cmd job_id) cs)"
proof
  show "\<exists>w es w' e. qmp_events vm w = (Inr es, w') \<and> e \<in> set es \<and> completed job_id e"
    using assms by (rule jobs.wait_sound)
  show "\<exists>cs. sent s' = sent s @ cs \<and> list_all (job_cmd job_id) cs"
    using jobs.wait_sends[OF assms(1), of job_id timeout] assms(2) by (metis sends_def snd_conv)
qed

text \<open>A job that is ready at the first poll, is told to complete, and has completed at the second.\<close>

definition demo_job :: pyval where
  "demo_job = PDict [(''id'', PStr ''j''), (''status'', PStr ''ready'')]"

definition demo_completion :: script where
  "demo_completion =
     ([Inr (PList [demo_job]), Inr (PDict []), Inr (PList [demo_job]), Inr (PList []), Inr (PList [])],
      [[], [PDict [(''event'', PStr ''BLOCK_JOB_COMPLETED''), (''data'', PDict [(''device'', PStr ''j'')])]]])"

theorem block_job_completion_witness:
  "\<exists>s' cs. wait_until_block_job_completed (scripted [100, 1000]) ''j'' 10 (vm_start demo_completion) = (Inr (), s')
    \<and> sent s' = cs \<and> list_all (job_cmd ''j'') cs \<and> (''job-complete'', [(''id'', PStr ''j'')]) \<in> set cs"
proof -
  let ?r = "wait_until_block_job_completed (scripted [100, 1000]) ''j'' 10 (vm_start demo_completion)"
  have "fst ?r = Inr ()" by code_simp
  then have r: "?r = (Inr (), snd ?r)" by (metis prod.collapse)
  have "(''job-complete'', [(''id'', PStr ''j'')]) \<in> set (sent (snd ?r))" by code_simp
  then show ?thesis using r block_job_completion[OF scripted_ok(1) r] by (auto simp: vm_start_def)
qed

text \<open>
  When \<open>job_dismiss\<close> returns, the job had been seen concluded, the dismiss command was sent once and
  after that, and the last answer of the monitor lists no job of that name.
\<close>

lemma job_dismiss_gone:
  assumes "wait_polls vm" and "job_dismiss vm job_id timeout s = (Inr (), s')"
  shows "(\<exists>s0 s1. get_job_status vm job_id s0 = (Inr (PStr ''concluded''), s1))
    \<and> (\<exists>qs. sent s' = sent s @ qs @ [(''job-dismiss'', [(''id'', PStr job_id)]), (''query-jobs'', [])]
         \<and> list_all (\<lambda>c. c = (''query-jobs'', [])) qs)
    \<and> (\<exists>w r jobs. qmp vm ''query-jobs'' [] w = (Inr r, world s') \<and> py_iter r = Inr jobs
         \<and> (\<forall>j \<in> set jobs. pindex j ''id'' \<noteq> Inr (PStr job_id)))"
proof -
  obtain s1 r s2 s3 j s4 where 1: "wait_until_job_status_match vm ''concluded'' job_id timeout s = (Inr (), s1)"
    and 2: "monitor_cmd vm ''job-dismiss'' [(''id'', PStr job_id)] s1 = (Inr r, s2)"
    and 3: "sleep_ms vm 100 s2 = (Inr (), s3)" and 4: "get_job_by_id vm job_id s3 = (Inr j, s4)"
    and 5: "j = []" "s' = s4"
    using assms(2)
    by (auto simp: job_dismiss_def job_dismiss_cmd_def py_assert_run elim!: bnd_InrE split: if_splits)
  have "\<exists>s0. get_job_status vm job_id s0 = (Inr (PStr ''concluded''), s1)" using wait_status_seen[OF assms(1) 1] .
  moreover obtain qs where "sent s1 = sent s @ qs" "list_all (\<lambda>c. c = (''query-jobs'', [])) qs"
    using status_sends_queries[OF assms(1)] 1 by (metis sends_def snd_conv)
  moreover have "sent s3 = sent s1 @ [(''job-dismiss'', [(''id'', PStr job_id)])]"
    using 2 3 by (auto simp: monitor_cmd_def sleep_ms_def modify_def split: prod.splits)
  moreover obtain r' jobs w where "qmp vm ''query-jobs'' [] (world s3) = (Inr r', w)" "py_iter r' = Inr jobs"
      "find_job ''id'' job_id jobs = Inr []" "s4 = s3\<lparr>world := w, sent := sent s3 @ [(''query-jobs'', [])]\<rparr>"
    using get_job_run[OF 4] 5 by auto
  ultimately show ?thesis using 5 find_job_none[of "''id''" job_id jobs] by (auto simp del: pindex_Inr_iff)
qed

text \<open>
  The checks on the progress of a job decide by what a given number of observations a second apart
  show of it: started, when the offset is above zero before the job disappears; running, when the
  first observation is pending or ready, or the offset grows while the job stays alive; paused, when it is
  running at the same offset in every observation.
\<close>

lemma job_checks_decide:
  assumes "observe vm i n s = (Inr jobs, s')" and "\<forall>j \<in> set jobs. job_info_ok j"
    and "s = snd (sleep_ms vm 10000 s0)"
  shows "fst (is_block_job_started vm i (int n) s) = Inr (\<exists>j \<in> set (takeWhile (\<lambda>j. j \<noteq> []) jobs). job_off j > 0)
    \<and> fst (is_block_job_running vm i (int n) s) =
      Inr (\<exists>j \<in> set (takeWhile live jobs). job_st (hd jobs) \<noteq> ''running'' \<or> job_off j > job_off (hd jobs))
    \<and> fst (is_block_job_paused vm i (int n) s0) =
      Inr (\<forall>j \<in> set jobs. j \<noteq> [] \<and> job_st j = ''running'' \<and> job_off j = job_off (hd jobs))"
  using started_rounds_obs[OF assms(1,2)] running_first_obs[OF assms(1,2)] paused_first_obs[OF assms(1,2)] assms(3)
  by (simp_all add: is_block_job_started_def is_block_job_running_def is_block_job_paused_def sleep_ms_def py_defs)

definition demo_progress :: script where
  "demo_progress =
     ([Inr (PList [PDict [(''device'', PStr ''j''), (''status'', PStr ''running''), (''offset'', PInt 0)]]),
       Inr (PList [PDict [(''device'', PStr ''j''), (''status'', PStr ''running''), (''offset'', PInt 5)]])], [])"

text \<open>
  What \<open>get_event_by_condition\<close> returns: of all the events its rounds see, a second apart, the first with the
  name asked for that carries every item of the condition, and nothing when no round sees one.
\<close>

lemma event_by_condition_first:
  assumes "event_batches vm (nat tmo) s = (Inr bs, s')" and "\<forall>e \<in> set (concat bs). event_ok e"
  shows "fst (get_event_by_condition vm name tmo condition s) =
    Inr (case filter (wanted name condition) (concat bs) of [] \<Rightarrow> PNone | e # _ \<Rightarrow> e)"
  unfolding get_event_by_condition_def by (rule fail_on_fst) (rule event_rounds_run[OF assms])

text \<open>
  The timeout given to \<open>job_finalize\<close> has no effect: it is passed in the place of another argument, and
  the wait always lasts the default 120 seconds.
\<close>

lemma job_finalize_timeout:
  "job_finalize vm job_id timeout =
     fail_on vm (bnd (wait_until_job_status_match vm ''pending'' job_id 120) (\<lambda>_.
       bnd (monitor_cmd vm ''job-finalize'' [(''id'', PStr job_id)]) (\<lambda>_. ret ())))
   \<and> block_job_finalize vm job_id timeout = block_job_finalize vm job_id timeout'"
  by (simp add: job_finalize_def block_job_finalize_def job_finalize_cmd_def cong: if_cong)

end
