(* ===== verification/Dirty_Bitmap.thy ===== *)
theory Dirty_Bitmap
  imports Vm_Env
begin

text \<open>
  Dirty bitmaps (\<^verbatim>\<open>provider/block_dirty_bitmap.py\<close>): reading them from \<^verbatim>\<open>query-block\<close>, adding, merging, clearing,
  removing, enabling and disabling them, and the transaction that does several of these at once.  The
  test parameters, the image names and the lookup of a block device come from the framework and are
  parameters, and so is the method that \<^verbatim>\<open>get_monitor_function\<close> picks for a command: a function \<open>mf\<close> from command
  names to method names.  Calls of methods of the monitor are logged under the method's name, with positional
  arguments numbered.
\<close>

section \<open>Test parameters\<close>

record params_env =
  object_params :: "string \<Rightarrow> pydict"
  get_image_json :: "string \<Rightarrow> pydict \<Rightarrow> string"
  get_image_filename :: "pydict \<Rightarrow> string"
  get_block :: "string \<Rightarrow> pyval"

definition parse_bitmap_params :: "params_env \<Rightarrow> string \<Rightarrow> pydict res" where
  "parse_bitmap_params env bitmap =
     (let bitmap_params = setdefault ''bitmap_name'' (PStr bitmap) (object_params env bitmap);
          target_image = str_of (dget_default bitmap_params ''target_image'' PNone);
          target_image_params = object_params env target_image in
      rbind (dindex target_image_params ''image_backend'') (\<lambda>backend.
        let filename = (if backend \<in> {PStr ''ceph'', PStr ''iscsi_direct''}
                        then get_image_json env target_image target_image_params
                        else get_image_filename env target_image_params) in
        Inr (dset ''target_device'' (get_block env filename) bitmap_params)))"

definition parse_params :: "params_env \<Rightarrow> pydict \<Rightarrow> pydict list res" where
  "parse_params env params =
     rmap (parse_bitmap_params env) (split_ws (str_of (dget_default params ''bitmaps'' (PStr []))))"

section \<open>Reading the bitmaps\<close>

definition item_bitmaps :: "pyval \<Rightarrow> pyval res" where
  "item_bitmaps item =
     (case item of
        PDict d \<Rightarrow>
          (case dget d ''dirty-bitmaps'' of
             Some b \<Rightarrow> Inr b
           | None \<Rightarrow> rbind (dindex d ''inserted'') (\<lambda>i. py_get i ''dirty-bitmaps'' (PList [])))
      | _ \<Rightarrow> Inl (TypeError ''item''))"

definition item_key :: "pyval \<Rightarrow> pyval res" where
  "item_key item =
     rbind (pindex item ''device'') (\<lambda>dev.
       if truthy dev then Inr dev
       else rbind (pindex item ''inserted'') (\<lambda>i. pindex i ''node-name''))"

fun collect_bitmaps :: "pyval list \<Rightarrow> (pyval \<times> pyval) list \<Rightarrow> (pyval \<times> pyval) list res" where
  "collect_bitmaps [] acc = Inr acc"
| "collect_bitmaps (item # items) acc =
     rbind (item_bitmaps item) (\<lambda>bitmaps. rbind (item_key item) (\<lambda>key.
       if hashable key then collect_bitmaps items (dset key bitmaps acc) else Inl (TypeError ''unhashable type'')))"

definition get_bitmaps :: "pyval \<Rightarrow> (pyval \<times> pyval) list res" where
  "get_bitmaps output = rbind (py_iter output) (\<lambda>items. collect_bitmaps items [])"

text \<open>\<open>next((b for b in bs if b["name"] == bname), {})\<close>\<close>

fun next_named :: "pyval \<Rightarrow> pyval list \<Rightarrow> pyval res" where
  "next_named bname [] = Inr (PDict [])"
| "next_named bname (b # bs) =
     rbind (pindex b ''name'') (\<lambda>n. if py_eq n bname then Inr b else next_named bname bs)"

definition check_bitmap_existence :: "(pyval \<times> pyval) list \<Rightarrow> pydict \<Rightarrow> bool \<Rightarrow> bool res" where
  "check_bitmap_existence bitmaps bitmap_params expected_existence =
     (let bname = dget_default bitmap_params ''bitmap_name'' PNone;
          dev = dget_default bitmap_params ''target_device'' PNone in
      rbind (case dget bitmaps dev of
               None \<Rightarrow> Inr (PBool False)
             | Some bs \<Rightarrow> rbind (py_iter bs) (next_named bname))
        (\<lambda>bitmap. Inr (truthy bitmap = expected_existence)))"

definition get_bitmaps_in_device :: "'w vm_env \<Rightarrow> string \<Rightarrow> ('w vst, pyval) py" where
  "get_bitmaps_in_device vm device =
     bnd (monitor_cmd vm ''query-block'' []) (\<lambda>out.
     bnd (lift_res (get_bitmaps out)) (\<lambda>bitmaps. ret (dget_default bitmaps (PStr device) (PList []))))"

fun named_bitmaps :: "string \<Rightarrow> pyval list \<Rightarrow> pyval list res" where
  "named_bitmaps name [] = Inr []"
| "named_bitmaps name (b # bs) =
     rbind (py_get b ''name'' PNone) (\<lambda>n. rbind (named_bitmaps name bs) (\<lambda>rest.
       Inr (if n = PStr name then b # rest else rest)))"

definition get_bitmap_by_name :: "'w vm_env \<Rightarrow> string \<Rightarrow> string \<Rightarrow> ('w vst, pyval option) py" where
  "get_bitmap_by_name vm device name =
     bnd (get_bitmaps_in_device vm device) (\<lambda>info.
     bnd (lift_res (rbind (py_iter info) (named_bitmaps name))) (\<lambda>bitmaps.
       ret (case bitmaps of [] \<Rightarrow> None | b # _ \<Rightarrow> Some b)))"

section \<open>Operations on one bitmap\<close>

definition positional :: "pyval list \<Rightarrow> pydict" where
  "positional vs = map (\<lambda>(i, v). (int_str (int i), v)) (enumerate 0 vs)"

text \<open>\<open>mapping[item][bitmap_params.get(item, "default")]\<close>\<close>

definition flag_value :: "pydict \<Rightarrow> string \<Rightarrow> pyval res" where
  "flag_value bitmap_params item =
     (case dget_default bitmap_params item (PStr ''default'') of
        PStr t \<Rightarrow>
          if t = ''on'' then Inr (PBool True)
          else if t = ''off'' then Inr (PBool False)
          else if t = ''default'' then Inr PNone
          else Inl (KeyError t)
      | _ \<Rightarrow> Inl (KeyError item))"

definition bitmap_add_args :: "pydict \<Rightarrow> pydict res" where
  "bitmap_add_args bitmap_params =
     (let kargs = [(''node'', dget_default bitmap_params ''target_device'' PNone),
                   (''name'', dget_default bitmap_params ''bitmap_name'' PNone)];
          granularity = dget_default bitmap_params ''bitmap_granularity'' PNone;
          kargs1 = (if truthy granularity then dset ''granularity'' granularity kargs else kargs) in
      rbind (flag_value bitmap_params ''persistent'') (\<lambda>p.
      rbind (flag_value bitmap_params ''disabled'') (\<lambda>d.
        Inr (dset ''disabled'' d (dset ''persistent'' p kargs1)))))"

definition block_dirty_bitmap_add :: "'w vm_env \<Rightarrow> pydict \<Rightarrow> ('w vst, unit) py" where
  "block_dirty_bitmap_add vm bitmap_params =
     fail_on vm (bnd (lift_res (bitmap_add_args bitmap_params)) (\<lambda>kargs.
       bnd (monitor_cmd vm ''block_dirty_bitmap_add'' kargs) (\<lambda>_. ret ())))"

definition call_fn :: "'w vm_env \<Rightarrow> string \<Rightarrow> pyval list \<Rightarrow> ('w vst, pyval) py" where
  "call_fn vm f args = monitor_cmd vm f (positional args)"

definition debug_block_dirty_bitmap_sha256 ::
    "'w vm_env \<Rightarrow> (string \<Rightarrow> string) \<Rightarrow> string \<Rightarrow> string \<Rightarrow> ('w vst, pyval) py" where
  "debug_block_dirty_bitmap_sha256 vm mf device bitmap =
     fail_on vm (bnd (call_fn vm (mf ''debug-block-dirty-bitmap-sha256'') [PStr device, PStr bitmap]) (\<lambda>r.
       lift_res (py_get r ''sha256'' PNone)))"

text \<open>\<open>s.replace("_", "-")\<close>\<close>

definition dashes :: "string \<Rightarrow> string" where
  "dashes s = map (\<lambda>c. if c = CHR ''_'' then CHR ''-'' else c) s"

definition merge_action :: "string \<Rightarrow> string \<Rightarrow> string \<Rightarrow> string \<Rightarrow> pyval" where
  "merge_action cmd device target bitmap =
     PDict [(''type'', PStr cmd),
            (''data'', PDict [(''node'', PStr device), (''src_name'', PStr bitmap), (''dst_name'', PStr target)])]"

definition block_dirty_bitmap_merge ::
    "'w vm_env \<Rightarrow> (string \<Rightarrow> string) \<Rightarrow> string \<Rightarrow> string list \<Rightarrow> string \<Rightarrow> ('w vst, pyval) py" where
  "block_dirty_bitmap_merge vm mf device bitmaps target =
     (let func = mf ''block-dirty-bitmap-merge''; cmd = dashes func in
      if \<not> startswith cmd ''x-'' then call_fn vm func [PStr device, PList (map PStr bitmaps), PStr target]
      else if length bitmaps = 1 then call_fn vm func [PStr device, PStr (hd bitmaps), PStr target]
      else monitor_cmd vm ''transaction'' (positional [PList (map (merge_action cmd device target) bitmaps)]))"

text \<open>\<open>bitmap[k]\<close> where \<open>bitmap\<close> may be \<open>None\<close>.\<close>

definition opt_index :: "pyval option \<Rightarrow> string \<Rightarrow> pyval res" where
  "opt_index b k = (case b of None \<Rightarrow> Inl (TypeError ''NoneType'') | Some v \<Rightarrow> pindex v k)"

definition block_dirty_bitmap_clear ::
    "'w vm_env \<Rightarrow> (string \<Rightarrow> string) \<Rightarrow> string \<Rightarrow> string \<Rightarrow> ('w vst, unit) py" where
  "block_dirty_bitmap_clear vm mf device name =
     fail_on vm (bnd (call_fn vm (mf ''block-dirty-bitmap-clear'') [PStr device, PStr name]) (\<lambda>_.
       bnd (get_bitmap_by_name vm device name) (\<lambda>b.
       bnd (lift_res (rbind (opt_index b ''count'') py_int)) (\<lambda>count.
         check (count = 0) (''Count of '' @ name @ '' in device '' @ device)))))"

definition block_dirty_bitmap_remove ::
    "'w vm_env \<Rightarrow> (string \<Rightarrow> string) \<Rightarrow> string \<Rightarrow> string \<Rightarrow> ('w vst, unit) py" where
  "block_dirty_bitmap_remove vm mf device name =
     fail_on vm (bnd (call_fn vm (mf ''block-dirty-bitmap-remove'') [PStr device, PStr name]) (\<lambda>_.
       bnd (sleep_ms vm 300) (\<lambda>_.
       bnd (get_bitmap_by_name vm device name) (\<lambda>b.
         check (b = None) (''Bitmap '' @ name @ '' in device '' @ device @ '' still exists!'')))))"

definition block_dirty_bitmap_disable ::
    "'w vm_env \<Rightarrow> (string \<Rightarrow> string) \<Rightarrow> string \<Rightarrow> string \<Rightarrow> ('w vst, unit) py" where
  "block_dirty_bitmap_disable vm mf node name =
     fail_on vm (bnd (call_fn vm (mf ''block-dirty-bitmap-disable'') [PStr node, PStr name]) (\<lambda>_.
       bnd (get_bitmap_by_name vm node name) (\<lambda>b.
       bnd (lift_res (opt_index b ''recording'')) (\<lambda>r.
         check (r = PBool False) (''block dirty bitmap '' @ name @ '' is not disabled'')))))"

definition block_dirty_bitmap_enable ::
    "'w vm_env \<Rightarrow> (string \<Rightarrow> string) \<Rightarrow> string \<Rightarrow> string \<Rightarrow> ('w vst, unit) py" where
  "block_dirty_bitmap_enable vm mf node name =
     fail_on vm (bnd (call_fn vm (mf ''block-dirty-bitmap-enable'') [PStr node, PStr name]) (\<lambda>_.
       bnd (get_bitmap_by_name vm node name) (\<lambda>b.
       bnd (lift_res (opt_index b ''recording'')) (\<lambda>r.
         check (r = PBool True) (''block dirty bitmap '' @ name @ '' is not enabled'')))))"

section \<open>Operations on all the bitmaps of a device\<close>

text \<open>\<open>[_["name"] for _ in bitmaps if _.get("name")]\<close>\<close>

fun bitmap_names :: "pyval list \<Rightarrow> pyval list res" where
  "bitmap_names [] = Inr []"
| "bitmap_names (b # bs) =
     rbind (py_get b ''name'' PNone) (\<lambda>n. rbind (bitmap_names bs) (\<lambda>rest. Inr (if truthy n then n # rest else rest)))"

definition for_all_bitmaps :: "'w vm_env \<Rightarrow> string \<Rightarrow> (string \<Rightarrow> ('w vst, unit) py) \<Rightarrow> ('w vst, unit) py" where
  "for_all_bitmaps vm device f =
     fail_on vm (bnd (get_bitmaps_in_device vm device) (\<lambda>bitmaps.
       bnd (lift_res (rbind (py_iter bitmaps) bitmap_names)) (\<lambda>names.
         for_each names (\<lambda>n. f (str_of n)))))"

definition clear_all_bitmaps_in_device :: "'w vm_env \<Rightarrow> (string \<Rightarrow> string) \<Rightarrow> string \<Rightarrow> ('w vst, unit) py" where
  "clear_all_bitmaps_in_device vm mf device = for_all_bitmaps vm device (block_dirty_bitmap_clear vm mf device)"

definition remove_all_bitmaps_in_device :: "'w vm_env \<Rightarrow> (string \<Rightarrow> string) \<Rightarrow> string \<Rightarrow> ('w vst, unit) py" where
  "remove_all_bitmaps_in_device vm mf device = for_all_bitmaps vm device (block_dirty_bitmap_remove vm mf device)"

section \<open>Several operations in one transaction\<close>

definition action :: "pyval \<Rightarrow> pydict \<Rightarrow> pyval" where
  "action cmd data = PDict [(''type'', cmd), (''data'', PDict data)]"

definition disable_action :: "pydict \<Rightarrow> pyval list res" where
  "disable_action disabled_params =
     (if disabled_params = [] then Inr []
      else
        rbind (dindex disabled_params ''bitmap_device_node'') (\<lambda>node.
        rbind (dindex disabled_params ''bitmap_name'') (\<lambda>name.
          Inr [action (dget_default disabled_params ''bitmap_disable_cmd'' (PStr ''block-dirty-bitmap-disable''))
                 [(''node'', node), (''name'', name)]])))"

text \<open>\<open>mapping[v]\<close> for the mapping of on, yes, off and no.\<close>

definition on_off :: "pyval \<Rightarrow> pyval res" where
  "on_off v =
     (case v of
        PStr t \<Rightarrow>
          if t \<in> {''on'', ''yes''} then Inr (PBool True)
          else if t \<in> {''off'', ''no''} then Inr (PBool False)
          else Inl (KeyError t)
      | _ \<Rightarrow> Inl (KeyError []))"

definition opt_flag :: "pydict \<Rightarrow> string \<Rightarrow> string \<Rightarrow> pydict \<Rightarrow> pydict res" where
  "opt_flag params key dest data =
     (let v = dget_default params key PNone in
      if truthy v then rbind (on_off v) (\<lambda>b. Inr (dset dest b data)) else Inr data)"

definition add_action :: "pydict \<Rightarrow> pyval list res" where
  "add_action added_params =
     (if added_params = [] then Inr []
      else
        rbind (dindex added_params ''bitmap_device_node'') (\<lambda>node.
        rbind (dindex added_params ''bitmap_name'') (\<lambda>name.
          let granularity = dget_default added_params ''bitmap_granularity'' PNone;
              data = [(''node'', node), (''name'', name)];
              data1 = (if truthy granularity then dset ''granularity'' granularity data else data) in
          rbind (opt_flag added_params ''bitmap_persistent'' ''persistent'' data1) (\<lambda>data2.
          rbind (opt_flag added_params ''bitmap_disabled'' ''disabled'' data2) (\<lambda>data3.
            Inr [action (dget_default added_params ''bitmap_add_cmd'' (PStr ''block-dirty-bitmap-add'')) data3])))))"

definition merge_actions :: "pydict \<Rightarrow> pyval list res" where
  "merge_actions merged_params =
     (if merged_params = [] then Inr []
      else
        rbind (dindex merged_params ''bitmap_device_node'') (\<lambda>node.
        rbind (dindex merged_params ''bitmap_target'') (\<lambda>target.
        rbind (dindex merged_params ''bitmap_sources'') (\<lambda>sources.
          Inr [action (dget_default merged_params ''bitmap_merge_cmd'' (PStr ''block-dirty-bitmap-merge''))
                 [(''node'', node), (''target'', target), (''bitmaps'', sources)]]))))"

definition handle_block_dirty_bitmap_transaction ::
    "'w vm_env \<Rightarrow> pydict \<Rightarrow> pydict \<Rightarrow> pydict \<Rightarrow> ('w vst, unit) py" where
  "handle_block_dirty_bitmap_transaction vm disabled_params added_params merged_params =
     fail_on vm (bnd (lift_res (disable_action disabled_params)) (\<lambda>a1.
       bnd (lift_res (add_action added_params)) (\<lambda>a2.
       bnd (lift_res (merge_actions merged_params)) (\<lambda>a3.
         if a1 @ a2 @ a3 = [] then ret ()
         else bnd (monitor_cmd vm ''transaction'' [(''actions'', PList (a1 @ a2 @ a3))]) (\<lambda>_. ret ())))))"

section \<open>Operations that check their effect\<close>

text \<open>
  The operations on one bitmap share a contract: when one returns, it has sent its own command and
  then looked at the bitmaps again.  The operations on all the bitmaps of a device rest on it.
\<close>

locale bitmap_operation =
  fixes vm :: "'w vm_env" and device :: string and op :: "string \<Rightarrow> ('w vst, unit) py"
    and cmd :: "string \<Rightarrow> string \<times> pydict"
  assumes op_log: "op n s = (Inr (), s') \<Longrightarrow> sent s' = sent s @ [cmd n, (''query-block'', [])]"
begin

lemma each_log:
  "for_each names (\<lambda>n. op (str_of n)) s = (Inr (), s') \<Longrightarrow>
   sent s' = sent s @ concat (map (\<lambda>n. [cmd (str_of n), (''query-block'', [])]) names)"
  by (induction names arbitrary: s) (auto simp: ret_def op_log elim!: bnd_InrE)

lemma for_all_log:
  assumes "for_all_bitmaps vm device op s = (Inr (), s')"
  shows "\<exists>out w bms bs names. qmp vm ''query-block'' [] (world s) = (Inr out, w) \<and> get_bitmaps out = Inr bms
    \<and> py_iter (dget_default bms (PStr device) (PList [])) = Inr bs \<and> bitmap_names bs = Inr names
    \<and> sent s' = sent s @ (''query-block'', []) # concat (map (\<lambda>n. [cmd (str_of n), (''query-block'', [])]) names)"
proof -
  obtain info s1 names bs where i: "get_bitmaps_in_device vm device s = (Inr info, s1)" "py_iter info = Inr bs"
    "bitmap_names bs = Inr names" "for_each names (\<lambda>n. op (str_of n)) s1 = (Inr (), s')"
    using assms by (auto simp: for_all_bitmaps_def lift_res_def elim!: bnd_InrE rbind_InrE)
  then obtain out w bms where "qmp vm ''query-block'' [] (world s) = (Inr out, w)" "get_bitmaps out = Inr bms"
    "info = dget_default bms (PStr device) (PList [])" "sent s1 = sent s @ [(''query-block'', [])]"
    by (auto simp: get_bitmaps_in_device_def monitor_cmd_def lift_res_def ret_def elim!: bnd_InrE split: prod.splits)
  then show ?thesis using i each_log[OF i(4)] by auto
qed

end

section \<open>Lemmas\<close>

lemma call_fn_log: "call_fn vm f args s = (Inr r, s') \<Longrightarrow> sent s' = sent s @ [(f, positional args)]"
  by (auto simp: call_fn_def monitor_cmd_def split: prod.splits)

lemma get_bitmap_log: "get_bitmap_by_name vm dev n s = (Inr b, s') \<Longrightarrow> sent s' = sent s @ [(''query-block'', [])]"
  by (auto simp: get_bitmap_by_name_def get_bitmaps_in_device_def monitor_cmd_def lift_res_def ret_def
      elim!: bnd_InrE split: prod.splits)

lemma sleep_log: "sleep_ms vm t s = (Inr (), s') \<Longrightarrow> sent s' = sent s"
  by (auto simp: sleep_ms_def modify_def)

lemma clear_run:
  assumes "block_dirty_bitmap_clear vm mf dev n s = (Inr (), s')"
  shows "\<exists>r s1 b v. call_fn vm (mf ''block-dirty-bitmap-clear'') [PStr dev, PStr n] s = (Inr r, s1)
    \<and> get_bitmap_by_name vm dev n s1 = (Inr b, s') \<and> opt_index b ''count'' = Inr v \<and> py_int v = Inr 0"
  using assms
  by (auto simp: block_dirty_bitmap_clear_def lift_res_def py_assert_run elim!: bnd_InrE rbind_InrE split: if_splits)

lemma remove_run:
  assumes "block_dirty_bitmap_remove vm mf dev n s = (Inr (), s')"
  shows "\<exists>r s1 s2. call_fn vm (mf ''block-dirty-bitmap-remove'') [PStr dev, PStr n] s = (Inr r, s1)
    \<and> sleep_ms vm 300 s1 = (Inr (), s2) \<and> get_bitmap_by_name vm dev n s2 = (Inr None, s')"
  using assms
  by (auto simp: block_dirty_bitmap_remove_def py_assert_run elim!: bnd_InrE split: if_splits)

lemma switch_run:
  "block_dirty_bitmap_disable vm mf dev n s = (Inr (), s') \<Longrightarrow>
   \<exists>r s1 b. call_fn vm (mf ''block-dirty-bitmap-disable'') [PStr dev, PStr n] s = (Inr r, s1)
     \<and> get_bitmap_by_name vm dev n s1 = (Inr b, s') \<and> opt_index b ''recording'' = Inr (PBool False)"
  "block_dirty_bitmap_enable vm mf dev n s = (Inr (), s') \<Longrightarrow>
   \<exists>r s1 b. call_fn vm (mf ''block-dirty-bitmap-enable'') [PStr dev, PStr n] s = (Inr r, s1)
     \<and> get_bitmap_by_name vm dev n s1 = (Inr b, s') \<and> opt_index b ''recording'' = Inr (PBool True)"
  by (auto simp: block_dirty_bitmap_disable_def block_dirty_bitmap_enable_def lift_res_def py_assert_run
      elim!: bnd_InrE split: if_splits)

interpretation clearing: bitmap_operation vm device "block_dirty_bitmap_clear vm mf device"
    "\<lambda>n. (mf ''block-dirty-bitmap-clear'', positional [PStr device, PStr n])" for vm mf device
  by unfold_locales (auto dest!: clear_run simp: call_fn_log get_bitmap_log)

interpretation removing: bitmap_operation vm device "block_dirty_bitmap_remove vm mf device"
    "\<lambda>n. (mf ''block-dirty-bitmap-remove'', positional [PStr device, PStr n])" for vm mf device
  by unfold_locales (auto dest!: remove_run simp: call_fn_log get_bitmap_log sleep_log)

interpretation disabling: bitmap_operation vm device "block_dirty_bitmap_disable vm mf device"
    "\<lambda>n. (mf ''block-dirty-bitmap-disable'', positional [PStr device, PStr n])" for vm mf device
  by unfold_locales (auto dest!: switch_run(1) simp: call_fn_log get_bitmap_log)

text \<open>Bitmaps as the monitor describes them: dictionaries with a name that is a string.\<close>

definition bitmap_ok :: "pyval \<Rightarrow> bool" where
  "bitmap_ok b \<longleftrightarrow> (\<exists>d n. b = PDict d \<and> dget d ''name'' = Some (PStr n))"

definition bitmap_nm :: "pyval \<Rightarrow> string" where
  "bitmap_nm b = (case b of PDict d \<Rightarrow> (case dget d ''name'' of Some (PStr n) \<Rightarrow> n | _ \<Rightarrow> []) | _ \<Rightarrow> [])"

lemma bitmap_ok_truthy: "bitmap_ok b \<Longrightarrow> truthy b"
  by (cases b) (auto simp: bitmap_ok_def)

lemma named_bitmaps_run:
  "list_all bitmap_ok bs \<Longrightarrow> named_bitmaps n bs = Inr (filter (\<lambda>b. bitmap_nm b = n) bs)"
  by (induction n bs rule: named_bitmaps.induct) (auto simp: bitmap_ok_def bitmap_nm_def py_get_def dget_default_def)

lemma next_named_run:
  "list_all bitmap_ok bs \<Longrightarrow>
   next_named (PStr n) bs = Inr (case filter (\<lambda>b. bitmap_nm b = n) bs of [] \<Rightarrow> PDict [] | b # _ \<Rightarrow> b)"
  by (induction bs) (auto simp: bitmap_ok_def bitmap_nm_def pindex_def dindex_def)

lemma bitmap_names_run:
  "list_all bitmap_ok bs \<Longrightarrow> bitmap_names bs = Inr (map PStr (filter (\<lambda>n. n \<noteq> []) (map bitmap_nm bs)))"
  by (induction bs rule: bitmap_names.induct) (auto simp: bitmap_ok_def bitmap_nm_def py_get_def dget_default_def)

section \<open>Properties of the bitmap operations\<close>

text \<open>
  The transaction over disabled, added and merged bitmaps: all the actions go in one command, in
  that order; with nothing to do no command is sent, and when a required parameter is missing or a
  flag is not recognised the call fails before anything is sent.
\<close>

lemma bitmap_transaction_atomic:
  "(case rbind (disable_action dp) (\<lambda>a1. rbind (add_action ap) (\<lambda>a2. rbind (merge_actions mp) (\<lambda>a3. Inr (a1 @ a2 @ a3)))) of
      Inl e \<Rightarrow> handle_block_dirty_bitmap_transaction vm dp ap mp s = (Inl (fail_exc vm e), s)
    | Inr [] \<Rightarrow> handle_block_dirty_bitmap_transaction vm dp ap mp s = (Inr (), s)
    | Inr acts \<Rightarrow>
        length acts = (if dp = [] then 0 else 1) + (if ap = [] then 0 else 1) + (if mp = [] then 0 else 1)
        \<and> sent (snd (handle_block_dirty_bitmap_transaction vm dp ap mp s)) =
            sent s @ [(''transaction'', [(''actions'', PList acts)])])"
proof -
  have len: "\<forall>a. disable_action dp = Inr a \<longrightarrow> length a = (if dp = [] then 0 else 1)"
    "\<forall>a. add_action ap = Inr a \<longrightarrow> length a = (if ap = [] then 0 else 1)"
    "\<forall>a. merge_actions mp = Inr a \<longrightarrow> length a = (if mp = [] then 0 else 1)"
    by (auto simp: disable_action_def add_action_def merge_actions_def Let_def elim!: rbind_InrE)
  show ?thesis
  proof (cases "disable_action dp"; cases "add_action ap"; cases "merge_actions mp")
    fix a1 a2 a3
    assume a: "disable_action dp = Inr a1" "add_action ap = Inr a2" "merge_actions mp = Inr a3"
    show ?thesis
    proof (cases "a1 @ a2 @ a3")
      case Nil
      then show ?thesis using a by (simp add: handle_block_dirty_bitmap_transaction_def fail_on_run py_defs)
    next
      case (Cons x xs)
      have "length (a1 @ a2 @ a3) = (if dp = [] then 0 else 1) + (if ap = [] then 0 else 1) + (if mp = [] then 0 else 1)"
        using len a by simp
      then show ?thesis using a Cons
        by (auto simp: handle_block_dirty_bitmap_transaction_def fail_on_run monitor_cmd_def py_defs split: prod.split sum.split)
    qed
  qed (simp_all add: handle_block_dirty_bitmap_transaction_def fail_on_run py_defs)
qed

text \<open>
  C25. An operation on a bitmap that returns has checked its effect: in the last answer of the monitor the cleared
  bitmap counts zero, the removed one is gone, and the disabled or enabled one has the recording
  flag asked for.
\<close>

theorem bitmap_ops_verified:
  "(block_dirty_bitmap_clear vm mf device name s = (Inr (), s') \<longrightarrow>
      (\<exists>s0 b v. get_bitmap_by_name vm device name s0 = (Inr (Some b), s') \<and> pindex b ''count'' = Inr v \<and> py_int v = Inr 0))
   \<and> (block_dirty_bitmap_remove vm mf device name s = (Inr (), s') \<longrightarrow>
      (\<exists>s0. get_bitmap_by_name vm device name s0 = (Inr None, s')))
   \<and> (block_dirty_bitmap_disable vm mf device name s = (Inr (), s') \<longrightarrow>
      (\<exists>s0 b. get_bitmap_by_name vm device name s0 = (Inr (Some b), s') \<and> pindex b ''recording'' = Inr (PBool False)))
   \<and> (block_dirty_bitmap_enable vm mf device name s = (Inr (), s') \<longrightarrow>
      (\<exists>s0 b. get_bitmap_by_name vm device name s0 = (Inr (Some b), s') \<and> pindex b ''recording'' = Inr (PBool True)))"
proof -
  have some: "opt_index b k = Inr v \<longleftrightarrow> (\<exists>x. b = Some x \<and> pindex x k = Inr v)" for b k v
    by (auto simp: opt_index_def simp del: pindex_Inr_iff split: option.splits)
  show ?thesis
    using clear_run[of vm mf device name s s'] remove_run[of vm mf device name s s']
      switch_run[of vm mf device name s s'] unfolding some by blast
qed

text \<open>The answer of \<open>query-block\<close> for a device with one bitmap.\<close>

definition demo_query :: "pydict \<Rightarrow> pyval" where
  "demo_query bitmap = PList [PDict [(''device'', PStr ''d0''), (''dirty-bitmaps'', PList [PDict bitmap])]]"

theorem bitmap_ops_verified_witness:
  "\<exists>s' s0. block_dirty_bitmap_remove (scripted []) (\<lambda>c. c) ''d0'' ''b0''
       (vm_start ([Inr (PDict []), Inr (demo_query [(''name'', PStr ''b1'')])], [])) = (Inr (), s')
    \<and> get_bitmap_by_name (scripted []) ''d0'' ''b0'' s0 = (Inr None, s')"
proof -
  let ?r = "block_dirty_bitmap_remove (scripted []) (\<lambda>c. c) ''d0'' ''b0''
       (vm_start ([Inr (PDict []), Inr (demo_query [(''name'', PStr ''b1'')])], []))"
  have "fst ?r = Inr ()" by code_simp
  then have "?r = (Inr (), snd ?r)" by (metis prod.collapse)
  then show ?thesis
    using bitmap_ops_verified[of "scripted []" "\<lambda>c. c" "''d0''" "''b0''"
       "vm_start ([Inr (PDict []), Inr (demo_query [(''name'', PStr ''b1'')])], [])" "snd ?r"] by blast
qed

text \<open>
  Removing all the bitmaps of a device: the bitmaps with a name that the device has at the start are
  each removed, once, in the order the monitor lists them, and each removal is checked before the next.
\<close>

lemma remove_all_removes_each:
  assumes "remove_all_bitmaps_in_device vm mf device s = (Inr (), s')"
    and "qmp vm ''query-block'' [] (world s) = (Inr out, w)" and "get_bitmaps out = Inr bms"
    and "dget bms (PStr device) = Some (PList bs)" and "list_all bitmap_ok bs"
  shows "sent s' = sent s @ (''query-block'', []) # concat (map (\<lambda>n.
    [(mf ''block-dirty-bitmap-remove'', positional [PStr device, PStr n]), (''query-block'', [])])
      (filter (\<lambda>n. n \<noteq> []) (map bitmap_nm bs)))"
  using removing.for_all_log[of vm device mf s s'] assms bitmap_names_run[OF assms(5)]
  by (auto simp: remove_all_bitmaps_in_device_def dget_default_def py_iter_def str_of_def comp_def)

text \<open>
  The two ways to look for a bitmap agree: \<open>check_bitmap_existence\<close> finds it in the collected
  answer exactly when the device has a bitmap of that name, which is when \<open>get_bitmap_by_name\<close> returns one, the first.
\<close>

lemma bitmap_lookups_agree:
  assumes "qmp vm ''query-block'' [] (world s) = (Inr out, w)" and "get_bitmaps out = Inr bms"
    and "dget bms (PStr device) = Some (PList bs)" and "list_all bitmap_ok bs"
  shows "check_bitmap_existence bms [(''bitmap_name'', PStr name), (''target_device'', PStr device)] expected =
      Inr ((\<exists>b \<in> set bs. bitmap_nm b = name) = expected)
    \<and> fst (get_bitmap_by_name vm device name s) = Inr (List.find (\<lambda>b. bitmap_nm b = name) bs)"
proof -
  let ?f = "filter (\<lambda>b. bitmap_nm b = name) bs"
  have "\<forall>b \<in> set ?f. truthy b" using assms(4) by (auto simp: list_all_iff bitmap_ok_truthy)
  then have "truthy (case ?f of [] \<Rightarrow> PDict [] | b # _ \<Rightarrow> b) \<longleftrightarrow> ?f \<noteq> []" by (cases ?f) auto
  also have "\<dots> \<longleftrightarrow> (\<exists>b \<in> set bs. bitmap_nm b = name)" by (auto simp: filter_empty_conv)
  finally have 1: "check_bitmap_existence bms [(''bitmap_name'', PStr name), (''target_device'', PStr device)] expected =
      Inr ((\<exists>b \<in> set bs. bitmap_nm b = name) = expected)"
    using assms(3) next_named_run[OF assms(4), of name]
    by (simp add: check_bitmap_existence_def dget_default_def py_iter_def)
  have "List.find (\<lambda>b. bitmap_nm b = name) bs = (case ?f of [] \<Rightarrow> None | b # _ \<Rightarrow> Some b)"
    by (induction bs) auto
  then show ?thesis using 1 assms named_bitmaps_run[OF assms(4), of name]
    by (simp add: get_bitmap_by_name_def get_bitmaps_in_device_def monitor_cmd_def dget_default_def py_iter_def py_defs)
qed

end
