(* ===== verification/Backup_Utils.thy ===== *)
theory Backup_Utils
  imports Job_Utils Dirty_Bitmap
begin

text \<open>
  Block backup and the other block jobs (\<^verbatim>\<open>provider/backup_utils.py\<close>): the arguments of the commands, the
  operations that start a job and wait for it, transactions over several nodes, and the helpers that
  run commands in the guest and on the host.  Random identifiers, the test of a version against an
  interval, the choice of a random element, the guest session and the processes of the host are parameters.
\<close>

section \<open>Options\<close>

datatype block_obj = VmObj string | QsdObj string | OtherObj

definition BACKING_MASK_PROTOCOL_VERSION_SCOPE :: string where
  "BACKING_MASK_PROTOCOL_VERSION_SCOPE = ''[9.0.0, )''"

definition obj_version :: "block_obj \<Rightarrow> string option" where
  "obj_version obj = (case obj of VmObj v \<Rightarrow> Some v | QsdObj v \<Rightarrow> Some v | OtherObj \<Rightarrow> None)"

definition default_block_job_options :: "(string \<times> (string \<times> pyval)) list" where
  "default_block_job_options = [(''backing-mask-protocol'', (BACKING_MASK_PROTOCOL_VERSION_SCOPE, PBool True))]"

definition set_default_block_job_options ::
    "(string option \<Rightarrow> string \<Rightarrow> bool) \<Rightarrow> block_obj \<Rightarrow> pydict \<Rightarrow> pydict" where
  "set_default_block_job_options version_in obj arguments =
     fold (\<lambda>(key, (scope, v)) args.
             if version_in (obj_version obj) scope then dset key (dget_default args key v) args else args)
       default_block_job_options arguments"

text \<open>
  \<open>math.log2(x).is_integer()\<close> for the sizes the callers pass, which are far below the point where the
  floating point logarithm rounds: a power of two.
\<close>

definition log2_is_integer :: "int \<Rightarrow> bool" where
  "log2_is_integer x \<longleftrightarrow> x AND (x - 1) = 0"

definition int_range :: "int \<Rightarrow> int \<Rightarrow> int \<Rightarrow> int list" where
  "int_range start stop step =
     map (\<lambda>i. start + int i * step) [0 ..< nat (- ((start - stop) div step))]"

definition generate_log2_value :: "(int set \<Rightarrow> int) \<Rightarrow> int \<Rightarrow> int \<Rightarrow> int \<Rightarrow> int list \<Rightarrow> int res" where
  "generate_log2_value choice start stop step blacklist =
     (let xs = int_range start stop step in
      if step = 0 then Inl (ValueError ''range() arg 3 must not be zero'')
      else if \<exists>x \<in> set xs. x \<le> 0 then Inl (ValueError ''math domain error'')
      else let pool = set (filter log2_is_integer xs) - set blacklist in
        if pool = {} then Inl IndexError else Inr (choice pool))"

definition generate_random_cluster_size :: "(int set \<Rightarrow> int) \<Rightarrow> int list \<Rightarrow> int res" where
  "generate_random_cluster_size choice blacklist = generate_log2_value choice 512 2097152 1 blacklist"

definition INT_KEYS :: "string list" where
  "INT_KEYS = [''speed'', ''granularity'', ''buf-size'', ''timeout'']"

definition BOOL_KEYS :: "string list" where
  "BOOL_KEYS = [''auto-finalize'', ''auto-dismiss'', ''unmap'', ''persistent'', ''backing-mask-protocol'']"

definition yes_value :: "pyval \<Rightarrow> bool" where
  "yes_value v \<longleftrightarrow> list_ex (py_eq v) [PStr ''yes'', PStr ''true'', PStr ''on'', PBool True]"

definition no_value :: "pyval \<Rightarrow> bool" where
  "no_value v \<longleftrightarrow> list_ex (py_eq v) [PStr ''no'', PStr ''false'', PStr ''off'', PBool False]"

definition convert_option :: "string \<Rightarrow> pyval \<Rightarrow> pyval res" where
  "convert_option key val =
     (if key \<in> set INT_KEYS then rbind (py_int val) (\<lambda>i. Inr (PInt i))
      else if key \<in> set BOOL_KEYS \<and> yes_value val then Inr (PBool True)
      else if key \<in> set BOOL_KEYS \<and> no_value val then Inr (PBool False)
      else Inr val)"

fun copy_out :: "pydict \<Rightarrow> (string \<times> pyval) list \<Rightarrow> pydict \<Rightarrow> pydict res" where
  "copy_out params_in [] params_out = Inr params_out"
| "copy_out params_in ((key, dflt) # keys) params_out =
     (let val = dget_default params_in key dflt in
      if val = PNone then copy_out params_in keys params_out
      else rbind (convert_option key val) (\<lambda>v. copy_out params_in keys (dset key v params_out)))"

definition fromkeys :: "string list \<Rightarrow> (string \<times> pyval) list" where
  "fromkeys keys = dupdate [] (map (\<lambda>k. (k, PNone)) keys)"

definition copy_out_dict_if_exists :: "pydict \<Rightarrow> string list \<Rightarrow> pydict res" where
  "copy_out_dict_if_exists params_in keys = copy_out params_in (fromkeys keys) []"

section \<open>Arguments of the commands\<close>

type_synonym qmp_command = "(string \<times> pydict) res"

definition job_name :: "string \<Rightarrow> string \<Rightarrow> string" where
  "job_name device random_id = device @ ''_'' @ random_id"

definition blockdev_snapshot_qmp_cmd :: "string \<Rightarrow> string \<Rightarrow> pydict \<Rightarrow> qmp_command" where
  "blockdev_snapshot_qmp_cmd source target extra_options =
     rbind (copy_out_dict_if_exists extra_options [''node'', ''overlay'']) (\<lambda>arguments.
       Inr (''blockdev-snapshot'', dset ''overlay'' (PStr target) (dset ''node'' (PStr source) arguments)))"

definition MIRROR_OPTIONS :: "string list" where
  "MIRROR_OPTIONS = [''format'', ''node-name'', ''replaces'', ''sync'', ''mode'', ''granularity'', ''speed'',
     ''copy-mode'', ''buf-size'', ''on-source-error'', ''on-target-error'', ''auto-finalize'', ''auto-dismiss'',
     ''filter-node-name'', ''unmap'']"

definition blockdev_mirror_qmp_cmd :: "string \<Rightarrow> string \<Rightarrow> string \<Rightarrow> pydict \<Rightarrow> qmp_command" where
  "blockdev_mirror_qmp_cmd random_id source target extra_options =
     rbind (copy_out_dict_if_exists extra_options MIRROR_OPTIONS) (\<lambda>arguments.
       Inr (''blockdev-mirror'', dset ''job-id'' (PStr (job_name source random_id))
              (dset ''target'' (PStr target) (dset ''device'' (PStr source) arguments))))"

definition COMMIT_OPTIONS :: "string list" where
  "COMMIT_OPTIONS = [''base-node'', ''base'', ''top-node'', ''top'', ''backing-file'', ''speed'', ''on-error'',
     ''filter-node-name'', ''auto-finalize'', ''auto-dismiss'', ''backing-mask-protocol'']"

definition block_commit_qmp_cmd :: "string \<Rightarrow> string \<Rightarrow> pydict \<Rightarrow> qmp_command" where
  "block_commit_qmp_cmd random_id device extra_options =
     rbind (copy_out_dict_if_exists extra_options COMMIT_OPTIONS) (\<lambda>arguments.
       Inr (''block-commit'', dset ''job-id'' (PStr (job_name device random_id)) (dset ''device'' (PStr device) arguments)))"

definition STREAM_OPTIONS :: "string list" where
  "STREAM_OPTIONS = [''speed'', ''base'', ''base-node'', ''snapshot-file'', ''filter-node-name'', ''on-error'',
     ''backing-file'', ''auto-dismiss'', ''auto-finalize'', ''backing-mask-protocol'']"

definition blockdev_stream_qmp_cmd :: "string \<Rightarrow> string \<Rightarrow> pydict \<Rightarrow> qmp_command" where
  "blockdev_stream_qmp_cmd random_id device extra_options =
     (let arguments = [(''device'', PStr device), (''job-id'', PStr (job_name device random_id))] in
      rbind (copy_out_dict_if_exists extra_options STREAM_OPTIONS) (\<lambda>args.
        Inr (''block-stream'', if args \<noteq> [] then dupdate arguments args else arguments)))"

definition copy_key :: "string \<Rightarrow> pydict \<Rightarrow> pydict \<Rightarrow> pydict" where
  "copy_key k from to = (case dget from k of None \<Rightarrow> to | Some v \<Rightarrow> dset k v to)"

definition X_PERF_OPS :: "string list" where
  "X_PERF_OPS = [''use-copy-range'', ''max-workers'', ''max-chunk'']"

definition blockdev_backup_qmp_cmd :: "string \<Rightarrow> string \<Rightarrow> string \<Rightarrow> pydict \<Rightarrow> qmp_command" where
  "blockdev_backup_qmp_cmd random_id source target extra_options =
     rbind (py_int (dget_default extra_options ''speed'' (PInt 0))) (\<lambda>speed.
       let opt = dget_default extra_options;
           arguments =
             [(''device'', PStr source), (''target'', PStr target), (''job-id'', PStr (job_name source random_id)),
              (''sync'', opt ''sync'' (PStr ''full'')), (''speed'', PInt speed),
              (''compress'', opt ''compress'' (PBool False)),
              (''auto-finalize'', opt ''auto-finalize'' (PBool True)),
              (''auto-dismiss'', opt ''auto-dismiss'' (PBool True)),
              (''on-source-error'', opt ''on-source-error'' (PStr ''report'')),
              (''on-target-error'', opt ''on-target-error'' (PStr ''report''))];
           arguments1 =
             (if din ''bitmap'' extra_options
              then copy_key ''bitmap-mode'' extra_options (copy_key ''bitmap'' extra_options arguments) else arguments);
           arguments2 = copy_key ''filter-node-name'' extra_options arguments1;
           x_perf = fold (\<lambda>x. copy_key x extra_options) X_PERF_OPS [] in
       Inr (''blockdev-backup'', if x_perf \<noteq> [] then dset ''x-perf'' (PDict x_perf) arguments2 else arguments2))"

section \<open>Operations on one node\<close>

text \<open>\<open>int(options.pop("timeout", t))\<close>\<close>

definition pop_timeout :: "int \<Rightarrow> pydict \<Rightarrow> (int \<times> pydict) res" where
  "pop_timeout t options =
     rbind (py_int (dget_default options ''timeout'' (PInt t))) (\<lambda>i. Inr (i, dpop ''timeout'' options))"

definition run_command :: "'w vm_env \<Rightarrow> string \<times> pydict \<Rightarrow> ('w vst, pyval) py" where
  "run_command vm c = monitor_cmd vm (fst c) (snd c)"

definition job_id_of :: "string \<times> pydict \<Rightarrow> string \<Rightarrow> string" where
  "job_id_of c device = str_of (dget_default (snd c) ''job-id'' (PStr device))"

definition blockdev_create :: "'w vm_env \<Rightarrow> pydict \<Rightarrow> ('w vst, unit) py" where
  "blockdev_create vm options =
     fail_on vm (bnd (lift_res (pop_timeout 360 options)) (\<lambda>(timeout, options').
       bnd (monitor_cmd vm ''blockdev-create'' options') (\<lambda>_.
       bnd (lift_res (dindex options' ''job-id'')) (\<lambda>job_id. job_dismiss vm (str_of job_id) timeout))))"

definition blockdev_snapshot :: "'w vm_env \<Rightarrow> string \<Rightarrow> string \<Rightarrow> pydict \<Rightarrow> ('w vst, unit) py" where
  "blockdev_snapshot vm source target extra_options =
     fail_on vm (bnd (lift_res (blockdev_snapshot_qmp_cmd source target extra_options)) (\<lambda>c.
       bnd (run_command vm c) (\<lambda>out. check (py_eq out (PDict [])) ''blockdev-snapshot-sync faild'')))"

definition blockdev_mirror_nowait :: "'w vm_env \<Rightarrow> string \<Rightarrow> string \<Rightarrow> string \<Rightarrow> pydict \<Rightarrow> ('w vst, string) py" where
  "blockdev_mirror_nowait vm random_id source target extra_options =
     fail_on vm (bnd (lift_res (blockdev_mirror_qmp_cmd random_id source target extra_options)) (\<lambda>c.
       bnd (run_command vm c) (\<lambda>_. ret (job_id_of c source))))"

definition blockdev_mirror :: "'w vm_env \<Rightarrow> string \<Rightarrow> string \<Rightarrow> string \<Rightarrow> pydict \<Rightarrow> ('w vst, unit) py" where
  "blockdev_mirror vm random_id source target extra_options =
     fail_on vm (bnd (lift_res (pop_timeout 600 extra_options)) (\<lambda>(timeout, options).
       bnd (blockdev_mirror_nowait vm random_id source target options) (\<lambda>job_id.
         wait_until_block_job_completed vm job_id timeout)))"

definition block_commit ::
    "'w vm_env \<Rightarrow> (string option \<Rightarrow> string \<Rightarrow> bool) \<Rightarrow> block_obj \<Rightarrow> string \<Rightarrow> string \<Rightarrow> pydict \<Rightarrow> ('w vst, unit) py" where
  "block_commit vm version_in obj random_id device extra_options =
     fail_on vm (bnd (lift_res (block_commit_qmp_cmd random_id device extra_options)) (\<lambda>(cmd, args).
       let c = (cmd, set_default_block_job_options version_in obj args) in
       bnd (lift_res (pop_timeout 600 extra_options)) (\<lambda>(timeout, _).
       bnd (run_command vm c) (\<lambda>_. wait_until_block_job_completed vm (job_id_of c device) timeout))))"

definition blockdev_stream_nowait ::
    "'w vm_env \<Rightarrow> (string option \<Rightarrow> string \<Rightarrow> bool) \<Rightarrow> block_obj \<Rightarrow> string \<Rightarrow> string \<Rightarrow> pydict \<Rightarrow> ('w vst, string) py" where
  "blockdev_stream_nowait vm version_in obj random_id device extra_options =
     fail_on vm (bnd (lift_res (blockdev_stream_qmp_cmd random_id device extra_options)) (\<lambda>(cmd, args).
       let c = (cmd, set_default_block_job_options version_in obj args) in
       bnd (run_command vm c) (\<lambda>_. ret (job_id_of c device))))"

definition blockdev_stream ::
    "'w vm_env \<Rightarrow> (string option \<Rightarrow> string \<Rightarrow> bool) \<Rightarrow> block_obj \<Rightarrow> string \<Rightarrow> string \<Rightarrow> pydict \<Rightarrow> ('w vst, unit) py" where
  "blockdev_stream vm version_in obj random_id device extra_options =
     fail_on vm (bnd (lift_res (pop_timeout 600 extra_options)) (\<lambda>(timeout, options).
       bnd (blockdev_stream_nowait vm version_in obj random_id device options) (\<lambda>job_id.
         wait_until_block_job_completed vm job_id timeout)))"

text \<open>The check and the disabling of the bitmap that precede a backup with a bitmap.\<close>

definition prepare_bitmap :: "'w vm_env \<Rightarrow> (string \<Rightarrow> string) \<Rightarrow> string \<Rightarrow> string \<Rightarrow> bool \<Rightarrow> ('w vst, unit) py" where
  "prepare_bitmap vm mf source bitmap auto_disable_bitmap =
     bnd (get_bitmap_by_name vm source bitmap) (\<lambda>info.
     bnd (check (case info of None \<Rightarrow> False | Some v \<Rightarrow> truthy v)
            (''Bitmap '' @ bitmap @ '' not exists in device '' @ source)) (\<lambda>_.
     if auto_disable_bitmap then
       bnd (lift_res (case info of None \<Rightarrow> Inl (AttributeError ''get'') | Some v \<Rightarrow> py_get v ''status'' PNone)) (\<lambda>status.
         if status \<noteq> PStr ''disabled'' then block_dirty_bitmap_disable vm mf source bitmap else ret ())
     else ret ()))"

definition blockdev_backup ::
    "'w vm_env \<Rightarrow> (string \<Rightarrow> string) \<Rightarrow> string \<Rightarrow> string \<Rightarrow> string \<Rightarrow> pydict \<Rightarrow> ('w vst, unit) py" where
  "blockdev_backup vm mf random_id source target extra_options =
     fail_on vm (bnd (lift_res (blockdev_backup_qmp_cmd random_id source target extra_options)) (\<lambda>c.
       bnd (lift_res (pop_timeout 600 extra_options)) (\<lambda>(timeout, options).
       bnd (case dget (snd c) ''bitmap'' of
              None \<Rightarrow> ret ()
            | Some b \<Rightarrow> prepare_bitmap vm mf source (str_of b)
                          (truthy (dget_default options ''auto_disable_bitmap'' (PBool True)))) (\<lambda>_.
       bnd (run_command vm c) (\<lambda>_.
         wait_until_block_job_completed vm (job_id_of c source) timeout)))))"

definition incremental_backup ::
    "'w vm_env \<Rightarrow> (string \<Rightarrow> string) \<Rightarrow> string \<Rightarrow> string \<Rightarrow> string \<Rightarrow> string \<Rightarrow> pydict \<Rightarrow> ('w vst, unit) py" where
  "incremental_backup vm mf random_id source target bitmap extra_options =
     fail_on vm (blockdev_backup vm mf random_id source target
       (dset ''bitmap'' (PStr bitmap) (dset ''sync'' (PStr ''incremental'') extra_options)))"

definition full_backup ::
    "'w vm_env \<Rightarrow> (string \<Rightarrow> string) \<Rightarrow> string \<Rightarrow> string \<Rightarrow> string \<Rightarrow> pydict \<Rightarrow> ('w vst, unit) py" where
  "full_backup vm mf random_id source target extra_options =
     fail_on vm (blockdev_backup vm mf random_id source target (dset ''sync'' (PStr ''full'') extra_options))"

section \<open>Transactions over several nodes\<close>

definition nth_res :: "'a list \<Rightarrow> nat \<Rightarrow> 'a res" where
  "nth_res xs i = (if i < length xs then Inr (xs ! i) else Inl IndexError)"

fun snapshot_actions :: "string list \<Rightarrow> nat \<Rightarrow> string list \<Rightarrow> pydict \<Rightarrow> pyval list res" where
  "snapshot_actions [] idx target_lst extra_options = Inr []"
| "snapshot_actions (src # srcs) idx target_lst extra_options =
     rbind (nth_res target_lst idx) (\<lambda>t.
     rbind (blockdev_snapshot_qmp_cmd src t extra_options) (\<lambda>(cmd, args).
     rbind (snapshot_actions srcs (Suc idx) target_lst extra_options) (\<lambda>rest.
       Inr (action (PStr cmd) args # rest))))"

text \<open>The list of jobs to wait for is never filled, so the wait is over an empty list.\<close>

definition blockdev_batch_snapshot :: "'w vm_env \<Rightarrow> string list \<Rightarrow> string list \<Rightarrow> pydict \<Rightarrow> ('w vst, unit) py" where
  "blockdev_batch_snapshot vm source_lst target_lst extra_options =
     fail_on vm (bnd (lift_res (pop_timeout 600 extra_options)) (\<lambda>(timeout, options).
       bnd (lift_res (snapshot_actions source_lst 0 target_lst options)) (\<lambda>actions.
       bnd (monitor_cmd vm ''transaction'' [(''actions'', PList actions)]) (\<lambda>_.
         for_each [] (\<lambda>x. wait_until_block_job_completed vm x timeout)))))"

record batch_options =
  sync_mode :: pyval
  completion_mode :: pyval
  disabled_bitmaps :: "string list"
  wait_job_complete :: bool

definition optional_int :: "string \<Rightarrow> pydict \<Rightarrow> pydict \<Rightarrow> pydict res" where
  "optional_int k options data =
     (case dget_default options k PNone of PNone \<Rightarrow> Inr data | v \<Rightarrow> rbind (py_int v) (\<lambda>i. Inr (dset k (PInt i) data)))"

definition optional_value :: "string \<Rightarrow> pydict \<Rightarrow> pydict \<Rightarrow> pydict" where
  "optional_value k options data =
     (case dget_default options k PNone of PNone \<Rightarrow> data | v \<Rightarrow> dset k v data)"

definition bitmap_add_action :: "string \<Rightarrow> string \<Rightarrow> pydict \<Rightarrow> pyval res" where
  "bitmap_add_action node name options =
     rbind (optional_int ''granularity'' options [(''node'', PStr node), (''name'', PStr name)]) (\<lambda>data.
       Inr (action (PStr ''block-dirty-bitmap-add'') (optional_value ''disabled'' options (optional_value ''persistent'' options data))))"

text \<open>
  The loop over the source nodes: the jobs and the actions of the nodes from index \<open>idx\<close> on.  The bitmap
  of the node stays in the options for the nodes after it.
\<close>

fun backup_actions ::
    "(nat \<Rightarrow> string) \<Rightarrow> batch_options \<Rightarrow> nat \<Rightarrow> string list \<Rightarrow> nat \<Rightarrow> string list \<Rightarrow> string list \<Rightarrow> pydict \<Rightarrow> (string list \<times> pyval list) res" where
  "backup_actions rids opts count [] idx target_lst bitmap_lst extra_options = Inr ([], [])"
| "backup_actions rids opts count (src # srcs) idx target_lst bitmap_lst extra_options =
     rbind (if sync_mode opts \<in> {PStr ''incremental'', PStr ''bitmap''} then
              (if length bitmap_lst = count
               then rbind (nth_res bitmap_lst idx) (\<lambda>b. Inr (dset ''bitmap'' (PStr b) extra_options))
               else Inl (AssertionError ''must provide a valid bitmap name for incremental sync mode''))
            else Inr extra_options) (\<lambda>options.
     rbind (nth_res target_lst idx) (\<lambda>t.
     rbind (blockdev_backup_qmp_cmd (rids idx) src t options) (\<lambda>c.
     rbind (if bitmap_lst \<noteq> [] \<and> sync_mode opts \<in> {PStr ''full'', PStr ''none''}
            then rbind (nth_res bitmap_lst idx) (\<lambda>b. rbind (bitmap_add_action src b options) (\<lambda>a. Inr [a]))
            else Inr []) (\<lambda>added.
     rbind (if disabled_bitmaps opts \<noteq> []
            then rbind (nth_res (disabled_bitmaps opts) idx) (\<lambda>b.
                   Inr [action (PStr ''block-dirty-bitmap-disable'') [(''node'', PStr src), (''name'', PStr b)]])
            else Inr []) (\<lambda>disabled.
     rbind (backup_actions rids opts count srcs (Suc idx) target_lst bitmap_lst options) (\<lambda>(jobs, actions).
       Inr (job_id_of c src # jobs, action (PStr (fst c)) (snd c) # added @ disabled @ actions)))))))"

definition as_strings :: "pyval \<Rightarrow> string list" where
  "as_strings v = (case v of PList l \<Rightarrow> map str_of l | _ \<Rightarrow> [])"

definition read_batch_options :: "pydict \<Rightarrow> batch_options" where
  "read_batch_options extra_options =
     \<lparr>sync_mode = dget_default extra_options ''sync'' PNone,
      completion_mode = dget_default extra_options ''completion_mode'' PNone,
      disabled_bitmaps = as_strings (dget_default extra_options ''disabled_bitmaps'' PNone),
      wait_job_complete = truthy (dget_default extra_options ''wait_job_complete'' (PBool True))\<rparr>"

definition blockdev_batch_backup ::
    "'w vm_env \<Rightarrow> (nat \<Rightarrow> string) \<Rightarrow> string list \<Rightarrow> string list \<Rightarrow> string list \<Rightarrow> pydict \<Rightarrow> ('w vst, unit) py" where
  "blockdev_batch_backup vm rids source_lst target_lst bitmap_lst extra_options =
     fail_on vm (bnd (lift_res (pop_timeout 600 extra_options)) (\<lambda>(timeout, o1).
       let opts = read_batch_options o1;
           options = dpop ''wait_job_complete'' (dpop ''disabled_bitmaps'' (dpop ''completion_mode'' o1)) in
       bnd (lift_res (backup_actions rids opts (length source_lst) source_lst 0 target_lst bitmap_lst options)) (\<lambda>(jobs_id, actions).
       bnd (monitor_cmd vm ''transaction''
              ((''actions'', PList actions) #
               (if completion_mode opts = PStr ''grouped''
                then [(''properties'', PDict [(''completion-mode'', PStr ''grouped'')])] else []))) (\<lambda>_.
         if wait_job_complete opts then for_each jobs_id (\<lambda>x. wait_until_block_job_completed vm x timeout)
         else ret ()))))"

section \<open>Options read out of a dictionary\<close>

lemma dict_ok_dupdate: "dict_ok d \<Longrightarrow> dict_ok (dupdate d e)"
  by (induction e arbitrary: d) auto

lemma keys_fromkeys: "set (map fst (fromkeys ks)) = set ks"
proof -
  have "set (map fst (dupdate d (map (\<lambda>k. (k, PNone)) ks))) = set (map fst d) \<union> set ks" for d
    by (induction ks arbitrary: d) auto
  then show ?thesis by (simp add: fromkeys_def)
qed

lemma fromkeys_ok: "dict_ok (fromkeys ks)"
  by (simp add: fromkeys_def dict_ok_dupdate)

lemma fromkeys_None: "(k, v) \<in> set (fromkeys ks) \<Longrightarrow> v = PNone"
proof -
  have set_dset: "set (dset k v d) \<subseteq> insert (k, v) (set d)" for k :: string and v :: pyval and d
    by (induction k v d rule: dset.induct) auto
  have "\<forall>p \<in> set d. snd p = PNone \<Longrightarrow> \<forall>p \<in> set (dupdate d (map (\<lambda>k. (k, PNone)) ks)). snd p = PNone"
    for d :: "(string \<times> pyval) list"
  proof (induction ks arbitrary: d)
    case (Cons a ks)
    then have "\<forall>p \<in> set (dset a PNone d). snd p = PNone" using set_dset[of a PNone d] by auto
    then show ?case using Cons.IH by simp
  qed simp
  note all = this[of "[]"]
  show "(k, v) \<in> set (fromkeys ks) \<Longrightarrow> v = PNone"
    using all unfolding fromkeys_def by (metis empty_iff list.set(1) snd_conv)
qed

lemma copy_out_spec:
  assumes "copy_out params keys acc = Inr out" and "dict_ok keys" and "\<forall>(k, v) \<in> set keys. v = PNone"
    and "\<forall>k \<in> set (map fst keys). dget acc k = None" and "dict_ok acc"
  shows "dict_ok out \<and> (\<forall>k w. dget out k = Some w \<longleftrightarrow>
    dget acc k = Some w \<or> k \<in> set (map fst keys) \<and> (\<exists>v. dget params k = Some v \<and> v \<noteq> PNone \<and> convert_option k v = Inr w))"
  using assms
proof (induction params keys acc rule: copy_out.induct)
  case (1 params acc)
  then show ?case by simp
next
  case (2 params key dflt keys acc)
  have d: "dflt = PNone" "dict_ok keys" "key \<notin> set (map fst keys)" "\<forall>(k, v) \<in> set keys. v = PNone"
    using "2.prems" by (auto simp: dict_ok_def)
  show ?case
  proof (cases "dget_default params key PNone = PNone")
    case True
    then have "\<not> (\<exists>v. dget params key = Some v \<and> v \<noteq> PNone)" by (auto simp: dget_default_def split: option.splits)
    then show ?thesis using "2.IH"(1) "2.prems" True d by auto
  next
    case False
    then obtain v where v: "dget params key = Some v" "v \<noteq> PNone" "dget_default params key PNone = v"
      by (auto simp: dget_default_def split: option.splits)
    obtain w where w: "convert_option key v = Inr w" "copy_out params keys (dset key w acc) = Inr out"
      using "2.prems"(1) v d(1) by (auto elim: rbind_InrE)
    have "\<forall>k \<in> set (map fst keys). dget (dset key w acc) k = None" using "2.prems"(4) d(3) by auto
    then have IH: "dict_ok out \<and> (\<forall>k x. dget out k = Some x \<longleftrightarrow> dget (dset key w acc) k = Some x \<or>
        k \<in> set (map fst keys) \<and> (\<exists>v. dget params k = Some v \<and> v \<noteq> PNone \<and> convert_option k v = Inr x))"
      using "2.IH"(2)[of v w] v d w "2.prems"(5) by simp
    have acc: "dget acc key = None" using "2.prems"(4) by simp
    show ?thesis using IH v w acc d(3) by (auto split: if_splits)
  qed
qed

lemma copy_out_dict_spec:
  assumes "copy_out_dict_if_exists params keys = Inr out"
  shows "dict_ok out \<and> (\<forall>k w. dget out k = Some w \<longleftrightarrow>
    k \<in> set keys \<and> (\<exists>v. dget params k = Some v \<and> v \<noteq> PNone \<and> convert_option k v = Inr w))"
proof -
  have "\<forall>(k, v) \<in> set (fromkeys keys). v = PNone" using fromkeys_None[of _ _ keys] by blast
  then show ?thesis
    using copy_out_spec[OF assms[unfolded copy_out_dict_if_exists_def] fromkeys_ok] keys_fromkeys[of keys] by simp
qed

section \<open>Commands that start a job\<close>

lemma dget_set_default:
  "dget args k = Some v \<Longrightarrow> dget (set_default_block_job_options vi obj args) k = Some v"
  by (auto simp: set_default_block_job_options_def default_block_job_options_def dget_default_def)

lemma mirror_cmd_spec:
  "blockdev_mirror_qmp_cmd rid src tgt opts = Inr (c, a) \<Longrightarrow>
   c = ''blockdev-mirror'' \<and> dget a ''device'' = Some (PStr src) \<and> dget a ''target'' = Some (PStr tgt)
   \<and> dget a ''job-id'' = Some (PStr (job_name src rid))"
  by (auto simp: blockdev_mirror_qmp_cmd_def elim!: rbind_InrE)

lemma commit_cmd_spec:
  "block_commit_qmp_cmd rid dev opts = Inr (c, a) \<Longrightarrow>
   c = ''block-commit'' \<and> dget a ''device'' = Some (PStr dev) \<and> dget a ''job-id'' = Some (PStr (job_name dev rid))"
  by (auto simp: block_commit_qmp_cmd_def elim!: rbind_InrE)

lemma stream_cmd_spec:
  assumes "blockdev_stream_qmp_cmd rid dev opts = Inr (c, a)"
  shows "c = ''block-stream'' \<and> dget a ''device'' = Some (PStr dev) \<and> dget a ''job-id'' = Some (PStr (job_name dev rid))"
proof -
  obtain args where args: "copy_out_dict_if_exists opts STREAM_OPTIONS = Inr args" "c = ''block-stream''"
    "a = (if args \<noteq> [] then dupdate [(''device'', PStr dev), (''job-id'', PStr (job_name dev rid))] args
          else [(''device'', PStr dev), (''job-id'', PStr (job_name dev rid))])"
    using assms by (auto simp: blockdev_stream_qmp_cmd_def Let_def elim!: rbind_InrE)
  note spec = copy_out_dict_spec[OF args(1)]
  have "dget args ''device'' = None" "dget args ''job-id'' = None"
    using spec by (auto simp: STREAM_OPTIONS_def simp flip: not_Some_eq)
  then show ?thesis using args spec by (simp add: dget_dupdate)
qed

lemma dget_copy_key: "dget (copy_key k from to) k' = (if k' = k \<and> dget from k \<noteq> None then dget from k else dget to k')"
  by (auto simp: copy_key_def split: option.split)

lemma backup_cmd_spec:
  assumes "blockdev_backup_qmp_cmd rid src tgt opts = Inr (c, a)"
  shows "c = ''blockdev-backup'' \<and> dget a ''device'' = Some (PStr src) \<and> dget a ''target'' = Some (PStr tgt)
    \<and> dget a ''job-id'' = Some (PStr (job_name src rid)) \<and> dget a ''bitmap'' = dget opts ''bitmap''
    \<and> dget a ''sync'' = Some (dget_default opts ''sync'' (PStr ''full''))"
proof -
  have if_get: "dget (if b then dset ''x-perf'' v d else d) k = dget d k" if "k \<noteq> ''x-perf''" for b v d k
    using that by simp
  show ?thesis using assms
    by (auto simp: blockdev_backup_qmp_cmd_def dget_copy_key din_iff Let_def if_get elim!: rbind_InrE simp del: not_None_eq)
qed

lemma job_id_of_eq: "dget (snd c) ''job-id'' = Some (PStr i) \<Longrightarrow> job_id_of c dev = i"
  by (simp add: job_id_of_def dget_default_def str_of_def)

text \<open>Each operation, when it returns, is its start command followed by the wait for its job.\<close>

lemma mirror_run:
  assumes "blockdev_mirror vm rid src tgt opts s = (Inr (), s')"
  obtains a t where "dget a ''device'' = Some (PStr src)" "dget a ''target'' = Some (PStr tgt)"
    "dget a ''job-id'' = Some (PStr (job_name src rid))"
    "bnd (monitor_cmd vm ''blockdev-mirror'' a) (\<lambda>_. wait_until_block_job_completed vm (job_name src rid) t) s = (Inr (), s')"
proof -
  obtain t o' c a r s1 where *: "blockdev_mirror_qmp_cmd rid src tgt o' = Inr (c, a)"
    "monitor_cmd vm c a s = (Inr r, s1)" "wait_until_block_job_completed vm (job_id_of (c, a) src) t s1 = (Inr (), s')"
    using assms
    by (auto simp: blockdev_mirror_def blockdev_mirror_nowait_def run_command_def lift_res_def ret_def elim!: bnd_InrE split: prod.splits)
  note spec = mirror_cmd_spec[OF *(1)]
  then have "job_id_of (c, a) src = job_name src rid" by (intro job_id_of_eq) simp
  then show ?thesis using that spec * by (auto simp: bnd_def)
qed

lemma commit_run:
  assumes "block_commit vm vi obj rid dev opts s = (Inr (), s')"
  obtains a t where "dget a ''device'' = Some (PStr dev)" "dget a ''job-id'' = Some (PStr (job_name dev rid))"
    "bnd (monitor_cmd vm ''block-commit'' a) (\<lambda>_. wait_until_block_job_completed vm (job_name dev rid) t) s = (Inr (), s')"
proof -
  obtain t c a a' r s1 where *: "block_commit_qmp_cmd rid dev opts = Inr (c, a)"
    "a' = set_default_block_job_options vi obj a"
    "monitor_cmd vm c a' s = (Inr r, s1)" "wait_until_block_job_completed vm (job_id_of (c, a') dev) t s1 = (Inr (), s')"
    using assms by (auto simp: block_commit_def run_command_def lift_res_def Let_def elim!: bnd_InrE split: prod.splits)
  have spec: "c = ''block-commit''" "dget a' ''device'' = Some (PStr dev)" "dget a' ''job-id'' = Some (PStr (job_name dev rid))"
    using commit_cmd_spec[OF *(1)] *(2) by (simp_all add: dget_set_default)
  then have "job_id_of (c, a') dev = job_name dev rid" by (intro job_id_of_eq) simp
  then show ?thesis using that spec * by (auto simp: bnd_def)
qed

lemma stream_run:
  assumes "blockdev_stream vm vi obj rid dev opts s = (Inr (), s')"
  obtains a t where "dget a ''device'' = Some (PStr dev)" "dget a ''job-id'' = Some (PStr (job_name dev rid))"
    "bnd (monitor_cmd vm ''block-stream'' a) (\<lambda>_. wait_until_block_job_completed vm (job_name dev rid) t) s = (Inr (), s')"
proof -
  obtain t o' c a a' r s1 where *: "blockdev_stream_qmp_cmd rid dev o' = Inr (c, a)"
    "a' = set_default_block_job_options vi obj a"
    "monitor_cmd vm c a' s = (Inr r, s1)" "wait_until_block_job_completed vm (job_id_of (c, a') dev) t s1 = (Inr (), s')"
    using assms
    by (auto simp: blockdev_stream_def blockdev_stream_nowait_def run_command_def lift_res_def ret_def Let_def elim!: bnd_InrE split: prod.splits)
  have spec: "c = ''block-stream''" "dget a' ''device'' = Some (PStr dev)" "dget a' ''job-id'' = Some (PStr (job_name dev rid))"
    using stream_cmd_spec[OF *(1)] *(2) by (simp_all add: dget_set_default)
  then have "job_id_of (c, a') dev = job_name dev rid" by (intro job_id_of_eq) simp
  then show ?thesis using that spec * by (auto simp: bnd_def)
qed

section \<open>Backup with a bitmap\<close>

lemma backup_run:
  assumes "blockdev_backup vm mf rid src tgt opts s = (Inr (), s')" and "dget opts ''bitmap'' = Some (PStr b)"
  obtains a t s1 where "dget a ''device'' = Some (PStr src)" "dget a ''target'' = Some (PStr tgt)"
    "dget a ''job-id'' = Some (PStr (job_name src rid))" "dget a ''bitmap'' = Some (PStr b)"
    "prepare_bitmap vm mf src b (truthy (dget_default opts ''auto_disable_bitmap'' (PBool True))) s = (Inr (), s1)"
    "bnd (monitor_cmd vm ''blockdev-backup'' a) (\<lambda>_. wait_until_block_job_completed vm (job_name src rid) t) s1 = (Inr (), s')"
proof -
  obtain c a t o' s1 r s2 where c: "blockdev_backup_qmp_cmd rid src tgt opts = Inr (c, a)" "pop_timeout 600 opts = Inr (t, o')"
    and prep: "(case dget a ''bitmap'' of None \<Rightarrow> ret ()
       | Some b \<Rightarrow> prepare_bitmap vm mf src (str_of b) (truthy (dget_default o' ''auto_disable_bitmap'' (PBool True)))) s = (Inr (), s1)"
    and run: "monitor_cmd vm c a s1 = (Inr r, s2)" "wait_until_block_job_completed vm (job_id_of (c, a) src) t s2 = (Inr (), s')"
    using assms(1) by (auto simp: blockdev_backup_def run_command_def lift_res_def elim!: bnd_InrE split: prod.splits)
  note spec = backup_cmd_spec[OF c(1)]
  have "dget_default o' ''auto_disable_bitmap'' d = dget_default opts ''auto_disable_bitmap'' d" for d
    using c(2) by (auto simp: pop_timeout_def dget_default_def elim!: rbind_InrE)
  moreover have "job_id_of (c, a) src = job_name src rid" using spec by (intro job_id_of_eq) simp
  ultimately show ?thesis using that spec prep run assms(2) by (auto simp: str_of_def bnd_def)
qed

lemma prepare_bitmap_run:
  assumes "prepare_bitmap vm mf src b auto s = (Inr (), s1)"
  obtains v s0 where "get_bitmap_by_name vm src b s = (Inr (Some v), s0)" "truthy v"
    "auto \<Longrightarrow> (pindex v ''status'' = Inr (PStr ''disabled'') \<and> s1 = s0) \<or> block_dirty_bitmap_disable vm mf src b s0 = (Inr (), s1)"
    "\<not> auto \<Longrightarrow> s1 = s0"
proof -
  obtain info s0 where i: "get_bitmap_by_name vm src b s = (Inr info, s0)"
    "case info of None \<Rightarrow> False | Some v \<Rightarrow> truthy v"
    and rest: "(if auto then
       bnd (lift_res (case info of None \<Rightarrow> Inl (AttributeError ''get'') | Some v \<Rightarrow> py_get v ''status'' PNone)) (\<lambda>status.
         if status \<noteq> PStr ''disabled'' then block_dirty_bitmap_disable vm mf src b else ret ())
     else ret ()) s0 = (Inr (), s1)"
    using assms by (auto simp: prepare_bitmap_def py_assert_run elim!: bnd_InrE split: if_splits)
  then obtain v where v: "info = Some v" "truthy v" by (auto split: option.splits)
  show ?thesis
  proof (rule that[of v s0])
    show "get_bitmap_by_name vm src b s = (Inr (Some v), s0)" "truthy v" using i v by simp_all
    show "\<not> auto \<Longrightarrow> s1 = s0" using rest by (simp add: ret_def)
    show "(pindex v ''status'' = Inr (PStr ''disabled'') \<and> s1 = s0) \<or> block_dirty_bitmap_disable vm mf src b s0 = (Inr (), s1)" if auto
      using rest that v
      by (auto simp: py_get_def ret_def throw_def lift_res_def dget_default_def elim!: bnd_InrE split: if_splits pyval.splits option.splits)
  qed
qed

section \<open>Transactions\<close>

lemma backup_actions_spec:
  assumes "backup_actions rids opts n srcs idx tgts bms os = Inr (jobs, acts)"
  shows "jobs = map (\<lambda>(i, src). job_name src (rids i)) (enumerate idx srcs)
    \<and> (\<forall>i < length srcs. idx + i < length tgts \<and> (\<exists>args. action (PStr ''blockdev-backup'') args \<in> set acts
        \<and> dget args ''device'' = Some (PStr (srcs ! i)) \<and> dget args ''target'' = Some (PStr (tgts ! (idx + i)))
        \<and> dget args ''job-id'' = Some (PStr (job_name (srcs ! i) (rids (idx + i))))
        \<and> (sync_mode opts \<in> {PStr ''incremental'', PStr ''bitmap''} \<longrightarrow> dget args ''bitmap'' = Some (PStr (bms ! (idx + i))))))"
  using assms
proof (induction srcs arbitrary: idx os jobs acts)
  case Nil
  then show ?case by simp
next
  case (Cons src srcs)
  obtain options t c a jobs' acts' added disabled where
    opt: "(if sync_mode opts \<in> {PStr ''incremental'', PStr ''bitmap''} then
              (if length bms = n
               then rbind (nth_res bms idx) (\<lambda>b. Inr (dset ''bitmap'' (PStr b) os))
               else Inl (AssertionError ''must provide a valid bitmap name for incremental sync mode''))
            else Inr os) = Inr options"
    and t: "nth_res tgts idx = Inr t" and c: "blockdev_backup_qmp_cmd (rids idx) src t options = Inr (c, a)"
    and rest: "backup_actions rids opts n srcs (Suc idx) tgts bms options = Inr (jobs', acts')"
    and out: "jobs = job_id_of (c, a) src # jobs'" "acts = action (PStr c) a # added @ disabled @ acts'"
    using Cons.prems by (auto elim!: rbind_InrE split: prod.splits)
  note spec = backup_cmd_spec[OF c]
  note IH = Cons.IH[OF rest]
  have id: "job_id_of (c, a) src = job_name src (rids idx)" using spec by (intro job_id_of_eq) simp
  have bm: "sync_mode opts \<in> {PStr ''incremental'', PStr ''bitmap''} \<Longrightarrow> dget a ''bitmap'' = Some (PStr (bms ! idx))"
    using opt spec by (auto simp: nth_res_def elim!: rbind_InrE split: if_splits)
  have tgt: "idx < length tgts" "t = tgts ! idx" using t by (auto simp: nth_res_def split: if_splits)
  show ?case
  proof (intro conjI allI impI)
    show "jobs = map (\<lambda>(i, src). job_name src (rids i)) (enumerate idx (src # srcs))"
      using IH out id by simp
  next
    fix i assume i: "i < length (src # srcs)"
    show "idx + i < length tgts"
      using IH tgt i by (cases i) auto
    show "\<exists>args. action (PStr ''blockdev-backup'') args \<in> set acts
        \<and> dget args ''device'' = Some (PStr ((src # srcs) ! i)) \<and> dget args ''target'' = Some (PStr (tgts ! (idx + i)))
        \<and> dget args ''job-id'' = Some (PStr (job_name ((src # srcs) ! i) (rids (idx + i))))
        \<and> (sync_mode opts \<in> {PStr ''incremental'', PStr ''bitmap''} \<longrightarrow> dget args ''bitmap'' = Some (PStr (bms ! (idx + i))))"
    proof (cases i)
      case 0
      then show ?thesis using spec bm tgt out by (intro exI[of _ a]) auto
    next
      case (Suc j)
      then show ?thesis using IH i out by fastforce
    qed
  qed
qed

lemma read_batch_options_timeout:
  assumes "pop_timeout t os = Inr (i, o1)"
  shows "sync_mode (read_batch_options o1) = dget_default os ''sync'' PNone"
    and "wait_job_complete (read_batch_options o1) = truthy (dget_default os ''wait_job_complete'' (PBool True))"
  using assms by (auto simp: pop_timeout_def read_batch_options_def dget_default_def elim!: rbind_InrE)

lemma batch_backup_run:
  assumes "blockdev_batch_backup vm rids srcs tgts bms os s = (Inr (), s')"
  shows "\<exists>t o1 o2 jobs acts props r s1. pop_timeout 600 os = Inr (t, o1)
    \<and> backup_actions rids (read_batch_options o1) (length srcs) srcs 0 tgts bms o2 = Inr (jobs, acts)
    \<and> monitor_cmd vm ''transaction'' ((''actions'', PList acts) # props) s = (Inr r, s1)
    \<and> (if wait_job_complete (read_batch_options o1)
        then for_each jobs (\<lambda>x. wait_until_block_job_completed vm x t) else ret ()) s1 = (Inr (), s')"
proof -
  obtain t o1 where t: "pop_timeout 600 os = Inr (t, o1)"
    using assms by (auto simp: blockdev_batch_backup_def lift_res_def elim!: bnd_InrE)
  let ?o2 = "dpop ''wait_job_complete'' (dpop ''disabled_bitmaps'' (dpop ''completion_mode'' o1))"
  let ?props = "if completion_mode (read_batch_options o1) = PStr ''grouped''
      then [(''properties'', PDict [(''completion-mode'', PStr ''grouped'')])] else []"
  obtain jobs acts r s1 where "backup_actions rids (read_batch_options o1) (length srcs) srcs 0 tgts bms ?o2 = Inr (jobs, acts)"
    "monitor_cmd vm ''transaction'' ((''actions'', PList acts) # ?props) s = (Inr r, s1)"
    "(if wait_job_complete (read_batch_options o1)
        then for_each jobs (\<lambda>x. wait_until_block_job_completed vm x t) else ret ()) s1 = (Inr (), s')"
    using assms t by (auto simp: blockdev_batch_backup_def lift_res_def Let_def elim!: bnd_InrE)
  then show ?thesis using t by blast
qed

section \<open>Powers of two\<close>

lemma and_pred_double: "(2 * y) AND (2 * y - 1) = 2 * (y AND (y - 1))" for y :: int
proof -
  have "(2 * y - 1) div 2 = y - 1" by presburger
  then show ?thesis by (subst and_rec) simp
qed

lemma and_pred_odd: "(2 * y + 1) AND (2 * y) = 2 * y" for y :: int
  by (subst and_rec) simp

lemma power_of_two_iff: "0 < x \<Longrightarrow> log2_is_integer x \<longleftrightarrow> (\<exists>n. x = 2 ^ n)"
proof (induction "nat x" arbitrary: x rule: less_induct)
  case less
  show ?case
  proof (cases "even x")
    case True
    then obtain y where y: "x = 2 * y" by blast
    then have IH: "log2_is_integer y \<longleftrightarrow> (\<exists>n. y = 2 ^ n)" using less by auto
    have "(\<exists>n. x = 2 ^ n) \<longleftrightarrow> (\<exists>n. y = 2 ^ n)"
    proof
      assume "\<exists>n. x = 2 ^ n"
      then obtain n where n: "x = 2 ^ n" by blast
      then have "n \<noteq> 0" using True by (metis one_neq_zero odd_one power_0)
      then show "\<exists>n. y = 2 ^ n" using n y by (metis mult_cancel_left not0_implies_Suc power_Suc zero_neq_numeral)
    next
      assume "\<exists>n. y = 2 ^ n"
      then show "\<exists>n. x = 2 ^ n" using y by (metis power_Suc)
    qed
    then show ?thesis using IH by (simp add: log2_is_integer_def y and_pred_double)
  next
    case False
    then obtain y where y: "x = 2 * y + 1" by (rule oddE)
    have "(\<exists>n. x = 2 ^ n) \<longleftrightarrow> x = 1"
    proof
      assume "\<exists>n. x = 2 ^ n"
      then obtain n where n: "x = 2 ^ n" by blast
      then have "n = 0" using False by (cases n) auto
      then show "x = 1" using n by simp
    next
      assume "x = 1"
      then show "\<exists>n. x = 2 ^ n" by (intro exI[of _ 0]) simp
    qed
    then show ?thesis using less.prems by (auto simp: log2_is_integer_def y and_pred_odd)
  qed
qed

lemma set_int_range_1: "set (int_range a b 1) = {a ..< b}"
proof -
  have "x \<in> (\<lambda>i. a + int i) ` {0 ..< nat (b - a)}" if "a \<le> x" "x < b" for x
    using that by (intro image_eqI[of _ _ "nat (x - a)"]) auto
  then show ?thesis by (auto simp: int_range_def)
qed

lemma log2_value_unit_step:
  assumes "0 < start"
  shows "generate_log2_value choice start stop 1 blacklist =
    (let pool = set (filter log2_is_integer (int_range start stop 1)) - set blacklist in
     if pool = {} then Inl IndexError else Inr (choice pool))"
proof -
  have "\<not> (\<exists>x \<in> set (int_range start stop 1). x \<le> 0)" unfolding set_int_range_1 using assms by auto
  then show ?thesis by (simp add: generate_log2_value_def Let_def)
qed

lemma cluster_sizes:
  "set (filter log2_is_integer (int_range 512 2097152 1)) = (\<lambda>n. 2 ^ n) ` {9 .. 20}"
proof -
  have "log2_is_integer x \<longleftrightarrow> (\<exists>n. x = 2 ^ n)" if "x \<in> {512 ..< 2097152}" for x
    using that by (intro power_of_two_iff) simp
  then have "set (filter log2_is_integer (int_range 512 2097152 1)) = {x. x \<in> {512 ..< 2097152} \<and> (\<exists>n. x = 2 ^ n)}"
    unfolding set_filter set_int_range_1 by blast
  also have "\<dots> = (\<lambda>n. 2 ^ n) ` {9 .. 20}"
  proof -
    define I where "I = {512 ..< 2097152 :: int}"
    have "2 ^ n \<in> I \<longleftrightarrow> n \<in> {9 .. 20}" for n
      using power_increasing_iff[of "2 :: int" 9 n] power_strict_increasing_iff[of "2 :: int" n 21]
      by (auto simp: I_def)
    then have "{x. x \<in> I \<and> (\<exists>n. x = 2 ^ n)} = (\<lambda>n. 2 ^ n) ` {9 .. 20}" by blast
    then show ?thesis by (simp add: I_def)
  qed
  finally show ?thesis .
qed

section \<open>Properties of the block operations\<close>

text \<open>A block job on a node was started by its command and has completed.\<close>

definition started_and_done :: "'w vm_env \<Rightarrow> string \<Rightarrow> string \<Rightarrow> string \<Rightarrow> 'w vst \<Rightarrow> 'w vst \<Rightarrow> bool" where
  "started_and_done vm cmd dev job s s' \<longleftrightarrow>
     (\<exists>a cs. sent s' = sent s @ (cmd, a) # cs \<and> dget a ''device'' = Some (PStr dev) \<and> dget a ''job-id'' = Some (PStr job)
        \<and> list_all (job_cmd job) cs)
     \<and> (\<exists>w es w' e. qmp_events vm w = (Inr es, w') \<and> e \<in> set es \<and> completed job e)"

lemma started_and_doneI:
  assumes "wait_polls vm" and "bnd (monitor_cmd vm c a) (\<lambda>_. wait_until_block_job_completed vm i t) s = (Inr (), s')"
    and "dget a ''device'' = Some (PStr dev)" and "dget a ''job-id'' = Some (PStr i)"
  shows "started_and_done vm c dev i s s'"
  using jobs.start_and_wait[OF assms(1,2)] assms(3,4) by (auto simp: started_and_done_def)

text \<open>
  C26. Mirror, commit and stream, when they return: one command started the job on the node under a name
  made from the node, only commands that control this job followed, and an event has announced its
  completion without an error.
\<close>

theorem block_jobs_run_to_completion:
  assumes "wait_polls vm"
  shows "(blockdev_mirror vm rid src tgt opts s = (Inr (), s') \<longrightarrow>
      started_and_done vm ''blockdev-mirror'' src (job_name src rid) s s')
    \<and> (block_commit vm vi obj rid src opts s = (Inr (), s') \<longrightarrow>
      started_and_done vm ''block-commit'' src (job_name src rid) s s')
    \<and> (blockdev_stream vm vi obj rid src opts s = (Inr (), s') \<longrightarrow>
      started_and_done vm ''block-stream'' src (job_name src rid) s s')"
  using started_and_doneI[OF assms]
  by (auto elim!: mirror_run[of vm rid src tgt opts s s'] commit_run[of vm vi obj rid src opts s s']
      stream_run[of vm vi obj rid src opts s s'])

definition demo_job_run :: script where
  "demo_job_run = ([Inr (PDict []), Inr (PList []), Inr (PList [])],
     [[PDict [(''event'', PStr ''BLOCK_JOB_COMPLETED''), (''data'', PDict [(''device'', PStr ''d0_x'')])]]])"

theorem block_jobs_run_to_completion_witness:
  "\<exists>s'. blockdev_mirror (scripted [0]) ''x'' ''d0'' ''t0'' [(''speed'', PStr ''10'')] (vm_start demo_job_run) = (Inr (), s')
    \<and> started_and_done (scripted [0]) ''blockdev-mirror'' ''d0'' (job_name ''d0'' ''x'') (vm_start demo_job_run) s'"
proof -
  let ?r = "blockdev_mirror (scripted [0]) ''x'' ''d0'' ''t0'' [(''speed'', PStr ''10'')] (vm_start demo_job_run)"
  have "fst ?r = Inr ()" by code_simp
  then have "?r = (Inr (), snd ?r)" by (metis prod.collapse)
  then show ?thesis using block_jobs_run_to_completion[OF scripted_ok(1)[of "[0]"]] by blast
qed

text \<open>
  C5. A backup with a bitmap that returns: the bitmap existed, and before the backup command was sent it was seen
  to be disabled, either already or after it was disabled, unless the caller asked to leave it; the
  command carries the bitmap, and the job has completed.
\<close>

theorem backup_freezes_bitmap:
  assumes "wait_polls vm" and "blockdev_backup vm mf rid src tgt opts s = (Inr (), s')"
    and "dget opts ''bitmap'' = Some (PStr b)" and "truthy (dget_default opts ''auto_disable_bitmap'' (PBool True))"
  shows "\<exists>s0 s1 v. get_bitmap_by_name vm src b s0 = (Inr (Some v), s1)
    \<and> (pindex v ''status'' = Inr (PStr ''disabled'') \<or> pindex v ''recording'' = Inr (PBool False))
    \<and> started_and_done vm ''blockdev-backup'' src (job_name src rid) s1 s'
    \<and> (''blockdev-backup'' \<noteq> mf ''block-dirty-bitmap-disable'' \<longrightarrow>
         list_all (\<lambda>c. fst c \<noteq> ''blockdev-backup'') (drop (length (sent s)) (sent s1)))"
proof -
  obtain a t s1 where a: "dget a ''device'' = Some (PStr src)" "dget a ''job-id'' = Some (PStr (job_name src rid))"
    and p: "prepare_bitmap vm mf src b (truthy (dget_default opts ''auto_disable_bitmap'' (PBool True))) s = (Inr (), s1)"
    and w: "bnd (monitor_cmd vm ''blockdev-backup'' a) (\<lambda>_. wait_until_block_job_completed vm (job_name src rid) t) s1 = (Inr (), s')"
    using backup_run[OF assms(2,3)] by blast
  have fin: "started_and_done vm ''blockdev-backup'' src (job_name src rid) s1 s'"
    using started_and_doneI[OF assms(1) w a] .
  obtain v s0 where v: "get_bitmap_by_name vm src b s = (Inr (Some v), s0)"
    "(pindex v ''status'' = Inr (PStr ''disabled'') \<and> s1 = s0) \<or> block_dirty_bitmap_disable vm mf src b s0 = (Inr (), s1)"
    using prepare_bitmap_run[OF p] assms(4) by metis
  note log0 = get_bitmap_log[OF v(1)]
  from v(2) show ?thesis
  proof
    assume "pindex v ''status'' = Inr (PStr ''disabled'') \<and> s1 = s0"
    then show ?thesis using v(1) fin log0 by (intro exI[of _ s] exI[of _ s1] exI[of _ v]) simp
  next
    assume d: "block_dirty_bitmap_disable vm mf src b s0 = (Inr (), s1)"
    then obtain s2 v' where "get_bitmap_by_name vm src b s2 = (Inr (Some v'), s1)" "pindex v' ''recording'' = Inr (PBool False)"
      using switch_run(1)[OF d] by (auto simp: opt_index_def simp del: pindex_Inr_iff split: option.splits)
    moreover have "sent s1 = sent s0 @ [(mf ''block-dirty-bitmap-disable'', positional [PStr src, PStr b]), (''query-block'', [])]"
      using disabling.op_log[OF d] .
    ultimately show ?thesis using fin log0 by (intro exI[of _ s2] exI[of _ s1] exI[of _ v']) auto
  qed
qed

definition demo_backup :: script where
  "demo_backup =
     ([Inr (demo_query [(''name'', PStr ''b0''), (''recording'', PBool True)]), Inr (PDict []),
       Inr (demo_query [(''name'', PStr ''b0''), (''recording'', PBool False)])] @ fst demo_job_run, snd demo_job_run)"

theorem backup_freezes_bitmap_witness:
  "\<exists>s' s1. blockdev_backup (scripted [0]) (\<lambda>c. c) ''x'' ''d0'' ''t0'' [(''bitmap'', PStr ''b0'')] (vm_start demo_backup) = (Inr (), s')
    \<and> started_and_done (scripted [0]) ''blockdev-backup'' ''d0'' (job_name ''d0'' ''x'') s1 s'"
proof -
  let ?r = "blockdev_backup (scripted [0]) (\<lambda>c. c) ''x'' ''d0'' ''t0'' [(''bitmap'', PStr ''b0'')] (vm_start demo_backup)"
  have "fst ?r = Inr ()" by code_simp
  then have r: "?r = (Inr (), snd ?r)" by (metis prod.collapse)
  show ?thesis using r backup_freezes_bitmap[OF scripted_ok(1) r, of "''b0''"] by (auto simp: dget_default_def)
qed

text \<open>
  A batch backup that returns: one transaction started a backup for every source node, to the target of the
  same position and, for an incremental or bitmap backup, with the bitmap of the same position; unless the caller asked not to wait, every
  job has completed, and only commands that control these jobs followed.
\<close>

lemma batch_backup_complete:
  assumes "wait_polls vm" and "blockdev_batch_backup vm rids srcs tgts bms opts s = (Inr (), s')"
  shows "\<exists>acts props cs. sent s' = sent s @ (''transaction'', (''actions'', PList acts) # props) # cs
    \<and> length srcs \<le> length tgts
    \<and> (\<forall>i < length srcs. \<exists>args. action (PStr ''blockdev-backup'') args \<in> set acts
        \<and> dget args ''device'' = Some (PStr (srcs ! i)) \<and> dget args ''target'' = Some (PStr (tgts ! i))
        \<and> dget args ''job-id'' = Some (PStr (job_name (srcs ! i) (rids i)))
        \<and> (dget_default opts ''sync'' PNone \<in> {PStr ''incremental'', PStr ''bitmap''} \<longrightarrow> dget args ''bitmap'' = Some (PStr (bms ! i))))
    \<and> list_all (\<lambda>c. \<exists>i < length srcs. job_cmd (job_name (srcs ! i) (rids i)) c) cs
    \<and> (truthy (dget_default opts ''wait_job_complete'' (PBool True)) \<longrightarrow>
        (\<forall>i < length srcs. \<exists>w es w' e. qmp_events vm w = (Inr es, w') \<and> e \<in> set es
          \<and> completed (job_name (srcs ! i) (rids i)) e))"
proof -
  obtain t o1 o2 jobs acts props r s1 where b: "pop_timeout 600 opts = Inr (t, o1)"
    "backup_actions rids (read_batch_options o1) (length srcs) srcs 0 tgts bms o2 = Inr (jobs, acts)"
    "monitor_cmd vm ''transaction'' ((''actions'', PList acts) # props) s = (Inr r, s1)"
    "(if wait_job_complete (read_batch_options o1)
        then for_each jobs (\<lambda>x. wait_until_block_job_completed vm x t) else ret ()) s1 = (Inr (), s')"
    using batch_backup_run[OF assms(2)] by blast
  note opts = read_batch_options_timeout[OF b(1)]
  note acts_spec = backup_actions_spec[OF b(2), unfolded opts(1)]
  have jobs: "set jobs = (\<lambda>i. job_name (srcs ! i) (rids i)) ` {i. i < length srcs}"
  proof -
    have "jobs = map (\<lambda>i. job_name (srcs ! i) (rids i)) [0 ..< length srcs]"
      using conjunct1[OF acts_spec] by (intro nth_equalityI) (auto simp: nth_enumerate_eq)
    then show ?thesis by (auto simp: atLeast0LessThan lessThan_def)
  qed
  have s1: "sent s1 = sent s @ [(''transaction'', (''actions'', PList acts) # props)]"
    using b(3) by (auto simp: monitor_cmd_def split: prod.splits)
  have "sends (\<lambda>c. \<exists>j \<in> set jobs. job_cmd j c) (if wait_job_complete (read_batch_options o1)
      then for_each jobs (\<lambda>x. wait_until_block_job_completed vm x t) else ret ())"
    by (intro sends_if jobs.wait_all[OF assms(1)] sends_simple)
  then obtain cs where cs: "sent s' = sent s1 @ cs" "list_all (\<lambda>c. \<exists>j \<in> set jobs. job_cmd j c) cs"
    unfolding sends_def using b(4) by (metis snd_conv)
  have "length srcs \<le> length tgts" using acts_spec by (cases srcs) (auto dest: spec[of _ "length srcs - 1"])
  moreover have "\<exists>w es w' e. qmp_events vm w = (Inr es, w') \<and> e \<in> set es \<and> completed j e"
    if "truthy (dget_default opts ''wait_job_complete'' (PBool True))" "j \<in> set jobs" for j
    using jobs.wait_all_sound[OF assms(1) _ that(2), of t s1 s'] b(4) opts(2) that(1) by simp
  ultimately show ?thesis using s1 cs acts_spec unfolding jobs
    by (intro exI[of _ acts] exI[of _ props] exI[of _ cs]) auto
qed

definition demo_batch :: script where
  "demo_batch = (Inr (PDict []) # tl (fst demo_job_run), snd demo_job_run)"



text \<open>
  A random cluster size is a power of two from 512 bytes to one megabyte that is not on the list of
  excluded sizes; there is one exactly when not all of them are excluded.  Two megabytes, the end of the
  range, is never drawn.
\<close>

lemma cluster_size_valid:
  assumes "\<forall>P. finite P \<and> P \<noteq> {} \<longrightarrow> choice P \<in> P"
  shows "case generate_random_cluster_size choice blacklist of
      Inr v \<Rightarrow> (\<exists>n. 9 \<le> n \<and> n \<le> 20 \<and> v = 2 ^ n) \<and> v \<notin> set blacklist
    | Inl e \<Rightarrow> e = IndexError \<and> (\<forall>n. 9 \<le> n \<and> n \<le> 20 \<longrightarrow> 2 ^ n \<in> set blacklist)"
proof -
  let ?pool = "(\<lambda>n. 2 ^ n :: int) ` {9 .. 20} - set blacklist"
  have gen: "generate_random_cluster_size choice blacklist = (if ?pool = {} then Inl IndexError else Inr (choice ?pool))"
    unfolding generate_random_cluster_size_def by (subst log2_value_unit_step) (simp_all only: cluster_sizes, simp)
  show ?thesis
  proof (cases "?pool = {}")
    case True
    then have "2 ^ n \<in> set blacklist" if "9 \<le> n \<and> n \<le> 20" for n using that by auto
    then show ?thesis unfolding gen using True by simp
  next
    case False
    then have "choice ?pool \<in> ?pool" using assms by (metis finite_Diff finite_atLeastAtMost finite_imageI)
    then obtain n where "n \<in> {9 .. 20}" "choice ?pool = 2 ^ n" "choice ?pool \<notin> set blacklist" by blast
    then show ?thesis unfolding gen using False by auto
  qed
qed

end
