(* ===== verification/Backup_Host.thy ===== *)
theory Backup_Host
  imports Backup_Utils
begin

text \<open>
  The second half of \<^verbatim>\<open>provider/backup_utils.py\<close>: the helpers that run commands in the guest and on the host.  A
  guest session and the processes of the host are functions on the world; what they are asked to run is
  logged like the commands of the monitor.
\<close>

section \<open>Sessions and processes\<close>

record 'w host_env =
  login_guest :: "'w \<Rightarrow> unit res \<times> 'w"
  sess_cmd :: "string \<Rightarrow> 'w \<Rightarrow> (int \<times> string) res \<times> 'w"
  sess_run :: "string \<Rightarrow> 'w \<Rightarrow> unit res \<times> 'w"
  run_process :: "string \<Rightarrow> 'w \<Rightarrow> string res \<times> 'w"

definition on_world :: "string \<times> pydict \<Rightarrow> ('w \<Rightarrow> 'a res \<times> 'w) \<Rightarrow> ('w vst, 'a) py" where
  "on_world entry f s = (case f (world s) of (r, w) \<Rightarrow> (r, s\<lparr>world := w, sent := sent s @ [entry]\<rparr>))"

definition wait_for_login :: "'w host_env \<Rightarrow> ('w vst, unit) py" where
  "wait_for_login h = on_world (''login'', []) (login_guest h)"

definition cmd_status_output :: "'w host_env \<Rightarrow> string \<Rightarrow> ('w vst, int \<times> string) py" where
  "cmd_status_output h c = on_world (''session'', [(''cmd'', PStr c)]) (sess_cmd h c)"

definition close_session :: "('w vst, unit) py" where
  "close_session = on_world (''close'', []) (\<lambda>w. (Inr (), w))"

definition process :: "'w host_env \<Rightarrow> string \<Rightarrow> ('w vst, string) py" where
  "process h c = on_world (''process'', [(''cmd'', PStr c)]) (run_process h c)"

text \<open>\<open>template % args\<close> for templates with \<open>%s\<close> and \<open>%%\<close>.\<close>

fun py_format :: "string \<Rightarrow> string list \<Rightarrow> string res" where
  "py_format [] args = (if args = [] then Inr [] else Inl (TypeError ''not all arguments converted during string formatting''))"
| "py_format (c # cs) args =
     (if c \<noteq> CHR 0x25 then rbind (py_format cs args) (\<lambda>r. Inr (c # r))
      else case cs of
        [] \<Rightarrow> Inl (ValueError ''incomplete format'')
      | d # ds \<Rightarrow>
          if d = CHR 0x25 then rbind (py_format ds args) (\<lambda>r. Inr (c # r))
          else if d = CHR ''s'' then
            (case args of
               [] \<Rightarrow> Inl (TypeError ''not enough arguments for format string'')
             | a # as \<Rightarrow> rbind (py_format ds as) (\<lambda>r. Inr (a @ r)))
          else Inl (ValueError ''unsupported format character''))"

section \<open>Files in the guest\<close>

definition backslash :: string where "backslash = [CHR 0x5C]"

definition md5_commands :: "bool \<Rightarrow> string \<Rightarrow> string \<Rightarrow> string \<times> string" where
  "md5_commands windows root_dir filename =
     (if windows then
        (let file_path = root_dir @ backslash @ filename in
         (''certutil -hashfile '' @ file_path @ '' MD5'', ''type '' @ file_path @ ''.md5''))
      else
        (let file_path = root_dir @ ''/'' @ filename in
         (''md5sum '' @ file_path, ''cat '' @ file_path @ ''.md5'')))"

text \<open>
  The commands that create the file and record its digest.  The size in megabytes is what
  \<^verbatim>\<open>utils_numeric.normalize_data_size\<close> makes of the size.
\<close>

definition tempfile_commands ::
    "(string \<Rightarrow> int res) \<Rightarrow> bool \<Rightarrow> string \<Rightarrow> string \<Rightarrow> string \<Rightarrow> string \<Rightarrow> (string \<times> string) res" where
  "tempfile_commands to_megabytes windows dd_cmd root_dir filename sz =
     (if windows then
        (let file_path = root_dir @ backslash @ filename in
         Inr (''fsutil file createnew '' @ file_path @ '' '' @ sz,
              ''certutil -hashfile '' @ file_path @ '' MD5 > '' @ file_path @ ''.md5''))
      else
        (let file_path = root_dir @ ''/'' @ filename in
         rbind (to_megabytes sz) (\<lambda>n.
         rbind (py_format dd_cmd [file_path, int_str n]) (\<lambda>mk.
           Inr (mk, ''md5sum '' @ file_path @ '' > '' @ file_path @ ''.md5 && sync'')))))"

definition DD_CMD :: string where
  "DD_CMD = ''dd if=/dev/urandom of=%s bs=1M count=%s oflag=direct''"

definition session_cmd :: "'w host_env \<Rightarrow> string \<Rightarrow> ('w vst, unit) py" where
  "session_cmd h c = on_world (''session'', [(''cmd'', PStr c)]) (sess_run h c)"

definition generate_tempfile ::
    "'w vm_env \<Rightarrow> 'w host_env \<Rightarrow> (string \<Rightarrow> int res) \<Rightarrow> pydict \<Rightarrow> string \<Rightarrow> string \<Rightarrow> string \<Rightarrow> ('w vst, unit) py" where
  "generate_tempfile vm h to_megabytes params root_dir filename sz =
     fail_on vm (bnd (wait_for_login h) (\<lambda>_.
       bnd (lift_res (dindex params ''os_type'')) (\<lambda>os_type.
       bnd (lift_res (tempfile_commands to_megabytes (os_type = PStr ''windows'')
              (str_of (dget_default params ''dd_cmd'' (PStr DD_CMD))) root_dir filename sz)) (\<lambda>(mk_file_cmd, md5_cmd).
         try_finally (bnd (session_cmd h mk_file_cmd) (\<lambda>_. session_cmd h md5_cmd)) close_session))))"

definition strip_ws :: "string \<Rightarrow> string" where
  "strip_ws = strip_set is_ws"

definition verify_file_md5 ::
    "'w vm_env \<Rightarrow> 'w host_env \<Rightarrow> pydict \<Rightarrow> string \<Rightarrow> string \<Rightarrow> ('w vst, unit) py" where
  "verify_file_md5 vm h params root_dir filename =
     fail_on vm (bnd (lift_res (dindex params ''os_type'')) (\<lambda>os_type.
       let (md5_cmd, cat_cmd) = md5_commands (os_type = PStr ''windows'') root_dir filename in
       bnd (wait_for_login h) (\<lambda>_.
       try_finally
         (bnd (cmd_status_output h md5_cmd) (\<lambda>(status1, output1).
          bnd (check (status1 = 0) (''Get file ('' @ filename @ '') MD5 with error: '' @ output1)) (\<lambda>_.
          bnd (cmd_status_output h cat_cmd) (\<lambda>(status2, output2).
          bnd (check (status2 = 0) (''Read file ('' @ filename @ '') MD5 file with error: '' @ output2)) (\<lambda>_.
            check (strip_ws output1 = strip_ws output2) (''File ('' @ filename @ '') MD5 is mismatch!''))))))
         close_session)))"

section \<open>Formatting a volume\<close>

text \<open>The parameter for the kind of partition table is not used: the code always asks for \<^verbatim>\<open>mbr\<close>.\<close>

definition virt_format :: "'w host_env \<Rightarrow> string \<Rightarrow> string \<Rightarrow> string \<Rightarrow> string \<Rightarrow> ('w vst, unit) py" where
  "virt_format h filename filesystem image_format part =
     bnd (on_world (''virt-format'', [(''image'', PStr filename), (''filesystem'', PStr filesystem),
            (''format'', PStr image_format), (''partition'', PStr part)]) (run_process h filename)) (\<lambda>_. ret ())"

definition format_storage_volume ::
    "'w host_env \<Rightarrow> string \<Rightarrow> string \<Rightarrow> string \<Rightarrow> string \<Rightarrow> ('w vst, unit) py" where
  "format_storage_volume h image_filename image_format filesystem part =
     bnd (process h ''getenforce'') (\<lambda>selinux_mode.
     try_finally
       (bnd (process h ''setenforce 0'') (\<lambda>_. virt_format h image_filename filesystem image_format ''mbr''))
       (bnd (process h (''setenforce '' @ selinux_mode)) (\<lambda>_. ret ())))"

section \<open>copyif\<close>

text \<open>
  The reads of one extent.  \<open>None\<close>: the loop never ends, which is the case exactly when the extent is longer
  than a maximal length that is not positive.
\<close>

partial_function (option) read_loop :: "int \<Rightarrow> int \<Rightarrow> int \<Rightarrow> (int \<times> int) list option" where
  "read_loop max_len start len =
     (if len > max_len then
        Option.bind (read_loop max_len (start + max_len) (len - max_len)) (\<lambda>rs. Some ((start, max_len) # rs))
      else Some (if len > 0 then [(start, len)] else []))"

declare read_loop.simps [code]

text \<open>An item of the map that \<open>qemu-img\<close> prints: whether it holds data, and where it lies.\<close>

record map_item =
  item_data :: bool
  item_start :: int
  item_length :: int

fun copyif_reads :: "int \<Rightarrow> bool \<Rightarrow> map_item list \<Rightarrow> (int \<times> int) list option" where
  "copyif_reads max_len state [] = Some []"
| "copyif_reads max_len state (item # items) =
     (if item_data item \<noteq> state then copyif_reads max_len state items
      else case read_loop max_len (item_start item) (item_length item) of
        None \<Rightarrow> None
      | Some rs \<Rightarrow> map_option (\<lambda>rest. rs @ rest) (copyif_reads max_len state items))"

text \<open>
  The whole operation: what it runs, for a map that \<open>qemu-img\<close> printed.  \<open>None\<close> as above.
\<close>

record copy_images =
  qemu_io :: string
  qemu_img :: string
  target_format :: string
  target_file :: string
  nbd_format :: string
  nbd_file :: string
  nbd_tag :: string
  bitmap_opts :: "pydict \<Rightarrow> string"

definition read_command :: "copy_images \<Rightarrow> int \<times> int \<Rightarrow> string" where
  "read_command im r =
     qemu_io im @ '' -C -c '' @ [CHR 0x22] @ ''r '' @ int_str (fst r) @ '' '' @ int_str (snd r) @ [CHR 0x22] @ '' -f ''
     @ target_format im @ '' '' @ target_file im"

definition map_args :: "copy_images \<Rightarrow> pydict \<Rightarrow> pydict \<Rightarrow> string option \<Rightarrow> string" where
  "map_args im params file_opts bitmap =
     (case bitmap of
        None \<Rightarrow> ''-f '' @ nbd_format im @ '' '' @ nbd_file im
      | Some b \<Rightarrow>
          [CHR 0x27] @ ''json:''
          @ bitmap_opts im (dset (str_of (dget_default params ''dirty_bitmap_opt'' (PStr ''x-dirty-bitmap'')))
                              (PStr (''qemu:dirty-bitmap:'' @ b)) file_opts)
          @ [CHR 0x27])"

definition rebase :: "'w host_env \<Rightarrow> string \<Rightarrow> ('w vst, unit) py" where
  "rebase h base = bnd (on_world (''rebase'', [(''base'', PStr base)]) (run_process h base)) (\<lambda>_. ret ())"

definition copyif ::
    "'w host_env \<Rightarrow> (string \<Rightarrow> map_item list res) \<Rightarrow> copy_images \<Rightarrow> pydict \<Rightarrow> pydict \<Rightarrow> string option \<Rightarrow> ('w vst, bool) py" where
  "copyif h parse_map im params file_opts bitmap =
     bnd (lift_res (py_int (dget_default params ''qemu_io_max_len'' (PInt 2147483136)))) (\<lambda>max_len.
     bnd (rebase h (nbd_tag im)) (\<lambda>_.
     bnd (process h (qemu_img im @ '' map --output=json '' @ map_args im params file_opts bitmap)) (\<lambda>out.
     bnd (lift_res (parse_map (strip_ws out))) (\<lambda>items.
       case copyif_reads max_len (bitmap = None) items of
         None \<Rightarrow> ret False
       | Some reads \<Rightarrow>
           bnd (for_each reads (\<lambda>r. bnd (process h (read_command im r)) (\<lambda>_. ret ()))) (\<lambda>_.
           bnd (rebase h ''null'') (\<lambda>_. ret True))))))"

section \<open>Disks of the guest\<close>

definition word_char :: "char \<Rightarrow> bool" where
  "word_char c \<longleftrightarrow>
     (let n = (of_char c :: int) in
      (48 \<le> n \<and> n \<le> 57) \<or> (65 \<le> n \<and> n \<le> 90) \<or> (97 \<le> n \<and> n \<le> 122) \<or> n = 95)"

text \<open>\<open>re.search(r"(serial|wwn)=(\w+)", s)\<close>, its second group.\<close>

definition match_at :: "string \<Rightarrow> string \<Rightarrow> string option" where
  "match_at key s =
     (if startswith s key then
        (case takeWhile word_char (drop (length key) s) of [] \<Rightarrow> None | w \<Rightarrow> Some w)
      else None)"

fun search_id :: "string \<Rightarrow> string option" where
  "search_id [] = None"
| "search_id (c # cs) =
     (case match_at ''serial='' (c # cs) of
        Some w \<Rightarrow> Some w
      | None \<Rightarrow>
          (case match_at ''wwn='' (c # cs) of
             Some w \<Rightarrow> Some w
           | None \<Rightarrow> search_id cs))"

record disk_env =
  disk_params :: "string \<Rightarrow> pydict"
  drive_path_of :: "string \<Rightarrow> string"
  linux_disks :: "(string \<times> string list) list"

text \<open>The first disk whose type and size are those asked for; a short attribute list lacks the keys.\<close>

fun find_disk :: "pyval \<Rightarrow> pyval \<Rightarrow> (string \<times> string list) list \<Rightarrow> pydict option res" where
  "find_disk ty sz [] = Inr None"
| "find_disk ty sz ((kname, attr) # disks) =
     (let d = zip [''kname'', ''size'', ''type''] (map PStr attr) in
      rbind (dindex d ''type'') (\<lambda>t. rbind (dindex d ''size'') (\<lambda>z.
        if py_eq ty t \<and> py_eq sz z then Inr (Some d) else find_disk ty sz disks)))"

definition get_disk_info_by_param :: "disk_env \<Rightarrow> string \<Rightarrow> pydict option res" where
  "get_disk_info_by_param env tag =
     (let image_params = disk_params env tag;
          extra = str_of (dget_default image_params ''blk_extra_params'' PNone);
          drive_path = (if extra = [] then [] else case search_id extra of None \<Rightarrow> [] | Some w \<Rightarrow> drive_path_of env w) in
      rbind (dindex image_params ''image_size'') (\<lambda>sz.
        if drive_path \<noteq> [] then Inr (Some [(''kname'', PStr (drop 5 drive_path)), (''size'', sz)])
        else find_disk (dget_default image_params ''disk_type'' (PStr ''disk'')) sz (linux_disks env)))"

text \<open>
  A mount is a list whose first element is the device; the others are kept.  The dictionary is changed
  while the loop runs, so a failure leaves the mounts before it refreshed.
\<close>

definition refresh_mount :: "disk_env \<Rightarrow> string \<times> string list \<Rightarrow> ((string \<times> string list) list, unit) py" where
  "refresh_mount env m =
     (case m of (tag, mount) \<Rightarrow>
        if tag = ''image1'' then ret ()
        else
          bnd (lift_res (get_disk_info_by_param env tag)) (\<lambda>info.
          bnd (py_assert (info \<notin> {None, Some []}) (''Failed to get the kname for device: '' @ tag)) (\<lambda>_.
          bnd (lift_res (dindex (case info of None \<Rightarrow> [] | Some d \<Rightarrow> d) ''kname'')) (\<lambda>k.
            if mount = [] then throw IndexError
            else modify (dset tag (mount[0 := ''/dev/'' @ str_of k @ ''1'']))))))"

definition refresh_mounts :: "(exc \<Rightarrow> exc) \<Rightarrow> disk_env \<Rightarrow> ((string \<times> string list) list, unit) py" where
  "refresh_mounts fail env mounts =
     try_except (for_each mounts (refresh_mount env)) (\<lambda>e. Some (throw (fail e))) mounts"

section \<open>The reads of copyif\<close>

text \<open>Reads that follow one another without a gap from one offset to another.\<close>

fun tiles :: "int \<Rightarrow> int \<Rightarrow> (int \<times> int) list \<Rightarrow> bool" where
  "tiles s e [] = (s = e)"
| "tiles s e ((a, n) # rs) = (a = s \<and> 0 < n \<and> tiles (s + n) e rs)"

lemma tiles_le: "tiles s e rs \<Longrightarrow> s \<le> e"
  by (induction s e rs rule: tiles.induct) auto

lemma tiles_cover: "tiles s e rs \<Longrightarrow> (\<Union>(a, n) \<in> set rs. {a ..< a + n}) = {s ..< e}"
proof (induction s e rs rule: tiles.induct)
  case (2 s e a n rs)
  then have "(\<Union>(a, n) \<in> set rs. {a ..< a + n}) = {s + n ..< e}" "s + n \<le> e" "0 < n" "a = s"
    by (auto dest: tiles_le)
  then show ?case by auto
qed simp

lemma read_loop_total: "0 < m \<Longrightarrow> \<exists>rs. read_loop m s l = Some rs"
proof (induction "nat l" arbitrary: s l rule: less_induct)
  case less
  show ?case
  proof (cases "l > m")
    case True
    then obtain rs where "read_loop m (s + m) (l - m) = Some rs" using less by fastforce
    then show ?thesis by (subst read_loop.simps) simp
  next
    case False
    then show ?thesis by (subst read_loop.simps) simp
  qed
qed

lemma read_loop_returns_only: "read_loop m s l = Some rs \<Longrightarrow> l \<le> m \<or> 0 < m"
  by (rule read_loop.raw_induct[of "\<lambda>m s l rs. l \<le> m \<or> 0 < m" m s l rs])
    (fastforce split: if_splits bind_splits)+

lemma read_loop_None_iff: "read_loop m s l = None \<longleftrightarrow> m \<le> 0 \<and> m < l"
proof (cases "read_loop m s l")
  case None
  have "\<not> 0 < m" using read_loop_total[of m s l] None by auto
  moreover have "\<not> l \<le> m"
  proof
    assume "l \<le> m"
    then show False using None by (subst (asm) read_loop.simps) simp
  qed
  ultimately show ?thesis using None by simp
next
  case (Some rs)
  then show ?thesis using read_loop_returns_only[OF Some] by auto
qed

lemma read_loop_tiles:
  "0 < m \<Longrightarrow> read_loop m s l = Some rs \<Longrightarrow> tiles s (s + max 0 l) rs \<and> (\<forall>(a, n) \<in> set rs. n \<le> m)"
proof (induction "nat l" arbitrary: s l rs rule: less_induct)
  case less
  show ?case
  proof (cases "l > m")
    case True
    then obtain rs' where rs': "read_loop m (s + m) (l - m) = Some rs'" "rs = (s, m) # rs'"
      using less.prems(2) by (subst (asm) read_loop.simps) (auto split: bind_splits)
    then have "tiles (s + m) (s + m + max 0 (l - m)) rs' \<and> (\<forall>(a, n) \<in> set rs'. n \<le> m)"
      using less True by (intro less.hyps) auto
    moreover have "s + m + max 0 (l - m) = s + max 0 l" using True less.prems(1) by simp
    ultimately show ?thesis using rs' less.prems(1) by auto
  next
    case False
    then show ?thesis using less.prems(2) by (subst (asm) read_loop.simps) (auto split: if_splits)
  qed
qed

lemma copyif_reads_None:
  "copyif_reads m st items = None \<longleftrightarrow> m \<le> 0 \<and> (\<exists>i \<in> set items. item_data i = st \<and> m < item_length i)"
proof (induction m st items rule: copyif_reads.induct)
  case (2 m st i items)
  then show ?case
    using read_loop_None_iff[of m "item_start i" "item_length i"] by (auto split: option.split)
qed simp

lemma copyif_reads_tiles:
  assumes "0 < m"
  shows "\<exists>rss. copyif_reads m st items = Some (concat rss)
    \<and> list_all2 (\<lambda>i rs. tiles (item_start i) (item_start i + max 0 (item_length i)) rs \<and> (\<forall>(a, n) \<in> set rs. n \<le> m))
        (filter (\<lambda>i. item_data i = st) items) rss"
proof (induction items)
  case (Cons i items)
  then obtain rss where rss: "copyif_reads m st items = Some (concat rss)"
    "list_all2 (\<lambda>i rs. tiles (item_start i) (item_start i + max 0 (item_length i)) rs \<and> (\<forall>(a, n) \<in> set rs. n \<le> m))
        (filter (\<lambda>i. item_data i = st) items) rss" by blast
  obtain rs where rs: "read_loop m (item_start i) (item_length i) = Some rs" using read_loop_total[OF assms] by blast
  show ?case
  proof (cases "item_data i = st")
    case True
    then show ?thesis using rss rs read_loop_tiles[OF assms rs] by (intro exI[of _ "rs # rss"]) simp
  qed (use rss in auto)
qed simp

text \<open>
  C32. With a positive maximal length the loop over the map of an image ends: each extent of the kind
  asked for is read completely, in order and without overlap, in reads of at least one and at most the
  maximal number of bytes, and nothing else is read.  With any other maximal length it never ends,
  as soon as one such extent is longer than it.
\<close>

theorem copyif_reads_exact:
  "if 0 < max_len
   then \<exists>rss. copyif_reads max_len st items = Some (concat rss)
     \<and> list_all2 (\<lambda>i rs. tiles (item_start i) (item_start i + max 0 (item_length i)) rs
           \<and> (\<Union>(a, n) \<in> set rs. {a ..< a + n}) = {item_start i ..< item_start i + max 0 (item_length i)}
           \<and> list_all (\<lambda>(a, n). n \<le> max_len) rs)
         (filter (\<lambda>i. item_data i = st) items) rss
   else copyif_reads max_len st items = None
     \<longleftrightarrow> list_ex (\<lambda>i. item_data i = st \<and> max_len < item_length i) items"
proof (cases "0 < max_len")
  case True
  obtain rss where rss: "copyif_reads max_len st items = Some (concat rss)"
    "list_all2 (\<lambda>i rs. tiles (item_start i) (item_start i + max 0 (item_length i)) rs \<and> (\<forall>(a, n) \<in> set rs. n \<le> max_len))
        (filter (\<lambda>i. item_data i = st) items) rss" using copyif_reads_tiles[OF True] by blast
  from rss(2) have "list_all2 (\<lambda>i rs. tiles (item_start i) (item_start i + max 0 (item_length i)) rs
           \<and> (\<Union>(a, n) \<in> set rs. {a ..< a + n}) = {item_start i ..< item_start i + max 0 (item_length i)}
           \<and> list_all (\<lambda>(a, n). n \<le> max_len) rs)
         (filter (\<lambda>i. item_data i = st) items) rss"
    by (rule list_all2_mono) (auto simp: list_all_iff dest: tiles_cover)
  then show ?thesis using True rss(1) by auto
next
  case False
  then show ?thesis by (auto simp: copyif_reads_None list_ex_iff)
qed

section \<open>What the helpers leave behind\<close>

lemma on_world_run: "on_world entry f s = (fst (f (world s)), s\<lparr>world := snd (f (world s)), sent := sent s @ [entry]\<rparr>)"
  by (simp add: on_world_def split: prod.split)

lemma try_close:
  "try_finally m close_session s = (fst (m s), (snd (m s))\<lparr>sent := sent (snd (m s)) @ [(''close'', [])]\<rparr>)"
  by (simp add: try_finally_def close_session_def on_world_def split: prod.split)

lemma format_volume_restores:
  assumes "run_process h ''getenforce'' (world s) = (Inr mode, w)"
  shows "\<exists>cs. sent (snd (format_storage_volume h f fmt fs p s)) =
    sent s @ (''process'', [(''cmd'', PStr ''getenforce'')]) # cs @ [(''process'', [(''cmd'', PStr (''setenforce '' @ mode))])]"
  using assms
  by (auto simp: format_storage_volume_def process_def virt_format_def on_world_run bnd_def ret_def try_finally_def
      split: prod.splits sum.splits)

text \<open>The run of the two commands of the comparison.\<close>

definition digests_agree :: "'w host_env \<Rightarrow> string \<Rightarrow> string \<Rightarrow> 'w \<Rightarrow> bool" where
  "digests_agree h c1 c2 w \<longleftrightarrow>
     (\<exists>o1 w1 o2 w2. sess_cmd h c1 w = (Inr (0, o1), w1) \<and> sess_cmd h c2 w1 = (Inr (0, o2), w2) \<and> strip_ws o1 = strip_ws o2)"

text \<open>
  Comparing a file of the guest with its recorded digest, once the login has succeeded: the comparison succeeds
  exactly when both commands report success and their output is the same up to white space around it,
  and in every case the last thing done is to close the session.  Creating such a file closes the
  session as well, and formatting a volume ends by setting SELinux back to the mode it had, also when
  the formatting fails.
\<close>

lemma guest_files_verified:
  assumes "dget params ''os_type'' = Some os" and "login_guest h (world s) = (Inr (), w)"
    and "md5_commands (os = PStr ''windows'') root f = (c1, c2)"
    and "run_process h ''getenforce'' (world s) = (Inr mode, wm)"
  shows "(fst (verify_file_md5 vm h params root f s) = Inr () \<longleftrightarrow> digests_agree h c1 c2 w)
    \<and> last (sent (snd (verify_file_md5 vm h params root f s))) = (''close'', [])
    \<and> (\<forall>cmds. tempfile_commands mb (os = PStr ''windows'') (str_of (dget_default params ''dd_cmd'' (PStr DD_CMD))) root f sz = Inr cmds
        \<longrightarrow> last (sent (snd (generate_tempfile vm h mb params root f sz s))) = (''close'', []))
    \<and> last (sent (snd (format_storage_volume h img fmt fs part s))) = (''process'', [(''cmd'', PStr (''setenforce '' @ mode))])"
proof (intro conjI allI impI)
  have fo: "fst (fail_on vm m t) = Inr () \<longleftrightarrow> fst (m t) = Inr ()" "snd (fail_on vm m t) = snd (m t)" for m :: "('a vst, unit) py" and t
    by (simp_all add: fail_on_run split: prod.split sum.split)
  have os: "dindex params ''os_type'' = Inr os" using assms(1) by simp
  show "fst (verify_file_md5 vm h params root f s) = Inr () \<longleftrightarrow> digests_agree h c1 c2 w"
    unfolding verify_file_md5_def fo os
    by (cases "sess_cmd h c1 w"; cases "sess_cmd h c2 (snd (sess_cmd h c1 w))")
      (auto simp: assms(2,3) wait_for_login_def cmd_status_output_def on_world_run bnd_def try_close py_assert_def
        ret_def throw_def digests_agree_def lift_res_def split: sum.splits if_splits)
  show "last (sent (snd (verify_file_md5 vm h params root f s))) = (''close'', [])"
    using assms(2) unfolding verify_file_md5_def fo os
    by (simp add: assms(3) wait_for_login_def on_world_run bnd_def try_close lift_res_def)
  show "last (sent (snd (generate_tempfile vm h mb params root f sz s))) = (''close'', [])"
    if "tempfile_commands mb (os = PStr ''windows'') (str_of (dget_default params ''dd_cmd'' (PStr DD_CMD))) root f sz = Inr cmds" for cmds
    using assms(2) unfolding generate_tempfile_def fo
    by (simp add: wait_for_login_def on_world_run bnd_def try_close lift_res_def that os split: prod.split)
  show "last (sent (snd (format_storage_volume h img fmt fs part s))) = (''process'', [(''cmd'', PStr (''setenforce '' @ mode))])"
    using format_volume_restores[OF assms(4), of img fmt fs part] by auto
qed

section \<open>Mounts\<close>

text \<open>What a mount becomes, given what is known about the disk.\<close>

definition remounted :: "disk_env \<Rightarrow> string \<times> string list \<Rightarrow> string list \<Rightarrow> bool" where
  "remounted env m m' \<longleftrightarrow>
     (if fst m = ''image1'' then m' = snd m
      else \<exists>d k. get_disk_info_by_param env (fst m) = Inr (Some d) \<and> dget d ''kname'' = Some k
        \<and> m' = (''/dev/'' @ str_of k @ ''1'') # tl (snd m))"

lemma refresh_mount_run:
  assumes "refresh_mount env (t, mt) ms = (Inr (), ms')"
  shows "(t = ''image1'' \<and> ms' = ms) \<or> (t \<noteq> ''image1'' \<and> (\<exists>m'. ms' = dset t m' ms \<and> remounted env (t, mt) m'))"
proof (cases "t = ''image1''")
  case False
  then obtain d k where "get_disk_info_by_param env t = Inr (Some d)" "dget d ''kname'' = Some k" "mt \<noteq> []"
    "ms' = dset t (mt[0 := ''/dev/'' @ str_of k @ ''1'']) ms"
    using assms by (auto simp: refresh_mount_def lift_res_def py_assert_def ret_def throw_def modify_def
        elim!: bnd_InrE split: if_splits)
  then show ?thesis using False by (cases mt) (auto simp: remounted_def)
qed (use assms in \<open>simp add: refresh_mount_def ret_def\<close>)

lemma refresh_mounts_loop:
  assumes "for_each xs (refresh_mount env) ms = (Inr (), ms')" and "distinct (map fst xs)"
    and "\<forall>(t, mt) \<in> set xs. dget ms t = Some mt"
  shows "map fst ms' = map fst ms \<and> (\<forall>t. t \<notin> fst ` set xs \<longrightarrow> dget ms' t = dget ms t)
    \<and> (\<forall>(t, mt) \<in> set xs. \<exists>mt'. dget ms' t = Some mt' \<and> remounted env (t, mt) mt')"
  using assms
proof (induction xs arbitrary: ms)
  case (Cons x xs)
  obtain t mt where x: "x = (t, mt)" by (cases x)
  obtain ms1 where step: "refresh_mount env (t, mt) ms = (Inr (), ms1)" and rest: "for_each xs (refresh_mount env) ms1 = (Inr (), ms')"
    using Cons.prems(1) by (auto simp: x elim!: bnd_InrE)
  have t: "dget ms t = Some mt" using Cons.prems(3) x by simp
  have ms1: "map fst ms1 = map fst ms" "\<forall>t'. t' \<noteq> t \<longrightarrow> dget ms1 t' = dget ms t'"
    "\<exists>mt'. dget ms1 t = Some mt' \<and> remounted env (t, mt) mt'"
    using refresh_mount_run[OF step] t map_of_SomeD[OF t]
    by (auto simp: keys_dset remounted_def) (metis fst_conv image_eqI)
  have fresh: "t \<notin> fst ` set xs" using Cons.prems(2) x by simp
  have "dget ms1 t' = Some mt'" if m': "(t', mt') \<in> set xs" for t' mt'
  proof -
    have "t' \<noteq> t" using m' fresh by (metis fst_conv image_eqI)
    then have "dget ms1 t' = dget ms t'" using ms1(2) by simp
    then show ?thesis using Cons.prems(3) m' x by auto
  qed
  then have "\<forall>(t', mt') \<in> set xs. dget ms1 t' = Some mt'" by blast
  note IH = Cons.IH[OF rest _ this]
  show ?case using IH Cons.prems(2) ms1 fresh x by auto
qed (simp add: ret_def)

text \<open>
  Refreshing the mounts, when it returns: the same tags are mounted; the system disk is left alone, and every other mount
  has its device replaced by the first partition of the disk found for it and keeps its mount point.
\<close>

lemma mounts_refreshed:
  assumes "dict_ok mounts" and "refresh_mounts fail env mounts = (Inr (), mounts')"
  shows "map fst mounts' = map fst mounts
    \<and> (\<forall>t mt. dget mounts t = Some mt \<longrightarrow> (\<exists>mt'. dget mounts' t = Some mt' \<and> remounted env (t, mt) mt'))"
proof -
  have run: "for_each mounts (refresh_mount env) mounts = (Inr (), mounts')"
    using assms(2) by (auto simp: refresh_mounts_def try_except_def throw_def split: prod.splits sum.splits)
  have "\<forall>(t, mt) \<in> set mounts. dget mounts t = Some mt" using assms(1) by (auto simp: dict_ok_def)
  from refresh_mounts_loop[OF run _ this] assms(1) show ?thesis
    by (fastforce simp: dict_ok_def dest: map_of_SomeD)
qed

end
