(* ===== verification/Message_Queue.thy ===== *)
theory Message_Queue
  imports Py_Base
begin

text \<open>
  Message queues between a publisher and its subscribers (\<^verbatim>\<open>provider/message_queuing.py\<close>).  Each party drives an
  \<^verbatim>\<open>nc\<close> process through \<^verbatim>\<open>aexpect\<close>; what that process does is a field of \<open>mq_env\<close>, and so are the clock and the regular
  expression search.  Times are in milliseconds.  The state keeps the lines sent, so that the theorems can
  speak about them.  Callbacks belong to the tests: they are names, and what a name runs is a parameter.
\<close>

section \<open>The process and the state\<close>

record 'w mq_env =
  mq_start :: "string \<Rightarrow> 'w \<Rightarrow> unit res \<times> 'w"
  mq_sendline :: "string \<Rightarrow> 'w \<Rightarrow> unit res \<times> 'w"
  mq_read_last :: "string list \<Rightarrow> int \<Rightarrow> 'w \<Rightarrow> (nat \<times> string) res \<times> 'w"
  mq_read_output ::
    "(string list \<Rightarrow> (string \<times> string) list option) \<Rightarrow> int \<Rightarrow> 'w \<Rightarrow> ((string \<times> string) list \<times> string) res \<times> 'w"
  mq_alive :: "'w \<Rightarrow> bool res \<times> 'w"
  mq_send_ctrl :: "string \<Rightarrow> 'w \<Rightarrow> unit res \<times> 'w"
  mq_close_process :: "'w \<Rightarrow> unit res \<times> 'w"
  mq_now :: "'w \<Rightarrow> int"
  re_search :: "string \<Rightarrow> string \<Rightarrow> bool"

record 'w mq =
  mq_world :: 'w
  mq_lines :: "string list"

record ('w, 'c) mq_client = "'w mq" +
  msg_loop_flag :: bool
  msg_callback :: "(string \<times> 'c) list"

definition on_mq :: "('w \<Rightarrow> 'a res \<times> 'w) \<Rightarrow> (('w, 'x) mq_scheme, 'a) py" where
  "on_mq f s = (case f (mq_world s) of (r, w) \<Rightarrow> (r, s\<lparr>mq_world := w\<rparr>))"

definition sendline :: "'w mq_env \<Rightarrow> string \<Rightarrow> (('w, 'x) mq_scheme, unit) py" where
  "sendline env l s = (case mq_sendline env l (mq_world s) of (r, w) \<Rightarrow> (r, s\<lparr>mq_world := w, mq_lines := mq_lines s @ [l]\<rparr>))"

definition DEFAULT_MONITOR_TIMEOUT :: int where "DEFAULT_MONITOR_TIMEOUT = 60000"

section \<open>The base class\<close>

definition MQBase_init :: "'w mq_env \<Rightarrow> string \<Rightarrow> (('w, 'x) mq_scheme, unit) py" where
  "MQBase_init env cmd = on_mq (mq_start env cmd)"

definition confirm_message :: "'w mq_env \<Rightarrow> string \<Rightarrow> (('w, 'x) mq_scheme, unit) py" where
  "confirm_message env msg = sendline env (''CONFIRM-'' @ msg)"

definition monitor_message :: "'w mq_env \<Rightarrow> string \<Rightarrow> int \<Rightarrow> (('w, 'x) mq_scheme, unit) py" where
  "monitor_message env msg timeout =
     try_except (bnd (on_mq (mq_read_last env [msg] timeout)) (\<lambda>_. ret ()))
       (\<lambda>e. case e of ExpectTimeoutError out \<Rightarrow> Some (throw (MessageNotFoundError (PStr msg) out)) | _ \<Rightarrow> None)"

definition monitor_confirm_message :: "'w mq_env \<Rightarrow> string \<Rightarrow> int \<Rightarrow> (('w, 'x) mq_scheme, unit) py" where
  "monitor_confirm_message env msg timeout = monitor_message env (''CONFIRM-'' @ msg) timeout"

definition mq_close :: "'w mq_env \<Rightarrow> (('w, 'x) mq_scheme, unit) py" where
  "mq_close env =
     bnd (on_mq (mq_alive env)) (\<lambda>alive.
     bnd (if alive then on_mq (mq_send_ctrl env ''^C'') else ret ()) (\<lambda>_.
       on_mq (mq_close_process env)))"

definition mq_send_message :: "'w mq_env \<Rightarrow> string \<Rightarrow> (('w, 'x) mq_scheme, unit) py" where
  "mq_send_message env msg = sendline env msg"

section \<open>The publisher\<close>

definition publisher_cmd :: "pyval \<Rightarrow> bool \<Rightarrow> bool \<Rightarrow> string \<Rightarrow> string" where
  "publisher_cmd port udp multiple_connections other_options =
     join '' '' ([''nc'', ''-l''] @ (if truthy port then [''-p '' @ py_str port] else [])
       @ (if udp then [''--udp''] else []) @ (if multiple_connections then [''--keep-open''] else [])
       @ [other_options])"

definition MQPublisher_init :: "'w mq_env \<Rightarrow> pyval \<Rightarrow> bool \<Rightarrow> bool \<Rightarrow> string \<Rightarrow> (('w, 'x) mq_scheme, unit) py" where
  "MQPublisher_init env port udp multiple_connections other_options =
     MQBase_init env (publisher_cmd port udp multiple_connections other_options)"

definition confirm_access :: "'w mq_env \<Rightarrow> int \<Rightarrow> (('w, 'x) mq_scheme, unit) py" where
  "confirm_access env timeout =
     bnd (monitor_message env ''ACCESS'' timeout) (\<lambda>_. confirm_message env ''ACCESS'')"

definition approve :: "'w mq_env \<Rightarrow> int \<Rightarrow> (('w, 'x) mq_scheme, unit) py" where
  "approve env timeout = bnd (sendline env ''APPROVE'') (\<lambda>_. monitor_confirm_message env ''APPROVE'' timeout)"

definition notify :: "'w mq_env \<Rightarrow> int \<Rightarrow> (('w, 'x) mq_scheme, unit) py" where
  "notify env timeout = bnd (sendline env ''NOTIFY'') (\<lambda>_. monitor_confirm_message env ''NOTIFY'' timeout)"

definition alert :: "'w mq_env \<Rightarrow> int \<Rightarrow> (('w, 'x) mq_scheme, unit) py" where
  "alert env timeout = bnd (sendline env ''ALERT'') (\<lambda>_. monitor_confirm_message env ''ALERT'' timeout)"

definition refuse :: "'w mq_env \<Rightarrow> int \<Rightarrow> (('w, 'x) mq_scheme, unit) py" where
  "refuse env timeout = bnd (sendline env ''REFUSE'') (\<lambda>_. monitor_message env ''REFUSE'' timeout)"

section \<open>The subscriber\<close>

definition subscriber_cmd :: "string \<Rightarrow> pyval \<Rightarrow> bool \<Rightarrow> string" where
  "subscriber_cmd server_address port udp =
     join '' '' ([''nc'', server_address] @ (if truthy port then [py_str port] else [])
       @ (if udp then [''--udp''] else []))"

definition access :: "'w mq_env \<Rightarrow> (('w, 'x) mq_scheme, unit) py" where
  "access env = bnd (sendline env ''ACCESS'') (\<lambda>_. monitor_confirm_message env ''ACCESS'' DEFAULT_MONITOR_TIMEOUT)"

definition MQSubscriber_init :: "'w mq_env \<Rightarrow> string \<Rightarrow> pyval \<Rightarrow> bool \<Rightarrow> (('w, 'x) mq_scheme, unit) py" where
  "MQSubscriber_init env server_address port udp =
     bnd (MQBase_init env (subscriber_cmd server_address port udp)) (\<lambda>_. access env)"

definition confirm_approve :: "'w mq_env \<Rightarrow> (('w, 'x) mq_scheme, unit) py" where
  "confirm_approve env = confirm_message env ''APPROVE''"

definition confirm_notify :: "'w mq_env \<Rightarrow> (('w, 'x) mq_scheme, unit) py" where
  "confirm_notify env = confirm_message env ''NOTIFY''"

definition confirm_alert :: "'w mq_env \<Rightarrow> (('w, 'x) mq_scheme, unit) py" where
  "confirm_alert env = confirm_message env ''ALERT''"

definition confirm_refuse :: "'w mq_env \<Rightarrow> (('w, 'x) mq_scheme, unit) py" where
  "confirm_refuse env = confirm_message env ''REFUSE''"

text \<open>\<open>getattr(self, name)()\<close> for the attributes whose name starts with \<^verbatim>\<open>confirm_\<close>.\<close>

definition call_confirm :: "'w mq_env \<Rightarrow> string \<Rightarrow> (('w, 'x) mq_scheme, unit) py" where
  "call_confirm env name =
     (if name = ''confirm_approve'' then confirm_approve env
      else if name = ''confirm_notify'' then confirm_notify env
      else if name = ''confirm_alert'' then confirm_alert env
      else if name = ''confirm_refuse'' then confirm_refuse env
      else throw (AttributeError name))"

definition EVENT_PATTERNS :: "string list" where
  "EVENT_PATTERNS = [''APPROVE'', ''NOTIFY'', ''ALERT'', ''REFUSE'']"

definition event_line_of :: "string \<Rightarrow> string" where
  "event_line_of out = (if length (splitlines out) > 1 then last (splitlines out) else out)"

definition receive_event :: "'w mq_env \<Rightarrow> int \<Rightarrow> (('w, 'x) mq_scheme, string) py" where
  "receive_event env timeout =
     try_except
       (bnd (on_mq (mq_read_last env EVENT_PATTERNS timeout)) (\<lambda>(i, out).
          let event = strip_set is_ws (event_line_of out) in
          bnd (call_confirm env (''confirm_'' @ lower event)) (\<lambda>_. ret event)))
       (\<lambda>e. case e of ExpectTimeoutError out \<Rightarrow> Some (throw (UnknownEventError (strip_set is_ws out))) | _ \<Rightarrow> None)"

section \<open>The client\<close>

definition client_cmd :: "string \<Rightarrow> pyval \<Rightarrow> string" where
  "client_cmd server_address port =
     join '' '' ([''nc'', server_address] @ (if truthy port then [py_str port] else []))"

definition MQClient_init :: "'w mq_env \<Rightarrow> string \<Rightarrow> pyval \<Rightarrow> (('w, 'c) mq_client, unit) py" where
  "MQClient_init env server_address port =
     bnd (modify (\<lambda>s. s\<lparr>msg_loop_flag := True, msg_callback := []\<rparr>)) (\<lambda>_.
       MQBase_init env (client_cmd server_address port))"

definition match_patterns :: "'w mq_env \<Rightarrow> string list \<Rightarrow> string list \<Rightarrow> (string \<times> string) list option" where
  "match_patterns env lines patterns =
     (let matches = concat (map (\<lambda>line. map (\<lambda>p. (p, line)) (filter (\<lambda>p. re_search env p line) patterns)) lines) in
      if matches = [] then None else Some matches)"

definition register_msg :: "string \<Rightarrow> 'c option \<Rightarrow> (('w, 'c) mq_client, unit) py" where
  "register_msg msg callback =
     (case callback of
        None \<Rightarrow> ret ()
      | Some c \<Rightarrow> modify (\<lambda>s. s\<lparr>msg_callback := dset msg c (msg_callback s)\<rparr>))"

definition unregister_msg :: "string \<Rightarrow> (('w, 'c) mq_client, unit) py" where
  "unregister_msg msg =
     bnd (gets msg_callback) (\<lambda>cb.
       if din msg cb then modify (\<lambda>s. s\<lparr>msg_callback := dpop msg (msg_callback s)\<rparr>) else ret ())"

text \<open>
  The keys of the callbacks are a view: a later registration shows in it.  Asking for all messages is asking for the
  empty list, here and in the loop.
\<close>

definition msgs_or_all :: "string list \<Rightarrow> (('w, 'c) mq_client, string list) py" where
  "msgs_or_all msgs = (if msgs = [] then gets (\<lambda>s. map fst (msg_callback s)) else ret msgs)"

definition filter_msg :: "'w mq_env \<Rightarrow> string list \<Rightarrow> int \<Rightarrow> (('w, 'c) mq_client, (string \<times> string) list) py" where
  "filter_msg env msgs timeout =
     bnd (msgs_or_all msgs) (\<lambda>patterns.
       try_except
         (bnd (on_mq (mq_read_output env (\<lambda>lines. match_patterns env lines patterns) timeout)) (\<lambda>(m, out). ret m))
         (\<lambda>e. case e of
                ExpectTimeoutError out \<Rightarrow> Some (throw (MessageNotFoundError (PList (map PStr patterns)) out))
              | _ \<Rightarrow> None))"

definition set_msg_loop :: "bool \<Rightarrow> (('w, 'c) mq_client, unit) py" where
  "set_msg_loop flag = modify (\<lambda>s. s\<lparr>msg_loop_flag := flag\<rparr>)"

text \<open>The callbacks of the matched messages, each looked up when its turn comes.\<close>

definition dispatch :: "('c \<Rightarrow> string \<Rightarrow> (('w, 'c) mq_client, unit) py) \<Rightarrow> string \<times> string \<Rightarrow> (('w, 'c) mq_client, unit) py" where
  "dispatch run m =
     bnd (gets msg_callback) (\<lambda>cb.
       case dget cb (fst m) of None \<Rightarrow> ret () | Some c \<Rightarrow> run c (snd m))"

text \<open>One round of the loop, and the loop: \<open>None\<close> when it never ends.\<close>

definition msg_round ::
    "'w mq_env \<Rightarrow> ('c \<Rightarrow> string \<Rightarrow> (('w, 'c) mq_client, unit) py) \<Rightarrow> string list \<Rightarrow> int \<Rightarrow> int \<Rightarrow> (('w, 'c) mq_client, int) py" where
  "msg_round env run msgs end_time rest_time =
     bnd (filter_msg env msgs rest_time) (\<lambda>match_msg.
     bnd (gets (\<lambda>s. end_time - mq_now env (mq_world s))) (\<lambda>rest.
     bnd (for_each match_msg (dispatch run)) (\<lambda>_. ret rest)))"

partial_function (option) msg_rounds ::
    "'w mq_env \<Rightarrow> ('c \<Rightarrow> string \<Rightarrow> (('w, 'c) mq_client, unit) py) \<Rightarrow> string list \<Rightarrow> int \<Rightarrow> int \<Rightarrow> ('w, 'c) mq_client
     \<Rightarrow> (unit res \<times> ('w, 'c) mq_client) option" where
  "msg_rounds env run msgs end_time rest_time s =
     (if msg_loop_flag s \<and> rest_time > 0 then
        (case msg_round env run msgs end_time rest_time s of
           (Inl e, s') \<Rightarrow> Some (Inl e, s')
         | (Inr rest, s') \<Rightarrow> msg_rounds env run msgs end_time rest s')
      else Some (Inr (), s))"

declare msg_rounds.simps [code]

definition msg_loop ::
    "'w mq_env \<Rightarrow> ('c \<Rightarrow> string \<Rightarrow> (('w, 'c) mq_client, unit) py) \<Rightarrow> string list \<Rightarrow> int \<Rightarrow> ('w, 'c) mq_client
     \<Rightarrow> (unit res \<times> ('w, 'c) mq_client) option" where
  "msg_loop env run msgs timeout s = msg_rounds env run msgs (mq_now env (mq_world s) + timeout) timeout s"

section \<open>What the parties say to each other\<close>

text \<open>The operation of the publisher that announces an event, and the pattern it then waits for.\<close>

definition announce :: "string \<Rightarrow> 'w mq_env \<Rightarrow> int \<Rightarrow> (('w, 'x) mq_scheme, unit) py" where
  "announce e = (if e = ''APPROVE'' then approve else if e = ''NOTIFY'' then notify
     else if e = ''ALERT'' then alert else refuse)"

definition awaited :: "string \<Rightarrow> string" where
  "awaited e = (if e = ''REFUSE'' then e else ''CONFIRM-'' @ e)"

lemmas mq_defs = on_mq_def sendline_def confirm_message_def monitor_message_def monitor_confirm_message_def

lemma monitor_run:
  "monitor_message env m t s =
     (case mq_read_last env [m] t (mq_world s) of
        (Inr x, w) \<Rightarrow> (Inr (), s\<lparr>mq_world := w\<rparr>)
      | (Inl (ExpectTimeoutError out), w) \<Rightarrow> (Inl (MessageNotFoundError (PStr m) out), s\<lparr>mq_world := w\<rparr>)
      | (Inl e, w) \<Rightarrow> (Inl e, s\<lparr>mq_world := w\<rparr>))"
  by (simp add: monitor_message_def try_except_def bnd_def on_mq_def ret_def throw_def split: prod.split sum.split exc.split)

lemma announce_eq:
  assumes "e \<in> set EVENT_PATTERNS"
  shows "announce e env t = bnd (sendline env e) (\<lambda>_. monitor_message env (awaited e) t)"
  using assms
  by (auto simp: EVENT_PATTERNS_def announce_def awaited_def approve_def notify_def alert_def refuse_def
      monitor_confirm_message_def)

lemma lower_events:
  "lower ''APPROVE'' = ''approve''" "lower ''NOTIFY'' = ''notify''" "lower ''ALERT'' = ''alert''" "lower ''REFUSE'' = ''refuse''"
  by code_simp+

lemma call_confirm_event:
  assumes "e \<in> set EVENT_PATTERNS"
  shows "call_confirm env (''confirm_'' @ lower e) = sendline env (''CONFIRM-'' @ e)"
  using assms
  by (auto simp: EVENT_PATTERNS_def lower_events call_confirm_def confirm_approve_def confirm_notify_def
      confirm_alert_def confirm_refuse_def confirm_message_def)

lemma sendline_run:
  "sendline env l s = (fst (mq_sendline env l (mq_world s)),
     s\<lparr>mq_world := snd (mq_sendline env l (mq_world s)), mq_lines := mq_lines s @ [l]\<rparr>)"
  by (simp add: sendline_def split: prod.split)

lemma receive_event_run:
  assumes "mq_read_last env EVENT_PATTERNS t (mq_world s) = (Inr (i, out), w)"
    and "strip_set is_ws (event_line_of out) = e" and "e \<in> set EVENT_PATTERNS"
    and "mq_sendline env (''CONFIRM-'' @ e) w = (Inr (), w')"
  shows "receive_event env t s = (Inr e, s\<lparr>mq_world := w', mq_lines := mq_lines s @ [''CONFIRM-'' @ e]\<rparr>)"
proof -
  have "call_confirm env (''confirm_'' @ lower e) (s\<lparr>mq_world := w\<rparr>) =
      (Inr (), s\<lparr>mq_world := w', mq_lines := mq_lines s @ [''CONFIRM-'' @ e]\<rparr>)"
    unfolding call_confirm_event[OF assms(3)] sendline_run using assms(4) by simp
  then show ?thesis using assms(1,2)
    by (simp add: receive_event_def try_except_def bnd_def on_mq_def Let_def ret_def)
qed

lemma awaited_in_confirm: "\<exists>a b. ''CONFIRM-'' @ e = a @ awaited e @ b"
  by (cases "e = ''REFUSE''")
    (auto simp: awaited_def intro: exI[of _ "[]"] exI[of _ "''CONFIRM-''"])


text \<open>A party that has a line waiting.\<close>

definition demo_mq :: "string \<Rightarrow> unit mq_env" where
  "demo_mq l = \<lparr>mq_start = (\<lambda>_ w. (Inr (), w)), mq_sendline = (\<lambda>_ w. (Inr (), w)), mq_read_last = (\<lambda>_ _ w. (Inr (0, l), w)),
     mq_read_output = (\<lambda>_ _ w. (Inl (ExpectTimeoutError l), w)), mq_alive = (\<lambda>w. (Inr True, w)),
     mq_send_ctrl = (\<lambda>_ w. (Inr (), w)), mq_close_process = (\<lambda>w. (Inr (), w)), mq_now = (\<lambda>_. 0),
     re_search = (\<lambda>p l. p = l)\<rparr>"


section \<open>The message loop\<close>

text \<open>
  Time passes while the client reads, and no callback turns the clock back.
\<close>

definition clock_runs :: "'w mq_env \<Rightarrow> ('c \<Rightarrow> string \<Rightarrow> (('w, 'c) mq_client, unit) py) \<Rightarrow> bool" where
  "clock_runs env run \<longleftrightarrow>
     (\<forall>f t w. mq_now env w < mq_now env (snd (mq_read_output env f t w)))
     \<and> (\<forall>c l s. mq_now env (mq_world s) \<le> mq_now env (mq_world (snd (run c l s))))"

abbreviation client_now :: "'w mq_env \<Rightarrow> ('w, 'c) mq_client \<Rightarrow> int" where
  "client_now env s \<equiv> mq_now env (mq_world s)"

lemma dispatch_clock:
  assumes "clock_runs env run"
  shows "client_now env s \<le> client_now env (snd (dispatch run m s))"
  using assms by (auto simp: dispatch_def bnd_def gets_def ret_def clock_runs_def split: option.split)

lemma dispatch_all_clock:
  assumes "clock_runs env run"
  shows "client_now env s \<le> client_now env (snd (for_each ms (dispatch run) s))"
  using for_each_inv[where P = "\<lambda>s'. client_now env s \<le> client_now env s'" and f = "dispatch run" and xs = ms and s = s]
    dispatch_clock[OF assms] by (meson order.refl order.trans)

lemma filter_msg_world:
  "\<exists>f. mq_world (snd (filter_msg env msgs t s)) = snd (mq_read_output env f t (mq_world s))"
proof -
  let ?f = "\<lambda>lines. match_patterns env lines (if msgs = [] then map fst (msg_callback s) else msgs)"
  obtain r w where r: "mq_read_output env ?f t (mq_world s) = (r, w)" by fastforce
  then have "mq_world (snd (filter_msg env msgs t s)) = w"
    by (cases "msgs = []")
      (simp_all add: filter_msg_def msgs_or_all_def bnd_def gets_def ret_def try_except_def on_mq_def throw_def
        split: sum.split exc.split)
  then show ?thesis using r by (intro exI[of _ ?f]) simp
qed

lemma filter_msg_clock:
  assumes "clock_runs env run"
  shows "client_now env s < client_now env (snd (filter_msg env msgs t s))"
  using assms filter_msg_world[of env msgs t s] by (auto simp: clock_runs_def)

lemma msg_round_clock:
  assumes "clock_runs env run" and "msg_round env run msgs end_time t s = (Inr rest, s')"
  shows "client_now env s < end_time - rest" and "end_time - rest \<le> client_now env s'"
proof -
  from assms(2) obtain ms s1 where f: "filter_msg env msgs t s = (Inr ms, s1)"
    and rest: "rest = end_time - client_now env s1" and d: "for_each ms (dispatch run) s1 = (Inr (), s')"
    by (auto simp: msg_round_def gets_def ret_def elim!: bnd_InrE)
  show "client_now env s < end_time - rest" using filter_msg_clock[OF assms(1), of s msgs t] f rest by simp
  show "end_time - rest \<le> client_now env s'" using dispatch_all_clock[OF assms(1), of s1 ms] d rest by simp
qed

lemma msg_rounds_end:
  assumes "clock_runs env run" and "end_time - t \<le> client_now env s"
  shows "\<exists>r s'. msg_rounds env run msgs end_time t s = Some (r, s')
    \<and> (r = Inr () \<longrightarrow> \<not> msg_loop_flag s' \<or> end_time \<le> client_now env s')"
  using assms(2)
proof (induction "nat t" arbitrary: t s rule: less_induct)
  case less
  show ?case
  proof (cases "msg_loop_flag s \<and> t > 0")
    case True
    obtain x s1 where round: "msg_round env run msgs end_time t s = (x, s1)" by fastforce
    show ?thesis
    proof (cases x)
      case (Inl e)
      then show ?thesis using round True by (subst msg_rounds.simps) auto
    next
      case (Inr rest)
      note clk = msg_round_clock[OF assms(1) round[unfolded Inr]]
      then have "nat rest < nat t" using True less.prems by linarith
      from less.hyps[OF this clk(2)] show ?thesis using round True Inr by (subst msg_rounds.simps) simp
    qed
  next
    case False
    then show ?thesis using less.prems by (subst msg_rounds.simps) auto
  qed
qed

text \<open>
  C29. The message loop of a client ends, whatever is received, provided time passes while it reads: when it
  returns normally a callback has disabled it or its time is up, and a round after which it is disabled is
  its last.
\<close>

theorem msg_loop_ends:
  assumes "clock_runs env run"
  shows "(\<exists>r s'. msg_loop env run msgs timeout s = Some (r, s')
      \<and> (r = Inr () \<longrightarrow> \<not> msg_loop_flag s' \<or> client_now env s + timeout \<le> client_now env s'))
    \<and> (\<forall>rest s'. msg_loop_flag s \<and> 0 < timeout
        \<and> msg_round env run msgs (client_now env s + timeout) timeout s = (Inr rest, s') \<and> \<not> msg_loop_flag s'
        \<longrightarrow> msg_loop env run msgs timeout s = Some (Inr (), s'))"
proof (intro conjI allI impI)
  show "\<exists>r s'. msg_loop env run msgs timeout s = Some (r, s')
      \<and> (r = Inr () \<longrightarrow> \<not> msg_loop_flag s' \<or> client_now env s + timeout \<le> client_now env s')"
    unfolding msg_loop_def by (rule msg_rounds_end[OF assms]) simp
  fix rest s'
  assume r: "msg_loop_flag s \<and> 0 < timeout
        \<and> msg_round env run msgs (client_now env s + timeout) timeout s = (Inr rest, s') \<and> \<not> msg_loop_flag s'"
  then show "msg_loop env run msgs timeout s = Some (Inr (), s')"
    unfolding msg_loop_def by (subst msg_rounds.simps, subst msg_rounds.simps) simp
qed

text \<open>A client whose clock is the world, with one callback that ends the loop.\<close>

definition demo_client_env :: "int mq_env" where
  "demo_client_env = \<lparr>mq_start = (\<lambda>_ w. (Inr (), w)), mq_sendline = (\<lambda>_ w. (Inr (), w)),
     mq_read_last = (\<lambda>_ _ w. (Inl (ExpectTimeoutError []), w + 1)),
     mq_read_output = (\<lambda>f _ w. (case f [''ping''] of Some m \<Rightarrow> Inr (m, ''ping'') | None \<Rightarrow> Inl (ExpectTimeoutError ''ping''), w + 100)),
     mq_alive = (\<lambda>w. (Inr True, w)), mq_send_ctrl = (\<lambda>_ w. (Inr (), w)), mq_close_process = (\<lambda>w. (Inr (), w)),
     mq_now = (\<lambda>w. w), re_search = (\<lambda>p l. p = l)\<rparr>"

definition demo_client :: "(int, unit) mq_client" where
  "demo_client = \<lparr>mq_world = 0, mq_lines = [], msg_loop_flag = True, msg_callback = [(''ping'', ())]\<rparr>"

theorem msg_loop_ends_witness:
  "msg_loop demo_client_env (\<lambda>_ _. set_msg_loop False) [] 60000 demo_client =
     Some (Inr (), demo_client\<lparr>mq_world := 100, msg_loop_flag := False\<rparr>)"
proof -
  have clk: "clock_runs demo_client_env (\<lambda>_ _. set_msg_loop False)"
    by (simp add: clock_runs_def demo_client_env_def set_msg_loop_def modify_def)
  have "msg_round demo_client_env (\<lambda>_ _. set_msg_loop False) [] (client_now demo_client_env demo_client + 60000) 60000 demo_client =
      (Inr 59900, demo_client\<lparr>mq_world := 100, msg_loop_flag := False\<rparr>)" by code_simp
  then show ?thesis
    using conjunct2[OF msg_loop_ends[OF clk, of "[]" 60000 demo_client]] by (simp add: demo_client_def)
qed

end
