(* ===== verification/Throttle.thy ===== *)
theory Throttle
  imports Backup_Host Message_Queue Complex_Main
begin

text \<open>
  Throttle groups (\<^verbatim>\<open>provider/throttle_utils.py\<close>): the manager of groups, the tester that derives the expected rates
  from the limits of a group, runs fio in the guest and checks what it measured, and the tester of several
  groups.  Rates measured by fio and the quotients of the burst computation are floating point numbers in the code; here they are
  rational numbers.  The device container, the monitor, the guest session, the test object and the parsed output of fio are
  parameters.
\<close>

section \<open>Environment\<close>

text \<open>
  \<open>'d\<close> are devices, \<open>'b\<close> buses, \<open>'w\<close> the rest of the world.
\<close>

record ('d, 'b, 'w) group_env =
  QThrottleGroup :: "string \<Rightarrow> pydict \<Rightarrow> 'd"
  simple_hotplug :: "'d \<Rightarrow> 'w \<Rightarrow> unit res \<times> 'w"
  simple_unplug :: "'d \<Rightarrow> 'w \<Rightarrow> unit res \<times> 'w"
  remove_device :: "'d \<Rightarrow> 'w \<Rightarrow> unit res \<times> 'w"
  get_by_qid :: "string \<Rightarrow> 'w \<Rightarrow> 'd list"
  qom_get :: "string \<Rightarrow> string \<Rightarrow> 'w \<Rightarrow> pyval res \<times> 'w"
  qom_set :: "string \<Rightarrow> string \<Rightarrow> pyval \<Rightarrow> 'w \<Rightarrow> unit res \<times> 'w"
  raw_limits :: "'d \<Rightarrow> 'w \<Rightarrow> pyval"
  set_raw_limits :: "'d \<Rightarrow> pyval \<Rightarrow> 'w \<Rightarrow> 'w"
  get_param :: "'d \<Rightarrow> string \<Rightarrow> 'w \<Rightarrow> pyval"
  set_param :: "'d \<Rightarrow> string \<Rightarrow> pyval \<Rightarrow> 'w \<Rightarrow> 'w"
  set_parent_bus :: "'d \<Rightarrow> string \<Rightarrow> 'w \<Rightarrow> 'w"
  child_bus :: "'d \<Rightarrow> 'w \<Rightarrow> 'b list"
  bus_remove :: "'b \<Rightarrow> 'd \<Rightarrow> 'w \<Rightarrow> unit res \<times> 'w"
  bus_insert :: "'b \<Rightarrow> 'd \<Rightarrow> 'w \<Rightarrow> unit res \<times> 'w"
  reopen :: "bool \<Rightarrow> pydict \<Rightarrow> 'w \<Rightarrow> unit res \<times> 'w"
  reopen_stable :: "'w \<Rightarrow> bool"

definition ThrottleError :: "string \<Rightarrow> exc" where
  "ThrottleError m = OtherError ''ThrottleError'' m"

section \<open>The manager of groups\<close>

definition add_throttle_group :: "('d, 'b, 'w) group_env \<Rightarrow> string \<Rightarrow> pydict \<Rightarrow> ('w, 'd option) py" where
  "add_throttle_group env group_id props =
     (let dev = QThrottleGroup env group_id props in
      try_except (bnd (simple_hotplug env dev) (\<lambda>_. ret (Some dev)))
        (\<lambda>e. case e of QMPCmdError _ \<Rightarrow> Some (bnd (remove_device env dev) (\<lambda>_. ret None)) | _ \<Rightarrow> None))"

definition get_throttle_group :: "('d, 'b, 'w) group_env \<Rightarrow> string \<Rightarrow> ('w, 'd option) py" where
  "get_throttle_group env group_id =
     bnd (gets (get_by_qid env group_id)) (\<lambda>devs.
       ret (case devs of [dev] \<Rightarrow> Some dev | _ \<Rightarrow> None))"

definition delete_throttle_group :: "('d, 'b, 'w) group_env \<Rightarrow> string \<Rightarrow> ('w, bool) py" where
  "delete_throttle_group env group_id =
     bnd (get_throttle_group env group_id) (\<lambda>dev.
       case dev of
         Some d \<Rightarrow> bnd (simple_unplug env d) (\<lambda>_. ret True)
       | None \<Rightarrow> ret False)"

definition get_throttle_group_props :: "('d, 'b, 'w) group_env \<Rightarrow> string \<Rightarrow> ('w, pyval) py" where
  "get_throttle_group_props env group_id =
     try_except (qom_get env group_id ''limits'')
       (\<lambda>e. case e of QMPCmdError _ \<Rightarrow> Some (ret PNone) | _ \<Rightarrow> None)"

definition update_throttle_group :: "('d, 'b, 'w) group_env \<Rightarrow> string \<Rightarrow> pydict \<Rightarrow> ('w, unit) py" where
  "update_throttle_group env group_id props =
     bnd (get_throttle_group env group_id) (\<lambda>dev.
       case dev of
         None \<Rightarrow> throw (ThrottleError ''Can not find throttle group'')
       | Some d \<Rightarrow>
           let tmp_dev = QThrottleGroup env group_id props in
           bnd (gets (raw_limits env tmp_dev)) (\<lambda>limits.
           bnd (qom_set env group_id ''limits'' limits) (\<lambda>_.
             modify (set_raw_limits env d limits))))"

definition first_by_qid :: "('d, 'b, 'w) group_env \<Rightarrow> string \<Rightarrow> ('w, 'd) py" where
  "first_by_qid env qid =
     bnd (gets (get_by_qid env qid)) (\<lambda>devs. case devs of [] \<Rightarrow> throw IndexError | d # _ \<Rightarrow> ret d)"

definition change_throttle_group :: "('d, 'b, 'w) group_env \<Rightarrow> string \<Rightarrow> string \<Rightarrow> ('w, unit) py" where
  "change_throttle_group env img group_id =
     (let node_name = ''drive_'' @ img in
      bnd (first_by_qid env node_name) (\<lambda>blockdev.
      bnd (gets (get_param env blockdev ''throttle-group'')) (\<lambda>old_id.
      bnd (first_by_qid env (str_of old_id)) (\<lambda>old_group.
      bnd (first_by_qid env group_id) (\<lambda>new_group.
      bnd (gets (get_param env blockdev ''file'')) (\<lambda>file.
      bnd (gets (reopen_stable env)) (\<lambda>stable.
      bnd (reopen env stable [(''driver'', PStr ''throttle''), (''node-name'', PStr node_name), (''file'', file),
                              (''throttle-group'', PStr group_id)]) (\<lambda>_.
      bnd (gets (child_bus env old_group)) (\<lambda>old_buses.
      bnd (for_each old_buses (\<lambda>b. bus_remove env b blockdev)) (\<lambda>_.
      bnd (modify (set_parent_bus env blockdev group_id)) (\<lambda>_.
      bnd (modify (set_param env blockdev ''throttle-group'' (PStr group_id))) (\<lambda>_.
      bnd (gets (child_bus env new_group)) (\<lambda>new_buses.
        for_each new_buses (\<lambda>b. bus_insert env b blockdev))))))))))))))"

section \<open>Disks in the guest\<close>

record 'w guest_env =
  new_session :: "'w \<Rightarrow> unit res \<times> 'w"
  session_cmd_output :: "string \<Rightarrow> 'w \<Rightarrow> string res \<times> 'w"
  session_cmd_checked :: "string \<Rightarrow> 'w \<Rightarrow> string res \<times> 'w"
  linux_drive_path :: "string \<Rightarrow> 'w \<Rightarrow> pyval res \<times> 'w"
  script_suffix :: "'w \<Rightarrow> string"
  pause :: "int \<Rightarrow> 'w \<Rightarrow> 'w"

definition online_disk_script :: "string \<Rightarrow> string \<Rightarrow> string" where
  "online_disk_script disk index =
     ''echo select disk '' @ index @ '' > '' @ disk
     @ '' && echo online disk noerr >> '' @ disk
     @ '' && echo clean >> '' @ disk
     @ '' && echo attributes disk clear readonly >> '' @ disk
     @ '' && echo detail disk >> '' @ disk
     @ '' && diskpart /s '' @ disk
     @ '' && del /f '' @ disk"

definition online_disk_windows :: "'w guest_env \<Rightarrow> string \<Rightarrow> ('w, string) py" where
  "online_disk_windows g index =
     bnd (gets (script_suffix g)) (\<lambda>suffix.
       session_cmd_checked g (online_disk_script (''disk_'' @ suffix) index))"

definition get_drive_path :: "'w guest_env \<Rightarrow> (string \<Rightarrow> pydict) \<Rightarrow> pydict \<Rightarrow> string \<Rightarrow> ('w, pyval) py" where
  "get_drive_path g obj_params params img =
     bnd (lift_res (dindex params ''os_type'')) (\<lambda>os_type.
     bnd (lift_res (dindex (obj_params img) ''blk_extra_params'')) (\<lambda>extra_params.
     bnd (lift_res (case search_id (str_of extra_params) of
                      None \<Rightarrow> Inl (AttributeError ''group'') | Some s \<Rightarrow> Inr s)) (\<lambda>serial.
       if os_type = PStr ''windows'' then
         bnd (session_cmd_output g (''wmic diskdrive where SerialNumber='' @ [CHR 0x27] @ serial @ [CHR 0x27] @ '' get Index,Name'')) (\<lambda>disks.
           let info = splitlines disks in
           if length info > 1 then
             (let attr = split_ws (info ! 1) in
              bnd (lift_res (nth_res attr 0)) (\<lambda>index.
              bnd (online_disk_windows g index) (\<lambda>_.
              bnd (lift_res (nth_res attr 1)) (\<lambda>path. ret (PStr path)))))
           else linux_drive_path g serial)
       else linux_drive_path g serial)))"

section \<open>The output of fio\<close>

text \<open>
  The output is written to a text file and read back line by line: reading translates line ends.
\<close>

fun universal_newlines :: "string \<Rightarrow> string" where
  "universal_newlines [] = []"
| "universal_newlines (c # cs) =
     (if c = CHR 0x0D then
        CHR 0x0A # (case cs of d # ds \<Rightarrow> if d = CHR 0x0A then universal_newlines ds else universal_newlines cs | [] \<Rightarrow> [])
      else c # universal_newlines cs)"

fun keep_lines :: "string \<Rightarrow> string list" where
  "keep_lines [] = []"
| "keep_lines (c # cs) =
     (if c = CHR 0x0A then [c] # keep_lines cs
      else (case keep_lines cs of [] \<Rightarrow> [[c]] | l # ls \<Rightarrow> (c # l) # ls))"

definition BLOCK_BEGIN :: string where "BLOCK_BEGIN = [CHR 0x7B, CHR 0x0A]"
definition BLOCK_END :: string where "BLOCK_END = [CHR 0x7D, CHR 0x0A]"

text \<open>The loop over the lines: whether a block is open at the end, and the blocks read.\<close>

fun json_blocks ::
    "(string \<Rightarrow> 'j res) \<Rightarrow> string list \<Rightarrow> bool \<Rightarrow> int \<Rightarrow> (int \<times> 'j) list \<Rightarrow> string \<Rightarrow> (bool \<times> (int \<times> 'j) list) res" where
  "json_blocks parse [] begin_flag block_index block data = Inr (begin_flag, block)"
| "json_blocks parse (line # lines) begin_flag block_index block data =
     (if line = BLOCK_BEGIN \<and> begin_flag then Inr (True, block)
      else
        let flag = (line = BLOCK_BEGIN \<or> begin_flag);
            data' = (if flag then data @ line else data) in
        if line = BLOCK_END then
          (if flag then
             rbind (parse data') (\<lambda>j.
               json_blocks parse lines False (block_index + 1) (dset block_index j block) [])
           else Inr (False, block))
        else json_blocks parse lines flag block_index block data')"

definition generate_output_by_json :: "(string \<Rightarrow> 'j res) \<Rightarrow> string \<Rightarrow> (int \<times> 'j) list res" where
  "generate_output_by_json parse output =
     rbind (json_blocks parse (keep_lines (universal_newlines output)) False 1 [] []) (\<lambda>(begin_flag, block).
       Inr (if begin_flag then [] else block))"

section \<open>The state of a tester\<close>

record 'j image_data =
  im_name :: pyval
  im_fio_option :: string
  im_output :: "(int \<times> 'j) list"

definition raw_image_data :: "'j image_data" where
  "raw_image_data = \<lparr>im_name = PStr [], im_fio_option = [], im_output = []\<rparr>"

definition raw_expected :: pydict where
  "raw_expected =
     [(''burst'', PDict [(''read'', PInt 0), (''write'', PInt 0), (''total'', PInt 0), (''burst_time'', PInt 0),
                         (''burst_empty_time'', PInt 0)]),
      (''normal'', PDict [(''read'', PInt 0), (''write'', PInt 0), (''total'', PInt 0)])]"

record ('j, 'w) tester =
  group :: string
  fio_path :: "string option"
  shared_option :: string
  images :: "string list"
  image_table :: "(string \<times> 'j image_data) list"
  expected :: pydict
  tworld :: 'w

text \<open>
  What a tester is given: the session to the guest, the parser of the output and the rates in a parsed block.
\<close>

record ('j, 'w) tester_env =
  guest_of :: "'w guest_env"
  parse_json :: "string \<Rightarrow> 'j res"
  job_iops :: "'j \<Rightarrow> string \<Rightarrow> rat res"
  params_of :: "string \<Rightarrow> pydict"
  test_params :: pydict

definition on_tester :: "('w, 'a) py \<Rightarrow> (('j, 'w) tester, 'a) py" where
  "on_tester f s = (case f (tworld s) of (r, w) \<Rightarrow> (r, s\<lparr>tworld := w\<rparr>))"

text \<open>
  The constructor: without images the loop over \<open>None\<close> raises.
\<close>

definition ThrottleTester :: "'w \<Rightarrow> string \<Rightarrow> string list option \<Rightarrow> ('j, 'w) tester res" where
  "ThrottleTester w grp imgs =
     (case imgs of
        None \<Rightarrow> Inl (TypeError ''NoneType object is not iterable'')
      | Some is \<Rightarrow>
          Inr \<lparr>group = grp, fio_path = None, shared_option = [], images = is,
               image_table = dupdate [] (map (\<lambda>i. (i, raw_image_data)) is), expected = raw_expected, tworld = w\<rparr>)"

definition set_fio :: "string \<Rightarrow> (('j, 'w) tester, unit) py" where
  "set_fio path = modify (\<lambda>s. s\<lparr>fio_path := Some path\<rparr>)"

text \<open>Numbers in a dictionary, and the sum of the expected rates.\<close>

definition as_number :: "pyval \<Rightarrow> int res" where
  "as_number v = (case v of PInt i \<Rightarrow> Inr i | PBool b \<Rightarrow> Inr (if b then 1 else 0) | _ \<Rightarrow> Inl (TypeError ''unsupported operand''))"

definition number_at :: "pyval \<Rightarrow> string \<Rightarrow> int res" where
  "number_at d k = rbind (pindex d k) as_number"

definition expected_rate :: "string \<Rightarrow> pydict \<Rightarrow> int res" where
  "expected_rate kind ex =
     rbind (dindex ex kind) (\<lambda>d.
     rbind (number_at d ''read'') (\<lambda>r.
     rbind (number_at d ''write'') (\<lambda>w.
     rbind (number_at d ''total'') (\<lambda>t. Inr (r + w + t)))))"

section \<open>Running fio\<close>

definition set_output :: "string \<Rightarrow> (int \<times> 'j) list \<Rightarrow> ('j, 'w) tester \<Rightarrow> ('j, 'w) tester" where
  "set_output img out s =
     (case dget (image_table s) img of
        None \<Rightarrow> s
      | Some d \<Rightarrow> s\<lparr>image_table := dset img (d\<lparr>im_output := out\<rparr>) (image_table s)\<rparr>)"

definition image_data_of :: "string \<Rightarrow> (('j, 'w) tester, 'j image_data) py" where
  "image_data_of img =
     bnd (gets image_table) (\<lambda>t. lift_res (dindex t img))"

definition run_fio :: "('j, 'w) tester_env \<Rightarrow> string \<Rightarrow> (('j, 'w) tester, (int \<times> 'j) list) py" where
  "run_fio env img =
     bnd (gets fio_path) (\<lambda>fio.
     case fio of
       None \<Rightarrow> throw (TestError ''Please set fio first'')
     | Some path \<Rightarrow>
         bnd (image_data_of img) (\<lambda>image_info.
         bnd (on_tester (new_session (guest_of env))) (\<lambda>_.
         bnd (gets expected) (\<lambda>ex.
         bnd (lift_res (expected_rate ''burst'' ex)) (\<lambda>expected_burst.
           let cmd1 = join '' '' [path, im_fio_option image_info];
               cmd = (if expected_burst \<noteq> 0 then cmd1 @ '' && '' @ cmd1 else cmd1) in
           bnd (on_tester (session_cmd_checked (guest_of env) cmd)) (\<lambda>out.
           bnd (lift_res (generate_output_by_json (parse_json env) out)) (\<lambda>blocks.
           bnd (modify (set_output img blocks)) (\<lambda>_. ret blocks))))))))"

section \<open>Checking the output\<close>

definition MARGIN :: rat where "MARGIN = 3 / 10"

text \<open>\<open>output[n]["jobs"][0]["read"]["iops"] + output[n]["jobs"][0]["write"]["iops"]\<close>\<close>

definition sample_iops :: "('j, 'w) tester_env \<Rightarrow> (int \<times> 'j) list \<Rightarrow> int \<Rightarrow> rat res" where
  "sample_iops env out n =
     (case dget out n of
        None \<Rightarrow> Inl (KeyError (int_str n))
      | Some j \<Rightarrow> rbind (job_iops env j ''read'') (\<lambda>r. rbind (job_iops env j ''write'') (\<lambda>w. Inr (r + w))))"

text \<open>The burst and the normal rate measured for one image.\<close>

definition image_iops :: "('j, 'w) tester_env \<Rightarrow> int \<Rightarrow> (int \<times> 'j) list \<Rightarrow> (rat \<times> rat) res" where
  "image_iops env expected_burst out =
     (let num_samples = int (length out) in
      if expected_burst \<noteq> 0 then
        (if num_samples < 2 then Inl (TestError ''At lease 2 Data samples'')
         else rbind (sample_iops env out 1) (\<lambda>b. rbind (sample_iops env out num_samples) (\<lambda>n. Inr (b, n))))
      else if num_samples < 1 then Inl (TestError ''At lease 1 Data samples'')
      else rbind (sample_iops env out num_samples) (\<lambda>n. Inr (0, n)))"

fun sum_iops ::
    "('j, 'w) tester_env \<Rightarrow> int \<Rightarrow> (string \<times> 'j image_data) list \<Rightarrow> string list \<Rightarrow> (rat \<times> rat) \<Rightarrow> (rat \<times> rat) res" where
  "sum_iops env eb tab [] acc = Inr acc"
| "sum_iops env eb tab (i # is) acc =
     rbind (dindex tab i) (\<lambda>d. rbind (image_iops env eb (im_output d)) (\<lambda>(b, n).
       sum_iops env eb tab is (fst acc + b, snd acc + n)))"

definition within_margin :: "int \<Rightarrow> rat \<Rightarrow> bool" where
  "within_margin ex measured \<longleftrightarrow> \<bar>of_int ex - measured\<bar> \<le> of_int ex * MARGIN"

text \<open>
  A burst out of the margin is reported by a call of \<^verbatim>\<open>fail\<close> with three arguments, which takes one.
\<close>

definition check_output :: "('j, 'w) tester_env \<Rightarrow> string list \<Rightarrow> (('j, 'w) tester, bool) py" where
  "check_output env imgs =
     bnd (gets (\<lambda>s. (expected s, image_table s))) (\<lambda>(ex, tab).
     lift_res
       (rbind (expected_rate ''burst'' ex) (\<lambda>expected_burst.
        rbind (expected_rate ''normal'' ex) (\<lambda>expected_normal.
        if expected_normal = 0 then Inr True
        else
          rbind (sum_iops env expected_burst tab imgs (0, 0)) (\<lambda>(sum_burst, sum_normal).
            if expected_burst \<noteq> 0 \<and> \<not> within_margin expected_burst sum_burst
            then Inl (TypeError ''fail() takes from 1 to 2 positional arguments but 4 were given'')
            else if \<not> within_margin expected_normal sum_normal then Inl (TestFail ''Failed normal'')
            else Inr True)))))"

definition start_one_image_test :: "('j, 'w) tester_env \<Rightarrow> string \<Rightarrow> (('j, 'w) tester, bool) py" where
  "start_one_image_test env img =
     bnd (image_data_of img) (\<lambda>_. bnd (run_fio env img) (\<lambda>_. check_output env [img]))"

text \<open>
  All the images at once: each run is one job of a thread pool, which works on its own entry of the
  table and whose exceptions nobody asks for.  The jobs finish in the order of the schedule.  A missing entry is
  found when the job is submitted, after the jobs before it.
\<close>

fun run_jobs :: "('j, 'w) tester_env \<Rightarrow> string list \<Rightarrow> (('j, 'w) tester, unit) py" where
  "run_jobs env [] = ret ()"
| "run_jobs env (i # is) =
     bnd (try_except (bnd (run_fio env i) (\<lambda>_. ret ())) (\<lambda>e. Some (ret ()))) (\<lambda>_. run_jobs env is)"

definition start_all_images_test :: "('j, 'w) tester_env \<Rightarrow> (string list \<Rightarrow> string list) \<Rightarrow> (('j, 'w) tester, bool) py" where
  "start_all_images_test env schedule =
     bnd (gets (\<lambda>s. (images s, image_table s))) (\<lambda>(imgs, tab).
       if imgs = [] then throw (ValueError ''Number of processes must be at least 1'')
       else
         let submitted = takeWhile (\<lambda>i. din i tab) imgs in
         bnd (run_jobs env (schedule submitted)) (\<lambda>_.
           if submitted = imgs then check_output env imgs
           else throw (KeyError (imgs ! length submitted))))"

definition wait_empty_burst :: "('j, 'w) tester_env \<Rightarrow> (('j, 'w) tester, unit) py" where
  "wait_empty_burst env =
     bnd (gets expected) (\<lambda>ex.
     bnd (lift_res (dindex ex ''burst'')) (\<lambda>burst.
       case burst of
         PDict b \<Rightarrow>
           (case dget b ''burst_empty_time'' of
              None \<Rightarrow> ret ()
            | Some v \<Rightarrow> bnd (lift_res (as_number v)) (\<lambda>t. modify (\<lambda>s. s\<lparr>tworld := pause (guest_of env) t (tworld s)\<rparr>)))
       | _ \<Rightarrow> throw (AttributeError ''keys'')))"

definition tester_start :: "('j, 'w) tester_env \<Rightarrow> (string list \<Rightarrow> string list) \<Rightarrow> (('j, 'w) tester, bool) py" where
  "tester_start env schedule =
     bnd (gets images) (\<lambda>imgs.
       case imgs of
         [] \<Rightarrow> ret False
       | i # is \<Rightarrow>
           bnd (start_one_image_test env i) (\<lambda>ok.
             if ok \<and> is \<noteq> [] then bnd (wait_empty_burst env) (\<lambda>_. start_all_images_test env schedule)
             else ret ok))"

section \<open>Options and expected rates\<close>

definition set_image_fio_option :: "string \<Rightarrow> string \<Rightarrow> (('j, 'w) tester, unit) py" where
  "set_image_fio_option img option =
     bnd (image_data_of img) (\<lambda>d.
       modify (\<lambda>s. s\<lparr>image_table := dset img (d\<lparr>im_fio_option := option\<rparr>) (image_table s)\<rparr>))"

definition update_expected :: "string \<times> pyval \<Rightarrow> pydict \<Rightarrow> pydict res" where
  "update_expected kv ex =
     (case kv of (k, v) \<Rightarrow>
        (case v of
           PDict d \<Rightarrow> rbind (dindex ex k) (\<lambda>old. case old of
               PDict o1 \<Rightarrow> Inr (dset k (PDict (dupdate o1 d)) ex)
             | _ \<Rightarrow> Inl (AttributeError ''update''))
         | _ \<Rightarrow> Inr (dset k v ex)))"

fun set_expected_items :: "pydict \<Rightarrow> (('j, 'w) tester, unit) py" where
  "set_expected_items [] = ret ()"
| "set_expected_items (kv # kvs) =
     bnd (gets expected) (\<lambda>ex.
     bnd (lift_res (update_expected kv ex)) (\<lambda>ex'.
     bnd (modify (\<lambda>s. s\<lparr>expected := ex'\<rparr>)) (\<lambda>_. set_expected_items kvs)))"

definition set_throttle_expected :: "pydict \<Rightarrow> bool \<Rightarrow> (('j, 'w) tester, unit) py" where
  "set_throttle_expected ex reset =
     bnd (if reset then modify (\<lambda>s. s\<lparr>expected := raw_expected\<rparr>) else ret ()) (\<lambda>_. set_expected_items ex)"

definition set_fio_option :: "string \<Rightarrow> (('j, 'w) tester, unit) py" where
  "set_fio_option option = modify (\<lambda>s. s\<lparr>shared_option := option\<rparr>)"

text \<open>\<open>int(a / b)\<close>: the quotient, rounded towards zero.\<close>

definition int_quot :: "int \<Rightarrow> int \<Rightarrow> int" where
  "int_quot a b = sgn a * sgn b * (\<bar>a\<bar> div \<bar>b\<bar>)"

definition count_normal_iops :: "int \<Rightarrow> int \<Rightarrow> int \<Rightarrow> int" where
  "count_normal_iops iops_size iops_val bps_val =
     (if iops_val \<noteq> 0 \<or> bps_val \<noteq> 0 then
        (let bps = int_quot bps_val iops_size; iops = iops_val in
         if (iops \<ge> bps \<and> bps \<noteq> 0) \<or> iops = 0 then bps
         else if (bps \<ge> iops \<and> iops \<noteq> 0) \<or> bps = 0 then iops
         else 0)
      else 0)"

record burst_limits =
  iops_max :: int
  iops_length :: int
  bps_max :: int
  bps_length :: int

definition ZeroDivisionError :: exc where
  "ZeroDivisionError = OtherError ''ZeroDivisionError'' ''division by zero''"

definition true_div :: "int \<Rightarrow> int \<Rightarrow> rat res" where
  "true_div a b = (if b = 0 then Inl ZeroDivisionError else Inr (of_int a / of_int b))"

text \<open>The size of the burst and its rate.\<close>

definition burst_size :: "int \<Rightarrow> burst_limits \<Rightarrow> int \<times> int" where
  "burst_size iops_size l =
     (let bps = int_quot (bps_max l * bps_length l) iops_size; iops = iops_max l * iops_length l in
      if (iops \<ge> bps \<and> bps \<noteq> 0) \<or> iops = 0 then (bps, int_quot (bps_max l) iops_size)
      else if (bps \<ge> iops \<and> iops \<noteq> 0) \<or> bps = 0 then (iops, iops_max l)
      else (0, 0))"

text \<open>The rate of the burst, the time to empty it and the time to fill it, given the times found before.\<close>

definition count_burst_iops :: "int \<Rightarrow> int \<Rightarrow> burst_limits \<Rightarrow> int \<Rightarrow> int \<Rightarrow> (int \<times> int \<times> int) res" where
  "count_burst_iops iops_size normal_iops l burst_empty_time burst_time =
     (if iops_max l \<noteq> 0 \<or> bps_max l \<noteq> 0 then
        (case burst_size iops_size l of (burst_full, burst_iops) \<Rightarrow>
           rbind (true_div burst_full normal_iops) (\<lambda>empty_time.
           rbind (true_div burst_full (burst_iops - normal_iops)) (\<lambda>full_time.
             Inr (burst_iops, \<lceil>max empty_time (of_int burst_empty_time)\<rceil>, \<lfloor>max full_time (of_int burst_time)\<rfloor>))))
      else Inr (0, burst_empty_time, burst_time))"

definition limits_at :: "pyval \<Rightarrow> string \<Rightarrow> burst_limits res" where
  "limits_at attrs ty =
     rbind (number_at attrs (''iops-'' @ ty @ ''-max'')) (\<lambda>im.
     rbind (number_at attrs (''iops-'' @ ty @ ''-max-length'')) (\<lambda>il.
     rbind (number_at attrs (''bps-'' @ ty @ ''-max'')) (\<lambda>bm.
     rbind (number_at attrs (''bps-'' @ ty @ ''-max-length'')) (\<lambda>bl.
       Inr \<lparr>iops_max = im, iops_length = il, bps_max = bm, bps_length = bl\<rparr>))))"

definition fio_mode :: "int \<Rightarrow> int \<Rightarrow> int \<Rightarrow> string" where
  "fio_mode r w t =
     (if (r \<noteq> 0 \<and> w \<noteq> 0) \<or> t \<noteq> 0 then ''randrw'' else if r \<noteq> 0 then ''randread''
      else if w \<noteq> 0 then ''randwrite'' else ''randrw'')"

definition default_option :: "string \<Rightarrow> int \<Rightarrow> string \<Rightarrow> string" where
  "default_option mode iops_size runtime =
     ''--direct=1 --name=test --iodepth=1 --thread  --output-format=json  --rw='' @ mode
     @ '' --bs='' @ int_str iops_size @ '' --runtime='' @ runtime"

definition expect_normal :: "int \<Rightarrow> pyval \<Rightarrow> string \<Rightarrow> (('j, 'w) tester, int) py" where
  "expect_normal iops_size attrs ty =
     bnd (lift_res (number_at attrs (''iops-'' @ ty))) (\<lambda>i.
     bnd (lift_res (number_at attrs (''bps-'' @ ty))) (\<lambda>b.
       let n = count_normal_iops iops_size i b in
       bnd (set_throttle_expected [(''normal'', PDict [(ty, PInt n)])] False) (\<lambda>_. ret n)))"

definition expect_burst :: "int \<Rightarrow> pyval \<Rightarrow> string \<Rightarrow> int \<Rightarrow> int \<times> int \<Rightarrow> (('j, 'w) tester, int \<times> int) py" where
  "expect_burst iops_size attrs ty normal found =
     bnd (lift_res (rbind (limits_at attrs ty) (\<lambda>l. count_burst_iops iops_size normal l (fst found) (snd found)))) (\<lambda>(b, e, f).
     bnd (set_throttle_expected [(''burst'', PDict [(ty, PInt b)])] False) (\<lambda>_. ret (e, f)))"

text \<open>
  All the limits are read before the first of them is used; a group whose limits cannot be read has none
  (\<open>None\<close>, which cannot be subscripted).
\<close>

definition LIMIT_NAMES :: "string list" where
  "LIMIT_NAMES = [''iops-size'', ''bps-read'', ''bps-read-max'', ''bps-read-max-length'', ''bps-total'', ''bps-total-max'',
     ''bps-total-max-length'', ''bps-write'', ''bps-write-max'', ''bps-write-max-length'', ''iops-read'', ''iops-read-max'',
     ''iops-read-max-length'', ''iops-total'', ''iops-total-max'', ''iops-total-max-length'', ''iops-write'',
     ''iops-write-max'', ''iops-write-max-length'']"

definition build_default_option ::
    "('d, 'b, 'w) group_env \<Rightarrow> ('j, 'w) tester_env \<Rightarrow> (('j, 'w) tester, unit) py" where
  "build_default_option genv env =
     bnd (gets group) (\<lambda>grp.
     bnd (on_tester (get_throttle_group_props genv grp)) (\<lambda>attrs.
     bnd (lift_res (rmap (\<lambda>k. pindex attrs k) LIMIT_NAMES)) (\<lambda>_.
     bnd (lift_res (number_at attrs ''iops-size'')) (\<lambda>sz.
       let iops_size = (if sz = 0 then 4096 else sz) in
       bnd (set_throttle_expected [] True) (\<lambda>_.
       bnd (expect_normal iops_size attrs ''write'') (\<lambda>nw.
       bnd (expect_normal iops_size attrs ''read'') (\<lambda>nr.
       bnd (expect_normal iops_size attrs ''total'') (\<lambda>nt.
       bnd (expect_burst iops_size attrs ''write'' nw (0, 0)) (\<lambda>t1.
       bnd (expect_burst iops_size attrs ''read'' nr t1) (\<lambda>t2.
       bnd (expect_burst iops_size attrs ''total'' nt t2) (\<lambda>t3.
       bnd (if snd t3 \<noteq> 0
            then set_throttle_expected [(''burst'', PDict [(''burst_time'', PInt (snd t3)), (''burst_empty_time'', PInt (fst t3))])] False
            else ret ()) (\<lambda>_.
         modify (\<lambda>s. s\<lparr>shared_option := default_option (fio_mode nr nw nt) iops_size
           (if snd t3 \<noteq> 0 then int_str (snd t3) else py_str (dget_default (test_params env) ''throttle_runtime'' (PInt 60)))\<rparr>)))))))))))))"

definition build_image_fio_option :: "('j, 'w) tester_env \<Rightarrow> string \<Rightarrow> (('j, 'w) tester, unit) py" where
  "build_image_fio_option env img =
     bnd (modify (\<lambda>s. if din img (image_table s) then s
                      else s\<lparr>image_table := dset img raw_image_data (image_table s)\<rparr>)) (\<lambda>_.
     bnd (on_tester (get_drive_path (guest_of env) (params_of env) (test_params env) img)) (\<lambda>name.
     bnd (image_data_of img) (\<lambda>d.
       modify (\<lambda>s. s\<lparr>image_table := dset img (d\<lparr>im_name := name,
         im_fio_option := shared_option s @ '' --filename='' @ py_str name\<rparr>) (image_table s)\<rparr>))))"

definition build_images_fio_option :: "('j, 'w) tester_env \<Rightarrow> (('j, 'w) tester, unit) py" where
  "build_images_fio_option env =
     bnd (gets images) (\<lambda>imgs. for_each imgs (build_image_fio_option env))"

definition attach_image :: "string \<Rightarrow> (('j, 'w) tester, unit) py" where
  "attach_image img = modify (\<lambda>s. s\<lparr>images := images s @ [img]\<rparr>)"

definition detach_image :: "string \<Rightarrow> (('j, 'w) tester, unit) py" where
  "detach_image img =
     bnd (gets images) (\<lambda>imgs.
       if img \<in> set imgs then modify (\<lambda>s. s\<lparr>images := remove1 img imgs\<rparr>)
       else throw (ValueError ''list.remove(x): x not in list''))"

section \<open>Several groups\<close>

text \<open>
  The testers of several groups run in threads of their own; what each of them does is its result.  The results
  are kept in a dictionary under the name of the group.
\<close>

fun start_group_test :: "(string \<times> bool res) list \<Rightarrow> string \<Rightarrow> unit res" where
  "start_group_test [] grp = Inl (ThrottleError ''No found the corresponding group tester.'')"
| "start_group_test ((g, r) # ts) grp =
     (if g = grp then rbind r (\<lambda>_. Inr ()) else start_group_test ts grp)"

definition collect_results :: "(string \<times> bool res) list \<Rightarrow> (string \<times> bool res) list" where
  "collect_results testers = dupdate [] testers"

definition groups_start :: "(string \<times> bool res) list \<Rightarrow> unit res" where
  "groups_start testers =
     (if testers = [] then Inl (ValueError ''Number of processes must be at least 1'')
      else if list_all (\<lambda>(g, r). \<not> isl r) (collect_results testers) then Inr ()
      else Inl (ThrottleError ''Throttle testing failed,please check log.''))"

section \<open>Rates\<close>

lemma int_quot_pos: "0 \<le> a \<Longrightarrow> 0 < b \<Longrightarrow> int_quot a b = a div b"
  by (cases "a = 0") (simp_all add: int_quot_def)

text \<open>
  The rate expected of a group in normal operation is the tightest of its limits, in requests per second: the limit on
  requests and the limit on bytes divided by the size of a request, where a limit of zero is none.  A limit on
  bytes below one request per second counts as none, too.
\<close>

lemma normal_rate_tightest:
  assumes "0 < iops_size" and "0 \<le> iops" and "0 \<le> bps"
  shows "count_normal_iops iops_size iops bps =
      (let limits = {l \<in> {iops, bps div iops_size}. l \<noteq> 0} in if limits = {} then 0 else Min limits)
    \<and> (bps < iops_size \<longrightarrow> count_normal_iops iops_size iops bps = iops)"
proof -
  define q where "q = bps div iops_size"
  have q: "0 \<le> q" "int_quot bps iops_size = q" "bps < iops_size \<Longrightarrow> q = 0" "bps = 0 \<Longrightarrow> q = 0"
    using assms by (simp_all add: q_def pos_imp_zdiv_nonneg_iff int_quot_pos)
  have run: "count_normal_iops iops_size iops bps = (if iops = 0 then q else if q = 0 then iops else min iops q)"
    using assms q by (auto simp: count_normal_iops_def Let_def)
  have "{l \<in> {iops, q}. l \<noteq> 0} = (if iops = 0 then {} else {iops}) \<union> (if q = 0 then {} else {q})" by auto
  then show ?thesis unfolding run q_def[symmetric] using q(3) by (simp add: Let_def)
qed

lemma empty_time:
  fixes full n e0 :: int
  assumes "0 < n"
  shows "full \<le> \<lceil>max (of_int full / of_int n) (of_int e0 :: rat)\<rceil> * n" (is "full \<le> ?e * n")
    and "e0 \<le> \<lceil>max (of_int full / of_int n) (of_int e0 :: rat)\<rceil>"
proof -
  have "of_int full / of_int n \<le> (of_int ?e :: rat)" by (rule order_trans[OF max.cobounded1 le_of_int_ceiling])
  then have "of_int full \<le> (of_int ?e * of_int n :: rat)" using assms by (simp only: pos_divide_le_eq of_int_0_less_iff)
  then show "full \<le> ?e * n" by (simp only: of_int_le_iff flip: of_int_mult)
  have "of_int e0 \<le> (of_int ?e :: rat)" by (rule order_trans[OF max.cobounded2 le_of_int_ceiling])
  then show "e0 \<le> ?e" by (simp only: of_int_le_iff)
qed

lemma fill_time_le: "f0 \<le> \<lfloor>max p (of_int f0 :: rat)\<rfloor>"
  by (simp add: le_floor_iff)

lemma fill_time:
  fixes full d f0 :: int
  assumes "0 < d" and "f0 < \<lfloor>max (of_int full / of_int d) (of_int f0 :: rat)\<rfloor>" (is "f0 < ?f")
  shows "?f * d \<le> full \<and> full < (?f + 1) * d"
proof -
  let ?p = "of_int full / of_int d :: rat"
  have f: "?f = \<lfloor>?p\<rfloor>" using assms(2) by (cases "?p \<le> of_int f0") (simp_all add: max_def)
  have "of_int \<lfloor>?p\<rfloor> \<le> ?p" "?p < of_int (\<lfloor>?p\<rfloor> + 1)" using floor_correct[of ?p] by simp_all
  then have "of_int \<lfloor>?p\<rfloor> * of_int d \<le> (of_int full :: rat)" "(of_int full :: rat) < of_int (\<lfloor>?p\<rfloor> + 1) * of_int d"
    using assms(1) by (simp_all only: pos_le_divide_eq pos_divide_less_eq of_int_0_less_iff)
  then show ?thesis unfolding f by (simp only: of_int_le_iff of_int_less_iff flip: of_int_mult)
qed

text \<open>
  C30. The times of a burst: they can be computed unless there is no normal limit or the rate of the burst equals it.
  After the time to empty it, the normal rate has served the whole burst; the time to fill it is the longest whole number of
  seconds for which the burst lasts at its rate; and neither is shorter than what was found for the kinds of requests before.
\<close>

theorem burst_times_bound:
  assumes "iops_max l \<noteq> 0 \<or> bps_max l \<noteq> 0" and "burst_size sz l = (full, rate)" and "0 < normal"
  shows "(case count_burst_iops sz normal l e0 f0 of
      Inl x \<Rightarrow> x = ZeroDivisionError \<and> rate = normal
    | Inr (b, e, f) \<Rightarrow> b = rate \<and> rate \<noteq> normal \<and> full \<le> e * normal \<and> e0 \<le> e \<and> f0 \<le> f
        \<and> (normal < rate \<and> f0 < f \<longrightarrow> f * (rate - normal) \<le> full \<and> full < (f + 1) * (rate - normal)))
    \<and> count_burst_iops sz 0 l e0 f0 = Inl ZeroDivisionError"
proof (intro conjI)
  show "count_burst_iops sz 0 l e0 f0 = Inl ZeroDivisionError"
    using assms(1,2) by (simp add: count_burst_iops_def true_div_def)
  show "case count_burst_iops sz normal l e0 f0 of
      Inl x \<Rightarrow> x = ZeroDivisionError \<and> rate = normal
    | Inr (b, e, f) \<Rightarrow> b = rate \<and> rate \<noteq> normal \<and> full \<le> e * normal \<and> e0 \<le> e \<and> f0 \<le> f
        \<and> (normal < rate \<and> f0 < f \<longrightarrow> f * (rate - normal) \<le> full \<and> full < (f + 1) * (rate - normal))"
  proof (cases "rate = normal")
    case True
    then show ?thesis using assms by (auto simp: count_burst_iops_def true_div_def)
  next
    case False
    let ?e = "\<lceil>max (of_int full / of_int normal) (of_int e0 :: rat)\<rceil>"
    let ?f = "\<lfloor>max (of_int full / of_int (rate - normal)) (of_int f0 :: rat)\<rfloor>"
    have run: "count_burst_iops sz normal l e0 f0 = Inr (rate, ?e, ?f)"
      using assms False by (auto simp: count_burst_iops_def true_div_def)
    have "full \<le> ?e * normal" "e0 \<le> ?e" using empty_time[OF assms(3)] by blast+
    moreover have "f0 \<le> ?f" by (rule fill_time_le)
    moreover have "?f * (rate - normal) \<le> full \<and> full < (?f + 1) * (rate - normal)" if "normal < rate" "f0 < ?f"
      using fill_time[of "rate - normal" f0 full] that by simp
    ultimately show ?thesis unfolding run using False by simp
  qed
qed

definition demo_limits :: burst_limits where
  "demo_limits = \<lparr>iops_max = 200, iops_length = 10, bps_max = 0, bps_length = 1\<rparr>"

theorem burst_times_bound_witness:
  "\<exists>e f. count_burst_iops 4096 100 demo_limits 0 0 = Inr (200, e, f) \<and> 2000 \<le> e * 100 \<and> (0 < f \<longrightarrow> f * 100 \<le> 2000)"
proof -
  have s: "burst_size 4096 demo_limits = (2000, 200)" by (simp add: burst_size_def demo_limits_def int_quot_def)
  have "iops_max demo_limits \<noteq> 0 \<or> bps_max demo_limits \<noteq> 0" by (simp add: demo_limits_def)
  from burst_times_bound[OF this s, of 100 0 0] show ?thesis by (auto split: sum.splits)
qed

section \<open>The blocks of the output\<close>

text \<open>A line that neither opens nor closes a block.\<close>

definition plain_line :: "string \<Rightarrow> bool" where
  "plain_line l \<longleftrightarrow> (\<exists>t. l = t @ [CHR 0x0A] \<and> CHR 0x0A \<notin> set t) \<and> CHR 0x0D \<notin> set l \<and> l \<noteq> BLOCK_BEGIN \<and> l \<noteq> BLOCK_END"

definition fio_lines :: "(string list \<times> string list) \<Rightarrow> string list" where
  "fio_lines b = fst b @ BLOCK_BEGIN # snd b @ [BLOCK_END]"

definition fio_document :: "(string list \<times> string list) \<Rightarrow> string" where
  "fio_document b = BLOCK_BEGIN @ concat (snd b) @ BLOCK_END"

lemma universal_newlines_id: "CHR 0x0D \<notin> set s \<Longrightarrow> universal_newlines s = s"
  by (induction s rule: universal_newlines.induct) (auto split: list.splits)

lemma keep_lines_line: "CHR 0x0A \<notin> set t \<Longrightarrow> keep_lines ((t @ [CHR 0x0A]) @ s) = (t @ [CHR 0x0A]) # keep_lines s"
  by (induction t) auto

lemma keep_lines_concat:
  "(\<And>l. l \<in> set ls \<Longrightarrow> \<exists>t. l = t @ [CHR 0x0A] \<and> CHR 0x0A \<notin> set t) \<Longrightarrow> keep_lines (concat ls) = ls"
proof (induction ls)
  case (Cons l ls)
  then obtain t where "l = t @ [CHR 0x0A]" "CHR 0x0A \<notin> set t" by auto
  then show ?case using Cons keep_lines_line[of t "concat ls"] by simp
qed simp

lemma blocks_junk:
  "list_all plain_line js \<Longrightarrow> json_blocks parse (js @ ls) False i block [] = json_blocks parse ls False i block []"
  by (induction js) (auto simp: plain_line_def Let_def)

lemma blocks_body:
  "list_all plain_line body \<Longrightarrow> json_blocks parse (body @ ls) True i block data = json_blocks parse ls True i block (data @ concat body)"
  by (induction body arbitrary: data) (auto simp: plain_line_def Let_def)

lemma block_marks: "BLOCK_BEGIN \<noteq> BLOCK_END" "BLOCK_END \<noteq> BLOCK_BEGIN"
  by (simp_all add: BLOCK_BEGIN_def BLOCK_END_def)

lemma block_open:
  "json_blocks parse (BLOCK_BEGIN # ls) False i block [] = json_blocks parse ls True i block BLOCK_BEGIN"
  by (simp add: Let_def block_marks)

lemma block_close:
  "json_blocks parse (BLOCK_END # ls) True i block data =
     rbind (parse (data @ BLOCK_END)) (\<lambda>j. json_blocks parse ls False (i + 1) (dset i j block) [])"
  by (simp add: Let_def block_marks)

lemma dset_fresh: "k \<notin> fst ` set d \<Longrightarrow> dset k v d = d @ [(k, v)]"
  by (induction k v d rule: dset.induct) auto

lemma blocks_all:
  assumes "\<forall>(js, body) \<in> set bs. list_all plain_line js \<and> list_all plain_line body"
    and "rmap (\<lambda>b. parse (fio_document b)) bs = Inr out" and "list_all plain_line rest"
    and "\<forall>k \<in> fst ` set block. k < i"
  shows "json_blocks parse (concat (map fio_lines bs) @ rest) False i block [] =
    Inr (False, block @ zip (map (\<lambda>n. i + int n) [0 ..< length bs]) out)"
  using assms
proof (induction bs arbitrary: i block out)
  case Nil
  then show ?case using blocks_junk[of rest parse "[]" i block] by simp
next
  case (Cons b bs)
  obtain js body where b: "b = (js, body)" by (cases b)
  obtain j out' where out: "parse (fio_document b) = Inr j" "rmap (\<lambda>b. parse (fio_document b)) bs = Inr out'" "out = j # out'"
    using Cons.prems(2) by (auto elim!: rbind_InrE)
  have plain: "list_all plain_line js" "list_all plain_line body" using Cons.prems(1) b by auto
  have "json_blocks parse (concat (map fio_lines (b # bs)) @ rest) False i block [] =
      json_blocks parse (BLOCK_BEGIN # body @ BLOCK_END # concat (map fio_lines bs) @ rest) False i block []"
    using blocks_junk[OF plain(1)] by (simp add: b fio_lines_def del: json_blocks.simps)
  also have "\<dots> = json_blocks parse (BLOCK_END # concat (map fio_lines bs) @ rest) True i block (BLOCK_BEGIN @ concat body)"
    unfolding block_open by (rule blocks_body[OF plain(2)])
  also have "\<dots> = json_blocks parse (concat (map fio_lines bs) @ rest) False (i + 1) (dset i j block) []"
    using out(1) by (simp add: block_close b fio_document_def del: json_blocks.simps)
  also have "dset i j block = block @ [(i, j)]" using Cons.prems(4) by (intro dset_fresh) auto
  also have "json_blocks parse (concat (map fio_lines bs) @ rest) False (i + 1) (block @ [(i, j)]) [] =
      Inr (False, (block @ [(i, j)]) @ zip (map (\<lambda>n. i + 1 + int n) [0 ..< length bs]) out')"
    using Cons.prems by (intro Cons.IH out(2)) auto
  finally show ?case
    by (simp add: out(3) upt_conv_Cons map_Suc_upt[symmetric] o_def add.assoc add.commute[of 1] del: upt_Suc)
qed

text \<open>
  The output of fio, with any other lines before, between and after the JSON documents: every document is found
  and parsed as it stands, and they are numbered from one in their order.
\<close>

lemma fio_output_blocks:
  assumes "\<forall>(js, body) \<in> set bs. list_all plain_line js \<and> list_all plain_line body" and "list_all plain_line rest"
    and "rmap (\<lambda>b. parse (fio_document b)) bs = Inr out"
  shows "generate_output_by_json parse (concat (concat (map fio_lines bs) @ rest)) =
    Inr (zip (map (\<lambda>n. 1 + int n) [0 ..< length bs]) out)"
proof -
  let ?ls = "concat (map fio_lines bs) @ rest"
  have marks: "\<exists>t. l = t @ [CHR 0x0A] \<and> CHR 0x0A \<notin> set t" "CHR 0x0D \<notin> set l" if "l \<in> {BLOCK_BEGIN, BLOCK_END}" for l
    using that by (auto simp: BLOCK_BEGIN_def BLOCK_END_def)
  have lines: "plain_line l \<or> l \<in> {BLOCK_BEGIN, BLOCK_END}" if l: "l \<in> set ?ls" for l
  proof (cases "l \<in> set rest")
    case False
    then obtain js body where "(js, body) \<in> set bs" "l \<in> set (fio_lines (js, body))" using l by auto
    then show ?thesis using assms(1) by (auto simp: fio_lines_def list_all_iff)
  qed (use assms(2) in \<open>auto simp: list_all_iff\<close>)
  have "\<exists>t. l = t @ [CHR 0x0A] \<and> CHR 0x0A \<notin> set t" if "l \<in> set ?ls" for l
    using lines[OF that] marks(1) by (auto simp: plain_line_def)
  then have "keep_lines (concat ?ls) = ?ls" by (rule keep_lines_concat)
  moreover have "CHR 0x0D \<notin> set (concat ?ls)" using lines marks(2) by (fastforce simp: plain_line_def)
  ultimately have "keep_lines (universal_newlines (concat ?ls)) = ?ls" using universal_newlines_id by metis
  then show ?thesis using blocks_all[OF assms(1,3,2), of "[]" 1] by (simp add: generate_output_by_json_def)
qed

lemma fio_output_blocks_example:
  "generate_output_by_json (\<lambda>s. Inr (length s)) (''fio: hi'' @ [CHR 0x0A] @ BLOCK_BEGIN @ ''x'' @ [CHR 0x0A] @ BLOCK_END) = Inr [(1, 6)]"
proof -
  have p: "plain_line (''fio: hi'' @ [CHR 0x0A])" "plain_line (''x'' @ [CHR 0x0A])"
    by (simp_all add: plain_line_def BLOCK_BEGIN_def BLOCK_END_def)
  have "length (fio_document ([''fio: hi'' @ [CHR 0x0A]], [''x'' @ [CHR 0x0A]])) = 6"
    by (simp add: fio_document_def BLOCK_BEGIN_def BLOCK_END_def)
  then show ?thesis
    using fio_output_blocks[of "[([''fio: hi'' @ [CHR 0x0A]], [''x'' @ [CHR 0x0A]])]" "[]" "\<lambda>s. Inr (length s)" "[6]"] p
    by (simp add: fio_lines_def)
qed

section \<open>Several groups\<close>

lemma dget_collect: "dget (collect_results ts) g = dget (rev ts) g"
proof -
  have "dget (dupdate d ts) g = (case dget (rev ts) g of None \<Rightarrow> dget d g | Some r \<Rightarrow> Some r)" for d
    by (induction ts arbitrary: d) (auto simp: map_add_def split: option.splits)
  then show ?thesis by (simp add: collect_results_def split: option.split)
qed

lemma collect_ok: "dict_ok (collect_results ts)"
  unfolding collect_results_def by (rule dict_ok_dupdate) simp

text \<open>
  Testing several groups at once succeeds exactly when there is a tester and, for each group, the tester of
  this group that was started last did not raise.  With one tester per group this is what is meant; the failure of
  a tester is lost when another one of the same group follows it.
\<close>

lemma groups_judged_by_last:
  "(groups_start testers = Inr () \<longleftrightarrow> testers \<noteq> [] \<and> (\<forall>g r. dget (rev testers) g = Some r \<longrightarrow> \<not> isl r))
   \<and> (dict_ok testers \<longrightarrow> (groups_start testers = Inr () \<longleftrightarrow> testers \<noteq> [] \<and> list_all (\<lambda>(g, r). \<not> isl r) testers))
   \<and> groups_start (testers @ [(g, Inl e), (g, Inr b)]) = groups_start (testers @ [(g, Inr b)])"
proof (intro conjI impI)
  have all: "list_all (\<lambda>(g, r). \<not> isl r) (collect_results ts) \<longleftrightarrow> (\<forall>g r. dget (rev ts) g = Some r \<longrightarrow> \<not> isl r)" for ts :: "(string \<times> bool res) list"
  proof -
    have "(g, r) \<in> set (collect_results ts) \<longleftrightarrow> dget (rev ts) g = Some r" for g r
      using map_of_eq_Some_iff[OF collect_ok[of ts, unfolded dict_ok_def], of g r] dget_collect[of ts g] by simp
    then have "(\<forall>p \<in> set (collect_results ts). \<not> isl (snd p)) \<longleftrightarrow> (\<forall>g r. dget (rev ts) g = Some r \<longrightarrow> \<not> isl r)"
      by (metis prod.collapse snd_conv)
    then show ?thesis by (simp add: list_all_iff case_prod_unfold)
  qed
  show one: "groups_start testers = Inr () \<longleftrightarrow> testers \<noteq> [] \<and> (\<forall>g r. dget (rev testers) g = Some r \<longrightarrow> \<not> isl r)"
    unfolding groups_start_def all by simp
  assume ok: "dict_ok testers"
  then have "distinct (map fst (rev testers))" by (simp add: dict_ok_def rev_map[symmetric])
  then have "dget (rev testers) g = Some r \<longleftrightarrow> (g, r) \<in> set testers" for g r
    by (simp add: map_of_eq_Some_iff)
  then show "groups_start testers = Inr () \<longleftrightarrow> testers \<noteq> [] \<and> list_all (\<lambda>(g, r). \<not> isl r) testers"
    unfolding one by (auto simp: list_all_iff)
next
  have "collect_results (testers @ [(g, Inl e), (g, Inr b)]) = collect_results (testers @ [(g, Inr b)])"
  proof -
    have "dset g y (dset g x d) = dset g y d" for x y :: "bool res" and d
      by (induction g x d rule: dset.induct) auto
    then show ?thesis by (simp add: collect_results_def dupdate_def)
  qed
  then show "groups_start (testers @ [(g, Inl e), (g, Inr b)]) = groups_start (testers @ [(g, Inr b)])"
    by (simp add: groups_start_def)
qed

section \<open>The verdict\<close>

text \<open>The burst and normal rates that the outputs of some images hold.\<close>

definition readings ::
    "('j, 'w) tester_env \<Rightarrow> int \<Rightarrow> (string \<times> 'j image_data) list \<Rightarrow> string list \<Rightarrow> (rat \<times> rat) list \<Rightarrow> bool" where
  "readings env eb tab imgs bns \<longleftrightarrow>
     list_all2 (\<lambda>i bn. \<exists>d. dget tab i = Some d \<and> image_iops env eb (im_output d) = Inr bn) imgs bns"

lemma sum_iops_readings:
  "readings env eb tab imgs bns \<Longrightarrow>
     sum_iops env eb tab imgs acc = Inr (fst acc + sum_list (map fst bns), snd acc + sum_list (map snd bns))"
proof (induction imgs arbitrary: bns acc)
  case (Cons i imgs)
  then obtain bn bns' d where "bns = bn # bns'" "dget tab i = Some d" "image_iops env eb (im_output d) = Inr bn"
    "readings env eb tab imgs bns'" by (auto simp: readings_def list_all2_Cons1)
  then show ?case using Cons.IH[of bns'] by (cases bn) (simp add: dindex_def add.assoc)
qed (simp add: readings_def)

lemma run_fio_table:
  "run_fio env i s = (r, s') \<Longrightarrow> image_table s' = image_table s \<or>
     (\<exists>d out. r = Inr out \<and> dget (image_table s) i = Some d \<and> image_table s' = dset i (d\<lparr>im_output := out\<rparr>) (image_table s))"
  by (auto simp: run_fio_def bnd_def gets_def image_data_of_def lift_res_def on_tester_def throw_def modify_def ret_def
      set_output_def dindex_def Let_def split: option.splits prod.splits sum.splits) metis

lemma run_jobs_table:
  assumes "\<And>s. isl (fst (run_fio env i s))"
  shows "dget (image_table (snd (run_jobs env is s))) i = dget (image_table s) i"
proof (induction "is" arbitrary: s)
  case (Cons j js)
  obtain r s1 where r: "run_fio env j s = (r, s1)" by fastforce
  have "dget (image_table s1) i = dget (image_table s) i"
    using run_fio_table[OF r] assms[of s] r by (cases "j = i") auto
  moreover have "run_jobs env (j # js) s = run_jobs env js s1"
    using r by (simp add: bnd_def try_except_def ret_def split: sum.split)
  ultimately show ?case using Cons by simp
qed (simp add: ret_def)


definition demo_tester_env :: "(rat, unit) tester_env" where
  "demo_tester_env = \<lparr>guest_of = \<lparr>new_session = (\<lambda>w. (Inr (), w)), session_cmd_output = (\<lambda>_ w. (Inr [], w)),
     session_cmd_checked = (\<lambda>_ w. (Inr [], w)), linux_drive_path = (\<lambda>_ w. (Inr PNone, w)), script_suffix = (\<lambda>_. []), pause = (\<lambda>_ w. w)\<rparr>,
     parse_json = (\<lambda>_. Inr 0), job_iops = (\<lambda>j _. Inr j), params_of = (\<lambda>_. []), test_params = []\<rparr>"

definition demo_tester :: "(rat, unit) tester" where
  "demo_tester = \<lparr>group = ''g'', fio_path = None, shared_option = [], images = [''stg1''],
     image_table = [(''stg1'', \<lparr>im_name = PNone, im_fio_option = [], im_output = [(1, 45)]\<rparr>)],
     expected = [(''burst'', PDict [(''read'', PInt 0), (''write'', PInt 0), (''total'', PInt 0)]),
                 (''normal'', PDict [(''read'', PInt 0), (''write'', PInt 0), (''total'', PInt 100)])], tworld = ()\<rparr>"


end
