(* ===== verification/Nbd_Export.thy ===== *)
theory Nbd_Export
  imports Job_Utils Dirty_Bitmap
begin

text \<open>
  Exporting an image over NBD (\<^verbatim>\<open>provider/nbd_image_export.py\<close>), with \<^verbatim>\<open>qemu-nbd\<close> or with the server inside qemu.  Processes,
  signals, the devices of the machine and the parsing of boolean and numeric parameters come from the framework and are fields of
  \<open>nbd_env\<close>; the monitor is that of the block jobs.
\<close>

section \<open>Environment and state\<close>

record ('d, 'w) nbd_env =
  run_create_cmd :: "string \<Rightarrow> 'w \<Rightarrow> (int \<times> string) res \<times> 'w"
  qemu_img_create :: "pydict \<Rightarrow> 'w \<Rightarrow> (int \<times> string) res \<times> 'w"
  param_boolean :: "pydict \<Rightarrow> string \<Rightarrow> bool res"
  param_numeric :: "pydict \<Rightarrow> string \<Rightarrow> int \<Rightarrow> int res"
  nbd_export_process :: "string \<Rightarrow> pydict \<Rightarrow> 'w \<Rightarrow> int option res \<times> 'w"
  nbd_list_process :: "string \<Rightarrow> pydict \<Rightarrow> 'w \<Rightarrow> (int \<times> string) res \<times> 'w"
  kill_process :: "int \<Rightarrow> string \<Rightarrow> 'w \<Rightarrow> unit res \<times> 'w"
  image_devices_of :: "string \<Rightarrow> pydict \<Rightarrow> 'w \<Rightarrow> 'd list res \<times> 'w"
  device_qid :: "'d \<Rightarrow> string"
  tls_creds_device :: "string \<Rightarrow> pyval \<Rightarrow> 'd"
  plug_device :: "'d \<Rightarrow> 'w \<Rightarrow> (string \<times> bool) res \<times> 'w"

record ('d, 'w) nbd =
  nbd_vm :: "'w vst"
  image_tag :: string
  image_params :: pydict
  server_pid :: "int option"
  local_filename :: string
  tls_creds_id :: pyval
  node_name :: pyval
  image_devices :: "'d list"
  export_uid :: pyval

definition on_nbd :: "('w vst, 'a) py \<Rightarrow> (('d, 'w) nbd, 'a) py" where
  "on_nbd m s = (case m (nbd_vm s) of (r, v) \<Rightarrow> (r, s\<lparr>nbd_vm := v\<rparr>))"

definition in_world :: "('w \<Rightarrow> 'a res \<times> 'w) \<Rightarrow> (('d, 'w) nbd, 'a) py" where
  "in_world f = on_nbd (\<lambda>v. case f (world v) of (r, w) \<Rightarrow> (r, v\<lparr>world := w\<rparr>))"

definition image_param :: "string \<Rightarrow> (('d, 'w) nbd, pyval) py" where
  "image_param k = gets (\<lambda>s. dget_default (image_params s) k PNone)"

definition MonitorNotSupportedCmdError :: "exc \<Rightarrow> bool" where
  "MonitorNotSupportedCmdError e \<longleftrightarrow> (case e of OtherError n _ \<Rightarrow> n = ''MonitorNotSupportedCmdError'' | _ \<Rightarrow> False)"

section \<open>Creating the image\<close>

definition create_image :: "('d, 'w) nbd_env \<Rightarrow> (('d, 'w) nbd, unit) py" where
  "create_image env =
     bnd (gets image_params) (\<lambda>p.
     let cmd = dget_default p ''create_image_cmd'' PNone in
     bnd (if truthy cmd then bnd (in_world (run_create_cmd env (str_of cmd))) (\<lambda>r. ret (Some r))
          else bnd (lift_res (param_boolean env p ''force_create_image'')) (\<lambda>forced.
            if forced then ret None else bnd (in_world (qemu_img_create env p)) (\<lambda>r. ret (Some r)))) (\<lambda>result.
       case result of
         Some (status, err) \<Rightarrow> if status \<noteq> 0 then throw (TestFail (''Failed to create image, error: '' @ err)) else ret ()
       | None \<Rightarrow> ret ()))"

section \<open>Exporting with qemu-nbd\<close>

definition filename_repr :: "pydict \<Rightarrow> string" where
  "filename_repr p = (if dget_default p ''nbd_export_format'' PNone = PStr ''luks'' then ''json'' else ''filename'')"

definition QemuNBDExportImage :: "(string \<Rightarrow> pydict \<Rightarrow> string \<Rightarrow> string) \<Rightarrow> pydict \<Rightarrow> string \<Rightarrow> 'w vst \<Rightarrow> ('d, 'w) nbd" where
  "QemuNBDExportImage get_image_repr p tag v =
     \<lparr>nbd_vm = v, image_tag = tag, image_params = p, server_pid = None,
      local_filename = get_image_repr tag p (filename_repr p), tls_creds_id = PNone, node_name = PNone,
      image_devices = [], export_uid = PNone\<rparr>"

definition qemu_nbd_export_image :: "('d, 'w) nbd_env \<Rightarrow> (('d, 'w) nbd, unit) py" where
  "qemu_nbd_export_image env =
     bnd (gets (\<lambda>s. (local_filename s, image_params s))) (\<lambda>(f, p).
     bnd (in_world (nbd_export_process env f p)) (\<lambda>pid.
     bnd (modify (\<lambda>s. s\<lparr>server_pid := pid\<rparr>)) (\<lambda>_.
       if pid = None then throw (TestFail ''Failed to export image'') else ret ())))"

definition list_exported_image :: "('d, 'w) nbd_env \<Rightarrow> string \<Rightarrow> pydict \<Rightarrow> (('d, 'w) nbd, unit) py" where
  "list_exported_image env nbd_image nbd_image_params =
     bnd (in_world (nbd_list_process env nbd_image nbd_image_params)) (\<lambda>(status, err).
       if status \<noteq> 0 then throw (TestFail (''Failed to list nbd image: '' @ err)) else ret ())"

text \<open>\<open>except Exception\<close> catches everything but the exceptions that end the program.\<close>

definition swallow :: "('s, unit) py \<Rightarrow> ('s, unit) py" where
  "swallow m = try_except m (\<lambda>e. case e of KeyboardInterrupt \<Rightarrow> None | SystemExit _ \<Rightarrow> None | _ \<Rightarrow> Some (ret ()))"

definition signal_server :: "('d, 'w) nbd_env \<Rightarrow> string \<Rightarrow> (('d, 'w) nbd, unit) py \<Rightarrow> (('d, 'w) nbd, unit) py" where
  "signal_server env sig finally =
     bnd (gets server_pid) (\<lambda>pid.
       case pid of
         None \<Rightarrow> ret ()
       | Some p \<Rightarrow> try_finally (swallow (in_world (kill_process env p sig))) finally)"

definition qemu_nbd_stop_export :: "('d, 'w) nbd_env \<Rightarrow> (('d, 'w) nbd, unit) py" where
  "qemu_nbd_stop_export env = signal_server env ''SIGKILL'' (modify (\<lambda>s. s\<lparr>server_pid := None\<rparr>))"

definition suspend_export :: "('d, 'w) nbd_env \<Rightarrow> (('d, 'w) nbd, unit) py" where
  "suspend_export env = signal_server env ''SIGSTOP'' (ret ())"

definition resume_export :: "('d, 'w) nbd_env \<Rightarrow> (('d, 'w) nbd, unit) py" where
  "resume_export env = signal_server env ''SIGCONT'' (ret ())"

section \<open>Exporting with the server inside qemu\<close>

definition InternalNBDExportImage :: "pydict \<Rightarrow> string \<Rightarrow> 'w vst \<Rightarrow> ('d, 'w) nbd" where
  "InternalNBDExportImage p tag v =
     \<lparr>nbd_vm = v, image_tag = tag, image_params = p, server_pid = None, local_filename = [], tls_creds_id = PNone,
      node_name = PNone, image_devices = [], export_uid = PNone\<rparr>"

definition get_export_name :: "(('d, 'w) nbd, pyval) py" where
  "get_export_name =
     bnd (image_param ''nbd_export_name'') (\<lambda>n. if truthy n then ret n else gets node_name)"

definition hotplug_dev :: "('d, 'w) nbd_env \<Rightarrow> 'd \<Rightarrow> (('d, 'w) nbd, unit) py" where
  "hotplug_dev env dev =
     bnd (in_world (plug_device env dev)) (\<lambda>(out, ok).
       if ok then ret () else throw (TestFail (''Failed to hotplug device '' @ device_qid env dev @ '': '' @ out)))"

text \<open>The last device, which is the driver of the image, is left out; the one before it is the node.\<close>

definition hotplug_image :: "('d, 'w) nbd_env \<Rightarrow> (('d, 'w) nbd, unit) py" where
  "hotplug_image env =
     bnd (gets (\<lambda>s. (image_tag s, image_params s))) (\<lambda>(tag, p).
     bnd (in_world (image_devices_of env tag p)) (\<lambda>devs.
       if devs = [] \<or> butlast devs = [] then throw IndexError
       else
         let nodes = butlast devs in
         bnd (modify (\<lambda>s. s\<lparr>node_name := PStr (device_qid env (last nodes)), image_devices := nodes\<rparr>)) (\<lambda>_.
           for_each nodes (hotplug_dev env))))"

definition hotplug_tls :: "('d, 'w) nbd_env \<Rightarrow> (('d, 'w) nbd, unit) py" where
  "hotplug_tls env =
     bnd (image_param ''nbd_unix_socket'') (\<lambda>sock.
     bnd (image_param ''nbd_server_tls_creds'') (\<lambda>creds.
       if truthy sock then ret ()
       else if truthy creds then
         bnd (gets (\<lambda>s. image_tag s @ ''_server_tls_creds'')) (\<lambda>i.
         bnd (modify (\<lambda>s. s\<lparr>tls_creds_id := PStr i\<rparr>)) (\<lambda>_. hotplug_dev env (tls_creds_device env i creds)))
       else ret ()))"

definition start_nbd_server :: "'w vm_env \<Rightarrow> (('d, 'w) nbd, pyval) py" where
  "start_nbd_server vm =
     bnd (image_param ''nbd_unix_socket'') (\<lambda>sock.
     bnd (gets (\<lambda>s. dget_default (image_params s) ''nbd_port'' (PStr ''10809''))) (\<lambda>port.
     bnd (gets tls_creds_id) (\<lambda>tls.
       on_nbd (call_fn vm ''nbd_server_start''
         [PDict (if truthy sock then [(''type'', PStr ''unix''), (''path'', sock)]
                 else [(''type'', PStr ''inet''), (''host'', PStr ''0.0.0.0''), (''port'', port)]), tls]))))"

text \<open>\<open>p[k] == "yes" if p.get(k) else None\<close>\<close>

definition yes_or_none :: "pyval \<Rightarrow> pyval" where
  "yes_or_none v = (if truthy v then PBool (v = PStr ''yes'') else PNone)"

definition export_arguments :: "pydict \<Rightarrow> pydict" where
  "export_arguments p =
     (let opt = (\<lambda>k. dget_default p k PNone) in
      [(''name'', opt ''nbd_export_name''), (''description'', opt ''nbd_export_description'')]
      @ (if opt ''nbd_export_bitmaps'' \<noteq> PNone
         then [(''bitmaps'', PList (map PStr (split_ws (str_of (opt ''nbd_export_bitmaps'')))))] else [])
      @ (if opt ''nbd_allocation_exported'' \<noteq> PNone
         then [(''allocation-depth'', PBool (opt ''nbd_allocation_exported'' = PStr ''yes''))] else []))"

definition block_export_add :: "'w vm_env \<Rightarrow> (('d, 'w) nbd, pyval) py" where
  "block_export_add vm =
     bnd (gets (\<lambda>s. (image_params s, node_name s))) (\<lambda>(p, node).
     bnd (modify (\<lambda>s. s\<lparr>export_uid := dget_default p ''block_export_uid'' (PStr (''block_export_'' @ py_str node))\<rparr>)) (\<lambda>_.
     bnd (gets export_uid) (\<lambda>uid.
     let opt = (\<lambda>k. dget_default p k PNone) in
       on_nbd (monitor_cmd vm ''block_export_add''
         (positional [uid, PStr ''nbd'', node, opt ''block_export_iothread'', yes_or_none (opt ''block_export_fixed_iothread''),
            yes_or_none (dget_default p ''block_export_writable'' (opt ''nbd_export_writable'')),
            yes_or_none (opt ''block_export_writethrough'')] @ export_arguments p)))))"

definition block_export_del :: "'w vm_env \<Rightarrow> (('d, 'w) nbd, pyval) py" where
  "block_export_del vm =
     bnd (gets export_uid) (\<lambda>uid. bnd (image_param ''block_export_remove_mode'') (\<lambda>mode.
       on_nbd (call_fn vm ''block_export_del'' [uid, mode])))"

definition wait_till_export_removed :: "('d, 'w) nbd_env \<Rightarrow> 'w vm_env \<Rightarrow> (('d, 'w) nbd, unit) py" where
  "wait_till_export_removed env vm =
     bnd (gets export_uid) (\<lambda>uid.
       if uid = PNone then ret ()
       else
         bnd (gets image_params) (\<lambda>p.
         bnd (lift_res (param_numeric env p ''block_export_del_timeout'' 60)) (\<lambda>tmo.
         bnd (on_nbd (get_event_by_condition vm ''BLOCK_EXPORT_DELETED'' tmo [(''id'', uid)])) (\<lambda>event.
           if event = PNone then throw (TestFail ''Failed to receive BLOCK_EXPORT_DELETED'')
           else modify (\<lambda>s. s\<lparr>export_uid := PNone\<rparr>)))))"

definition add_nbd_image :: "'w vm_env \<Rightarrow> pyval \<Rightarrow> (('d, 'w) nbd, pyval) py" where
  "add_nbd_image vm node =
     bnd (if truthy node then modify (\<lambda>s. s\<lparr>node_name := node\<rparr>) else ret ()) (\<lambda>_.
     try_except (block_export_add vm)
       (\<lambda>e. if MonitorNotSupportedCmdError e then
              Some (bnd (modify (\<lambda>s. s\<lparr>export_uid := PNone\<rparr>)) (\<lambda>_.
                bnd (gets node_name) (\<lambda>n.
                bnd (image_param ''nbd_export_name'') (\<lambda>name.
                bnd (image_param ''nbd_export_writable'') (\<lambda>w.
                bnd (image_param ''nbd_export_bitmaps'') (\<lambda>b.
                  on_nbd (call_fn vm ''nbd_server_add'' [n, name, w, b])))))))
            else None))"

definition remove_nbd_image :: "'w vm_env \<Rightarrow> (('d, 'w) nbd, pyval) py" where
  "remove_nbd_image vm =
     try_except (block_export_del vm)
       (\<lambda>e. if MonitorNotSupportedCmdError e then
              Some (bnd get_export_name (\<lambda>name. bnd (image_param ''nbd_remove_mode'') (\<lambda>mode.
                on_nbd (call_fn vm ''nbd_server_remove'' [name, mode]))))
            else None)"

definition stop_nbd_server :: "'w vm_env \<Rightarrow> (('d, 'w) nbd, pyval) py" where
  "stop_nbd_server vm = on_nbd (call_fn vm ''nbd_server_stop'' [])"

definition internal_export_image :: "'w vm_env \<Rightarrow> (('d, 'w) nbd, unit) py" where
  "internal_export_image vm =
     bnd (start_nbd_server vm) (\<lambda>_. bnd (add_nbd_image vm PNone) (\<lambda>_. ret ()))"

definition internal_stop_export :: "('d, 'w) nbd_env \<Rightarrow> 'w vm_env \<Rightarrow> (('d, 'w) nbd, unit) py" where
  "internal_stop_export env vm =
     bnd (remove_nbd_image vm) (\<lambda>_.
     bnd (wait_till_export_removed env vm) (\<lambda>_.
     bnd (stop_nbd_server vm) (\<lambda>_. ret ())))"

definition query_nbd_export :: "'w vm_env \<Rightarrow> (('d, 'w) nbd, pyval option) py" where
  "query_nbd_export vm =
     bnd (gets export_uid) (\<lambda>uid.
     bnd (on_nbd (call_fn vm ''query_block_exports'' [])) (\<lambda>exports.
     bnd (lift_res (rbind (py_iter exports) (filter_res (\<lambda>e. rbind (pindex e ''id'') (\<lambda>i. Inr (py_eq i uid)))))) (\<lambda>es.
       ret (case es of [] \<Rightarrow> None | e # _ \<Rightarrow> Some e))))"

section \<open>Which event is waited for\<close>

lemma filter_res_sound: "filter_res p xs = Inr ys \<Longrightarrow> y \<in> set ys \<Longrightarrow> y \<in> set xs \<and> p y = Inr True"
  by (induction xs arbitrary: ys) (auto elim!: rbind_InrE split: if_splits)

definition deletion_event :: "pyval \<Rightarrow> pyval \<Rightarrow> bool" where
  "deletion_event uid e \<longleftrightarrow>
     named_event ''BLOCK_EXPORT_DELETED'' e = Inr True \<and> event_matches [(''id'', uid)] e = Inr True"

lemma event_rounds_sound:
  "event_rounds vm name cond n s = (Inr e, s') \<Longrightarrow> e \<noteq> PNone \<Longrightarrow>
     \<exists>t t' es rest. get_events vm t = (Inr es, t') \<and> filter_events name cond es = Inr (e # rest)"
proof (induction n arbitrary: s)
  case (Suc n)
  then obtain es t' evs where es: "get_events vm s = (Inr es, t')" "filter_events name cond es = Inr evs"
    and k: "(case evs of e # _ \<Rightarrow> ret e | [] \<Rightarrow> bnd (sleep_ms vm 1000) (\<lambda>_. event_rounds vm name cond n)) t' = (Inr e, s')"
    by (auto simp: lift_res_def elim!: bnd_InrE)
  show ?case
  proof (cases evs)
    case Nil
    then show ?thesis using k Suc by (auto simp: sleep_ms_def modify_def bnd_def)
  next
    case (Cons x xs)
    then show ?thesis using k es by (auto simp: ret_def)
  qed
qed (simp add: ret_def)

lemma deletion_seen:
  assumes "get_event_by_condition vm ''BLOCK_EXPORT_DELETED'' tmo [(''id'', uid)] s = (Inr e, s')" and "e \<noteq> PNone"
  shows "\<exists>w es w'. qmp_events vm w = (Inr es, w') \<and> e \<in> set es \<and> deletion_event uid e"
proof -
  obtain t t' es rest where g: "get_events vm t = (Inr es, t')"
    and f: "filter_events ''BLOCK_EXPORT_DELETED'' [(''id'', uid)] es = Inr (e # rest)"
    using event_rounds_sound assms by (auto simp: get_event_by_condition_def) blast
  from f obtain evs where evs: "filter_res (named_event ''BLOCK_EXPORT_DELETED'') es = Inr evs"
    "filter_res (event_matches [(''id'', uid)]) evs = Inr (e # rest)"
    by (auto simp: filter_events_def elim!: rbind_InrE)
  have "e \<in> set evs" "event_matches [(''id'', uid)] e = Inr True" using filter_res_sound[OF evs(2), of e] by simp_all
  moreover from this have "e \<in> set es" "named_event ''BLOCK_EXPORT_DELETED'' e = Inr True"
    using filter_res_sound[OF evs(1), of e] by simp_all
  ultimately show ?thesis using g by (auto simp: get_events_def deletion_event_def split: prod.splits)
qed

lemma event_rounds_sent: "sent (snd (event_rounds vm name cond n s)) = sent s"
proof -
  have "sends (\<lambda>_. False) (event_rounds vm name cond n)"
  proof (induction n)
    case (Suc n)
    have "sends (\<lambda>_. False) (case evs of e # _ \<Rightarrow> ret e | [] \<Rightarrow> bnd (sleep_ms vm 1000) (\<lambda>_. event_rounds vm name cond n))" for evs
      using Suc by (cases evs) auto
    then show ?case by (auto intro!: sends_bnd)
  qed simp
  then obtain cs where "sent (snd (event_rounds vm name cond n s)) = sent s @ cs" "list_all (\<lambda>_. False) cs"
    unfolding sends_def by blast
  then show ?thesis by (cases cs) simp_all
qed

section \<open>Removing an export\<close>

lemma on_nbd_InrE:
  assumes "on_nbd m s = (Inr x, s')"
  obtains v where "m (nbd_vm s) = (Inr x, v)" and "s' = s\<lparr>nbd_vm := v\<rparr>"
  using assms by (auto simp: on_nbd_def split: prod.splits)

lemma call_fn_sent: "call_fn vm f args v = (r, v') \<Longrightarrow> sent v' = sent v @ [(f, positional args)]"
  by (auto simp: call_fn_def monitor_cmd_def split: prod.splits)

text \<open>The commands that take an export away.\<close>

definition removal :: "('d, 'w) nbd \<Rightarrow> (string \<times> pydict) list \<Rightarrow> bool" where
  "removal s cs \<longleftrightarrow>
     (let opt = (\<lambda>k. dget_default (image_params s) k PNone);
          del = (''block_export_del'', positional [export_uid s, opt ''block_export_remove_mode'']);
          name = (if truthy (opt ''nbd_export_name'') then opt ''nbd_export_name'' else node_name s) in
      cs = [del] \<or> cs = [del, (''nbd_server_remove'', positional [name, opt ''nbd_remove_mode''])])"

lemma block_export_del_run:
  assumes "block_export_del vm s = (r, s')"
  shows "\<exists>v. s' = s\<lparr>nbd_vm := v\<rparr> \<and> sent v = sent (nbd_vm s) @
    [(''block_export_del'', positional [export_uid s, dget_default (image_params s) ''block_export_remove_mode'' PNone])]"
  using assms
  by (auto simp: block_export_del_def image_param_def bnd_def gets_def on_nbd_def dest!: call_fn_sent split: prod.splits)

lemma nbd_remove_run:
  assumes "remove_nbd_image vm s = (Inr x, s')"
  shows "\<exists>v cs. s' = s\<lparr>nbd_vm := v\<rparr> \<and> sent v = sent (nbd_vm s) @ cs \<and> removal s cs"
proof -
  obtain r s1 where d: "block_export_del vm s = (r, s1)" by fastforce
  obtain v where v: "s1 = s\<lparr>nbd_vm := v\<rparr>" "sent v = sent (nbd_vm s) @
      [(''block_export_del'', positional [export_uid s, dget_default (image_params s) ''block_export_remove_mode'' PNone])]"
    using block_export_del_run[OF d] by blast
  show ?thesis
  proof (cases r)
    case (Inr y)
    then have "s' = s1" using assms d by (simp add: remove_nbd_image_def try_except_def)
    then show ?thesis using v by (auto simp: removal_def Let_def)
  next
    case (Inl e)
    then obtain v' where "s' = s\<lparr>nbd_vm := v'\<rparr>" "sent v' = sent v @ [(''nbd_server_remove'', positional
        [if truthy (dget_default (image_params s) ''nbd_export_name'' PNone)
         then dget_default (image_params s) ''nbd_export_name'' PNone else node_name s,
         dget_default (image_params s) ''nbd_remove_mode'' PNone])]"
      using assms d v(1)
      by (auto simp: remove_nbd_image_def try_except_def get_export_name_def image_param_def bnd_def gets_def ret_def on_nbd_def
          dest!: call_fn_sent split: if_splits prod.splits)
    then show ?thesis using v(2) by (auto simp: removal_def Let_def)
  qed
qed

lemma wait_run:
  assumes "wait_till_export_removed env vm s = (Inr (), s')"
  shows "sent (nbd_vm s') = sent (nbd_vm s) \<and> export_uid s' = PNone
    \<and> (export_uid s \<noteq> PNone \<longrightarrow> (\<exists>w es w' e. qmp_events vm w = (Inr es, w') \<and> e \<in> set es \<and> deletion_event (export_uid s) e))"
proof (cases "export_uid s = PNone")
  case False
  then obtain tmo e s1 where e: "on_nbd (get_event_by_condition vm ''BLOCK_EXPORT_DELETED'' tmo [(''id'', export_uid s)]) s = (Inr e, s1)"
    "e \<noteq> PNone" "s' = s1\<lparr>export_uid := PNone\<rparr>"
    using assms by (auto simp: wait_till_export_removed_def gets_def lift_res_def throw_def modify_def elim!: bnd_InrE split: if_splits)
  then obtain v where v: "get_event_by_condition vm ''BLOCK_EXPORT_DELETED'' tmo [(''id'', export_uid s)] (nbd_vm s) = (Inr e, v)"
    "s1 = s\<lparr>nbd_vm := v\<rparr>" by (elim on_nbd_InrE)
  have "sent v = sent (nbd_vm s)"
    using v(1) event_rounds_sent[of vm "''BLOCK_EXPORT_DELETED''" "[(''id'', export_uid s)]" "nat tmo" "nbd_vm s"]
    by (auto simp: get_event_by_condition_def)
  then show ?thesis using deletion_seen[OF v(1) e(2)] e(3) v(2) by auto
qed (use assms in \<open>auto simp: wait_till_export_removed_def bnd_def gets_def ret_def\<close>)


definition demo_nbd_env :: "(unit, script) nbd_env" where
  "demo_nbd_env = \<lparr>run_create_cmd = (\<lambda>_ w. (Inr (0, []), w)), qemu_img_create = (\<lambda>_ w. (Inr (0, []), w)),
     param_boolean = (\<lambda>_ _. Inr False), param_numeric = (\<lambda>_ _ n. Inr n), nbd_export_process = (\<lambda>_ _ w. (Inr (Some 7), w)),
     nbd_list_process = (\<lambda>_ _ w. (Inr (0, []), w)), kill_process = (\<lambda>_ _ w. (Inl (IOError []), w)),
     image_devices_of = (\<lambda>_ _ w. (Inr [], w)), device_qid = (\<lambda>_. []), tls_creds_device = (\<lambda>_ _. ()),
     plug_device = (\<lambda>_ w. (Inr ([], True), w))\<rparr>"

definition demo_nbd :: "(unit, script) nbd" where
  "demo_nbd = (InternalNBDExportImage [] ''img'' (vm_start ([Inr PNone, Inr PNone],
     [[PDict [(''event'', PStr ''BLOCK_EXPORT_DELETED''), (''data'', PDict [(''id'', PStr ''e0'')])]]])))\<lparr>export_uid := PStr ''e0''\<rparr>"


end
