(* ===== verification/State_Relation.thy ===== *)
theory State_Relation
  imports Py_Base
begin

text \<open>
  Computations that move the state only along a relation.  For a reflexive and transitive relation the property passes from the parts of
  a computation to the whole, through every way of composing computations; the components instantiate the relation with
  what their operations keep.
\<close>

definition moves :: "('s \<Rightarrow> 's \<Rightarrow> bool) \<Rightarrow> ('s, 'a) py \<Rightarrow> bool" where
  "moves R m \<longleftrightarrow> (\<forall>s. R s (snd (m s)))"

lemma movesI: "(\<And>s. R s (snd (m s))) \<Longrightarrow> moves R m"
  by (simp add: moves_def)

lemma movesD: "moves R m \<Longrightarrow> m s = (r, s') \<Longrightarrow> R s s'"
  by (metis moves_def snd_conv)

lemma moves_cases:
  "moves R m \<Longrightarrow> moves R n \<Longrightarrow> moves R (if b then m else n)"
  "moves R m \<Longrightarrow> (\<And>x. moves R (f x)) \<Longrightarrow> moves R (case o1 of None \<Rightarrow> m | Some x \<Rightarrow> f x)"
  "(\<And>x y. moves R (g x y)) \<Longrightarrow> moves R (case p of (x, y) \<Rightarrow> g x y)"
  by (auto split: option.split prod.split)

lemma moves_modify: "(\<And>s. R s (g s)) \<Longrightarrow> moves R (modify g)"
  by (simp add: moves_def modify_def)

locale state_relation =
  fixes R :: "'s \<Rightarrow> 's \<Rightarrow> bool"
  assumes refl: "R s s"
    and trans: "R s t \<Longrightarrow> R t u \<Longrightarrow> R s u"
begin

lemma unchanged: "moves R (ret x)" "moves R (throw e)" "moves R (gets g)" "moves R (lift_res r)"
  by (auto simp: moves_def ret_def throw_def gets_def lift_res_def intro: refl)

lemma seq:
  assumes "moves R m" "\<And>x. moves R (f x)"
  shows "moves R (bnd m f)"
proof (rule movesI)
  fix s
  obtain r s1 where m: "m s = (r, s1)" by fastforce
  then show "R s (snd (bnd m f s))"
    using movesD[OF assms(1) m] assms(2) by (cases r) (auto simp: bnd_def moves_def intro: trans)
qed

lemma handled:
  assumes "moves R m" "\<And>e h. handler e = Some h \<Longrightarrow> moves R h"
  shows "moves R (try_except m handler)"
proof (rule movesI)
  fix s
  obtain r s1 where m: "m s = (r, s1)" by fastforce
  then show "R s (snd (try_except m handler s))"
    using movesD[OF assms(1) m] assms(2)
    by (cases r) (auto simp: try_except_def moves_def split: option.split intro: trans)
qed

lemma ended:
  assumes "moves R m" "moves R f"
  shows "moves R (try_finally m f)"
proof (rule movesI)
  fix s
  obtain r s1 q s2 where m: "m s = (r, s1)" and f: "f s1 = (q, s2)" by fastforce
  then show "R s (snd (try_finally m f s))"
    using movesD[OF assms(1) m] movesD[OF assms(2) f] by (cases q) (auto simp: try_finally_def intro: trans)
qed

lemma each: "(\<And>x. moves R (f x)) \<Longrightarrow> moves R (for_each xs f)"
  by (induction xs) (auto intro: seq unchanged)

lemmas composed = seq moves_cases each unchanged ended

end

end
