(* ===== verification/Qsd.thy ===== *)
theory Qsd
  imports Json Dirty_Bitmap State_Relation
begin

text \<open>
  The storage daemon (\<^verbatim>\<open>provider/qsd.py\<close>): the properties of the images it exports, its command line, how it is started and
  stopped, and the devices of a guest that uses an export.  Processes, the monitor of the daemon, the images on disk, the devices of the
  machine and the test parameters of an object come from the framework and are fields of \<open>qsd_env\<close>.
\<close>

section \<open>Environment and state\<close>

record 'w qsd_env =
  obj_params :: "string \<Rightarrow> pydict"
  image_filename :: "pydict \<Rightarrow> string"
  data_dir :: string
  shell_output :: "string \<Rightarrow> 'w \<Rightarrow> string res \<times> 'w"
  shell_status :: "string \<Rightarrow> 'w \<Rightarrow> int res \<times> 'w"
  kill_process_tree :: "int \<Rightarrow> string \<Rightarrow> 'w \<Rightarrow> unit res \<times> 'w"
  popen_wait :: "string \<Rightarrow> 'w \<Rightarrow> int res \<times> 'w"
  base_start_daemon :: "string \<Rightarrow> 'w \<Rightarrow> unit res \<times> 'w"
  base_is_daemon_alive :: "'w \<Rightarrow> bool res \<times> 'w"
  base_stop_daemon :: "'w \<Rightarrow> unit res \<times> 'w"
  daemon_output :: "'w \<Rightarrow> string res \<times> 'w"
  close_daemon_process :: "'w \<Rightarrow> unit res \<times> 'w"
  daemon_process_pid :: "'w \<Rightarrow> string option"
  qemu_img_creates :: "string \<Rightarrow> 'w \<Rightarrow> int res \<times> 'w"
  qemu_img_removes :: "string \<Rightarrow> 'w \<Rightarrow> unit res \<times> 'w"
  open_monitor :: "'w \<Rightarrow> unit res \<times> 'w"
  monitor_quit :: "'w \<Rightarrow> unit res \<times> 'w"
  make_dirs :: "string \<Rightarrow> 'w \<Rightarrow> unit res \<times> 'w"
  run_ignoring_status :: "string \<Rightarrow> 'w \<Rightarrow> string res \<times> 'w"

record 'w qsd =
  qworld :: 'w
  qsd_name :: string
  basedir :: string
  binary :: string
  sock_path :: string
  qsd_monitor_id :: string
  qsd_params :: pydict
  cap_daemonize :: bool
  cap_pidfile :: bool
  qsd_images :: "(string \<times> pydict) list"
  daemonize :: bool
  pidfile :: "string option"
  pid :: "string option"
  has_monitor :: bool

definition QsdError :: "string \<Rightarrow> exc" where
  "QsdError m = OtherError ''QsdError'' m"

definition on_qsd :: "('w, 'a) py \<Rightarrow> ('w qsd, 'a) py" where
  "on_qsd f s = (case f (qworld s) of (r, w) \<Rightarrow> (r, s\<lparr>qworld := w\<rparr>))"

section \<open>Properties of an image\<close>

definition raw_image_data :: pydict where
  "raw_image_data =
     [(''protocol'', PDict [(''driver'', PStr ''file''), (''node-name'', PStr ''tbd''), (''filename'', PStr ''tbd''),
                            (''auto-read-only'', PBool True), (''discard'', PStr ''unmap'')]),
      (''format'', PDict [(''driver'', PStr ''raw''), (''node-name'', PStr ''tbd''), (''file'', PStr ''tbd'')]),
      (''filter'', PDict [(''driver'', PNone), (''node-name'', PStr ''tbd''), (''file'', PStr ''tbd'')]),
      (''name'', PStr []),
      (''unix'', PDict [(''type'', PStr ''unix''), (''path'', PStr ''tbd'')]),
      (''inet'', PDict [(''type'', PStr ''inet''), (''host'', PStr ''0.0.0.0'')]),
      (''nbd-server'', PDict [(''addr'', PDict [])]),
      (''export'', PDict [(''type'', PStr []), (''id'', PStr []), (''node-name'', PStr []), (''writable'', PBool True)]),
      (''image_object'', PNone)]"

text \<open>\<open>qemu_img_creates\<close> builds the image object of a name and returns the exit status of its creation.\<close>

text \<open>\<open>img[k].update(d)\<close>, \<open>img[k][f] = v\<close> and \<open>img[k][f]\<close>.\<close>

definition update_at :: "string \<Rightarrow> pydict \<Rightarrow> pydict \<Rightarrow> pydict res" where
  "update_at k d img =
     rbind (dindex img k) (\<lambda>old. case old of
       PDict o1 \<Rightarrow> Inr (dset k (PDict (dupdate o1 d)) img)
     | _ \<Rightarrow> Inl (AttributeError ''update''))"

definition set_at :: "string \<Rightarrow> string \<Rightarrow> pyval \<Rightarrow> pydict \<Rightarrow> pydict res" where
  "set_at k f v img = update_at k [(f, v)] img"

definition at :: "string \<Rightarrow> string \<Rightarrow> pydict \<Rightarrow> pyval res" where
  "at k f img = rbind (dindex img k) (\<lambda>d. pindex d f)"

text \<open>\<open>json.loads(params.get(k, default))\<close> for a parameter that holds an object.\<close>

definition json_param :: "pydict \<Rightarrow> string \<Rightarrow> string \<Rightarrow> pydict res" where
  "json_param params k dflt =
     (case dget_default params k (PStr dflt) of
        PStr t \<Rightarrow>
          (case loads t of
             Some (PDict d) \<Rightarrow> Inr d
           | Some _ \<Rightarrow> Inl (TypeError ''update'')
           | None \<Rightarrow> Inl (ValueError ''JSONDecodeError''))
      | _ \<Rightarrow> Inl (TypeError ''the JSON object must be str, bytes or bytearray''))"

definition empty_json :: string where "empty_json = [CHR 0x7B, CHR 0x7D]"

text \<open>The default of the address has no closing brace.\<close>

definition default_nbd_addr :: string where
  "default_nbd_addr = [CHR 0x7B, CHR 0x22] @ ''type'' @ [CHR 0x22] @ '':'' @ [CHR 0x22] @ ''unix'' @ [CHR 0x22]"

definition block_nodes :: "'w qsd_env \<Rightarrow> string \<Rightarrow> pydict \<Rightarrow> pydict res" where
  "block_nodes env name params =
     rbind (set_at ''protocol'' ''node-name'' (PStr (''prot_'' @ name)) (dset ''name'' (PStr name) raw_image_data)) (\<lambda>i1.
     rbind (set_at ''protocol'' ''filename'' (PStr (image_filename env params)) i1) (\<lambda>i2.
     rbind (set_at ''format'' ''node-name'' (PStr (''fmt_'' @ name)) i2) (\<lambda>i3.
     rbind (at ''protocol'' ''node-name'' i3) (\<lambda>prot.
     rbind (set_at ''format'' ''file'' prot i3) (\<lambda>i4.
     rbind (set_at ''format'' ''driver'' (dget_default params ''image_format'' PNone) i4) (\<lambda>i5.
     rbind (set_at ''filter'' ''node-name'' (PStr (''flt_'' @ name)) i5) (\<lambda>i6.
     rbind (at ''format'' ''node-name'' i6) (\<lambda>fmt.
     rbind (set_at ''filter'' ''file'' fmt i6) (\<lambda>i7.
     rbind (json_param params ''qsd_image_protocol'' empty_json) (\<lambda>p.
     rbind (update_at ''protocol'' p i7) (\<lambda>i8.
     rbind (json_param params ''qsd_image_format'' empty_json) (\<lambda>f.
     rbind (update_at ''format'' f i8) (\<lambda>i9.
     rbind (json_param params ''qsd_image_filter'' empty_json) (\<lambda>l.
       update_at ''filter'' l i9))))))))))))))"

definition export_node :: "string \<Rightarrow> pydict \<Rightarrow> pydict \<Rightarrow> pydict res" where
  "export_node name params img =
     rbind (set_at ''export'' ''id'' (PStr (''id_'' @ name)) img) (\<lambda>i1.
     rbind (at ''filter'' ''driver'' i1) (\<lambda>driver.
     rbind (if truthy driver then at ''filter'' ''node-name'' i1 else at ''format'' ''node-name'' i1) (\<lambda>node.
     rbind (set_at ''export'' ''node-name'' node i1) (\<lambda>i2.
     rbind (json_param params ''qsd_image_export'' empty_json) (\<lambda>e.
       update_at ''export'' e i2)))))"

definition nbd_socket :: "string \<Rightarrow> string \<Rightarrow> string \<Rightarrow> string" where
  "nbd_socket dir qsd name = dir @ ''/'' @ qsd @ ''_nbd_'' @ name @ ''.sock''"

definition vhost_user_socket :: "string \<Rightarrow> string \<Rightarrow> string \<Rightarrow> string" where
  "vhost_user_socket dir qsd name = dir @ ''/'' @ qsd @ ''_vhost_user_'' @ name @ ''.sock''"

text \<open>The address of the export: for an NBD export the server, for a vhost-user export the socket.\<close>

definition nbd_address :: "string \<Rightarrow> string \<Rightarrow> string \<Rightarrow> pydict \<Rightarrow> pydict \<Rightarrow> pydict res" where
  "nbd_address dir qsd name params img =
     rbind (set_at ''export'' ''name'' (PStr []) img) (\<lambda>i1.
     rbind (json_param params ''qsd_image_export_nbd'' default_nbd_addr) (\<lambda>addr.
     rbind (dindex addr ''type'') (\<lambda>ty.
     rbind (update_at (str_of ty) addr i1) (\<lambda>i2.
     rbind (if ty = PStr ''unix'' then
              rbind (at ''unix'' ''path'' i2) (\<lambda>path.
                if truthy path then Inr i2 else set_at ''unix'' ''path'' (PStr (nbd_socket dir qsd name)) i2)
            else Inr i2) (\<lambda>i3.
     rbind (dindex i3 (str_of ty)) (\<lambda>full.
     rbind (at ''nbd-server'' ''addr'' i3) (\<lambda>old.
       case (full, old) of
         (PDict d, PDict o1) \<Rightarrow> set_at ''nbd-server'' ''addr'' (PDict (dupdate o1 d)) i3
       | _ \<Rightarrow> Inl (TypeError ''update''))))))))"

definition export_address :: "string \<Rightarrow> string \<Rightarrow> string \<Rightarrow> pydict \<Rightarrow> pydict \<Rightarrow> pydict res" where
  "export_address dir qsd name params img =
     rbind (at ''export'' ''type'' img) (\<lambda>ty.
       if ty = PStr ''nbd'' then nbd_address dir qsd name params img
       else if ty = PStr ''vhost-user-blk'' then
         rbind (set_at ''unix'' ''path'' (PStr (vhost_user_socket dir qsd name)) img) (\<lambda>i1.
         rbind (dindex i1 ''unix'') (\<lambda>u. set_at ''export'' ''addr'' u i1))
       else Inl (QsdError (''Unknown export type '' @ py_str ty @ '' '')))"

text \<open>Whether the image belongs to the test, which creates it itself.\<close>

definition image_created :: "string \<Rightarrow> pydict \<Rightarrow> bool res" where
  "image_created name params =
     (case dget_default params ''images'' PNone of
        PStr imgs \<Rightarrow> Inr (name \<in> set (split_ws imgs)
          \<and> (dget_default params ''force_create_image'' PNone = PStr ''yes'' \<or> dget_default params ''create_image'' PNone = PStr ''yes''))
      | _ \<Rightarrow> Inl (AttributeError ''split''))"

definition image_props :: "'w qsd_env \<Rightarrow> string \<Rightarrow> string \<Rightarrow> string \<Rightarrow> pydict \<Rightarrow> pydict res" where
  "image_props env dir qsd name params =
     rbind (block_nodes env name params) (\<lambda>i1. rbind (export_node name params i1) (export_address dir qsd name params))"

definition fulfil_image_props :: "'w qsd_env \<Rightarrow> string \<Rightarrow> pydict \<Rightarrow> ('w qsd, pydict) py" where
  "fulfil_image_props env name params =
     bnd (gets (\<lambda>s. (basedir s, qsd_name s))) (\<lambda>(dir, qsd).
     bnd (lift_res (image_props env dir qsd name params)) (\<lambda>img.
     bnd (lift_res (image_created name params)) (\<lambda>created.
     bnd (if created then ret img
          else if dget_default params ''qsd_create_image'' (PStr ''yes'') = PStr ''yes'' then
            bnd (on_qsd (qemu_img_creates env name)) (\<lambda>status.
              if status \<noteq> 0 then throw (QsdError (''Failed create image '' @ name @ '' ''))
              else ret (dset ''image_object'' (PStr name) img))
          else ret (dset ''image_object'' (PStr name) img)) (\<lambda>img'.
     bnd (modify (\<lambda>s. s\<lparr>qsd_images := dset name img' (qsd_images s)\<rparr>)) (\<lambda>_. ret img')))))"

section \<open>Starting the daemon\<close>

definition default_basedir :: "'w qsd_env \<Rightarrow> string \<Rightarrow> string" where
  "default_basedir env name = data_dir env @ ''/qsd/'' @ name"

text \<open>The constructor: the base directory, the version and the help text of the binary, which tells its capabilities.\<close>

definition has_option :: "string \<Rightarrow> string \<Rightarrow> bool" where
  "has_option help opt = sublist opt help"

definition probe_binary :: "'w qsd_env \<Rightarrow> string \<Rightarrow> string \<Rightarrow> ('w, string) py" where
  "probe_binary env dir bin =
     bnd (make_dirs env dir) (\<lambda>_.
     bnd (run_ignoring_status env (bin @ '' -V'')) (\<lambda>version.
     bnd (if length (split_ws version) \<le> 2 then throw IndexError else ret ()) (\<lambda>_.
       run_ignoring_status env (bin @ '' -h''))))"

definition QsdDaemonDev :: "'w qsd_env \<Rightarrow> string \<Rightarrow> 'w \<Rightarrow> 'w qsd res" where
  "QsdDaemonDev env name w =
     (let params = obj_params env name;
          dir = str_of (dget_default params ''qsd_basedir'' (PStr (default_basedir env name)));
          bin = str_of (dget_default params ''qsd_binary'' (PStr ''/usr/bin/qemu-storage-daemon''));
          sock = str_of (dget_default params ''qsd_sock_path'' (PStr (dir @ ''/'' @ name @ ''_monitor.sock''))) in
      case probe_binary env dir bin w of
        (Inl e, _) \<Rightarrow> Inl e
      | (Inr help, w') \<Rightarrow>
          Inr \<lparr>qworld = w', qsd_name = name, basedir = dir, binary = bin, sock_path = sock, qsd_monitor_id = ''qsd_monitor_'' @ name,
               qsd_params = dset ''monitor_filename'' (PStr sock) params,
               cap_daemonize = has_option help ''--daemonize'', cap_pidfile = has_option help ''--pidfile'',
               qsd_images = [], daemonize = False, pidfile = None, pid = None, has_monitor = False\<rparr>)"

definition quoted :: "pyval \<Rightarrow> string" where
  "quoted v = [CHR 0x27] @ dumps v @ [CHR 0x27]"

definition image_options :: "pydict \<Rightarrow> string res" where
  "image_options img =
     rbind (dindex img ''protocol'') (\<lambda>p.
     rbind (dindex img ''format'') (\<lambda>f.
     rbind (dindex img ''filter'') (\<lambda>l.
     rbind (pindex l ''driver'') (\<lambda>driver.
     rbind (dindex img ''nbd-server'') (\<lambda>n.
     rbind (pindex n ''addr'') (\<lambda>addr.
     rbind (dindex img ''export'') (\<lambda>e.
       Inr ('' --blockdev '' @ quoted p @ '' --blockdev '' @ quoted f
            @ (if truthy driver then '' --blockdev '' @ quoted l else [])
            @ (if truthy addr then '' --nbd-server '' @ quoted n else [])
            @ '' --export '' @ quoted e))))))))"

fun images_options :: "'w qsd_env \<Rightarrow> string list \<Rightarrow> ('w qsd, string) py" where
  "images_options env [] = ret []"
| "images_options env (img # imgs) =
     bnd (fulfil_image_props env img (obj_params env img)) (\<lambda>info.
     bnd (lift_res (image_options info)) (\<lambda>o1.
     bnd (images_options env imgs) (\<lambda>o2. ret (o1 @ o2))))"

definition pid_command :: "string \<Rightarrow> string" where
  "pid_command sock =
     ''ps -e ww|grep qemu-storage-d|grep '' @ sock @ ''|grep -v grep|awk '' @ [CHR 0x27] @ ''{print $1}'' @ [CHR 0x27]"

text \<open>A daemon that already uses the socket is killed, unless the parameters say not to.\<close>

definition replace_running :: "'w qsd_env \<Rightarrow> string \<Rightarrow> pydict \<Rightarrow> ('w qsd, unit) py" where
  "replace_running env p params =
     (if p = [] then ret ()
      else if dget_default params ''qsd_force_create'' (PStr ''yes'') = PStr ''yes'' then
        bnd (lift_res (int_of_str p)) (\<lambda>n. on_qsd (kill_process_tree env n ''SIGKILL''))
      else throw (QsdError (''Find running QSD:'' @ p)))"

definition monitor_options :: "'w qsd \<Rightarrow> string" where
  "monitor_options s =
     binary s @ '' --chardev socket,server=on,wait=off,path='' @ sock_path s @ '',id='' @ qsd_monitor_id s
     @ '' --monitor chardev='' @ qsd_monitor_id s @ '',mode=control ''
     @ concat (split_char (CHR 0x3B) (str_of (dget_default (qsd_params s) ''qsd_cmd_lines'' (PStr []))))"

text \<open>The options of the daemon itself, read from the parameters of the last image, if there is one.\<close>

definition mode_options :: "pydict \<Rightarrow> ('w qsd, string) py" where
  "mode_options params =
     bnd (gets (\<lambda>s. s)) (\<lambda>s.
     let d = dget_default params ''qsd_daemonize'' (PStr ''no'') = PStr ''yes'' \<and> cap_daemonize s;
         f = dget_default params ''qsd_enable_pidfile'' (PStr ''yes'') = PStr ''yes'' \<and> cap_pidfile s;
         file = basedir s @ ''/'' @ qsd_name s @ ''.pid'' in
     bnd (modify (\<lambda>s. s\<lparr>daemonize := (d \<or> daemonize s), pidfile := (if f then Some file else pidfile s)\<rparr>)) (\<lambda>_.
       ret ((if d then '' --daemonize'' else []) @ (if f then '' --pidfile '' @ file else []))))"

definition is_daemon_alive :: "'w qsd_env \<Rightarrow> ('w qsd, bool) py" where
  "is_daemon_alive env =
     bnd (gets (\<lambda>s. (daemonize s, pid s))) (\<lambda>(d, p).
       if d then
         (case p of
            Some n \<Rightarrow> if n = [] then ret False
                      else bnd (on_qsd (shell_status env (''ps -q '' @ n))) (\<lambda>st. ret (st = 0))
          | None \<Rightarrow> ret False)
       else on_qsd (base_is_daemon_alive env))"

definition run_daemon :: "'w qsd_env \<Rightarrow> string \<Rightarrow> ('w qsd, unit) py" where
  "run_daemon env cmd =
     bnd (gets daemonize) (\<lambda>d.
       if d then
         bnd (on_qsd (popen_wait env cmd)) (\<lambda>code.
           if code \<noteq> 0 then throw (QsdError (''Failed run QSD daemonize: '' @ int_str code)) else ret ())
       else
         bnd (on_qsd (base_start_daemon env cmd)) (\<lambda>_.
         bnd (is_daemon_alive env) (\<lambda>alive.
           if alive then ret ()
           else
             bnd (on_qsd (daemon_output env)) (\<lambda>out.
             bnd (on_qsd (close_daemon_process env)) (\<lambda>_.
               throw (QsdError (''Failed to run QSD daemon: '' @ out)))))))"

definition check_pid :: "'w qsd_env \<Rightarrow> string \<Rightarrow> ('w qsd, unit) py" where
  "check_pid env p =
     bnd (gets pidfile) (\<lambda>f.
       case f of
         None \<Rightarrow> ret ()
       | Some file \<Rightarrow>
           bnd (on_qsd (shell_output env (''cat '' @ file))) (\<lambda>q.
             if q \<noteq> p then throw (QsdError (''Find mismatch pid: '' @ p @ '' '' @ q)) else ret ()))"

definition start_daemon :: "'w qsd_env \<Rightarrow> ('w qsd, unit) py" where
  "start_daemon env =
     bnd (gets (\<lambda>s. s)) (\<lambda>s.
     let params = obj_params env (qsd_name s);
         imgs = split_ws (str_of (dget_default (qsd_params s) ''qsd_images'' (PStr []))) in
     bnd (on_qsd (shell_output env (pid_command (sock_path s)))) (\<lambda>p.
     bnd (replace_running env p params) (\<lambda>_.
     bnd (images_options env imgs) (\<lambda>iopts.
     bnd (mode_options (if imgs = [] then params else obj_params env (last imgs))) (\<lambda>mopts.
     bnd (run_daemon env (monitor_options s @ iopts @ mopts)) (\<lambda>_.
     bnd (on_qsd (shell_output env (pid_command (sock_path s)))) (\<lambda>p'.
     bnd (check_pid env p') (\<lambda>_.
     bnd (modify (\<lambda>s. s\<lparr>pid := Some p'\<rparr>)) (\<lambda>_.
     bnd (on_qsd (open_monitor env)) (\<lambda>_.
       modify (\<lambda>s. s\<lparr>has_monitor := True\<rparr>)))))))))))"

section \<open>Stopping the daemon\<close>

definition get_pid :: "'w qsd_env \<Rightarrow> ('w qsd, string option) py" where
  "get_pid env = gets (\<lambda>s. if daemonize s then pid s else daemon_process_pid env (qworld s))"

definition is_down :: "'w qsd_env \<Rightarrow> ('w qsd, bool) py" where
  "is_down env = bnd (is_daemon_alive env) (\<lambda>b. ret (\<not> b))"

text \<open>
  Asking the monitor to quit: whether the daemon is down.  \<open>wait_for\<close> runs in the state of the daemon.
\<close>

definition quit_by_monitor :: "'w qsd_env \<Rightarrow> (('w qsd, bool) py \<Rightarrow> ('w qsd, bool) py) \<Rightarrow> ('w qsd, bool) py" where
  "quit_by_monitor env wait =
     bnd (gets has_monitor) (\<lambda>m.
       if \<not> m then ret False
       else
         (\<lambda>s. case on_qsd (monitor_quit env) s of
            (Inr _, s') \<Rightarrow> wait (is_down env) s'
          | (Inl e, s') \<Rightarrow>
              (case e of
                 KeyboardInterrupt \<Rightarrow> (Inl e, s')
               | SystemExit _ \<Rightarrow> (Inl e, s')
               | _ \<Rightarrow> is_down env s')))"

definition kill_pid :: "'w qsd_env \<Rightarrow> string option \<Rightarrow> string \<Rightarrow> ('w qsd, unit) py" where
  "kill_pid env p sig =
     bnd (lift_res (case p of None \<Rightarrow> Inl (TypeError ''int() argument must be a string'') | Some t \<Rightarrow> int_of_str t)) (\<lambda>n.
       on_qsd (kill_process_tree env n sig))"

definition destroy :: "'w qsd_env \<Rightarrow> (('w qsd, bool) py \<Rightarrow> ('w qsd, bool) py) \<Rightarrow> ('w qsd, unit) py" where
  "destroy env wait =
     bnd (is_daemon_alive env) (\<lambda>alive.
       if \<not> alive then ret ()
       else
         bnd (get_pid env) (\<lambda>p.
         bnd (quit_by_monitor env wait) (\<lambda>down.
           if down then ret ()
           else
             try_except
               (bnd (kill_pid env p ''SIGTERM'') (\<lambda>_.
                bnd (is_daemon_alive env) (\<lambda>still. if still then kill_pid env p ''SIGKILL'' else ret ())))
               (\<lambda>e. case e of RuntimeError _ \<Rightarrow> Some (ret ()) | _ \<Rightarrow> None))))"

definition remove_image :: "'w qsd_env \<Rightarrow> string \<times> pydict \<Rightarrow> ('w qsd, unit) py" where
  "remove_image env entry =
     bnd (lift_res (dindex (snd entry) ''image_object'')) (\<lambda>obj.
       if truthy obj \<and> dget_default (obj_params env (fst entry)) ''qsd_remove_image'' (PStr ''yes'') \<noteq> PStr ''no''
       then on_qsd (qemu_img_removes env (str_of obj)) else ret ())"

definition remove_images :: "'w qsd_env \<Rightarrow> ('w qsd, unit) py" where
  "remove_images env = bnd (gets qsd_images) (\<lambda>is. for_each is (remove_image env))"

definition stop_daemon :: "'w qsd_env \<Rightarrow> (('w qsd, bool) py \<Rightarrow> ('w qsd, bool) py) \<Rightarrow> ('w qsd, unit) py" where
  "stop_daemon env wait =
     try_finally (bnd (destroy env wait) (\<lambda>_. on_qsd (base_stop_daemon env))) (remove_images env)"

section \<open>The devices of the guest\<close>

text \<open>The daemon that exports an image: \<open>None\<close> where the code returns nothing.\<close>

definition get_qsd_name_by_image :: "'w qsd_env \<Rightarrow> string \<Rightarrow> pydict \<Rightarrow> string option res" where
  "get_qsd_name_by_image env img_name params =
     (if dget_default params (''drive_format_'' @ img_name) PNone \<noteq> PStr ''vhost-user-blk-pci'' then Inr None
      else rbind (dindex params ''qsd_namespaces'') (\<lambda>ns.
        Inr (Some (case find (\<lambda>q. img_name \<in> set (split_ws (str_of (dget_default (obj_params env q) ''qsd_images'' (PStr [])))))
                          (split_ws (str_of ns)) of
                     Some q \<Rightarrow> q | None \<Rightarrow> []))))"

datatype vubp_device =
    CharDevice string string
  | VubpDevice pydict string

definition bus_type :: "string \<Rightarrow> string" where
  "bus_type machine_type =
     (if startswith machine_type ''q35'' \<or> startswith machine_type ''arm64'' then ''PCIE'' else ''PCI'')"

record 'w plug_env =
  knows_qid :: "string \<Rightarrow> 'w \<Rightarrow> bool"
  insert_daemon :: "string \<Rightarrow> string \<Rightarrow> 'w \<Rightarrow> unit res \<times> 'w"
  plug_simple :: "vubp_device \<Rightarrow> 'w \<Rightarrow> unit res \<times> 'w"
  unplug_simple :: "vubp_device \<Rightarrow> 'w \<Rightarrow> unit res \<times> 'w"
  known_device :: "vubp_device \<Rightarrow> 'w \<Rightarrow> bool"
  unplug_verified :: "vubp_device \<Rightarrow> 'w \<Rightarrow> bool res \<times> 'w"
  unplug_raw :: "vubp_device \<Rightarrow> 'w \<Rightarrow> unit res \<times> 'w"

definition guest_basedir :: "'w qsd_env \<Rightarrow> string \<Rightarrow> string" where
  "guest_basedir env qsd = str_of (dget_default (obj_params env qsd) ''qsd_basedir'' (PStr (default_basedir env qsd)))"

definition vubp_devices :: "'w qsd_env \<Rightarrow> string \<Rightarrow> string \<Rightarrow> pydict \<Rightarrow> string option \<Rightarrow> vubp_device list res" where
  "vubp_devices env qsd img_name params bus =
     (let char_id = ''char_qsd_'' @ qsd;
          machine_type = str_of (dget_default params ''machine_type'' (PStr [])) in
      rbind (json_param params (''image_vubp_props_'' @ img_name) empty_json) (\<lambda>props.
        Inr [CharDevice char_id (vhost_user_socket (guest_basedir env qsd) qsd img_name),
             VubpDevice (dupdate [(''id'', PStr (''vubp_'' @ img_name)), (''chardev'', PStr char_id)] props)
               (case bus of None \<Rightarrow> bus_type machine_type | Some b \<Rightarrow> b)]))"

text \<open>With a machine, a daemon device that the machine does not know yet is declared to it first.\<close>

definition declare_daemon :: "'w plug_env option \<Rightarrow> string \<Rightarrow> string \<Rightarrow> ('w, unit) py" where
  "declare_daemon vm qsd sock =
     (case vm of
        None \<Rightarrow> ret ()
      | Some p \<Rightarrow> bnd (gets (knows_qid p (''qsd_'' @ qsd))) (\<lambda>known. if known then ret () else insert_daemon p qsd sock))"

definition create_vubp_devices ::
    "'w qsd_env \<Rightarrow> 'w plug_env option \<Rightarrow> string \<Rightarrow> pydict \<Rightarrow> string option \<Rightarrow> ('w, vubp_device list) py" where
  "create_vubp_devices env vm img_name params bus =
     bnd (lift_res (get_qsd_name_by_image env img_name params)) (\<lambda>found.
     bnd (if found \<in> {None, Some []} then throw (QsdError ''Can not find QSD'') else ret (the found)) (\<lambda>qsd.
     bnd (declare_daemon vm qsd (vhost_user_socket (guest_basedir env qsd) qsd img_name)) (\<lambda>_.
       lift_res (vubp_devices env qsd img_name params bus))))"

definition boot_command :: "(vubp_device \<Rightarrow> string) \<Rightarrow> vubp_device list \<Rightarrow> string \<Rightarrow> int \<Rightarrow> string \<Rightarrow> string option" where
  "boot_command cmdline devs machine_type addr opts =
     (let cmd = concat (map (\<lambda>d. '' '' @ cmdline d) devs) in
      if cmd = [] then None
      else
        let busid = ''pcie_vubp_root_port_'' @ int_str addr;
            placed =
              (if startswith machine_type ''q35'' \<or> startswith machine_type ''arm64''
               then ''-device pcie-root-port,id='' @ busid @ '',bus=pcie.0,addr='' @ int_str addr @ '' '' @ cmd @ '',bus='' @ busid
               else if sublist ''i440fx'' machine_type \<or> machine_type = ''pc'' then cmd @ '',bus=pci.0,addr='' @ int_str addr
               else cmd) in
        Some (placed @ opts))"

definition add_vubp_into_boot ::
    "'w qsd_env \<Rightarrow> (vubp_device \<Rightarrow> string) \<Rightarrow> string \<Rightarrow> pydict \<Rightarrow> int \<Rightarrow> string \<Rightarrow> ('w, string option \<times> pydict) py" where
  "add_vubp_into_boot env cmdline img_name params addr opts =
     bnd (create_vubp_devices env None img_name params None) (\<lambda>devs.
       let cmd = boot_command cmdline devs (str_of (dget_default params ''machine_type'' (PStr []))) addr opts in
       ret (cmd, case cmd of None \<Rightarrow> params | Some c \<Rightarrow> dset ''extra_params'' (PStr c) params))"

text \<open>Plugging the devices into a machine and out of it, in the opposite order.\<close>

definition plug_vubp_devices :: "'w qsd_env \<Rightarrow> 'w plug_env \<Rightarrow> string \<Rightarrow> pydict \<Rightarrow> string option \<Rightarrow> ('w, unit) py" where
  "plug_vubp_devices env penv img_name params bus =
     bnd (create_vubp_devices env (Some penv) img_name params bus) (\<lambda>devs. for_each devs (plug_simple penv))"

definition unplug_vubp_device :: "'w plug_env \<Rightarrow> vubp_device \<Rightarrow> ('w, unit) py" where
  "unplug_vubp_device penv dev =
     bnd (gets (known_device penv dev)) (\<lambda>known.
       if known then unplug_simple penv dev
       else bnd (unplug_verified penv dev) (\<lambda>gone. if gone then ret () else unplug_raw penv dev))"

definition unplug_vubp_devices :: "'w qsd_env \<Rightarrow> 'w plug_env \<Rightarrow> string \<Rightarrow> pydict \<Rightarrow> string option \<Rightarrow> ('w, unit) py" where
  "unplug_vubp_devices env penv img_name params bus =
     bnd (create_vubp_devices env (Some penv) img_name params bus) (\<lambda>devs. for_each (rev devs) (unplug_vubp_device penv))"


section \<open>Laws\<close>

lemma update_at_run:
  "update_at k d img = (case dget img k of
     Some (PDict o1) \<Rightarrow> Inr (dset k (PDict (dupdate o1 d)) img)
   | Some _ \<Rightarrow> Inl (AttributeError ''update'') | None \<Rightarrow> Inl (KeyError k))"
  by (simp add: update_at_def dindex_def split: option.split pyval.split)

lemma at_run:
  "at k f img = (case dget img k of Some d \<Rightarrow> pindex d f | None \<Rightarrow> Inl (KeyError k))"
  by (simp add: at_def dindex_def split: option.split)

lemma pindex_PDict: "pindex (PDict d) f = (case dget d f of Some v \<Rightarrow> Inr v | None \<Rightarrow> Inl (KeyError f))"
  by (simp add: pindex_def dindex_def split: option.split)

text \<open>The nodes of an image, when the options of the test do not rename them.\<close>

definition json_options :: "pydict \<Rightarrow> pydict \<Rightarrow> pydict \<Rightarrow> pydict \<Rightarrow> pydict \<Rightarrow> bool" where
  "json_options params p f l e \<longleftrightarrow>
     json_param params ''qsd_image_protocol'' empty_json = Inr p \<and> json_param params ''qsd_image_format'' empty_json = Inr f
     \<and> json_param params ''qsd_image_filter'' empty_json = Inr l \<and> json_param params ''qsd_image_export'' empty_json = Inr e"

lemma block_nodes_run:
  assumes "json_options params p f l e"
  shows "block_nodes env name params = Inr
    (dset ''filter'' (PDict (dupdate [(''driver'', PNone), (''node-name'', PStr (''flt_'' @ name)), (''file'', PStr (''fmt_'' @ name))] l))
    (dset ''format'' (PDict (dupdate [(''driver'', dget_default params ''image_format'' PNone), (''node-name'', PStr (''fmt_'' @ name)),
                                      (''file'', PStr (''prot_'' @ name))] f))
    (dset ''protocol'' (PDict (dupdate [(''driver'', PStr ''file''), (''node-name'', PStr (''prot_'' @ name)),
        (''filename'', PStr (image_filename env params)), (''auto-read-only'', PBool True), (''discard'', PStr ''unmap'')] p))
    (dset ''name'' (PStr name) raw_image_data))))"
  using assms
  by (simp add: json_options_def block_nodes_def set_at_def update_at_run at_run raw_image_data_def pindex_PDict dupdate_def del: dget_dset)

lemma export_node_run:
  assumes "json_param params ''qsd_image_export'' empty_json = Inr e" and img: "dget img ''export'' = Some (PDict x)"
    "dget img ''filter'' = Some (PDict flt)" "dget img ''format'' = Some (PDict fmt)"
    and nodes: "dget flt ''driver'' = Some drv" "dget flt ''node-name'' = Some fl" "dget fmt ''node-name'' = Some fm"
  shows "export_node name params img = Inr (dset ''export''
    (PDict (dupdate (dset ''node-name'' (if truthy drv then fl else fm) (dset ''id'' (PStr (''id_'' @ name)) x)) e))
    (dset ''export'' (PDict (dset ''node-name'' (if truthy drv then fl else fm) (dset ''id'' (PStr (''id_'' @ name)) x)))
    (dset ''export'' (PDict (dset ''id'' (PStr (''id_'' @ name)) x)) img)))"
  using assms by (simp add: export_node_def set_at_def update_at_run at_run pindex_PDict dupdate_def)

lemma vhost_user_address:
  assumes "dget img ''export'' = Some (PDict x)" "dget x ''type'' = Some (PStr ''vhost-user-blk'')"
    "dget img ''unix'' = Some (PDict [(''type'', PStr ''unix''), (''path'', p)])"
  shows "\<exists>img'. export_address dir qsd name params img = Inr img'
    \<and> dget img' ''export'' = Some (PDict (dset ''addr'' (PDict [(''type'', PStr ''unix''), (''path'', PStr (vhost_user_socket dir qsd name))]) x))
    \<and> (\<forall>k. k \<notin> {''unix'', ''export''} \<longrightarrow> dget img' k = dget img k)"
  using assms by (simp add: export_address_def set_at_def update_at_run at_run pindex_PDict dupdate_def dindex_def)

text \<open>Parsed options with distinct keys, none of which is a field that links the nodes.\<close>

definition keeps_links :: "pydict \<Rightarrow> bool" where
  "keeps_links d \<longleftrightarrow> dict_ok d \<and> list_all (\<lambda>k. dget d k = None) [''node-name'', ''file'']"

definition node_options :: "pydict \<Rightarrow> pydict \<Rightarrow> pydict \<Rightarrow> pydict \<Rightarrow> pydict \<Rightarrow> bool" where
  "node_options params p f l e \<longleftrightarrow> json_options params p f l e \<and> list_all keeps_links [p, f, l, e]
     \<and> dget e ''type'' = Some (PStr ''vhost-user-blk'')"

lemma vhost_user_image:
  assumes "node_options params p f l e"
  shows "\<exists>img x flt fmt prot. image_props env dir qsd name params = Inr img
    \<and> dget img ''export'' = Some (PDict x) \<and> dget img ''filter'' = Some (PDict flt) \<and> dget img ''format'' = Some (PDict fmt)
    \<and> dget img ''protocol'' = Some (PDict prot)
    \<and> dget prot ''node-name'' = Some (PStr (''prot_'' @ name))
    \<and> dget fmt ''node-name'' = Some (PStr (''fmt_'' @ name)) \<and> dget fmt ''file'' = Some (PStr (''prot_'' @ name))
    \<and> dget flt ''node-name'' = Some (PStr (''flt_'' @ name)) \<and> dget flt ''file'' = Some (PStr (''fmt_'' @ name))
    \<and> dget flt ''driver'' = Some (dget_default l ''driver'' PNone)
    \<and> dget x ''node-name'' = Some (PStr ((if truthy (dget_default l ''driver'' PNone) then ''flt_'' else ''fmt_'') @ name))
    \<and> dget x ''addr'' = Some (PDict [(''type'', PStr ''unix''), (''path'', PStr (vhost_user_socket dir qsd name))])"
proof -
  have j: "json_options params p f l e" and ok: "dict_ok p" "dict_ok f" "dict_ok l" "dict_ok e"
    and none: "dget p ''node-name'' = None" "dget f ''node-name'' = None" "dget f ''file'' = None" "dget l ''node-name'' = None"
      "dget l ''file'' = None" "dget e ''node-name'' = None" and ty: "dget e ''type'' = Some (PStr ''vhost-user-blk'')"
    using assms by (auto simp: node_options_def keeps_links_def)
  let ?drv = "dget_default l ''driver'' PNone"
  obtain b where b: "block_nodes env name params = Inr b" using block_nodes_run[OF j] by blast
  note bb = b[unfolded block_nodes_run[OF j] sum.inject]
  obtain flt fmt prot where nodes: "dget b ''filter'' = Some (PDict flt)" "dget b ''format'' = Some (PDict fmt)"
      "dget b ''protocol'' = Some (PDict prot)"
    and flt: "dget flt ''driver'' = Some ?drv" "dget flt ''node-name'' = Some (PStr (''flt_'' @ name))"
      "dget flt ''file'' = Some (PStr (''fmt_'' @ name))"
    and fmt: "dget fmt ''node-name'' = Some (PStr (''fmt_'' @ name))" "dget fmt ''file'' = Some (PStr (''prot_'' @ name))"
    and prot: "dget prot ''node-name'' = Some (PStr (''prot_'' @ name))"
    and rest: "dget b ''export'' = Some (PDict [(''type'', PStr []), (''id'', PStr []), (''node-name'', PStr []), (''writable'', PBool True)])"
      "dget b ''unix'' = Some (PDict [(''type'', PStr ''unix''), (''path'', PStr ''tbd'')])"
    unfolding bb[symmetric] using ok none
    by (simp add: dget_dupdate dget_default_def raw_image_data_def split: option.split)
  obtain i x where i: "export_node name params b = Inr i" "dget i ''export'' = Some (PDict x)"
      "dget x ''type'' = Some (PStr ''vhost-user-blk'')"
      "dget x ''node-name'' = Some (PStr ((if truthy ?drv then ''flt_'' else ''fmt_'') @ name))"
      "\<And>k. k \<noteq> ''export'' \<Longrightarrow> dget i k = dget b k"
    using export_node_run[OF _ rest(1) nodes(1,2) flt(1,2) fmt(1), of params e name] j ok none ty
    by (simp add: json_options_def dget_dupdate)
  obtain img where img: "export_address dir qsd name params i = Inr img"
    "dget img ''export'' = Some (PDict (dset ''addr'' (PDict [(''type'', PStr ''unix''), (''path'', PStr (vhost_user_socket dir qsd name))]) x))"
    "\<And>k. k \<notin> {''unix'', ''export''} \<Longrightarrow> dget img k = dget b k"
    using vhost_user_address[OF i(2,3), of "PStr ''tbd''" dir qsd name params] rest(2) i(5) by auto
  show ?thesis using b i img nodes flt fmt prot by (simp add: image_props_def)
qed

text \<open>
  The block graph of an image that is exported as a vhost-user disk, when the options of the test leave the
  names of the nodes alone: the format node sits on the protocol node, the filter on the format node, the export serves the filter if
  there is a driver for it and the format node otherwise, and the export listens on the very socket that the character
  device of a guest connects to, provided the guest finds this daemon for the image.
\<close>

lemma vhost_user_image_wired:
  assumes "node_options (obj_params env name) p f l e" and d: "QsdDaemonDev env qsd w = Inr d"
    and g: "get_qsd_name_by_image env name params = Inr (Some qsd)" "qsd \<noteq> []"
    and c: "create_vubp_devices env vm name params bus w' = (Inr devs, w'')"
  shows "\<exists>img sock. image_props env (basedir d) (qsd_name d) name (obj_params env name) = Inr img
    \<and> at ''format'' ''file'' img = at ''protocol'' ''node-name'' img
    \<and> at ''filter'' ''file'' img = at ''format'' ''node-name'' img
    \<and> at ''export'' ''node-name'' img
        = (if truthy (dget_default l ''driver'' PNone) then at ''filter'' ''node-name'' img else at ''format'' ''node-name'' img)
    \<and> at ''export'' ''addr'' img = Inr (PDict [(''type'', PStr ''unix''), (''path'', PStr sock)])
    \<and> hd devs = CharDevice (''char_qsd_'' @ qsd) sock"
proof -
  have dir: "basedir d = guest_basedir env qsd" "qsd_name d = qsd"
    using d by (auto simp: QsdDaemonDev_def Let_def guest_basedir_def split: prod.splits sum.splits)
  have "hd devs = CharDevice (''char_qsd_'' @ qsd) (vhost_user_socket (guest_basedir env qsd) qsd name)"
    using c g by (auto simp: create_vubp_devices_def vubp_devices_def Let_def lift_res_def ret_def elim!: bnd_InrE rbind_InrE)
  then show ?thesis using vhost_user_image[OF assms(1), of env "basedir d" "qsd_name d" name] dir
    by (auto simp: at_run pindex_PDict)
qed

definition demo_export :: string where
  "demo_export = dumps (PDict [(''type'', PStr ''vhost-user-blk'')])"

definition demo_qsd_params :: pydict where
  "demo_qsd_params = [(''qsd_namespaces'', PStr ''q1''), (''qsd_images'', PStr ''stg''), (''drive_format_stg'', PStr ''vhost-user-blk-pci''),
     (''qsd_image_export'', PStr demo_export), (''image_format'', PStr ''qcow2''), (''images'', PStr ''stg other'')]"

text \<open>The world of the demonstration is the list of the images that were removed.\<close>

definition demo_qsd_env :: "string list qsd_env" where
  "demo_qsd_env = \<lparr>obj_params = (\<lambda>_. demo_qsd_params), image_filename = (\<lambda>_. ''/d/stg.qcow2''), data_dir = ''/d'',
     shell_output = (\<lambda>_ w. (Inr [], w)), shell_status = (\<lambda>_ w. (Inr 0, w)), kill_process_tree = (\<lambda>_ _ w. (Inr (), w)),
     popen_wait = (\<lambda>_ w. (Inr 0, w)), base_start_daemon = (\<lambda>_ w. (Inr (), w)), base_is_daemon_alive = (\<lambda>w. (Inr True, w)),
     base_stop_daemon = (\<lambda>w. (Inr (), w)), daemon_output = (\<lambda>w. (Inr [], w)), close_daemon_process = (\<lambda>w. (Inr (), w)),
     daemon_process_pid = (\<lambda>_. Some ''x''), qemu_img_creates = (\<lambda>_ w. (Inr 0, w)), qemu_img_removes = (\<lambda>n w. (Inr (), w @ [n])),
     open_monitor = (\<lambda>w. (Inr (), w)), monitor_quit = (\<lambda>w. (Inl (OtherError ''MonitorError'' []), w)), make_dirs = (\<lambda>_ w. (Inr (), w)),
     run_ignoring_status = (\<lambda>_ w. (Inr ''qemu-storage-daemon version 9'', w))\<rparr>"

lemma nbd_image:
  assumes j: "json_options params p f l e" and ok: "dict_ok f" "dict_ok l" "dict_ok e"
    and ty: "dget e ''type'' = Some (PStr ''nbd'')" and none: "dget f ''node-name'' = None" "dget l ''node-name'' = None"
  shows "\<exists>i x. image_props env dir qsd name params = nbd_address dir qsd name params i \<and> dget i ''export'' = Some (PDict x)
    \<and> dget i ''unix'' = Some (PDict [(''type'', PStr ''unix''), (''path'', PStr ''tbd'')])
    \<and> dget i ''nbd-server'' = Some (PDict [(''addr'', PDict [])])"
proof -
  obtain b where b: "block_nodes env name params = Inr b" using block_nodes_run[OF j] by blast
  obtain flt fmt where nodes: "dget b ''filter'' = Some (PDict flt)" "dget b ''format'' = Some (PDict fmt)"
      "dget flt ''driver'' = Some (dget_default l ''driver'' PNone)" "dget flt ''node-name'' = Some (PStr (''flt_'' @ name))"
      "dget fmt ''node-name'' = Some (PStr (''fmt_'' @ name))"
    and rest: "dget b ''export'' = Some (PDict [(''type'', PStr []), (''id'', PStr []), (''node-name'', PStr []), (''writable'', PBool True)])"
      "dget b ''unix'' = Some (PDict [(''type'', PStr ''unix''), (''path'', PStr ''tbd'')])"
      "dget b ''nbd-server'' = Some (PDict [(''addr'', PDict [])])"
    unfolding b[unfolded block_nodes_run[OF j] sum.inject, symmetric] using ok none
    by (simp add: dget_dupdate dget_default_def raw_image_data_def split: option.split)
  obtain i x where i: "export_node name params b = Inr i" "dget i ''export'' = Some (PDict x)" "dget x ''type'' = Some (PStr ''nbd'')"
      "\<And>k. k \<noteq> ''export'' \<Longrightarrow> dget i k = dget b k"
    using export_node_run[OF _ rest(1) nodes(1,2,3,4,5), of params e name] j ok ty by (simp add: json_options_def dget_dupdate)
  have "image_props env dir qsd name params = nbd_address dir qsd name params i"
    using b i by (simp add: image_props_def export_address_def at_run pindex_PDict)
  then show ?thesis using i(2,4) rest by auto
qed

lemma default_nbd_addr_invalid: "loads default_nbd_addr = None"
  by code_simp

text \<open>
  An NBD export over a unix socket never gets the default socket of the daemon: without
  an address parameter the default of the parameter is not valid JSON and the properties of the image cannot be built, and an address
  of type \<^verbatim>\<open>unix\<close> without a path keeps the placeholder path of the template, because the placeholder counts as a path.
\<close>

lemma nbd_unix_export_broken:
  assumes "json_options params p f l e" "dict_ok f" "dict_ok l" "dict_ok e" "dget e ''type'' = Some (PStr ''nbd'')"
    "dget f ''node-name'' = None" "dget l ''node-name'' = None"
  shows "(dget params ''qsd_image_export_nbd'' = None \<longrightarrow> image_props env dir qsd name params = Inl (ValueError ''JSONDecodeError''))
    \<and> (json_param params ''qsd_image_export_nbd'' default_nbd_addr = Inr [(''type'', PStr ''unix'')] \<longrightarrow>
       (\<exists>img. image_props env dir qsd name params = Inr img
          \<and> at ''nbd-server'' ''addr'' img = Inr (PDict [(''type'', PStr ''unix''), (''path'', PStr ''tbd'')])))"
proof -
  obtain i x where i: "image_props env dir qsd name params = nbd_address dir qsd name params i" "dget i ''export'' = Some (PDict x)"
    "dget i ''unix'' = Some (PDict [(''type'', PStr ''unix''), (''path'', PStr ''tbd'')])"
    "dget i ''nbd-server'' = Some (PDict [(''addr'', PDict [])])"
    using nbd_image[OF assms, of env dir qsd name] by blast
  have "image_props env dir qsd name params = Inl (ValueError ''JSONDecodeError'')" if "dget params ''qsd_image_export_nbd'' = None"
    using that i by (simp add: nbd_address_def set_at_def update_at_run json_param_def dget_default_def default_nbd_addr_invalid)
  moreover have "\<exists>img. image_props env dir qsd name params = Inr img
          \<and> at ''nbd-server'' ''addr'' img = Inr (PDict [(''type'', PStr ''unix''), (''path'', PStr ''tbd'')])"
    if "json_param params ''qsd_image_export_nbd'' default_nbd_addr = Inr [(''type'', PStr ''unix'')]"
    using that i
    by (simp add: nbd_address_def set_at_def update_at_run at_run pindex_PDict dindex_def str_of_def dupdate_def)
  ultimately show ?thesis by blast
qed

section \<open>Stopping\<close>

text \<open>The images the daemon has made itself and may remove.\<close>

definition own_images :: "'w qsd_env \<Rightarrow> (string \<times> pydict) list \<Rightarrow> string list" where
  "own_images env imgs =
     [n. (n, img) \<leftarrow> imgs, dget img ''image_object'' = Some (PStr n), n \<noteq> [],
         dget_default (obj_params env n) ''qsd_remove_image'' (PStr ''yes'') \<noteq> PStr ''no'']"

definition owned_or_not :: "string \<times> pydict \<Rightarrow> bool" where
  "owned_or_not entry \<longleftrightarrow> dget (snd entry) ''image_object'' \<in> {Some PNone, Some (PStr (fst entry))}"

definition remove_all :: "'w qsd_env \<Rightarrow> string list \<Rightarrow> 'w \<Rightarrow> 'w" where
  "remove_all env = fold (\<lambda>n w. snd (qemu_img_removes env n w))"

lemma remove_image_run:
  assumes "\<And>n w. fst (qemu_img_removes env n w) = Inr ()" "owned_or_not entry"
  shows "remove_image env entry s = (Inr (), s\<lparr>qworld := remove_all env (own_images env [entry]) (qworld s)\<rparr>)"
  using assms(2) assms(1)[of "fst entry" "qworld s"]
  by (cases "qemu_img_removes env (fst entry) (qworld s)")
    (auto simp: remove_image_def owned_or_not_def own_images_def remove_all_def dindex_def on_qsd_def ret_def str_of_def split: prod.splits)

lemma remove_images_run:
  assumes ok: "\<And>n w. fst (qemu_img_removes env n w) = Inr ()" and "list_all owned_or_not imgs"
  shows "for_each imgs (remove_image env) s = (Inr (), s\<lparr>qworld := remove_all env (own_images env imgs) (qworld s)\<rparr>)"
  using assms(2)
proof (induction imgs arbitrary: s)
  case Nil
  then show ?case by (simp add: remove_all_def own_images_def ret_def)
next
  case (Cons x xs)
  have "own_images env (x # xs) = own_images env [x] @ own_images env xs" by (simp add: own_images_def)
  with Cons show ?case by (simp add: bnd_def remove_image_run[OF ok] remove_all_def)
qed

lemma on_qsd_images: "qsd_images (snd (on_qsd m s)) = qsd_images s"
  by (simp add: on_qsd_def split: prod.split)

text \<open>Shutting down leaves the table of images alone.\<close>

abbreviation same_images :: "'w qsd \<Rightarrow> 'w qsd \<Rightarrow> bool" where
  "same_images s t \<equiv> qsd_images t = qsd_images s"

interpretation qsd_images: state_relation same_images
  by unfold_locales auto

lemma on_qsd_keeps: "moves same_images (on_qsd f)"
  by (rule movesI) (rule on_qsd_images)

lemmas keeps_intros = qsd_images.composed on_qsd_keeps

lemma is_daemon_alive_keeps: "moves same_images (is_daemon_alive env)"
  unfolding is_daemon_alive_def by (intro keeps_intros)

lemma is_down_keeps: "moves same_images (is_down env)"
  unfolding is_down_def by (intro keeps_intros is_daemon_alive_keeps)

lemma kill_pid_keeps: "moves same_images (kill_pid env p sig)"
  unfolding kill_pid_def by (intro keeps_intros)

lemma quit_keeps:
  assumes "\<And>m. moves same_images m \<Longrightarrow> moves same_images (wait m)"
  shows "moves same_images (quit_by_monitor env wait)"
proof -
  have "moves same_images (\<lambda>s. case on_qsd (monitor_quit env) s of
            (Inr _, s') \<Rightarrow> wait (is_down env) s'
          | (Inl e, s') \<Rightarrow> (case e of KeyboardInterrupt \<Rightarrow> (Inl e, s') | SystemExit _ \<Rightarrow> (Inl e, s') | _ \<Rightarrow> is_down env s'))"
  proof (rule movesI)
    fix s
    obtain r s1 where r: "on_qsd (monitor_quit env) s = (r, s1)" by fastforce
    then have "qsd_images s1 = qsd_images s" using on_qsd_images[of "monitor_quit env" s] by simp
    moreover have "qsd_images (snd (wait (is_down env) s1)) = qsd_images s1" "qsd_images (snd (is_down env s1)) = qsd_images s1"
      using assms[OF is_down_keeps[of env]] is_down_keeps[of env] by (auto simp: moves_def)
    ultimately show "qsd_images (snd (case on_qsd (monitor_quit env) s of
            (Inr _, s') \<Rightarrow> wait (is_down env) s'
          | (Inl e, s') \<Rightarrow> (case e of KeyboardInterrupt \<Rightarrow> (Inl e, s') | SystemExit _ \<Rightarrow> (Inl e, s') | _ \<Rightarrow> is_down env s'))) = qsd_images s"
      by (simp add: r split: sum.split exc.split)
  qed
  then show ?thesis unfolding quit_by_monitor_def by (intro keeps_intros)
qed

lemma zombie_keeps: "(case e of RuntimeError _ \<Rightarrow> Some (ret ()) | _ \<Rightarrow> None) = Some h \<Longrightarrow> moves same_images h"
  by (cases e) (auto simp: qsd_images.unchanged)

lemma destroy_keeps: "(\<And>m. moves same_images m \<Longrightarrow> moves same_images (wait m)) \<Longrightarrow> moves same_images (destroy env wait)"
  unfolding destroy_def get_pid_def
  by (intro qsd_images.seq moves_cases qsd_images.unchanged(1,3) is_daemon_alive_keeps quit_keeps qsd_images.handled kill_pid_keeps) (auto intro: zombie_keeps)

text \<open>
  C10. Stopping the daemon, whatever happens while it is shut down: afterwards exactly the images that the daemon
  has created itself, and that the test does not want to keep, are removed, in the order in which they were added, and the outcome of the
  shutdown is passed on, an exception included.  Assumed: removing an image does not fail, and waiting only polls.
\<close>

theorem stop_removes_own_images:
  assumes "\<And>n w. fst (qemu_img_removes env n w) = Inr ()" and "list_all owned_or_not (qsd_images s)"
    and wait: "\<And>m. moves same_images m \<Longrightarrow> moves same_images (wait m)"
  shows "\<exists>r s1. bnd (destroy env wait) (\<lambda>_. on_qsd (base_stop_daemon env)) s = (r, s1)
    \<and> stop_daemon env wait s = (r, s1\<lparr>qworld := remove_all env (own_images env (qsd_images s)) (qworld s1)\<rparr>)"
proof -
  obtain r s1 where r: "bnd (destroy env wait) (\<lambda>_. on_qsd (base_stop_daemon env)) s = (r, s1)" by fastforce
  have "moves same_images (bnd (destroy env wait) (\<lambda>_. on_qsd (base_stop_daemon env)))"
    by (intro qsd_images.seq destroy_keeps on_qsd_keeps wait)
  then have "qsd_images s1 = qsd_images s" using r by (rule movesD)
  then show ?thesis using r remove_images_run[OF assms(1,2), of s1] assms(2)
    by (simp add: stop_daemon_def try_finally_def remove_images_def bnd_def[of "gets _"] gets_def)
qed

definition demo_qsd :: "string list qsd" where
  "demo_qsd = \<lparr>qworld = [], qsd_name = ''q1'', basedir = ''/d'', binary = [], sock_path = [], qsd_monitor_id = [], qsd_params = demo_qsd_params,
     cap_daemonize = True, cap_pidfile = True,
     qsd_images = [(''stg'', [(''image_object'', PStr ''stg'')]), (''other'', [(''image_object'', PNone)])],
     daemonize = False, pidfile = None, pid = None, has_monitor = True\<rparr>"

theorem stop_removes_own_images_witness:
  "\<exists>s'. stop_daemon demo_qsd_env (\<lambda>m. m) demo_qsd = (Inl (ValueError ''x''), s') \<and> qworld s' = [''stg'']"
proof -
  have "fst (bnd (destroy demo_qsd_env (\<lambda>m. m)) (\<lambda>_. on_qsd (base_stop_daemon demo_qsd_env)) demo_qsd) = Inl (ValueError ''x'')
    \<and> remove_all demo_qsd_env (own_images demo_qsd_env (qsd_images demo_qsd))
        (qworld (snd (bnd (destroy demo_qsd_env (\<lambda>m. m)) (\<lambda>_. on_qsd (base_stop_daemon demo_qsd_env)) demo_qsd))) = [''stg'']"
    by code_simp
  moreover have "list_all owned_or_not (qsd_images demo_qsd)" by code_simp
  ultimately show ?thesis using stop_removes_own_images[of demo_qsd_env demo_qsd "\<lambda>m. m"]
    by (auto simp: demo_qsd_env_def)
qed

end
