(* ===== verification/Block_Plug.thy ===== *)
theory Block_Plug
  imports Vm_Env State_Relation "HOL-Library.List_Lexorder" "HOL-Library.Char_ord" "HOL-Library.Multiset"
begin

text \<open>
  Plugging block devices into a running machine and out of it (\<^verbatim>\<open>provider/block_devices_plug.py\<close>): the devices of an image and their order,
  the retries while a monitor is locked, the check of the monitor's answers, of the disks of the guest and of the deletion events, and
  the threads that share the work.  Devices, buses and the device container of the machine belong to the framework; they are the
  type variables \<open>'d\<close>, \<open>'b\<close> and \<open>'p\<close> and the fields of \<open>plug_env\<close>, which act on the state \<open>'w\<close> of the machine.
\<close>

section \<open>State and environment\<close>

datatype plug_action = HOTPLUG | UNPLUG
datatype dev_media = DISK | CDROM

text \<open>
  The last two fields are the tables of the module, shared by all the objects; an output of the monitor is kept with the
  verdict of its verification, which may be neither true nor false.
\<close>

record ('d, 'w) plug =
  machine :: 'w
  imgs :: "string list"
  hotplugged_devs :: "(string \<times> 'd list) list"
  unplugged_devs :: "(string \<times> 'd list) list"
  plugged_disks :: "string list"
  all_disks :: "string set"
  event_devs :: "string list"
  dev_type :: dev_media
  plug_timeout :: int
  HOTPLUGGED_HBAS :: "(string \<times> 'd) list"
  QMP_OUTPUT :: "(string \<times> pyval \<times> pyval) list"

text \<open>
  \<open>insert_device\<close> returns the length of the list that the container returns, or nothing when that is not a list;
  \<open>wait_until\<close> is the polling function of the framework, with its timeout.
\<close>

record ('d, 'b, 'p, 'w) plug_env =
  vm_images :: "string option"
  vm_cdroms :: "string option"
  vm_os_type :: string
  login :: "'w \<Rightarrow> unit res \<times> 'w"
  linux_disks :: "'w \<Rightarrow> string list res \<times> 'w"
  session_cmd :: "string \<Rightarrow> 'w \<Rightarrow> string res \<times> 'w"
  session_close :: "'w \<Rightarrow> unit res \<times> 'w"
  qid :: "'d \<Rightarrow> string"
  is_qdevice :: "'d \<Rightarrow> bool"
  is_qobject :: "'d \<Rightarrow> bool"
  dev_param :: "'d \<Rightarrow> string \<Rightarrow> 'w \<Rightarrow> string option"
  is_pci :: "'d \<Rightarrow> 'w \<Rightarrow> bool"
  parent_buses :: "'d \<Rightarrow> 'w \<Rightarrow> 'p list"
  pci0 :: 'p
  buses_of :: "'p \<Rightarrow> 'w \<Rightarrow> 'b list"
  bus_item :: "'b \<Rightarrow> string"
  busid :: "'b \<Rightarrow> string option"
  bus_aobject :: "'b \<Rightarrow> string"
  bus_length :: "'b \<Rightarrow> 'w \<Rightarrow> nat"
  bus_true :: "'b \<Rightarrow> 'w \<Rightarrow> bool"
  define_devices :: "dev_media \<Rightarrow> string \<Rightarrow> string \<Rightarrow> 'w \<Rightarrow> 'd list res \<times> 'w"
  in_devices :: "'d \<Rightarrow> 'w \<Rightarrow> bool"
  all_devices :: "'w \<Rightarrow> 'd list"
  lookup_device :: "'d \<Rightarrow> 'w \<Rightarrow> 'd res"
  node_of_drive :: "string \<Rightarrow> 'w \<Rightarrow> 'd res"
  set_dirty :: "'w \<Rightarrow> 'w"
  set_clean :: "'w \<Rightarrow> 'w"
  prepare_hotplug :: "'b \<Rightarrow> 'd \<Rightarrow> 'w \<Rightarrow> unit res \<times> 'w"
  insert_device :: "'d \<Rightarrow> 'w \<Rightarrow> nat option res \<times> 'w"
  remove_device :: "'d \<Rightarrow> bool \<Rightarrow> 'w \<Rightarrow> unit res \<times> 'w"
  remove_drive :: "string \<Rightarrow> 'w \<Rightarrow> unit res \<times> 'w"
  dev_hotplug :: "'d \<Rightarrow> string \<Rightarrow> 'w \<Rightarrow> pyval res \<times> 'w"
  dev_unplug :: "'d \<Rightarrow> string \<Rightarrow> 'w \<Rightarrow> pyval res \<times> 'w"
  verify_hotplug :: "'d \<Rightarrow> pyval \<Rightarrow> string \<Rightarrow> 'w \<Rightarrow> pyval res \<times> 'w"
  verify_unplug :: "'d \<Rightarrow> pyval \<Rightarrow> string \<Rightarrow> 'w \<Rightarrow> pyval res \<times> 'w"
  unplug_hook :: "'d \<Rightarrow> 'w \<Rightarrow> unit res \<times> 'w"
  unplug_unhook :: "'d \<Rightarrow> 'w \<Rightarrow> unit res \<times> 'w"
  blockdev_capability :: bool
  child_nodes :: "'d \<Rightarrow> 'w \<Rightarrow> 'd list"
  parent_node :: "'d \<Rightarrow> 'w \<Rightarrow> 'd option"
  del_child_node :: "'d \<Rightarrow> 'd \<Rightarrow> 'w \<Rightarrow> unit res \<times> 'w"
  now_ms :: "'w \<Rightarrow> int \<times> 'w"
  pause_for :: "int \<Rightarrow> 'w \<Rightarrow> unit res \<times> 'w"
  plug_events :: "'w \<Rightarrow> pyval list res \<times> 'w"
  clear_event :: "string \<Rightarrow> 'w \<Rightarrow> unit res \<times> 'w"
  wait_until :: "int \<Rightarrow> (('d, 'w) plug, bool) py \<Rightarrow> (('d, 'w) plug, bool) py"
  monitors :: "string list"
  main_monitor :: string
  cpu_count :: nat
  lock_fuel :: nat

definition on_machine :: "('w, 'a) py \<Rightarrow> (('d, 'w) plug, 'a) py" where
  "on_machine f s = (case f (machine s) of (r, w) \<Rightarrow> (r, s\<lparr>machine := w\<rparr>))"

definition MonitorLockError :: exc where "MonitorLockError = OtherError ''MonitorLockError'' []"
definition DeviceError :: "string \<Rightarrow> exc" where "DeviceError m = OtherError ''DeviceError'' m"
definition DeviceHotplugError :: exc where "DeviceHotplugError = OtherError ''DeviceHotplugError'' []"
definition DeviceUnplugError :: exc where "DeviceUnplugError = OtherError ''DeviceUnplugError'' []"
definition OutOfFuel :: exc where "OutOfFuel = OtherError ''OutOfFuel'' []"

definition is_device_error :: "exc \<Rightarrow> bool" where
  "is_device_error e \<longleftrightarrow>
     (case e of OtherError c _ \<Rightarrow> c \<in> {''DeviceError'', ''DeviceHotplugError'', ''DeviceUnplugError''} | _ \<Rightarrow> False)"

definition is_key_error :: "exc \<Rightarrow> bool" where
  "is_key_error e = (case e of KeyError _ \<Rightarrow> True | _ \<Rightarrow> False)"

definition BlockDevicesPlug ::
    "('d, 'b, 'p, 'w) plug_env \<Rightarrow> (string \<times> 'd) list \<Rightarrow> (string \<times> pyval \<times> pyval) list \<Rightarrow> 'w \<Rightarrow> ('d, 'w) plug res" where
  "BlockDevicesPlug env hbas outs w =
     (case vm_images env of
        None \<Rightarrow> Inl (AttributeError ''split'')
      | Some is \<Rightarrow> Inr \<lparr>machine = w, imgs = tl (split_ws is), hotplugged_devs = [], unplugged_devs = [], plugged_disks = [],
          all_disks = {}, event_devs = [], dev_type = DISK, plug_timeout = 300, HOTPLUGGED_HBAS = hbas, QMP_OUTPUT = outs\<rparr>)"

section \<open>Disks of the guest\<close>

definition LIST_DISKS_WIN :: string where "LIST_DISKS_WIN = ''wmic diskdrive get index''"

definition list_all_disks :: "('d, 'b, 'p, 'w) plug_env \<Rightarrow> (('d, 'w) plug, string set) py" where
  "list_all_disks env =
     bnd (on_machine (login env)) (\<lambda>_.
     bnd (if vm_os_type env = ''linux'' then on_machine (linux_disks env)
          else bnd (on_machine (session_cmd env LIST_DISKS_WIN)) (\<lambda>out. ret (tl (split_ws out)))) (\<lambda>ds.
     bnd (modify (\<lambda>s. s\<lparr>all_disks := set ds\<rparr>)) (\<lambda>_.
     bnd (on_machine (session_close env)) (\<lambda>_. ret (set ds)))))"

definition changed :: "string set \<Rightarrow> string set \<Rightarrow> string set" where
  "changed a b = (a - b) \<union> (b - a)"

definition disk_name :: "string \<Rightarrow> string" where
  "disk_name d = last (split_char (CHR ''/'') d)"

definition disks_command :: "string \<Rightarrow> string" where
  "disks_command os = (if os = ''windows''
     then ''wmic logicaldisk get drivetype,name,description & wmic diskdrive list brief /format:list'' else ''lsblk -a'')"

definition action_str :: "plug_action \<Rightarrow> string" where
  "action_str a = (case a of HOTPLUG \<Rightarrow> ''hotplug'' | UNPLUG \<Rightarrow> ''unplug'')"

definition changed_enough :: "('d, 'b, 'p, 'w) plug_env \<Rightarrow> string set \<Rightarrow> (('d, 'w) plug, bool) py" where
  "changed_enough env orig =
     bnd (gets imgs) (\<lambda>is. bnd (list_all_disks env) (\<lambda>now. ret (length is = card (changed now orig))))"

definition wrong_number :: "('d, 'b, 'p, 'w) plug_env \<Rightarrow> plug_action \<Rightarrow> string set \<Rightarrow> (('d, 'w) plug, 'a) py" where
  "wrong_number env action orig =
     bnd (on_machine (login env)) (\<lambda>_.
     bnd (on_machine (session_cmd env (disks_command (vm_os_type env)))) (\<lambda>_.
     bnd (on_machine (session_close env)) (\<lambda>_.
     bnd (gets (\<lambda>s. (card (changed (all_disks s) orig), length (imgs s)))) (\<lambda>(n, m).
       throw (TestError (action_str action @ ''--> Actual: '' @ int_str (int n) @ '' disks. Expected: '' @ int_str (int m) @ '' disks.''))))))"

text \<open>The decorator of the public operations.\<close>

definition verify_plugged_num ::
    "('d, 'b, 'p, 'w) plug_env \<Rightarrow> plug_action \<Rightarrow> (('d, 'w) plug, 'a) py \<Rightarrow> (('d, 'w) plug, 'a) py" where
  "verify_plugged_num env action func =
     bnd (list_all_disks env) (\<lambda>orig.
     bnd func (\<lambda>result.
     bnd (gets (\<lambda>s. s)) (\<lambda>s.
       if dev_type s = CDROM \<or> (\<exists>(_, dev) \<in> set (HOTPLUGGED_HBAS s). dev_param env dev ''hotplug'' (machine s) = Some ''off'') then ret result
       else
         bnd (wait_until env (plug_timeout s) (changed_enough env orig)) (\<lambda>ok.
           if \<not> ok then wrong_number env action orig
           else bnd (modify (\<lambda>s. s\<lparr>plugged_disks := sort (map disk_name (sorted_list_of_set (changed (all_disks s) orig)))\<rparr>))
                  (\<lambda>_. ret result)))))"

section \<open>Answers of the monitor\<close>

definition output_error :: "plug_action \<Rightarrow> string \<Rightarrow> pyval \<Rightarrow> exc" where
  "output_error action dev_id out =
     (let err = ''Failed to '' @ action_str action @ '' device '' @ dev_id @ ''. '' in
      if \<not> truthy out \<and> action = UNPLUG then TestError (err @ ''No deleted event generated and '' @ dev_id @ '' still in qtree'')
      else (case out of PStr o1 \<Rightarrow> TestError (err @ o1) | _ \<Rightarrow> TypeError ''can only concatenate str''))"

text \<open>The outputs are taken from the table one by one; the first failure leaves the rest in it.\<close>

fun check_outputs :: "plug_action \<Rightarrow> (string \<times> pyval \<times> pyval) list \<Rightarrow> unit res \<times> (string \<times> pyval \<times> pyval) list" where
  "check_outputs action [] = (Inr (), [])"
| "check_outputs action ((dev_id, out, ver) # rest) =
     (if ver = PBool False then (Inl (output_error action dev_id out), rest) else check_outputs action rest)"

definition check_qmp_outputs :: "plug_action \<Rightarrow> (('d, 'w) plug, unit) py" where
  "check_qmp_outputs action s = (case check_outputs action (QMP_OUTPUT s) of (r, rest) \<Rightarrow> (r, s\<lparr>QMP_OUTPUT := rest\<rparr>))"

section \<open>Deletion events\<close>

definition DELETED_EVENT :: string where "DELETED_EVENT = ''DEVICE_DELETED''"

text \<open>\<open>x in v\<close> for a string \<open>x\<close>, and the device whose deletion an event announces.\<close>

definition str_in :: "string \<Rightarrow> pyval \<Rightarrow> bool res" where
  "str_in x v =
     (case v of
        PStr t \<Rightarrow> Inr (sublist x t)
      | PList xs \<Rightarrow> Inr (PStr x \<in> set xs)
      | PDict kv \<Rightarrow> Inr (din x kv)
      | _ \<Rightarrow> Inl (TypeError ''argument is not iterable''))"

definition deleted_device :: "pyval \<Rightarrow> pyval option res" where
  "deleted_device event =
     rbind (rbind (py_get event ''event'' PNone) (str_in DELETED_EVENT)) (\<lambda>is_deletion.
       if \<not> is_deletion then Inr None
       else rbind (py_get event ''data'' PNone) (\<lambda>d.
         rbind (str_in ''device'' d) (\<lambda>has_device.
           if has_device then rbind (pindex d ''device'') (\<lambda>name. Inr (Some name)) else Inr None)))"

fun scan_deleted :: "pyval list \<Rightarrow> string list \<Rightarrow> unit res \<times> string list" where
  "scan_deleted [] devs = (Inr (), devs)"
| "scan_deleted (e # es) devs =
     (case deleted_device e of
        Inl x \<Rightarrow> (Inl x, devs)
      | Inr (Some (PStr name)) \<Rightarrow> scan_deleted es (remove1 name devs)
      | Inr _ \<Rightarrow> scan_deleted es devs)"

definition get_events_deleted :: "('d, 'b, 'p, 'w) plug_env \<Rightarrow> (('d, 'w) plug, bool) py" where
  "get_events_deleted env =
     bnd (modify (\<lambda>s. s\<lparr>event_devs := map fst (unplugged_devs s)\<rparr>)) (\<lambda>_.
     bnd (on_machine (plug_events env)) (\<lambda>es.
     bnd (\<lambda>s. case scan_deleted es (event_devs s) of (r, devs) \<Rightarrow> (r, s\<lparr>event_devs := devs\<rparr>)) (\<lambda>_.
     bnd (on_machine (clear_event env DELETED_EVENT)) (\<lambda>_. gets (\<lambda>s. event_devs s = [])))))"

definition wait_events_deleted :: "('d, 'b, 'p, 'w) plug_env \<Rightarrow> int \<Rightarrow> (('d, 'w) plug, unit) py" where
  "wait_events_deleted env timeout =
     bnd (wait_until env timeout (get_events_deleted env)) (\<lambda>ok.
       if ok then ret ()
       else bnd (gets event_devs) (\<lambda>devs.
         throw (TestError (''No '' @ [CHR 0x22] @ ''DEVICE DELETED'' @ [CHR 0x22] @ '' event generated after unplug '' @ [CHR 0x22]
           @ join '';'' devs @ [CHR 0x22] @ ''.''))))"

section \<open>The devices of an image\<close>

definition first_part :: "string \<Rightarrow> string" where
  "first_part b = hd (split_char (CHR ''.'') b)"

definition insert_before_last :: "'d \<Rightarrow> 'd list \<Rightarrow> 'd list" where
  "insert_before_last d ds = (if ds = [] then [d] else butlast ds @ [d, last ds])"

text \<open>One device of the definition of an image, seen from the last to the first: the devices to plug, the bus of the disk and its adapter.\<close>

definition place_device ::
    "('d, 'b, 'p, 'w) plug_env \<Rightarrow> 'w \<Rightarrow> string \<Rightarrow> 'd \<Rightarrow> 'd list \<times> string option \<times> 'd option \<Rightarrow> 'd list \<times> string option \<times> 'd option" where
  "place_device env w img dev acc =
     (case acc of (devs, bus_name, hba) \<Rightarrow>
        if is_qobject env dev \<and> dev_param env dev ''backend'' w = Some ''secret'' \<and> startswith (qid env dev) (img @ ''_'') then
          (dev # devs, bus_name, hba)
        else if endswith (qid env dev) (''_'' @ img) \<or> qid env dev = img then
          (dev # devs,
           (case dev_param env dev ''bus'' w of
              Some b \<Rightarrow> if b = [] then bus_name else Some (first_part b)
            | None \<Rightarrow> bus_name),
           hba)
        else if bus_name = Some (qid env dev) \<and> \<not> in_devices env dev w then (insert_before_last dev devs, bus_name, Some dev)
        else (devs, bus_name, hba))"

definition image_devices :: "('d, 'b, 'p, 'w) plug_env \<Rightarrow> 'w \<Rightarrow> string \<Rightarrow> 'd list \<Rightarrow> 'd list \<times> string option \<times> 'd option" where
  "image_devices env w img created = fold (place_device env w img) (rev created) ([], None, None)"

definition create_image_devices :: "('d, 'b, 'p, 'w) plug_env \<Rightarrow> string \<Rightarrow> string \<Rightarrow> (('d, 'w) plug, unit) py" where
  "create_image_devices env aobject img =
     bnd (modify (\<lambda>s. s\<lparr>hotplugged_devs := dset img [] (hotplugged_devs s)\<rparr>)) (\<lambda>_.
     bnd (gets dev_type) (\<lambda>media.
     bnd (on_machine (define_devices env media img aobject)) (\<lambda>created.
     bnd (gets (\<lambda>s. image_devices env (machine s) img created)) (\<lambda>(devs, _, hba).
       modify (\<lambda>s. s\<lparr>hotplugged_devs := dset img devs (hotplugged_devs s),
         HOTPLUGGED_HBAS := (case hba of None \<Rightarrow> HOTPLUGGED_HBAS s | Some d \<Rightarrow> dset img d (HOTPLUGGED_HBAS s))\<rparr>)))))"

definition create_devices :: "('d, 'b, 'p, 'w) plug_env \<Rightarrow> string list \<Rightarrow> string \<Rightarrow> (('d, 'w) plug, unit) py" where
  "create_devices env images aobject =
     bnd (modify (\<lambda>s. s\<lparr>hotplugged_devs := []\<rparr>)) (\<lambda>_. for_each images (create_image_devices env aobject))"

section \<open>One device\<close>

definition ACQUIRE_LOCK_TIMEOUT :: int where "ACQUIRE_LOCK_TIMEOUT = 20000"
definition VERIFY_UNPLUG_TIMEOUT :: int where "VERIFY_UNPLUG_TIMEOUT = 60"

definition is_lock_error :: "exc \<Rightarrow> bool" where
  "is_lock_error e = (case e of OtherError c _ \<Rightarrow> c = ''MonitorLockError'' | _ \<Rightarrow> False)"

definition read_clock :: "('d, 'b, 'p, 'w) plug_env \<Rightarrow> ('w, int) py" where
  "read_clock env w = (case now_ms env w of (t, w') \<Rightarrow> (Inr t, w'))"

text \<open>
  The attempts on a monitor that another thread has locked; the last attempt, when time is up, is not protected.  Running out
  of fuel is an exception of its own.
\<close>

fun plug_rounds :: "('d, 'b, 'p, 'w) plug_env \<Rightarrow> nat \<Rightarrow> int \<Rightarrow> ('w, pyval) py \<Rightarrow> ('w, pyval) py" where
  "plug_rounds env 0 end_time f = throw OutOfFuel"
| "plug_rounds env (Suc n) end_time f =
     bnd (read_clock env) (\<lambda>t.
       if t < end_time then
         (\<lambda>w. case f w of
            (Inl e, w') \<Rightarrow> if is_lock_error e then plug_rounds env n end_time f w' else (Inl e, w')
          | (Inr out, w') \<Rightarrow> (Inr out, w'))
       else f)"

definition plug_call :: "('d, 'b, 'p, 'w) plug_env \<Rightarrow> ('w, pyval) py \<Rightarrow> ('w, pyval) py" where
  "plug_call env f = bnd (read_clock env) (\<lambda>t. plug_rounds env (lock_fuel env) (t + ACQUIRE_LOCK_TIMEOUT) f)"

text \<open>The bus of a device: of each parent bus the first that fits, the last parent wins.\<close>

definition bus_fits :: "('d, 'b, 'p, 'w) plug_env \<Rightarrow> string option \<Rightarrow> 'b \<Rightarrow> bool" where
  "bus_fits env dev_bus b \<longleftrightarrow>
     bus_item env b = ''bus''
     \<and> (case dev_bus of
          Some d \<Rightarrow> d = [] \<or> (case busid env b of Some i \<Rightarrow> i \<noteq> [] \<and> first_part d = i | None \<Rightarrow> False)
        | None \<Rightarrow> True)"

definition search_bus :: "('d, 'b, 'p, 'w) plug_env \<Rightarrow> 'd \<Rightarrow> 'w \<Rightarrow> 'b option \<Rightarrow> 'b option" where
  "search_bus env dev w start =
     fold (\<lambda>p bus. case find (bus_fits env (dev_param env dev ''bus'' w)) (buses_of env p w) of Some b \<Rightarrow> Some b | None \<Rightarrow> bus)
       (parent_buses env dev w) start"

definition choose_bus :: "('d, 'b, 'p, 'w) plug_env \<Rightarrow> 'd \<Rightarrow> 'b option \<Rightarrow> 'w \<Rightarrow> 'b option res" where
  "choose_bus env dev bus w =
     (case bus of
        Some b \<Rightarrow> Inr (Some b)
      | None \<Rightarrow>
          if is_pci env dev w then
            (case buses_of env (pci0 env) w of [] \<Rightarrow> Inl IndexError | b # _ \<Rightarrow> Inr (search_bus env dev w (Some b)))
          else Inr (search_bus env dev w None))"

definition place_on_bus :: "('d, 'b, 'p, 'w) plug_env \<Rightarrow> 'd \<Rightarrow> 'b option \<Rightarrow> ('w, nat option) py" where
  "place_on_bus env dev bus =
     (if is_qdevice env dev then
        bnd (gets (choose_bus env dev bus)) (\<lambda>r.
        bnd (lift_res r) (\<lambda>chosen.
          case chosen of
            Some b \<Rightarrow> bnd (prepare_hotplug env b dev) (\<lambda>_. insert_device env dev)
          | None \<Rightarrow> ret None))
      else ret None)"

definition hotplug_atomic :: "('d, 'b, 'p, 'w) plug_env \<Rightarrow> 'd \<Rightarrow> string \<Rightarrow> 'b option \<Rightarrow> ('w, pyval \<times> pyval) py" where
  "hotplug_atomic env dev monitor bus =
     bnd (modify (set_dirty env)) (\<lambda>_.
     bnd (place_on_bus env dev bus) (\<lambda>placed.
     bnd (plug_call env (dev_hotplug env dev monitor)) (\<lambda>out.
     bnd (verify_hotplug env dev out monitor) (\<lambda>ver.
       if ver = PBool False then bnd (modify (set_clean env)) (\<lambda>_. ret (out, ver))
       else
         try_except
           (bnd (gets (in_devices env dev)) (\<lambda>known.
            bnd (if known then ret placed else insert_device env dev) (\<lambda>n.
            bnd (if n = Some 1 then ret () else throw NotImplementedError) (\<lambda>_.
            bnd (if ver = PBool True then modify (set_clean env) else ret ()) (\<lambda>_. ret (out, ver))))))
           (\<lambda>e. if is_device_error e then Some (throw DeviceHotplugError) else None)))))"

text \<open>The nodes below the top node of a drive: the list grows while it is walked.\<close>

fun collect_nodes :: "nat \<Rightarrow> ('d \<Rightarrow> 'd list) \<Rightarrow> 'd list \<Rightarrow> 'd list option" where
  "collect_nodes n children [] = Some []"
| "collect_nodes 0 children (d # q) = None"
| "collect_nodes (Suc n) children (d # q) = map_option (Cons d) (collect_nodes n children (q @ children d))"

definition unplug_node :: "('d, 'b, 'p, 'w) plug_env \<Rightarrow> string \<Rightarrow> 'd \<Rightarrow> ('w, unit) py" where
  "unplug_node env monitor node =
     bnd (gets (\<lambda>w. (parent_node env node w, child_nodes env node w \<noteq> []))) (\<lambda>(parent, recursive).
     bnd (plug_call env (dev_unplug env node monitor)) (\<lambda>out.
     bnd (verify_unplug env node out monitor) (\<lambda>ver.
     bnd (if truthy ver then ret () else throw DeviceUnplugError) (\<lambda>_.
     bnd (remove_device env node recursive) (\<lambda>_.
       case parent of None \<Rightarrow> ret () | Some p \<Rightarrow> del_child_node env p node)))))"

definition unplug_drive :: "('d, 'b, 'p, 'w) plug_env \<Rightarrow> string \<Rightarrow> string \<Rightarrow> ('w, unit) py" where
  "unplug_drive env monitor drive =
     (if blockdev_capability env then
        bnd (gets (node_of_drive env drive)) (\<lambda>r.
        bnd (lift_res r) (\<lambda>top.
        bnd (gets (\<lambda>w. collect_nodes (lock_fuel env) (\<lambda>d. child_nodes env d w) [top])) (\<lambda>nodes.
          case nodes of None \<Rightarrow> throw OutOfFuel | Some ns \<Rightarrow> for_each ns (unplug_node env monitor))))
      else remove_drive env drive)"

definition is_unplugged :: "('d, 'b, 'p, 'w) plug_env \<Rightarrow> 'd \<Rightarrow> pyval \<Rightarrow> string \<Rightarrow> ('w, bool) py" where
  "is_unplugged env dev out monitor = bnd (verify_unplug env dev out monitor) (\<lambda>v. ret (v = PBool True))"

definition forget_device :: "('d, 'b, 'p, 'w) plug_env \<Rightarrow> 'd \<Rightarrow> string \<Rightarrow> pyval \<Rightarrow> pyval \<Rightarrow> ('w, unit) py" where
  "forget_device env dev monitor out ver =
     bnd (unplug_hook env dev) (\<lambda>_.
     bnd (gets (dev_param env dev ''drive'')) (\<lambda>drive.
     bnd (remove_device env dev True) (\<lambda>_.
     bnd (case drive of None \<Rightarrow> ret () | Some d \<Rightarrow> if d = [] then ret () else unplug_drive env monitor d) (\<lambda>_.
       if ver = PBool True then modify (set_clean env)
       else if out = PBool False then throw DeviceUnplugError else ret ()))))"

definition unplug_atomic ::
    "('d, 'b, 'p, 'w) plug_env \<Rightarrow> (int \<Rightarrow> ('w, bool) py \<Rightarrow> ('w, bool) py) \<Rightarrow> 'd \<Rightarrow> string \<Rightarrow> ('w, pyval \<times> pyval) py" where
  "unplug_atomic env wait dev monitor =
     bnd (gets (lookup_device env dev)) (\<lambda>r.
     bnd (lift_res r) (\<lambda>device.
     bnd (modify (set_dirty env)) (\<lambda>_.
     bnd (plug_call env (dev_unplug env device monitor)) (\<lambda>out.
     bnd (wait VERIFY_UNPLUG_TIMEOUT (is_unplugged env device out monitor)) (\<lambda>gone.
       if \<not> gone then
         bnd (modify (set_clean env)) (\<lambda>_. bnd (verify_unplug env device out monitor) (\<lambda>ver. ret (out, ver)))
       else
         bnd (verify_unplug env device out monitor) (\<lambda>ver.
         bnd (try_except (forget_device env device monitor out ver)
                (\<lambda>e. if is_device_error e \<or> is_key_error e
                     then Some (bnd (unplug_unhook env device) (\<lambda>_. throw DeviceUnplugError)) else None)) (\<lambda>_.
           ret (out, ver))))))))"

section \<open>All the devices\<close>

definition plug_device_once ::
    "('d, 'b, 'p, 'w) plug_env \<Rightarrow> (int \<Rightarrow> ('w, bool) py \<Rightarrow> ('w, bool) py) \<Rightarrow> plug_action \<Rightarrow> string \<Rightarrow> 'b option \<Rightarrow> 'd
     \<Rightarrow> (('d, 'w) plug, unit) py" where
  "plug_device_once env wait action monitor bus dev =
     bnd (gets (\<lambda>s. is_qdevice env dev \<and> is_pci env dev (machine s))) (\<lambda>on_bus.
     bnd (on_machine (case action of
            HOTPLUG \<Rightarrow> hotplug_atomic env dev monitor (if on_bus then bus else None)
          | UNPLUG \<Rightarrow> unplug_atomic env wait dev monitor)) (\<lambda>out.
       modify (\<lambda>s. s\<lparr>QMP_OUTPUT := dset (qid env dev) out (QMP_OUTPUT s)\<rparr>)))"

definition plug_devs ::
    "('d, 'b, 'p, 'w) plug_env \<Rightarrow> (int \<Rightarrow> ('w, bool) py \<Rightarrow> ('w, bool) py) \<Rightarrow> plug_action \<Rightarrow> (string \<times> 'd list) list \<Rightarrow> string \<Rightarrow> 'b option
     \<Rightarrow> int \<Rightarrow> (('d, 'w) plug, unit) py" where
  "plug_devs env wait action devices_dict monitor bus interval =
     for_each (concat (map snd devices_dict)) (\<lambda>dev.
       bnd (plug_device_once env wait action monitor bus dev) (\<lambda>_. on_machine (pause_for env interval)))"

definition pci_aobject :: "('d, 'b, 'p, 'w) plug_env \<Rightarrow> 'b option \<Rightarrow> string" where
  "pci_aobject env bus = (case bus of None \<Rightarrow> ''pci.0'' | Some b \<Rightarrow> bus_aobject env b)"

definition hotplug_devs ::
    "('d, 'b, 'p, 'w) plug_env \<Rightarrow> (int \<Rightarrow> ('w, bool) py \<Rightarrow> ('w, bool) py) \<Rightarrow> string list \<Rightarrow> string \<Rightarrow> 'b option \<Rightarrow> int
     \<Rightarrow> (('d, 'w) plug, unit) py" where
  "hotplug_devs env wait images monitor bus interval =
     bnd (create_devices env images (pci_aobject env bus)) (\<lambda>_.
     bnd (gets hotplugged_devs) (\<lambda>devs. plug_devs env wait HOTPLUG devs monitor bus interval))"

text \<open>The devices of one image in the machine, the last one first, up to the disk itself.\<close>

fun devices_of_image :: "('d, 'b, 'p, 'w) plug_env \<Rightarrow> string \<Rightarrow> 'd list \<Rightarrow> 'd list \<Rightarrow> 'd list res" where
  "devices_of_image env img [] acc = Inl (TestError (''No such device '' @ [CHR 0x27] @ img @ [CHR 0x27] @ '' in VM'' @ [CHR 0x27] @ ''s devices.''))"
| "devices_of_image env img (d # ds) acc =
     (if qid env d = img then Inr (d # acc)
      else devices_of_image env img ds (if startswith (qid env d) (img @ ''_'') then d # acc else acc))"

definition select_devices :: "('d, 'b, 'p, 'w) plug_env \<Rightarrow> 'd list \<Rightarrow> string \<Rightarrow> (('d, 'w) plug, unit) py" where
  "select_devices env devs img =
     bnd (modify (\<lambda>s. s\<lparr>unplugged_devs := dset img [] (unplugged_devs s)\<rparr>)) (\<lambda>_.
     bnd (lift_res (devices_of_image env img devs [])) (\<lambda>ds.
       modify (\<lambda>s. s\<lparr>unplugged_devs := dset img ds (unplugged_devs s)\<rparr>)))"

text \<open>The adapter of a disk goes with it when the disk is the only device on its bus.\<close>

definition take_hba :: "string \<Rightarrow> ('d, 'w) plug \<Rightarrow> ('d, 'w) plug" where
  "take_hba img s =
     (case (dget (HOTPLUGGED_HBAS s) img, dget (unplugged_devs s) img) of
        (Some hba, Some ds) \<Rightarrow> s\<lparr>unplugged_devs := dset img (ds @ [hba]) (unplugged_devs s), HOTPLUGGED_HBAS := dpop img (HOTPLUGGED_HBAS s)\<rparr>
      | _ \<Rightarrow> s)"

fun named_bus :: "('d, 'b, 'p, 'w) plug_env \<Rightarrow> string \<Rightarrow> 'b list \<Rightarrow> 'b option res" where
  "named_bus env bus_name [] = Inr None"
| "named_bus env bus_name (b # bs) =
     (case busid env b of
        None \<Rightarrow> Inl (AttributeError ''rsplit'')
      | Some i \<Rightarrow> if bus_name = first_part i then Inr (Some b) else named_bus env bus_name bs)"

definition take_hba_on :: "('d, 'b, 'p, 'w) plug_env \<Rightarrow> string \<Rightarrow> string \<Rightarrow> 'p \<Rightarrow> (('d, 'w) plug, unit) py" where
  "take_hba_on env img bus_name parent =
     bnd (gets (\<lambda>s. named_bus env bus_name (buses_of env parent (machine s)))) (\<lambda>r.
     bnd (lift_res r) (\<lambda>b.
       case b of
         None \<Rightarrow> ret ()
       | Some b \<Rightarrow> bnd (gets (\<lambda>s. bus_length env b (machine s))) (\<lambda>n. if n = 1 then modify (take_hba img) else ret ())))"

definition search_hba :: "('d, 'b, 'p, 'w) plug_env \<Rightarrow> string \<Rightarrow> (('d, 'w) plug, unit) py" where
  "search_hba env img =
     bnd (gets (\<lambda>s. find (\<lambda>d. qid env d = img) (case dget (unplugged_devs s) img of Some ds \<Rightarrow> ds | None \<Rightarrow> []))) (\<lambda>found.
       case found of
         None \<Rightarrow> throw (OtherError ''StopIteration'' [])
       | Some d \<Rightarrow>
           bnd (gets (\<lambda>s. (dev_param env d ''bus'' (machine s), parent_buses env d (machine s)))) (\<lambda>(bus, parents).
             case bus of
               None \<Rightarrow> ret ()
             | Some b \<Rightarrow> if b = [] then ret () else for_each parents (take_hba_on env img (first_part b))))"

definition select_unplugged :: "('d, 'b, 'p, 'w) plug_env \<Rightarrow> string list \<Rightarrow> (('d, 'w) plug, unit) py" where
  "select_unplugged env images =
     bnd (modify (\<lambda>s. s\<lparr>unplugged_devs := []\<rparr>)) (\<lambda>_.
     bnd (gets (\<lambda>s. filter (\<lambda>d. is_qdevice env d \<or> is_qobject env d) (all_devices env (machine s)))) (\<lambda>devs.
     bnd (for_each images (select_devices env devs)) (\<lambda>_.
     bnd (gets (\<lambda>s. map fst (unplugged_devs s))) (\<lambda>keys. for_each keys (search_hba env)))))"

definition unplug_devs ::
    "('d, 'b, 'p, 'w) plug_env \<Rightarrow> (int \<Rightarrow> ('w, bool) py \<Rightarrow> ('w, bool) py) \<Rightarrow> string list \<Rightarrow> string \<Rightarrow> int \<Rightarrow> (('d, 'w) plug, unit) py" where
  "unplug_devs env wait images monitor interval =
     bnd (select_unplugged env images) (\<lambda>_.
     bnd (gets unplugged_devs) (\<lambda>ud. plug_devs env wait UNPLUG ud monitor None interval))"

section \<open>Threads\<close>

text \<open>
  A thread first finds out its devices, then plugs them one by one, each while it holds the lock of the module.  The steps of
  a run are taken in the order of a schedule, a list of thread numbers; what a thread does before it takes the lock for the first time is one step.
\<close>

datatype 'd thread_state = Start | Plugging "'d list" | Finished "exc option" | Died

text \<open>\<open>th_devices\<close> are the devices in the table of the object of the thread, once it has made the table.\<close>

record ('d, 'b) plug_thread =
  th_images :: "string list"
  th_monitor :: string
  th_bus :: "'b option"
  th_devices :: "'d list"
  th_state :: "'d thread_state"

record ('d, 'b, 'w) pool =
  shared :: "('d, 'w) plug"
  threads :: "('d, 'b) plug_thread list"
  exit_event :: bool

definition slice :: "nat \<Rightarrow> nat \<Rightarrow> 'a list \<Rightarrow> 'a list" where
  "slice i n xs = map (\<lambda>j. xs ! j) (filter (\<lambda>j. (j - i) mod n = 0) [i ..< length xs])"

definition max_threads :: "('d, 'b, 'p, 'w) plug_env \<Rightarrow> string list \<Rightarrow> nat" where
  "max_threads env is = min (length is) (2 * cpu_count env)"

definition initial_threads :: "('d, 'b, 'p, 'w) plug_env \<Rightarrow> string list \<Rightarrow> 'b option \<Rightarrow> ('d, 'b) plug_thread list res" where
  "initial_threads env is bus =
     (let n = max_threads env is in
      if n \<noteq> 0 \<and> monitors env = [] then Inl (OtherError ''ZeroDivisionError'' [])
      else Inr (map (\<lambda>i. \<lparr>th_images = slice i n is, th_monitor = monitors env ! (i mod length (monitors env)), th_bus = bus,
        th_devices = [], th_state = Start\<rparr>) [0 ..< n]))"

text \<open>A thread works on an object of its own; machine and module tables are shared.\<close>

definition thread_object :: "('d, 'w) plug \<Rightarrow> ('d, 'w) plug" where
  "thread_object s = s\<lparr>hotplugged_devs := [], unplugged_devs := [], plugged_disks := [], all_disks := {}, event_devs := [],
     dev_type := DISK, plug_timeout := 300\<rparr>"

definition in_thread :: "(('d, 'w) plug, 'a) py \<Rightarrow> (('d, 'w) plug, 'a) py" where
  "in_thread f s =
     (case f (thread_object s) of
        (r, s') \<Rightarrow> (r, s\<lparr>machine := machine s', HOTPLUGGED_HBAS := HOTPLUGGED_HBAS s', QMP_OUTPUT := QMP_OUTPUT s'\<rparr>))"

definition thread_prepare ::
    "('d, 'b, 'p, 'w) plug_env \<Rightarrow> plug_action \<Rightarrow> string list \<Rightarrow> 'b option \<Rightarrow> (('d, 'w) plug, 'd list) py" where
  "thread_prepare env action images bus =
     (case action of
        HOTPLUG \<Rightarrow> bnd (create_devices env images (pci_aobject env bus)) (\<lambda>_. gets (\<lambda>s. concat (map snd (hotplugged_devs s))))
      | UNPLUG \<Rightarrow> bnd (select_unplugged env images) (\<lambda>_. gets (\<lambda>s. concat (map snd (unplugged_devs s)))))"

text \<open>A bus that counts as false is no bus; exceptions that are not of class \<open>Exception\<close> are not noticed by the other threads.\<close>

definition usable_bus :: "('d, 'b, 'p, 'w) plug_env \<Rightarrow> 'b option \<Rightarrow> 'w \<Rightarrow> 'b option" where
  "usable_bus env bus w = (case bus of Some b \<Rightarrow> if bus_true env b w then Some b else None | None \<Rightarrow> None)"

definition put_thread :: "nat \<Rightarrow> ('d, 'b) plug_thread \<Rightarrow> ('d, 'w) plug \<Rightarrow> ('d, 'b, 'w) pool \<Rightarrow> ('d, 'b, 'w) pool" where
  "put_thread i t s p = p\<lparr>shared := s, threads := (threads p)[i := t]\<rparr>"

definition fail_thread :: "nat \<Rightarrow> ('d, 'b) plug_thread \<Rightarrow> exc \<Rightarrow> ('d, 'w) plug \<Rightarrow> ('d, 'b, 'w) pool \<Rightarrow> ('d, 'b, 'w) pool" where
  "fail_thread i t e s p =
     (if is_exception e then (put_thread i (t\<lparr>th_state := Finished (Some e)\<rparr>) s p)\<lparr>exit_event := True\<rparr>
      else put_thread i (t\<lparr>th_state := Died\<rparr>) s p)"

definition start_thread ::
    "('d, 'b, 'p, 'w) plug_env \<Rightarrow> plug_action \<Rightarrow> nat \<Rightarrow> ('d, 'b) plug_thread \<Rightarrow> ('d, 'b, 'w) pool \<Rightarrow> ('d, 'b, 'w) pool" where
  "start_thread env action i t p =
     (let bus = usable_bus env (th_bus t) (machine (shared p)) in
      case in_thread (thread_prepare env action (th_images t) bus) (shared p) of
        (Inr ds, s') \<Rightarrow> put_thread i (t\<lparr>th_bus := bus, th_devices := ds, th_state := Plugging ds\<rparr>) s' p
      | (Inl e, s') \<Rightarrow> fail_thread i t e s' p)"

definition plug_next ::
    "('d, 'b, 'p, 'w) plug_env \<Rightarrow> (int \<Rightarrow> ('w, bool) py \<Rightarrow> ('w, bool) py) \<Rightarrow> plug_action \<Rightarrow> int \<Rightarrow> nat \<Rightarrow> ('d, 'b) plug_thread \<Rightarrow> 'd \<Rightarrow> 'd list
     \<Rightarrow> ('d, 'b, 'w) pool \<Rightarrow> ('d, 'b, 'w) pool" where
  "plug_next env wait action interval i t d ds p =
     (case in_thread (bnd (plug_device_once env wait action (th_monitor t) (th_bus t) d) (\<lambda>_. on_machine (pause_for env interval)))
             (shared p) of
        (Inr _, s') \<Rightarrow> put_thread i (t\<lparr>th_state := Plugging ds\<rparr>) s' p
      | (Inl e, s') \<Rightarrow> fail_thread i t e s' p)"

definition thread_step ::
    "('d, 'b, 'p, 'w) plug_env \<Rightarrow> (int \<Rightarrow> ('w, bool) py \<Rightarrow> ('w, bool) py) \<Rightarrow> plug_action \<Rightarrow> int \<Rightarrow> nat
     \<Rightarrow> ('d, 'b, 'w) pool \<Rightarrow> ('d, 'b, 'w) pool" where
  "thread_step env wait action interval i p =
     (if length (threads p) \<le> i then p
      else case th_state (threads p ! i) of
          Start \<Rightarrow> start_thread env action i (threads p ! i) p
        | Plugging [] \<Rightarrow> put_thread i ((threads p ! i)\<lparr>th_state := Finished None\<rparr>) (shared p) p
        | Plugging (d # ds) \<Rightarrow> plug_next env wait action interval i (threads p ! i) d ds p
        | Finished _ \<Rightarrow> p
        | Died \<Rightarrow> p)"

definition run_threads ::
    "('d, 'b, 'p, 'w) plug_env \<Rightarrow> (int \<Rightarrow> ('w, bool) py \<Rightarrow> ('w, bool) py) \<Rightarrow> plug_action \<Rightarrow> int \<Rightarrow> nat list
     \<Rightarrow> ('d, 'b, 'w) pool \<Rightarrow> ('d, 'b, 'w) pool" where
  "run_threads env wait action interval schedule = fold (thread_step env wait action interval) schedule"

definition thread_exc :: "('d, 'b) plug_thread \<Rightarrow> exc option" where
  "thread_exc t = (case th_state t of Finished e \<Rightarrow> e | _ \<Rightarrow> None)"

fun raise_threads :: "('d, 'b) plug_thread list \<Rightarrow> unit res" where
  "raise_threads [] = Inr ()"
| "raise_threads (t # ts) = (case thread_exc t of Some e \<Rightarrow> Inl e | None \<Rightarrow> raise_threads ts)"

definition set_images :: "string \<Rightarrow> (('d, 'w) plug, unit) py" where
  "set_images images = modify (\<lambda>s. if images = [] then s else s\<lparr>imgs := split_ws images\<rparr>)"

text \<open>The schedule is what has run when the last join returns: a thread that takes longer than the timeout is not waited for.\<close>

definition plug_devs_threads ::
    "('d, 'b, 'p, 'w) plug_env \<Rightarrow> (int \<Rightarrow> ('w, bool) py \<Rightarrow> ('w, bool) py) \<Rightarrow> nat list \<Rightarrow> plug_action \<Rightarrow> string \<Rightarrow> 'b option \<Rightarrow> int
     \<Rightarrow> (('d, 'w) plug, unit) py" where
  "plug_devs_threads env wait schedule action images bus interval =
     bnd (list_all_disks env) (\<lambda>_.
     bnd (set_images images) (\<lambda>_.
     bnd (gets (\<lambda>s. initial_threads env (imgs s) bus)) (\<lambda>r.
     bnd (lift_res r) (\<lambda>ts s.
       let p = run_threads env wait action interval schedule \<lparr>shared = s, threads = ts, exit_event = False\<rparr> in
       (if exit_event p then raise_threads (threads p) else Inr (), shared p)))))"

section \<open>The public operations\<close>

definition set_media :: "('d, 'b, 'p, 'w) plug_env \<Rightarrow> (('d, 'w) plug, unit) py" where
  "set_media env =
     bnd (lift_res (case vm_cdroms env of None \<Rightarrow> Inl (KeyError ''cdroms'') | Some c \<Rightarrow> Inr (split_ws c))) (\<lambda>cds.
       modify (\<lambda>s. if set (imgs s) \<subseteq> set cds then s\<lparr>dev_type := CDROM\<rparr> else s))"

definition monitor_or_main :: "('d, 'b, 'p, 'w) plug_env \<Rightarrow> string option \<Rightarrow> string" where
  "monitor_or_main env m = (case m of None \<Rightarrow> main_monitor env | Some n \<Rightarrow> n)"

definition hotplug_devs_serial ::
    "('d, 'b, 'p, 'w) plug_env \<Rightarrow> (int \<Rightarrow> ('w, bool) py \<Rightarrow> ('w, bool) py) \<Rightarrow> string \<Rightarrow> string option \<Rightarrow> 'b option \<Rightarrow> int \<Rightarrow> int
     \<Rightarrow> (('d, 'w) plug, unit) py" where
  "hotplug_devs_serial env wait images monitor bus timeout interval =
     verify_plugged_num env HOTPLUG
       (bnd (modify (\<lambda>s. s\<lparr>plug_timeout := timeout\<rparr>)) (\<lambda>_.
        bnd (set_images images) (\<lambda>_.
        bnd (set_media env) (\<lambda>_.
        bnd (gets imgs) (\<lambda>is.
        bnd (hotplug_devs env wait is (monitor_or_main env monitor) bus interval) (\<lambda>_.
          check_qmp_outputs HOTPLUG))))))"

definition unplug_devs_serial ::
    "('d, 'b, 'p, 'w) plug_env \<Rightarrow> (int \<Rightarrow> ('w, bool) py \<Rightarrow> ('w, bool) py) \<Rightarrow> string \<Rightarrow> string option \<Rightarrow> int \<Rightarrow> int \<Rightarrow> (('d, 'w) plug, unit) py" where
  "unplug_devs_serial env wait images monitor timeout interval =
     verify_plugged_num env UNPLUG
       (bnd (modify (\<lambda>s. s\<lparr>plug_timeout := timeout\<rparr>)) (\<lambda>_.
        bnd (set_images images) (\<lambda>_.
        bnd (set_media env) (\<lambda>_.
        bnd (gets imgs) (\<lambda>is.
        bnd (unplug_devs env wait is (monitor_or_main env monitor) interval) (\<lambda>_.
        bnd (check_qmp_outputs UNPLUG) (\<lambda>_.
          wait_events_deleted env timeout)))))))"

definition hotplug_devs_threaded ::
    "('d, 'b, 'p, 'w) plug_env \<Rightarrow> (int \<Rightarrow> ('w, bool) py \<Rightarrow> ('w, bool) py) \<Rightarrow> nat list \<Rightarrow> string \<Rightarrow> int \<Rightarrow> 'b option \<Rightarrow> int
     \<Rightarrow> (('d, 'w) plug, unit) py" where
  "hotplug_devs_threaded env wait schedule images timeout bus interval =
     verify_plugged_num env UNPLUG
       (bnd (modify (\<lambda>s. s\<lparr>plug_timeout := timeout\<rparr>)) (\<lambda>_.
        bnd (plug_devs_threads env wait schedule HOTPLUG images bus interval) (\<lambda>_.
          check_qmp_outputs HOTPLUG)))"

definition unplug_devs_threaded ::
    "('d, 'b, 'p, 'w) plug_env \<Rightarrow> (int \<Rightarrow> ('w, bool) py \<Rightarrow> ('w, bool) py) \<Rightarrow> nat list \<Rightarrow> string \<Rightarrow> int \<Rightarrow> int \<Rightarrow> (('d, 'w) plug, unit) py" where
  "unplug_devs_threaded env wait schedule images timeout interval =
     verify_plugged_num env UNPLUG
       (bnd (modify (\<lambda>s. s\<lparr>plug_timeout := timeout\<rparr>)) (\<lambda>_.
        bnd (plug_devs_threads env wait schedule UNPLUG images None interval) (\<lambda>_.
        bnd (check_qmp_outputs UNPLUG) (\<lambda>_.
          wait_events_deleted env timeout))))"

text \<open>A machine for the examples: its state is the time and the number of disks the guest shows; devices are their identifiers.\<close>

definition demo_plug_env :: "(string, unit, unit, int \<times> nat) plug_env" where
  "demo_plug_env = \<lparr>vm_images = Some ''sys a b c'', vm_cdroms = Some ''cd1'', vm_os_type = ''linux'', login = (\<lambda>w. (Inr (), w)),
     linux_disks = (\<lambda>w. (Inr (map (\<lambda>i. ''/dev/d'' @ int_str (int i)) [0 ..< snd w]), w)), session_cmd = (\<lambda>_ w. (Inr [], w)),
     session_close = (\<lambda>w. (Inr (), w)), qid = (\<lambda>d. d), is_qdevice = (\<lambda>_. False), is_qobject = (\<lambda>_. True),
     dev_param = (\<lambda>_ _ _. None), is_pci = (\<lambda>_ _. False), parent_buses = (\<lambda>_ _. []), pci0 = (), buses_of = (\<lambda>_ _. []),
     bus_item = (\<lambda>_. []), busid = (\<lambda>_. None), bus_aobject = (\<lambda>_. []), bus_length = (\<lambda>_ _. 0), bus_true = (\<lambda>_ _. True),
     define_devices = (\<lambda>_ i _ w. (Inr [''node_'' @ i, i], w)), in_devices = (\<lambda>_ _. False), all_devices = (\<lambda>_. []),
     lookup_device = (\<lambda>d _. Inr d), node_of_drive = (\<lambda>d _. Inr d), set_dirty = (\<lambda>w. w), set_clean = (\<lambda>w. w),
     prepare_hotplug = (\<lambda>_ _ w. (Inr (), w)), insert_device = (\<lambda>_ w. (Inr (Some 1), w)), remove_device = (\<lambda>_ _ w. (Inr (), w)),
     remove_drive = (\<lambda>_ w. (Inr (), w)),
     dev_hotplug = (\<lambda>d _ w. (Inr (PStr []), (fst w, if startswith d ''node'' then snd w else Suc (snd w)))),
     dev_unplug = (\<lambda>_ _ w. (Inr (PStr []), w)), verify_hotplug = (\<lambda>_ _ _ w. (Inr (PBool True), w)),
     verify_unplug = (\<lambda>_ _ _ w. (Inr (PBool True), w)), unplug_hook = (\<lambda>_ w. (Inr (), w)), unplug_unhook = (\<lambda>_ w. (Inr (), w)),
     blockdev_capability = True, child_nodes = (\<lambda>_ _. []), parent_node = (\<lambda>_ _. None), del_child_node = (\<lambda>_ _ w. (Inr (), w)),
     now_ms = (\<lambda>w. (fst w, (fst w + 1, snd w))), pause_for = (\<lambda>_ w. (Inr (), w)), plug_events = (\<lambda>w. (Inr [], w)),
     clear_event = (\<lambda>_ w. (Inr (), w)), wait_until = (\<lambda>_ f. f), monitors = [''m0'', ''m1''], main_monitor = ''m0'', cpu_count = 1,
     lock_fuel = 2\<rparr>"

definition demo_plug :: "(string, int \<times> nat) plug" where
  "demo_plug = \<lparr>machine = (0, 1), imgs = [''a'', ''b'', ''c''], hotplugged_devs = [], unplugged_devs = [], plugged_disks = [], all_disks = {},
     event_devs = [], dev_type = DISK, plug_timeout = 300, HOTPLUGGED_HBAS = [], QMP_OUTPUT = []\<rparr>"

section \<open>Laws of the threads\<close>

lemma classes_cover: "mset (concat (map (\<lambda>i. filter (\<lambda>x. f x = i) xs) [0 ..< n])) = mset (filter (\<lambda>x. f x < n) xs)"
  by (induction n) (auto simp: multiset_eq_iff)

lemma slice_eq:
  assumes "i < n"
  shows "slice i n xs = map ((!) xs) (filter (\<lambda>j. j mod n = i) [0 ..< length xs])"
proof -
  have "filter (\<lambda>j. (j - i) mod n = 0) [i ..< m] = filter (\<lambda>j. j mod n = i) [0 ..< m]" for m
  proof (induction m)
    case (Suc m)
    have "(m - i) mod n = 0 \<longleftrightarrow> m mod n = i" if "i \<le> m"
      using that assms by (metis add.commute le_add_diff_inverse2 mod_add_left_eq mod_less mod_mod_trivial mod_eq_dvd_iff_nat mod_0_imp_dvd dvd_imp_mod_0)
    moreover have "m mod n \<noteq> i" if "\<not> i \<le> m" using that assms by simp
    ultimately show ?case using Suc by (auto simp: not_le)
  qed simp
  then show ?thesis by (simp add: slice_def)
qed

lemma slices_cover:
  assumes "0 < n"
  shows "mset (concat (map (\<lambda>i. slice i n xs) [0 ..< n])) = mset xs"
proof -
  have "concat (map (\<lambda>i. slice i n xs) [0 ..< n]) = map ((!) xs) (concat (map (\<lambda>i. filter (\<lambda>j. j mod n = i) [0 ..< length xs]) [0 ..< n]))"
    unfolding map_concat map_map by (rule arg_cong[of _ _ concat], rule map_cong) (auto simp: slice_eq)
  moreover have "mset (filter (\<lambda>j. j mod n < n) [0 ..< length xs]) = mset [0 ..< length xs]" using assms by simp
  ultimately show ?thesis using classes_cover[of "\<lambda>j. j mod n" "[0 ..< length xs]" n] by (metis map_nth mset_map)
qed

text \<open>Every step of every thread only adds to the table of outputs.\<close>

abbreviation outputs_grow :: "('d, 'w) plug \<Rightarrow> ('d, 'w) plug \<Rightarrow> bool" where
  "outputs_grow s t \<equiv> fst ` set (QMP_OUTPUT s) \<subseteq> fst ` set (QMP_OUTPUT t)"

interpretation outputs: state_relation outputs_grow
  by unfold_locales auto

lemma outputs_on_machine: "moves outputs_grow (on_machine f)"
  by (rule movesI) (simp add: on_machine_def split: prod.split)

lemma outputs_take_hba: "QMP_OUTPUT (take_hba img s) = QMP_OUTPUT s"
  by (simp add: take_hba_def split: option.split)

lemmas outputs_intros = outputs.composed outputs_on_machine moves_modify

lemma prepare_outputs: "moves outputs_grow (thread_prepare env action images bus)"
proof (cases action)
  case HOTPLUG
  then show ?thesis
    unfolding thread_prepare_def create_devices_def create_image_devices_def plug_action.case
    by (simp only: plug_action.case) (intro outputs_intros; simp)
next
  case UNPLUG
  then show ?thesis
    unfolding thread_prepare_def select_unplugged_def select_devices_def search_hba_def take_hba_on_def
    by (simp only: plug_action.case) (intro outputs_intros; simp add: outputs_take_hba)
qed

lemma plug_once_outputs: "moves outputs_grow (plug_device_once env wait action monitor bus dev)"
  unfolding plug_device_once_def by (intro outputs_intros) auto

lemma plug_once_recorded:
  "plug_device_once env wait action monitor bus dev s = (Inr (), s') \<Longrightarrow> qid env dev \<in> fst ` set (QMP_OUTPUT s')"
  by (auto simp: plug_device_once_def modify_def elim!: bnd_InrE)

lemma in_thread_outputs: "moves outputs_grow m \<Longrightarrow> moves outputs_grow (in_thread m)"
  unfolding moves_def
proof (intro allI)
  fix s assume "\<forall>s. outputs_grow s (snd (m s))"
  then have "outputs_grow (thread_object s) (snd (m (thread_object s)))" by blast
  then show "outputs_grow s (snd (in_thread m s))"
    by (cases "m (thread_object s)") (simp add: in_thread_def thread_object_def)
qed

lemma in_thread_recorded:
  assumes "in_thread (bnd (plug_device_once env wait action monitor bus d) (\<lambda>_. on_machine (pause_for env interval))) s = (Inr x, s')"
  shows "outputs_grow s s' \<and> qid env d \<in> fst ` set (QMP_OUTPUT s')"
proof -
  obtain s1 where run: "bnd (plug_device_once env wait action monitor bus d) (\<lambda>_. on_machine (pause_for env interval)) (thread_object s)
      = (Inr x, s1)" and s': "QMP_OUTPUT s' = QMP_OUTPUT s1"
    using assms by (auto simp: in_thread_def split: prod.splits)
  obtain s2 where s2: "plug_device_once env wait action monitor bus d (thread_object s) = (Inr (), s2)"
    "on_machine (pause_for env interval) s2 = (Inr x, s1)" using run by (elim bnd_InrE) auto
  have "outputs_grow s2 s1" by (rule movesD[OF outputs_on_machine s2(2)])
  moreover have "outputs_grow s s'"
    by (rule movesD[OF in_thread_outputs assms], intro outputs_intros plug_once_outputs)
  ultimately show ?thesis using plug_once_recorded[OF s2(1)] s' by auto
qed

text \<open>What holds of a thread that has taken \<open>n\<close> steps, for a set \<open>K\<close> of recorded devices.\<close>

fun state_inv :: "('d \<Rightarrow> string) \<Rightarrow> string set \<Rightarrow> nat \<Rightarrow> 'd list \<Rightarrow> 'd thread_state \<Rightarrow> bool" where
  "state_inv q K n devs Start = (n = 0)"
| "state_inv q K n devs (Plugging ds) = (\<exists>past. devs = past @ ds \<and> q ` set past \<subseteq> K \<and> n = Suc (length past))"
| "state_inv q K n devs (Finished e) = (e = None \<longrightarrow> q ` set devs \<subseteq> K)"
| "state_inv q K n devs Died = True"

lemma state_inv_mono: "state_inv q K n devs st \<Longrightarrow> K \<subseteq> K' \<Longrightarrow> state_inv q K' n devs st"
  by (cases st) auto

definition pool_inv :: "('d, 'b, 'p, 'w) plug_env \<Rightarrow> (nat \<Rightarrow> nat) \<Rightarrow> ('d, 'b, 'w) pool \<Rightarrow> bool" where
  "pool_inv env c p \<longleftrightarrow>
     (\<forall>i < length (threads p). state_inv (qid env) (fst ` set (QMP_OUTPUT (shared p))) (c i) (th_devices (threads p ! i)) (th_state (threads p ! i)))
     \<and> exit_event p = (\<exists>t \<in> set (threads p). thread_exc t \<noteq> None)"

lemma ex_list_update:
  assumes "i < length xs" "\<not> P (xs ! i)"
  shows "(\<exists>x \<in> set (xs[i := t]). P x) \<longleftrightarrow> (\<exists>x \<in> set xs. P x) \<or> P t"
proof -
  have "(\<forall>x \<in> set (xs[i := t]). \<not> P x) \<longleftrightarrow> (\<forall>x \<in> set xs. \<not> P x) \<and> \<not> P t"
    using assms unfolding all_set_conv_all_nth by (auto simp: nth_list_update)
  then show ?thesis by blast
qed

lemma put_thread_inv:
  assumes inv: "pool_inv env c p" and i: "i < length (threads p)" and grow: "outputs_grow (shared p) s'"
    and new: "state_inv (qid env) (fst ` set (QMP_OUTPUT s')) (Suc (c i)) (th_devices t) (th_state t)"
    and fresh: "thread_exc (threads p ! i) = None"
    and ev: "b = (exit_event p \<or> thread_exc t \<noteq> None)"
  shows "pool_inv env (c(i := Suc (c i))) ((put_thread i t s' p)\<lparr>exit_event := b\<rparr>)"
proof -
  have "state_inv (qid env) (fst ` set (QMP_OUTPUT s')) ((c(i := Suc (c i))) j) (th_devices ((threads p)[i := t] ! j)) (th_state ((threads p)[i := t] ! j))"
    if "j < length (threads p)" for j
  proof (cases "j = i")
    case False
    then show ?thesis using inv[unfolded pool_inv_def, THEN conjunct1, rule_format, OF that] by (simp add: state_inv_mono[OF _ grow])
  qed (use i new in simp)
  moreover have "(\<exists>x \<in> set ((threads p)[i := t]). thread_exc x \<noteq> None) \<longleftrightarrow> b"
    using ex_list_update[of i "threads p" "\<lambda>x. thread_exc x \<noteq> None" t] i fresh inv ev by (simp add: pool_inv_def)
  ultimately show ?thesis by (simp add: pool_inv_def put_thread_def)
qed

lemma put_thread_keep: "put_thread i t s p = (put_thread i t s p)\<lparr>exit_event := exit_event p\<rparr>"
  by (simp add: put_thread_def)

lemma fail_thread_inv:
  assumes "pool_inv env c p" "i < length (threads p)" "outputs_grow (shared p) s'" "thread_exc (threads p ! i) = None"
  shows "pool_inv env (c(i := Suc (c i))) (fail_thread i (threads p ! i) e s' p)"
proof (cases "is_exception e")
  case True
  then show ?thesis unfolding fail_thread_def
    using put_thread_inv[OF assms(1,2,3) _ assms(4), of "(threads p ! i)\<lparr>th_state := Finished (Some e)\<rparr>" True] by (simp add: thread_exc_def)
next
  case False
  then show ?thesis unfolding fail_thread_def
    using put_thread_inv[OF assms(1,2,3) _ assms(4), of "(threads p ! i)\<lparr>th_state := Died\<rparr>" "exit_event p"]
      put_thread_keep[of i "(threads p ! i)\<lparr>th_state := Died\<rparr>" s' p]
    by (simp add: thread_exc_def)
qed

lemma start_thread_inv:
  assumes inv: "pool_inv env c p" and i: "i < length (threads p)" and st: "th_state (threads p ! i) = Start"
  shows "pool_inv env (c(i := Suc (c i))) (start_thread env action i (threads p ! i) p)"
proof -
  let ?t = "threads p ! i" and ?bus = "usable_bus env (th_bus (threads p ! i)) (machine (shared p))"
  obtain r s' where run: "in_thread (thread_prepare env action (th_images ?t) ?bus) (shared p) = (r, s')" by fastforce
  have grow: "outputs_grow (shared p) s'" by (rule movesD[OF in_thread_outputs[OF prepare_outputs] run])
  have none: "thread_exc ?t = None" using st by (simp add: thread_exc_def)
  have c: "c i = 0" using inv i st by (auto simp: pool_inv_def)
  show ?thesis
  proof (cases r)
    case (Inl e)
    then show ?thesis using run fail_thread_inv[OF inv i grow none] by (simp add: start_thread_def Let_def)
  next
    case (Inr ds)
    let ?t' = "?t\<lparr>th_bus := ?bus, th_devices := ds, th_state := Plugging ds\<rparr>"
    have "pool_inv env (c(i := Suc (c i))) ((put_thread i ?t' s' p)\<lparr>exit_event := exit_event p\<rparr>)"
      by (rule put_thread_inv[OF inv i grow _ none]) (auto simp: thread_exc_def c)
    then show ?thesis using run Inr put_thread_keep[of i ?t' s' p] by (simp add: start_thread_def Let_def)
  qed
qed

lemma plug_next_inv:
  assumes inv: "pool_inv env c p" and i: "i < length (threads p)" and st: "th_state (threads p ! i) = Plugging (d # ds)"
  shows "pool_inv env (c(i := Suc (c i))) (plug_next env wait action interval i (threads p ! i) d ds p)"
proof -
  let ?t = "threads p ! i"
  obtain r s' where run: "in_thread (bnd (plug_device_once env wait action (th_monitor ?t) (th_bus ?t) d)
      (\<lambda>_. on_machine (pause_for env interval))) (shared p) = (r, s')" by fastforce
  have grow: "outputs_grow (shared p) s'"
    by (rule movesD[OF in_thread_outputs run], intro outputs_intros plug_once_outputs)
  have none: "thread_exc ?t = None" using st by (simp add: thread_exc_def)
  obtain past where past: "th_devices ?t = past @ d # ds" "qid env ` set past \<subseteq> fst ` set (QMP_OUTPUT (shared p))" "c i = Suc (length past)"
    using inv[unfolded pool_inv_def, THEN conjunct1, rule_format, OF i] st by auto
  show ?thesis
  proof (cases r)
    case (Inl e)
    then show ?thesis using run fail_thread_inv[OF inv i grow none] by (simp add: plug_next_def)
  next
    case (Inr x)
    let ?t' = "?t\<lparr>th_state := Plugging ds\<rparr>"
    have "qid env d \<in> fst ` set (QMP_OUTPUT s')" using in_thread_recorded[OF run[unfolded Inr]] by simp
    then have "state_inv (qid env) (fst ` set (QMP_OUTPUT s')) (Suc (c i)) (th_devices ?t') (th_state ?t')"
      using past(1,3) subset_trans[OF past(2) grow] by (simp add: exI[of _ "past @ [d]"])
    then have "pool_inv env (c(i := Suc (c i))) ((put_thread i ?t' s' p)\<lparr>exit_event := exit_event p\<rparr>)"
      by (rule put_thread_inv[OF inv i grow _ none]) (simp add: thread_exc_def)
    then show ?thesis using run Inr put_thread_keep[of i ?t' s' p] by (simp add: plug_next_def)
  qed
qed

lemma thread_step_inv:
  assumes inv: "pool_inv env c p" and i: "i < length (threads p)"
  shows "pool_inv env (c(i := Suc (c i))) (thread_step env wait action interval i p)"
proof (cases "th_state (threads p ! i)")
  case Start
  then show ?thesis using start_thread_inv[OF inv i] i by (simp add: thread_step_def)
next
  case (Plugging ds)
  show ?thesis
  proof (cases ds)
    case Nil
    let ?t' = "(threads p ! i)\<lparr>th_state := Finished None\<rparr>"
    have "state_inv (qid env) (fst ` set (QMP_OUTPUT (shared p))) (Suc (c i)) (th_devices ?t') (th_state ?t')"
      using inv[unfolded pool_inv_def, THEN conjunct1, rule_format, OF i] Plugging Nil by auto
    then have "pool_inv env (c(i := Suc (c i))) ((put_thread i ?t' (shared p) p)\<lparr>exit_event := exit_event p\<rparr>)"
      by (rule put_thread_inv[OF inv i subset_refl]) (simp_all add: thread_exc_def Plugging)
    then show ?thesis using i Plugging Nil put_thread_keep[of i ?t' "shared p" p] by (simp add: thread_step_def)
  next
    case (Cons d ds')
    then show ?thesis using plug_next_inv[OF inv i] Plugging i by (simp add: thread_step_def)
  qed
next
  case (Finished e)
  then have "pool_inv env (c(i := Suc (c i))) p"
    using inv unfolding pool_inv_def by (metis fun_upd_apply state_inv.simps(3))
  then show ?thesis using i Finished by (simp add: thread_step_def)
next
  case Died
  then have "pool_inv env (c(i := Suc (c i))) p"
    using inv unfolding pool_inv_def by (metis fun_upd_apply state_inv.simps(4))
  then show ?thesis using i Died by (simp add: thread_step_def)
qed

lemma map_th_images_update: "th_images t = th_images (ts ! i) \<Longrightarrow> map th_images (ts[i := t]) = map th_images ts"
  by (metis list_update_id map_update)

lemma thread_step_images: "map th_images (threads (thread_step env wait action interval i p)) = map th_images (threads p)"
  by (simp add: thread_step_def start_thread_def plug_next_def put_thread_def fail_thread_def Let_def map_th_images_update
      split: thread_state.split list.split prod.split sum.split)

lemma run_threads_inv:
  assumes "\<And>i. i < length ts \<Longrightarrow> th_state (ts ! i) = Start"
    and p_def: "p = run_threads env wait action interval schedule \<lparr>shared = s, threads = ts, exit_event = False\<rparr>"
  shows "pool_inv env (count_list schedule) p \<and> map th_images (threads p) = map th_images ts"
  unfolding p_def
proof (induction schedule rule: rev_induct)
  case Nil
  have "thread_exc t = None" if "t \<in> set ts" for t
    using assms(1) that by (auto simp: in_set_conv_nth thread_exc_def)
  then show ?case using assms(1) by (simp add: run_threads_def pool_inv_def)
next
  case (snoc i sched)
  let ?q = "run_threads env wait action interval sched \<lparr>shared = s, threads = ts, exit_event = False\<rparr>"
  have step: "run_threads env wait action interval (sched @ [i]) \<lparr>shared = s, threads = ts, exit_event = False\<rparr>
      = thread_step env wait action interval i ?q" by (simp add: run_threads_def)
  have count: "count_list (sched @ [i]) = (count_list sched)(i := Suc (count_list sched i))" by auto
  show ?case
  proof (cases "i < length (threads ?q)")
    case True
    have "pool_inv env ((count_list sched)(i := Suc (count_list sched i))) (thread_step env wait action interval i ?q)"
      using snoc.IH by (intro thread_step_inv[OF _ True]) blast
    then show ?thesis using snoc.IH unfolding step count thread_step_images by blast
  next
    case False
    then have "thread_step env wait action interval i ?q = ?q" by (simp add: thread_step_def)
    moreover have "pool_inv env ((count_list sched)(i := Suc (count_list sched i))) ?q"
      using snoc.IH False by (auto simp: pool_inv_def)
    ultimately show ?thesis using snoc.IH unfolding step count by metis
  qed
qed

text \<open>
  C6. Threads that plug or unplug devices, under every schedule: each image belongs to exactly one thread; a thread that has ended normally
  has an output of the monitor recorded for each of its devices, whatever the others have done in between; a thread that was
  scheduled two times more than it has devices has ended; and the event of the threads is set exactly when an exception has been kept for the caller.
\<close>

theorem threads_share_work:
  assumes "initial_threads env is bus = Inr ts" "0 < cpu_count env"
    and p_def: "p = run_threads env wait action interval schedule \<lparr>shared = s, threads = ts, exit_event = False\<rparr>"
  shows "mset (concat (map th_images (threads p))) = mset is
    \<and> (\<forall>t \<in> set (threads p). th_state t = Finished None \<longrightarrow> qid env ` set (th_devices t) \<subseteq> fst ` set (QMP_OUTPUT (shared p)))
    \<and> (\<forall>i < length (threads p). length (th_devices (threads p ! i)) + 2 \<le> count_list schedule i \<longrightarrow>
         th_state (threads p ! i) = Died \<or> (\<exists>e. th_state (threads p ! i) = Finished e))
    \<and> exit_event p = (\<exists>t \<in> set (threads p). thread_exc t \<noteq> None)"
proof -
  let ?n = "max_threads env is"
  have ts: "ts = map (\<lambda>i. \<lparr>th_images = slice i ?n is, th_monitor = monitors env ! (i mod length (monitors env)), th_bus = bus,
      th_devices = [], th_state = Start\<rparr>) [0 ..< ?n]"
    using assms(1) by (auto simp: initial_threads_def Let_def split: if_splits)
  have run: "pool_inv env (count_list schedule) p" "map th_images (threads p) = map th_images ts"
    using run_threads_inv[OF _ p_def] by (auto simp: ts)
  have "mset (concat (map (\<lambda>i. slice i ?n is) [0 ..< ?n])) = mset is"
    using slices_cover[of ?n "is"] assms(2) by (cases "is = []") (auto simp: max_threads_def)
  then have 1: "mset (concat (map th_images (threads p))) = mset is" unfolding run(2) by (simp add: ts comp_def)
  have inv: "state_inv (qid env) (fst ` set (QMP_OUTPUT (shared p))) (count_list schedule i) (th_devices (threads p ! i)) (th_state (threads p ! i))"
    if "i < length (threads p)" for i using run(1) that by (simp add: pool_inv_def)
  have 2: "qid env ` set (th_devices t) \<subseteq> fst ` set (QMP_OUTPUT (shared p))" if "t \<in> set (threads p)" "th_state t = Finished None" for t
    using that inv by (metis in_set_conv_nth state_inv.simps(3))
  have 3: "th_state (threads p ! i) = Died \<or> (\<exists>e. th_state (threads p ! i) = Finished e)"
    if "i < length (threads p)" "length (th_devices (threads p ! i)) + 2 \<le> count_list schedule i" for i
    using inv[OF that(1)] that(2) by (cases "th_state (threads p ! i)") auto
  show ?thesis using 1 2 3 run(1) by (simp add: pool_inv_def)
qed

theorem threads_share_work_witness:
  "\<exists>ts p. initial_threads demo_plug_env [''a'', ''b'', ''c''] None = Inr ts
    \<and> p = run_threads demo_plug_env (\<lambda>_ f. f) HOTPLUG 0 [0, 1, 1, 0, 0, 1, 1, 0, 0, 0] \<lparr>shared = demo_plug, threads = ts, exit_event = False\<rparr>
    \<and> mset (concat (map th_images (threads p))) = {#''a'', ''b'', ''c''#} \<and> exit_event p = False
    \<and> {''node_a'', ''a'', ''node_c'', ''c''} \<subseteq> fst ` set (QMP_OUTPUT (shared p))"
proof -
  let ?ts = "case initial_threads demo_plug_env [''a'', ''b'', ''c''] None of Inr ts \<Rightarrow> ts"
  let ?p = "run_threads demo_plug_env (\<lambda>_ f. f) HOTPLUG 0 [0, 1, 1, 0, 0, 1, 1, 0, 0, 0] \<lparr>shared = demo_plug, threads = ?ts, exit_event = False\<rparr>"
  have ts: "initial_threads demo_plug_env [''a'', ''b'', ''c''] None = Inr ?ts" by code_simp
  have st: "threads ?p ! 0 \<in> set (threads ?p) \<and> th_state (threads ?p ! 0) = Finished None
      \<and> th_devices (threads ?p ! 0) = [''node_a'', ''a'', ''node_c'', ''c''] \<and> list_all (\<lambda>t. thread_exc t = None) (threads ?p)"
    by code_simp
  have "0 < cpu_count demo_plug_env" "qid demo_plug_env = (\<lambda>d. d)" by (simp_all add: demo_plug_env_def)
  then show ?thesis
    using threads_share_work[OF ts _ HOL.refl, of "\<lambda>_ f. f" HOTPLUG 0 "[0, 1, 1, 0, 0, 1, 1, 0, 0, 0]" demo_plug] st ts
    by (auto simp: list_all_iff intro!: exI[of _ ?ts])
qed

section \<open>Retries\<close>

text \<open>A clock that runs, and an attempt that does not turn it back.\<close>

definition clock_ok :: "('d, 'b, 'p, 'w) plug_env \<Rightarrow> ('w \<Rightarrow> int) \<Rightarrow> ('w, pyval) py \<Rightarrow> bool" where
  "clock_ok env clock f \<longleftrightarrow>
     (\<forall>w. fst (now_ms env w) = clock w \<and> clock w < clock (snd (now_ms env w))) \<and> (\<forall>w. clock w \<le> clock (snd (f w)))"

lemma read_clock_run:
  "clock_ok env clock f \<Longrightarrow> \<exists>w'. read_clock env w = (Inr (clock w), w') \<and> clock w < clock w'"
  by (cases "now_ms env w") (auto simp: clock_ok_def read_clock_def dest!: spec[of _ w])

lemma plug_rounds_run:
  assumes ok: "clock_ok env clock f" and "nat (end_time - clock w) < n"
  shows "\<exists>r w' w1. plug_rounds env n end_time f w = (r, w') \<and> f w1 = (r, w') \<and> clock w \<le> clock w1
    \<and> (\<forall>e. r = Inl e \<and> is_lock_error e \<longrightarrow> end_time \<le> clock w1)"
  using assms(2)
proof (induction n arbitrary: w)
  case (Suc n)
  obtain w0 where w0: "read_clock env w = (Inr (clock w), w0)" "clock w < clock w0" using read_clock_run[OF ok] by blast
  obtain r w' where f: "f w0 = (r, w')" by fastforce
  have later: "clock w0 \<le> clock w'" using ok f by (metis clock_ok_def snd_conv)
  show ?case
  proof (cases "clock w < end_time \<and> (\<exists>e. r = Inl e \<and> is_lock_error e)")
    case True
    then have "nat (end_time - clock w') < n" using Suc.prems w0(2) later by linarith
    from Suc.IH[OF this] show ?thesis using True w0 f later by (fastforce simp: bnd_def)
  next
    case False
    then have "plug_rounds env (Suc n) end_time f w = (r, w')" using w0 f by (cases r) (auto simp: bnd_def)
    then show ?thesis using False f w0(2) by fastforce
  qed
qed simp

text \<open>
  C7. A command on a monitor that may be locked by another thread, when the clock runs: it returns what the last attempt returned or raised,
  at least one attempt is made, and a lock error is passed on only by an attempt made when the time to acquire the lock is over.
  Fuel for one attempt per millisecond of that time is enough.
\<close>

theorem plug_call_ends:
  assumes "clock_ok env clock f" "ACQUIRE_LOCK_TIMEOUT < int (lock_fuel env)"
  shows "\<exists>r w' w1. plug_call env f w = (r, w') \<and> f w1 = (r, w') \<and> clock w < clock w1
    \<and> (\<forall>e. r = Inl e \<and> is_lock_error e \<longrightarrow> clock w + ACQUIRE_LOCK_TIMEOUT \<le> clock w1)"
proof -
  obtain w0 where w0: "read_clock env w = (Inr (clock w), w0)" "clock w < clock w0" using read_clock_run[OF assms(1)] by blast
  have "nat (clock w + ACQUIRE_LOCK_TIMEOUT - clock w0) < lock_fuel env"
    using assms(2) w0(2) by (simp add: ACQUIRE_LOCK_TIMEOUT_def)
  from plug_rounds_run[OF assms(1) this] show ?thesis using w0 by (fastforce simp: plug_call_def bnd_def)
qed

definition busy_until :: "int \<Rightarrow> (int \<times> nat, pyval) py" where
  "busy_until t w = (if fst w < t then (Inl MonitorLockError, w) else (Inr (PInt (fst w)), w))"

theorem plug_call_ends_witness:
  "\<exists>r w' w1. plug_call (demo_plug_env\<lparr>lock_fuel := 20001\<rparr>) (busy_until 30000) (0, 0) = (r, w') \<and> busy_until 30000 w1 = (r, w')
    \<and> 0 < fst w1 \<and> (\<forall>e. r = Inl e \<and> is_lock_error e \<longrightarrow> 20000 \<le> fst w1)"
proof -
  let ?env = "demo_plug_env\<lparr>lock_fuel := 20001\<rparr>"
  have "clock_ok ?env fst (busy_until 30000)" by (simp add: clock_ok_def demo_plug_env_def busy_until_def)
  moreover have "ACQUIRE_LOCK_TIMEOUT < int (lock_fuel ?env)" by (simp add: ACQUIRE_LOCK_TIMEOUT_def)
  ultimately show ?thesis using plug_call_ends[of ?env fst "busy_until 30000" "(0, 0)"] by (simp add: ACQUIRE_LOCK_TIMEOUT_def)
qed

section \<open>The disks of the guest and the deletion events\<close>

text \<open>The polling function of the framework returns true only when its last call did.\<close>

definition wait_sound :: "('d, 'b, 'p, 'w) plug_env \<Rightarrow> bool" where
  "wait_sound env \<longleftrightarrow> (\<forall>t f s s'. wait_until env t f s = (Inr True, s') \<longrightarrow> (\<exists>s1. f s1 = (Inr True, s')))"

lemma list_all_disks_run:
  assumes "list_all_disks env s = (Inr ds, s')"
  shows "finite ds \<and> all_disks s' = ds \<and> imgs s' = imgs s \<and> unplugged_devs s' = unplugged_devs s"
proof -
  have m: "on_machine f s = (r, s') \<Longrightarrow> all_disks s' = all_disks s \<and> imgs s' = imgs s \<and> unplugged_devs s' = unplugged_devs s"
    for f :: "('b, 'z) py" and s s' :: "('a, 'b) plug" and r by (auto simp: on_machine_def split: prod.splits)
  show ?thesis using assms by (auto simp: list_all_disks_def modify_def ret_def elim!: bnd_InrE split: if_splits dest!: m)
qed

text \<open>
  The check around every public operation, when it returns: the operation ran after the disks of the guest were listed; unless
  the images are optical drives or an adapter was made that cannot be plugged, the disks that have come or gone since are as many as
  the images, and the object holds their names in order.
\<close>

lemma plugged_disks_counted:
  assumes "wait_sound env" and run: "verify_plugged_num env action func s = (Inr x, s')"
  shows "\<exists>orig s0 s1. list_all_disks env s = (Inr orig, s0) \<and> func s0 = (Inr x, s1)
    \<and> (if dev_type s1 = CDROM \<or> (\<exists>(_, dev) \<in> set (HOTPLUGGED_HBAS s1). dev_param env dev ''hotplug'' (machine s1) = Some ''off'') then s' = s1
       else card (changed (all_disks s') orig) = length (imgs s') \<and> length (plugged_disks s') = length (imgs s')
         \<and> sorted (plugged_disks s') \<and> set (plugged_disks s') = disk_name ` changed (all_disks s') orig)"
proof -
  let ?skip = "\<lambda>s1. dev_type s1 = CDROM \<or> (\<exists>(_, dev) \<in> set (HOTPLUGGED_HBAS s1). dev_param env dev ''hotplug'' (machine s1) = Some ''off'')"
  obtain orig s0 s1 y where o: "list_all_disks env s = (Inr orig, s0)" "func s0 = (Inr y, s1)"
    "(if ?skip s1 then ret y
       else bnd (wait_until env (plug_timeout s1) (changed_enough env orig)) (\<lambda>ok.
           if \<not> ok then wrong_number env action orig
           else bnd (modify (\<lambda>s. s\<lparr>plugged_disks := sort (map disk_name (sorted_list_of_set (changed (all_disks s) orig)))\<rparr>))
                  (\<lambda>_. ret y))) s1 = (Inr x, s')"
    using run unfolding verify_plugged_num_def by (elim bnd_InrE) (auto simp: gets_def)
  have fails: "wrong_number env action orig t \<noteq> (Inr x, t')" for t t'
    by (auto simp: wrong_number_def throw_def elim!: bnd_InrE split: prod.splits)
  show ?thesis
  proof (cases "?skip s1")
    case True
    then show ?thesis using o by (auto simp: ret_def)
  next
    case False
    obtain s2 where w: "wait_until env (plug_timeout s1) (changed_enough env orig) s1 = (Inr True, s2)"
      "s' = s2\<lparr>plugged_disks := sort (map disk_name (sorted_list_of_set (changed (all_disks s2) orig)))\<rparr>"
      and y: "y = x"
      using o(3) False fails by (auto simp: modify_def ret_def elim!: bnd_InrE split: if_splits)
    obtain s3 where "changed_enough env orig s3 = (Inr True, s2)" using assms(1)[unfolded wait_sound_def, rule_format, OF w(1)] by blast
    then have c: "finite (all_disks s2)" "card (changed (all_disks s2) orig) = length (imgs s2)"
      by (auto simp: changed_enough_def gets_def ret_def elim!: bnd_InrE dest!: list_all_disks_run)
    have fin: "finite (changed (all_disks s2) orig)" using c(1) list_all_disks_run[OF o(1)] by (simp add: changed_def)
    have "card (changed (all_disks s') orig) = length (imgs s') \<and> length (plugged_disks s') = length (imgs s')
         \<and> sorted (plugged_disks s') \<and> set (plugged_disks s') = disk_name ` changed (all_disks s') orig"
      using c fin by (simp add: w(2))
    then show ?thesis using o(1,2) False y by metis
  qed
qed

text \<open>
  Unplugging with threads does not wait for deletion events: the threads keep their devices in objects of their own, the
  table of the caller stays as it was, empty for a new object, and with an empty table every poll of the
  events that does not fail counts as complete, even when there was no event at all.
\<close>

lemma unplug_threaded_no_wait:
  assumes "unplugged_devs s = []" and "plug_devs_threads env wait schedule action images bus interval s = (Inr (), s')"
  shows "unplugged_devs s' = [] \<and> (\<forall>b s''. get_events_deleted env s' = (Inr b, s'') \<longrightarrow> b)"
proof -
  have thread: "unplugged_devs t' = unplugged_devs t" if "in_thread m t = (r, t')" for m :: "(('a, 'b) plug, 'z) py" and t t' r
    using that by (auto simp: in_thread_def split: prod.splits)
  have step: "unplugged_devs (shared (thread_step env wait action interval i p)) = unplugged_devs (shared p)" for i p
    by (auto simp: thread_step_def start_thread_def plug_next_def put_thread_def fail_thread_def Let_def
        split: thread_state.split list.split prod.split sum.split dest!: thread)
  have "unplugged_devs (shared (run_threads env wait action interval schedule p)) = unplugged_devs (shared p)" for p
    by (induction schedule arbitrary: p) (simp_all add: run_threads_def step)
  then have "unplugged_devs s' = []" using assms
    by (auto simp: plug_devs_threads_def gets_def lift_res_def set_images_def modify_def Let_def elim!: bnd_InrE dest!: list_all_disks_run split: if_splits)
  moreover have "snd (scan_deleted es []) = []" for es
    by (induction es) (auto split: sum.split option.split pyval.split)
  ultimately show ?thesis
    by (auto simp: get_events_deleted_def modify_def gets_def on_machine_def elim!: bnd_InrE split: prod.splits) (metis snd_conv)
qed

section \<open>Order of the devices\<close>

text \<open>The disk is unplugged first, then the devices with its prefix, the one added last first.\<close>

lemma unplug_order:
  assumes "img \<notin> qid env ` set pre" "qid env d = img"
  shows "devices_of_image env img (pre @ d # post) acc = Inr (d # rev (filter (\<lambda>x. startswith (qid env x) (img @ ''_'')) pre) @ acc)"
  using assms by (induction pre arbitrary: acc) auto

end
