(* ===== verification/Storage_Pool.thy ===== *)
theory Storage_Pool
  imports Backup_Utils State_Relation
begin

text \<open>
  Storage pools and their volumes (\<^verbatim>\<open>provider/virt_storage\<close>): definition by test parameters, creation, removal, lookup and plugging.
  Volumes and pools are shared objects; they live in two lists and are referred to by their position.  A pool keeps its volumes in a Python
  set: each entry has the hash that the volume had when it was added, while the fields that the hash depends on change later.
  The processes of the host, the nodes of the framework, the parameters of an object, the library of state machines and the
  order in which a set is walked are fields of \<open>storage_env\<close>.
\<close>

section \<open>Objects\<close>

datatype backend = Directory | Rbd

text \<open>A block node of the framework: its type, its parameters and the names of its children.\<close>

record bnode =
  n_type :: string
  n_params :: pydict
  n_children :: "pyval list"

record volume =
  v_name :: "string option"
  v_pool :: nat
  v_url :: "string option"
  v_path :: "string option"
  v_key :: "string option"
  v_capacity :: "int option"
  v_format :: "bnode option"
  v_protocol :: "bnode option"
  is_allocated :: bool
  preallocation :: pyval
  v_backing :: "nat option"
  v_encrypt :: "(string \<times> string) option"
  v_params :: "pydict option"
  raw_format_node_eliminated :: bool

record pool_source =
  s_pool_name :: pyval
  s_auth :: string

record spool =
  p_name :: string
  p_type :: backend
  p_target :: string
  p_source :: "pool_source option"
  p_available :: "int option"
  p_exported :: "bool option"
  p_state :: string
  p_volumes :: "(int \<times> nat) list"

record 'w storage =
  st_vm :: "'w vst"
  pools :: "spool list"
  volumes :: "volume list"
  secrets :: "(string \<times> string) list"

record transition =
  t_trigger :: string
  t_sources :: "string list"
  t_dest :: string
  t_after :: string

record 'w storage_env =
  host_vm :: "'w vm_env"
  object_params :: "pydict \<Rightarrow> string \<Rightarrow> pydict"
  realpath :: "string \<Rightarrow> string"
  is_dir :: "string \<Rightarrow> 'w vst \<Rightarrow> bool"
  make_dirs :: "string \<Rightarrow> 'w vst \<Rightarrow> unit res \<times> 'w vst"
  run_system :: "string \<Rightarrow> 'w vst \<Rightarrow> unit res \<times> 'w vst"
  system_output :: "string \<Rightarrow> 'w vst \<Rightarrow> string res \<times> 'w vst"
  normalize_size :: "string \<Rightarrow> int res"
  raw_node_masked :: "pydict \<Rightarrow> 'w vst \<Rightarrow> bool res \<times> 'w vst"
  make_source :: "string \<Rightarrow> pydict \<Rightarrow> pool_source res"
  new_node :: "string \<Rightarrow> string option \<Rightarrow> bnode"
  set_param :: "string \<Rightarrow> pyval \<Rightarrow> bnode \<Rightarrow> bnode"
  node_is_text :: "bnode \<Rightarrow> string \<Rightarrow> bool"
  node_cmd :: "bnode \<Rightarrow> string \<times> pydict"
  hash_of :: "pydict \<Rightarrow> int"
  set_order :: "(int \<times> nat) list \<Rightarrow> (int \<times> nat) list"
  fire :: "transition list \<Rightarrow> string \<Rightarrow> string \<Rightarrow> (string \<times> string) option"

definition on_vm :: "('w vst, 'a) py \<Rightarrow> ('w storage, 'a) py" where
  "on_vm f s = (case f (st_vm s) of (r, v) \<Rightarrow> (r, s\<lparr>st_vm := v\<rparr>))"

definition vol :: "nat \<Rightarrow> ('w storage, volume) py" where "vol i = gets (\<lambda>s. volumes s ! i)"
definition pool_at :: "nat \<Rightarrow> ('w storage, spool) py" where "pool_at p = gets (\<lambda>s. pools s ! p)"

definition set_vol :: "nat \<Rightarrow> (volume \<Rightarrow> volume) \<Rightarrow> ('w storage, unit) py" where
  "set_vol i f = modify (\<lambda>s. s\<lparr>volumes := (volumes s)[i := f (volumes s ! i)]\<rparr>)"

definition set_pool :: "nat \<Rightarrow> (spool \<Rightarrow> spool) \<Rightarrow> ('w storage, unit) py" where
  "set_pool p f = modify (\<lambda>s. s\<lparr>pools := (pools s)[p := f (pools s ! p)]\<rparr>)"

definition pool_of :: "nat \<Rightarrow> ('w storage, spool) py" where
  "pool_of i = bnd (vol i) (\<lambda>v. pool_at (v_pool v))"

section \<open>Paths\<close>

text \<open>The helpers of the two kinds of pools.\<close>

definition protocol_prefix :: "backend \<Rightarrow> string" where
  "protocol_prefix t = (case t of Directory \<Rightarrow> ''file://'' | Rbd \<Rightarrow> ''rbd:'')"

definition rbd_pool_name :: "spool \<Rightarrow> string res" where
  "rbd_pool_name p =
     (case p_source p of
        None \<Rightarrow> Inl (AttributeError ''pool_name'')
      | Some s \<Rightarrow> (case s_pool_name s of PStr n \<Rightarrow> Inr n | _ \<Rightarrow> Inl (TypeError ''expected str, bytes or os.PathLike object'')))"

definition get_url_by_name :: "'w storage_env \<Rightarrow> spool \<Rightarrow> string \<Rightarrow> string res" where
  "get_url_by_name env p name =
     (case p_type p of
        Directory \<Rightarrow> Inr (protocol_prefix Directory @ realpath env (realpath env (path_join (p_target p) name)))
      | Rbd \<Rightarrow> rbind (rbd_pool_name p) (\<lambda>n. Inr (protocol_prefix Rbd @ path_join n name)))"

definition url_to_path :: "spool \<Rightarrow> string \<Rightarrow> string" where
  "url_to_path p url = drop (length (protocol_prefix (p_type p))) url"

section \<open>The properties of a volume\<close>

text \<open>Each property is computed when it is first read, and kept.\<close>

definition vol_url :: "'w storage_env \<Rightarrow> nat \<Rightarrow> ('w storage, string option) py" where
  "vol_url env i =
     bnd (vol i) (\<lambda>v.
       case (v_url v, v_name v) of
         (Some u, _) \<Rightarrow> ret (Some u)
       | (None, Some name) \<Rightarrow>
           if name = [] then ret None
           else bnd (pool_of i) (\<lambda>p. bnd (lift_res (get_url_by_name env p name)) (\<lambda>u.
             bnd (set_vol i (\<lambda>v. v\<lparr>v_url := Some u\<rparr>)) (\<lambda>_. ret (Some u))))
       | (None, None) \<Rightarrow> ret None)"

definition vol_path :: "'w storage_env \<Rightarrow> nat \<Rightarrow> ('w storage, string option) py" where
  "vol_path env i =
     bnd (vol i) (\<lambda>v.
       case v_path v of
         Some p \<Rightarrow> ret (Some p)
       | None \<Rightarrow>
           bnd (vol_url env i) (\<lambda>u.
             case u of
               None \<Rightarrow> ret None
             | Some url \<Rightarrow>
                 if url = [] then ret None
                 else bnd (pool_of i) (\<lambda>p. bnd (set_vol i (\<lambda>v. v\<lparr>v_path := Some (url_to_path p url)\<rparr>)) (\<lambda>_. ret (Some (url_to_path p url))))))"

definition vol_key :: "'w storage_env \<Rightarrow> nat \<Rightarrow> ('w storage, string option) py" where
  "vol_key env i =
     bnd (vol i) (\<lambda>v.
       case v_key v of
         Some k \<Rightarrow> ret (Some k)
       | None \<Rightarrow>
           bnd (pool_of i) (\<lambda>p.
           bnd (if p_type p = Directory then vol_path env i else vol_url env i) (\<lambda>k.
           bnd (set_vol i (\<lambda>v. v\<lparr>v_key := k\<rparr>)) (\<lambda>_. ret k))))"

text \<open>Reading a missing capacity asks the pool for \<open>get_size\<close>, which no pool has, if the helper of the pool has a function of this name.\<close>

definition vol_capacity :: "'w storage_env \<Rightarrow> nat \<Rightarrow> ('w storage, int) py" where
  "vol_capacity env i =
     bnd (vol i) (\<lambda>v.
       case v_capacity v of
         Some c \<Rightarrow> ret c
       | None \<Rightarrow>
           bnd (vol_key env i) (\<lambda>k.
           bnd (pool_of i) (\<lambda>p.
             if k \<notin> {None, Some []} \<and> p_type p = Directory then throw (AttributeError ''get_size'')
             else bnd (set_vol i (\<lambda>v. v\<lparr>v_capacity := Some 0\<rparr>)) (\<lambda>_. ret 0))))"

definition opt_str :: "string option \<Rightarrow> pyval" where
  "opt_str x = (case x of None \<Rightarrow> PNone | Some t \<Rightarrow> PStr t)"

definition pool_str :: "spool \<Rightarrow> string" where
  "pool_str p = (case p_type p of Directory \<Rightarrow> ''DirectoryPool'' | Rbd \<Rightarrow> ''RBDPool'') @ '':'' @ p_name p"

definition vol_str :: "'w storage_env \<Rightarrow> nat \<Rightarrow> ('w storage, string) py" where
  "vol_str env i =
     bnd (vol i) (\<lambda>v. bnd (vol_key env i) (\<lambda>k.
       ret (''StorageVolume-'' @ py_str (opt_str (v_name v)) @ ''('' @ py_str (opt_str k) @ '')'')))"

definition vol_info :: "'w storage_env \<Rightarrow> nat \<Rightarrow> ('w storage, pydict) py" where
  "vol_info env i =
     bnd (vol i) (\<lambda>v.
     bnd (pool_of i) (\<lambda>p.
     bnd (vol_url env i) (\<lambda>url.
     bnd (vol_path env i) (\<lambda>path.
     bnd (vol_key env i) (\<lambda>key.
     bnd (vol_capacity env i) (\<lambda>cap.
     bnd (case v_backing v of None \<Rightarrow> ret ''None'' | Some b \<Rightarrow> vol_str env b) (\<lambda>bk.
       ret [(''name'', opt_str (v_name v)), (''pool'', PStr (pool_str p)), (''url'', opt_str url), (''path'', opt_str path), (''key'', opt_str key),
            (''format'', case v_params v of None \<Rightarrow> PNone | Some ps \<Rightarrow> if ps = [] then PNone else dget_default ps ''image_format'' (PStr ''qcow2'')),
            (''auth'', PStr (case p_source p of None \<Rightarrow> ''None'' | Some s \<Rightarrow> s_auth s)),
            (''capacity'', PInt cap), (''preallocation'', preallocation v), (''backing'', PStr bk)])))))))"

definition vol_hash :: "'w storage_env \<Rightarrow> nat \<Rightarrow> ('w storage, int) py" where
  "vol_hash env i = bnd (vol_info env i) (\<lambda>d. ret (hash_of env d))"

section \<open>The set of volumes of a pool\<close>

text \<open>
  An entry is found by the hash it was stored with, and by identity or equality.  The result is the position of the entry.
\<close>

fun find_entry :: "'w storage_env \<Rightarrow> int \<Rightarrow> nat \<Rightarrow> (int \<times> nat) list \<Rightarrow> nat \<Rightarrow> ('w storage, nat option) py" where
  "find_entry env h i [] n = ret None"
| "find_entry env h i ((h', j) # es) n =
     (if h' \<noteq> h then find_entry env h i es (Suc n)
      else if j = i then ret (Some n)
      else
        bnd (vol_info env j) (\<lambda>a. bnd (vol_info env i) (\<lambda>b.
          if py_eq (PDict a) (PDict b) then ret (Some n) else find_entry env h i es (Suc n))))"

definition set_add :: "'w storage_env \<Rightarrow> nat \<Rightarrow> nat \<Rightarrow> ('w storage, unit) py" where
  "set_add env p i =
     bnd (vol_hash env i) (\<lambda>h.
     bnd (pool_at p) (\<lambda>pl.
     bnd (find_entry env h i (p_volumes pl) 0) (\<lambda>found.
       if found = None then set_pool p (\<lambda>pl. pl\<lparr>p_volumes := p_volumes pl @ [(h, i)]\<rparr>) else ret ())))"

definition set_discard :: "'w storage_env \<Rightarrow> nat \<Rightarrow> nat \<Rightarrow> ('w storage, unit) py" where
  "set_discard env p i =
     bnd (vol_hash env i) (\<lambda>h.
     bnd (pool_at p) (\<lambda>pl.
     bnd (find_entry env h i (p_volumes pl) 0) (\<lambda>found.
       case found of
         None \<Rightarrow> ret ()
       | Some n \<Rightarrow> set_pool p (\<lambda>pl. pl\<lparr>p_volumes := take n (p_volumes pl) @ drop (Suc n) (p_volumes pl)\<rparr>))))"

definition get_volumes :: "'w storage_env \<Rightarrow> nat \<Rightarrow> ('w storage, nat list) py" where
  "get_volumes env p = bnd (pool_at p) (\<lambda>pl. ret (map snd (set_order env (p_volumes pl))))"

definition fresh_volume :: "nat \<Rightarrow> volume" where
  "fresh_volume p = \<lparr>v_name = None, v_pool = p, v_url = None, v_path = None, v_key = None, v_capacity = None, v_format = None, v_protocol = None,
     is_allocated = False, preallocation = PNone, v_backing = None, v_encrypt = None, v_params = None, raw_format_node_eliminated = False\<rparr>"

text \<open>The constructor: a new volume adds itself to its pool.\<close>

definition StorageVolume :: "'w storage_env \<Rightarrow> nat \<Rightarrow> ('w storage, nat) py" where
  "StorageVolume env p =
     bnd (gets (\<lambda>s. length (volumes s))) (\<lambda>i.
     bnd (modify (\<lambda>s. s\<lparr>volumes := volumes s @ [fresh_volume p]\<rparr>)) (\<lambda>_.
     bnd (set_add env p i) (\<lambda>_. ret i)))"

text \<open>All the volumes are looked at, the first that matches is taken.\<close>

definition first_with :: "(nat \<Rightarrow> ('w storage, string option) py) \<Rightarrow> string \<Rightarrow> nat list \<Rightarrow> ('w storage, nat option) py" where
  "first_with attr val is =
     bnd (map_each is attr) (\<lambda>vs.
       ret (map_option fst (find (\<lambda>(i, x). py_str (opt_str x) = val) (zip is vs))))"

definition pool_volume_by_path :: "'w storage_env \<Rightarrow> nat \<Rightarrow> string \<Rightarrow> ('w storage, nat option) py" where
  "pool_volume_by_path env p path = bnd (get_volumes env p) (\<lambda>is. first_with (vol_path env) path is)"

section \<open>Refreshing a volume from parameters\<close>

definition get_volume_path_by_param :: "spool \<Rightarrow> pydict \<Rightarrow> string" where
  "get_volume_path_by_param p params =
     path_join (p_target p) (py_str (dget_default params ''image_name'' (PStr (p_name p))) @ ''.''
       @ py_str (dget_default params ''image_format'' (PStr ''qcow2'')))"

definition vol_protocol :: "'w storage_env \<Rightarrow> nat \<Rightarrow> ('w storage, bnode) py" where
  "vol_protocol env i =
     bnd (vol i) (\<lambda>v.
       case v_protocol v of
         Some n \<Rightarrow> ret n
       | None \<Rightarrow>
           bnd (pool_of i) (\<lambda>p.
             let n = new_node env (case p_type p of Directory \<Rightarrow> ''file'' | Rbd \<Rightarrow> ''rbd'') (v_name v) in
             bnd (set_vol i (\<lambda>v. v\<lparr>v_protocol := Some n\<rparr>)) (\<lambda>_. ret n)))"

definition vol_format :: "'w storage_env \<Rightarrow> nat \<Rightarrow> ('w storage, bnode) py" where
  "vol_format env i =
     bnd (vol i) (\<lambda>v.
       case v_format v of
         Some n \<Rightarrow> ret n
       | None \<Rightarrow> let n = new_node env ''qcow2'' (v_name v) in bnd (set_vol i (\<lambda>v. v\<lparr>v_format := Some n\<rparr>)) (\<lambda>_. ret n))"

definition set_params :: "'w storage_env \<Rightarrow> (string \<times> pyval) list \<Rightarrow> bnode \<Rightarrow> bnode" where
  "set_params env kvs n = fold (\<lambda>(k, v). set_param env k v) kvs n"

definition protocol_params :: "pydict \<Rightarrow> (string \<times> pyval) list" where
  "protocol_params params =
     [(''auto-read-only'', dget_default params ''image_auto_readonly'' (PStr ''on'')),
      (''discard'', dget_default params ''image_discard_request'' (PStr ''unmap''))]
     @ (if dget_default params ''image_aio'' PNone = PStr ''native'' then [(''cache.direct'', PStr ''on''), (''cache.no-flush'', PStr ''off'')] else [])"

definition refresh_protocol_by_params :: "'w storage_env \<Rightarrow> nat \<Rightarrow> pydict \<Rightarrow> ('w storage, unit) py" where
  "refresh_protocol_by_params env i params =
     bnd (vol_protocol env i) (\<lambda>n.
     bnd (pool_of i) (\<lambda>p.
     bnd (vol_path env i) (\<lambda>path.
     bnd (lift_res (case p_type p of
            Directory \<Rightarrow> Inr [(''filename'', opt_str path), (''aio'', dget_default params ''image_aio'' (PStr ''threads''))]
          | Rbd \<Rightarrow> (case (p_source p, path) of
                (None, _) \<Rightarrow> Inl (AttributeError ''pool_name'')
              | (Some src, None) \<Rightarrow> Inl (AttributeError ''split'')
              | (Some src, Some t) \<Rightarrow> Inr [(''pool'', s_pool_name src), (''image'', PStr (last (split_char (CHR ''/'') t)))]))) (\<lambda>place.
       set_vol i (\<lambda>v. v\<lparr>v_protocol := Some (set_params env (place @ protocol_params params) n)\<rparr>)))))"

text \<open>The secret of an encrypted volume is made when it does not exist yet.\<close>

definition encryption_define_by_params :: "'w storage_env \<Rightarrow> pydict \<Rightarrow> ('w storage, string \<times> string) py" where
  "encryption_define_by_params env params =
     bnd (lift_res (dindex params ''image_encryption'')) (\<lambda>e.
     bnd (lift_res (dindex params ''secret_name'')) (\<lambda>name.
     bnd (gets secrets) (\<lambda>ss.
     bnd (if din (str_of name) ss then ret ()
          else modify (\<lambda>s. s\<lparr>secrets := secrets s @ [(str_of name, str_of (dget_default (object_params env params (str_of name)) ''secret_data'' (PStr [])))]\<rparr>)) (\<lambda>_.
       ret (if e = PStr ''on'' then ''aes'' else str_of e, str_of name)))))"

definition qcow2_params :: "pydict \<Rightarrow> (string \<times> string) option \<Rightarrow> (string \<times> pyval) list" where
  "qcow2_params params enc =
     (case enc of None \<Rightarrow> [] | Some (f, secret) \<Rightarrow> [(''encrypt.key-secret'', PStr secret), (''encrypt.format'', PStr f)])
     @ (if truthy (dget_default params ''backing'' PNone) \<and> dget_default params ''backing_null'' (PStr ''no'') = PStr ''no''
        then [(''backing'', PStr (''drive_'' @ py_str (dget_default params ''backing'' PNone)))] else [])"

definition data_file_params :: "pydict \<Rightarrow> (string \<times> pyval) list" where
  "data_file_params params =
     (if truthy (dget_default params ''image_data_file'' PNone)
      then [(''data-file'', PStr (''drive_'' @ py_str (dget_default params ''image_data_file'' PNone)))] else [])"

definition node_name_of :: "bnode \<Rightarrow> pyval" where
  "node_name_of n = dget_default (n_params n) ''node-name'' PNone"

definition refresh_format_by_params :: "'w storage_env \<Rightarrow> nat \<Rightarrow> pydict \<Rightarrow> ('w storage, unit) py" where
  "refresh_format_by_params env i params =
     bnd (vol_format env i) (\<lambda>n.
     bnd (if n_type n = ''qcow2'' \<and> truthy (dget_default params ''image_encryption'' PNone)
             \<and> dget_default params ''image_encryption'' PNone \<noteq> PStr ''off''
          then bnd (encryption_define_by_params env params) (\<lambda>e. bnd (set_vol i (\<lambda>v. v\<lparr>v_encrypt := Some e\<rparr>)) (\<lambda>_. ret (Some e)))
          else ret None) (\<lambda>enc.
     let n1 = (if n_type n = ''qcow2'' then set_params env (qcow2_params params enc) n else n);
         n2 = (if n_type n = ''qcow2'' \<and> truthy (dget_default params ''backing'' PNone)
                  \<and> dget_default params ''backing_null'' (PStr ''no'') \<noteq> PStr ''no''
               then n1\<lparr>n_params := dset ''backing'' PNone (n_params n1)\<rparr> else n1);
         n3 = (if n_type n = ''qcow2'' then set_params env (data_file_params params) n2 else n2) in
     bnd (vol_protocol env i) (\<lambda>prot.
     let n4 = set_params env [(''file'', node_name_of prot), (''read-only'', dget_default params ''image_readonly'' (PStr ''off''))] n3;
         n5 = (if node_name_of prot \<in> set (n_children n4) then n4 else n4\<lparr>n_children := n_children n4 @ [node_name_of prot]\<rparr>) in
       set_vol i (\<lambda>v. v\<lparr>v_format := Some n5\<rparr>))))"

definition refresh_with_params :: "'w storage_env \<Rightarrow> nat \<Rightarrow> pydict \<Rightarrow> ('w storage, unit) py" where
  "refresh_with_params env i params =
     bnd (if dget_default params ''image_format'' PNone = PStr ''raw''
          then bnd (on_vm (raw_node_masked env params)) (\<lambda>masked.
            if masked then set_vol i (\<lambda>v. v\<lparr>raw_format_node_eliminated := True\<rparr>) else ret ())
          else ret ()) (\<lambda>_.
     bnd (set_vol i (\<lambda>v. v\<lparr>v_params := Some params\<rparr>)) (\<lambda>_.
     bnd (lift_res (normalize_size env (py_str (dget_default params ''image_size'' (PStr ''100M''))))) (\<lambda>size.
     bnd (set_vol i (\<lambda>v. v\<lparr>v_capacity := Some size, preallocation := dget_default params ''preallocation'' (PStr ''off'')\<rparr>)) (\<lambda>_.
     bnd (refresh_protocol_by_params env i params) (\<lambda>_.
     bnd (vol i) (\<lambda>v.
     bnd (if raw_format_node_eliminated v then ret ()
          else
            bnd (set_vol i (\<lambda>v. v\<lparr>v_format := Some (new_node env
                   (if dget_default params ''image_format'' (PStr ''qcow2'') = PStr ''qcow2'' then ''qcow2'' else ''raw'') (v_name v))\<rparr>)) (\<lambda>_.
              refresh_format_by_params env i params)) (\<lambda>_.
     bnd (pool_of i) (\<lambda>p.
       set_vol i (\<lambda>v. v\<lparr>v_path := Some (get_volume_path_by_param p (object_params env params (str_of (opt_str (v_name v)))))\<rparr>)))))))))"

section \<open>Pools\<close>

text \<open>
  Refreshing a pool: the files found are never looked at, since nothing walks the result; only listing the images of an
  \<^verbatim>\<open>rbd\<close> pool runs a command.
\<close>

definition pool_refresh :: "'w storage_env \<Rightarrow> nat \<Rightarrow> ('w storage, unit) py" where
  "pool_refresh env p =
     bnd (pool_at p) (\<lambda>pl.
       case p_type pl of
         Directory \<Rightarrow> ret ()
       | Rbd \<Rightarrow> bnd (lift_res (rbd_pool_name pl)) (\<lambda>n. bnd (on_vm (system_output env (''rbd ls '' @ n))) (\<lambda>_. ret ())))"

definition pool_transitions :: "transition list" where
  "pool_transitions =
     [\<lparr>t_trigger = ''start_pool'', t_sources = [''dead'', ''ready''], t_dest = ''running'', t_after = ''start''\<rparr>,
      \<lparr>t_trigger = ''stop_pool'', t_sources = [''running''], t_dest = ''ready'', t_after = ''stop''\<rparr>,
      \<lparr>t_trigger = ''destroy_pool'', t_sources = [''stop'', ''ready''], t_dest = ''dead'', t_after = ''destroy''\<rparr>]"

definition pool_callback :: "'w storage_env \<Rightarrow> nat \<Rightarrow> string \<Rightarrow> ('w storage, unit) py" where
  "pool_callback env p name =
     bnd (pool_at p) (\<lambda>pl.
       if name = ''start'' \<and> p_type pl = Directory then
         bnd (gets (\<lambda>s. case p_exported pl of Some b \<Rightarrow> b | None \<Rightarrow> is_dir env (p_target pl) (st_vm s))) (\<lambda>exists.
         bnd (set_pool p (\<lambda>pl. pl\<lparr>p_exported := Some exists\<rparr>)) (\<lambda>_.
         bnd (if exists then ret () else on_vm (make_dirs env (p_target pl))) (\<lambda>_.
         bnd (set_pool p (\<lambda>pl. pl\<lparr>p_exported := Some True\<rparr>)) (\<lambda>_. pool_refresh env p))))
       else if name = ''destroy'' then set_pool p (\<lambda>pl. pl\<lparr>p_volumes := []\<rparr>)
       else ret ())"

definition pool_trigger :: "'w storage_env \<Rightarrow> nat \<Rightarrow> string \<Rightarrow> ('w storage, unit) py" where
  "pool_trigger env p trigger =
     bnd (pool_at p) (\<lambda>pl.
       case fire env pool_transitions trigger (p_state pl) of
         None \<Rightarrow> throw (OtherError ''MachineError'' trigger)
       | Some (dest, after) \<Rightarrow> bnd (set_pool p (\<lambda>pl. pl\<lparr>p_state := dest\<rparr>)) (\<lambda>_. pool_callback env p after))"

text \<open>The pool is made by its driver from the parameters.\<close>

definition make_pool :: "'w storage_env \<Rightarrow> string \<Rightarrow> pydict \<Rightarrow> spool res" where
  "make_pool env name params =
     rbind (dindex params ''storage_type'') (\<lambda>ty.
     rbind (if ty = PStr ''directory'' then Inr Directory else if ty = PStr ''rbd'' then Inr Rbd
            else Inl (OtherError ''UnsupportedStoragePoolException'' (py_str ty))) (\<lambda>t.
     rbind (case dget_default params ''target_path'' PNone of PStr d \<Rightarrow> Inr (realpath env d) | _ \<Rightarrow> Inl (TypeError ''expected str'')) (\<lambda>target.
     rbind (case t of
              Directory \<Rightarrow>
                if truthy (dget_default params ''source'' PNone)
                then rbind (make_source env (str_of (dget_default params ''source'' PNone))
                       (object_params env params (str_of (dget_default params ''source'' PNone)))) (\<lambda>s. Inr (target, Some s))
                else Inr (target, None)
            | Rbd \<Rightarrow> rbind (dindex params ''rbd_pool_name'') (\<lambda>n.
                rbind (make_source env name (object_params env params name)) (\<lambda>s. Inr (str_of n, Some s)))) (\<lambda>(path, src).
       Inr \<lparr>p_name = name, p_type = t, p_target = path, p_source = src, p_available = None, p_exported = None, p_state = ''dead'', p_volumes = []\<rparr>))))"

definition find_pool_by_name :: "string \<Rightarrow> ('w storage, nat option) py" where
  "find_pool_by_name name =
     gets (\<lambda>s. find (\<lambda>p. p_name (pools s ! p) = name) [0 ..< length (pools s)])"

text \<open>A pool that is not known yet is added after it was refreshed without an error.\<close>

definition pool_define_by_params :: "'w storage_env \<Rightarrow> string \<Rightarrow> pydict \<Rightarrow> ('w storage, nat) py" where
  "pool_define_by_params env name params =
     bnd (find_pool_by_name name) (\<lambda>found.
       case found of
         Some p \<Rightarrow> ret p
       | None \<Rightarrow>
           bnd (lift_res (make_pool env name params)) (\<lambda>pl.
           bnd (case p_type pl of
                  Directory \<Rightarrow> ret ()
                | Rbd \<Rightarrow> bnd (lift_res (rbd_pool_name pl)) (\<lambda>n. bnd (on_vm (system_output env (''rbd ls '' @ n))) (\<lambda>_. ret ()))) (\<lambda>_.
           bnd (gets (\<lambda>s. length (pools s))) (\<lambda>p.
           bnd (modify (\<lambda>s. s\<lparr>pools := pools s @ [pl]\<rparr>)) (\<lambda>_. ret p)))))"

definition find_pool_by_path :: "string \<Rightarrow> ('w storage, nat option) py" where
  "find_pool_by_path path = gets (\<lambda>s. find (\<lambda>p. p_target (pools s ! p) = path) [0 ..< length (pools s)])"

section \<open>Volumes of the host\<close>

definition get_volume_by_params :: "'w storage_env \<Rightarrow> nat \<Rightarrow> pydict \<Rightarrow> string \<Rightarrow> ('w storage, nat) py" where
  "get_volume_by_params env p params name =
     (let vp = object_params env params name in
      bnd (pool_at p) (\<lambda>pl.
      let path = get_volume_path_by_param pl vp in
      bnd (pool_volume_by_path env p path) (\<lambda>found.
        case found of
          Some i \<Rightarrow> ret i
        | None \<Rightarrow>
            bnd (StorageVolume env p) (\<lambda>i.
            bnd (set_vol i (\<lambda>v. v\<lparr>v_name := Some name, v_path := Some path\<rparr>)) (\<lambda>_.
            bnd (refresh_with_params env i vp) (\<lambda>_. ret i))))))"

definition list_volumes :: "'w storage_env \<Rightarrow> ('w storage, nat list) py" where
  "list_volumes env =
     bnd (gets (\<lambda>s. length (pools s))) (\<lambda>n.
       if n = 0 then throw (TypeError ''reduce() of empty sequence with no initial value'')
       else bnd (map_each [0 ..< n] (get_volumes env)) (\<lambda>vss. ret (concat vss)))"

definition get_volume_by_name :: "'w storage_env \<Rightarrow> string \<Rightarrow> ('w storage, nat option) py" where
  "get_volume_by_name env name =
     bnd (list_volumes env) (\<lambda>is. gets (\<lambda>s. find (\<lambda>i. v_name (volumes s ! i) = Some name) is))"

definition first_equal :: "(nat \<Rightarrow> ('w storage, string option) py) \<Rightarrow> string \<Rightarrow> nat list \<Rightarrow> ('w storage, nat option) py" where
  "first_equal attr val is =
     bnd (map_each is attr) (\<lambda>vs. ret (map_option fst (find (\<lambda>(i, x). x = Some val) (zip is vs))))"

definition get_volume_by_path :: "'w storage_env \<Rightarrow> string \<Rightarrow> ('w storage, nat option) py" where
  "get_volume_by_path env path = bnd (list_volumes env) (first_equal (vol_path env) path)"

definition get_volume_by_url :: "'w storage_env \<Rightarrow> string \<Rightarrow> ('w storage, nat option) py" where
  "get_volume_by_url env url = bnd (list_volumes env) (first_equal (vol_url env) url)"

text \<open>A backing volume that is not known is defined in the same way; the fuel bounds the length of the chain.\<close>

fun volume_define_by_params :: "nat \<Rightarrow> 'w storage_env \<Rightarrow> pydict \<Rightarrow> string \<Rightarrow> ('w storage, nat) py" where
  "volume_define_by_params 0 env params name = throw (RuntimeError ''maximum recursion depth exceeded'')"
| "volume_define_by_params (Suc n) env params name =
     (let vp = object_params env params name;
          pool_name = py_str (dget_default vp ''storage_pool'' PNone) in
      bnd (pool_define_by_params env pool_name (object_params env params pool_name)) (\<lambda>p.
      bnd (get_volume_by_params env p params name) (\<lambda>i.
      bnd (if dget_default vp ''image_format'' (PStr ''qcow2'') = PStr ''qcow2'' \<and> truthy (dget_default vp ''backing'' PNone) then
             (let backing = str_of (dget_default vp ''backing'' PNone) in
              bnd (get_volume_by_name env backing) (\<lambda>found.
              bnd (case found of Some b \<Rightarrow> ret b | None \<Rightarrow> volume_define_by_params n env params backing) (\<lambda>b.
                set_vol i (\<lambda>v. v\<lparr>v_backing := Some b\<rparr>))))
           else ret ()) (\<lambda>_.
      bnd (refresh_with_params env i vp) (\<lambda>_. ret i)))))"

section \<open>Creating and removing volumes\<close>

text \<open>The free space of a pool is asked for once.\<close>

definition pool_available :: "'w storage_env \<Rightarrow> nat \<Rightarrow> ('w storage, int) py" where
  "pool_available env p =
     bnd (pool_at p) (\<lambda>pl.
       case p_available pl of
         Some n \<Rightarrow> ret n
       | None \<Rightarrow>
           (case p_type pl of
              Directory \<Rightarrow>
                bnd (on_vm (system_output env (''df -k --output=avail '' @ p_target pl @ '' |tail -n1''))) (\<lambda>out.
                bnd (lift_res (int_of_str out)) (\<lambda>k.
                bnd (set_pool p (\<lambda>pl. pl\<lparr>p_available := Some (k * 1024)\<rparr>)) (\<lambda>_. ret (k * 1024))))
            | Rbd \<Rightarrow> throw (AttributeError ''available'')))"

definition generate_qemu_img_options :: "'w storage_env \<Rightarrow> nat \<Rightarrow> ('w storage, string) py" where
  "generate_qemu_img_options env i =
     bnd (vol i) (\<lambda>v.
     bnd (lift_res (case v_params v of None \<Rightarrow> Inl (AttributeError ''get'') | Some ps \<Rightarrow> Inr (dget_default ps ''image_format'' (PStr ''qcow2'')))) (\<lambda>fmt.
     let options = '' -f '' @ py_str fmt in
       if fmt \<noteq> PStr ''qcow2'' then ret options
       else
         bnd (case v_backing v of
                None \<Rightarrow> ret []
              | Some b \<Rightarrow> bnd (vol_key env b) (\<lambda>k. ret ('' -b '' @ py_str (opt_str k)))) (\<lambda>bopt.
         bnd (vol_format env i) (\<lambda>n.
           if truthy (dget_default (n_params n) ''encrypt'' PNone) then throw (AttributeError ''secret'') else ret (options @ bopt)))))"

definition no_space :: "int \<Rightarrow> string \<Rightarrow> int \<Rightarrow> exc" where
  "no_space cap name avail =
     TestError (''No enough free space, request '' @ [CHR 0x27] @ int_str cap @ [CHR 0x27] @ '' but available in '' @ name @ '' is ''
       @ [CHR 0x27] @ int_str avail @ [CHR 0x27])"

text \<open>\<^verbatim>\<open>storage_util.create_volume\<close>: the format of a volume is a node, which is compared with a text.\<close>

definition check_space :: "'w storage_env \<Rightarrow> nat \<Rightarrow> ('w storage, unit) py" where
  "check_space env i =
     bnd (vol i) (\<lambda>v.
     bnd (pool_at (v_pool v)) (\<lambda>pl.
       if preallocation v = PStr ''full'' then
         bnd (pool_available env (v_pool v)) (\<lambda>a.
         bnd (vol_capacity env i) (\<lambda>c. if a < c then throw (no_space c (p_name pl) a) else ret ()))
       else
         bnd (vol_format env i) (\<lambda>n.
           if node_is_text env n ''qcow2'' then
             bnd (pool_available env (v_pool v)) (\<lambda>a.
             bnd (vol_capacity env i) (\<lambda>c. if a * 12 < c * 10 then throw (no_space c (p_name pl) a) else ret ()))
           else ret ())))"

definition util_create_volume :: "'w storage_env \<Rightarrow> nat \<Rightarrow> ('w storage, unit) py" where
  "util_create_volume env i =
     bnd (check_space env i) (\<lambda>_.
     bnd (generate_qemu_img_options env i) (\<lambda>options.
     bnd (vol_key env i) (\<lambda>key.
     bnd (vol_capacity env i) (\<lambda>cap.
       on_vm (run_system env (''qemu-img create '' @ options @ '' '' @ py_str (opt_str key) @ '' '' @ int_str cap @ ''B''))))))"

definition pool_create_volume :: "'w storage_env \<Rightarrow> nat \<Rightarrow> nat \<Rightarrow> ('w storage, unit) py" where
  "pool_create_volume env p i =
     bnd (pool_at p) (\<lambda>pl.
       case p_type pl of
         Directory \<Rightarrow> bnd (util_create_volume env i) (\<lambda>_. set_vol i (\<lambda>v. v\<lparr>is_allocated := True\<rparr>))
       | Rbd \<Rightarrow> throw NotImplementedError)"

definition pool_acquire_volume :: "'w storage_env \<Rightarrow> nat \<Rightarrow> nat \<Rightarrow> ('w storage, unit) py" where
  "pool_acquire_volume env p i =
     bnd (vol i) (\<lambda>v.
       if is_allocated v then ret () else bnd (pool_create_volume env p i) (\<lambda>_. pool_refresh env p))"

fun acquire_volume :: "nat \<Rightarrow> 'w storage_env \<Rightarrow> nat \<Rightarrow> ('w storage, unit) py" where
  "acquire_volume 0 env i = throw (RuntimeError ''maximum recursion depth exceeded'')"
| "acquire_volume (Suc n) env i =
     bnd (vol i) (\<lambda>v.
       if is_allocated v then ret ()
       else
         bnd (case v_backing v of None \<Rightarrow> ret () | Some b \<Rightarrow> acquire_volume n env b) (\<lambda>_.
           pool_acquire_volume env (v_pool v) i))"

definition remove_volume :: "'w storage_env \<Rightarrow> nat \<Rightarrow> ('w storage, unit) py" where
  "remove_volume env i =
     bnd (vol i) (\<lambda>v.
     bnd (pool_at (v_pool v)) (\<lambda>pl.
     bnd (vol_path env i) (\<lambda>path.
     bnd (on_vm (run_system env ((case p_type pl of Directory \<Rightarrow> ''rm -f '' | Rbd \<Rightarrow> ''rbd rm '') @ py_str (opt_str path)))) (\<lambda>_.
       set_discard env (v_pool v) i))))"

text \<open>Pools have no function \<open>release_volume\<close>.\<close>

definition release_volume :: "nat \<Rightarrow> ('w storage, unit) py" where
  "release_volume i = throw (AttributeError ''release_volume'')"

section \<open>Plugging a volume into a machine\<close>

definition create_protocol_by_qmp :: "'w storage_env \<Rightarrow> nat \<Rightarrow> int \<Rightarrow> ('w storage, unit) py" where
  "create_protocol_by_qmp env i timeout =
     bnd (vol_protocol env i) (\<lambda>n.
     bnd (vol_capacity env i) (\<lambda>size.
     bnd (pool_of i) (\<lambda>p.
     let get = (\<lambda>k. dget_default (n_params n) k PNone);
         options = [(''driver'', PStr (n_type n))]
           @ (case p_type p of
                Directory \<Rightarrow> [(''filename'', get ''filename'')]
              | Rbd \<Rightarrow> [(''location'', PDict [(''pool'', get ''pool''), (''image'', get ''image'')])])
           @ [(''size'', PInt size)] in
       on_vm (blockdev_create (host_vm env) [(''options'', PDict options), (''job-id'', node_name_of n), (''timeout'', PInt timeout)]))))"

definition qcow2_options :: "'w storage_env \<Rightarrow> nat \<Rightarrow> bnode \<Rightarrow> ('w storage, pydict) py" where
  "qcow2_options env i n =
     bnd (vol i) (\<lambda>v.
     bnd (case v_backing v of
            None \<Rightarrow> ret []
          | Some b \<Rightarrow> bnd (vol_format env b) (\<lambda>bn. bnd (vol_path env b) (\<lambda>bp.
              ret [(''backing-fmt'', PStr (n_type bn)), (''backing-file'', opt_str bp)]))) (\<lambda>o1.
     let get = (\<lambda>k. dget_default (n_params n) k PNone);
         o2 = (case v_encrypt v of
                 None \<Rightarrow> []
               | Some _ \<Rightarrow> [(''encrypt'', PDict ((if truthy (get ''encrypt.key-secret'') then [(''key-secret'', get ''encrypt.key-secret'')] else [])
                             @ (if truthy (get ''encrypt.format'') then [(''format'', get ''encrypt.format'')] else [])))]) in
     bnd (lift_res (case v_params v of
            None \<Rightarrow> Inl (AttributeError ''get'')
          | Some ps \<Rightarrow>
              rbind (if truthy (dget_default ps ''image_cluster_size'' PNone)
                     then rbind (py_int (dget_default ps ''image_cluster_size'' PNone)) (\<lambda>c. Inr [(''cluster-size'', PInt c)]) else Inr []) (\<lambda>o3.
              Inr (o3 @ (if truthy (dget_default ps ''image_data_file'' PNone)
                         then [(''data-file'', get ''data-file''),
                               (''data-file-raw'', PBool (dget_default ps ''image_data_file_raw'' PNone \<in> {PStr ''on'', PStr ''yes'', PStr ''true''}))]
                         else []))))) (\<lambda>o3.
       ret (o1 @ o2 @ o3))))"

definition format_protocol_by_qmp :: "'w storage_env \<Rightarrow> nat \<Rightarrow> int \<Rightarrow> ('w storage, unit) py" where
  "format_protocol_by_qmp env i timeout =
     bnd (vol_format env i) (\<lambda>n.
     bnd (vol_protocol env i) (\<lambda>prot.
     bnd (vol_capacity env i) (\<lambda>size.
     bnd (if n_type n = ''qcow2'' then qcow2_options env i n else ret []) (\<lambda>more.
       on_vm (blockdev_create (host_vm env)
         [(''options'', PDict ([(''driver'', PStr (n_type n)), (''file'', node_name_of prot), (''size'', PInt size)] @ more)),
          (''job-id'', node_name_of n), (''timeout'', PInt timeout)])))))"

definition plug_node :: "'w storage_env \<Rightarrow> bnode \<Rightarrow> ('w storage, unit) py" where
  "plug_node env n = (case node_cmd env n of (cmd, options) \<Rightarrow> bnd (on_vm (monitor_cmd (host_vm env) cmd options)) (\<lambda>_. ret ()))"

definition volume_hotplug :: "'w storage_env \<Rightarrow> nat \<Rightarrow> ('w storage, unit) py" where
  "volume_hotplug env i =
     bnd (vol i) (\<lambda>v.
     bnd (pool_of i) (\<lambda>p.
     bnd (if p_state p = ''running'' then ret () else pool_trigger env (v_pool v) ''start_pool'') (\<lambda>_.
     bnd (vol_protocol env i) (\<lambda>prot.
     bnd (create_protocol_by_qmp env i 120) (\<lambda>_.
     bnd (plug_node env prot) (\<lambda>_.
     bnd (if raw_format_node_eliminated v then ret ()
          else
            bnd (vol_format env i) (\<lambda>n.
            bnd (if n_type n = ''raw'' then ret () else format_protocol_by_qmp env i 120) (\<lambda>_. plug_node env n))) (\<lambda>_.
       pool_refresh env (v_pool v))))))))"

section \<open>What reading a volume keeps\<close>

text \<open>Reading the properties of a volume fills its caches; name, pool, backing and allocation stay.\<close>

definition core :: "volume \<Rightarrow> string option \<times> nat \<times> nat option \<times> bool" where
  "core v = (v_name v, v_pool v, v_backing v, is_allocated v)"

abbreviation same_core :: "'w storage \<Rightarrow> 'w storage \<Rightarrow> bool" where
  "same_core s t \<equiv> map core (volumes t) = map core (volumes s)"

abbreviation caches_only :: "'w storage \<Rightarrow> 'w storage \<Rightarrow> bool" where
  "caches_only s t \<equiv> same_core s t \<and> pools t = pools s \<and> st_vm t = st_vm s"

interpretation cores: state_relation same_core
  by unfold_locales auto

interpretation caches: state_relation caches_only
  by unfold_locales auto

lemma caches_same_core: "moves caches_only m \<Longrightarrow> moves same_core m"
  by (simp add: moves_def)

lemma map_core_update: "(\<And>v. core (f v) = core v) \<Longrightarrow> map core (vs[i := f (vs ! i)]) = map core vs"
  by (metis list_update_id map_update)

lemma set_vol_caches: "(\<And>v. core (f v) = core v) \<Longrightarrow> moves caches_only (set_vol i f)"
  unfolding set_vol_def by (rule moves_modify) (simp add: map_core_update)

lemma vol_caches: "moves caches_only (vol i)" "moves caches_only (pool_at p)" "moves caches_only (pool_of i)"
  unfolding vol_def pool_at_def pool_of_def by (intro caches.composed)+

lemmas caches_intros = caches.composed set_vol_caches vol_caches

lemma vol_url_caches: "moves caches_only (vol_url env i)"
  unfolding vol_url_def by (intro caches_intros) (auto simp: core_def)

lemma vol_path_caches: "moves caches_only (vol_path env i)"
  unfolding vol_path_def by (intro caches_intros vol_url_caches) (auto simp: core_def)

lemma vol_key_caches: "moves caches_only (vol_key env i)"
  unfolding vol_key_def by (intro caches_intros vol_url_caches vol_path_caches) (auto simp: core_def)

lemma vol_capacity_caches: "moves caches_only (vol_capacity env i)"
  unfolding vol_capacity_def by (intro caches_intros vol_key_caches) (auto simp: core_def)

lemma vol_info_caches: "moves caches_only (vol_info env i)"
  unfolding vol_info_def vol_str_def
  by (intro caches_intros vol_url_caches vol_path_caches vol_key_caches vol_capacity_caches)

section \<open>Removed volumes\<close>

text \<open>What a volume shows of itself when it is made, and pools whose entries were all stored at that moment.\<close>

definition fresh_info :: "spool \<Rightarrow> pydict" where
  "fresh_info p = [(''name'', PNone), (''pool'', PStr (pool_str p)), (''url'', PNone), (''path'', PNone), (''key'', PNone), (''format'', PNone),
     (''auth'', PStr (case p_source p of None \<Rightarrow> ''None'' | Some src \<Rightarrow> s_auth src)), (''capacity'', PInt 0), (''preallocation'', PNone),
     (''backing'', PStr ''None'')]"

definition stored_fresh :: "'w storage_env \<Rightarrow> spool \<Rightarrow> bool" where
  "stored_fresh env p \<longleftrightarrow> list_all (\<lambda>(h, j). h = hash_of env (fresh_info p)) (p_volumes p)"

lemma vol_info_name:
  assumes "vol_info env i s = (Inr d, s')"
  shows "dget d ''name'' = Some (opt_str (v_name (volumes s ! i)))"
  using assms by (auto simp: vol_info_def vol_def gets_def ret_def elim!: bnd_InrE)

lemma find_entry_other: "list_all (\<lambda>(h', j). h' \<noteq> h) es \<Longrightarrow> find_entry env h i es n s = (Inr None, s)"
  by (induction es arbitrary: n) (auto simp: ret_def)

lemma same_core_at:
  assumes "same_core s t" "i < length (volumes s)"
  shows "core (volumes t ! i) = core (volumes s ! i)"
  using assms by (metis length_map nth_map)

lemma fresh_info_run:
  assumes "i < length (volumes s)" "volumes s ! i = fresh_volume p"
  shows "\<exists>s'. vol_info env i s = (Inr (fresh_info (pools s ! p)), s') \<and> caches_only s s'"
proof -
  have "vol_info env i s = (Inr (fresh_info (pools s ! p)), s\<lparr>volumes := (volumes s)[i := (fresh_volume p)\<lparr>v_capacity := Some 0\<rparr>]\<rparr>)"
    using assms
    by (simp add: vol_info_def vol_url_def vol_path_def vol_key_def vol_capacity_def vol_def pool_of_def pool_at_def set_vol_def bnd_def gets_def ret_def
        modify_def fresh_volume_def opt_str_def fresh_info_def)
  then show ?thesis using movesD[OF vol_info_caches] by blast
qed

text \<open>The constructor stores the hash of the fresh volume, and adds an entry for it.\<close>

lemma constructor_stores_fresh:
  assumes p: "p < length (pools s)" and fresh: "stored_fresh env (pools s ! p)" and run: "StorageVolume env p s = (Inr i, s')"
  shows "stored_fresh env (pools s' ! p)"
proof -
  let ?s0 = "s\<lparr>volumes := volumes s @ [fresh_volume p]\<rparr>"
  have i: "i = length (volumes s)" and add: "set_add env p i ?s0 = (Inr (), s')"
    using run by (auto simp: StorageVolume_def gets_def modify_def ret_def elim!: bnd_InrE)
  obtain s1 where s1: "vol_info env i ?s0 = (Inr (fresh_info (pools s ! p)), s1)" "caches_only ?s0 s1"
    using fresh_info_run[of i ?s0 p env] by (auto simp: i)
  let ?h = "hash_of env (fresh_info (pools s ! p))"
  have find: "moves caches_only (find_entry env h i es n)" for h es n
    by (induction es arbitrary: n) (auto intro!: caches_intros vol_info_caches)
  obtain r s2 where f: "find_entry env ?h i (p_volumes (pools s ! p)) 0 s1 = (r, s2)" by fastforce
  have "pools s2 = pools s" using movesD[OF find f] s1(2) by simp
  then show ?thesis using add s1 f fresh p
    by (auto simp: set_add_def vol_hash_def pool_at_def set_pool_def modify_def bnd_def ret_def gets_def stored_fresh_def list_all_iff fresh_info_def
        pool_str_def split: sum.splits if_splits)
qed

text \<open>
  Removing a volume deletes its file but not its entry: the set of the pool stores the hash the volume had when it was made, before it got its
  name, and a named volume has another hash (no collision with the fresh one is assumed), so discarding it finds nothing.  A volume that was allocated
  counts as allocated ever after, and acquiring it again does not create its file.
\<close>

lemma removed_volume_stays:
  assumes hash: "\<And>d. hash_of env d = hash_of env (fresh_info (pools s ! v_pool (volumes s ! i))) \<Longrightarrow> dget d ''name'' = Some PNone"
    and i: "i < length (volumes s)" "v_name (volumes s ! i) = Some name"
    and fresh: "stored_fresh env (pools s ! v_pool (volumes s ! i))" and run: "remove_volume env i s = (Inr (), s')"
  shows "pools s' = pools s
    \<and> (is_allocated (volumes s ! i) \<longrightarrow> is_allocated (volumes s' ! i) \<and> acquire_volume (Suc n) env i s' = (Inr (), s'))"
proof -
  let ?p = "v_pool (volumes s ! i)"
  obtain path s1 w where s1: "vol_path env i s = (Inr path, s1)" and d0: "set_discard env ?p i (s1\<lparr>st_vm := w\<rparr>) = (Inr (), s')"
    using run by (auto simp: remove_volume_def vol_def pool_at_def gets_def on_vm_def elim!: bnd_InrE split: prod.splits)
  define s2 where "s2 = s1\<lparr>st_vm := w\<rparr>"
  have s2: "pools s2 = pools s1" "volumes s2 = volumes s1" and d: "set_discard env ?p i s2 = (Inr (), s')"
    using d0 by (simp_all add: s2_def)
  have c1: "same_core s s1" "pools s1 = pools s" using movesD[OF vol_path_caches s1] by auto
  obtain info s3 where info: "vol_info env i s2 = (Inr info, s3)"
    using d by (auto simp: set_discard_def vol_hash_def elim!: bnd_InrE)
  have c3: "same_core s2 s3" "pools s3 = pools s2" using movesD[OF vol_info_caches info] by auto
  have "core (volumes s2 ! i) = core (volumes s ! i)" using same_core_at[OF c1(1) i(1)] s2(2) by simp
  then have "dget info ''name'' = Some (PStr name)" using vol_info_name[OF info] i(2) by (simp add: core_def opt_str_def)
  then have "hash_of env info \<noteq> hash_of env (fresh_info (pools s ! ?p))" using hash[of info] by auto
  then have "list_all (\<lambda>(h', j). h' \<noteq> hash_of env info) (p_volumes (pools s3 ! ?p))"
    using fresh unfolding c3(2) s2(1) c1(2) stored_fresh_def by (auto simp: list_all_iff)
  then have s': "s' = s3"
    using d info by (auto simp: set_discard_def vol_hash_def pool_at_def bnd_def gets_def ret_def find_entry_other split: sum.splits)
  have "same_core s s'" using c1 c3 s2 s' by simp
  from same_core_at[OF this i(1)] have "is_allocated (volumes s' ! i) = is_allocated (volumes s ! i)" by (simp add: core_def)
  then show ?thesis using c1(2) c3(2) s2(1) s' by (auto simp: vol_def bnd_def gets_def ret_def)
qed

text \<open>A host for the examples, on which every command succeeds.\<close>

definition demo_storage_env :: "script storage_env" where
  "demo_storage_env = \<lparr>host_vm = scripted [], object_params = (\<lambda>ps _. ps), realpath = (\<lambda>t. t), is_dir = (\<lambda>_ _. True), make_dirs = (\<lambda>_ w. (Inr (), w)),
     run_system = (\<lambda>c w. (Inr (), w\<lparr>sent := sent w @ [(c, [])]\<rparr>)), system_output = (\<lambda>_ w. (Inr ''1'', w)), normalize_size = (\<lambda>_. Inr 100),
     raw_node_masked = (\<lambda>_ w. (Inr False, w)), make_source = (\<lambda>_ _. Inr \<lparr>s_pool_name = PNone, s_auth = ''None''\<rparr>),
     new_node = (\<lambda>t n. \<lparr>n_type = t, n_params = [(''node-name'', opt_str n)], n_children = []\<rparr>),
     set_param = (\<lambda>k v n. n\<lparr>n_params := dset k v (n_params n)\<rparr>), node_is_text = (\<lambda>_ _. False), node_cmd = (\<lambda>n. (''blockdev-add'', n_params n)),
     hash_of = (\<lambda>d. if dget d ''name'' = Some PNone then 0 else 1), set_order = (\<lambda>es. es), fire = (\<lambda>_ _ _. None)\<rparr>"

definition demo_storage_params :: pydict where
  "demo_storage_params = [(''storage_type'', PStr ''directory''), (''storage_pool'', PStr ''p''), (''target_path'', PStr ''/images''), (''image_name'', PStr ''a'')]"

definition demo_storage0 :: "script storage" where
  "demo_storage0 = \<lparr>st_vm = vm_start ([], []), pools = [], volumes = [], secrets = []\<rparr>"

text \<open>One volume, defined from parameters and created.\<close>

definition demo_storage :: "script storage" where
  "demo_storage = snd (bnd (volume_define_by_params 2 demo_storage_env demo_storage_params ''v'') (acquire_volume 2 demo_storage_env) demo_storage0)"

lemma removed_volume_stays_example:
  "\<exists>s'. remove_volume demo_storage_env 0 demo_storage = (Inr (), s') \<and> map p_volumes (pools s') = [[(0, 0)]]
    \<and> acquire_volume (Suc 0) demo_storage_env 0 s' = (Inr (), s')
    \<and> map fst (sent (st_vm s')) = [''qemu-img create  -f qcow2 /images/a.qcow2 100B'', ''rm -f /images/a.qcow2'']"
proof -
  let ?r = "remove_volume demo_storage_env 0 demo_storage"
  have r: "?r = (Inr (), snd ?r)" by code_simp
  have 1: "0 < length (volumes demo_storage)" "v_name (volumes demo_storage ! 0) = Some ''v''" "is_allocated (volumes demo_storage ! 0)"
    "stored_fresh demo_storage_env (pools demo_storage ! v_pool (volumes demo_storage ! 0))" "map p_volumes (pools demo_storage) = [[(0, 0)]]" by code_simp+
  have 2: "map fst (sent (st_vm (snd ?r))) = [''qemu-img create  -f qcow2 /images/a.qcow2 100B'', ''rm -f /images/a.qcow2'']" by code_simp
  have "dget d ''name'' = Some PNone"
    if "hash_of demo_storage_env d = hash_of demo_storage_env (fresh_info (pools demo_storage ! v_pool (volumes demo_storage ! 0)))" for d
    using that by (simp add: demo_storage_env_def fresh_info_def split: if_splits)
  then have x: "pools (snd ?r) = pools demo_storage \<and> (is_allocated (volumes demo_storage ! 0) \<longrightarrow>
      is_allocated (volumes (snd ?r) ! 0) \<and> acquire_volume (Suc 0) demo_storage_env 0 (snd ?r) = (Inr (), snd ?r))"
    by (rule removed_volume_stays[OF _ 1(1,2,4) r])
  have 3: "map p_volumes (pools (snd ?r)) = [[(0, 0)]]" by (rule trans[OF arg_cong[OF x[THEN conjunct1], of "map p_volumes"] 1(5)])
  show ?thesis by (intro exI[of _ "snd ?r"] conjI r 2 3 x[THEN conjunct2, THEN mp, OF 1(3), THEN conjunct2])
qed

section \<open>Backing volumes\<close>

text \<open>Every allocated volume has an allocated backing volume, if it has one at all.\<close>

definition backed :: "'w storage \<Rightarrow> bool" where
  "backed s \<longleftrightarrow> (\<forall>j < length (volumes s). is_allocated (volumes s ! j) \<longrightarrow>
     (\<forall>b. v_backing (volumes s ! j) = Some b \<longrightarrow> is_allocated (volumes s ! b)))"

definition backing_in_range :: "'w storage \<Rightarrow> bool" where
  "backing_in_range s \<longleftrightarrow> (\<forall>j < length (volumes s). \<forall>b. v_backing (volumes s ! j) = Some b \<longrightarrow> b < length (volumes s))"

text \<open>Acquiring may allocate volumes, and changes nothing else of what \<open>core\<close> shows.\<close>

abbreviation allocates :: "'w storage \<Rightarrow> 'w storage \<Rightarrow> bool" where
  "allocates s t \<equiv> length (volumes t) = length (volumes s)
     \<and> (\<forall>j < length (volumes s). v_backing (volumes t ! j) = v_backing (volumes s ! j) \<and> (is_allocated (volumes s ! j) \<longrightarrow> is_allocated (volumes t ! j)))"

interpretation allocation: state_relation allocates
  by unfold_locales auto

lemma same_core_allocates: "same_core s t \<Longrightarrow> allocates s t"
proof -
  assume a: "same_core s t"
  then have "length (volumes t) = length (volumes s)" by (metis length_map)
  then show ?thesis using same_core_at[OF a] by (auto simp: core_def)
qed

lemma same_core_backed:
  assumes "same_core s t" "backing_in_range s" "backed s"
  shows "backed t"
proof -
  have l: "length (volumes t) = length (volumes s)" using assms(1) by (metis length_map)
  have "v_backing (volumes t ! j) = v_backing (volumes s ! j)" "is_allocated (volumes t ! j) = is_allocated (volumes s ! j)"
    if "j < length (volumes s)" for j using same_core_at[OF assms(1) that] by (auto simp: core_def)
  then show ?thesis using assms(2,3) l by (auto simp: backed_def backing_in_range_def)
qed

lemma set_vol_cores: "(\<And>v. core (f v) = core v) \<Longrightarrow> moves same_core (set_vol i f)"
  by (rule caches_same_core[OF set_vol_caches])

lemma set_pool_cores: "moves same_core (set_pool p f)"
  unfolding set_pool_def by (rule moves_modify) simp

lemma on_vm_cores: "moves same_core (on_vm f)"
  by (rule movesI) (simp add: on_vm_def split: prod.split)

lemmas cores_intros = cores.composed set_vol_cores set_pool_cores on_vm_cores caches_same_core[OF vol_caches(1)]
  caches_same_core[OF vol_caches(2)] caches_same_core[OF vol_capacity_caches] caches_same_core[OF vol_key_caches]

lemma backend_cores: "moves same_core m \<Longrightarrow> moves same_core n \<Longrightarrow> moves same_core (case t of Directory \<Rightarrow> m | Rbd \<Rightarrow> n)"
  by (cases t) auto

lemma vol_format_cores: "moves same_core (vol_format env i)"
  unfolding vol_format_def Let_def by (intro cores_intros) (auto simp: core_def)

lemma available_cores: "moves same_core (pool_available env p)"
  unfolding pool_available_def by (intro cores_intros backend_cores)

lemma create_cores: "moves same_core (util_create_volume env i)"
  unfolding util_create_volume_def check_space_def generate_qemu_img_options_def Let_def
  by (intro cores_intros vol_format_cores available_cores)

lemma refresh_cores: "moves same_core (pool_refresh env p)"
  unfolding pool_refresh_def by (intro cores_intros backend_cores)

lemma pool_acquire_run:
  assumes inv: "backed s" "backing_in_range s" and i: "i < length (volumes s)"
    and b: "\<And>b. v_backing (volumes s ! i) = Some b \<Longrightarrow> is_allocated (volumes s ! b)"
    and run: "pool_acquire_volume env p i s = (r, s')"
  shows "backed s' \<and> allocates s s' \<and> (r = Inr () \<longrightarrow> is_allocated (volumes s' ! i))"
proof (cases "is_allocated (volumes s ! i)")
  case True
  then show ?thesis using run inv by (auto simp: pool_acquire_volume_def vol_def bnd_def gets_def ret_def)
next
  case False
  then have run: "bnd (pool_create_volume env p i) (\<lambda>_. pool_refresh env p) s = (r, s')"
    using run by (simp add: pool_acquire_volume_def vol_def bnd_def[of "gets _"] gets_def)
  show ?thesis
  proof (cases "p_type (pools s ! p)")
    case Rbd
    then show ?thesis using run inv by (auto simp: pool_create_volume_def pool_at_def bnd_def gets_def throw_def)
  next
    case Directory
    obtain r1 s1 where c: "util_create_volume env i s = (r1, s1)" by fastforce
    note core1 = movesD[OF create_cores c]
    show ?thesis
    proof (cases r1)
      case (Inl e)
      then show ?thesis using run c Directory same_core_backed[OF core1 inv(2,1)] same_core_allocates[OF core1]
        by (auto simp: pool_create_volume_def pool_at_def bnd_def gets_def)
    next
      case (Inr x)
      define s2 where "s2 = s1\<lparr>volumes := (volumes s1)[i := (volumes s1 ! i)\<lparr>is_allocated := True\<rparr>]\<rparr>"
      have ref: "pool_refresh env p s2 = (r, s')"
        using run c Directory Inr by (simp add: pool_create_volume_def pool_at_def bnd_def gets_def set_vol_def modify_def s2_def)
      have len: "length (volumes s1) = length (volumes s)" using core1 by (metis length_map)
      have v1: "v_backing (volumes s1 ! j) = v_backing (volumes s ! j)" "is_allocated (volumes s1 ! j) = is_allocated (volumes s ! j)"
        if "j < length (volumes s)" for j using same_core_at[OF core1 that] by (auto simp: core_def)
      have all: "allocates s s2" using v1 len i by (auto simp: s2_def nth_list_update)
      have v2: "is_allocated (volumes s2 ! j) \<longleftrightarrow> j = i \<or> is_allocated (volumes s ! j)" if "j < length (volumes s)" for j
        using v1(2)[OF that] len i by (simp add: s2_def nth_list_update)
      have bk: "backed s2"
        unfolding backed_def
      proof (intro allI impI)
        fix j b' assume j: "j < length (volumes s2)" "is_allocated (volumes s2 ! j)" "v_backing (volumes s2 ! j) = Some b'"
        then have j': "j < length (volumes s)" "v_backing (volumes s ! j) = Some b'" using all by auto
        then have "b' < length (volumes s)" using inv(2) by (simp add: backing_in_range_def)
        moreover have "is_allocated (volumes s ! b')" using j' j(2) v2[OF j'(1)] b inv(1) by (auto simp: backed_def)
        ultimately show "is_allocated (volumes s2 ! b')" using v2 by blast
      qed
      have rg: "backing_in_range s2" using inv(2) all by (simp add: backing_in_range_def)
      have al: "is_allocated (volumes s2 ! i)" using len i by (simp add: s2_def)
      note core2 = movesD[OF refresh_cores ref]
      have "allocates s2 s'" by (rule same_core_allocates[OF core2])
      moreover from this have "is_allocated (volumes s' ! i)" using al all i by simp
      ultimately show ?thesis using same_core_backed[OF core2 rg bk] allocation.trans[OF all] by blast
    qed
  qed
qed


definition demo_chain :: "script storage" where
  "demo_chain = \<lparr>st_vm = vm_start ([], []),
     pools = [\<lparr>p_name = ''p'', p_type = Directory, p_target = ''/i'', p_source = None, p_available = None, p_exported = None, p_state = ''dead'', p_volumes = []\<rparr>],
     volumes = [(fresh_volume 0)\<lparr>v_name := Some ''sn'', v_path := Some ''/i/sn'', v_params := Some [], v_backing := Some 1\<rparr>,
                (fresh_volume 0)\<lparr>v_name := Some ''base'', v_path := Some ''/i/base'', v_params := Some [], v_capacity := Some 9\<rparr>],
     secrets = []\<rparr>"


text \<open>
  The check for free space before a volume is created: a node of the framework is not equal to a text, so unless the volume is fully preallocated
  the check passes without asking for the free space of the pool, for a volume of any size.
\<close>

lemma space_check_skipped:
  assumes "\<And>n t. \<not> node_is_text env n t" and "preallocation (volumes s ! i) \<noteq> PStr ''full''"
  shows "\<exists>s'. check_space env i s = (Inr (), s') \<and> st_vm s' = st_vm s"
proof -
  have "moves caches_only (vol_format env i)"
    unfolding vol_format_def Let_def by (intro caches_intros) (auto simp: core_def)
  moreover obtain n s1 where "vol_format env i s = (Inr n, s1)"
    by (cases "v_format (volumes s ! i)") (auto simp: vol_format_def vol_def bnd_def gets_def Let_def set_vol_def modify_def ret_def)
  ultimately show ?thesis using assms movesD by (fastforce simp: check_space_def vol_def pool_at_def bnd_def gets_def ret_def)
qed

end
