(* ===== verification/Py_Text.thy ===== *)
theory Py_Text
  imports Py_Base
begin

text \<open>
  Texts that name several objects: \<open>params.objects(key)\<close>, and \<open>str.replace\<close> with the laws that say when replacing
  in the text is replacing in the list of its words.  \<open>x in s\<close> for strings is \<^const>\<open>sublist\<close>.
\<close>

definition objects :: "pydict \<Rightarrow> string \<Rightarrow> string list" where
  "objects params key = (case dget params key of Some (PStr s) \<Rightarrow> split_ws s | _ \<Rightarrow> [])"

text \<open>\<open>s.replace(old, new)\<close>: from the left, without overlaps; an empty \<open>old\<close> stands between any two characters.\<close>

function replace_from :: "string \<Rightarrow> string \<Rightarrow> string \<Rightarrow> string" where
  "replace_from old new s =
     (if s = [] then []
      else if old \<noteq> [] \<and> startswith s old then new @ replace_from old new (drop (length old) s)
      else hd s # replace_from old new (tl s))"
  by pat_completeness auto
termination
  by (relation "measure (\<lambda>(old, new, s). length s)") auto

declare replace_from.simps [simp del]

definition replace_str :: "string \<Rightarrow> string \<Rightarrow> string \<Rightarrow> string" where
  "replace_str old new s = (if old = [] then new @ concat (map (\<lambda>c. c # new) s) else replace_from old new s)"

section \<open>Replacing word by word\<close>

lemma replace_from_Nil [simp]: "replace_from old new [] = []"
  by (simp add: replace_from.simps)

lemma replace_from_match: "old \<noteq> [] \<Longrightarrow> replace_from old new (old @ s) = new @ replace_from old new s"
  by (subst replace_from.simps) simp

lemma replace_from_step: "\<not> startswith (c # s) old \<Longrightarrow> replace_from old new (c # s) = c # replace_from old new s"
  by (subst replace_from.simps) simp

text \<open>A character that \<open>old\<close> does not have separates the text into parts that are replaced one by one.\<close>

lemma startswith_break:
  assumes "c \<notin> set old"
  shows "startswith (s @ c # t) old \<longleftrightarrow> startswith s old"
proof
  assume *: "startswith (s @ c # t) old"
  have "length old \<le> length s"
  proof (rule ccontr)
    assume "\<not> length old \<le> length s"
    moreover have "old ! length s = (s @ c # t) ! length s" if "length s < length old"
      using * that by (metis nth_take startswith_def)
    ultimately show False using assms nth_mem[of "length s" old] by simp
  qed
  then show "startswith s old" using * by (simp add: startswith_def)
qed (auto simp: startswith_iff)

lemma replace_from_sep:
  assumes "c \<notin> set old" and "old \<noteq> []"
  shows "replace_from old new (s @ c # t) = replace_from old new s @ c # replace_from old new t"
proof (induction "length s" arbitrary: s rule: less_induct)
  case less
  show ?case
  proof (cases s)
    case Nil
    have "\<not> startswith (c # t) old" using assms by (cases old) (auto simp: startswith_def)
    then show ?thesis using Nil by (simp add: replace_from_step)
  next
    case (Cons d u)
    show ?thesis
    proof (cases "startswith s old")
      case True
      then obtain v where v: "s = old @ v" by (auto simp: startswith_iff)
      then have "replace_from old new (v @ c # t) = replace_from old new v @ c # replace_from old new t"
        using less assms(2) by simp
      then show ?thesis using v assms(2) replace_from_match[of old new] by simp
    next
      case False
      then have "\<not> startswith (d # u @ c # t) old" using startswith_break[OF assms(1), of s t] Cons by simp
      then show ?thesis using less[of u] False Cons by (simp add: replace_from_step)
    qed
  qed
qed

lemma replace_join:
  assumes "c \<notin> set old" and "old \<noteq> []"
  shows "replace_str old new (join [c] ws) = join [c] (map (replace_str old new) ws)"
  using assms
proof (induction "[c]" ws rule: join.induct)
  case (3 x y zs)
  then show ?case by (simp add: replace_str_def replace_from_sep)
qed (simp_all add: replace_str_def)

lemma replace_absent: "\<not> sublist old s \<Longrightarrow> replace_str old new s = s"
proof (induction s)
  case (Cons c s)
  then have "\<not> startswith (c # s) old" "\<not> sublist old s"
    by (auto simp: startswith_iff sublist_Cons_right prefix_def)
  then show ?case using Cons by (auto simp: replace_str_def replace_from_step)
qed (auto simp: replace_str_def)

lemma replace_whole: "old \<noteq> [] \<Longrightarrow> replace_str old new old = new"
  using replace_from_match[of old new "[]"] by (simp add: replace_str_def)

text \<open>
  Replacing one name by another in a text of names: only that name changes, as long as no other name contains it.
\<close>

lemma replace_name:
  assumes "c \<notin> set old" and "old \<noteq> []" and "\<forall>w \<in> set ws. w = old \<or> \<not> sublist old w"
  shows "replace_str old new (join [c] ws) = join [c] (map (\<lambda>w. if w = old then new else w) ws)"
proof -
  have "map (replace_str old new) ws = map (\<lambda>w. if w = old then new else w) ws"
    using assms(2,3) by (auto simp: replace_whole replace_absent)
  then show ?thesis using replace_join[OF assms(1,2), of new ws] by (simp only:)
qed

section \<open>Words of a text\<close>

lemma split_ws_acc_word:
  "\<forall>c \<in> set w. \<not> is_ws c \<Longrightarrow> is_ws d \<Longrightarrow> acc @ w \<noteq> [] \<Longrightarrow>
   split_ws_acc acc (w @ d # s) = (rev acc @ w) # split_ws_acc [] s"
  by (induction w arbitrary: acc) auto

lemma split_ws_acc_last: "\<forall>c \<in> set w. \<not> is_ws c \<Longrightarrow> acc @ w \<noteq> [] \<Longrightarrow> split_ws_acc acc w = [rev acc @ w]"
  by (induction w arbitrary: acc) auto

definition is_word :: "string \<Rightarrow> bool" where
  "is_word w \<longleftrightarrow> w \<noteq> [] \<and> list_all (\<lambda>c. \<not> is_ws c) w"

lemma split_ws_join: "list_all is_word ws \<Longrightarrow> split_ws (join '' '' ws) = ws"
proof (induction "'' ''" ws rule: join.induct)
  case (2 x)
  then show ?case using split_ws_acc_last[of x "[]"] by (simp add: split_ws_def is_word_def list_all_iff)
next
  case (3 x y zs)
  then show ?case using split_ws_acc_word[of x "CHR '' ''" "[]" "join '' '' (y # zs)"]
    by (simp add: split_ws_def is_word_def list_all_iff is_ws_def)
qed (simp add: split_ws_def)

lemma split_ws_words: "list_all is_word (split_ws s)"
proof -
  have "list_all (\<lambda>c. \<not> is_ws c) acc \<Longrightarrow> list_all is_word (split_ws_acc acc s)" for acc
    by (induction acc s rule: split_ws_acc.induct) (auto simp: is_word_def)
  then show ?thesis by (simp add: split_ws_def)
qed

end
