(* ===== verification/Input_Tests.thy ===== *)
theory Input_Tests
  imports Input_Pipeline Py_Text State_Relation Complex_Main
begin

text \<open>
  The tests of keyboards and mice (\<^verbatim>\<open>provider/input_tests.py\<close>, \<^verbatim>\<open>provider/vioinput_basic.py\<close>): each sends input through the
  graphical console of the framework and compares the events that the listener queued with those expected.  The console and
  the guest behind it are a function from an input to the batches of lines the agent writes because of it.  The session of the
  listener delivers pending batches while the test sleeps, and at most one more before each look at the queue, so
  events may still arrive while the test collects them.  Positions on a line are rational numbers.
\<close>

section \<open>The test and the guest\<close>

datatype input =
    KeyTap string
  | BtnClick string
  | ScrollForward int
  | ScrollBackward int
  | PointerMove "int \<times> int" bool

record 'g itest =
  ilst :: listener
  idelivers :: bool
  ipending :: "string list list"
  iguest :: 'g

record 'g console_env =
  react :: "input \<Rightarrow> 'g \<Rightarrow> string list list res \<times> 'g"
  screen_size :: "int \<times> int"
  pointer_pos :: "'g \<Rightarrow> int \<times> int"
  arrives_in :: "int \<Rightarrow> nat"
  survive :: "exc \<Rightarrow> bool"
  vm_params :: pydict
  load_keycodes :: "pyval \<Rightarrow> pydict res"
  query_mice :: "'g \<Rightarrow> pyval list res"
  seconds_ms :: "pyval \<Rightarrow> int res"

text \<open>The callback of the session is that of the class that the factory chose.\<close>

definition is_linux :: "'g console_env \<Rightarrow> bool" where
  "is_linux env \<longleftrightarrow> dget (vm_params env) ''os_type'' = Some (PStr ''linux'')"

definition line_handler :: "'g console_env \<Rightarrow> string \<Rightarrow> (listener, unit) py" where
  "line_handler env = (if is_linux env then linux_parse else win_parse)"

definition console :: "'g console_env \<Rightarrow> input \<Rightarrow> ('g itest, unit) py" where
  "console env i t =
     (case react env i (iguest t) of
        (Inl e, g) \<Rightarrow> (Inl e, t\<lparr>iguest := g\<rparr>)
      | (Inr bs, g) \<Rightarrow> (Inr (), t\<lparr>iguest := g, ipending := ipending t @ bs\<rparr>))"

text \<open>The lines of one batch reach the listener, unless its session has died of an earlier exception.\<close>

definition arrive :: "'g console_env \<Rightarrow> 'g itest \<Rightarrow> 'g itest" where
  "arrive env t =
     (case ipending t of
        [] \<Rightarrow> t
      | ls # lss \<Rightarrow>
          if idelivers t then
            (case deliver (survive env) (line_handler env) ls (ilst t) of
               (alive, l) \<Rightarrow> t\<lparr>ipending := lss, ilst := l, idelivers := alive\<rparr>)
          else t\<lparr>ipending := lss\<rparr>)"

definition sleep :: "'g console_env \<Rightarrow> int \<Rightarrow> ('g itest, unit) py" where
  "sleep env wait_time = modify (arrive env ^^ arrives_in env wait_time)"

definition on_listener :: "(listener, 'a) py \<Rightarrow> ('g itest, 'a) py" where
  "on_listener f t = (case f (ilst t) of (r, l) \<Rightarrow> (r, t\<lparr>ilst := l\<rparr>))"

lemma arrive_measure:
  "ipending t \<noteq> [] \<Longrightarrow> length (ipending (arrive env t)) < length (ipending t)"
  "ipending t = [] \<Longrightarrow> arrive env t = t"
  by (cases "ipending t"; simp add: arrive_def split: prod.split)+

text \<open>\<open>while not queue.empty(): event = queue.get(); ...\<close> where the body keeps a value, skips the event, or raises.\<close>

definition pop_event :: "'g itest \<Rightarrow> 'g itest" where
  "pop_event t = t\<lparr>ilst := (ilst t)\<lparr>events := tl (events (ilst t))\<rparr>\<rparr>"

function collect :: "'g console_env \<Rightarrow> (pydict \<Rightarrow> 'a option res) \<Rightarrow> ('g itest, 'a list) py" where
  "collect env body t =
     (let t1 = arrive env t in
      if events (ilst t1) = [] then (Inr [], t1)
      else
        (case body (hd (events (ilst t1))) of
           Inl e \<Rightarrow> (Inl e, pop_event t1)
         | Inr x \<Rightarrow>
             (case collect env body (pop_event t1) of
                (Inl e, t2) \<Rightarrow> (Inl e, t2)
              | (Inr xs, t2) \<Rightarrow> (Inr ((case x of None \<Rightarrow> [] | Some y \<Rightarrow> [y]) @ xs), t2))))"
  by pat_completeness auto
termination
proof (relation "measures [\<lambda>(env, body, t). length (ipending t), \<lambda>(env, body, t). length (events (ilst t))]", goal_cases)
  case (2 env body t t1 x)
  then show ?case using arrive_measure[of t env] by (cases "ipending t = []") (auto simp: pop_event_def)
qed simp

declare collect.simps [simp del]

section \<open>Keys and buttons\<close>

text \<open>The body of the loops of the key and button tests: moves of the pointer are left out.\<close>

definition key_or_skip :: "pydict \<Rightarrow> (pyval \<times> pyval) option res" where
  "key_or_skip event =
     rbind (dindex event ''type'') (\<lambda>ty.
       if ty = PStr ''POINTERMOVE'' then Inr None
       else rbind (dindex event ''keyCode'') (\<lambda>k. Inr (Some (k, ty))))"

definition pairs_eq :: "(pyval \<times> pyval) list \<Rightarrow> (pyval \<times> pyval) list \<Rightarrow> bool" where
  "pairs_eq xs ys \<longleftrightarrow> list_all2 (\<lambda>(a, b) (c, d). py_eq a c \<and> py_eq b d) xs ys"

definition press_release :: "pyval \<Rightarrow> (pyval \<times> pyval) list" where
  "press_release keycode = [(keycode, PStr ''KEYDOWN''), (keycode, PStr ''KEYUP'')]"

definition key_tap :: "'g console_env \<Rightarrow> int \<Rightarrow> string \<times> pyval \<Rightarrow> ('g itest, unit) py" where
  "key_tap env wait_time k =
     (case k of (key, keycode) \<Rightarrow>
        bnd (console env (KeyTap key)) (\<lambda>_.
        bnd (sleep env wait_time) (\<lambda>_.
        bnd (collect env key_or_skip) (\<lambda>key_events.
          if \<not> pairs_eq key_events (press_release keycode)
          then throw (TestFail ''Received key event didn't match expected event.'') else ret ()))))"

definition key_tap_test :: "'g console_env \<Rightarrow> pydict \<Rightarrow> int \<Rightarrow> ('g itest, unit) py" where
  "key_tap_test env params wait_time =
     bnd (lift_res (load_keycodes env (dget_default params ''key_table_file'' PNone))) (\<lambda>keys_dict.
       for_each keys_dict (key_tap env wait_time))"

definition mouse_btn_map :: "(string \<times> string) list" where
  "mouse_btn_map = [(''left'', ''BTN_LEFT''), (''right'', ''BTN_RIGHT''), (''middle'', ''BTN_MIDDLE''),
     (''side'', ''BTN_SIDE''), (''extra'', ''BTN_EXTRA'')]"

definition btn_click :: "'g console_env \<Rightarrow> int \<Rightarrow> string \<Rightarrow> ('g itest, unit) py" where
  "btn_click env wait_time btn =
     bnd (console env (BtnClick btn)) (\<lambda>_.
     bnd (lift_res (dindex mouse_btn_map btn)) (\<lambda>keycode.
     bnd (sleep env wait_time) (\<lambda>_.
     bnd (collect env key_or_skip) (\<lambda>btn_event.
       if \<not> pairs_eq btn_event (press_release (PStr keycode))
       then throw (TestFail ''Received btn events don't match expected events.'') else ret ()))))"

definition mouse_btn_test :: "'g console_env \<Rightarrow> pydict \<Rightarrow> int \<Rightarrow> ('g itest, unit) py" where
  "mouse_btn_test env params wait_time = for_each (objects params ''btns'') (btn_click env wait_time)"

section \<open>Scrolling\<close>

definition scroll_sample :: "pydict \<Rightarrow> (pyval \<times> pyval) option res" where
  "scroll_sample event =
     rbind (dindex event ''type'') (\<lambda>ty.
       if ty = PStr ''POINTERMOVE'' then Inr None
       else rbind (dindex event ''hScroll'') (\<lambda>h. Inr (Some (ty, h))))"

definition scroll_events :: "(string \<times> (pyval \<times> pyval)) list" where
  "scroll_events = [(''wheel-up'', (PStr ''WHEELFORWARD'', PInt 0)), (''wheel-down'', (PStr ''WHEELBACKWARD'', PInt 0))]"

text \<open>\<open>Counter(samples)\<close>, from which the expected event is taken out: how often it occurred, and what is left.\<close>

definition counter_pop :: "(pyval \<times> pyval) option \<Rightarrow> (pyval \<times> pyval) list \<Rightarrow> (int \<times> (pyval \<times> pyval) list) res" where
  "counter_pop ex samples =
     (if list_all (\<lambda>(a, b). hashable a \<and> hashable b) samples then
        (let is_ex = (\<lambda>(a, b). case ex of None \<Rightarrow> False | Some (c, d) \<Rightarrow> py_eq a c \<and> py_eq b d) in
         Inr (int (length (filter is_ex samples)), filter (\<lambda>x. \<not> is_ex x) samples))
      else Inl (TypeError ''unhashable type''))"

definition scroll_once :: "'g console_env \<Rightarrow> int \<Rightarrow> int \<Rightarrow> string \<Rightarrow> ('g itest, unit) py" where
  "scroll_once env wait_time count scroll =
     bnd (console env (if sublist ''up'' scroll then ScrollForward count else ScrollBackward count)) (\<lambda>_.
     bnd (sleep env wait_time) (\<lambda>_.
     bnd (collect env scroll_sample) (\<lambda>samples.
     bnd (lift_res (counter_pop (dget scroll_events scroll) samples)) (\<lambda>(num, counter).
       if num \<noteq> count then throw (TestFail ''Received scroll number don't match expectedscroll count'')
       else if counter \<noteq> [] then throw (TestFail ''Received scroll events don't match expected events'')
       else ret ()))))"

definition mouse_scroll_test :: "'g console_env \<Rightarrow> pydict \<Rightarrow> int \<Rightarrow> int \<Rightarrow> ('g itest, unit) py" where
  "mouse_scroll_test env params wait_time count = for_each (objects params ''scrolls'') (scroll_once env wait_time count)"

section \<open>Moving the pointer\<close>

definition number :: "pyval \<Rightarrow> int res" where
  "number v = (case v of PInt i \<Rightarrow> Inr i | PBool b \<Rightarrow> Inr (if b then 1 else 0) | _ \<Rightarrow> Inl (TypeError ''<=''))"

text \<open>Positions outside of the screen are left out.\<close>

definition move_event :: "int \<times> int \<Rightarrow> pydict \<Rightarrow> (int \<times> int) option res" where
  "move_event screen event =
     rbind (dindex event ''xPos'') (\<lambda>xpos.
     rbind (dindex event ''yPos'') (\<lambda>ypos.
     rbind (number xpos) (\<lambda>x.
       if 0 \<le> x \<and> x \<le> fst screen then
         rbind (number ypos) (\<lambda>y. Inr (if 0 \<le> y \<and> y \<le> snd screen then Some (x, y) else None))
       else Inr None)))"

definition slope :: "int \<times> int \<Rightarrow> int \<times> int \<Rightarrow> rat" where
  "slope p q = of_int (snd q - snd p) / of_int (fst q - fst p)"

definition off_line :: "int \<Rightarrow> int \<times> int \<Rightarrow> int \<times> int \<Rightarrow> int \<times> int \<Rightarrow> bool" where
  "off_line tolerance p q e =
     (let k = slope p q; b = of_int (snd q) - k * of_int (fst q) in
      \<bar>(k * of_int (fst e) + b) - of_int (snd e)\<bar> > of_int tolerance)"

text \<open>A step from one received position to the next in a direction other than that of the move.\<close>

definition wrong_way :: "int \<Rightarrow> int \<Rightarrow> bool" where
  "wrong_way move d \<longleftrightarrow> (move > 0 \<and> d \<le> 0) \<or> (move < 0 \<and> d \<ge> 0)"

definition check_point :: "int \<Rightarrow> int \<times> int \<Rightarrow> int \<times> int \<Rightarrow> (int \<times> int) option \<Rightarrow> int \<times> int \<Rightarrow> unit res" where
  "check_point tolerance p q prev e =
     (if fst q - fst p \<noteq> 0 then
        if off_line tolerance p q e then Inl (TestFail ''Received pointer pos beyond line's tolerance scope'')
        else if slope p q = 0 then
          (case prev of
             None \<Rightarrow> Inr ()
           | Some e0 \<Rightarrow> if wrong_way (fst q - fst p) (fst e - fst e0) then Inl (TestFail ''pointer move direction is wrong'') else Inr ())
        else Inr ()
      else
        (case prev of
           None \<Rightarrow> Inr ()
         | Some e0 \<Rightarrow> if wrong_way (snd q - snd p) (snd e - snd e0) then Inl (TestFail ''pointer move to incorrect direction'') else Inr ()))"

fun check_trace :: "int \<Rightarrow> int \<times> int \<Rightarrow> int \<times> int \<Rightarrow> (int \<times> int) option \<Rightarrow> (int \<times> int) list \<Rightarrow> unit res" where
  "check_trace tolerance p q prev [] = Inr ()"
| "check_trace tolerance p q prev (e # es) =
     rbind (check_point tolerance p q prev e) (\<lambda>_. check_trace tolerance p q (Some e) es)"

definition judge_move :: "int \<Rightarrow> int \<times> int \<Rightarrow> int \<times> int \<Rightarrow> (int \<times> int) list \<Rightarrow> unit res" where
  "judge_move tolerance p q event_lst =
     (if \<bar>fst q - fst (last event_lst)\<bar> > tolerance \<or> \<bar>snd q - snd (last event_lst)\<bar> > tolerance
      then Inl (TestFail ''pointer did not move to destination position.'')
      else check_trace tolerance p q None event_lst)"

definition mouse_move_test :: "'g console_env \<Rightarrow> pydict \<Rightarrow> int \<Rightarrow> int list \<Rightarrow> bool \<Rightarrow> ('g itest, unit) py" where
  "mouse_move_test env params wait_time end_pos absolute =
     bnd (lift_res (py_int (dget_default params ''move_rate'' (PInt 80)))) (\<lambda>_.
     bnd (lift_res (py_int (dget_default params ''move_duration'' (PInt 1)))) (\<lambda>_.
     bnd (gets (\<lambda>t. pointer_pos env (iguest t))) (\<lambda>start.
     bnd (lift_res (case end_pos of [x, y] \<Rightarrow> Inr (x, y) | _ \<Rightarrow> Inl (ValueError ''unpack''))) (\<lambda>target.
     bnd (console env (PointerMove target absolute)) (\<lambda>_.
     bnd (sleep env wait_time) (\<lambda>_.
     bnd (collect env (move_event (screen_size env))) (\<lambda>event_lst.
       if event_lst = [] then throw IndexError
       else
         bnd (lift_res (py_int (dget_default params ''tolerance'' PNone))) (\<lambda>tolerance.
           lift_res (judge_move tolerance start target event_lst)))))))))"

section \<open>The tests of a keyboard and of a mouse\<close>

fun query_mice_status :: "string \<Rightarrow> pyval list \<Rightarrow> pyval res" where
  "query_mice_status mice_name [] = Inr PNone"
| "query_mice_status mice_name (event # evs) =
     rbind (pindex event ''name'') (\<lambda>n. if n = PStr mice_name then Inr event else query_mice_status mice_name evs)"

definition new_listener :: "'g console_env \<Rightarrow> guest \<Rightarrow> ('g itest, unit) py" where
  "new_listener env gs = on_listener (EventListener gs (vm_params env))"

definition end_listener :: "'g console_env \<Rightarrow> ('g itest, unit) py" where
  "end_listener env =
     bnd (on_listener clear_events) (\<lambda>_.
       on_listener (listener_cleanup (if is_linux env then linux_uninstall else win_uninstall)))"

definition keyboard_test :: "'g console_env \<Rightarrow> guest \<Rightarrow> pydict \<Rightarrow> int \<Rightarrow> ('g itest, unit) py" where
  "keyboard_test env gs params wait_time =
     bnd (new_listener env gs) (\<lambda>_.
     bnd (key_tap_test env params wait_time) (\<lambda>_. end_listener env))"

definition target_positions :: "'g console_env \<Rightarrow> pydict \<Rightarrow> int list list res" where
  "target_positions env params =
     (if \<not> truthy (dget_default params ''target_pos'' PNone) then
        (let (x_max, y_max) = (fst (screen_size env) - 1, snd (screen_size env) - 1) in
         Inr [[1, 0], [x_max, 0], [1, y_max], [x_max, y_max]])
      else rbind (rmap int_of_str (objects params ''target_pos'')) (\<lambda>p. Inr [p]))"

definition mouse_test :: "'g console_env \<Rightarrow> guest \<Rightarrow> pydict \<Rightarrow> int \<Rightarrow> int \<Rightarrow> ('g itest, unit) py" where
  "mouse_test env gs params wait_time count =
     bnd (new_listener env gs) (\<lambda>_.
     bnd (gets (\<lambda>t. query_mice env (iguest t))) (\<lambda>mice.
     bnd (lift_res (rbind mice (query_mice_status (str_of (dget_default params ''mice_name'' (PStr ''QEMU PS/2 Mouse'')))))) (\<lambda>mice_info.
     bnd (lift_res (pindex mice_info ''absolute'')) (\<lambda>absolute.
     bnd (lift_res (pindex mice_info ''current'')) (\<lambda>current.
     bnd (if truthy current then ret () else throw (TestFail ''does not worked currently'')) (\<lambda>_.
     bnd (mouse_btn_test env params wait_time) (\<lambda>_.
     bnd (mouse_scroll_test env params wait_time count) (\<lambda>_.
     bnd (lift_res (target_positions env params)) (\<lambda>target_pos.
     bnd (for_each target_pos (\<lambda>p. mouse_move_test env params wait_time p (truthy absolute))) (\<lambda>_.
       end_listener env))))))))))"

section \<open>Combinations of keys\<close>

text \<open>\<^verbatim>\<open>provider/vioinput_basic.py\<close>: all the keys go down, then all of them go up, in any order.\<close>

definition any_key :: "pydict \<Rightarrow> (pyval \<times> pyval) option res" where
  "any_key event =
     rbind (dindex event ''keyCode'') (\<lambda>k. rbind (dindex event ''type'') (\<lambda>ty. Inr (Some (k, ty))))"

definition same_set :: "pyval list \<Rightarrow> pyval list \<Rightarrow> bool res" where
  "same_set xs ys =
     (if list_all hashable (xs @ ys)
      then Inr (list_all (\<lambda>x. list_ex (py_eq x) ys) xs \<and> list_all (\<lambda>y. list_ex (\<lambda>x. py_eq x y) xs) ys)
      else Inl (TypeError ''unhashable type''))"

fun all_of_type :: "string \<Rightarrow> (pyval \<times> pyval) list \<Rightarrow> pyval list res" where
  "all_of_type ty [] = Inr []"
| "all_of_type ty ((k, v) # evs) =
     (if v \<noteq> PStr ty then Inl (TestFail (''Received key {0} event type {1} was not '' @ ty))
      else rbind (all_of_type ty evs) (\<lambda>ks. Inr (k # ks)))"

definition key_list :: "pydict \<Rightarrow> string \<Rightarrow> pyval list res" where
  "key_list cfg key = (if CHR ''-'' \<in> set key then rmap (dindex cfg) (split_char (CHR ''-'') key) else rmap (dindex cfg) [key])"

definition judge_keys :: "pyval list \<Rightarrow> (pyval \<times> pyval) list \<Rightarrow> unit res" where
  "judge_keys key_lst evs =
     (let n = length key_lst; m = length evs - n in
      if length evs < 2 * n then Inl (TestFail ''Reveived key events were not enough'')
      else
        rbind (all_of_type ''KEYDOWN'' (take m evs)) (\<lambda>downs.
        rbind (if length downs \<noteq> n then Inr False else same_set downs key_lst) (\<lambda>ok1.
        if \<not> ok1 then Inl (TestFail ''Key down event keycode error, received:{0},expect:{1}'')
        else
          rbind (all_of_type ''KEYUP'' (drop m evs)) (\<lambda>ups.
          rbind (same_set ups key_lst) (\<lambda>ok2.
          if ok2 then Inr () else Inl (TestFail ''Key up event keycode error, received:{0},expect:{1}''))))))"

definition key_check :: "'g console_env \<Rightarrow> pydict \<Rightarrow> string \<Rightarrow> ('g itest, unit) py" where
  "key_check env cfg key =
     bnd (lift_res (key_list cfg key)) (\<lambda>key_lst.
     bnd (collect env any_key) (\<lambda>evs. lift_res (judge_keys key_lst evs)))"

definition vioinput_key_tap_test :: "'g console_env \<Rightarrow> guest \<Rightarrow> pydict \<Rightarrow> ('g itest, unit) py" where
  "vioinput_key_tap_test env gs params =
     bnd (lift_res (load_keycodes env (dget_default params ''key_table_file'' PNone))) (\<lambda>cfg.
     bnd (lift_res (case dget params ''wait_time'' of None \<Rightarrow> Inr 200 | Some v \<Rightarrow> seconds_ms env v)) (\<lambda>wait_time.
     bnd (new_listener env gs) (\<lambda>_.
     bnd (for_each cfg (\<lambda>(key, _).
            bnd (console env (KeyTap key)) (\<lambda>_. bnd (sleep env wait_time) (\<lambda>_. key_check env cfg key)))) (\<lambda>_.
       end_listener env))))"

section \<open>Arrival and collection\<close>

lemma deliver_append:
  "deliver surv f (xs @ ys) l =
     (case deliver surv f xs l of (alive, l') \<Rightarrow> if alive then deliver surv f ys l' else (False, l'))"
  by (induction xs arbitrary: l) (auto split: prod.splits sum.splits)

lemma arrive_Nil [simp]: "ipending t = [] \<Longrightarrow> arrive env t = t"
  by (simp add: arrive_def)

lemma arrive_Nil_iter [simp]: "ipending t = [] \<Longrightarrow> (arrive env ^^ n) t = t"
  by (induction n) simp_all

text \<open>All pending lines arrive while the test sleeps, if the sleep is long enough and the session survives.\<close>

lemma arrive_all:
  assumes "deliver (survive env) (line_handler env) (concat (ipending t)) (ilst t) = (True, l')"
    and "idelivers t" and "length (ipending t) \<le> n"
  shows "(arrive env ^^ n) t = t\<lparr>ipending := [], ilst := l'\<rparr>"
  using assms
proof (induction n arbitrary: t)
  case 0
  then show ?case by simp
next
  case (Suc n)
  show ?case
  proof (cases "ipending t")
    case Nil
    then show ?thesis using Suc.prems by simp
  next
    case (Cons ls lss)
    then obtain l1 where l1: "deliver (survive env) (line_handler env) ls (ilst t) = (True, l1)"
        "deliver (survive env) (line_handler env) (concat lss) l1 = (True, l')"
      using Suc.prems(1) by (auto simp: deliver_append split: prod.splits if_splits)
    have "arrive env t = t\<lparr>ipending := lss, ilst := l1\<rparr>" using Cons l1 Suc.prems(2) by (simp add: arrive_def)
    then show ?thesis using Suc.IH[of "t\<lparr>ipending := lss, ilst := l1\<rparr>"] Suc.prems Cons l1
      by (simp only: funpow_Suc_right comp_apply) simp
  qed
qed

definition kept :: "'a option list \<Rightarrow> 'a list" where
  "kept xs = concat (map (\<lambda>x. case x of None \<Rightarrow> [] | Some y \<Rightarrow> [y]) xs)"

lemma kept_simps [simp]: "kept [] = []" "kept (x # xs) = (case x of None \<Rightarrow> [] | Some y \<Rightarrow> [y]) @ kept xs"
  by (simp_all add: kept_def)

lemma collect_quiet:
  assumes "ipending t = []" and "rmap body (events (ilst t)) = Inr ys"
  shows "collect env body t = (Inr (kept ys), t\<lparr>ilst := (ilst t)\<lparr>events := []\<rparr>\<rparr>)"
  using assms
proof (induction "events (ilst t)" arbitrary: t ys)
  case Nil
  then show ?case by (subst collect.simps) (simp add: Let_def Nil.hyps[symmetric])
next
  case (Cons e es)
  obtain x zs where x: "body e = Inr x" "rmap body es = Inr zs" "ys = x # zs"
    using Cons.prems(2) Cons.hyps(2)[symmetric] by (auto elim!: rbind_InrE)
  have ev: "events (ilst (pop_event t)) = es" "ipending (pop_event t) = []"
    using Cons.hyps(2)[symmetric] Cons.prems(1) by (simp_all add: pop_event_def)
  have "collect env body (pop_event t) = (Inr (kept zs), (pop_event t)\<lparr>ilst := (ilst (pop_event t))\<lparr>events := []\<rparr>\<rparr>)"
    using Cons.hyps(1)[of "pop_event t" zs] ev x by simp
  then show ?case using Cons.hyps(2)[symmetric] Cons.prems(1) x
    by (subst collect.simps) (simp add: pop_event_def)
qed

lemma collect_quiet_error:
  assumes "ipending t = []" and "events (ilst t) = es @ e # es'" and "rmap body es = Inr ys" and "body e = Inl x"
  shows "fst (collect env body t) = Inl x"
  using assms
proof (induction es arbitrary: t ys)
  case Nil
  then show ?case by (subst collect.simps) simp
next
  case (Cons d es)
  obtain z zs where z: "body d = Inr z" "rmap body es = Inr zs" using Cons.prems(3) by (auto elim!: rbind_InrE)
  have "fst (collect env body (pop_event t)) = Inl x"
    using Cons.IH[of "pop_event t" zs] Cons.prems z by (simp add: pop_event_def)
  then show ?case using Cons.prems z by (subst collect.simps) (auto split: prod.splits)
qed

section \<open>What a test leaves of the agent\<close>

text \<open>The lines of the agent change neither its shell nor the log of what was sent to the guest.\<close>

abbreviation same_agent :: "listener \<Rightarrow> listener \<Rightarrow> bool" where
  "same_agent s t \<equiv> agent_sh t = agent_sh s \<and> guest_log t = guest_log s"

interpretation agent: state_relation same_agent
  by unfold_locales auto

lemma simple_agent:
  "moves same_agent (check_key k)" "moves same_agent get_buffers" "moves same_agent (set_buffer d b)"
  "moves same_agent (put_event v)" "moves same_agent (set_state st)" "moves same_agent (report_error c)"
  "moves same_agent (base_report_info c)"
  by (simp_all add: moves_def check_key_def get_buffers_def set_buffer_def put_event_def set_state_def report_error_def
      base_report_info_def py_defs split: option.split sum.split)

lemmas agent_intros = agent.composed simple_agent

lemma handler_agent: "moves same_agent (line_handler env l)"
proof -
  have "moves same_agent (linux_report_info c)" "moves same_agent (linux_parse_platform_event c)"
    "moves same_agent (win_parse_platform_event c)" for c
    unfolding linux_report_info_def linux_parse_platform_event_def linux_dispatch_def win_parse_platform_event_def
    by (intro agent_intros)+
  then show ?thesis unfolding line_handler_def parse_output_def by (auto intro!: agent_intros split: option.split)
qed

lemma deliver_agent: "same_agent s (snd (deliver surv (line_handler env) ls s))"
proof (induction ls arbitrary: s)
  case (Cons l ls)
  obtain r s1 where r: "line_handler env l s = (r, s1)" by fastforce
  then show ?case using movesD[OF handler_agent r] Cons.IH[of s1] by (cases r) auto
qed simp

abbreviation same_agent_t :: "'g itest \<Rightarrow> 'g itest \<Rightarrow> bool" where
  "same_agent_t s t \<equiv> same_agent (ilst s) (ilst t)"

interpretation agent_t: state_relation same_agent_t
  by unfold_locales auto

lemma arrive_agent: "same_agent_t t (arrive env t)"
  using deliver_agent[where s = "ilst t" and surv = "survive env" and env = env]
  by (auto simp: arrive_def split: list.split prod.split) (metis snd_conv)+

lemma sleep_agent: "moves same_agent_t (sleep env n)"
proof -
  have "same_agent_t t ((arrive env ^^ k) t)" for k t
    by (induction k) (use arrive_agent in auto)
  then show ?thesis by (simp add: sleep_def moves_modify)
qed

lemma collect_agent: "moves same_agent_t (collect env body)"
proof (rule movesI)
  fix t
  show "same_agent_t t (snd (collect env body t))"
  proof (induction env body t rule: collect.induct)
    case (1 env body t)
    have p: "same_agent_t t (pop_event (arrive env t))" using arrive_agent[where t = t and env = env] by (simp add: pop_event_def)
    then show ?case using 1[OF refl] arrive_agent[where t = t and env = env]
      by (auto simp: collect.simps[of env body t] Let_def split: sum.split prod.split)
  qed
qed

lemma console_agent: "moves same_agent_t (console env i)"
  by (simp add: moves_def console_def split: prod.split sum.split)

lemmas agent_t_intros = agent_t.composed sleep_agent collect_agent console_agent

lemma key_tap_agent: "moves same_agent_t (key_tap_test env params w)"
  unfolding key_tap_test_def key_tap_def by (intro agent_t_intros)

lemma mouse_agent: "moves same_agent_t (mouse_btn_test env params w)" "moves same_agent_t (mouse_scroll_test env params w n)"
  "moves same_agent_t (mouse_move_test env params w pos a)"
  unfolding mouse_btn_test_def btn_click_def mouse_scroll_test_def scroll_once_def mouse_move_test_def
  by (intro agent_t_intros)+

text \<open>A new listener has its shell, and ending it closes the shell.\<close>

lemma wait_agent: "same_agent s (snd (wait_listening surv (line_handler env) lss s))"
proof (induction lss arbitrary: s)
  case (Cons ls lss)
  obtain a s1 where a: "deliver surv (line_handler env) ls s = (a, s1)" by fastforce
  then show ?case using deliver_agent[where s = s and surv = surv and env = env and ls = ls] Cons.IH[of s1] by auto
qed simp

lemma base_init_shell:
  assumes "base_init gs ri pe py tg s0 = (Inr (), s)" and "parse_output ri pe = line_handler env"
  shows "agent_sh s"
proof -
  obtain s1 where "wait_listening (survives gs) (line_handler env) (polls gs) s1 = (True, s)" "agent_sh s1"
    using assms
    by (fastforce simp: base_init_def listener_listen_def listener_launch_def Input_Proxy.log_def modify_def elim!: bnd_InrE split: prod.splits if_splits)
  then show ?thesis using wait_agent[where s = s1 and surv = "survives gs" and env = env and lss = "polls gs"] by simp
qed

lemma new_listener_shell:
  assumes "new_listener env gs t = (Inr (), t')"
  shows "agent_sh (ilst t')"
proof -
  have "(if is_linux env then linux_init gs else win_init gs) (ilst t) = (Inr (), ilst t')"
    using assms
    by (auto simp: new_listener_def on_listener_def EventListener_def is_linux_def throw_def lift_res_def
        elim!: bnd_InrE split: prod.splits if_splits)
  then show ?thesis
  proof (cases "is_linux env")
    case True
    then obtain s' where "base_init gs linux_report_info linux_parse_platform_event linux_python_bin linux_agent_target (ilst t) = (Inr (), s')"
        "ilst t' = s'\<lparr>buffers := Some []\<rparr>"
      using \<open>(if _ then _ else _) _ = _\<close> by (auto simp: linux_init_def modify_def elim!: bnd_InrE)
    then show ?thesis using base_init_shell[where env = env] True by (simp add: line_handler_def)
  next
    case False
    then show ?thesis using \<open>(if _ then _ else _) _ = _\<close> base_init_shell[where env = env] by (simp add: win_init_def line_handler_def)
  qed
qed

lemma end_listener_run:
  assumes "agent_sh (ilst t)"
  shows "\<exists>t'. end_listener env t = (Inr (), t') \<and> \<not> agent_sh (ilst t') \<and> events (ilst t') = [] \<and>
    guest_log (ilst t') = guest_log (ilst t) @
      [''^c'', if is_linux env then ''rm -f /tmp/input_event.py'' else ''del '' @ win_agent_target]"
proof -
  have d: "agent_sh (drain l) = agent_sh l \<and> guest_log (drain l) = guest_log l \<and> events (drain l) = []" for l
  proof (induction l rule: drain.induct)
    case (1 l)
    then show ?case by (cases "events l = []") (simp_all add: drain.simps[of l])
  qed
  show ?thesis using assms d[of "ilst t"]
    by (simp add: end_listener_def on_listener_def clear_events_def listener_cleanup_def listener_terminate_def Input_Proxy.log_def
        linux_uninstall_def win_uninstall_def linux_agent_target_def py_defs)
qed

text \<open>
  The end of a keyboard test.  When the key test succeeds, the queue is emptied, the agent is interrupted and its program is removed
  from the guest.  When it raises, the exception leaves the function at once: the agent still has its shell, and nothing was
  sent to the guest to stop or remove it.
\<close>

lemma keyboard_test_ends_agent:
  assumes "new_listener env gs t = (Inr (), t1)"
  shows "case key_tap_test env params w t1 of
      (Inl e, t2) \<Rightarrow> keyboard_test env gs params w t = (Inl e, t2) \<and> agent_sh (ilst t2) \<and> guest_log (ilst t2) = guest_log (ilst t1)
    | (Inr _, t2) \<Rightarrow> \<exists>t3. keyboard_test env gs params w t = (Inr (), t3) \<and> \<not> agent_sh (ilst t3) \<and> events (ilst t3) = [] \<and>
        guest_log (ilst t3) = guest_log (ilst t1) @
          [''^c'', if is_linux env then ''rm -f /tmp/input_event.py'' else ''del '' @ win_agent_target]"
proof -
  obtain r t2 where r: "key_tap_test env params w t1 = (r, t2)" by fastforce
  have "agent_sh (ilst t2)" "guest_log (ilst t2) = guest_log (ilst t1)"
    using movesD[OF key_tap_agent r] new_listener_shell[OF assms] by simp_all
  then show ?thesis using assms r end_listener_run[of t2 env]
    by (cases r) (auto simp: keyboard_test_def bnd_def)
qed

section \<open>A Linux keyboard under the test\<close>

text \<open>
  A guest whose agent, when a key is tapped, writes the lines of a press and of a release of the key with the given
  code, in batches that all arrive before the test looks.
\<close>

definition press_lines :: "string \<Rightarrow> int \<Rightarrow> int \<Rightarrow> int \<Rightarrow> int \<Rightarrow> string list" where
  "press_lines dev sec usec scan code =
     map (event_line (PStr dev)) (key_frame sec usec scan code 1 @ key_frame sec usec scan code 0)"

definition linux_keyboard :: "'g console_env \<Rightarrow> int \<Rightarrow> string \<Rightarrow> (string \<Rightarrow> int) \<Rightarrow> bool" where
  "linux_keyboard env w dev code_of \<longleftrightarrow>
     is_linux env \<and>
     (\<forall>key g. \<exists>bs g' sec usec scan. react env (KeyTap key) g = (Inr bs, g') \<and> length bs \<le> arrives_in env w \<and>
        concat bs = press_lines dev sec usec scan (code_of key))"

lemma frame_delivered:
  assumes "(code, name) \<in> set EV_KEY_CODES" and "v = 0 \<or> v = 1" and "buffers l = Some bs" and "dget bs (PStr dev) = Some b"
  shows "\<exists>bs' b' e. deliver surv linux_parse (map (event_line (PStr dev)) (key_frame sec usec scan code v)) l =
      (True, l\<lparr>events := events l @ [e], buffers := Some bs'\<rparr>)
    \<and> dget bs' (PStr dev) = Some b'
    \<and> key_or_skip e = Inr (Some (PStr name, PStr (if v = 1 then ''KEYDOWN'' else ''KEYUP'')))"
proof -
  have ks: "key_or_skip (key_event_of (PStr dev) b scan name v) = Inr (Some (PStr name, PStr (if v = 1 then ''KEYDOWN'' else ''KEYUP'')))"
    by (simp add: key_or_skip_def dindex_def key_event_of_def EventType_defs)
  show ?thesis unfolding key_frame_delivered[OF assms] by (intro exI conjI, rule refl, simp, rule ks)
qed

lemma press_lines_delivered:
  assumes "(code, name) \<in> set EV_KEY_CODES" and "buffers l = Some bs" and "dget bs (PStr dev) = Some b"
  shows "\<exists>bs' b' e1 e2. deliver surv linux_parse (press_lines dev sec usec scan code) l =
      (True, l\<lparr>events := events l @ [e1, e2], buffers := Some bs'\<rparr>)
    \<and> dget bs' (PStr dev) = Some b'
    \<and> key_or_skip e1 = Inr (Some (PStr name, PStr ''KEYDOWN'')) \<and> key_or_skip e2 = Inr (Some (PStr name, PStr ''KEYUP''))"
proof -
  obtain bs1 b1 e1 where 1: "deliver surv linux_parse (map (event_line (PStr dev)) (key_frame sec usec scan code 1)) l =
      (True, l\<lparr>events := events l @ [e1], buffers := Some bs1\<rparr>)" "dget bs1 (PStr dev) = Some b1"
      "key_or_skip e1 = Inr (Some (PStr name, PStr ''KEYDOWN''))"
    using frame_delivered[OF assms(1) _ assms(2,3), of 1 surv sec usec scan] by auto
  obtain bs2 b2 e2 where 2: "deliver surv linux_parse (map (event_line (PStr dev)) (key_frame sec usec scan code 0))
        (l\<lparr>events := events l @ [e1], buffers := Some bs1\<rparr>) =
      (True, l\<lparr>events := events l @ [e1, e2], buffers := Some bs2\<rparr>)" "dget bs2 (PStr dev) = Some b2"
      "key_or_skip e2 = Inr (Some (PStr name, PStr ''KEYUP''))"
    using frame_delivered[OF assms(1) _ _ 1(2), of 0 "l\<lparr>events := events l @ [e1], buffers := Some bs1\<rparr>" surv sec usec scan] by auto
  show ?thesis unfolding press_lines_def map_append deliver_append using 1 2 by auto
qed

text \<open>States of the test between two keys: nothing pending, nothing queued, the device known.\<close>

definition ready :: "string \<Rightarrow> 'g itest \<Rightarrow> bool" where
  "ready dev t \<longleftrightarrow> ipending t = [] \<and> idelivers t \<and> events (ilst t) = [] \<and>
     (\<exists>bs b. buffers (ilst t) = Some bs \<and> dget bs (PStr dev) = Some b)"

lemma key_tap_judged:
  assumes "linux_keyboard env w dev code_of" and "(code_of key, name) \<in> set EV_KEY_CODES" and "ready dev t"
  shows "\<exists>t'. ready dev t' \<and> key_tap env w (key, kc) t =
    (if kc = PStr name then Inr () else Inl (TestFail ''Received key event didn't match expected event.''), t')"
proof -
  obtain bs g' sec usec scan where g: "react env (KeyTap key) (iguest t) = (Inr bs, g')" "length bs \<le> arrives_in env w"
      "concat bs = press_lines dev sec usec scan (code_of key)"
    using assms(1) by (fastforce simp: linux_keyboard_def)
  let ?t1 = "t\<lparr>iguest := g', ipending := bs\<rparr>"
  have c: "console env (KeyTap key) t = (Inr (), ?t1)" using g(1) assms(3) by (simp add: console_def ready_def)
  obtain bs0 b0 where b0: "buffers (ilst t) = Some bs0" "dget bs0 (PStr dev) = Some b0" using assms(3) by (auto simp: ready_def)
  obtain bs' b' e1 e2 where d: "deliver (survive env) (line_handler env) (concat bs) (ilst t) =
      (True, (ilst t)\<lparr>events := [e1, e2], buffers := Some bs'\<rparr>)" "dget bs' (PStr dev) = Some b'"
      "key_or_skip e1 = Inr (Some (PStr name, PStr ''KEYDOWN''))" "key_or_skip e2 = Inr (Some (PStr name, PStr ''KEYUP''))"
    using press_lines_delivered[OF assms(2) b0, of "survive env" sec usec scan] assms(1,3) g(3)
    by (auto simp: ready_def linux_keyboard_def line_handler_def)
  let ?t2 = "?t1\<lparr>ipending := [], ilst := (ilst t)\<lparr>events := [e1, e2], buffers := Some bs'\<rparr>\<rparr>"
  have s: "sleep env w ?t1 = (Inr (), ?t2)"
    using arrive_all[of env ?t1 _ "arrives_in env w"] d(1) g(2) assms(3) by (simp add: sleep_def modify_def ready_def)
  let ?t3 = "?t2\<lparr>ilst := (ilst ?t2)\<lparr>events := []\<rparr>\<rparr>"
  have k: "collect env key_or_skip ?t2 = (Inr [(PStr name, PStr ''KEYDOWN''), (PStr name, PStr ''KEYUP'')], ?t3)"
    using collect_quiet[of ?t2 key_or_skip "[Some (PStr name, PStr ''KEYDOWN''), Some (PStr name, PStr ''KEYUP'')]" env] d by simp
  have "ready dev ?t3" using d(2) assms(3) by (simp add: ready_def)
  moreover have "key_tap env w (key, kc) t = (if kc = PStr name then Inr () else Inl (TestFail ''Received key event didn't match expected event.''), ?t3)"
    unfolding key_tap_def prod.case
    by (subst bnd_Inr, rule c, subst bnd_Inr, rule s, subst bnd_Inr, rule k)
      (auto simp: pairs_eq_def press_release_def py_defs)
  ultimately show ?thesis by blast
qed


section \<open>A listener without devices\<close>

text \<open>Whether the table of buffers is missing or empty, no message changes the queue, unless it announces a device to an existing table.\<close>

lemma event_without_buffers:
  "buffers s = None \<or> buffers s = Some [] \<Longrightarrow> \<exists>e. linux_parse_platform_event c s = (Inl e, s)"
  using linux_event_unregistered[of s c] unfolding linux_parse_platform_event_def
  by (cases "pindex c ''device''"; cases "pindex c ''event''"; cases "pindex (projr (pindex c ''event'')) ''typeName''";
      cases "pindex (projr (pindex c ''event'')) ''value''")
     (auto simp: py_defs get_buffers_def check_key_def simp del: pindex_Inr_iff)

lemma info_without_buffers:
  assumes "buffers s = None"
  shows "\<exists>e s'. linux_report_info c s = (Inl e, s') \<and> buffers s' = None \<and> events s' = events s"
proof (rule base_info_cases[of c s])
  fix e
  assume "base_report_info c s = (Inl e, s)"
  then show ?thesis using assms by (simp add: linux_report_info_def bnd_def)
next
  fix dev info
  assume "pindex c ''device'' = Inr dev" "base_report_info c s = (Inr (), s\<lparr>targets := dset dev info (targets s)\<rparr>)"
  then show ?thesis using assms
    by (simp add: linux_report_info_def set_buffer_def get_buffers_def py_defs del: pindex_Inr_iff)
qed

abbreviation unset_stays :: "listener \<Rightarrow> listener \<Rightarrow> bool" where
  "unset_stays s t \<equiv> (buffers s = None \<longrightarrow> buffers t = None \<and> events t = events s)"

interpretation unset: state_relation unset_stays
  by unfold_locales auto

lemma unset_parse: "moves unset_stays (linux_parse l)"
proof -
  have e: "moves unset_stays (linux_parse_platform_event c)" for c
  proof (rule movesI)
    fix s
    show "unset_stays s (snd (linux_parse_platform_event c s))" using event_without_buffers[of s c] by auto
  qed
  have i: "moves unset_stays (linux_report_info c)" for c
  proof (rule movesI)
    fix s
    show "unset_stays s (snd (linux_report_info c s))" using info_without_buffers[of s c] by auto
  qed
  have s: "moves unset_stays (set_state st)" "moves unset_stays (report_error c)" for st c
    by (simp_all add: moves_def set_state_def report_error_def py_defs)
  show ?thesis unfolding parse_output_def by (auto intro!: unset.composed e i s split: option.split)
qed

text \<open>The last lines of a construction: a constructed listener has an empty table and an empty queue.\<close>

lemma deliver_unset: "unset_stays s (snd (deliver surv linux_parse ls s))"
proof (induction ls arbitrary: s)
  case (Cons l ls)
  obtain r s1 where r: "linux_parse l s = (r, s1)" by fastforce
  then show ?case using movesD[OF unset_parse r] Cons.IH[of s1] by (cases r) auto
qed simp

lemma wait_unset: "unset_stays s (snd (wait_listening surv linux_parse lss s))"
proof (induction lss arbitrary: s)
  case (Cons ls lss)
  obtain a s1 where a: "deliver surv linux_parse ls s = (a, s1)" by fastforce
  then show ?case using deliver_unset[where s = s and surv = surv and ls = ls] Cons.IH[of s1] by auto
qed simp

lemma new_linux_listener:
  assumes "is_linux env" and "buffers (ilst t) = None" and "new_listener env gs t = (Inr (), t1)"
  shows "buffers (ilst t1) = Some [] \<and> events (ilst t1) = [] \<and> ipending t1 = ipending t"
proof -
  have "linux_init gs (ilst t) = (Inr (), ilst t1)" and p: "ipending t1 = ipending t"
    using assms(1,3) by (auto simp: new_listener_def on_listener_def EventListener_def is_linux_def lift_res_def dindex_def bnd_def
        split: prod.splits)
  then obtain s where s: "base_init gs linux_report_info linux_parse_platform_event linux_python_bin linux_agent_target (ilst t) = (Inr (), s)"
      "ilst t1 = s\<lparr>buffers := Some []\<rparr>" by (auto simp: linux_init_def modify_def elim!: bnd_InrE)
  then obtain s0 where "wait_listening (survives gs) linux_parse (polls gs) s0 = (True, s)" "buffers s0 = None" "events s0 = []"
    using assms(2) by (fastforce simp: base_init_def listener_listen_def listener_launch_def listener_install_def Input_Proxy.log_def
        modify_def lift_res_def throw_def elim!: bnd_InrE split: prod.splits if_splits)
  then show ?thesis using wait_unset[of s0 "survives gs" "polls gs"] s p by simp
qed

lemma event_line_ignored:
  assumes "buffers s = Some []" and "is_event_line l"
  shows "\<exists>e. linux_parse l s = (Inl e, s)"
proof -
  obtain v c where "loads l = Some v" "pindex v ''type'' = Inr (PStr ''EVENT'')" "pindex v ''content'' = Inr c"
    using assms(2) by (auto simp: is_event_line_def msg_type_def split: option.splits sum.splits pyval.splits simp del: pindex_Inr_iff)
  then have "linux_parse l s = linux_parse_platform_event c s" by (simp add: parse_output_def py_defs del: pindex_Inr_iff)
  then show ?thesis using event_without_buffers[of s c] assms(1) by simp
qed

lemma deliver_ignored: "buffers s = Some [] \<Longrightarrow> list_all is_event_line ls \<Longrightarrow> snd (deliver surv linux_parse ls s) = s"
proof (induction ls)
  case (Cons l ls)
  then obtain e where "linux_parse l s = (Inl e, s)" using event_line_ignored[of s l] by auto
  then show ?case using Cons by simp
qed simp

text \<open>A test whose listener has no devices and whose guest only reports events.\<close>

definition deaf :: "'g itest \<Rightarrow> bool" where
  "deaf t \<longleftrightarrow> buffers (ilst t) = Some [] \<and> events (ilst t) = [] \<and> list_all (list_all is_event_line) (ipending t)"

definition only_events :: "'g console_env \<Rightarrow> bool" where
  "only_events env \<longleftrightarrow> (\<forall>i g. case react env i g of (Inl e, _) \<Rightarrow> True | (Inr bs, _) \<Rightarrow> list_all (list_all is_event_line) bs)"

lemma deaf_arrive: "is_linux env \<Longrightarrow> deaf t \<Longrightarrow> deaf (arrive env t)"
  using deliver_ignored[of "ilst t" _ "survive env"]
  by (auto simp: deaf_def arrive_def line_handler_def split: list.splits prod.splits) (metis snd_conv)+

lemma deaf_collect: "is_linux env \<Longrightarrow> deaf t \<Longrightarrow> collect env body t = (Inr [], arrive env t)"
  using deaf_arrive[of env t] by (subst collect.simps) (simp add: deaf_def)

lemma deaf_key_tap:
  assumes "is_linux env" and "only_events env" and "deaf t" and "react env (KeyTap key) (iguest t) = (Inr bs, g)"
  shows "fst (key_tap env w (key, kc) t) = Inl (TestFail ''Received key event didn't match expected event.'')"
proof -
  let ?t1 = "t\<lparr>iguest := g, ipending := ipending t @ bs\<rparr>"
  let ?t2 = "(arrive env ^^ arrives_in env w) ?t1"
  have c: "console env (KeyTap key) t = (Inr (), ?t1)" using assms(4) by (simp add: console_def)
  have "case react env (KeyTap key) (iguest t) of (Inl e, _) \<Rightarrow> True | (Inr bs, _) \<Rightarrow> list_all (list_all is_event_line) bs"
    using assms(2)[unfolded only_events_def, rule_format, of "KeyTap key" "iguest t"] .
  then have "deaf ?t1" using assms(3,4) by (simp add: deaf_def)
  then have "deaf ((arrive env ^^ n) ?t1)" for n by (induction n) (simp_all add: deaf_arrive assms(1))
  then have k: "collect env key_or_skip ?t2 = (Inr [], arrive env ?t2)" by (intro deaf_collect assms(1))
  have s: "sleep env w ?t1 = (Inr (), ?t2)" by (simp add: sleep_def modify_def)
  show ?thesis unfolding key_tap_def prod.case
    by (subst bnd_Inr, rule c, subst bnd_Inr, rule s, subst bnd_Inr, rule k) (simp add: pairs_eq_def press_release_def throw_def)
qed

text \<open>
  The agent of a Linux guest announces its devices before it is ready, and the listener forgets what was announced before it was
  constructed.  So the keyboard test cannot pass on a Linux guest that, once the listener is there, only reports events: whatever is
  tapped, however long the test waits and whether or not the session of the listener survives the exceptions,
  every event is lost and the first key fails the test.
\<close>

lemma linux_keyboard_test_fails:
  assumes "is_linux env" and "ilst t = listener_fresh" and "ipending t = []" and "only_events env"
    and "new_listener env gs t = (Inr (), t1)"
    and "load_keycodes env (dget_default params ''key_table_file'' PNone) = Inr ((key, kc) # keys)"
    and "react env (KeyTap key) (iguest t1) = (Inr bs, g)"
  shows "fst (keyboard_test env gs params w t) = Inl (TestFail ''Received key event didn't match expected event.'')"
proof -
  have "deaf t1" using new_linux_listener[OF assms(1) _ assms(5)] assms(2,3) by (simp add: deaf_def listener_fresh_def)
  then have "fst (key_tap env w (key, kc) t1) = Inl (TestFail ''Received key event didn't match expected event.'')"
    using deaf_key_tap[OF assms(1,4) _ assms(7)] by blast
  then have "fst (key_tap_test env params w t1) = Inl (TestFail ''Received key event didn't match expected event.'')"
    using assms(6) by (auto simp: key_tap_test_def bnd_def lift_res_def split: prod.splits)
  then show ?thesis using assms(5) by (auto simp: keyboard_test_def bnd_def split: prod.splits)
qed

section \<open>A guest for the examples\<close>

text \<open>It answers every input with one batch of lines.\<close>

definition demo_console :: "string list \<Rightarrow> unit console_env" where
  "demo_console ls = \<lparr>react = (\<lambda>_ g. (Inr [ls], g)), screen_size = (640, 480), pointer_pos = (\<lambda>_. (0, 0)), arrives_in = (\<lambda>_. 1),
     survive = (\<lambda>_. True), vm_params = [(''os_type'', PStr ''linux'')], load_keycodes = (\<lambda>_. Inr [(''esc'', PStr ''KEY_ESC'')]),
     query_mice = (\<lambda>_. Inr []), seconds_ms = (\<lambda>_. Inr 200)\<rparr>"

definition demo_itest :: "listener \<Rightarrow> unit itest" where
  "demo_itest l = \<lparr>ilst = l, idelivers = True, ipending = [], iguest = ()\<rparr>"

lemma demo_console_linux: "is_linux (demo_console ls)"
  by (simp add: is_linux_def demo_console_def)

lemma demo_listener: "\<exists>t1. new_listener (demo_console ls) demo_guest (demo_itest listener_fresh) = (Inr (), t1)"
proof -
  have "fst (linux_init demo_guest listener_fresh) = Inr ()" by code_simp
  then show ?thesis
    by (auto simp: new_listener_def on_listener_def EventListener_def demo_console_def demo_itest_def dindex_def bnd_def lift_res_def
        split: prod.splits)
qed

section \<open>The path of the pointer\<close>

text \<open>Going in one direction from each position to the next is being sorted.\<close>

definition in_direction :: "int \<Rightarrow> int list \<Rightarrow> bool" where
  "in_direction move xs \<longleftrightarrow> (move > 0 \<longrightarrow> sorted_wrt (<) xs) \<and> (move < 0 \<longrightarrow> sorted_wrt (>) xs)"

lemma in_direction_Cons:
  "in_direction move (x # y # xs) \<longleftrightarrow> \<not> wrong_way move (y - x) \<and> in_direction move (y # xs)"
  by (auto simp: in_direction_def wrong_way_def)

lemma check_trace_iff:
  "check_trace tol p q prev es = Inr () \<longleftrightarrow>
     (if fst q = fst p then in_direction (snd q - snd p) (map snd ((case prev of None \<Rightarrow> [] | Some e \<Rightarrow> [e]) @ es))
      else (\<forall>e \<in> set es. \<not> off_line tol p q e) \<and>
           (snd q = snd p \<longrightarrow> in_direction (fst q - fst p) (map fst ((case prev of None \<Rightarrow> [] | Some e \<Rightarrow> [e]) @ es))))"
proof (induction es arbitrary: prev)
  case Nil
  then show ?case by (cases prev) (auto simp: in_direction_def)
next
  case (Cons e es)
  show ?case using Cons.IH[of "Some e"]
    by (cases prev) (auto simp: check_point_def in_direction_Cons slope_def)
qed

lemma check_trace_fails: "check_trace tol p q prev es = Inl e \<Longrightarrow> \<exists>m. e = TestFail m"
  by (induction es arbitrary: prev) (auto simp: check_point_def rbind_def split: if_splits option.splits sum.splits)

text \<open>The distance from the line, without the division.\<close>

lemma off_line_iff:
  assumes "fst q \<noteq> fst p"
  shows "off_line tol p q e \<longleftrightarrow>
    tol * \<bar>fst q - fst p\<bar> < \<bar>(snd q - snd p) * (fst e - fst q) - (snd e - snd q) * (fst q - fst p)\<bar>"
proof -
  let ?d = "of_int (fst q - fst p) :: rat"
  let ?n = "(snd q - snd p) * (fst e - fst q) - (snd e - snd q) * (fst q - fst p)"
  have d: "?d \<noteq> 0" using assms by simp
  have "slope p q * of_int (fst e) + (of_int (snd q) - slope p q * of_int (fst q)) - of_int (snd e) =
      slope p q * of_int (fst e - fst q) - of_int (snd e - snd q)" by (simp add: algebra_simps)
  also have "\<dots> = of_int ?n / ?d" using d by (simp add: slope_def field_simps)
  finally have "off_line tol p q e \<longleftrightarrow> of_int tol < \<bar>of_int ?n / ?d\<bar>" by (simp only: off_line_def Let_def)
  also have "\<dots> \<longleftrightarrow> of_int tol * \<bar>?d\<bar> < \<bar>of_int ?n :: rat\<bar>" using d by (simp only: abs_divide) (simp add: pos_less_divide_eq)
  also have "\<dots> \<longleftrightarrow> (of_int (tol * \<bar>fst q - fst p\<bar>) :: rat) < of_int \<bar>?n\<bar>" by simp
  also have "\<dots> \<longleftrightarrow> tol * \<bar>fst q - fst p\<bar> < \<bar>?n\<bar>" by (simp only: of_int_less_iff)
  finally show ?thesis .
qed


section \<open>Reports with one axis\<close>

text \<open>The kernel reports an axis only when its value changes: the records of a horizontal step.\<close>

definition x_axis_frame :: "int \<Rightarrow> int \<Rightarrow> int \<Rightarrow> raw_event list" where
  "x_axis_frame sec usec v = [(sec, usec, 3, 0, v), (sec, usec, 0, 0, 0)]"

lemma abs_x_name: "code_name 3 0 = ''ABS_X''"
  by (simp add: code_name_def dget_default_def EV_CODE_MAP_def EV_ABS_CODES_def)

lemma x_axis_delivered:
  assumes "buffers l = Some bs" and "dget bs (PStr dev) = Some b" and "dget b ''yPos'' = None"
  shows "\<exists>bs' e. deliver surv linux_parse (map (event_line (PStr dev)) (x_axis_frame sec usec v)) l =
    (True, l\<lparr>events := events l @ [e], buffers := Some bs'\<rparr>) \<and> dget e ''xPos'' = Some (PInt v) \<and> dget e ''yPos'' = None"
proof -
  let ?b = "pointer_move ''ABS_X'' (PInt v) 1 b"
  have "linux_step (PStr dev) (sec, usec, 3, 0, v) b = ([], ?b)"
    by (simp add: linux_step_def type_names abs_x_name fill_abs_def key_text_def)
  moreover have "linux_step (PStr dev) (sec, usec, 0, 0, 0) ?b = ([dset DevNameKey (PStr dev) ?b], [(EventTypeKey, PStr EventType_UNKNOWN)])"
    by (simp add: linux_step_def type_names code_names)
  ultimately have "deliver surv linux_parse (map (event_line (PStr dev)) (x_axis_frame sec usec v)) l =
      (True, l\<lparr>events := events l @ [dset DevNameKey (PStr dev) ?b],
        buffers := Some (dset (PStr dev) [(EventTypeKey, PStr EventType_UNKNOWN)] (dset (PStr dev) ?b bs))\<rparr>)"
    by (simp add: x_axis_frame_def linux_line_run hashable_def assms(1,2))
  moreover have "dget (dset DevNameKey (PStr dev) ?b) ''xPos'' = Some (PInt v)" "dget (dset DevNameKey (PStr dev) ?b) ''yPos'' = None"
    using assms(3) by (simp_all add: pointer_move_def EventType_defs endswith_def startswith_def)
  ultimately show ?thesis by blast
qed

text \<open>
  On a Linux guest, a report of the absolute pointer that has only the horizontal axis queues an event without
  a vertical position; the move test reads both positions of every event and raises \<open>KeyError\<close> instead of judging the move.
\<close>

lemma one_axis_report_raises:
  assumes "is_linux env" and "ready dev t" and "buffers (ilst t) = Some bs" and "dget bs (PStr dev) = Some b" and "dget b ''yPos'' = None"
    and "react env (PointerMove (x, y) absolute) (iguest t) = (Inr batches, g)" and "length batches \<le> arrives_in env w"
    and "concat batches = map (event_line (PStr dev)) (x_axis_frame sec usec v)"
    and "dget params ''move_rate'' = None" and "dget params ''move_duration'' = None"
  shows "fst (mouse_move_test env params w [x, y] absolute t) = Inl (KeyError ''yPos'')"
proof -
  let ?t1 = "t\<lparr>iguest := g, ipending := batches\<rparr>"
  have c: "console env (PointerMove (x, y) absolute) t = (Inr (), ?t1)" using assms(2,6) by (simp add: console_def ready_def)
  obtain bs' e where d: "deliver (survive env) (line_handler env) (concat batches) (ilst t) =
      (True, (ilst t)\<lparr>events := [e], buffers := Some bs'\<rparr>)" "dget e ''xPos'' = Some (PInt v)" "dget e ''yPos'' = None"
    using x_axis_delivered[OF assms(3-5), of "survive env" sec usec v] assms(1,2,8) by (auto simp: ready_def line_handler_def)
  let ?t2 = "?t1\<lparr>ipending := [], ilst := (ilst t)\<lparr>events := [e], buffers := Some bs'\<rparr>\<rparr>"
  have s: "sleep env w ?t1 = (Inr (), ?t2)"
    using arrive_all[of env ?t1 _ "arrives_in env w"] d(1) assms(2,7) by (simp add: sleep_def modify_def ready_def)
  have k: "fst (collect env (move_event (screen_size env)) ?t2) = Inl (KeyError ''yPos'')"
    using d(2,3) by (intro collect_quiet_error[of _ "[]" e "[]" _ "[]"]) (simp_all add: move_event_def dindex_def)
  have ints: "py_int (dget_default params ''move_rate'' (PInt 80)) = Inr 80" "py_int (dget_default params ''move_duration'' (PInt 1)) = Inr 1"
    using assms(9,10) by (simp_all add: dget_default_def py_int_def)
  show ?thesis
    unfolding mouse_move_test_def ints
    by (simp, subst bnd_Inr, rule gets_run, subst bnd_Inr, rule c, subst bnd_Inr, rule s) (use k in \<open>auto simp: bnd_def split: prod.splits\<close>)
qed

section \<open>Scrolls and combinations\<close>

lemma counted_all:
  "int (length (filter P xs)) = n \<and> filter (\<lambda>x. \<not> P x) xs = [] \<longleftrightarrow> list_all P xs \<and> int (length xs) = n"
  by (auto simp: filter_empty_conv list_all_iff)

text \<open>A scroll is accepted when exactly the expected number of events came, all of the expected kind.\<close>

lemma scroll_verdict:
  assumes "console env (if sublist ''up'' scroll then ScrollForward count else ScrollBackward count) t = (Inr (), t1)"
    and "sleep env w t1 = (Inr (), t2)" and "collect env scroll_sample t2 = (Inr samples, t3)"
    and "dget scroll_events scroll = Some (ty, h)"
  shows "fst (scroll_once env w count scroll t) = Inr () \<longleftrightarrow>
    list_all (\<lambda>(a, b). hashable a \<and> hashable b) samples \<and> list_all (\<lambda>(a, b). py_eq a ty \<and> py_eq b h) samples \<and> int (length samples) = count"
proof -
  have eq: "fst (scroll_once env w count scroll t) = fst (bnd (lift_res (counter_pop (Some (ty, h)) samples)) (\<lambda>(num, counter).
       if num \<noteq> count then throw (TestFail ''Received scroll number don't match expectedscroll count'')
       else if counter \<noteq> [] then throw (TestFail ''Received scroll events don't match expected events'')
       else ret ()) t3)"
    unfolding scroll_once_def assms(4)
    by (subst bnd_Inr, rule assms(1), subst bnd_Inr, rule assms(2), subst bnd_Inr, rule assms(3)) (rule refl)
  show ?thesis unfolding eq
    using counted_all[of "\<lambda>(a, b). py_eq a ty \<and> py_eq b h" samples count]
    by (cases "list_all (\<lambda>(a, b). hashable a \<and> hashable b) samples") (auto simp: counter_pop_def Let_def py_defs)
qed

lemma all_of_type_iff: "all_of_type ty evs = Inr ks \<longleftrightarrow> evs = map (\<lambda>k. (k, PStr ty)) ks"
proof (induction ty evs arbitrary: ks rule: all_of_type.induct)
  case (2 ty k v evs)
  show ?case
  proof (cases "v = PStr ty")
    case True
    then show ?thesis using 2 by (cases ks; cases "all_of_type ty evs") auto
  qed auto
qed auto

text \<open>
  The verdict on a combination of keys: all went down, then all went up, in any order, each exactly as often as keys were pressed.
\<close>

lemma combination_verdict:
  "judge_keys ks evs = Inr () \<longleftrightarrow>
     (\<exists>downs ups. evs = map (\<lambda>k. (k, PStr ''KEYDOWN'')) downs @ map (\<lambda>k. (k, PStr ''KEYUP'')) ups
        \<and> length downs = length ks \<and> length ups = length ks \<and> same_set downs ks = Inr True \<and> same_set ups ks = Inr True)"
  (is "?l \<longleftrightarrow> ?r")
proof
  assume l: ?l
  let ?m = "length evs - length ks"
  obtain downs where d: "all_of_type ''KEYDOWN'' (take ?m evs) = Inr downs" "length downs = length ks" "same_set downs ks = Inr True"
    using l by (auto simp: judge_keys_def Let_def elim!: rbind_InrE split: if_splits)
  obtain ups where u: "all_of_type ''KEYUP'' (drop ?m evs) = Inr ups" "same_set ups ks = Inr True" "2 * length ks \<le> length evs"
    using l by (auto simp: judge_keys_def Let_def elim!: rbind_InrE split: if_splits)
  have "length ups = length ks" using u(1,3) by (metis all_of_type_iff diff_diff_cancel le_trans length_drop length_map mult_2 le_add1)
  moreover have "evs = map (\<lambda>k. (k, PStr ''KEYDOWN'')) downs @ map (\<lambda>k. (k, PStr ''KEYUP'')) ups"
    using d(1) u(1) by (metis all_of_type_iff append_take_drop_id)
  ultimately show ?r using d u by blast
next
  assume ?r
  then obtain downs ups where e: "evs = map (\<lambda>k. (k, PStr ''KEYDOWN'')) downs @ map (\<lambda>k. (k, PStr ''KEYUP'')) ups"
    "length downs = length ks" "length ups = length ks" "same_set downs ks = Inr True" "same_set ups ks = Inr True" by blast
  have "all_of_type ''KEYDOWN'' (map (\<lambda>k. (k, PStr ''KEYDOWN'')) downs) = Inr downs" "all_of_type ''KEYUP'' (map (\<lambda>k. (k, PStr ''KEYUP'')) ups) = Inr ups"
    by (simp_all add: all_of_type_iff)
  then show ?l using e by (simp add: judge_keys_def)
qed


end
