(* ===== verification/Blockdev_Env.thy ===== *)
theory Blockdev_Env
  imports Storage_Pool Backup_Host Py_Text
begin

text \<open>
  What the test bases of block devices share (\<^verbatim>\<open>provider/blockdev_*.py\<close>): the test object, the virtual machines of the test
  environment, the images of the host and the disks of a guest.  Machines are named; what the framework does with a machine or an
  image is a function on the world, and every call is logged with the commands of the monitors, so that the theorems can speak about their order.
\<close>

section \<open>The test object\<close>

datatype image_obj = QemuImg string | Volume nat

record 'w btest =
  bst :: "'w storage"
  bparams :: pydict
  bmain :: "string option"
  bclone :: "string option"
  disks_info :: "(string \<times> string list) list"
  files_info :: "(string \<times> string list) list"
  trash :: "image_obj list"

record 'w bt_env =
  base_env :: "'w storage_env"
  monitor_of :: "string \<Rightarrow> 'w vm_env"
  host_of :: "string \<Rightarrow> 'w host_env"
  all_vms :: "'w \<Rightarrow> string list"
  is_alive :: "string \<Rightarrow> 'w \<Rightarrow> bool"
  vm_params_of :: "string \<Rightarrow> 'w \<Rightarrow> pydict"
  has_blockdev :: "string \<Rightarrow> 'w \<Rightarrow> bool"
  vm_destroy :: "string \<Rightarrow> 'w \<Rightarrow> unit res \<times> 'w"
  vm_create :: "string \<Rightarrow> 'w \<Rightarrow> unit res \<times> 'w"
  vm_verify_alive :: "string \<Rightarrow> 'w \<Rightarrow> unit res \<times> 'w"
  preprocess_vm :: "string \<Rightarrow> 'w \<Rightarrow> unit res \<times> 'w"
  env_get_vm :: "string \<Rightarrow> 'w \<Rightarrow> string option"
  vm_clone :: "string \<Rightarrow> pydict \<Rightarrow> 'w \<Rightarrow> string res \<times> 'w"
  register_vm :: "string \<Rightarrow> string \<Rightarrow> 'w \<Rightarrow> unit res \<times> 'w"
  free_caches :: "'w \<Rightarrow> unit res \<times> 'w"
  img_create :: "string \<Rightarrow> pydict \<Rightarrow> 'w \<Rightarrow> unit res \<times> 'w"
  img_info :: "string \<Rightarrow> 'w \<Rightarrow> string res \<times> 'w"
  img_check :: "string \<Rightarrow> 'w \<Rightarrow> unit res \<times> 'w"
  img_remove :: "string \<Rightarrow> 'w \<Rightarrow> unit res \<times> 'w"
  img_rebase :: "string \<Rightarrow> string \<Rightarrow> 'w \<Rightarrow> unit res \<times> 'w"
  img_filename :: "string \<Rightarrow> string"
  guest_disks :: "string \<Rightarrow> pydict \<Rightarrow> 'w \<Rightarrow> disk_env"
  format_disk :: "string \<Rightarrow> string \<Rightarrow> string \<Rightarrow> 'w \<Rightarrow> string list res \<times> 'w"
  windows_disk :: "string \<Rightarrow> string \<Rightarrow> 'w \<Rightarrow> (string \<times> string) res \<times> 'w"
  mount_disk :: "string \<Rightarrow> string \<Rightarrow> string \<Rightarrow> 'w \<Rightarrow> unit res \<times> 'w"
  get_numeric :: "pydict \<Rightarrow> string \<Rightarrow> int \<Rightarrow> int res"
  to_megabytes :: "string \<Rightarrow> int res"
  random_name :: "'w \<Rightarrow> string"
  random_ids :: "nat \<Rightarrow> string"
  choose_size :: "int set \<Rightarrow> int"
  data_dir :: string
  map_functions :: "string \<Rightarrow> string"
  version_in :: "string option \<Rightarrow> string \<Rightarrow> bool"
  walk_set :: "image_obj list \<Rightarrow> image_obj list"
  max_chain :: nat
  obj_of :: "string \<Rightarrow> block_obj"
  copy_from_keys :: "pydict \<Rightarrow> string list \<Rightarrow> pydict"
  run_parallel :: "('w btest, unit) py list \<Rightarrow> ('w btest, unit) py"
  extra_test :: "string \<Rightarrow> ('w btest, unit) py option"

section \<open>Running parts of the state\<close>

definition on_storage :: "('w storage, 'a) py \<Rightarrow> ('w btest, 'a) py" where
  "on_storage f t = (case f (bst t) of (r, s) \<Rightarrow> (r, t\<lparr>bst := s\<rparr>))"

definition on_host :: "('w vst, 'a) py \<Rightarrow> ('w btest, 'a) py" where
  "on_host f = on_storage (on_vm f)"

text \<open>A call of the framework: it is logged, and acts on the world.\<close>

definition call :: "string \<Rightarrow> string list \<Rightarrow> ('w \<Rightarrow> 'a res \<times> 'w) \<Rightarrow> ('w btest, 'a) py" where
  "call name args f = on_host (on_world (name, [(''args'', PList (map PStr args))]) f)"

definition ask :: "('w \<Rightarrow> 'a) \<Rightarrow> ('w btest, 'a) py" where
  "ask f = gets (\<lambda>t. f (world (st_vm (bst t))))"

definition blog :: "'w btest \<Rightarrow> (string \<times> pydict) list" where
  "blog t = sent (st_vm (bst t))"

definition called :: "string \<Rightarrow> string list \<Rightarrow> string \<times> pydict" where
  "called name args = (name, [(''args'', PList (map PStr args))])"

text \<open>\<open>self.main_vm\<close> and \<open>self.clone_vm\<close>, which are \<open>None\<close> before they are set.\<close>

definition the_main :: "('w btest, string) py" where
  "the_main = bnd (gets bmain) (\<lambda>v. case v of None \<Rightarrow> throw (AttributeError ''main_vm'') | Some m \<Rightarrow> ret m)"

definition the_clone :: "('w btest, string) py" where
  "the_clone = bnd (gets bclone) (\<lambda>v. case v of None \<Rightarrow> throw (AttributeError ''clone_vm'') | Some m \<Rightarrow> ret m)"

definition storage_on :: "'w bt_env \<Rightarrow> string \<Rightarrow> 'w storage_env" where
  "storage_on env v = (base_env env)\<lparr>host_vm := monitor_of env v\<rparr>"

definition obj_params :: "'w bt_env \<Rightarrow> pydict \<Rightarrow> string \<Rightarrow> pydict" where
  "obj_params env = object_params (base_env env)"

definition drive :: "string \<Rightarrow> string" where
  "drive tag = ''drive_'' @ tag"

section \<open>Machines\<close>

definition destroy_vm :: "'w bt_env \<Rightarrow> string \<Rightarrow> ('w btest, unit) py" where
  "destroy_vm env v = call ''destroy'' [v] (vm_destroy env v)"

definition create_vm :: "'w bt_env \<Rightarrow> string \<Rightarrow> ('w btest, unit) py" where
  "create_vm env v = call ''create'' [v] (vm_create env v)"

definition verify_alive :: "'w bt_env \<Rightarrow> string \<Rightarrow> ('w btest, unit) py" where
  "verify_alive env v = call ''verify_alive'' [v] (vm_verify_alive env v)"

definition drop_caches :: "'w bt_env \<Rightarrow> ('w btest, unit) py" where
  "drop_caches env = call ''drop_caches'' [] (free_caches env)"

definition destroy_if_alive :: "'w bt_env \<Rightarrow> string \<Rightarrow> ('w btest, unit) py" where
  "destroy_if_alive env v = bnd (ask (is_alive env v)) (\<lambda>a. if a then destroy_vm env v else ret ())"

text \<open>A session with a guest, closed whatever happens.\<close>

definition with_session :: "'w bt_env \<Rightarrow> string \<Rightarrow> ('w btest, 'a) py \<Rightarrow> ('w btest, 'a) py" where
  "with_session env v body =
     bnd (on_host (wait_for_login (host_of env v))) (\<lambda>_. try_finally body (on_host close_session))"

text \<open>The template of every test: what \<open>prepare\<close> raises is raised before anything is cleaned up.\<close>

definition run_template :: "('s, unit) py \<Rightarrow> ('s, unit) py \<Rightarrow> ('s, unit) py \<Rightarrow> ('s, unit) py" where
  "run_template prepare body post = bnd prepare (\<lambda>_. try_finally body post)"

section \<open>Runs of the parts\<close>

lemma bnd_unitE:
  assumes "bnd m f s = (Inr y, t)"
  obtains s' where "m s = (Inr (), s')" "f () s' = (Inr y, t)"
  using assms by (auto elim: bnd_InrE)

lemma for_each_returned:
  "for_each xs f s = (Inr (), s') \<Longrightarrow> x \<in> set xs \<Longrightarrow> \<exists>s1 s2. f x s1 = (Inr (), s2)"
  by (induction xs arbitrary: s) (auto elim!: bnd_InrE, blast)

lemma map_each_returned:
  "map_each xs f s = (Inr ys, s') \<Longrightarrow> length ys = length xs \<and> (\<forall>i < length xs. \<exists>s1 s2. f (xs ! i) s1 = (Inr (ys ! i), s2))"
proof (induction xs arbitrary: s ys)
  case (Cons x xs)
  then obtain y zs s1 where y: "f x s = (Inr y, s1)" "map_each xs f s1 = (Inr zs, s')" "ys = y # zs"
    by (auto simp: ret_def elim!: bnd_InrE)
  from Cons.IH[OF y(2)] y show ?case by (auto simp: less_Suc_eq_0_disj)
qed (simp add: ret_def)

lemma finally_InrE:
  assumes "try_finally m f s = (Inr x, s')"
  obtains s1 where "m s = (Inr x, s1)" "f s1 = (Inr (), s')"
  using assms by (auto simp: try_finally_def split: prod.splits sum.splits)

lemma on_host_run:
  "on_host f t = (fst (f (st_vm (bst t))), t\<lparr>bst := (bst t)\<lparr>st_vm := snd (f (st_vm (bst t)))\<rparr>\<rparr>)"
  by (simp add: on_host_def on_storage_def on_vm_def split: prod.split)

lemma on_host_Inr:
  "on_host f t = (Inr x, t') \<Longrightarrow> f (st_vm (bst t)) = (Inr x, st_vm (bst t'))"
  by (cases "f (st_vm (bst t))") (auto simp: on_host_run)

lemma call_run:
  "call name args f t =
     (fst (f (world (st_vm (bst t)))),
      t\<lparr>bst := (bst t)\<lparr>st_vm := \<lparr>world = snd (f (world (st_vm (bst t)))), sent = blog t @ [called name args]\<rparr>\<rparr>\<rparr>)"
  by (simp add: call_def on_host_run on_world_run blog_def called_def)

lemma call_log: "call name args f t = (r, t') \<Longrightarrow> blog t' = blog t @ [called name args]"
  by (auto simp: call_run blog_def)

lemma ask_run [py_run]: "ask f t = (Inr (f (world (st_vm (bst t)))), t)"
  by (simp add: ask_def gets_def)

lemma the_vm_Inr:
  "the_main t = (Inr v, t') \<longleftrightarrow> bmain t = Some v \<and> t' = t"
  "the_clone t = (Inr v, t') \<longleftrightarrow> bclone t = Some v \<and> t' = t"
  by (auto simp: the_main_def the_clone_def py_defs split: option.splits)

lemma called_eq [simp]: "called n a = called m b \<longleftrightarrow> n = m \<and> a = b"
  by (auto simp: called_def dest: map_injective intro: injI)

text \<open>Sessions are closed whatever happens in them.\<close>

lemma close_run: "on_host close_session t = (Inr (), t\<lparr>bst := (bst t)\<lparr>st_vm := (st_vm (bst t))\<lparr>sent := blog t @ [(''close'', [])]\<rparr>\<rparr>\<rparr>)"
  by (simp add: on_host_run close_session_def on_world_run blog_def)

lemma session_InrE:
  assumes "with_session env v body t = (Inr x, t')"
  obtains t1 t2 where "on_host (wait_for_login (host_of env v)) t = (Inr (), t1)" "body t1 = (Inr x, t2)"
    "disks_info t' = disks_info t2" "files_info t' = files_info t2" "blog t' = blog t2 @ [(''close'', [])]"
  using assms by (auto simp: with_session_def close_run blog_def elim!: bnd_InrE finally_InrE)

lemma session_closed:
  assumes "on_host (wait_for_login (host_of env v)) t = (Inr (), t1)"
  shows "blog (snd (with_session env v body t)) = blog (snd (body t1)) @ [(''close'', [])]"
  using assms by (cases "body t1") (simp add: with_session_def bnd_def try_finally_def close_run blog_def)

text \<open>A comparison of digests that returned has found them equal.\<close>

lemma md5_verified:
  assumes "verify_file_md5 vm h params root f s = (Inr (), s')"
  shows "\<exists>os w. dget params ''os_type'' = Some os
    \<and> digests_agree h (fst (md5_commands (os = PStr ''windows'') root f)) (snd (md5_commands (os = PStr ''windows'') root f)) w"
proof -
  obtain os where os: "dget params ''os_type'' = Some os"
    using assms by (auto simp: verify_file_md5_def lift_res_def elim!: bnd_InrE)
  obtain c1 c2 where c: "md5_commands (os = PStr ''windows'') root f = (c1, c2)" by fastforce
  obtain w where "digests_agree h c1 c2 w"
    using assms c os
    by (auto simp: verify_file_md5_def lift_res_def wait_for_login_def cmd_status_output_def on_world_def py_assert_run digests_agree_def
        elim!: bnd_InrE finally_InrE split: prod.splits if_splits) blast
  then show ?thesis using os c by auto
qed

section \<open>What the tests know\<close>

text \<open>Calls and commands change the world and the storage, and nothing that the test object knows about its disks and files.\<close>

abbreviation same_tables :: "'w btest \<Rightarrow> 'w btest \<Rightarrow> bool" where
  "same_tables s t \<equiv> disks_info t = disks_info s \<and> files_info t = files_info s \<and> bclone t = bclone s \<and> bmain t = bmain s
     \<and> bparams t = bparams s \<and> trash t = trash s"

interpretation tables: state_relation same_tables
  by unfold_locales auto

lemma tables_parts [intro!]:
  "moves same_tables (on_storage f)" "moves same_tables (on_host g)" "moves same_tables (call n a h)" "moves same_tables (ask k)"
  by (auto simp: moves_def on_storage_def on_host_def call_def ask_def gets_def split: prod.split)

context state_relation
begin

lemma each_returned:
  assumes "\<And>x. moves R (f x)" "for_each xs f s = (Inr (), s')" "x \<in> set xs"
  shows "\<exists>s1 s2. R s s1 \<and> f x s1 = (Inr (), s2)"
  using assms(2,3)
proof (induction xs arbitrary: s)
  case (Cons y ys)
  then obtain s1 where "f y s = (Inr (), s1)" "for_each ys f s1 = (Inr (), s')" by (auto elim!: bnd_InrE)
  then show ?case using Cons.IH[of s1] Cons.prems(2) movesD[OF assms(1)] by (auto intro: refl) (metis refl trans)+
qed simp

lemma ensured:
  assumes "moves R m" "moves R f"
  shows "moves R (try_finally m f)"
proof (rule movesI)
  fix s
  obtain r s1 where m: "m s = (r, s1)" by fastforce
  obtain r' s2 where f: "f s1 = (r', s2)" by fastforce
  show "R s (snd (try_finally m f s))"
    using trans[OF movesD[OF assms(1) m] movesD[OF assms(2) f]] m f by (simp add: try_finally_def split: sum.split)
qed

end

section \<open>An environment for the examples\<close>

text \<open>
  The living machines and the script of the monitor that they share; every command of the framework succeeds and every command in a guest prints
  the same digest.
\<close>

type_synonym farm = "string list \<times> script"

definition farm_monitor :: "farm vm_env" where
  "farm_monitor = \<lparr>qmp = (\<lambda>_ _ (a, w). case script_qmp w of (r, w') \<Rightarrow> (r, (a, w'))),
     qmp_events = (\<lambda>(a, w). case script_events w of (r, w') \<Rightarrow> (r, (a, w'))), pause_ms = (\<lambda>_ w. w),
     env_wait_for = (\<lambda>_ _ f. f), fail_exc = script_fail\<rparr>"

lemma farm_polls: "wait_polls farm_monitor"
proof -
  have "poll farm_monitor [0] f s = f s" for f :: "(farm vst, bool) py" and s
    by (cases "f s") (auto simp: bnd_def sleep_ms_def modify_def ret_def farm_monitor_def split: sum.split)
  then have "\<forall>first timeout f s. env_wait_for farm_monitor first timeout f s = poll farm_monitor [0] f s"
    by (simp add: farm_monitor_def)
  then show ?thesis unfolding wait_polls_def by blast
qed

definition farm_host :: "farm host_env" where
  "farm_host = \<lparr>login_guest = (\<lambda>w. (Inr (), w)), sess_cmd = (\<lambda>_ w. (Inr (0, ''d41d''), w)),
     sess_run = (\<lambda>_ w. (Inr (), w)), run_process = (\<lambda>_ w. (Inr ''1'', w))\<rparr>"

definition farm_storage :: "farm storage_env" where
  "farm_storage = \<lparr>host_vm = farm_monitor, object_params = (\<lambda>ps _. ps), realpath = (\<lambda>t. t), is_dir = (\<lambda>_ _. True), make_dirs = (\<lambda>_ w. (Inr (), w)),
     run_system = (\<lambda>c w. (Inr (), w\<lparr>sent := sent w @ [(c, [])]\<rparr>)), system_output = (\<lambda>_ w. (Inr ''1'', w)), normalize_size = (\<lambda>_. Inr 100),
     raw_node_masked = (\<lambda>_ w. (Inr False, w)), make_source = (\<lambda>_ _. Inr \<lparr>s_pool_name = PNone, s_auth = ''None''\<rparr>),
     new_node = (\<lambda>t n. \<lparr>n_type = t, n_params = [(''node-name'', opt_str n)], n_children = []\<rparr>),
     set_param = (\<lambda>k v n. n\<lparr>n_params := dset k v (n_params n)\<rparr>), node_is_text = (\<lambda>_ _. False), node_cmd = (\<lambda>n. (''blockdev-add'', n_params n)),
     hash_of = (\<lambda>d. 0), set_order = (\<lambda>es. es),
     fire = (\<lambda>ts trigger st. map_option (\<lambda>t. (t_dest t, t_after t)) (List.find (\<lambda>t. t_trigger t = trigger \<and> st \<in> set (t_sources t)) ts))\<rparr>"

definition farm_vm_params :: pydict where
  "farm_vm_params = [(''os_type'', PStr ''linux''), (''images'', PStr ''image1 data1'')]"

definition farm_env :: "farm bt_env" where
  "farm_env = \<lparr>base_env = farm_storage, monitor_of = (\<lambda>_. farm_monitor), host_of = (\<lambda>_. farm_host),
     all_vms = (\<lambda>_. [''vm1'', ''vm2'']), is_alive = (\<lambda>v (a, _). v \<in> set a), vm_params_of = (\<lambda>_ _. farm_vm_params), has_blockdev = (\<lambda>_ _. True),
     vm_destroy = (\<lambda>v (a, w). (Inr (), (filter (\<lambda>u. u \<noteq> v) a, w))), vm_create = (\<lambda>v (a, w). (Inr (), (v # a, w))),
     vm_verify_alive = (\<lambda>_ w. (Inr (), w)), preprocess_vm = (\<lambda>_ w. (Inr (), w)), env_get_vm = (\<lambda>v _. Some v),
     vm_clone = (\<lambda>v _ w. (Inr (v @ ''_clone''), w)), register_vm = (\<lambda>_ _ w. (Inr (), w)), free_caches = (\<lambda>w. (Inr (), w)),
     img_create = (\<lambda>_ _ w. (Inr (), w)), img_info = (\<lambda>_ w. (Inr ''{}'', w)), img_check = (\<lambda>_ w. (Inr (), w)), img_remove = (\<lambda>_ w. (Inr (), w)),
     img_rebase = (\<lambda>_ _ w. (Inr (), w)), img_filename = (\<lambda>t. t),
     guest_disks = (\<lambda>_ _ _. \<lparr>disk_params = (\<lambda>_. [(''image_size'', PStr ''2G'')]), drive_path_of = (\<lambda>_. []), linux_disks = [(''sdb'', [''sdb'', ''2G'', ''disk''])]\<rparr>),
     format_disk = (\<lambda>_ k _ w. (Inr [''/mnt/'' @ k], w)), windows_disk = (\<lambda>_ _ w. (Inr (''1'', ''D''), w)), mount_disk = (\<lambda>_ _ _ w. (Inr (), w)),
     get_numeric = (\<lambda>_ _ d. Inr d), to_megabytes = (\<lambda>_. Inr 10), random_name = (\<lambda>_. ''f''), random_ids = (\<lambda>_. ''x''), choose_size = (\<lambda>_. 512),
     data_dir = ''/images'', map_functions = (\<lambda>c. c), version_in = (\<lambda>_ _. True), walk_set = (\<lambda>xs. xs), max_chain = 2,
     obj_of = (\<lambda>_. OtherObj), copy_from_keys = (\<lambda>p ks. filter (\<lambda>(k, _). k \<in> set ks) p),
     run_parallel = (\<lambda>ms. for_each ms (\<lambda>m. m)), extra_test = (\<lambda>_. None)\<rparr>"

lemma farm_fields [simp]:
  "monitor_of farm_env v = farm_monitor" "random_ids farm_env i = ''x''" "vm_params_of farm_env v w = farm_vm_params"
  by (simp_all add: farm_env_def)

definition farm_test :: "pydict \<Rightarrow> farm \<Rightarrow> farm btest" where
  "farm_test params w = \<lparr>bst = \<lparr>st_vm = \<lparr>world = w, sent = []\<rparr>, pools = [], volumes = [], secrets = []\<rparr>,
     bparams = params, bmain = None, bclone = None, disks_info = [], files_info = [], trash = []\<rparr>"

end
