(* ===== verification/Blockdev_Base.thy ===== *)
theory Blockdev_Base
  imports Blockdev_Env
begin

text \<open>
  The base class of block device tests (\<^verbatim>\<open>provider/blockdev_base.py\<close>) with the clean-up it shares with its subclasses.  A class is the record of the methods that subclasses
  override; the methods of the base class take it as an argument.  Tests that run in parallel with a block job are given
  as computations, and the order in which \<^verbatim>\<open>utils_misc.parallel\<close> runs its targets is a parameter.
\<close>

section \<open>The base class\<close>

record 'w bt_class =
  cls_prepare_data_disk :: "string \<Rightarrow> ('w btest, unit) py"
  cls_add_target_data_disks :: "('w btest, unit) py"
  cls_do_test :: "('w btest, unit) py"
  cls_post_test :: "('w btest, unit) py"

definition is_blockdev_mode :: "'w bt_env \<Rightarrow> ('w btest, bool) py" where
  "is_blockdev_mode env = bnd the_main (\<lambda>v. ask (has_blockdev env v))"

text \<open>The random cluster size goes into the parameters, where the next image finds it too.\<close>

definition sized_params :: "'w bt_env \<Rightarrow> pydict \<Rightarrow> pydict res" where
  "sized_params env params =
     (if dget params ''random_cluster_size'' = Some (PStr ''yes'') then
        rbind (rmap int_of_str (objects params ''cluster_size_blacklist'')) (\<lambda>blacklist.
        rbind (generate_random_cluster_size (choose_size env) blacklist) (\<lambda>cluster_size.
          Inr (dset ''image_cluster_size'' (PInt cluster_size) params)))
      else Inr params)"

definition target_params :: "'w bt_env \<Rightarrow> pydict \<Rightarrow> pydict res" where
  "target_params env params = rbind (sized_params env params) (\<lambda>p. Inr (setdefault ''target_path'' (PStr (data_dir env)) p))"

definition define_volume :: "'w bt_env \<Rightarrow> pydict \<Rightarrow> string \<Rightarrow> ('w btest, nat) py" where
  "define_volume env params image_name = on_storage (volume_define_by_params (max_chain env) (base_env env) params image_name)"

definition target_disk_define_by_params :: "'w bt_env \<Rightarrow> pydict \<Rightarrow> string \<Rightarrow> ('w btest, nat) py" where
  "target_disk_define_by_params env params image_name =
     bnd (lift_res (target_params env params)) (\<lambda>p. define_volume env p image_name)"

text \<open>The same on the parameters of the test itself, which keep what was put into them.\<close>

definition target_disk_define_by_self :: "'w bt_env \<Rightarrow> string \<Rightarrow> ('w btest, nat) py" where
  "target_disk_define_by_self env image_name =
     bnd (gets bparams) (\<lambda>params.
     bnd (lift_res (target_params env params)) (\<lambda>p.
     bnd (modify (\<lambda>t. t\<lparr>bparams := p\<rparr>)) (\<lambda>_. define_volume env p image_name)))"

definition add_trash :: "image_obj \<Rightarrow> ('w btest, unit) py" where
  "add_trash d = modify (\<lambda>t. t\<lparr>trash := trash t @ [d]\<rparr>)"

definition preprocess_data_disk :: "'w bt_env \<Rightarrow> string \<Rightarrow> ('w btest, unit) py" where
  "preprocess_data_disk env tag =
     bnd (gets bparams) (\<lambda>params.
     bnd (lift_res (sized_params env (obj_params env params tag))) (\<lambda>p.
     bnd (call ''create_image'' [tag] (img_create env tag p)) (\<lambda>_. add_trash (QemuImg tag))))"

definition preprocess_data_disks :: "'w bt_env \<Rightarrow> ('w btest, unit) py" where
  "preprocess_data_disks env =
     bnd (gets bparams) (\<lambda>params. for_each (objects params ''source_images'') (preprocess_data_disk env))"

definition destroy_vms :: "'w bt_env \<Rightarrow> ('w btest, unit) py" where
  "destroy_vms env = bnd (ask (all_vms env)) (\<lambda>vs. for_each vs (destroy_if_alive env))"

definition prepare_main_vm :: "'w bt_env \<Rightarrow> ('w btest, unit) py" where
  "prepare_main_vm env =
     bnd (destroy_vms env) (\<lambda>_.
     bnd (gets bparams) (\<lambda>params.
     bnd (lift_res (dindex params ''main_vm'')) (\<lambda>n.
     let vm_name = str_of n in
     bnd (call ''preprocess'' [vm_name] (preprocess_vm env vm_name)) (\<lambda>_.
     bnd (ask (env_get_vm env vm_name)) (\<lambda>v.
       case v of
         None \<Rightarrow> throw (AttributeError ''create'')
       | Some main_vm \<Rightarrow>
           bnd (create_vm env main_vm) (\<lambda>_.
           bnd (verify_alive env main_vm) (\<lambda>_. modify (\<lambda>t. t\<lparr>bmain := Some main_vm\<rparr>))))))))"

text \<open>\<open>self.disks_info[tag][1]\<close>\<close>

definition mount_point :: "string \<Rightarrow> ('w btest, string) py" where
  "mount_point tag = bnd (gets disks_info) (\<lambda>d. bnd (lift_res (dindex d tag)) (\<lambda>info. lift_res (nth_res info 1)))"

definition tempfile :: "'w bt_env \<Rightarrow> string \<Rightarrow> string \<Rightarrow> string \<Rightarrow> ('w btest, unit) py" where
  "tempfile env root_dir filename sz =
     bnd the_main (\<lambda>v.
     bnd (ask (vm_params_of env v)) (\<lambda>vp.
       on_host (generate_tempfile (monitor_of env v) (host_of env v) (to_megabytes env) vp root_dir filename sz)))"

definition record_file :: "string \<Rightarrow> string \<Rightarrow> (string \<times> string list) list \<Rightarrow> (string \<times> string list) list" where
  "record_file tag filename files = (case dget files tag of None \<Rightarrow> dset tag [filename] files | Some fs \<Rightarrow> dset tag (fs @ [filename]) files)"

definition generate_data_file :: "'w bt_env \<Rightarrow> string \<Rightarrow> string option \<Rightarrow> ('w btest, unit) py" where
  "generate_data_file env tag filename =
     bnd (if filename = None \<or> filename = Some [] then ask (random_name env) else ret (the filename)) (\<lambda>name.
     bnd (gets bparams) (\<lambda>ps.
     let params = obj_params env ps tag; image_size = str_of (dget_default params ''tempfile_size'' (PStr ''10M'')) in
     bnd (lift_res (get_numeric env params ''create_tempfile_timeout'' 720)) (\<lambda>_.
     bnd (mount_point tag) (\<lambda>root.
     bnd (tempfile env root name image_size) (\<lambda>_.
       modify (\<lambda>t. t\<lparr>files_info := record_file tag name (files_info t)\<rparr>))))))"

definition format_data_disk :: "'w bt_env \<Rightarrow> string \<Rightarrow> ('w btest, unit) py" where
  "format_data_disk env tag =
     bnd the_main (\<lambda>v.
       with_session env v
         (bnd (gets bparams) (\<lambda>params.
          bnd (ask (guest_disks env v params)) (\<lambda>d.
          bnd (lift_res (get_disk_info_by_param d tag)) (\<lambda>found.
            case found of
              None \<Rightarrow> throw (TestFail ''disk not found in guest ...'')
            | Some info \<Rightarrow>
                bnd (lift_res (dindex info ''kname'')) (\<lambda>k.
                bnd (lift_res (dindex info ''size'')) (\<lambda>z.
                bnd (call ''format'' [v, str_of k] (format_disk env v (str_of k) (str_of z))) (\<lambda>ms.
                bnd (lift_res (nth_res ms 0)) (\<lambda>m.
                  modify (\<lambda>t. t\<lparr>disks_info := dset tag [''/dev/'' @ str_of k @ ''1'', m] (disks_info t)\<rparr>))))))))))"

definition prepare_data_disk :: "'w bt_env \<Rightarrow> string \<Rightarrow> ('w btest, unit) py" where
  "prepare_data_disk env tag =
     bnd (if tag \<noteq> ''image1'' then format_data_disk env tag else ret ()) (\<lambda>_. generate_data_file env tag None)"

definition prepare_data_disks :: "'w bt_class \<Rightarrow> ('w btest, unit) py" where
  "prepare_data_disks cls =
     bnd (gets bparams) (\<lambda>params. for_each (objects params ''source_images'') (cls_prepare_data_disk cls))"

definition plug_target :: "'w bt_env \<Rightarrow> nat \<Rightarrow> ('w btest, unit) py" where
  "plug_target env i =
     bnd the_main (\<lambda>v. bnd (on_storage (volume_hotplug (storage_on env v) i)) (\<lambda>_. add_trash (Volume i)))"

definition add_target_data_disks :: "'w bt_env \<Rightarrow> ('w btest, unit) py" where
  "add_target_data_disks env =
     bnd (gets bparams) (\<lambda>params.
       for_each (objects params ''source_images'') (\<lambda>tag.
         bnd (gets bparams) (\<lambda>ps.
           for_each (objects (obj_params env ps tag) ''image_backup_chain'') (\<lambda>img.
             bnd (target_disk_define_by_self env img) (plug_target env)))))"

definition prepare_test :: "'w bt_env \<Rightarrow> 'w bt_class \<Rightarrow> ('w btest, unit) py" where
  "prepare_test env cls =
     bnd (prepare_main_vm env) (\<lambda>_. bnd (prepare_data_disks cls) (\<lambda>_. cls_add_target_data_disks cls))"

text \<open>
  \<open>refresh_mounts\<close> changes the table of the disks while it runs; then each disk is mounted and its files are verified.
\<close>

definition refresh :: "'w bt_env \<Rightarrow> string \<Rightarrow> ('w btest, unit) py" where
  "refresh env v t =
     (case refresh_mounts (fail_exc (monitor_of env v)) (guest_disks env v (bparams t) (world (st_vm (bst t)))) (disks_info t) of
        (r, d) \<Rightarrow> (r, t\<lparr>disks_info := d\<rparr>))"

definition verify_file :: "'w bt_env \<Rightarrow> string \<Rightarrow> string \<Rightarrow> string \<Rightarrow> ('w btest, unit) py" where
  "verify_file env v root_dir filename =
     bnd (ask (vm_params_of env v)) (\<lambda>vp. on_host (verify_file_md5 (monitor_of env v) (host_of env v) vp root_dir filename))"

definition mount :: "'w bt_env \<Rightarrow> string \<Rightarrow> string \<Rightarrow> string \<Rightarrow> ('w btest, unit) py" where
  "mount env v dev dir = call ''mount'' [v, dev, dir] (mount_disk env v dev dir)"

definition verify_disk :: "'w bt_env \<Rightarrow> string \<Rightarrow> string \<times> string list \<Rightarrow> ('w btest, unit) py" where
  "verify_disk env v d =
     (case d of (tag, info) \<Rightarrow>
        bnd (if tag \<noteq> ''image1'' then
               bnd (lift_res (nth_res info 0)) (\<lambda>dev. bnd (lift_res (nth_res info 1)) (\<lambda>dir. mount env v dev dir))
             else ret ()) (\<lambda>_.
        bnd (gets files_info) (\<lambda>files.
        bnd (lift_res (dindex files tag)) (\<lambda>fs.
          for_each fs (\<lambda>f. bnd (lift_res (nth_res info 1)) (\<lambda>dir. verify_file env v dir f))))))"

definition verify_data_files :: "'w bt_env \<Rightarrow> ('w btest, unit) py" where
  "verify_data_files env =
     bnd the_clone (\<lambda>v.
       with_session env v (bnd (refresh env v) (\<lambda>_. bnd (gets disks_info) (\<lambda>ds. for_each ds (verify_disk env v)))))"

text \<open>\<open>set(self.trash)\<close>: images are told apart by identity, volumes by hash and equality.\<close>

fun trash_set :: "'w bt_env \<Rightarrow> (int \<times> nat) list \<Rightarrow> image_obj list \<Rightarrow> ('w btest, image_obj list) py" where
  "trash_set env vs [] = ret []"
| "trash_set env vs (QemuImg tag # xs) = bnd (trash_set env vs xs) (\<lambda>ys. ret (QemuImg tag # ys))"
| "trash_set env vs (Volume i # xs) =
     bnd (on_storage (vol_hash (base_env env) i)) (\<lambda>h.
     bnd (on_storage (find_entry (base_env env) h i vs 0)) (\<lambda>found.
       if found = None then bnd (trash_set env (vs @ [(h, i)]) xs) (\<lambda>ys. ret (Volume i # ys)) else trash_set env vs xs))"

text \<open>
  A volume has no method \<open>remove\<close>; the handler of that error removes it, and what the handler raises is not caught by the other handler.
\<close>

definition clean_image :: "'w bt_env \<Rightarrow> image_obj \<Rightarrow> ('w btest, unit) py" where
  "clean_image env img =
     (case img of
        QemuImg tag \<Rightarrow>
          try_except (call ''remove_image'' [tag] (img_remove env tag))
            (\<lambda>e. case e of AttributeError _ \<Rightarrow> Some (throw (AttributeError ''pool'')) | KeyboardInterrupt \<Rightarrow> None | SystemExit _ \<Rightarrow> None
                        | _ \<Rightarrow> Some (ret ()))
      | Volume i \<Rightarrow> on_storage (remove_volume (base_env env) i))"

definition clean_images :: "'w bt_env \<Rightarrow> ('w btest, unit) py" where
  "clean_images env =
     bnd (gets trash) (\<lambda>xs. bnd (trash_set env [] xs) (\<lambda>ys. for_each (walk_set env ys) (clean_image env)))"

definition post_test :: "'w bt_env \<Rightarrow> ('w btest, unit) py" where
  "post_test env = try_finally (bnd (destroy_vms env) (\<lambda>_. clean_images env)) (drop_caches env)"

text \<open>The checks of block jobs on the machine of the test.\<close>

definition test_jobs_started :: "'w bt_env \<Rightarrow> string list \<Rightarrow> int \<Rightarrow> ('w btest, unit) py" where
  "test_jobs_started env jobid_list tmo = bnd the_main (\<lambda>v. on_host (check_block_jobs_started (monitor_of env v) jobid_list tmo))"

definition test_jobs_running :: "'w bt_env \<Rightarrow> string list \<Rightarrow> int \<Rightarrow> ('w btest, unit) py" where
  "test_jobs_running env jobid_list tmo = bnd the_main (\<lambda>v. on_host (check_block_jobs_running (monitor_of env v) jobid_list tmo))"

definition test_jobs_paused :: "'w bt_env \<Rightarrow> string list \<Rightarrow> int \<Rightarrow> ('w btest, unit) py" where
  "test_jobs_paused env jobid_list tmo = bnd the_main (\<lambda>v. on_host (check_block_jobs_paused (monitor_of env v) jobid_list tmo))"

definition run_test :: "'w bt_env \<Rightarrow> 'w bt_class \<Rightarrow> ('w btest, unit) py" where
  "run_test env cls = run_template (prepare_test env cls) (cls_do_test cls) (cls_post_test cls)"

definition base_class :: "'w bt_env \<Rightarrow> 'w bt_class" where
  "base_class env = \<lparr>cls_prepare_data_disk = prepare_data_disk env, cls_add_target_data_disks = add_target_data_disks env,
     cls_do_test = throw NotImplementedError, cls_post_test = post_test env\<rparr>"

section \<open>What a verification has seen\<close>

text \<open>
  A file of a disk of the guest has been verified: some run of the digest command on it and of the command that prints the recorded
  digest gave the same.
\<close>

definition file_verified :: "'w bt_env \<Rightarrow> string \<Rightarrow> string \<Rightarrow> string \<Rightarrow> bool" where
  "file_verified env v dir f \<longleftrightarrow>
     (\<exists>windows w. digests_agree (host_of env v) (fst (md5_commands windows dir f)) (snd (md5_commands windows dir f)) w)"

lemma verify_file_returned: "verify_file env v dir f t = (Inr (), t') \<Longrightarrow> file_verified env v dir f"
  using md5_verified by (fastforce simp: verify_file_def ask_run file_verified_def elim!: bnd_InrE dest!: on_host_Inr)

section \<open>Cleaning up\<close>

text \<open>Destroying one machine ends it and leaves the others as they are.\<close>

definition destroys :: "'w bt_env \<Rightarrow> bool" where
  "destroys env \<longleftrightarrow> (\<forall>v w. \<exists>w'. vm_destroy env v w = (Inr (), w') \<and>
     (\<forall>u. is_alive env u w' = (u \<noteq> v \<and> is_alive env u w)) \<and> all_vms env w' = all_vms env w)"

definition vm_world :: "'w btest \<Rightarrow> 'w" where
  "vm_world t = world (st_vm (bst t))"

lemma destroy_each:
  assumes "destroys env" and "distinct vs"
  shows "\<exists>t'. for_each vs (destroy_if_alive env) t = (Inr (), t')
    \<and> blog t' = blog t @ map (\<lambda>v. called ''destroy'' [v]) (filter (\<lambda>v. is_alive env v (vm_world t)) vs)
    \<and> (\<forall>u. is_alive env u (vm_world t') = (u \<notin> set vs \<and> is_alive env u (vm_world t))) \<and> trash t' = trash t"
  using assms(2)
proof (induction vs arbitrary: t)
  case (Cons v vs)
  show ?case
  proof (cases "is_alive env v (vm_world t)")
    case True
    obtain w' where w': "vm_destroy env v (vm_world t) = (Inr (), w')" "\<forall>u. is_alive env u w' = (u \<noteq> v \<and> is_alive env u (vm_world t))"
      using assms(1) unfolding destroys_def by blast
    let ?t1 = "t\<lparr>bst := (bst t)\<lparr>st_vm := \<lparr>world = w', sent = blog t @ [called ''destroy'' [v]]\<rparr>\<rparr>\<rparr>"
    have d: "destroy_if_alive env v t = (Inr (), ?t1)"
      using True w'(1) by (simp add: destroy_if_alive_def destroy_vm_def ask_run bnd_def call_run vm_world_def)
    have "filter (\<lambda>u. is_alive env u (vm_world ?t1)) vs = filter (\<lambda>u. is_alive env u (vm_world t)) vs"
      using Cons.prems w'(2) by (intro filter_cong) (auto simp: vm_world_def)
    with Cons.IH[of ?t1] Cons.prems d w' True show ?thesis
      by (fastforce simp: bnd_def blog_def vm_world_def)
  next
    case False
    then have "destroy_if_alive env v t = (Inr (), t)" by (simp add: destroy_if_alive_def ask_run bnd_def vm_world_def ret_def)
    then show ?thesis using Cons.IH[of t] Cons.prems False by (auto simp: bnd_def)
  qed
qed (simp add: ret_def)

text \<open>The removal of an image raises only errors of the program, and the commands of the host are logged.\<close>

definition caught :: "exc \<Rightarrow> bool" where
  "caught e = (case e of AttributeError _ \<Rightarrow> False | KeyboardInterrupt \<Rightarrow> False | SystemExit _ \<Rightarrow> False | _ \<Rightarrow> True)"

definition plain_removal :: "'w bt_env \<Rightarrow> bool" where
  "plain_removal env \<longleftrightarrow> (\<forall>tag w. case fst (img_remove env tag w) of Inl e \<Rightarrow> caught e | Inr _ \<Rightarrow> True)"

definition system_logs :: "'w storage_env \<Rightarrow> bool" where
  "system_logs env \<longleftrightarrow> (\<forall>c s. \<exists>cs. sent (snd (run_system env c s)) = sent s @ cs)"

lemma clean_qemu_img:
  assumes "plain_removal env"
  shows "\<exists>t'. clean_image env (QemuImg tag) t = (Inr (), t') \<and> blog t' = blog t @ [called ''remove_image'' [tag]]"
proof -
  have c: "case fst (img_remove env tag (world (st_vm (bst t)))) of Inl e \<Rightarrow> caught e | Inr _ \<Rightarrow> True"
    using assms unfolding plain_removal_def by blast
  show ?thesis using c
    by (cases "img_remove env tag (world (st_vm (bst t)))")
      (auto simp: clean_image_def try_except_def call_run caught_def ret_def blog_def split: sum.splits exc.splits)
qed

abbreviation log_grows :: "'w storage \<Rightarrow> 'w storage \<Rightarrow> bool" where
  "log_grows s t \<equiv> prefix (sent (st_vm s)) (sent (st_vm t))"

interpretation growing: state_relation log_grows
  by unfold_locales auto

lemma caches_log: "moves caches_only m \<Longrightarrow> moves log_grows m"
  by (simp add: moves_def)

lemma find_entry_caches: "moves caches_only (find_entry env h i es n)"
  by (induction es arbitrary: n) (auto intro!: caches.composed vol_info_caches)

lemma set_pool_log: "moves log_grows (set_pool p f)"
  unfolding set_pool_def by (rule moves_modify) simp

lemma remove_volume_log:
  fixes env :: "'w storage_env"
  assumes "system_logs env"
  shows "moves log_grows (remove_volume env i)"
proof -
  have "moves log_grows (on_vm (run_system env c))" for c
  proof (rule movesI)
    fix s :: "'w storage"
    obtain cs where "sent (snd (run_system env c (st_vm s))) = sent (st_vm s) @ cs"
      using assms unfolding system_logs_def by blast
    then show "log_grows s (snd (on_vm (run_system env c) s))" by (auto simp: on_vm_def split: prod.split)
  qed
  moreover have "moves log_grows (set_discard env p i)" for p
    unfolding set_discard_def vol_hash_def
    by (intro growing.composed set_pool_log caches_log[OF vol_info_caches] caches_log[OF vol_caches(2)] caches_log[OF find_entry_caches])
  ultimately show ?thesis unfolding remove_volume_def
    by (intro growing.composed caches_log[OF vol_caches(1)] caches_log[OF vol_caches(2)] caches_log[OF vol_path_caches])
qed

lemma clean_image_log:
  assumes "plain_removal env" and "system_logs (base_env env)"
  shows "prefix (blog t) (blog (snd (clean_image env img t)))"
proof (cases img)
  case (QemuImg tag)
  then show ?thesis using clean_qemu_img[OF assms(1), of tag t] by auto
next
  case (Volume i)
  obtain r s where r: "remove_volume (base_env env) i (bst t) = (r, s)" by fastforce
  then show ?thesis using movesD[OF remove_volume_log[OF assms(2)] r] Volume by (simp add: clean_image_def on_storage_def blog_def)
qed

text \<open>Cleaning goes through the images until the removal of a volume raises.\<close>

lemma clean_each:
  assumes "plain_removal env" and "system_logs (base_env env)"
  shows "\<exists>xs1 xs2 mid. xs = xs1 @ xs2 \<and> blog (snd (for_each xs (clean_image env) t)) = blog t @ mid
    \<and> (\<forall>tag. QemuImg tag \<in> set xs1 \<longrightarrow> called ''remove_image'' [tag] \<in> set mid)
    \<and> (case fst (for_each xs (clean_image env) t) of
         Inr _ \<Rightarrow> xs2 = []
       | Inl e \<Rightarrow> \<exists>i s. fst (remove_volume (base_env env) i s) = Inl e)"
proof (induction xs arbitrary: t)
  case Nil
  show ?case by (simp add: ret_def)
next
  case (Cons x xs)
  obtain r t1 where x: "clean_image env x t = (r, t1)" by fastforce
  obtain m1 where m1: "blog t1 = blog t @ m1" using clean_image_log[OF assms, of t x] x by (auto simp: prefix_def)
  show ?case
  proof (cases r)
    case (Inl e)
    have "x \<noteq> QemuImg tag" for tag using clean_qemu_img[OF assms(1), of tag t] x Inl by auto
    then obtain i where i: "x = Volume i" by (cases x) auto
    then have "fst (remove_volume (base_env env) i (bst t)) = Inl e"
      using x Inl by (auto simp: clean_image_def on_storage_def split: prod.splits)
    then have "\<exists>i s. fst (remove_volume (base_env env) i s) = Inl e" by blast
    then show ?thesis using x Inl m1 by (intro exI[of _ "[]"] exI[of _ "x # xs"] exI[of _ m1]) (simp add: bnd_def)
  next
    case (Inr u)
    then have eq: "for_each (x # xs) (clean_image env) t = for_each xs (clean_image env) t1" using x by (simp add: bnd_def)
    obtain xs1 xs2 mid where IH: "xs = xs1 @ xs2" "blog (snd (for_each xs (clean_image env) t1)) = blog t1 @ mid"
      "\<forall>tag. QemuImg tag \<in> set xs1 \<longrightarrow> called ''remove_image'' [tag] \<in> set mid"
      "case fst (for_each xs (clean_image env) t1) of Inr _ \<Rightarrow> xs2 = [] | Inl e \<Rightarrow> \<exists>i s. fst (remove_volume (base_env env) i s) = Inl e"
      using Cons.IH[of t1] by blast
    have "called ''remove_image'' [tag] \<in> set m1" if "x = QemuImg tag" for tag
      using clean_qemu_img[OF assms(1), of tag t] x m1 that by auto
    then show ?thesis unfolding eq using IH m1 by (intro exI[of _ "x # xs1"] exI[of _ xs2] exI[of _ "m1 @ mid"]) auto
  qed
qed

abbreviation same_log :: "'w btest \<Rightarrow> 'w btest \<Rightarrow> bool" where
  "same_log s t \<equiv> blog t = blog s"

interpretation quiet: state_relation same_log
  by unfold_locales auto

lemma on_storage_quiet: "moves caches_only f \<Longrightarrow> moves same_log (on_storage f)"
  by (auto simp: moves_def on_storage_def blog_def split: prod.split) (metis snd_conv)

lemma trash_set_quiet: "moves same_log (trash_set env vs xs)"
  unfolding atomize_all
proof (induction env vs xs rule: trash_set.induct)
  case (3 env vs i xs)
  have "moves caches_only (vol_hash (base_env env) i)"
    unfolding vol_hash_def by (intro caches.composed vol_info_caches)
  then show ?case using 3 by (auto intro!: quiet.composed on_storage_quiet find_entry_caches)
qed (auto intro!: quiet.composed)

lemma trash_set_images: "trash_set env vs xs t = (Inr ys, t') \<Longrightarrow> QemuImg tag \<in> set xs \<Longrightarrow> QemuImg tag \<in> set ys"
  by (induction env vs xs arbitrary: t ys rule: trash_set.induct) (auto simp: ret_def elim!: bnd_InrE split: if_splits)

text \<open>An error that the volumes in the trash raise while they are told apart or removed.\<close>

definition volume_error :: "'w bt_env \<Rightarrow> exc \<Rightarrow> bool" where
  "volume_error env e \<longleftrightarrow> (\<exists>i s. fst (remove_volume (base_env env) i s) = Inl e) \<or> (\<exists>xs t. fst (trash_set env [] xs t) = Inl e)"

lemma clean_images_run:
  assumes "plain_removal env" and "system_logs (base_env env)" and "\<And>ys. set (walk_set env ys) = set ys"
  shows "\<exists>mid. blog (snd (clean_images env t)) = blog t @ mid
    \<and> (case fst (clean_images env t) of
         Inl e \<Rightarrow> volume_error env e
       | Inr _ \<Rightarrow> \<forall>tag. QemuImg tag \<in> set (trash t) \<longrightarrow> called ''remove_image'' [tag] \<in> set mid)"
proof -
  obtain r t1 where r: "trash_set env [] (trash t) t = (r, t1)" by fastforce
  have log: "blog t1 = blog t" by (rule movesD[OF trash_set_quiet r])
  show ?thesis
  proof (cases r)
    case (Inl e)
    then have "volume_error env e" unfolding volume_error_def using r by (metis fst_conv)
    then show ?thesis using r Inl log by (simp add: clean_images_def gets_def bnd_def)
  next
    case (Inr ys)
    then have eq: "clean_images env t = for_each (walk_set env ys) (clean_image env) t1" using r by (simp add: clean_images_def gets_def bnd_def)
    obtain xs1 xs2 mid where c: "walk_set env ys = xs1 @ xs2" "blog (snd (clean_images env t)) = blog t1 @ mid"
      "\<forall>tag. QemuImg tag \<in> set xs1 \<longrightarrow> called ''remove_image'' [tag] \<in> set mid"
      "case fst (clean_images env t) of Inr _ \<Rightarrow> xs2 = [] | Inl e \<Rightarrow> \<exists>i s. fst (remove_volume (base_env env) i s) = Inl e"
      using clean_each[OF assms(1,2), of "walk_set env ys" t1] unfolding eq by blast
    have "QemuImg tag \<in> set (walk_set env ys)" if "QemuImg tag \<in> set (trash t)" for tag
      using trash_set_images[OF r[unfolded Inr] that] assms(3) by simp
    then show ?thesis using c log by (auto simp: volume_error_def split: sum.splits)
  qed
qed


text \<open>The environment of the examples satisfies what the clean-up relies on.\<close>

lemma farm_cleans: "destroys farm_env" "plain_removal farm_env" "system_logs (base_env farm_env)" "set (walk_set farm_env ys) = set ys"
    "fst (free_caches farm_env w) = Inr ()"
  by (auto simp: farm_env_def farm_storage_def destroys_def plain_removal_def system_logs_def)

definition failing_class :: "farm bt_class" where
  "failing_class = (base_class farm_env)\<lparr>cls_prepare_data_disk := preprocess_data_disk farm_env, cls_add_target_data_disks := ret (),
     cls_do_test := throw (TestFail ''x'')\<rparr>"


end
