(* ===== verification/Blockdev_Live.thy ===== *)
theory Blockdev_Live
  imports Blockdev_Base Json
begin

text \<open>
  The two families of tests that extend the base class: live backups (\<^verbatim>\<open>provider/blockdev_live_backup_base.py\<close>) and mirrors
  (\<^verbatim>\<open>provider/blockdev_mirror_base.py\<close>, \<^verbatim>\<open>blockdev_mirror_wait.py\<close>, \<^verbatim>\<open>blockdev_mirror_nowait.py\<close>,
  \<^verbatim>\<open>blockdev_mirror_parallel.py\<close>).  The attributes that the constructors compute are records.
\<close>

section \<open>What both families share\<close>

definition list_end :: "'a list \<Rightarrow> 'a res" where
  "list_end xs = (if xs = [] then Inl IndexError else Inr (last xs))"

text \<open>The first of the images of the machine is the system disk.\<close>

definition is_system_disk :: "pydict \<Rightarrow> string \<Rightarrow> bool res" where
  "is_system_disk params tag =
     rbind (dindex params ''images'') (\<lambda>v. rbind (nth_res (split_ws (str_of v)) 0) (\<lambda>i. Inr (tag = i)))"

definition configure_system_disk :: "string \<Rightarrow> ('w btest, unit) py" where
  "configure_system_disk tag =
     modify (\<lambda>t. t\<lparr>disks_info := dset tag [''system'', str_of (dget_default (bparams t) ''mnt_on_sys_dsk'' (PStr ''/var/tmp''))] (disks_info t)\<rparr>)"

definition prepare_any_disk :: "'w bt_env \<Rightarrow> string option \<Rightarrow> string \<Rightarrow> ('w btest, unit) py" where
  "prepare_any_disk env filename tag =
     bnd (gets bparams) (\<lambda>params.
     bnd (lift_res (is_system_disk params tag)) (\<lambda>system.
     bnd (if system then configure_system_disk tag else format_data_disk env tag) (\<lambda>_. generate_data_file env tag filename)))"

text \<open>
  The files made on the system disk, which has to be cleaned for the next test, and the command that removes them.  The entries of the table
  of disks are made with two elements, the device and the mount point.
\<close>

definition system_files :: "(string \<times> string list) list \<Rightarrow> (string \<times> string list) list \<Rightarrow> string list option res" where
  "system_files disks files =
     (case filter (\<lambda>(t, d). d ! 0 = ''system'') disks of
        [] \<Rightarrow> Inr None
      | (tag, d) # _ \<Rightarrow> rbind (dindex files tag) (\<lambda>fs. Inr (Some (map (\<lambda>f. d ! 1 @ ''/'' @ f) fs))))"

definition rm_files :: "string list \<Rightarrow> string" where
  "rm_files files = ''rm -f '' @ join '' '' files"

definition session_rm :: "'w bt_env \<Rightarrow> string \<Rightarrow> string list \<Rightarrow> ('w btest, unit) py" where
  "session_rm env v files = with_session env v (on_host (session_cmd (host_of env v) (rm_files files)))"

definition boot :: "'w bt_env \<Rightarrow> string \<Rightarrow> ('w btest, unit) py" where
  "boot env v = bnd (create_vm env v) (\<lambda>_. verify_alive env v)"

text \<open>The clone is set before it is started, and registered when it is alive.\<close>

definition start_clone :: "'w bt_env \<Rightarrow> string \<Rightarrow> pydict \<Rightarrow> ('w btest, unit) py" where
  "start_clone env v clone_params =
     bnd (call ''clone'' [v, str_of (dget_default clone_params ''images'' PNone)] (vm_clone env v clone_params)) (\<lambda>c.
     bnd (modify (\<lambda>t. t\<lparr>bclone := Some c\<rparr>)) (\<lambda>_.
     bnd (boot env c) (\<lambda>_. call ''register'' [c @ ''_clone'', c] (register_vm env (c @ ''_clone'') c))))"

section \<open>Live backups\<close>

record live_args =
  la_sources :: "string list"
  la_options :: pydict
  la_full_images :: "string list"
  la_targets :: "string list"

definition convert_arg :: "pyval \<Rightarrow> pyval" where
  "convert_arg v =
     (if v \<in> set (map PStr [''yes'', ''true'', ''True'', ''on'']) then PBool True
      else if v \<in> set (map PStr [''no'', ''false'', ''False'', ''off'']) then PBool False
      else v)"

definition get_full_backup_options :: "pydict \<Rightarrow> pydict res" where
  "get_full_backup_options params =
     rbind (dindex params ''full_backup_options'') (\<lambda>v.
       case loads (str_of v) of
         None \<Rightarrow> Inl (ValueError ''json'')
       | Some (PDict options) \<Rightarrow> Inr (map (\<lambda>(k, x). (k, convert_arg x)) options)
       | Some _ \<Rightarrow> Inl (AttributeError ''items''))"

definition live_init :: "'w bt_env \<Rightarrow> pydict \<Rightarrow> live_args res" where
  "live_init env params =
     (let sources = objects params ''source_images''; chain = (\<lambda>tag. objects (obj_params env params tag) ''image_backup_chain'') in
      rbind (get_full_backup_options params) (\<lambda>options.
      rbind (rmap (\<lambda>tag. nth_res (chain tag) 0) sources) (\<lambda>full.
      rbind (rmap (\<lambda>tag. list_end (chain tag)) sources) (\<lambda>targets.
        Inr \<lparr>la_sources = sources, la_options = options, la_full_images = full, la_targets = targets\<rparr>))))"

definition live_prepare_data_disk :: "'w bt_env \<Rightarrow> string \<Rightarrow> ('w btest, unit) py" where
  "live_prepare_data_disk env = prepare_any_disk env (Some ''base'')"

definition generate_inc_files :: "'w bt_env \<Rightarrow> live_args \<Rightarrow> string \<Rightarrow> ('w btest, unit) py" where
  "generate_inc_files env la filename = for_each (la_sources la) (\<lambda>tag. generate_data_file env tag (Some filename))"

text \<open>\<open>images.replace(s, t)\<close> for each pair in turn.\<close>

definition replace_images :: "(string \<times> string) list \<Rightarrow> string \<Rightarrow> string" where
  "replace_images pairs images = fold (\<lambda>(s, t). replace_str s t) pairs images"

definition clone_params :: "(string \<times> string) list \<Rightarrow> pydict \<Rightarrow> pydict res" where
  "clone_params pairs params =
     (let p = (if truthy (dget_default params ''enable_data_file'' PNone) then dpop ''enable_data_file'' params else params) in
      if pairs = [] then Inr p
      else rbind (dindex p ''images'') (\<lambda>images. Inr (dset ''images'' (PStr (replace_images pairs (str_of images))) p)))"

definition live_prepare_clone_vm :: "'w bt_env \<Rightarrow> live_args \<Rightarrow> ('w btest, unit) py" where
  "live_prepare_clone_vm env la =
     bnd the_main (\<lambda>v.
     bnd (destroy_if_alive env v) (\<lambda>_.
     bnd (ask (vm_params_of env v)) (\<lambda>params.
     bnd (lift_res (clone_params (zip (la_sources la) (la_targets la)) params)) (start_clone env v))))"

definition do_full_backup :: "'w bt_env \<Rightarrow> live_args \<Rightarrow> ('w btest, unit) py" where
  "do_full_backup env la =
     bnd the_main (\<lambda>v.
       on_host (blockdev_batch_backup (monitor_of env v) (random_ids env) (map drive (la_sources la)) (map drive (la_full_images la))
         (map (\<lambda>tag. ''bitmap_'' @ tag) (la_sources la)) (la_options la)))"

definition live_remove_files :: "'w bt_env \<Rightarrow> ('w btest, unit) py" where
  "live_remove_files env =
     bnd (gets (\<lambda>t. system_files (disks_info t) (files_info t))) (\<lambda>r.
     bnd (lift_res r) (\<lambda>found.
       case found of
         None \<Rightarrow> ret ()
       | Some files \<Rightarrow>
           bnd (gets bclone) (\<lambda>c.
           bnd (case c of None \<Rightarrow> ret () | Some c \<Rightarrow> destroy_if_alive env c) (\<lambda>_.
           bnd the_main (\<lambda>v.
           bnd (ask (is_alive env v)) (\<lambda>a.
           bnd (if a then ret () else boot env v) (\<lambda>_. session_rm env v files)))))))"

definition live_post_test :: "'w bt_env \<Rightarrow> ('w btest, unit) py" where
  "live_post_test env = bnd (live_remove_files env) (\<lambda>_. post_test env)"

definition live_class :: "'w bt_env \<Rightarrow> ('w btest, unit) py \<Rightarrow> 'w bt_class" where
  "live_class env do_test = \<lparr>cls_prepare_data_disk = live_prepare_data_disk env, cls_add_target_data_disks = add_target_data_disks env,
     cls_do_test = do_test, cls_post_test = live_post_test env\<rparr>"

section \<open>Mirrors\<close>

record mirror_args =
  ma_sources :: "string list"
  ma_targets :: "string list"
  ma_options :: "pydict list"

definition mirror_option :: "pyval \<Rightarrow> pyval" where
  "mirror_option v =
     (if v \<in> set (map PStr [''yes'', ''true'', ''on'']) then PBool True
      else if v \<in> set (map PStr [''no'', ''false'', ''off'']) then PBool False
      else v)"

definition get_mirror_options :: "'w bt_env \<Rightarrow> pydict \<Rightarrow> string \<Rightarrow> pydict" where
  "get_mirror_options env params source_image =
     (let p = obj_params env params source_image in
      map (\<lambda>(k, v). (k, mirror_option v)) (copy_from_keys env p (objects p ''backup_options'')))"

definition mirror_init :: "'w bt_env \<Rightarrow> pydict \<Rightarrow> mirror_args" where
  "mirror_init env params =
     (let sources = objects params ''source_images'' in
      \<lparr>ma_sources = sources, ma_targets = objects params ''target_images'', ma_options = map (get_mirror_options env params) sources\<rparr>)"

definition mirror_remove_files :: "'w bt_env \<Rightarrow> ('w btest, unit) py" where
  "mirror_remove_files env =
     bnd (gets (\<lambda>t. system_files (disks_info t) (files_info t))) (\<lambda>r.
     bnd (lift_res r) (\<lambda>found.
       case found of
         None \<Rightarrow> ret ()
       | Some files \<Rightarrow> bnd (prepare_main_vm env) (\<lambda>_. bnd the_main (\<lambda>v. session_rm env v files))))"

definition mirrored_images :: "mirror_args \<Rightarrow> pydict \<Rightarrow> pydict res" where
  "mirrored_images ma params =
     rbind (nth_res (objects params ''images'') 0) (\<lambda>system_image.
     rbind (nth_res (ma_sources ma) 0) (\<lambda>first_source.
       Inr (dset ''images'' (PStr (join '' '' (if first_source \<noteq> system_image then system_image # ma_targets ma else ma_targets ma))) params)))"

definition clone_vm_with_mirrored_images :: "'w bt_env \<Rightarrow> mirror_args \<Rightarrow> ('w btest, unit) py" where
  "clone_vm_with_mirrored_images env ma =
     bnd the_main (\<lambda>v.
     bnd (destroy_if_alive env v) (\<lambda>_.
     bnd (ask (vm_params_of env v)) (\<lambda>params.
     bnd (lift_res (mirrored_images ma params)) (start_clone env v))))"

definition mirror_add_target_data_disks :: "'w bt_env \<Rightarrow> mirror_args \<Rightarrow> ('w btest, unit) py" where
  "mirror_add_target_data_disks env ma =
     for_each (ma_targets ma) (\<lambda>tag.
       bnd (gets bparams) (\<lambda>ps.
       bnd (target_disk_define_by_params env (obj_params env ps tag) tag) (plug_target env)))"

text \<open>\<open>x in v\<close>.  The first device whose name contains that of the source has to have the target node inserted, or a later one.\<close>

definition py_in :: "string \<Rightarrow> pyval \<Rightarrow> bool res" where
  "py_in x v =
     (case v of PStr s \<Rightarrow> Inr (sublist x s) | PList l \<Rightarrow> Inr (PStr x \<in> set l) | PDict d \<Rightarrow> Inr (din x d) | _ \<Rightarrow> Inl (TypeError ''in''))"

fun attached :: "string \<Rightarrow> string \<Rightarrow> pyval list \<Rightarrow> bool res" where
  "attached source_qdev target_node [] = Inr False"
| "attached source_qdev target_node (item # items) =
     rbind (pindex item ''qdev'') (\<lambda>q.
     rbind (py_in source_qdev q) (\<lambda>named.
       if \<not> named then attached source_qdev target_node items
       else
         rbind (pindex item ''inserted'') (\<lambda>ins.
         rbind (py_get ins ''node-name'' PNone) (\<lambda>n.
           if n = PStr target_node then Inr True else attached source_qdev target_node items))))"

definition check_attached :: "'w bt_env \<Rightarrow> string \<Rightarrow> string \<Rightarrow> ('w btest, unit) py" where
  "check_attached env source_qdev target_node =
     bnd the_main (\<lambda>v.
     bnd (on_host (monitor_cmd (monitor_of env v) ''query-block'' [])) (\<lambda>out.
     bnd (lift_res (rbind (py_iter out) (attached source_qdev target_node))) (\<lambda>ok.
       if ok then ret ()
       else throw (TestFail (''Device('' @ source_qdev @ '') is not attached to target node('' @ target_node @ '')'')))))"

definition check_mirrored_block_nodes_attached :: "'w bt_env \<Rightarrow> mirror_args \<Rightarrow> ('w btest, unit) py" where
  "check_mirrored_block_nodes_attached env ma =
     for_each (enumerate 0 (ma_targets ma)) (\<lambda>(idx, target).
       bnd (lift_res (nth_res (ma_sources ma) idx)) (\<lambda>source. check_attached env source (drive target)))"

definition mirror_do_test :: "'w bt_env \<Rightarrow> mirror_args \<Rightarrow> ('w btest, unit) py \<Rightarrow> ('w btest, unit) py" where
  "mirror_do_test env ma mirror =
     bnd mirror (\<lambda>_.
     bnd (check_mirrored_block_nodes_attached env ma) (\<lambda>_.
     bnd (clone_vm_with_mirrored_images env ma) (\<lambda>_.
     bnd (verify_data_files env) (\<lambda>_. mirror_remove_files env))))"

definition mirror_class :: "'w bt_env \<Rightarrow> mirror_args \<Rightarrow> ('w btest, unit) py \<Rightarrow> 'w bt_class" where
  "mirror_class env ma mirror = \<lparr>cls_prepare_data_disk = prepare_any_disk env None,
     cls_add_target_data_disks = mirror_add_target_data_disks env ma,
     cls_do_test = mirror_do_test env ma mirror, cls_post_test = post_test env\<rparr>"

text \<open>One mirror job: source and target number \<open>idx\<close>, with the options of the source.\<close>

definition mirror_job :: "'w bt_env \<Rightarrow> mirror_args \<Rightarrow> nat \<times> string \<Rightarrow> (string \<Rightarrow> string \<Rightarrow> pydict \<Rightarrow> 'w vm_env \<Rightarrow> ('w vst, 'a) py) \<Rightarrow> ('w btest, 'a) py" where
  "mirror_job env ma s f =
     (case s of (idx, source) \<Rightarrow>
        bnd the_main (\<lambda>v.
        bnd (lift_res (nth_res (ma_targets ma) idx)) (\<lambda>target.
        bnd (lift_res (nth_res (ma_options ma) idx)) (\<lambda>options.
          on_host (f (drive source) (drive target) options (monitor_of env v))))))"

definition mirror_one :: "'w bt_env \<Rightarrow> mirror_args \<Rightarrow> nat \<times> string \<Rightarrow> ('w btest, unit) py" where
  "mirror_one env ma s = mirror_job env ma s (\<lambda>src tgt options vm. blockdev_mirror vm (random_ids env (fst s)) src tgt options)"

definition mirror_wait :: "'w bt_env \<Rightarrow> mirror_args \<Rightarrow> ('w btest, unit) py" where
  "mirror_wait env ma = try_finally (for_each (enumerate 0 (ma_sources ma)) (mirror_one env ma)) (drop_caches env)"

definition mirror_nowait :: "'w bt_env \<Rightarrow> mirror_args \<Rightarrow> ('w btest, string list) py" where
  "mirror_nowait env ma =
     map_each (enumerate 0 (ma_sources ma)) (\<lambda>s.
       mirror_job env ma s (\<lambda>src tgt options vm. blockdev_mirror_nowait vm (random_ids env (fst s)) src tgt options))"

definition wait_mirror_jobs_completed :: "'w bt_env \<Rightarrow> string list \<Rightarrow> ('w btest, unit) py" where
  "wait_mirror_jobs_completed env jobs =
     try_finally
       (run_parallel env (map (\<lambda>j. bnd the_main (\<lambda>v. on_host (wait_until_block_job_completed (monitor_of env v) j 900))) jobs))
       (drop_caches env)"

text \<open>The tests named by the parameters that the object has, then one target for each mirror.\<close>

definition parallel_tests :: "'w bt_env \<Rightarrow> pydict \<Rightarrow> ('w btest, unit) py list" where
  "parallel_tests env params = List.map_filter (extra_test env) (objects params ''parallel_tests'')"

definition mirror_parallel :: "'w bt_env \<Rightarrow> mirror_args \<Rightarrow> ('w btest, unit) py" where
  "mirror_parallel env ma =
     bnd (gets bparams) (\<lambda>params.
     bnd (lift_res (rmap (\<lambda>idx. rbind (nth_res (ma_targets ma) idx) (\<lambda>_. nth_res (ma_options ma) idx)) [0 ..< length (ma_sources ma)])) (\<lambda>_.
       try_finally (run_parallel env (parallel_tests env params @ map (mirror_one env ma) (enumerate 0 (ma_sources ma)))) (drop_caches env)))"

section \<open>What the jobs and the clones have shown\<close>

text \<open>An event has announced that the job completed without an error.\<close>

definition job_finished :: "'w vm_env \<Rightarrow> string \<Rightarrow> bool" where
  "job_finished vm job \<longleftrightarrow> (\<exists>w es w' e. qmp_events vm w = (Inr es, w') \<and> e \<in> set es \<and> completed job e)"

lemma run_and_wait_finished:
  assumes "wait_polls vm" and "bnd (monitor_cmd vm c a) (\<lambda>_. wait_until_block_job_completed vm i t) s = (Inr (), s')"
  shows "job_finished vm i"
  using jobs.start_and_wait[OF assms] unfolding job_finished_def by blast

lemma mirror_finished:
  assumes "wait_polls vm" and "blockdev_mirror vm rid src tgt opts s = (Inr (), s')"
  shows "job_finished vm (job_name src rid)"
  using assms(2) by (rule mirror_run) (rule run_and_wait_finished[OF assms(1)])

lemma batch_finished:
  assumes "wait_polls vm" and "blockdev_batch_backup vm rids srcs tgts bms os s = (Inr (), s')"
    and "truthy (dget_default os ''wait_job_complete'' (PBool True))" and "i < length srcs"
  shows "job_finished vm (job_name (srcs ! i) (rids i))"
proof -
  obtain t o1 o2 jobs acts s1 where b: "pop_timeout 600 os = Inr (t, o1)"
    "backup_actions rids (read_batch_options o1) (length srcs) srcs 0 tgts bms o2 = Inr (jobs, acts)"
    "(if wait_job_complete (read_batch_options o1)
        then for_each jobs (\<lambda>x. wait_until_block_job_completed vm x t) else ret ()) s1 = (Inr (), s')"
    using batch_backup_run[OF assms(2)] by blast
  have w: "for_each jobs (\<lambda>x. wait_until_block_job_completed vm x t) s1 = (Inr (), s')"
    using b(3) read_batch_options_timeout(2)[OF b(1)] assms(3) by simp
  have "jobs = map (\<lambda>(i, src). job_name src (rids i)) (enumerate 0 srcs)" using backup_actions_spec[OF b(2)] by blast
  then have "job_name (srcs ! i) (rids i) \<in> set jobs" using assms(4) by (force simp: in_set_enumerate_eq)
  from jobs.wait_all_sound[OF assms(1) w this] show ?thesis unfolding job_finished_def by blast
qed

text \<open>
  The clone is started on the images that the test chose, after the machine itself was destroyed.
\<close>

definition clone_log :: "'w bt_env \<Rightarrow> string \<Rightarrow> string \<Rightarrow> string \<Rightarrow> 'w btest \<Rightarrow> (string \<times> pydict) list" where
  "clone_log env v c images t =
     (if is_alive env v (vm_world t) then [called ''destroy'' [v]] else [])
       @ [called ''clone'' [v, images], called ''create'' [c], called ''verify_alive'' [c]]"

lemma destroy_if_alive_log:
  "destroy_if_alive env v t = (r, t') \<Longrightarrow> blog t' = blog t @ (if is_alive env v (vm_world t) then [called ''destroy'' [v]] else []) \<and> same_tables t t'"
  by (auto simp: destroy_if_alive_def destroy_vm_def bnd_def ask_run vm_world_def ret_def call_run blog_def split: if_splits)

lemma boot_log: "boot env c t = (Inr (), t') \<Longrightarrow> blog t' = blog t @ [called ''create'' [c], called ''verify_alive'' [c]] \<and> same_tables t t'"
  by (auto simp: boot_def create_vm_def verify_alive_def call_run blog_def elim!: bnd_InrE)

lemma tables_boot [intro!]: "moves same_tables (mount env v dev dir)" "moves same_tables (verify_file env v dir f)"
  unfolding mount_def verify_file_def by (intro tables.composed tables_parts)+

lemma tables_verify_disk: "moves same_tables (verify_disk env v d)"
  unfolding verify_disk_def by (cases d) (auto intro!: tables.composed)

text \<open>A verification that returned has seen the digest of every file of every disk agree with the recorded one.\<close>

lemma verify_disk_returned:
  assumes "verify_disk env v (tag, info) t = (Inr (), t')" and "dget (files_info t) tag = Some fs" and "f \<in> set fs"
  shows "1 < length info \<and> file_verified env v (info ! 1) f"
proof -
  let ?mount = "if tag \<noteq> ''image1'' then
       bnd (lift_res (nth_res info 0)) (\<lambda>dev. bnd (lift_res (nth_res info 1)) (\<lambda>dir. mount env v dev dir)) else ret ()"
  obtain t1 where m: "?mount t = (Inr (), t1)"
    and rest: "bnd (gets files_info) (\<lambda>files. bnd (lift_res (dindex files tag)) (\<lambda>fs.
       for_each fs (\<lambda>f. bnd (lift_res (nth_res info 1)) (\<lambda>dir. verify_file env v dir f)))) t1 = (Inr (), t')"
    using assms(1)[unfolded verify_disk_def prod.case] by (rule bnd_unitE)
  have "moves same_tables ?mount" by (intro tables.composed tables_boot)
  from movesD[OF this m] have "files_info t1 = files_info t" by simp
  then have "for_each fs (\<lambda>f. bnd (lift_res (nth_res info 1)) (\<lambda>dir. verify_file env v dir f)) t1 = (Inr (), t')"
    using rest assms(2) by (simp add: bnd_def gets_def lift_res_def dindex_def)
  from for_each_returned[OF this assms(3)] show ?thesis
    by (auto simp: lift_res_def throw_def nth_res_def elim!: bnd_InrE dest: verify_file_returned split: if_splits)
qed

lemma refresh_kept: "refresh env v t = (r, t') \<Longrightarrow> files_info t' = files_info t \<and> blog t' = blog t \<and> bclone t' = bclone t"
  by (auto simp: refresh_def blog_def split: prod.splits)

lemma verified_files:
  assumes "verify_data_files env t = (Inr (), t')" and "bclone t = Some c"
    and "(tag, info) \<in> set (disks_info t')" and "dget (files_info t) tag = Some fs" and "f \<in> set fs"
  shows "1 < length info \<and> file_verified env c (info ! 1) f"
proof -
  have "with_session env c (bnd (refresh env c) (\<lambda>_. bnd (gets disks_info) (\<lambda>ds. for_each ds (verify_disk env c)))) t = (Inr (), t')"
    using assms(1,2) unfolding verify_data_files_def by (simp add: bnd_def the_clone_def gets_def ret_def)
  then obtain t1 t2 where t1: "on_host (wait_for_login (host_of env c)) t = (Inr (), t1)"
    and body: "bnd (refresh env c) (\<lambda>_. bnd (gets disks_info) (\<lambda>ds. for_each ds (verify_disk env c))) t1 = (Inr (), t2)"
    and t': "disks_info t' = disks_info t2"
    by (rule session_InrE)
  obtain t3 where t3: "refresh env c t1 = (Inr (), t3)" and each: "for_each (disks_info t3) (verify_disk env c) t3 = (Inr (), t2)"
    using body by (auto simp: gets_def elim!: bnd_InrE)
  have "files_info t3 = files_info t"
    using refresh_kept[OF t3] movesD[OF tables_parts(2) t1] by simp
  moreover have "same_tables t3 t2" by (rule movesD[OF tables.each[OF tables_verify_disk] each])
  then have "disks_info t' = disks_info t3" using t' by simp
  ultimately obtain s1 s2 where "same_tables t3 s1" "verify_disk env c (tag, info) s1 = (Inr (), s2)"
    using tables.each_returned[OF tables_verify_disk each, of "(tag, info)"] assms(3) by auto
  then show ?thesis using verify_disk_returned[of env c tag info s1 s2 fs f] assms(4,5) \<open>files_info t3 = files_info t\<close> by simp
qed

section \<open>Mirrored disks\<close>

lemma mirror_one_finished:
  assumes "wait_polls (monitor_of env v)" "mirror_one env ma (i, src) t = (Inr (), t')" "bmain t = Some v"
  shows "i < length (ma_targets ma) \<and> job_finished (monitor_of env v) (job_name (drive src) (random_ids env i))"
  using assms
  by (auto simp: mirror_one_def mirror_job_def the_vm_Inr lift_res_def throw_def nth_res_def elim!: bnd_InrE split: if_splits
      dest!: on_host_Inr intro: mirror_finished)

lemma tables_mirror_one: "moves same_tables (mirror_one env ma s)"
  unfolding mirror_one_def mirror_job_def the_main_def by (intro tables.composed tables_parts)

lemma tables_mirror_wait: "moves same_tables (mirror_wait env ma)"
  unfolding mirror_wait_def drop_caches_def by (intro tables.ensured tables.each tables_mirror_one tables_parts)

lemma tables_attached: "moves same_tables (check_mirrored_block_nodes_attached env ma)"
  unfolding check_mirrored_block_nodes_attached_def check_attached_def the_main_def
  by (intro tables.composed tables_parts)

text \<open>The node of a device as the monitor reported it.\<close>

definition device_node :: "string \<Rightarrow> string \<Rightarrow> pyval \<Rightarrow> bool" where
  "device_node qdev node item \<longleftrightarrow> (\<exists>q ins d. pindex item ''qdev'' = Inr q \<and> pindex item ''inserted'' = Inr ins \<and> ins = PDict d
     \<and> dget d ''node-name'' = Some (PStr node)
     \<and> py_in qdev q = Inr True)"

lemma attached_found: "attached qdev node items = Inr True \<Longrightarrow> \<exists>item \<in> set items. device_node qdev node item"
proof (induction items)
  case (Cons item items)
  obtain q named where q: "pindex item ''qdev'' = Inr q" "py_in qdev q = Inr named"
    and rest: "(if \<not> named then attached qdev node items
       else rbind (pindex item ''inserted'') (\<lambda>ins. rbind (py_get ins ''node-name'' PNone) (\<lambda>n.
           if n = PStr node then Inr True else attached qdev node items))) = Inr True"
    using Cons.prems unfolding attached.simps by (elim rbind_InrE) blast
  show ?case
  proof (cases "attached qdev node items = Inr True")
    case True
    then show ?thesis using Cons.IH by auto
  next
    case False
    then obtain ins where ins: named "pindex item ''inserted'' = Inr ins" "py_get ins ''node-name'' PNone = Inr (PStr node)"
      using rest by (auto elim!: rbind_InrE split: if_splits simp del: pindex_Inr_iff)
    moreover obtain d where "ins = PDict d" "dget d ''node-name'' = Some (PStr node)"
      using ins(3) by (auto simp: py_get_def dget_default_def split: pyval.splits option.splits)
    ultimately have "device_node qdev node item" using q unfolding device_node_def by metis
    then show ?thesis by simp
  qed
qed simp

text \<open>The devices of the sources were seen on the nodes of the targets.\<close>

definition target_seen :: "'w vm_env \<Rightarrow> string \<Rightarrow> string \<Rightarrow> bool" where
  "target_seen vm qdev node \<longleftrightarrow> (\<exists>w out w' items. qmp vm ''query-block'' [] w = (Inr out, w') \<and> py_iter out = Inr items
     \<and> (\<exists>item \<in> set items. device_node qdev node item))"

lemma check_attached_seen:
  assumes "check_attached env qdev node t = (Inr (), t')" and "bmain t = Some v"
  shows "target_seen (monitor_of env v) qdev node"
proof -
  obtain out s s' items where o: "monitor_cmd (monitor_of env v) ''query-block'' [] s = (Inr out, s')" "py_iter out = Inr items"
    "attached qdev node items = Inr True"
    using assms by (auto simp: check_attached_def the_vm_Inr lift_res_def throw_def elim!: bnd_InrE rbind_InrE split: if_splits dest!: on_host_Inr)
  have "qmp (monitor_of env v) ''query-block'' [] (world s) = (Inr out, world s')"
    using o(1) by (auto simp: monitor_cmd_def split: prod.splits)
  then show ?thesis using o(2) attached_found[OF o(3)] unfolding target_seen_def by blast
qed

lemma start_clone_run:
  assumes "start_clone env v p t = (Inr (), t')"
  shows "\<exists>c. bclone t' = Some c \<and> disks_info t' = disks_info t \<and> files_info t' = files_info t
    \<and> blog t' = blog t @ [called ''clone'' [v, str_of (dget_default p ''images'' PNone)], called ''create'' [c], called ''verify_alive'' [c],
         called ''register'' [c @ ''_clone'', c]]"
proof -
  obtain c t1 t2 where c: "call ''clone'' [v, str_of (dget_default p ''images'' PNone)] (vm_clone env v p) t = (Inr c, t1)"
    "boot env c (t1\<lparr>bclone := Some c\<rparr>) = (Inr (), t2)" "call ''register'' [c @ ''_clone'', c] (register_vm env (c @ ''_clone'') c) t2 = (Inr (), t')"
    using assms by (auto simp: start_clone_def modify_def elim!: bnd_InrE)
  have "same_tables t t1" "same_tables t2 t'" "same_tables (t1\<lparr>bclone := Some c\<rparr>) t2"
    using movesD[OF tables_parts(3) c(1)] movesD[OF tables_parts(3) c(3)] boot_log[OF c(2)] by auto
  then show ?thesis using call_log[OF c(1)] boot_log[OF c(2)] call_log[OF c(3)] by (simp add: blog_def)
qed

lemma mirror_clone_run:
  assumes "clone_vm_with_mirrored_images env ma t = (Inr (), t')" and "bmain t = Some v"
  shows "\<exists>c p. mirrored_images ma (vm_params_of env v (vm_world (snd (destroy_if_alive env v t)))) = Inr p
    \<and> bclone t' = Some c \<and> disks_info t' = disks_info t \<and> files_info t' = files_info t
    \<and> blog t' = blog t @ clone_log env v c (str_of (dget_default p ''images'' PNone)) t @ [called ''register'' [c @ ''_clone'', c]]"
proof -
  obtain t1 p where p: "destroy_if_alive env v t = (Inr (), t1)" "mirrored_images ma (vm_params_of env v (vm_world t1)) = Inr p"
    "start_clone env v p t1 = (Inr (), t')"
    using assms by (auto simp: clone_vm_with_mirrored_images_def the_vm_Inr ask_run lift_res_def vm_world_def elim!: bnd_InrE)
  note d = destroy_if_alive_log[OF p(1)]
  from start_clone_run[OF p(3)] show ?thesis using d p by (auto simp: clone_log_def)
qed

text \<open>
  A test of mirrors that returned: every mirror job has completed, each device was then seen on the node of its target, the machine
  was destroyed and a clone of it started on the targets, and on that clone the digest of every recorded file of every disk agreed.
\<close>

lemma mirrored_disks_verified:
  assumes "wait_polls (monitor_of env v)" "bmain t = Some v" "mirror_do_test env ma (mirror_wait env ma) t = (Inr (), t')"
  shows "\<exists>c p t1 t2 t3.
      (\<forall>i < length (ma_sources ma). i < length (ma_targets ma)
        \<and> job_finished (monitor_of env v) (job_name (drive (ma_sources ma ! i)) (random_ids env i)))
    \<and> (\<forall>i < length (ma_targets ma). i < length (ma_sources ma)
        \<and> target_seen (monitor_of env v) (ma_sources ma ! i) (drive (ma_targets ma ! i)))
    \<and> mirrored_images ma (vm_params_of env v (vm_world (snd (destroy_if_alive env v t1)))) = Inr p
    \<and> clone_vm_with_mirrored_images env ma t1 = (Inr (), t2)
    \<and> blog t2 = blog t1 @ clone_log env v c (str_of (dget_default p ''images'' PNone)) t1 @ [called ''register'' [c @ ''_clone'', c]]
    \<and> verify_data_files env t2 = (Inr (), t3) \<and> bclone t2 = Some c
    \<and> (\<forall>tag info fs f. (tag, info) \<in> set (disks_info t3) \<longrightarrow> dget (files_info t) tag = Some fs \<longrightarrow> f \<in> set fs \<longrightarrow>
        file_verified env c (info ! 1) f)"
proof -
  obtain ta t1 t2 t3 where run: "mirror_wait env ma t = (Inr (), ta)" "check_mirrored_block_nodes_attached env ma ta = (Inr (), t1)"
    "clone_vm_with_mirrored_images env ma t1 = (Inr (), t2)" "verify_data_files env t2 = (Inr (), t3)"
    using assms(3) unfolding mirror_do_test_def by (auto elim!: bnd_unitE)
  note ka = movesD[OF tables_mirror_wait run(1)] and k1 = movesD[OF tables_attached run(2)]
  obtain tb where each: "for_each (enumerate 0 (ma_sources ma)) (mirror_one env ma) t = (Inr (), tb)"
    using run(1) unfolding mirror_wait_def by (auto elim: finally_InrE)
  have fin: "i < length (ma_targets ma) \<and> job_finished (monitor_of env v) (job_name (drive (ma_sources ma ! i)) (random_ids env i))"
    if i: "i < length (ma_sources ma)" for i
  proof -
    have "(i, ma_sources ma ! i) \<in> set (enumerate 0 (ma_sources ma))" using i by (simp add: in_set_enumerate_eq)
    from tables.each_returned[OF tables_mirror_one each this] obtain s1 s2 where
      s1: "same_tables t s1" "mirror_one env ma (i, ma_sources ma ! i) s1 = (Inr (), s2)" by blast
    show ?thesis by (rule mirror_one_finished[OF assms(1) s1(2)]) (use s1(1) assms(2) in simp)
  qed
  have seen: "i < length (ma_sources ma) \<and> target_seen (monitor_of env v) (ma_sources ma ! i) (drive (ma_targets ma ! i))"
    if i: "i < length (ma_targets ma)" for i
  proof -
    let ?f = "\<lambda>(idx, target). bnd (lift_res (nth_res (ma_sources ma) idx)) (\<lambda>source. check_attached env source (drive target))"
    have mv: "moves same_tables (?f x)" for x
      unfolding check_attached_def the_main_def by (intro tables.composed tables_parts)
    have "(i, ma_targets ma ! i) \<in> set (enumerate 0 (ma_targets ma))" using i by (simp add: in_set_enumerate_eq)
    from tables.each_returned[OF mv run(2)[unfolded check_mirrored_block_nodes_attached_def] this] obtain s1 s2 where
      s1: "same_tables ta s1" "?f (i, ma_targets ma ! i) s1 = (Inr (), s2)" by blast
    then show ?thesis using ka assms(2)
      by (auto simp: nth_res_def lift_res_def throw_def elim!: bnd_InrE split: if_splits intro: check_attached_seen)
  qed
  have m1: "bmain t1 = Some v" using ka k1 assms(2) by simp
  obtain c p where c: "mirrored_images ma (vm_params_of env v (vm_world (snd (destroy_if_alive env v t1)))) = Inr p"
    "bclone t2 = Some c" "files_info t2 = files_info t1"
    "blog t2 = blog t1 @ clone_log env v c (str_of (dget_default p ''images'' PNone)) t1 @ [called ''register'' [c @ ''_clone'', c]]"
    using mirror_clone_run[OF run(3) m1] by blast
  have "file_verified env c (info ! 1) f"
    if "(tag, info) \<in> set (disks_info t3)" "dget (files_info t) tag = Some fs" "f \<in> set fs" for tag info fs f
    using verified_files[OF run(4) c(2) that(1) _ that(3)] that(2) c(3) ka k1 by simp
  then show ?thesis using fin seen c run by blast
qed

definition demo_mirror :: "farm btest" where
  "demo_mirror = (farm_test [] ([''vm1''],
      [Inr (PDict []), Inr (PList []), Inr (PList []),
       Inr (PList [PDict [(''qdev'', PStr ''data1''), (''inserted'', PDict [(''node-name'', PStr ''drive_dst1'')])]])],
      [[PDict [(''event'', PStr ''BLOCK_JOB_COMPLETED''), (''data'', PDict [(''device'', PStr ''drive_data1_x'')])]]]))
     \<lparr>bmain := Some ''vm1'', disks_info := [(''data1'', [''/dev/sdc1'', ''/mnt/sdb''])], files_info := [(''data1'', [''f''])]\<rparr>"

definition demo_mirror_args :: mirror_args where
  "demo_mirror_args = \<lparr>ma_sources = [''data1''], ma_targets = [''dst1''], ma_options = [[(''sync'', PStr ''full'')]]\<rparr>"

end
