(* ===== verification/Blockdev_Backup.thy ===== *)
theory Blockdev_Backup
  imports Blockdev_Live
begin

text \<open>
  The tests of full backups (\<^verbatim>\<open>provider/blockdev_backup_base.py\<close>, \<^verbatim>\<open>blockdev_full_backup_base.py\<close> and their parallel
  variants): a class of its own, with its own preparation and clean-up.
\<close>

section \<open>The test\<close>

record backup_args =
  ba_sources :: "string list"
  ba_targets :: "string list"
  ba_options :: pydict

definition backup_option :: "pyval \<Rightarrow> pyval" where
  "backup_option v =
     (if v \<in> {PStr ''yes'', PStr ''true''} then PBool True
      else if v \<in> {PStr ''no'', PStr ''false''} then PBool False
      else v)"

definition get_backup_options :: "'w bt_env \<Rightarrow> pydict \<Rightarrow> pydict" where
  "get_backup_options env params = map (\<lambda>(k, v). (k, backup_option v)) (copy_from_keys env params (objects params ''backup_options''))"

definition backup_init :: "'w bt_env \<Rightarrow> pydict \<Rightarrow> backup_args" where
  "backup_init env params =
     \<lparr>ba_sources = objects params ''source_images'', ba_targets = objects params ''target_images'', ba_options = get_backup_options env params\<rparr>"

text \<open>The class for full backups sets the synchronisation.\<close>

definition full_backup_init :: "'w bt_env \<Rightarrow> pydict \<Rightarrow> backup_args" where
  "full_backup_init env params =
     (let ba = backup_init env params in ba\<lparr>ba_options := dset ''sync'' (PStr ''full'') (ba_options ba)\<rparr>)"

definition backup_preprocess_data_disks :: "'w bt_env \<Rightarrow> backup_args \<Rightarrow> ('w btest, unit) py" where
  "backup_preprocess_data_disks env ba =
     for_each (ba_sources ba) (\<lambda>tag.
       bnd (gets bparams) (\<lambda>params.
       bnd (lift_res (sized_params env (obj_params env params tag))) (\<lambda>p. call ''create_image'' [tag] (img_create env tag p))))"

fun sized_disk :: "string \<Rightarrow> (string \<times> string list) list \<Rightarrow> string option res" where
  "sized_disk disk_size [] = Inr None"
| "sized_disk disk_size ((kname, attr) # disks) =
     rbind (nth_res attr 1) (\<lambda>z.
       if z = disk_size then rbind (nth_res attr 2) (\<lambda>ty. if ty = ''disk'' then Inr (Some kname) else sized_disk disk_size disks)
       else sized_disk disk_size disks)"

definition backup_format_data_disk :: "'w bt_env \<Rightarrow> string \<Rightarrow> ('w btest, unit) py" where
  "backup_format_data_disk env tag =
     bnd the_main (\<lambda>v.
       with_session env v
         (bnd (gets bparams) (\<lambda>params.
          bnd (lift_res (dindex (obj_params env params tag) ''image_size'')) (\<lambda>z.
          bnd (ask (guest_disks env v params)) (\<lambda>d.
          bnd (lift_res (sized_disk (str_of z) (linux_disks d))) (\<lambda>found.
            case found of
              None \<Rightarrow> throw (TestFail ''disk not found in guest ...'')
            | Some kname \<Rightarrow>
                bnd (call ''format'' [v, kname] (format_disk env v kname (str_of z))) (\<lambda>ms.
                bnd (lift_res (nth_res ms 0)) (\<lambda>m.
                  modify (\<lambda>t. t\<lparr>disks_info := dset tag [''/dev/'' @ kname @ ''1'', m] (disks_info t)\<rparr>)))))))))"

definition backup_prepare_data_disks :: "'w bt_env \<Rightarrow> backup_args \<Rightarrow> ('w btest, unit) py" where
  "backup_prepare_data_disks env ba =
     for_each (ba_sources ba) (\<lambda>tag.
       bnd (backup_format_data_disk env tag) (\<lambda>_.
       bnd (mount_point tag) (\<lambda>root. tempfile env root ''data'' ''10M'')))"

definition backup_add_target_data_disks :: "'w bt_env \<Rightarrow> backup_args \<Rightarrow> ('w btest, unit) py" where
  "backup_add_target_data_disks env ba =
     for_each (ba_targets ba) (\<lambda>tag.
       bnd (target_disk_define_by_self env tag) (\<lambda>i.
       bnd the_main (\<lambda>v. on_storage (volume_hotplug (storage_on env v) i))))"

definition backup_prepare_test :: "'w bt_env \<Rightarrow> backup_args \<Rightarrow> ('w btest, unit) py" where
  "backup_prepare_test env ba =
     bnd (prepare_main_vm env) (\<lambda>_. bnd (backup_prepare_data_disks env ba) (\<lambda>_. backup_add_target_data_disks env ba))"

definition backup_verify_disk :: "'w bt_env \<Rightarrow> string \<Rightarrow> string \<times> string list \<Rightarrow> ('w btest, unit) py" where
  "backup_verify_disk env v d =
     (case d of (tag, info) \<Rightarrow>
        bnd (lift_res (nth_res info 0)) (\<lambda>dev.
        bnd (lift_res (nth_res info 1)) (\<lambda>dir.
        bnd (mount env v dev dir) (\<lambda>_. verify_file env v dir ''data''))))"

definition backup_verify_data_files :: "'w bt_env \<Rightarrow> ('w btest, unit) py" where
  "backup_verify_data_files env =
     bnd the_clone (\<lambda>v.
       with_session env v (bnd (refresh env v) (\<lambda>_. bnd (gets disks_info) (\<lambda>ds. for_each ds (backup_verify_disk env v)))))"

text \<open>The pairs of sources and targets; there has to be a target for each source.\<close>

definition backup_pairs :: "backup_args \<Rightarrow> (string \<times> string) list res" where
  "backup_pairs ba = rmap (\<lambda>idx. rbind (nth_res (ba_targets ba) idx) (\<lambda>t. Inr (ba_sources ba ! idx, t))) [0 ..< length (ba_sources ba)]"

text \<open>The images of the machine are read before a target is looked up.\<close>

definition clone_pairs :: "backup_args \<Rightarrow> pydict \<Rightarrow> (string \<times> string) list res" where
  "clone_pairs ba params = (if ba_sources ba = [] then Inr [] else rbind (dindex params ''images'') (\<lambda>_. backup_pairs ba))"

definition backup_prepare_clone_vm :: "'w bt_env \<Rightarrow> backup_args \<Rightarrow> ('w btest, unit) py" where
  "backup_prepare_clone_vm env ba =
     bnd the_main (\<lambda>v.
     bnd (destroy_if_alive env v) (\<lambda>_.
     bnd (ask (vm_params_of env v)) (\<lambda>params.
     bnd (lift_res (clone_pairs ba params)) (\<lambda>pairs.
     bnd (lift_res (clone_params pairs params)) (\<lambda>p.
     bnd (call ''clone'' [v, str_of (dget_default p ''images'' PNone)] (vm_clone env v p)) (\<lambda>c.
     bnd (boot env c) (\<lambda>_. modify (\<lambda>t. t\<lparr>bclone := Some c\<rparr>))))))))"

definition backup_jobs :: "'w bt_env \<Rightarrow> backup_args \<Rightarrow> string \<Rightarrow> ('w btest, unit) py" where
  "backup_jobs env ba v =
     (let source_lst = map drive (ba_sources ba); target_lst = map drive (ba_targets ba);
          bitmap_lst = map (\<lambda>i. ''bitmap_'' @ int_str (int i)) [0 ..< length (ba_sources ba)] in
      if 1 < length source_lst then
        on_host (blockdev_batch_backup (monitor_of env v) (random_ids env) source_lst target_lst bitmap_lst (ba_options ba))
      else
        bnd (lift_res (nth_res source_lst 0)) (\<lambda>s.
        bnd (lift_res (nth_res target_lst 0)) (\<lambda>t.
          on_host (blockdev_backup (monitor_of env v) (map_functions env) (random_ids env 0) s t (ba_options ba)))))"

definition test_blockdev_backup :: "'w bt_env \<Rightarrow> backup_args \<Rightarrow> ('w btest, unit) py" where
  "test_blockdev_backup env ba =
     bnd (py_assert (length (ba_sources ba) \<le> length (ba_targets ba)) ''No enough target disks define in cfg!'') (\<lambda>_.
       try_finally (bnd the_main (backup_jobs env ba)) (drop_caches env))"

definition parallel_blockdev_backup :: "'w bt_env \<Rightarrow> backup_args \<Rightarrow> ('w btest, unit) py" where
  "parallel_blockdev_backup env ba =
     bnd (gets bparams) (\<lambda>params. run_parallel env (parallel_tests env params @ [test_blockdev_backup env ba]))"

definition verify_target_disk :: "'w bt_env \<Rightarrow> backup_args \<Rightarrow> ('w btest, unit) py" where
  "verify_target_disk env ba =
     bnd (backup_prepare_clone_vm env ba) (\<lambda>_.
       try_finally (backup_verify_data_files env) (bnd the_clone (destroy_vm env)))"

definition do_backup :: "'w bt_env \<Rightarrow> backup_args \<Rightarrow> ('w btest, unit) py \<Rightarrow> ('w btest, unit) py" where
  "do_backup env ba backup = bnd backup (\<lambda>_. verify_target_disk env ba)"

definition backup_destroy_vms :: "'w bt_env \<Rightarrow> ('w btest, unit) py" where
  "backup_destroy_vms env =
     bnd (gets (\<lambda>t. [bmain t, bclone t])) (\<lambda>vs.
       for_each vs (\<lambda>vm. case vm of None \<Rightarrow> ret () | Some v \<Rightarrow> destroy_if_alive env v))"

definition cleanup_data_disk :: "'w bt_env \<Rightarrow> string \<Rightarrow> ('w btest, unit) py" where
  "cleanup_data_disk env tag =
     bnd (call ''info'' [tag] (img_info env tag)) (\<lambda>_.
     bnd (call ''check'' [tag] (img_check env tag)) (\<lambda>_. call ''remove_image'' [tag] (img_remove env tag)))"

definition cleanup_data_disks :: "'w bt_env \<Rightarrow> backup_args \<Rightarrow> ('w btest, unit) py" where
  "cleanup_data_disks env ba = for_each (ba_sources ba @ ba_targets ba) (cleanup_data_disk env)"

definition backup_post_test :: "'w bt_env \<Rightarrow> backup_args \<Rightarrow> ('w btest, unit) py" where
  "backup_post_test env ba = try_finally (bnd (backup_destroy_vms env) (\<lambda>_. cleanup_data_disks env ba)) (drop_caches env)"

definition backup_run_test :: "'w bt_env \<Rightarrow> backup_args \<Rightarrow> ('w btest, unit) py \<Rightarrow> ('w btest, unit) py" where
  "backup_run_test env ba backup = run_template (backup_prepare_test env ba) (do_backup env ba backup) (backup_post_test env ba)"

section \<open>The images of a clone\<close>

text \<open>The name that stands for an image in the clone.\<close>

definition renamed :: "(string \<times> string) list \<Rightarrow> string \<Rightarrow> string" where
  "renamed pairs w = (case map_of pairs w of None \<Rightarrow> w | Some t \<Rightarrow> t)"

lemma renamed_Nil [simp]: "renamed [] = (\<lambda>w. w)"
  by (auto simp: renamed_def)

text \<open>No source is a part of another image or of a target.\<close>

definition names_apart :: "(string \<times> string) list \<Rightarrow> string list \<Rightarrow> bool" where
  "names_apart pairs ws \<longleftrightarrow> list_all (\<lambda>(s, t). is_word s \<and> is_word t
     \<and> list_all (\<lambda>w. w = s \<or> \<not> sublist s w) ws \<and> list_all (\<lambda>(_, t'). \<not> sublist s t') pairs) pairs"

lemma replace_images_words:
  assumes "names_apart pairs ws" and "list_all is_word ws"
  shows "replace_images pairs (join '' '' ws) = join '' '' (map (renamed pairs) ws) \<and> list_all is_word (map (renamed pairs) ws)"
  using assms
proof (induction pairs arbitrary: ws)
  case Nil
  then show ?case by (simp add: replace_images_def renamed_def)
next
  case (Cons p pairs)
  obtain s t where p: "p = (s, t)" by (cases p)
  have s: "is_word s" "is_word t" "\<forall>w \<in> set ws. w = s \<or> \<not> sublist s w" using Cons.prems(1) p by (auto simp: names_apart_def list_all_iff)
  let ?ws = "map (\<lambda>w. if w = s then t else w) ws"
  have "CHR '' '' \<notin> set s" using s(1) by (auto simp: is_word_def list_all_iff is_ws_def)
  then have 1: "replace_str s t (join '' '' ws) = join '' '' ?ws" using replace_name[OF _ _ s(3), of "CHR '' ''" t] s(1) by (simp add: is_word_def)
  have apart: "names_apart pairs ?ws" using Cons.prems(1) p by (auto simp: names_apart_def list_all_iff)
  have w: "list_all is_word ?ws" using Cons.prems(2) s(2) by (auto simp: list_all_iff)
  have "map_of pairs t = None"
    using Cons.prems(1) p by (auto simp: names_apart_def list_all_iff map_of_eq_None_iff)
  then have eq: "map (renamed pairs) ?ws = map (renamed (p # pairs)) ws" by (auto simp: renamed_def p split: option.split)
  have "replace_images (p # pairs) (join '' '' ws) = replace_images pairs (join '' '' ?ws)" using 1 p by (simp add: replace_images_def)
  then show ?case using Cons.IH[OF apart w, unfolded eq] by (simp only:)
qed

text \<open>
  C33.  The parameters of the clone name the images of the machine with each source replaced by its target, image by image, and are otherwise
  those of the machine without the data file, as long as no source is a part of the name of another image or of a target.
\<close>

theorem clone_images_renamed:
  assumes "dget params ''images'' = Some (PStr (join '' '' ws))" "list_all is_word ws" "names_apart pairs ws"
  shows "\<exists>p. clone_params pairs params = Inr p \<and> objects p ''images'' = map (renamed pairs) ws
    \<and> (truthy (dget_default params ''enable_data_file'' PNone) \<longrightarrow> dget p ''enable_data_file'' = None)
    \<and> (\<forall>k. k \<noteq> ''images'' \<longrightarrow> k \<noteq> ''enable_data_file'' \<longrightarrow> dget p k = dget params k)"
proof -
  note r = replace_images_words[OF assms(3,2)]
  let ?p = "if truthy (dget_default params ''enable_data_file'' PNone) then dpop ''enable_data_file'' params else params"
  have i: "dindex ?p ''images'' = Inr (PStr (join '' '' ws))" using assms(1) by simp
  show ?thesis
  proof (cases "pairs = []")
    case True
    then show ?thesis using assms(1,2) by (simp add: clone_params_def objects_def split_ws_join)
  next
    case False
    then have "clone_params pairs params = Inr (dset ''images'' (PStr (replace_images pairs (join '' '' ws))) ?p)"
      unfolding clone_params_def Let_def i by (simp add: str_of_def)
    then show ?thesis using r split_ws_join[of "map (renamed pairs) ws"] by (simp add: objects_def)
  qed
qed

theorem clone_images_renamed_witness:
  "\<exists>p. clone_params [(''data1'', ''dst1'')] farm_vm_params = Inr p \<and> objects p ''images'' = [''image1'', ''dst1'']"
proof -
  have "dget farm_vm_params ''images'' = Some (PStr (join '' '' [''image1'', ''data1'']))" "list_all is_word [''image1'', ''data1'']"
    "names_apart [(''data1'', ''dst1'')] [''image1'', ''data1'']" "map (renamed [(''data1'', ''dst1'')]) [''image1'', ''data1''] = [''image1'', ''dst1'']" by code_simp+
  from clone_images_renamed[OF this(1-3)] this(4) show ?thesis by auto
qed

text \<open>A source that is a part of another name renames that image too.\<close>

lemma clone_images_clash: "replace_images [(''data1'', ''dst1'')] ''image1 data1 data10'' = ''image1 dst1 dst10''"
  by code_simp

section \<open>Verified backups\<close>

lemma backup_finished:
  assumes "wait_polls vm" and "blockdev_backup vm mf rid src tgt opts s = (Inr (), s')"
  shows "job_finished vm (job_name src rid)"
proof -
  obtain c a t s1 r s2 where c: "blockdev_backup_qmp_cmd rid src tgt opts = Inr (c, a)"
    "monitor_cmd vm c a s1 = (Inr r, s2)" "wait_until_block_job_completed vm (job_id_of (c, a) src) t s2 = (Inr (), s')"
    using assms(2) by (auto simp: blockdev_backup_def run_command_def lift_res_def elim!: bnd_InrE split: prod.splits)
  then have "bnd (monitor_cmd vm c a) (\<lambda>_. wait_until_block_job_completed vm (job_id_of (c, a) src) t) s1 = (Inr (), s')" by (simp add: bnd_def)
  from run_and_wait_finished[OF assms(1) this] have "job_finished vm (job_id_of (c, a) src)" .
  moreover have "job_id_of (c, a) src = job_name src rid" using backup_cmd_spec[OF c(1)] by (intro job_id_of_eq) simp
  ultimately show ?thesis by simp
qed

lemma test_backup_finished:
  assumes "wait_polls (monitor_of env v)" "bmain t = Some v" "test_blockdev_backup env ba t = (Inr (), t')"
    and "truthy (dget_default (ba_options ba) ''wait_job_complete'' (PBool True))" "i < length (ba_sources ba)"
  shows "i < length (ba_targets ba) \<and> job_finished (monitor_of env v) (job_name (drive (ba_sources ba ! i)) (random_ids env i))"
proof -
  let ?srcs = "map drive (ba_sources ba)" and ?tgts = "map drive (ba_targets ba)"
  let ?bms = "map (\<lambda>i. ''bitmap_'' @ int_str (int i)) [0 ..< length (ba_sources ba)]"
  have len: "length (ba_sources ba) \<le> length (ba_targets ba)"
    and fin: "try_finally (bnd the_main (backup_jobs env ba)) (drop_caches env) t = (Inr (), t')"
    using assms(3) by (auto simp: test_blockdev_backup_def py_assert_run bnd_def split: if_splits)
  from fin obtain t1 where run: "backup_jobs env ba v t = (Inr (), t1)"
    by (rule finally_InrE) (use assms(2) in \<open>simp add: bnd_def the_main_def gets_def ret_def\<close>)
  show ?thesis
  proof (cases "1 < length ?srcs")
    case True
    then have "on_host (blockdev_batch_backup (monitor_of env v) (random_ids env) ?srcs ?tgts ?bms (ba_options ba)) t = (Inr (), t1)"
      using run by (simp add: backup_jobs_def Let_def)
    from batch_finished[OF assms(1) on_host_Inr[OF this] assms(4), of i] show ?thesis using assms(5) len by simp
  next
    case False
    then have i: "i = 0" "length (ba_sources ba) = 1" using assms(5) by auto
    then show ?thesis using run False len assms(5)
      by (auto simp: backup_jobs_def Let_def nth_res_def dest!: on_host_Inr backup_finished[OF assms(1)] split: if_splits)
  qed
qed

lemma clone_pairs_Inr: "clone_pairs ba params = Inr pairs \<Longrightarrow> backup_pairs ba = Inr pairs"
  by (auto simp: clone_pairs_def backup_pairs_def elim!: rbind_InrE split: if_splits)

lemma backup_clone_run:
  assumes "backup_prepare_clone_vm env ba t = (Inr (), t')" and "bmain t = Some v"
  shows "\<exists>c pairs p. backup_pairs ba = Inr pairs \<and> clone_params pairs (vm_params_of env v (vm_world (snd (destroy_if_alive env v t)))) = Inr p
    \<and> bclone t' = Some c \<and> disks_info t' = disks_info t
    \<and> blog t' = blog t @ clone_log env v c (str_of (dget_default p ''images'' PNone)) t"
proof -
  obtain t1 pairs p c t2 t3 where p: "destroy_if_alive env v t = (Inr (), t1)" "clone_pairs ba (vm_params_of env v (vm_world t1)) = Inr pairs"
    "clone_params pairs (vm_params_of env v (vm_world t1)) = Inr p"
    "call ''clone'' [v, str_of (dget_default p ''images'' PNone)] (vm_clone env v p) t1 = (Inr c, t2)"
    "boot env c t2 = (Inr (), t3)" "t' = t3\<lparr>bclone := Some c\<rparr>"
    using assms by (auto simp: backup_prepare_clone_vm_def the_vm_Inr ask_run lift_res_def vm_world_def modify_def elim!: bnd_InrE)
  then show ?thesis
    using destroy_if_alive_log[OF p(1)] call_log[OF p(4)] movesD[OF tables_parts(3) p(4)] boot_log[OF p(5)] clone_pairs_Inr[OF p(2)]
    by (auto simp: clone_log_def blog_def)
qed

lemma backup_disk_verified:
  assumes "backup_verify_disk env c (tag, info) t = (Inr (), t')"
  shows "1 < length info \<and> file_verified env c (info ! 1) ''data''"
  using assms
  by (auto simp: backup_verify_disk_def lift_res_def throw_def nth_res_def elim!: bnd_InrE dest: verify_file_returned split: if_splits)

lemma tables_backup_disk: "moves same_tables (backup_verify_disk env v d)"
  unfolding backup_verify_disk_def by (cases d) (auto intro!: tables.composed)

lemma backup_files_verified:
  assumes "backup_verify_data_files env t = (Inr (), t')" and "bclone t = Some c"
  shows "bclone t' = Some c \<and> (\<forall>(tag, info) \<in> set (disks_info t'). 1 < length info \<and> file_verified env c (info ! 1) ''data'')"
proof -
  let ?body = "bnd (refresh env c) (\<lambda>_. bnd (gets disks_info) (\<lambda>ds. for_each ds (backup_verify_disk env c)))"
  have s: "with_session env c ?body t = (Inr (), t')"
    using assms unfolding backup_verify_data_files_def by (simp add: bnd_def the_clone_def gets_def ret_def)
  obtain t1 t2 where t: "on_host (wait_for_login (host_of env c)) t = (Inr (), t1)" "?body t1 = (Inr (), t2)" "on_host close_session t2 = (Inr (), t')"
    using s[unfolded with_session_def] by (rule bnd_unitE) (erule finally_InrE, blast)
  obtain t3 where t3: "refresh env c t1 = (Inr (), t3)" and each: "for_each (disks_info t3) (backup_verify_disk env c) t3 = (Inr (), t2)"
    using t(2) by (auto simp: gets_def elim!: bnd_InrE)
  have k: "same_tables t t1" "same_tables t3 t2" "same_tables t2 t'"
    using movesD[OF tables_parts(2) t(1)] movesD[OF tables.each[OF tables_backup_disk] each] movesD[OF tables_parts(2) t(3)] by auto
  have "1 < length info \<and> file_verified env c (info ! 1) ''data''" if "(tag, info) \<in> set (disks_info t3)" for tag info
    using for_each_returned[OF each that] backup_disk_verified by blast
  then show ?thesis using k refresh_kept[OF t3] assms(2) by auto
qed

text \<open>
  C12.  A full backup test that returned: there was a target for every source and every backup job has completed; then the machine was
  destroyed and a clone of it started with the targets in place of the sources; on the clone the digest of the file of every disk agreed, and at
  the end the clone was destroyed.
\<close>

theorem full_backup_verified:
  assumes "wait_polls (monitor_of env v)" "bmain t = Some v" "do_backup env ba (test_blockdev_backup env ba) t = (Inr (), t')"
    and "truthy (dget_default (ba_options ba) ''wait_job_complete'' (PBool True))"
  shows "\<exists>c pairs p t1 t2.
      (\<forall>i < length (ba_sources ba). i < length (ba_targets ba)
        \<and> job_finished (monitor_of env v) (job_name (drive (ba_sources ba ! i)) (random_ids env i)))
    \<and> test_blockdev_backup env ba t = (Inr (), t1) \<and> backup_pairs ba = Inr pairs
    \<and> clone_params pairs (vm_params_of env v (vm_world (snd (destroy_if_alive env v t1)))) = Inr p
    \<and> backup_prepare_clone_vm env ba t1 = (Inr (), t2)
    \<and> blog t2 = blog t1 @ clone_log env v c (str_of (dget_default p ''images'' PNone)) t1
    \<and> (\<forall>(tag, info) \<in> set (disks_info t'). file_verified env c (info ! 1) ''data'')
    \<and> last (blog t') = called ''destroy'' [c]"
proof -
  obtain t1 t2 t3 where run: "test_blockdev_backup env ba t = (Inr (), t1)" "backup_prepare_clone_vm env ba t1 = (Inr (), t2)"
    "backup_verify_data_files env t2 = (Inr (), t3)" "bnd the_clone (destroy_vm env) t3 = (Inr (), t')"
    using assms(3) unfolding do_backup_def verify_target_disk_def by (elim bnd_unitE finally_InrE) blast
  have "moves same_tables (test_blockdev_backup env ba)"
    unfolding test_blockdev_backup_def backup_jobs_def Let_def the_main_def drop_caches_def py_assert_def by (intro tables.composed tables.ensured tables_parts)
  from movesD[OF this run(1)] have m: "bmain t1 = Some v" using assms(2) by simp
  obtain c pairs p where c: "backup_pairs ba = Inr pairs" "clone_params pairs (vm_params_of env v (vm_world (snd (destroy_if_alive env v t1)))) = Inr p"
    "bclone t2 = Some c" "blog t2 = blog t1 @ clone_log env v c (str_of (dget_default p ''images'' PNone)) t1"
    using backup_clone_run[OF run(2) m] by blast
  note v3 = backup_files_verified[OF run(3) c(3)]
  have d: "destroy_vm env c t3 = (Inr (), t')" using run(4) v3 by (simp add: bnd_def the_clone_def gets_def ret_def)
  have "last (blog t') = called ''destroy'' [c]" using call_log[OF d[unfolded destroy_vm_def]] by simp
  moreover have "disks_info t' = disks_info t3" using movesD[OF tables_parts(3) d[unfolded destroy_vm_def]] by simp
  ultimately show ?thesis using run(1,2) c v3 test_backup_finished[OF assms(1,2) run(1) assms(4)]
    by (intro exI[of _ c] exI[of _ pairs] exI[of _ p] exI[of _ t1] exI[of _ t2]) auto
qed

definition demo_full_backup :: "farm btest" where
  "demo_full_backup = (farm_test [] ([''vm1''],
      [Inr (PDict []), Inr (PList []), Inr (PList [])],
      [[PDict [(''event'', PStr ''BLOCK_JOB_COMPLETED''), (''data'', PDict [(''device'', PStr ''drive_data1_x'')])]]]))
     \<lparr>bmain := Some ''vm1'', disks_info := [(''data1'', [''/dev/sdc1'', ''/mnt/sdb''])]\<rparr>"

definition demo_backup_args :: backup_args where
  "demo_backup_args = \<lparr>ba_sources = [''data1''], ba_targets = [''dst1''], ba_options = [(''sync'', PStr ''full'')]\<rparr>"

theorem full_backup_verified_witness:
  "\<exists>t' c. do_backup farm_env demo_backup_args (test_blockdev_backup farm_env demo_backup_args) demo_full_backup = (Inr (), t')
    \<and> job_finished farm_monitor (job_name ''drive_data1'' ''x'') \<and> file_verified farm_env c ''/mnt/sdb'' ''data''
    \<and> last (blog t') = called ''destroy'' [c]"
proof -
  let ?r = "do_backup farm_env demo_backup_args (test_blockdev_backup farm_env demo_backup_args) demo_full_backup"
  have "fst ?r = Inr ()" by code_simp
  then have r: "?r = (Inr (), snd ?r)" by (metis prod.collapse)
  have d: "disks_info (snd ?r) = [(''data1'', [''/dev/sdb1'', ''/mnt/sdb''])]" by code_simp
  have w: "wait_polls (monitor_of farm_env ''vm1'')" using farm_polls by simp
  have m: "bmain demo_full_backup = Some ''vm1''" by (simp add: demo_full_backup_def farm_test_def)
  have o: "truthy (dget_default (ba_options demo_backup_args) ''wait_job_complete'' (PBool True))" by code_simp
  obtain c where "job_finished farm_monitor (job_name ''drive_data1'' ''x'')" "file_verified farm_env c ''/mnt/sdb'' ''data''"
    "last (blog (snd ?r)) = called ''destroy'' [c]"
    using full_backup_verified[OF w m r o, unfolded farm_fields d] by (auto simp: demo_backup_args_def drive_def)
  then show ?thesis using r by blast
qed

end
