(* ===== verification/Blockdev_Snapshot.thy ===== *)
theory Blockdev_Snapshot
  imports Blockdev_Backup
begin

text \<open>
  The tests of snapshots (\<^verbatim>\<open>provider/blockdev_snapshot_base.py\<close>), streams (\<^verbatim>\<open>blockdev_stream_base.py\<close>, \<^verbatim>\<open>blockdev_stream_nowait.py\<close>,
  \<^verbatim>\<open>blockdev_stream_parallel.py\<close>).  The files they make are a list of directories and names.
\<close>

section \<open>Snapshots\<close>

record snap_args =
  snapshot_tag :: string
  base_tag :: string

definition get_main :: "'w bt_env \<Rightarrow> ('w btest, unit) py" where
  "get_main env =
     bnd (gets bparams) (\<lambda>params.
     bnd (lift_res (dindex params ''main_vm'')) (\<lambda>n.
     bnd (ask (env_get_vm env (str_of n))) (\<lambda>v. modify (\<lambda>t. t\<lparr>bmain := v\<rparr>))))"

definition snapshot_clone :: "'w bt_env \<Rightarrow> snap_args \<Rightarrow> ('w btest, unit) py" where
  "snapshot_clone env sa =
     bnd the_main (\<lambda>v.
     bnd (ask (vm_params_of env v)) (\<lambda>params.
     bnd (lift_res (dindex params ''images'')) (\<lambda>images.
     bnd (call ''clone'' [v, replace_str (base_tag sa) (snapshot_tag sa) (str_of images)]
            (vm_clone env v (dset ''images'' (PStr (replace_str (base_tag sa) (snapshot_tag sa) (str_of images))) params))) (\<lambda>c.
       modify (\<lambda>t. t\<lparr>bclone := Some c\<rparr>)))))"

definition snapshot_init :: "'w bt_env \<Rightarrow> ('w btest, snap_args) py" where
  "snapshot_init env =
     bnd (gets bparams) (\<lambda>params.
     bnd (lift_res (dindex params ''snapshot_tag'')) (\<lambda>s.
     bnd (lift_res (dindex params ''base_tag'')) (\<lambda>b.
     let sa = \<lparr>snapshot_tag = str_of s, base_tag = str_of b\<rparr> in
     bnd (get_main env) (\<lambda>_. bnd (snapshot_clone env sa) (\<lambda>_. ret sa)))))"

definition plug_snapshot :: "'w bt_env \<Rightarrow> string \<Rightarrow> ('w btest, unit) py" where
  "plug_snapshot env tag =
     bnd (gets bparams) (\<lambda>params.
     bnd (define_volume env (setdefault ''target_path'' (PStr (data_dir env)) params) tag) (\<lambda>i.
     bnd the_main (\<lambda>v. on_storage (volume_hotplug (storage_on env v) i))))"

definition prepare_snapshot_file :: "'w bt_env \<Rightarrow> snap_args \<Rightarrow> ('w btest, unit) py" where
  "prepare_snapshot_file env sa =
     bnd (is_blockdev_mode env) (\<lambda>b.
       if b then plug_snapshot env (snapshot_tag sa)
       else
         bnd (gets bparams) (\<lambda>params.
           if dget params ''mode'' = Some (PStr ''existing'')
           then call ''create_image'' [snapshot_tag sa] (img_create env (snapshot_tag sa) (obj_params env params (snapshot_tag sa)))
           else ret ()))"

definition is_windows :: "('w btest, bool) py" where
  "is_windows = bnd (gets bparams) (\<lambda>params. bnd (lift_res (dindex params ''os_type'')) (\<lambda>os. ret (os = PStr ''windows'')))"

definition mount_infos :: "'w bt_env \<Rightarrow> string \<Rightarrow> ('w btest, unit) py" where
  "mount_infos env v =
     bnd (gets disks_info) (\<lambda>ds.
       for_each ds (\<lambda>(_, info).
         bnd (lift_res (nth_res info 0)) (\<lambda>dev. bnd (lift_res (nth_res info 1)) (\<lambda>dir. mount env v dev dir))))"

definition mount_data_disks :: "'w bt_env \<Rightarrow> ('w btest, unit) py" where
  "mount_data_disks env =
     bnd is_windows (\<lambda>w.
       if w then ret ()
       else bnd the_clone (\<lambda>v. with_session env v (bnd (refresh env v) (\<lambda>_. mount_infos env v))))"

definition verify_recorded :: "'w bt_env \<Rightarrow> string \<Rightarrow> ('w btest, unit) py" where
  "verify_recorded env v =
     bnd (gets files_info) (\<lambda>files. for_each files (\<lambda>(dir, names). bnd (lift_res (nth_res names 0)) (verify_file env v dir)))"

definition snapshot_verify_data_file :: "'w bt_env \<Rightarrow> ('w btest, unit) py" where
  "snapshot_verify_data_file env = bnd the_clone (verify_recorded env)"

definition verify_snapshot :: "'w bt_env \<Rightarrow> snap_args \<Rightarrow> ('w btest, unit) py" where
  "verify_snapshot env sa =
     bnd the_main (\<lambda>v.
     bnd (destroy_if_alive env v) (\<lambda>_.
     bnd (is_blockdev_mode env) (\<lambda>b.
     bnd (if b then call ''rebase'' [snapshot_tag sa, base_tag sa] (img_rebase env (snapshot_tag sa) (base_tag sa)) else ret ()) (\<lambda>_.
     bnd the_clone (\<lambda>c.
     bnd (boot env c) (\<lambda>_.
       if base_tag sa \<noteq> ''image1'' then bnd (mount_data_disks env) (\<lambda>_. snapshot_verify_data_file env) else ret ()))))))"

definition snapshot_command :: "'w bt_env \<Rightarrow> snap_args \<Rightarrow> bool \<Rightarrow> pydict \<Rightarrow> string \<times> pydict" where
  "snapshot_command env sa blockdev params =
     (if blockdev
      then (''blockdev-snapshot'', setdefault ''overlay'' (PStr (drive (snapshot_tag sa))) (copy_from_keys env params [''node'', ''overlay'']))
      else (''blockdev-snapshot-sync'', dset ''snapshot-file'' (PStr (img_filename env (snapshot_tag sa)))
              (copy_from_keys env params [''device'', ''mode'', ''snapshot-file'', ''format''])))"

definition create_snapshot :: "'w bt_env \<Rightarrow> snap_args \<Rightarrow> ('w btest, unit) py" where
  "create_snapshot env sa =
     bnd (is_blockdev_mode env) (\<lambda>b.
     bnd (gets bparams) (\<lambda>params.
     bnd the_main (\<lambda>v.
     bnd (on_host (run_command (monitor_of env v) (snapshot_command env sa b params))) (\<lambda>_. ret ()))))"

text \<open>The disk of the guest that has the size of the image, formatted.\<close>

definition configured_disk :: "'w bt_env \<Rightarrow> string \<Rightarrow> ('w btest, string list) py" where
  "configured_disk env tag =
     bnd is_windows (\<lambda>w.
     bnd (gets bparams) (\<lambda>params.
     bnd (lift_res (dindex (obj_params env params tag) ''image_size'')) (\<lambda>z.
     bnd the_main (\<lambda>v.
       with_session env v
         (if \<not> w then
            bnd (ask (guest_disks env v params)) (\<lambda>d.
            bnd (lift_res (sized_disk (str_of z) (linux_disks d))) (\<lambda>found.
            bnd (py_assert (found \<notin> {None, Some []}) ''Disk not found in guest!'') (\<lambda>_.
            let disk_id = the found in
            bnd (call ''format'' [v, disk_id] (format_disk env v disk_id (str_of z))) (\<lambda>ms.
            bnd (lift_res (nth_res ms 0)) (\<lambda>m. ret [''/dev/'' @ disk_id @ ''1'', m])))))
          else
            bnd (call ''format'' [v, str_of z] (windows_disk env v (str_of z))) (\<lambda>(disk_id, letter).
              ret [disk_id, letter @ '':'' @ backslash @ backslash]))))))"

definition configure_data_disk :: "'w bt_env \<Rightarrow> snap_args \<Rightarrow> ('w btest, unit) py" where
  "configure_data_disk env sa =
     bnd (configured_disk env (base_tag sa)) (\<lambda>info. modify (\<lambda>t. t\<lparr>disks_info := dset (base_tag sa) info (disks_info t)\<rparr>))"

definition snapshot_tempfile :: "'w bt_env \<Rightarrow> string \<Rightarrow> string \<Rightarrow> ('w btest, unit) py" where
  "snapshot_tempfile env root_dir filename =
     bnd (tempfile env root_dir filename ''10M'') (\<lambda>_. modify (\<lambda>t. t\<lparr>files_info := files_info t @ [(root_dir, [filename])]\<rparr>))"

definition tempfiles :: "'w bt_env \<Rightarrow> string \<Rightarrow> ('w btest, unit) py" where
  "tempfiles env filename =
     bnd (gets disks_info) (\<lambda>ds. for_each ds (\<lambda>(_, info). bnd (lift_res (nth_res info 1)) (\<lambda>dir. snapshot_tempfile env dir filename)))"

definition snapshot_test :: "'w bt_env \<Rightarrow> snap_args \<Rightarrow> ('w btest, unit) py" where
  "snapshot_test env sa =
     bnd (create_snapshot env sa) (\<lambda>_. bnd (tempfiles env ''data'') (\<lambda>_. verify_snapshot env sa))"

definition start_main :: "'w bt_env \<Rightarrow> ('w btest, unit) py" where
  "start_main env =
     bnd the_main (\<lambda>v.
     bnd (ask (is_alive env v)) (\<lambda>a.
     bnd (if a then ret () else create_vm env v) (\<lambda>_. verify_alive env v)))"

definition snapshot_pre_test :: "'w bt_env \<Rightarrow> snap_args \<Rightarrow> ('w btest, unit) py" where
  "snapshot_pre_test env sa =
     bnd (start_main env) (\<lambda>_.
     bnd (if base_tag sa \<noteq> ''image1'' then configure_data_disk env sa else ret ()) (\<lambda>_. prepare_snapshot_file env sa))"

text \<open>\<open>except Exception\<close>: what is not an error of the program passes.\<close>

definition logged :: "('w btest, unit) py \<Rightarrow> ('w btest, unit) py" where
  "logged m = try_except m (\<lambda>e. case e of KeyboardInterrupt \<Rightarrow> None | SystemExit _ \<Rightarrow> None | _ \<Rightarrow> Some (ret ()))"

definition snapshot_post_test :: "'w bt_env \<Rightarrow> snap_args \<Rightarrow> ('w btest, unit) py" where
  "snapshot_post_test env sa =
     logged (bnd (bnd the_clone (destroy_vm env)) (\<lambda>_. call ''remove_image'' [snapshot_tag sa] (img_remove env (snapshot_tag sa))))"

definition snapshot_run_test :: "'w bt_env \<Rightarrow> snap_args \<Rightarrow> ('w btest, unit) py" where
  "snapshot_run_test env sa = run_template (snapshot_pre_test env sa) (snapshot_test env sa) (snapshot_post_test env sa)"

section \<open>Streams\<close>

definition opt_option :: "pydict \<Rightarrow> string \<Rightarrow> string \<Rightarrow> pydict" where
  "opt_option params key name = (if truthy (dget_default params key PNone) then [(name, dget_default params key PNone)] else [])"

definition opt_number :: "pydict \<Rightarrow> string \<Rightarrow> string \<Rightarrow> pydict res" where
  "opt_number params key name =
     (if truthy (dget_default params key PNone) then rbind (py_int (dget_default params key PNone)) (\<lambda>i. Inr [(name, PInt i)]) else Inr [])"

definition init_stream_options :: "pydict \<Rightarrow> pydict res" where
  "init_stream_options params =
     rbind (opt_number params ''speed'' ''speed'') (\<lambda>speed.
     rbind (opt_number params ''block_stream_timeout'' ''timeout'') (\<lambda>timeout.
       Inr (speed @ opt_option params ''base'' ''base'' @ opt_option params ''base_node'' ''base-node''
            @ opt_option params ''on_error'' ''on-error'' @ opt_option params ''auto_finalize'' ''auto-finalize''
            @ opt_option params ''auto_dismiss'' ''auto-dismiss'' @ opt_option params ''backing_file'' ''backing-file'' @ timeout)))"

definition base_is_system :: "pydict \<Rightarrow> snap_args \<Rightarrow> bool res" where
  "base_is_system params sa = rbind (nth_res (objects params ''images'') 0) (\<lambda>i. Inr (base_tag sa = i))"

definition stream_init :: "'w bt_env \<Rightarrow> ('w btest, snap_args \<times> pydict) py" where
  "stream_init env =
     bnd (snapshot_init env) (\<lambda>sa.
     bnd (gets bparams) (\<lambda>params.
     bnd (lift_res (init_stream_options params)) (\<lambda>options.
     bnd (lift_res (base_is_system params sa)) (\<lambda>system.
     bnd (if system then configure_system_disk (base_tag sa) else ret ()) (\<lambda>_. ret (sa, options))))))"

definition stream_snapshot_test :: "'w bt_env \<Rightarrow> snap_args \<Rightarrow> ('w btest, unit) py" where
  "stream_snapshot_test env sa =
     bnd (tempfiles env ''base'') (\<lambda>_. bnd (create_snapshot env sa) (\<lambda>_. tempfiles env ''sn1''))"

text \<open>The node to stream into, and the options, which without block nodes are changed when the stream starts.\<close>

definition stream_target :: "'w bt_env \<Rightarrow> snap_args \<Rightarrow> pydict \<Rightarrow> ('w btest, string \<times> pydict) py" where
  "stream_target env sa options =
     bnd (is_blockdev_mode env) (\<lambda>b.
       if b then ret (drive (snapshot_tag sa), options)
       else
         bnd (gets bparams) (\<lambda>params.
         bnd (lift_res (dindex params ''device'')) (\<lambda>d.
           ret (str_of d, dset ''base'' (PStr (img_filename env (base_tag sa))) options))))"

definition stream_job :: "'w bt_env \<Rightarrow> string \<Rightarrow> pydict \<Rightarrow> ('w btest, unit) py" where
  "stream_job env device options =
     bnd the_main (\<lambda>v. on_host (blockdev_stream (monitor_of env v) (version_in env) (obj_of env v) (random_ids env 0) device options))"

definition test_blockdev_stream :: "'w bt_env \<Rightarrow> snap_args \<Rightarrow> pydict \<Rightarrow> ('w btest, unit) py" where
  "test_blockdev_stream env sa options =
     bnd (stream_target env sa options) (\<lambda>(device, opts).
     bnd (stream_job env device opts) (\<lambda>_.
     bnd the_main (\<lambda>v. on_host (sleep_ms (monitor_of env v) 500))))"

definition stream_nowait :: "'w bt_env \<Rightarrow> snap_args \<Rightarrow> pydict \<Rightarrow> ('w btest, string) py" where
  "stream_nowait env sa options =
     bnd the_main (\<lambda>v. on_host (blockdev_stream_nowait (monitor_of env v) (version_in env) (obj_of env v) (random_ids env 0)
       (drive (snapshot_tag sa)) options))"

definition wait_stream_job_completed :: "'w bt_env \<Rightarrow> string \<Rightarrow> ('w btest, unit) py" where
  "wait_stream_job_completed env job =
     try_finally (bnd the_main (\<lambda>v. on_host (wait_until_block_job_completed (monitor_of env v) job 900))) (drop_caches env)"

definition stream_parallel :: "'w bt_env \<Rightarrow> snap_args \<Rightarrow> pydict \<Rightarrow> ('w btest, unit) py" where
  "stream_parallel env sa options =
     bnd (gets bparams) (\<lambda>params.
       try_finally (run_parallel env (parallel_tests env params @ [stream_job env (drive (snapshot_tag sa)) options])) (drop_caches env))"

definition check_backing_file :: "'w bt_env \<Rightarrow> snap_args \<Rightarrow> ('w btest, unit) py" where
  "check_backing_file env sa =
     bnd (bnd the_main (destroy_vm env)) (\<lambda>_.
     bnd (call ''info'' [snapshot_tag sa] (img_info env (snapshot_tag sa))) (\<lambda>out.
     bnd (lift_res (case loads out of None \<Rightarrow> Inl (ValueError ''json'') | Some v \<Rightarrow> py_get v ''backing-filename'' PNone)) (\<lambda>backing_file.
       py_assert (\<not> truthy backing_file) (''Unexpect backing file('' @ py_str backing_file @ '') found!''))))"

definition stream_mount_data_disks :: "'w bt_env \<Rightarrow> snap_args \<Rightarrow> ('w btest, unit) py" where
  "stream_mount_data_disks env sa =
     bnd (gets bparams) (\<lambda>params.
     bnd (lift_res (base_is_system params sa)) (\<lambda>system. if system then ret () else mount_data_disks env))"

definition stream_do_test :: "'w bt_env \<Rightarrow> snap_args \<Rightarrow> ('w btest, unit) py \<Rightarrow> ('w btest, unit) py" where
  "stream_do_test env sa stream =
     bnd (stream_snapshot_test env sa) (\<lambda>_.
     bnd stream (\<lambda>_.
     bnd (check_backing_file env sa) (\<lambda>_.
     bnd (bnd the_clone (create_vm env)) (\<lambda>_.
     bnd (stream_mount_data_disks env sa) (\<lambda>_. snapshot_verify_data_file env)))))"

definition stream_run_test :: "'w bt_env \<Rightarrow> snap_args \<Rightarrow> ('w btest, unit) py \<Rightarrow> ('w btest, unit) py" where
  "stream_run_test env sa stream =
     run_template (snapshot_pre_test env sa) (stream_do_test env sa stream) (snapshot_post_test env sa)"

text \<open>The machine is replaced by a fresh clone of itself, which removes the files.\<close>

definition stream_remove_files :: "'w bt_env \<Rightarrow> snap_args \<Rightarrow> ('w btest, unit) py" where
  "stream_remove_files env sa =
     bnd (gets bparams) (\<lambda>params.
     bnd (lift_res (base_is_system params sa)) (\<lambda>system.
     bnd (gets (\<lambda>t. map (\<lambda>(dir, names). dir @ ''/'' @ join [] names) (files_info t))) (\<lambda>files.
       if \<not> system \<or> files = [] then ret ()
       else
         bnd the_main (\<lambda>v.
         bnd (ask (vm_params_of env v)) (\<lambda>p.
         bnd (call ''clone'' [v] (vm_clone env v p)) (\<lambda>c.
         bnd (modify (\<lambda>t. t\<lparr>bmain := Some c\<rparr>)) (\<lambda>_.
         bnd (boot env c) (\<lambda>_.
           try_finally
             (bnd (on_host (wait_for_login (host_of env c))) (\<lambda>_.
              bnd (on_host (session_cmd (host_of env c) (rm_files files))) (\<lambda>_. on_host close_session)))
             (destroy_vm env c)))))))))"

section \<open>What a stream has shown\<close>

text \<open>The parts of the test after the files were made keep the list of files and the machines.\<close>

abbreviation same_files :: "'w btest \<Rightarrow> 'w btest \<Rightarrow> bool" where
  "same_files s t \<equiv> files_info t = files_info s \<and> bclone t = bclone s \<and> bmain t = bmain s \<and> bparams t = bparams s"

interpretation filing: state_relation same_files
  by unfold_locales auto

lemma file_parts [intro!]:
  "moves same_files (on_storage f)" "moves same_files (on_host g)" "moves same_files (call n a h)" "moves same_files (ask k)"
  by (auto simp: moves_def on_storage_def on_host_def call_def ask_def gets_def split: prod.split)

lemma file_vms: "moves same_files the_main" "moves same_files the_clone" "moves same_files (is_blockdev_mode env)" "moves same_files is_windows"
  unfolding is_blockdev_mode_def is_windows_def the_main_def the_clone_def by (intro filing.composed file_parts)+

lemmas file_intros = filing.composed filing.ensured file_parts file_vms

lemma refresh_files: "moves same_files (refresh env v)"
  by (auto simp: moves_def refresh_def split: prod.split)

lemma stream_files: "moves same_files (test_blockdev_stream env sa options)"
  unfolding test_blockdev_stream_def stream_target_def stream_job_def by (intro file_intros)

lemma backing_files: "moves same_files (check_backing_file env sa)"
  unfolding check_backing_file_def destroy_vm_def py_assert_def by (intro file_intros)

lemma mount_files: "moves same_files (stream_mount_data_disks env sa)"
  unfolding stream_mount_data_disks_def mount_data_disks_def with_session_def mount_infos_def mount_def
  by (intro file_intros refresh_files)

abbreviation same_vms :: "'w btest \<Rightarrow> 'w btest \<Rightarrow> bool" where
  "same_vms s t \<equiv> bclone t = bclone s \<and> bmain t = bmain s \<and> bparams t = bparams s"

interpretation naming: state_relation same_vms
  by unfold_locales auto

lemma same_files_vms: "moves same_files m \<Longrightarrow> moves same_vms m"
  by (simp add: moves_def)

lemma snapshot_vms: "moves same_vms (stream_snapshot_test env sa)"
proof -
  have "moves same_files (create_snapshot env sa)" unfolding create_snapshot_def by (intro file_intros)
  then have "moves same_vms (create_snapshot env sa)" by (rule same_files_vms)
  moreover have "moves same_vms (tempfiles env f)" for f
    unfolding tempfiles_def snapshot_tempfile_def tempfile_def
    by (intro naming.composed same_files_vms[OF file_parts(2)] same_files_vms[OF file_parts(4)] same_files_vms[OF file_vms(1)] moves_modify) simp_all
  ultimately show ?thesis unfolding stream_snapshot_test_def by (intro naming.composed)
qed

lemma recorded_verified:
  assumes "verify_recorded env v t = (Inr (), t')" "(dir, names) \<in> set (files_info t)"
  shows "names \<noteq> [] \<and> file_verified env v dir (hd names)"
proof -
  have "for_each (files_info t) (\<lambda>(dir, names). bnd (lift_res (nth_res names 0)) (verify_file env v dir)) t = (Inr (), t')"
    using assms(1) by (simp add: verify_recorded_def bnd_def gets_def)
  from for_each_returned[OF this assms(2)] show ?thesis
    by (cases names) (auto simp: nth_res_def lift_res_def throw_def elim!: bnd_InrE dest: verify_file_returned)
qed

text \<open>The image was seen without a backing file.\<close>

definition standalone :: "'w bt_env \<Rightarrow> string \<Rightarrow> bool" where
  "standalone env tag \<longleftrightarrow> (\<exists>w out w' d. img_info env tag w = (Inr out, w') \<and> loads out = Some (PDict d) \<and> \<not> truthy (dget_default d ''backing-filename'' PNone))"

lemma backing_checked: "check_backing_file env sa t = (Inr (), t') \<Longrightarrow> standalone env (snapshot_tag sa)"
  unfolding standalone_def check_backing_file_def
  by (auto simp: lift_res_def py_assert_run call_run py_get_def elim!: bnd_InrE split: option.splits pyval.splits if_splits) (metis prod.collapse)

lemma stream_finished:
  assumes "wait_polls vm" "blockdev_stream vm vi obj rid dev opts s = (Inr (), s')"
  shows "job_finished vm (job_name dev rid)"
  using assms(2) by (rule stream_run) (rule run_and_wait_finished[OF assms(1)])

text \<open>
  A stream test that returned: the job that streams into the overlay (or, without block nodes, into the device) has completed, the
  overlay was then seen to have no backing file, and on the clone the digest of every file made before and after the snapshot agreed.
\<close>

lemma streamed_snapshot_verified:
  assumes "wait_polls (monitor_of env v)" "bmain t = Some v" "bclone t = Some c"
    and "stream_do_test env sa (test_blockdev_stream env sa options) t = (Inr (), t')"
  shows "(\<exists>dev. (dev = drive (snapshot_tag sa) \<or> (\<exists>d. dget (bparams t) ''device'' = Some d \<and> dev = str_of d))
      \<and> job_finished (monitor_of env v) (job_name dev (random_ids env 0)))
    \<and> standalone env (snapshot_tag sa)
    \<and> (\<exists>t1. stream_snapshot_test env sa t = (Inr (), t1)
        \<and> (\<forall>(dir, names) \<in> set (files_info t1). names \<noteq> [] \<and> file_verified env c dir (hd names)))"
proof -
  obtain t1 t2 t3 t4 t5 where run: "stream_snapshot_test env sa t = (Inr (), t1)" "test_blockdev_stream env sa options t1 = (Inr (), t2)"
    "check_backing_file env sa t2 = (Inr (), t3)" "bnd the_clone (create_vm env) t3 = (Inr (), t4)"
    "stream_mount_data_disks env sa t4 = (Inr (), t5)" "snapshot_verify_data_file env t5 = (Inr (), t')"
    using assms(4) unfolding stream_do_test_def by (elim bnd_unitE) blast
  have k1: "bclone t1 = Some c" "bmain t1 = Some v" "bparams t1 = bparams t"
    using movesD[OF snapshot_vms run(1)] assms(2,3) by auto
  have clone: "moves same_files (bnd the_clone (create_vm env))" unfolding create_vm_def by (intro file_intros)
  have k5: "files_info t5 = files_info t1" "bclone t5 = Some c"
    using movesD[OF stream_files run(2)] movesD[OF backing_files run(3)] movesD[OF clone run(4)] movesD[OF mount_files run(5)] k1 by auto
  have "verify_recorded env c t5 = (Inr (), t')"
    using run(6) k5(2) by (simp add: snapshot_verify_data_file_def bnd_def the_clone_def gets_def ret_def)
  then have files: "names \<noteq> [] \<and> file_verified env c dir (hd names)" if "(dir, names) \<in> set (files_info t1)" for dir names
    using recorded_verified that k5(1) by metis
  obtain dev opts t6 t7 where dev: "stream_target env sa options t1 = (Inr (dev, opts), t6)" "stream_job env dev opts t6 = (Inr (), t7)"
    using run(2) unfolding test_blockdev_stream_def by (auto elim!: bnd_InrE split: prod.splits)
  have "moves same_files (stream_target env sa options)" unfolding stream_target_def by (intro file_intros)
  from movesD[OF this dev(1)] have "bmain t6 = Some v" using k1 by simp
  then have "job_finished (monitor_of env v) (job_name dev (random_ids env 0))"
    using dev(2) by (auto simp: stream_job_def the_vm_Inr elim!: bnd_InrE dest!: on_host_Inr stream_finished[OF assms(1)])
  moreover have "dev = drive (snapshot_tag sa) \<or> (\<exists>d. dget (bparams t) ''device'' = Some d \<and> dev = str_of d)"
    using dev(1) k1(3) by (auto simp: stream_target_def is_blockdev_mode_def the_vm_Inr ask_run lift_res_def gets_def ret_def elim!: bnd_InrE split: if_splits)
  ultimately show ?thesis using files run(1) backing_checked[OF run(3)] by blast
qed

definition demo_snap :: snap_args where
  "demo_snap = \<lparr>snapshot_tag = ''sn1'', base_tag = ''data1''\<rparr>"

definition demo_stream :: "farm btest" where
  "demo_stream = (farm_test [(''os_type'', PStr ''linux''), (''images'', PStr ''image1 data1''), (''node'', PStr ''drive_data1'')]
      ([''vm1''], [Inr (PDict []), Inr (PDict []), Inr (PList []), Inr (PList [])],
      [[PDict [(''event'', PStr ''BLOCK_JOB_COMPLETED''), (''data'', PDict [(''device'', PStr ''drive_sn1_x'')])]]]))
     \<lparr>bmain := Some ''vm1'', bclone := Some ''vm1_clone'', disks_info := [(''data1'', [''/dev/sdb1'', ''/mnt/sdb''])]\<rparr>"

lemma streamed_snapshot_verified_example:
  "\<exists>t'. stream_do_test farm_env demo_snap (test_blockdev_stream farm_env demo_snap []) demo_stream = (Inr (), t')
    \<and> standalone farm_env ''sn1'' \<and> file_verified farm_env ''vm1_clone'' ''/mnt/sdb'' ''base'' \<and> file_verified farm_env ''vm1_clone'' ''/mnt/sdb'' ''sn1''"
proof -
  let ?r = "stream_do_test farm_env demo_snap (test_blockdev_stream farm_env demo_snap []) demo_stream"
  have "fst ?r = Inr ()" by code_simp
  then have r: "?r = (Inr (), snd ?r)" by (metis prod.collapse)
  have d: "bmain demo_stream = Some ''vm1''" "bclone demo_stream = Some ''vm1_clone''" "snapshot_tag demo_snap = ''sn1''"
    by (simp_all add: demo_stream_def farm_test_def demo_snap_def)
  have w: "wait_polls (monitor_of farm_env ''vm1'')" using farm_polls by simp
  have f: "files_info (snd (stream_snapshot_test farm_env demo_snap demo_stream)) = [(''/mnt/sdb'', [''base'']), (''/mnt/sdb'', [''sn1''])]" by code_simp
  obtain t1 where "stream_snapshot_test farm_env demo_snap demo_stream = (Inr (), t1)" "standalone farm_env ''sn1''"
    "\<forall>(dir, names) \<in> set (files_info t1). names \<noteq> [] \<and> file_verified farm_env ''vm1_clone'' dir (hd names)"
    using streamed_snapshot_verified[OF w d(1,2) r, unfolded d(3)] by blast
  then show ?thesis using r f by auto
qed

end
