(* ===== verification/Blockdev_Commit.thy ===== *)
theory Blockdev_Commit
  imports Blockdev_Snapshot
begin

text \<open>
  The test of commits (\<^verbatim>\<open>provider/blockdev_commit_base.py\<close>): a chain of snapshots on every device, and a job that commits the layers
  below the top into the device.
\<close>

section \<open>The test\<close>

definition commit_init :: "'w bt_env \<Rightarrow> ('w btest, unit) py" where
  "commit_init env = get_main env"

text \<open>The images of the snapshots are the images to remove; they are those of the device that was prepared last.\<close>

definition prepare_snapshot_files :: "'w bt_env \<Rightarrow> string list \<Rightarrow> ('w btest, unit) py" where
  "prepare_snapshot_files env tags =
     bnd (modify (\<lambda>t. t\<lparr>trash := map QemuImg tags\<rparr>)) (\<lambda>_. for_each tags (plug_snapshot env))"

definition commit_verify_data_file :: "'w bt_env \<Rightarrow> ('w btest, unit) py" where
  "commit_verify_data_file env = bnd the_main (verify_recorded env)"

text \<open>The command for one snapshot on top of the node before it, and the files that tell the layers apart.\<close>

definition layer_command :: "'w bt_env \<Rightarrow> pydict \<Rightarrow> string \<Rightarrow> string \<Rightarrow> pydict" where
  "layer_command env params below tag =
     dset ''node'' (PStr below) (dset ''overlay'' (PStr (drive tag)) (copy_from_keys env (obj_params env params tag) [''node'', ''overlay'']))"

definition layer_files :: "'w bt_env \<Rightarrow> string \<Rightarrow> string \<Rightarrow> ('w btest, unit) py" where
  "layer_files env device tag =
     bnd (gets disks_info) (\<lambda>ds.
       for_each ds (\<lambda>(_, info). if device \<in> set info then bnd (lift_res (nth_res info 1)) (\<lambda>dir. snapshot_tempfile env dir tag) else ret ()))"

fun create_snapshots :: "'w bt_env \<Rightarrow> string \<Rightarrow> string \<Rightarrow> string list \<Rightarrow> ('w btest, unit) py" where
  "create_snapshots env device below [] = ret ()"
| "create_snapshots env device below (tag # tags) =
     bnd (gets bparams) (\<lambda>params.
     bnd the_main (\<lambda>v.
     bnd (on_host (monitor_cmd (monitor_of env v) ''blockdev-snapshot'' (layer_command env params below tag))) (\<lambda>_.
     bnd (layer_files env device tag) (\<lambda>_. create_snapshots env device (drive tag) tags))))"

definition commit_configure_disk :: "'w bt_env \<Rightarrow> string \<Rightarrow> ('w btest, unit) py" where
  "commit_configure_disk env tag =
     bnd (gets bparams) (\<lambda>params.
     bnd (lift_res (is_system_disk params tag)) (\<lambda>system.
     bnd (if system then bnd (lift_res (dindex params ''mount_point'')) (\<lambda>m. ret [[], str_of m]) else configured_disk env tag) (\<lambda>info.
       modify (\<lambda>t. t\<lparr>disks_info := disks_info t @ [(tag, info @ [tag])]\<rparr>))))"

definition device_snapshots :: "'w bt_env \<Rightarrow> pydict \<Rightarrow> string \<Rightarrow> string list res" where
  "device_snapshots env params device =
     rbind (dindex (obj_params env params device) ''snapshot_tags'') (\<lambda>v. Inr (split_ws (str_of v)))"

definition devices :: "pydict \<Rightarrow> string list res" where
  "devices params = rbind (dindex params ''device_tag'') (\<lambda>v. Inr (split_ws (str_of v)))"

definition commit_prepare_device :: "'w bt_env \<Rightarrow> pydict \<Rightarrow> string \<Rightarrow> ('w btest, unit) py" where
  "commit_prepare_device env params device =
     bnd (lift_res (device_snapshots env params device)) (\<lambda>tags.
     bnd (commit_configure_disk env device) (\<lambda>_.
     bnd (prepare_snapshot_files env tags) (\<lambda>_. create_snapshots env device (drive device) tags)))"

definition commit_pre_test :: "'w bt_env \<Rightarrow> ('w btest, unit) py" where
  "commit_pre_test env =
     bnd (start_main env) (\<lambda>_.
     bnd (gets bparams) (\<lambda>params.
     bnd (lift_res (devices params)) (\<lambda>ds. for_each ds (commit_prepare_device env params))))"

definition commit_arguments :: "'w bt_env \<Rightarrow> pydict \<Rightarrow> string \<Rightarrow> string list \<Rightarrow> (string \<times> pydict) res" where
  "commit_arguments env params device tags =
     (if length tags < 2 then Inl IndexError
      else Inr (drive (last tags),
                dset ''top-node'' (PStr (drive (tags ! (length tags - 2))))
                  (dset ''base-node'' (PStr (drive device)) (copy_from_keys env params [''base-node'', ''top-node'', ''speed'']))))"

definition start_commit :: "'w bt_env \<Rightarrow> string \<Rightarrow> nat \<Rightarrow> string \<Rightarrow> pydict \<Rightarrow> ('w btest, string) py" where
  "start_commit env v idx device arguments =
     bnd (lift_res (block_commit_qmp_cmd (random_ids env idx) device arguments)) (\<lambda>(cmd, args).
     let c = (cmd, set_default_block_job_options (version_in env) (obj_of env v) args) in
     bnd (on_host (run_command (monitor_of env v) c)) (\<lambda>_. ret (job_id_of c device)))"

definition commit_device :: "'w bt_env \<Rightarrow> pydict \<Rightarrow> nat \<Rightarrow> nat \<times> string \<Rightarrow> ('w btest, string list) py" where
  "commit_device env params count d =
     (case d of (idx, device) \<Rightarrow>
     bnd (lift_res (device_snapshots env params device)) (\<lambda>tags.
     bnd (lift_res (commit_arguments env params device tags)) (\<lambda>(top, arguments).
     bnd the_main (\<lambda>v.
       if count = 1
       then bnd (on_host (block_commit (monitor_of env v) (version_in env) (obj_of env v) (random_ids env idx) top arguments)) (\<lambda>_. ret [])
       else bnd (start_commit env v idx top arguments) (\<lambda>job. ret [job])))))"

definition commit_snapshots :: "'w bt_env \<Rightarrow> ('w btest, unit) py" where
  "commit_snapshots env =
     bnd (gets bparams) (\<lambda>params.
     bnd (lift_res (devices params)) (\<lambda>ds.
     bnd (map_each (enumerate 0 ds) (commit_device env params (length ds))) (\<lambda>jobs.
     bnd the_main (\<lambda>v.
       for_each (concat jobs) (\<lambda>job. on_host (wait_until_block_job_completed (monitor_of env v) job 900))))))"

definition commit_post_test :: "'w bt_env \<Rightarrow> ('w btest, unit) py" where
  "commit_post_test env =
     logged (bnd (bnd the_main (destroy_vm env)) (\<lambda>_.
       bnd (gets trash) (\<lambda>images.
         for_each images (\<lambda>img. case img of QemuImg tag \<Rightarrow> call ''remove_image'' [tag] (img_remove env tag) | Volume i \<Rightarrow> ret ()))))"

definition commit_run_test :: "'w bt_env \<Rightarrow> ('w btest, unit) py" where
  "commit_run_test env =
     run_template (commit_pre_test env) (bnd (commit_snapshots env) (\<lambda>_. commit_verify_data_file env)) (commit_post_test env)"


section \<open>The chain of layers\<close>

definition layers :: "'w btest \<Rightarrow> (string \<times> pydict) list" where
  "layers t = filter (\<lambda>c. fst c = ''blockdev-snapshot'') (blog t)"

abbreviation same_layers :: "'w btest \<Rightarrow> 'w btest \<Rightarrow> bool" where
  "same_layers s t \<equiv> layers t = layers s \<and> bparams t = bparams s \<and> bmain t = bmain s \<and> trash t = trash s"

interpretation layering: state_relation same_layers
  by unfold_locales auto

lemma sends_on_world [intro!]: "P e \<Longrightarrow> sends P (on_world e f)"
  by (simp add: sends_def on_world_run)

lemma sends_tempfile: "sends (\<lambda>c. fst c \<noteq> ''blockdev-snapshot'') (generate_tempfile vm h mb p root f z)"
  unfolding generate_tempfile_def wait_for_login_def session_cmd_def close_session_def
  by (intro sends_fail_on sends_bnd sends_simple sends_finally sends_on_world) (auto intro!: sends_bnd sends_finally)

lemma on_host_layers:
  fixes f :: "('w vst, 'a) py"
  assumes "sends (\<lambda>c. fst c \<noteq> ''blockdev-snapshot'') f"
  shows "moves same_layers (on_host f)"
proof (rule movesI)
  fix t :: "'w btest"
  obtain cs where "sent (snd (f (st_vm (bst t)))) = sent (st_vm (bst t)) @ cs" "list_all (\<lambda>c. fst c \<noteq> ''blockdev-snapshot'') cs"
    using assms unfolding sends_def by blast
  then show "same_layers t (snd (on_host f t))" by (auto simp: on_host_run layers_def blog_def list_all_iff filter_empty_conv)
qed

lemma layer_files_keep: "moves same_layers (layer_files env device tag)"
  unfolding layer_files_def snapshot_tempfile_def tempfile_def the_main_def ask_def
  by (intro layering.composed on_host_layers sends_tempfile moves_modify) (auto simp: layers_def blog_def)

lemma create_snapshots_chain:
  assumes "create_snapshots env device below tags t = (Inr (), t')"
  shows "layers t' = layers t @ map (\<lambda>(b, tag). (''blockdev-snapshot'', layer_command env (bparams t) b tag)) (zip (below # map drive tags) tags)
    \<and> bparams t' = bparams t \<and> bmain t' = bmain t \<and> trash t' = trash t"
  using assms
proof (induction tags arbitrary: below t)
  case Nil
  then show ?case by (simp add: ret_def)
next
  case (Cons tag tags)
  obtain v r t1 t2 where v: "on_host (monitor_cmd (monitor_of env v) ''blockdev-snapshot'' (layer_command env (bparams t) below tag)) t = (Inr r, t1)"
    "layer_files env device tag t1 = (Inr (), t2)" "create_snapshots env device (drive tag) tags t2 = (Inr (), t')"
    using Cons.prems by (auto simp: gets_def the_vm_Inr elim!: bnd_InrE)
  have "layers t1 = layers t @ [(''blockdev-snapshot'', layer_command env (bparams t) below tag)] \<and> bparams t1 = bparams t \<and> bmain t1 = bmain t \<and> trash t1 = trash t"
    using v(1) by (auto simp: on_host_run layers_def blog_def monitor_cmd_def split: prod.splits)
  then show ?case using movesD[OF layer_files_keep v(2)] Cons.IH[OF v(3)] by simp
qed

section \<open>The committed layers\<close>

lemma commit_fields:
  assumes "block_commit_qmp_cmd rid dev opts = Inr (c, a)" "dget opts k = Some (PStr x)" "k \<in> {''base-node'', ''top-node''}"
  shows "dget (set_default_block_job_options vi obj a) k = Some (PStr x)"
proof -
  obtain b where b: "copy_out_dict_if_exists opts COMMIT_OPTIONS = Inr b"
    "a = dset ''job-id'' (PStr (job_name dev rid)) (dset ''device'' (PStr dev) b)"
    using assms(1) by (auto simp: block_commit_qmp_cmd_def elim!: rbind_InrE)
  have k: "k \<notin> set INT_KEYS" "k \<notin> set BOOL_KEYS" "k \<in> set COMMIT_OPTIONS" "k \<noteq> ''job-id''" "k \<noteq> ''device''"
    using assms(3) by (simp_all add: INT_KEYS_def BOOL_KEYS_def COMMIT_OPTIONS_def) auto
  then have "convert_option k (PStr x) = Inr (PStr x)" by (simp add: convert_option_def)
  then have "dget b k = Some (PStr x)" using copy_out_dict_spec[OF b(1)] assms(2) k(3) by simp
  then show ?thesis using b(2) k(4,5) by (intro dget_set_default) simp
qed

text \<open>A commit command for the layers of a device was sent: from the layer below the top down to the device.\<close>

definition commit_sent :: "string \<Rightarrow> string list \<Rightarrow> string \<Rightarrow> string \<times> pydict \<Rightarrow> bool" where
  "commit_sent device tags job c \<longleftrightarrow> fst c = ''block-commit'' \<and> dget (snd c) ''device'' = Some (PStr (drive (last tags)))
     \<and> dget (snd c) ''top-node'' = Some (PStr (drive (tags ! (length tags - 2)))) \<and> dget (snd c) ''base-node'' = Some (PStr (drive device))
     \<and> dget (snd c) ''job-id'' = Some (PStr job)"

abbreviation grown :: "'w btest \<Rightarrow> 'w btest \<Rightarrow> bool" where
  "grown s t \<equiv> prefix (blog s) (blog t) \<and> bparams t = bparams s \<and> bmain t = bmain s \<and> trash t = trash s"

interpretation growth: state_relation grown
  by unfold_locales auto

lemma on_host_grown:
  fixes f :: "('w vst, 'a) py"
  assumes "sends P f"
  shows "moves grown (on_host f)"
proof (rule movesI)
  fix t :: "'w btest"
  obtain cs where "sent (snd (f (st_vm (bst t)))) = sent (st_vm (bst t)) @ cs" using assms unfolding sends_def by blast
  then show "grown t (snd (on_host f t))" by (simp add: on_host_run blog_def)
qed

lemma wait_grown: "wait_polls vm \<Longrightarrow> moves grown (on_host (wait_until_block_job_completed vm i n))"
  by (rule on_host_grown[OF sends_wait_completed])

lemma commit_grown: "wait_polls vm \<Longrightarrow> moves grown (on_host (block_commit vm vi obj rid dev opts))"
  unfolding block_commit_def run_command_def
  by (rule on_host_grown[where P = "\<lambda>_. True"])
    (auto intro!: sends_fail_on sends_bnd sends_cmd sends_mono[OF sends_wait_completed] simp: Let_def split: prod.splits)

lemma commit_device_grown: "(\<And>v. wait_polls (monitor_of env v)) \<Longrightarrow> moves grown (commit_device env params n d)"
  unfolding commit_device_def start_commit_def the_main_def run_command_def Let_def
  by (cases d) (auto intro!: growth.composed commit_grown on_host_grown[OF sends_cmd[where P = "\<lambda>_. True"]] split: prod.splits)

lemma map_each_grown:
  assumes "\<And>x. moves grown (f x)"
  shows "moves grown (map_each xs f)"
  by (induction xs) (auto intro!: growth.composed assms)

text \<open>One device: with one device the job has completed, with several it has been started and its name is kept.\<close>

lemma commit_device_run:
  assumes "wait_polls (monitor_of env v)" "commit_device env params n (i, device) t = (Inr jobs, t')" "bmain t = Some v"
  shows "\<exists>tags c. device_snapshots env params device = Inr tags \<and> 2 \<le> length tags
    \<and> commit_sent device tags (job_name (drive (last tags)) (random_ids env i)) c \<and> c \<in> set (blog t')
    \<and> (if n = 1 then job_finished (monitor_of env v) (job_name (drive (last tags)) (random_ids env i))
       else jobs = [job_name (drive (last tags)) (random_ids env i)])"
proof -
  let ?vm = "monitor_of env v"
  obtain tags where tags: "device_snapshots env params device = Inr tags" "2 \<le> length tags"
    using assms(2) by (auto simp: commit_device_def commit_arguments_def lift_res_def throw_def elim!: bnd_InrE split: if_splits)
  have m: "the_main t = (Inr v, t)" using assms(3) by (simp add: the_vm_Inr)
  define top where "top = drive (last tags)"
  define arguments where "arguments = dset ''top-node'' (PStr (drive (tags ! (length tags - 2))))
     (dset ''base-node'' (PStr (drive device)) (copy_from_keys env params [''base-node'', ''top-node'', ''speed'']))"
  have run: "(if n = 1
       then bnd (on_host (block_commit ?vm (version_in env) (obj_of env v) (random_ids env i) top arguments)) (\<lambda>_. ret [])
       else bnd (start_commit env v i top arguments) (\<lambda>job. ret [job])) t = (Inr jobs, t')"
    using assms(2) tags by (simp add: commit_device_def commit_arguments_def bnd_Inr[of the_main, OF m] top_def arguments_def split: if_splits)
  have args: "dget arguments ''base-node'' = Some (PStr (drive device))" "dget arguments ''top-node'' = Some (PStr (drive (tags ! (length tags - 2))))"
    by (simp_all add: arguments_def)
  have sent: "commit_sent device tags (job_name top (random_ids env i)) (c, set_default_block_job_options vi obj a)"
    if "block_commit_qmp_cmd (random_ids env i) top arguments = Inr (c, a)" for c a vi obj
    using commit_cmd_spec[OF that] commit_fields[OF that args(1)] commit_fields[OF that args(2)]
    by (simp add: commit_sent_def top_def dget_set_default)
  show ?thesis
  proof (cases "n = 1")
    case True
    then obtain s' where b: "block_commit ?vm (version_in env) (obj_of env v) (random_ids env i) top arguments (st_vm (bst t)) = (Inr (), s')" "s' = st_vm (bst t')"
      using run by (auto simp: ret_def elim!: bnd_InrE dest!: on_host_Inr)
    obtain c a r s1 n' where c: "block_commit_qmp_cmd (random_ids env i) top arguments = Inr (c, a)"
      "monitor_cmd ?vm c (set_default_block_job_options (version_in env) (obj_of env v) a) (st_vm (bst t)) = (Inr r, s1)"
      "wait_until_block_job_completed ?vm (job_id_of (c, set_default_block_job_options (version_in env) (obj_of env v) a) top) n' s1 = (Inr (), s')"
      using b(1) by (auto simp: block_commit_def run_command_def lift_res_def Let_def elim!: bnd_InrE split: prod.splits)
    have "job_finished ?vm (job_name top (random_ids env i))"
      using b(1) by (rule commit_run) (rule run_and_wait_finished[OF assms(1)])
    moreover have "(c, set_default_block_job_options (version_in env) (obj_of env v) a) \<in> set (sent s1)"
      using c(2) by (auto simp: monitor_cmd_def split: prod.splits)
    then have "(c, set_default_block_job_options (version_in env) (obj_of env v) a) \<in> set (blog t')"
      using sends_wait_completed[OF assms(1)] c(3) b(2) unfolding sends_def blog_def by (metis UnCI set_append snd_conv)
    ultimately show ?thesis using True tags sent[OF c(1)] unfolding top_def by auto
  next
    case False
    then obtain c a r where c: "block_commit_qmp_cmd (random_ids env i) top arguments = Inr (c, a)"
      "on_host (monitor_cmd ?vm c (set_default_block_job_options (version_in env) (obj_of env v) a)) t = (Inr r, t')"
      "jobs = [job_id_of (c, set_default_block_job_options (version_in env) (obj_of env v) a) top]"
      using run by (auto simp: start_commit_def run_command_def lift_res_def Let_def ret_def elim!: bnd_InrE split: prod.splits)
    note s = sent[OF c(1), of "version_in env" "obj_of env v"]
    have "jobs = [job_name top (random_ids env i)]" using c(3) job_id_of_eq s by (simp add: commit_sent_def)
    moreover have "(c, set_default_block_job_options (version_in env) (obj_of env v) a) \<in> set (blog t')"
      using c(2) by (auto simp: on_host_run blog_def monitor_cmd_def split: prod.splits)
    ultimately show ?thesis using False tags s unfolding top_def by auto
  qed
qed

lemma map_each_at:
  assumes "\<And>x. moves grown (f x)" "map_each xs f s = (Inr ys, s')" "i < length xs"
  shows "\<exists>s1 s2. grown s s1 \<and> f (xs ! i) s1 = (Inr (ys ! i), s2) \<and> grown s2 s' \<and> length ys = length xs"
  using assms(2,3)
proof (induction xs arbitrary: s ys i)
  case (Cons x xs)
  then obtain y zs s1 where y: "f x s = (Inr y, s1)" "map_each xs f s1 = (Inr zs, s')" "ys = y # zs"
    by (auto simp: ret_def elim!: bnd_InrE)
  have g: "grown s s1" "grown s1 s'" using movesD[OF assms(1) y(1)] movesD[OF map_each_grown[OF assms(1)] y(2)] by auto
  show ?case
  proof (cases i)
    case 0
    then show ?thesis using y g map_each_returned[OF y(2)] by (intro exI[of _ s] exI[of _ s1]) simp
  next
    case (Suc j)
    then obtain s2 s3 where "grown s1 s2" "f (xs ! j) s2 = (Inr (zs ! j), s3)" "grown s3 s'" "length zs = length xs"
      using Cons.IH[OF y(2), of j] Cons.prems(2) by auto
    then show ?thesis using y g Suc by (intro exI[of _ s2] exI[of _ s3]) (auto intro: prefix_order.trans)
  qed
qed simp

text \<open>
  C13.  Commits that returned: every device has at least two snapshots; a command was sent for it that commits from the snapshot below the top
  one down to the device, and its job has completed, whether there is one device or several.
\<close>

theorem commits_finished:
  assumes "\<And>v. wait_polls (monitor_of env v)" "bmain t = Some v" "commit_snapshots env t = (Inr (), t')"
  shows "\<exists>ds. devices (bparams t) = Inr ds \<and> (\<forall>i < length ds. \<exists>tags c. device_snapshots env (bparams t) (ds ! i) = Inr tags \<and> 2 \<le> length tags
    \<and> commit_sent (ds ! i) tags (job_name (drive (last tags)) (random_ids env i)) c \<and> c \<in> set (blog t')
    \<and> job_finished (monitor_of env v) (job_name (drive (last tags)) (random_ids env i)))"
proof -
  let ?wait = "\<lambda>v job. on_host (wait_until_block_job_completed (monitor_of env v) job 900)"
  obtain ds jobs t1 u t2 where ds: "devices (bparams t) = Inr ds" "map_each (enumerate 0 ds) (commit_device env (bparams t) (length ds)) t = (Inr jobs, t1)"
    "the_main t1 = (Inr u, t2)" "for_each (concat jobs) (?wait u) t2 = (Inr (), t')"
    using assms(3) unfolding commit_snapshots_def by (auto simp: gets_def lift_res_def elim!: bnd_InrE)
  have g: "moves grown (commit_device env (bparams t) (length ds) x)" for x by (rule commit_device_grown[OF assms(1)])
  have "bmain t1 = Some v" using movesD[OF map_each_grown[OF g] ds(2)] assms(2) by simp
  then have w: "for_each (concat jobs) (?wait v) t1 = (Inr (), t')" using ds(3,4) by (simp add: the_vm_Inr)
  have g1: "grown t1 t'" using movesD[OF growth.each[OF wait_grown[OF assms(1)]] w] .
  have fin: "job_finished (monitor_of env v) j" if "j \<in> set (concat jobs)" for j
    using for_each_returned[OF w that] wait_completed_seen[OF assms(1)] unfolding job_finished_def by (fastforce dest!: on_host_Inr)
  have "\<exists>tags c. device_snapshots env (bparams t) (ds ! i) = Inr tags \<and> 2 \<le> length tags
    \<and> commit_sent (ds ! i) tags (job_name (drive (last tags)) (random_ids env i)) c \<and> c \<in> set (blog t')
    \<and> job_finished (monitor_of env v) (job_name (drive (last tags)) (random_ids env i))" if i: "i < length ds" for i
  proof -
    obtain s1 s2 where s: "grown t s1" "commit_device env (bparams t) (length ds) (i, ds ! i) s1 = (Inr (jobs ! i), s2)" "grown s2 t1" "length jobs = length ds"
      using map_each_at[OF g ds(2), of i] i by (auto simp: nth_enumerate_eq)
    have "bmain s1 = Some v" using s(1) assms(2) by simp
    from commit_device_run[OF assms(1) s(2) this] obtain tags c where c: "device_snapshots env (bparams t) (ds ! i) = Inr tags" "2 \<le> length tags"
      "commit_sent (ds ! i) tags (job_name (drive (last tags)) (random_ids env i)) c" "c \<in> set (blog s2)"
      "if length ds = 1 then job_finished (monitor_of env v) (job_name (drive (last tags)) (random_ids env i))
       else jobs ! i = [job_name (drive (last tags)) (random_ids env i)]" by blast
    have "jobs ! i \<in> set jobs" using s(4) i by simp
    then have "job_finished (monitor_of env v) (job_name (drive (last tags)) (random_ids env i))"
      using c(5) fin by (auto split: if_splits) (metis list.set_intros(1))
    moreover have "c \<in> set (blog t')" using c(4) s(3) g1 by (auto dest!: set_mono_prefix)
    ultimately show ?thesis using c by blast
  qed
  then show ?thesis using ds(1) by blast
qed

section \<open>The images that are left\<close>

abbreviation same_trash :: "'w btest \<Rightarrow> 'w btest \<Rightarrow> bool" where
  "same_trash s t \<equiv> bparams t = bparams s \<and> bmain t = bmain s \<and> trash t = trash s"

interpretation trashing: state_relation same_trash
  by unfold_locales auto

lemma trash_parts [intro!]:
  "moves same_trash (on_storage f)" "moves same_trash (on_host g)" "moves same_trash (call n a h)" "moves same_trash (ask k)"
  by (auto simp: moves_def on_storage_def on_host_def call_def ask_def gets_def split: prod.split)

lemmas trash_intros = trashing.composed trashing.ensured trash_parts

lemma trash_main: "moves same_trash the_main" "moves same_trash is_windows"
  unfolding the_main_def is_windows_def by (intro trash_intros)+

lemma tempfile_trash: "moves same_trash (snapshot_tempfile env dir f)"
  unfolding snapshot_tempfile_def tempfile_def by (intro trash_intros trash_main moves_modify) simp_all

lemma create_trash: "moves same_trash (create_snapshots env device below tags)"
  by (induction tags arbitrary: below) (auto simp: layer_files_def intro!: trash_intros trash_main tempfile_trash)

lemma start_trash: "moves same_trash (start_main env)"
  unfolding start_main_def create_vm_def verify_alive_def by (intro trash_intros trash_main)

lemma configured_disk_trash: "moves same_trash (configured_disk env tag)"
  unfolding configured_disk_def with_session_def Let_def py_assert_def by (intro trash_intros trash_main)

lemma configure_trash: "moves same_trash (commit_configure_disk env tag)"
  unfolding commit_configure_disk_def by (intro trash_intros configured_disk_trash moves_modify) simp_all

lemma plug_trash: "moves same_trash (plug_snapshot env tag)"
  unfolding plug_snapshot_def define_volume_def by (intro trash_intros trash_main)

lemma commit_body_trash: "moves same_trash (bnd (commit_snapshots env) (\<lambda>_. commit_verify_data_file env))"
proof -
  have "moves same_trash (map_each xs (commit_device env params n))" for xs params n
    unfolding commit_device_def start_commit_def Let_def by (induction xs) (auto intro!: trash_intros trash_main)
  then show ?thesis unfolding commit_snapshots_def commit_verify_data_file_def verify_recorded_def verify_file_def
    by (intro trash_intros trash_main)
qed

text \<open>Each device that is prepared puts its own snapshots in the place of those before.\<close>

lemma prepare_device_trash:
  assumes "commit_prepare_device env params d t = (Inr (), t')"
  shows "bparams t' = bparams t \<and> bmain t' = bmain t \<and> (\<exists>tags. device_snapshots env params d = Inr tags \<and> trash t' = map QemuImg tags)"
proof -
  obtain tags t1 t2 where d: "device_snapshots env params d = Inr tags" "commit_configure_disk env d t = (Inr (), t1)"
    "for_each tags (plug_snapshot env) (t1\<lparr>trash := map QemuImg tags\<rparr>) = (Inr (), t2)" "create_snapshots env d (drive d) tags t2 = (Inr (), t')"
    using assms by (auto simp: commit_prepare_device_def lift_res_def prepare_snapshot_files_def modify_def elim!: bnd_InrE)
  show ?thesis
    using movesD[OF configure_trash d(2)] movesD[OF trashing.each[OF plug_trash] d(3)] movesD[OF create_trash d(4)] d(1) by simp
qed

lemma prepare_devices_trash:
  assumes "for_each ds (commit_prepare_device env params) t = (Inr (), t')"
  shows "bparams t' = bparams t \<and> bmain t' = bmain t
    \<and> (ds \<noteq> [] \<longrightarrow> (\<exists>tags. device_snapshots env params (last ds) = Inr tags \<and> trash t' = map QemuImg tags))"
  using assms
proof (induction ds arbitrary: t)
  case (Cons d ds)
  obtain t1 where t1: "commit_prepare_device env params d t = (Inr (), t1)" "for_each ds (commit_prepare_device env params) t1 = (Inr (), t')"
    using Cons.prems by (auto elim!: bnd_InrE)
  then show ?case using Cons.IH[OF t1(2)] prepare_device_trash[OF t1(1)] by (cases ds) (auto simp: ret_def)
qed (simp add: ret_def)

lemma remove_each_log:
  "\<exists>n. blog (snd (for_each (map QemuImg tags) (\<lambda>img. case img of QemuImg tag \<Rightarrow> call ''remove_image'' [tag] (img_remove env tag) | Volume i \<Rightarrow> ret ()) t))
     = blog t @ map (\<lambda>tag. called ''remove_image'' [tag]) (take n tags)"
proof (induction tags arbitrary: t)
  case (Cons tag tags)
  obtain r t1 where c: "call ''remove_image'' [tag] (img_remove env tag) t = (r, t1)" by fastforce
  obtain n where n: "blog (snd (for_each (map QemuImg tags) (\<lambda>img. case img of QemuImg tag \<Rightarrow> call ''remove_image'' [tag] (img_remove env tag) | Volume i \<Rightarrow> ret ()) t1))
     = blog t1 @ map (\<lambda>tag. called ''remove_image'' [tag]) (take n tags)" using Cons.IH by blast
  show ?case
  proof (cases r)
    case (Inl e)
    then show ?thesis using c call_log[OF c] by (intro exI[of _ 1]) (simp add: bnd_def)
  next
    case (Inr u)
    then show ?thesis using c call_log[OF c] n by (intro exI[of _ "Suc n"]) (simp add: bnd_def)
  qed
qed (simp add: ret_def)

lemma logged_state: "snd (logged m t) = snd (m t)"
  by (cases "m t") (auto simp: logged_def try_except_def ret_def split: sum.split exc.split)

text \<open>
  The clean-up of a commit test removes at most the snapshots of the device that was prepared last, in their order until one cannot be
  removed: the snapshots of the other devices stay on the host.
\<close>

lemma commit_leaves_snapshots:
  assumes "commit_pre_test env t = (Inr (), t1)" "devices (bparams t) = Inr (ds @ [d])" "device_snapshots env (bparams t) d = Inr tags"
    and "bmain t = Some v" "bnd (commit_snapshots env) (\<lambda>_. commit_verify_data_file env) t1 = (r, t2)"
  shows "\<exists>n. blog (snd (commit_run_test env t)) = blog t2 @ called ''destroy'' [v] # map (\<lambda>tag. called ''remove_image'' [tag]) (take n tags)"
proof -
  obtain t0 where t0: "start_main env t = (Inr (), t0)" "for_each (ds @ [d]) (commit_prepare_device env (bparams t)) t0 = (Inr (), t1)"
  proof -
    obtain t0 where s: "start_main env t = (Inr (), t0)"
      "bnd (gets bparams) (\<lambda>params. bnd (lift_res (devices params)) (\<lambda>ds. for_each ds (commit_prepare_device env params))) t0 = (Inr (), t1)"
      using assms(1)[unfolded commit_pre_test_def] by (rule bnd_unitE)
    from movesD[OF start_trash s(1)] have "bparams t0 = bparams t" by simp
    then show thesis using that[OF s(1)] s(2) assms(2) by (simp add: bnd_def gets_def lift_res_def)
  qed
  from movesD[OF start_trash t0(1)] have "bmain t0 = Some v" using assms(4) by simp
  then have t1: "bmain t1 = Some v" "trash t1 = map QemuImg tags" using prepare_devices_trash[OF t0(2)] assms(3) by auto
  then have t2: "bmain t2 = Some v" "trash t2 = map QemuImg tags" using movesD[OF commit_body_trash assms(5)] by auto
  let ?rm = "\<lambda>img. case img of QemuImg tag \<Rightarrow> call ''remove_image'' [tag] (img_remove env tag) | Volume i \<Rightarrow> ret ()"
  obtain r3 t3 where d: "destroy_vm env v t2 = (r3, t3)" by fastforce
  have l3: "blog t3 = blog t2 @ [called ''destroy'' [v]]" "trash t3 = map QemuImg tags"
    using call_log[OF d[unfolded destroy_vm_def]] movesD[OF tables_parts(3) d[unfolded destroy_vm_def]] t2 by auto
  have "\<exists>n. blog (snd (commit_post_test env t2)) = blog t2 @ called ''destroy'' [v] # map (\<lambda>tag. called ''remove_image'' [tag]) (take n tags)"
  proof (cases r3)
    case (Inl e)
    then show ?thesis using d l3 t2(1)
      by (intro exI[of _ 0]) (simp add: commit_post_test_def logged_state bnd_def the_main_def gets_def ret_def)
  next
    case (Inr u)
    then have "snd (commit_post_test env t2) = snd (for_each (map QemuImg tags) ?rm t3)"
      using d l3 t2(1) by (simp add: commit_post_test_def logged_state bnd_def the_main_def gets_def ret_def)
    then show ?thesis using remove_each_log[of tags env t3] l3 by simp
  qed
  moreover have "snd (commit_run_test env t) = snd (commit_post_test env t2)"
    using assms(1,5) by (simp add: commit_run_test_def run_template_def bnd_Inr[of "commit_pre_test env", OF assms(1)] try_finally_def split: prod.split sum.split)
  ultimately show ?thesis by simp
qed

definition demo_commit_params :: pydict where
  "demo_commit_params = [(''main_vm'', PStr ''vm1''), (''os_type'', PStr ''linux''), (''images'', PStr ''image1 data1''), (''image_size'', PStr ''2G''),
     (''device_tag'', PStr ''data1 data1''), (''snapshot_tags'', PStr ''sn1 sn2'')]"

definition demo_event :: pyval where
  "demo_event = PDict [(''event'', PStr ''BLOCK_JOB_COMPLETED''), (''data'', PDict [(''device'', PStr ''drive_sn2_x'')])]"

definition demo_commit :: "farm btest" where
  "demo_commit = (farm_test demo_commit_params ([''vm1''], replicate 8 (Inr (PList [])), [[demo_event], [demo_event]]))\<lparr>bmain := Some ''vm1''\<rparr>"

lemma farm_all_poll: "wait_polls (monitor_of farm_env v)"
  using farm_polls by simp

theorem commits_finished_witness:
  "\<exists>t' tags. commit_snapshots farm_env demo_commit = (Inr (), t') \<and> devices demo_commit_params = Inr [''data1'', ''data1'']
    \<and> device_snapshots farm_env demo_commit_params ''data1'' = Inr tags
    \<and> job_finished farm_monitor (job_name (drive (last tags)) ''x'')"
proof -
  let ?r = "commit_snapshots farm_env demo_commit"
  have "fst ?r = Inr ()" by code_simp
  then have r: "?r = (Inr (), snd ?r)" by (metis prod.collapse)
  have m: "bmain demo_commit = Some ''vm1''" "bparams demo_commit = demo_commit_params" by (simp_all add: demo_commit_def farm_test_def)
  have d: "devices demo_commit_params = Inr [''data1'', ''data1'']" by code_simp
  obtain tags where "device_snapshots farm_env demo_commit_params ''data1'' = Inr tags" "job_finished farm_monitor (job_name (drive (last tags)) ''x'')"
    using commits_finished[OF farm_all_poll m(1) r, unfolded m(2) d farm_fields] by auto
  then show ?thesis using r d by blast
qed

text \<open>Two devices, of which the first has a snapshot, and the replies to the commands that plug it: the clean-up removes nothing.\<close>

definition farm_two :: "farm bt_env" where
  "farm_two = farm_env\<lparr>base_env := farm_storage\<lparr>raw_node_masked := (\<lambda>_ w. (Inr True, w)),
     object_params := (\<lambda>ps tag. if tag = ''data1'' then dset ''snapshot_tags'' (PStr ''sn1'') ps else ps)\<rparr>\<rparr>"

definition demo_two :: "farm btest" where
  "demo_two =
     (let ok = Inr (PDict []); job = PDict [(''id'', PStr ''sn1''), (''status'', PStr ''concluded'')] in
      (farm_test [(''storage_type'', PStr ''directory''), (''storage_pool'', PStr ''p''), (''target_path'', PStr ''/images''), (''image_name'', PStr ''a''),
         (''image_format'', PStr ''raw''), (''os_type'', PStr ''linux''), (''images'', PStr ''image1''), (''image_size'', PStr ''2G''),
         (''device_tag'', PStr ''data1 data2''), (''snapshot_tags'', PStr [])]
       ([''vm1''], [ok, Inr (PList [job]), ok, Inr (PList []), ok, ok], []))\<lparr>bmain := Some ''vm1''\<rparr>)"

end
