(* ===== verification/Host_Device.thy ===== *)
theory Host_Device
  imports Py_Text State_Relation Json "HOL-Library.Char_ord" "HOL-Library.List_Lexorder" "HOL-Library.Multiset"
begin

text \<open>
  Host devices handed to a guest (\<^verbatim>\<open>provider/hostdev\<close>): physical and virtual functions of PCI devices, the driver they are
  bound to, and the context in which a test runs with them.  The file system of the kernel is a parameter; what is written to it is logged.
  What the theorems rely on is how the kernel reacts to these writes.
\<close>

section \<open>The file system of the kernel\<close>

record 'w hstate =
  hworld :: 'w
  writes :: "(string \<times> string) list"

record 'w sysfs =
  fs_exists :: "string \<Rightarrow> 'w \<Rightarrow> bool"
  fs_read :: "string \<Rightarrow> 'w \<Rightarrow> string res"
  fs_write :: "string \<Rightarrow> string \<Rightarrow> 'w \<Rightarrow> unit res \<times> 'w"
  fs_resolve :: "string \<Rightarrow> 'w \<Rightarrow> string"
  fs_list :: "string \<Rightarrow> 'w \<Rightarrow> string list res"
  fs_virtfns :: "string \<Rightarrow> 'w \<Rightarrow> string list"
  fs_driver_slots :: "string \<Rightarrow> 'w \<Rightarrow> string list"
  run_host :: "string \<Rightarrow> 'w \<Rightarrow> unit res \<times> 'w"
  random_mac :: "'w \<Rightarrow> string \<times> 'w"
  wait_vfs :: "int \<Rightarrow> ('w \<Rightarrow> bool) \<Rightarrow> 'w \<Rightarrow> 'w"
  slot_params :: "pydict \<Rightarrow> string \<Rightarrow> pydict"
  numeric :: "pydict \<Rightarrow> string \<Rightarrow> int res"
  was_loaded :: "pyval \<Rightarrow> 'w \<Rightarrow> bool res"
  reload_module :: "pyval \<Rightarrow> bool \<Rightarrow> pyval \<Rightarrow> 'w \<Rightarrow> unit res \<times> 'w"

definition hask :: "('w \<Rightarrow> 'a) \<Rightarrow> ('w hstate, 'a) py" where
  "hask f = gets (\<lambda>t. f (hworld t))"

definition hread :: "'w sysfs \<Rightarrow> string \<Rightarrow> ('w hstate, string) py" where
  "hread env p = bnd (hask (fs_read env p)) lift_res"

definition hwrite :: "'w sysfs \<Rightarrow> string \<Rightarrow> string \<Rightarrow> ('w hstate, unit) py" where
  "hwrite env p text t = (case fs_write env p text (hworld t) of (r, w) \<Rightarrow> (r, t\<lparr>hworld := w, writes := writes t @ [(p, text)]\<rparr>))"

definition hrun :: "('w \<Rightarrow> 'a res \<times> 'w) \<Rightarrow> ('w hstate, 'a) py" where
  "hrun f t = (case f (hworld t) of (r, w) \<Rightarrow> (r, t\<lparr>hworld := w\<rparr>))"

text \<open>Paths: \<open>PCI_DEV_PATH / slot / name\<close> and \<open>PCI_DRV_PATH / driver / name\<close>.\<close>

definition PCI_DEV_PATH :: string where "PCI_DEV_PATH = ''/sys/bus/pci/devices''"

definition PCI_DRV_PATH :: string where "PCI_DRV_PATH = ''/sys/bus/pci/drivers''"

definition dev_file :: "string \<Rightarrow> string \<Rightarrow> string" where
  "dev_file slot name = PCI_DEV_PATH @ ''/'' @ slot @ ''/'' @ name"

definition drv_file :: "string \<Rightarrow> string \<Rightarrow> string" where
  "drv_file driver name = PCI_DRV_PATH @ ''/'' @ driver @ ''/'' @ name"

definition DEV_CLASSES :: "(string \<times> string) list" where
  "DEV_CLASSES = [(''storage'', ''01''), (''network'', ''02''), (''display'', ''03''), (''multimedia'', ''04''), (''memory'', ''05''),
     (''bridge'', ''06''), (''communication'', ''07''), (''system'', ''08''), (''input'', ''09''), (''docking'', ''0a''),
     (''processor'', ''0b''), (''serial'', ''0c'')]"

section \<open>Devices\<close>

datatype function_kind = PF | VF

record hdev =
  kind :: function_kind
  drv :: pyval
  slot_id :: string
  origin_driver :: "string option"
  pci_class :: string
  device_id :: string
  vendor_id :: string
  macs :: "string list option"
  num_vfs :: int
  vfs :: "string list"

definition get_current_driver :: "'w sysfs \<Rightarrow> string \<Rightarrow> ('w hstate, string option) py" where
  "get_current_driver env slot =
     (let p = dev_file slot ''driver'' in hask (\<lambda>w. if fs_exists env p w then Some (fs_resolve env p w) else None))"

definition strip_text :: "string \<Rightarrow> string" where
  "strip_text = strip_set is_ws"

definition nic_address :: "'w sysfs \<Rightarrow> string \<Rightarrow> string \<Rightarrow> ('w hstate, string) py" where
  "nic_address env slot nic = bnd (hread env (dev_file slot (''net/'' @ nic @ ''/address''))) (\<lambda>t. ret (strip_text t))"

definition list_dir :: "'w sysfs \<Rightarrow> string \<Rightarrow> ('w hstate, string list) py" where
  "list_dir env p = bnd (hask (fs_list env p)) lift_res"

definition PFDevice :: "'w sysfs \<Rightarrow> function_kind \<Rightarrow> string \<Rightarrow> pyval \<Rightarrow> ('w hstate, hdev) py" where
  "PFDevice env k slot driver =
     bnd (get_current_driver env slot) (\<lambda>origin.
     bnd (hread env (dev_file slot ''class'')) (\<lambda>c.
     bnd (hread env (dev_file slot ''device'')) (\<lambda>d.
     bnd (hread env (dev_file slot ''vendor'')) (\<lambda>v.
     let cls = take 2 (drop 2 (strip_text c)) in
     bnd (if Some cls = dget DEV_CLASSES ''network'' \<and> origin \<noteq> Some ''vfio-pci'' then
            bnd (list_dir env (dev_file slot ''net'')) (\<lambda>nics. bnd (map_each nics (nic_address env slot)) (\<lambda>ms. ret (Some ms)))
          else ret None) (\<lambda>ms.
       ret \<lparr>kind = k, drv = driver, slot_id = slot, origin_driver = origin, pci_class = cls, device_id = drop 2 (strip_text d),
            vendor_id = drop 2 (strip_text v), macs = ms, num_vfs = 0, vfs = []\<rparr>)))))"

text \<open>An error of the operating system becomes an error of this module; others pass.\<close>

definition os_error :: "string \<Rightarrow> ('s, unit) py \<Rightarrow> ('s, unit) py" where
  "os_error cls m = try_except m (\<lambda>e. case e of IOError msg \<Rightarrow> Some (throw (OtherError cls msg)) | _ \<Rightarrow> None)"

text \<open>The error of a failed unbinding is made and not raised.\<close>

definition unbind_one :: "'w sysfs \<Rightarrow> string \<Rightarrow> ('w hstate, unit) py" where
  "unbind_one env slot =
     bnd (get_current_driver env slot) (\<lambda>cur.
       case cur of
         None \<Rightarrow> ret ()
       | Some d \<Rightarrow>
           if d = [] then ret ()
           else try_except (hwrite env (drv_file d ''unbind'') slot) (\<lambda>e. case e of IOError _ \<Rightarrow> Some (ret ()) | _ \<Rightarrow> None))"

text \<open>A driver that is not a text cannot be written, nor be a part of a path.\<close>

definition driver_text :: "pyval \<Rightarrow> string res" where
  "driver_text v = (case v of PStr d \<Rightarrow> Inr d | _ \<Rightarrow> Inl (TypeError ''driver''))"

definition announce_driver :: "'w sysfs \<Rightarrow> hdev \<Rightarrow> string \<Rightarrow> string \<Rightarrow> ('w hstate, unit) py" where
  "announce_driver env dev slot d =
     bnd (hask (fs_exists env (dev_file slot ''driver_override''))) (\<lambda>b.
       if b then os_error ''HostDeviceError'' (hwrite env (dev_file slot ''driver_override'') d)
       else os_error ''HostDeviceError'' (hwrite env (drv_file d ''new_id'') (vendor_id dev @ '' '' @ device_id dev)))"

definition clear_override :: "'w sysfs \<Rightarrow> string \<Rightarrow> ('w hstate, unit) py" where
  "clear_override env slot =
     bnd (hask (fs_exists env (dev_file slot ''driver_override''))) (\<lambda>b.
       if b then os_error ''HostDeviceError'' (hwrite env (dev_file slot ''driver_override'') [CHR 0x00]) else ret ())"

definition bind_one :: "'w sysfs \<Rightarrow> hdev \<Rightarrow> pyval \<Rightarrow> string \<Rightarrow> ('w hstate, unit) py" where
  "bind_one env dev driver slot =
     bnd (get_current_driver env slot) (\<lambda>cur.
       if cur \<notin> {None, Some []} \<and> map_option PStr cur = Some driver then ret ()
       else
         bnd (if cur \<notin> {None, Some []} then unbind_one env slot else ret ()) (\<lambda>_.
         bnd (lift_res (driver_text driver)) (\<lambda>d.
         bnd (announce_driver env dev slot d) (\<lambda>_.
         bnd (os_error ''HostDeviceBindError'' (hwrite env (drv_file d ''bind'') slot)) (\<lambda>_.
           clear_override env slot)))))"

definition bind_all :: "'w sysfs \<Rightarrow> hdev \<Rightarrow> pyval \<Rightarrow> ('w hstate, unit) py" where
  "bind_all env dev driver =
     (case kind dev of
        PF \<Rightarrow> bnd (list_dir env (dev_file (slot_id dev) ''iommu_group/devices'')) (\<lambda>group. for_each group (bind_one env dev driver))
      | VF \<Rightarrow> for_each (vfs dev) (bind_one env dev driver))"

section \<open>Virtual functions\<close>

definition read_int :: "'w sysfs \<Rightarrow> string \<Rightarrow> ('w hstate, int) py" where
  "read_int env p = bnd (hread env p) (\<lambda>t. lift_res (int_of_str (strip_text t)))"

definition numvfs_file :: "hdev \<Rightarrow> string" where
  "numvfs_file dev = dev_file (slot_id dev) ''sriov_numvfs''"

definition set_numvfs :: "'w sysfs \<Rightarrow> hdev \<Rightarrow> int \<Rightarrow> ('w hstate, int) py" where
  "set_numvfs env dev counts =
     bnd (read_int env (dev_file (slot_id dev) ''sriov_totalvfs'')) (\<lambda>total.
       if counts > total then throw (OtherError ''VFCreateError'' ''Count of VF to be created is larger than sriov_totalvfs'')
       else
         bnd (read_int env (numvfs_file dev)) (\<lambda>n.
         bnd (if n \<noteq> 0 then hwrite env (numvfs_file dev) ''0'' else ret ()) (\<lambda>_.
         bnd (hwrite env (numvfs_file dev) (int_str counts)) (\<lambda>_. ret n))))"

definition vf_error :: "('s, 'a) py \<Rightarrow> ('s, 'a) py" where
  "vf_error m = try_except m (\<lambda>e. case e of IOError msg \<Rightarrow> Some (throw (OtherError ''VFCreateError'' msg)) | _ \<Rightarrow> None)"

text \<open>The links of the functions are sorted as texts.\<close>

definition list_vfs :: "'w sysfs \<Rightarrow> string \<Rightarrow> 'w \<Rightarrow> string list" where
  "list_vfs env slot w = map (\<lambda>l. fs_resolve env (dev_file slot l) w) (sort (fs_virtfns env (dev_file slot []) w))"

definition create_vfs :: "'w sysfs \<Rightarrow> hdev \<Rightarrow> int \<Rightarrow> ('w hstate, hdev) py" where
  "create_vfs env dev counts =
     bnd (get_current_driver env (slot_id dev)) (\<lambda>cur.
       if cur = Some ''vfio-pci'' then throw (OtherError ''VFCreateError'' ''Slot is bound to vfio-pci'')
       else
         bnd (vf_error (set_numvfs env dev counts)) (\<lambda>n.
         bnd (modify (\<lambda>t. t\<lparr>hworld := wait_vfs env (counts * 10) (\<lambda>w. int (length (fs_virtfns env (dev_file (slot_id dev) []) w)) = counts) (hworld t)\<rparr>)) (\<lambda>_.
         bnd (hask (list_vfs env (slot_id dev))) (\<lambda>vs. ret (dev\<lparr>num_vfs := n, vfs := vs\<rparr>)))))"

definition vf_mac_key :: "nat \<Rightarrow> string" where
  "vf_mac_key idx = ''hostdev_vf'' @ int_str (int idx) @ ''_mac''"

definition set_vf_mac :: "'w sysfs \<Rightarrow> pydict \<Rightarrow> string \<Rightarrow> nat \<Rightarrow> ('w hstate, string) py" where
  "set_vf_mac env params dev_name idx =
     bnd (hrun (\<lambda>w. case random_mac env w of (m, w') \<Rightarrow> (Inr m, w'))) (\<lambda>m.
     let mac = py_str (dget_default params (vf_mac_key idx) (PStr m)) in
     bnd (hrun (run_host env (''ip link set dev '' @ dev_name @ '' vf '' @ int_str (int idx) @ '' mac '' @ mac))) (\<lambda>_. ret mac))"

definition config_net_vfs :: "'w sysfs \<Rightarrow> pydict \<Rightarrow> hdev \<Rightarrow> ('w hstate, hdev) py" where
  "config_net_vfs env params dev =
     bnd (list_dir env (dev_file (slot_id dev) ''net'')) (\<lambda>nics.
       case nics of
         [] \<Rightarrow> throw (OtherError ''StopIteration'' [])
       | dev_name # _ \<Rightarrow>
           bnd (map_each [0 ..< length (vfs dev)] (set_vf_mac env params dev_name)) (\<lambda>ms. ret (dev\<lparr>macs := Some ms\<rparr>)))"

section \<open>Configuring and restoring\<close>

definition config :: "'w sysfs \<Rightarrow> pydict \<Rightarrow> hdev \<Rightarrow> ('w hstate, hdev) py" where
  "config env params dev =
     (case kind dev of
        PF \<Rightarrow> bnd (bind_all env dev (drv dev)) (\<lambda>_. ret dev)
      | VF \<Rightarrow>
          bnd (lift_res (numeric env params ''hostdev_vf_counts'')) (\<lambda>counts.
          bnd (create_vfs env dev counts) (\<lambda>dev1.
          bnd (bind_all env dev1 (drv dev1)) (\<lambda>_.
          bnd (hread env (dev_file (slot_id dev1) ''class'')) (\<lambda>c.
            if take 2 (drop 2 c) = ''02'' then config_net_vfs env params dev1 else ret dev1)))))"

definition restore_driver :: "'w sysfs \<Rightarrow> hdev \<Rightarrow> ('w hstate, unit) py" where
  "restore_driver env dev =
     (if origin_driver dev \<notin> {None, Some []} then bind_all env dev (PStr (the (origin_driver dev))) else ret ())"

definition restore :: "'w sysfs \<Rightarrow> hdev \<Rightarrow> ('w hstate, unit) py" where
  "restore env dev =
     bnd (restore_driver env dev) (\<lambda>_.
       case kind dev of PF \<Rightarrow> ret () | VF \<Rightarrow> bnd (create_vfs env dev (num_vfs dev)) (\<lambda>_. ret ()))"

definition ready_module :: "'w sysfs \<Rightarrow> pyval \<Rightarrow> pydict \<Rightarrow> ('w hstate, unit) py" where
  "ready_module env driver params =
     bnd (bnd (hask (was_loaded env driver)) lift_res) (\<lambda>loaded.
       if loaded then ret ()
       else hrun (reload_module env driver True (dget_default params ''hostdev_driver_module_params'' (PStr []))))"

definition config_hostdev :: "'w sysfs \<Rightarrow> string \<Rightarrow> pydict \<Rightarrow> ('w hstate, hdev) py" where
  "config_hostdev env slot params =
     (let driver = dget_default params ''hostdev_bind_driver'' PNone;
          ty = dget_default params ''hostdev_assignment_type'' (PStr ''pf'') in
      bnd (ready_module env driver params) (\<lambda>_.
      bnd (if ty = PStr ''pf'' then PFDevice env PF slot driver
           else if ty = PStr ''vf'' then PFDevice env VF slot driver
           else throw NotImplementedError) (config env params)))"

fun setup_slots :: "'w sysfs \<Rightarrow> pydict \<Rightarrow> string list \<Rightarrow> ('w hstate, hdev list) py" where
  "setup_slots env params [] = ret []"
| "setup_slots env params (slot # slots) =
     bnd (hask (fs_exists env (PCI_DEV_PATH @ ''/'' @ slot))) (\<lambda>b.
       if \<not> b then setup_slots env params slots
       else
         bnd (config_hostdev env slot (slot_params env params slot)) (\<lambda>dev.
         bnd (setup_slots env params slots) (\<lambda>devs. ret (dev # devs))))"

text \<open>
  The context of a test: the devices are set up, the test gets their managers by name, and the devices are restored in the opposite order
  after it.
\<close>

definition manager_key :: "hdev \<Rightarrow> string" where
  "manager_key dev = ''hostdev_manager_'' @ slot_id dev"

definition managers :: "hdev list \<Rightarrow> (string \<times> hdev) list" where
  "managers devs = fold (\<lambda>dev. dset (manager_key dev) dev) devs []"

definition hostdev_setup :: "'w sysfs \<Rightarrow> pydict \<Rightarrow> ((string \<times> hdev) list \<Rightarrow> ('w hstate, 'a) py) \<Rightarrow> ('w hstate, 'a) py" where
  "hostdev_setup env params body =
     bnd (setup_slots env params (objects params ''setup_hostdev_slots'')) (\<lambda>devs.
       try_finally (body (managers devs)) (for_each (rev devs) (restore env)))"

section \<open>Finding devices\<close>

definition get_pci_by_driver :: "'w sysfs \<Rightarrow> string \<Rightarrow> ('w hstate, string list) py" where
  "get_pci_by_driver env driver = bnd (hask (fs_driver_slots env (PCI_DRV_PATH @ ''/'' @ driver))) (\<lambda>xs. ret (sort (remdups xs)))"

definition of_class :: "'w sysfs \<Rightarrow> string option \<Rightarrow> string \<Rightarrow> ('w hstate, string list) py" where
  "of_class env class_id slot =
     bnd (hread env (dev_file slot ''class'')) (\<lambda>c. ret (if Some (take 2 (drop 2 c)) \<noteq> class_id then [] else [slot]))"

definition get_pci_by_class :: "'w sysfs \<Rightarrow> string \<Rightarrow> string option \<Rightarrow> ('w hstate, string list) py" where
  "get_pci_by_class env dev_class driver =
     bnd (list_dir env PCI_DEV_PATH) (\<lambda>slots.
     bnd (map_each slots (of_class env (dget DEV_CLASSES dev_class))) (\<lambda>found.
       if driver \<in> {None, Some []} then ret (sort (remdups (concat found)))
       else bnd (get_pci_by_driver env (the driver)) (\<lambda>ds. ret (sort (filter (\<lambda>x. x \<in> set ds) (remdups (concat found)))))))"

definition get_pci_by_dev_type :: "'w sysfs \<Rightarrow> string \<Rightarrow> string \<Rightarrow> string option \<Rightarrow> ('w hstate, string list) py" where
  "get_pci_by_dev_type env dev_type dev_class driver =
     (let ty = lower dev_type in
      if ty \<notin> {''pf'', ''vf''} then throw (ValueError ''Device type must be pf or vf'')
      else
        bnd (get_pci_by_class env dev_class driver) (\<lambda>ids.
        bnd (hask (\<lambda>w. filter (\<lambda>pci. fs_exists env (dev_file pci ''physfn'') w = (ty = ''vf'')) ids)) ret))"

definition get_parent_slot :: "'w sysfs \<Rightarrow> string \<Rightarrow> ('w hstate, string) py" where
  "get_parent_slot env slot =
     (let p = dev_file slot ''physfn'' in hask (\<lambda>w. if fs_exists env p w then fs_resolve env p w else slot))"

definition get_ifname_from_pci :: "'w sysfs \<Rightarrow> string \<Rightarrow> ('w hstate, string option) py" where
  "get_ifname_from_pci env slot =
     bnd (hask (fs_exists env (dev_file slot ''net''))) (\<lambda>b.
       if \<not> b then ret None
       else
         try_except
           (bnd (list_dir env (dev_file slot ''net'')) (\<lambda>nics. case nics of [] \<Rightarrow> throw (OtherError ''StopIteration'' []) | n # _ \<Rightarrow> ret (Some n)))
           (\<lambda>e. case e of IOError _ \<Rightarrow> Some (ret (Some [])) | _ \<Rightarrow> None))"

section \<open>What the kernel does\<close>

text \<open>
  Writing a slot to the files of a driver binds and unbinds it; a write that fails changes nothing.  The override of a device changes no
  binding, and every device has one (kernels from 3.15 on).  Loading a module binds nothing that the test looks at.
\<close>

definition kernel :: "'w sysfs \<Rightarrow> ('w \<Rightarrow> string \<Rightarrow> string option) \<Rightarrow> bool" where
  "kernel env bound \<longleftrightarrow>
     (\<forall>w slot. fs_exists env (dev_file slot ''driver'') w = (bound w slot \<noteq> None))
   \<and> (\<forall>w slot d. bound w slot = Some d \<longrightarrow> d \<noteq> [] \<and> fs_resolve env (dev_file slot ''driver'') w = d)
   \<and> (\<forall>w slot d r w'. fs_write env (drv_file d ''bind'') slot w = (r, w') \<longrightarrow>
        bound w' = (if r = Inr () then (bound w)(slot := Some d) else bound w) \<and> (r = Inr () \<longrightarrow> d \<noteq> []))
   \<and> (\<forall>w slot d r w'. fs_write env (drv_file d ''unbind'') slot w = (r, w') \<longrightarrow> bound w' = (if r = Inr () then (bound w)(slot := None) else bound w))
   \<and> (\<forall>w slot text. bound (snd (fs_write env (dev_file slot ''driver_override'') text w)) = bound w)
   \<and> (\<forall>w slot. fs_exists env (dev_file slot ''driver_override'') w)
   \<and> (\<forall>w d f p. bound (snd (reload_module env d f p w)) = bound w)"

lemma kernelD:
  assumes "kernel env bound"
  shows "fs_exists env (dev_file slot ''driver'') w = (bound w slot \<noteq> None)"
    and "bound w slot = Some d \<Longrightarrow> d \<noteq> [] \<and> fs_resolve env (dev_file slot ''driver'') w = d"
    and "fs_write env (drv_file d ''bind'') slot w = (r, w') \<Longrightarrow>
        bound w' = (if r = Inr () then (bound w)(slot := Some d) else bound w) \<and> (r = Inr () \<longrightarrow> d \<noteq> [])"
    and "fs_write env (drv_file d ''unbind'') slot w = (r, w') \<Longrightarrow> bound w' = (if r = Inr () then (bound w)(slot := None) else bound w)"
    and "fs_write env (dev_file slot ''driver_override'') text w = (r, w') \<Longrightarrow> bound w' = bound w"
    and "fs_exists env (dev_file slot ''driver_override'') w"
    and "reload_module env v f p w = (r', w') \<Longrightarrow> bound w' = bound w"
  using assms unfolding kernel_def by (metis, metis, metis, metis, metis snd_conv, metis, metis snd_conv)

lemma current_driver:
  assumes "kernel env bound"
  shows "get_current_driver env slot t = (Inr (bound (hworld t) slot), t)"
  using kernelD(1)[OF assms, of slot "hworld t"] kernelD(2)[OF assms, of "hworld t" slot]
  by (cases "bound (hworld t) slot") (simp_all add: get_current_driver_def hask_def gets_def Let_def)

lemma with_driver: "kernel env bound \<Longrightarrow> bnd (get_current_driver env slot) f t = f (bound (hworld t) slot) t"
  by (simp add: bnd_Inr current_driver)

lemma hwrite_Inr: "hwrite env p text t = (r, t') \<Longrightarrow> \<exists>w. fs_write env p text (hworld t) = (r, w) \<and> t' = t\<lparr>hworld := w, writes := writes t @ [(p, text)]\<rparr>"
  by (auto simp: hwrite_def split: prod.splits)

lemma os_error_Inr: "os_error cls m t = (Inr (), t') \<longleftrightarrow> m t = (Inr (), t')"
  by (auto simp: os_error_def try_except_def throw_def split: prod.splits sum.splits exc.splits option.splits)

text \<open>Unbinding a device that is bound leaves it unbound, or bound as it was.\<close>

lemma unbind_run:
  assumes "kernel env bound" "unbind_one env slot t = (Inr (), t')"
  shows "bound (hworld t') = bound (hworld t) \<or> bound (hworld t') = (bound (hworld t))(slot := None)"
proof (cases "bound (hworld t) slot")
  case (Some d)
  then have d: "d \<noteq> []" using kernelD(2)[OF assms(1)] by blast
  obtain r t1 where w: "hwrite env (drv_file d ''unbind'') slot t = (r, t1)" by fastforce
  obtain w' where "fs_write env (drv_file d ''unbind'') slot (hworld t) = (r, w')" "hworld t1 = w'" using hwrite_Inr[OF w] by auto
  then have "bound (hworld t1) = (if r = Inr () then (bound (hworld t))(slot := None) else bound (hworld t))"
    using kernelD(4)[OF assms(1)] by blast
  moreover have "t' = t1"
    using assms(2) w d Some current_driver[OF assms(1), of slot t]
    by (cases r) (auto simp: unbind_one_def bnd_def try_except_def ret_def split: exc.splits option.splits)
  ultimately show ?thesis by auto
qed (use assms(2) current_driver[OF assms(1), of slot t] in \<open>auto simp: unbind_one_def bnd_def ret_def\<close>)

lemma bind_one_steps:
  assumes "kernel env bound" "bound (hworld t) slot \<noteq> Some d" "bind_one env dev (PStr d) slot t = (Inr (), t')"
  shows "\<exists>t1 t2 t3. (if bound (hworld t) slot \<notin> {None, Some []} then unbind_one env slot else ret ()) t = (Inr (), t1)
      \<and> announce_driver env dev slot d t1 = (Inr (), t2) \<and> hwrite env (drv_file d ''bind'') slot t2 = (Inr (), t3)
      \<and> clear_override env slot t3 = (Inr (), t')"
proof -
  have "\<not> map_option PStr (bound (hworld t) slot) = Some (PStr d)" using assms(2) by auto
  then have "bnd (if bound (hworld t) slot \<notin> {None, Some []} then unbind_one env slot else ret ()) (\<lambda>_.
      bnd (announce_driver env dev slot d) (\<lambda>_. bnd (os_error ''HostDeviceBindError'' (hwrite env (drv_file d ''bind'') slot)) (\<lambda>_.
        clear_override env slot))) t = (Inr (), t')"
    using assms(3) unfolding bind_one_def bnd_Inr[of "get_current_driver env slot", OF current_driver[OF assms(1)]]
    by (simp only: if_False simp_thms driver_text_def pyval.case bnd_lift_Inr)
  then show ?thesis by (elim bnd_InrE) (auto simp: os_error_Inr)
qed

lemma bind_one_run:
  assumes "kernel env bound" "bind_one env dev (PStr d) slot t = (Inr (), t')"
  shows "bound (hworld t') = (bound (hworld t))(slot := Some d)"
proof (cases "bound (hworld t) slot = Some d")
  case True
  then have "t' = t" using assms(2) current_driver[OF assms(1), of slot t] kernelD(2)[OF assms(1) True]
    by (auto simp: bind_one_def bnd_def ret_def)
  then show ?thesis using True by auto
next
  case False
  have start: "(if bound (hworld t) slot \<notin> {None, Some []} then unbind_one env slot else ret ()) t = (Inr (), t1) \<Longrightarrow>
      bound (hworld t1) = bound (hworld t) \<or> bound (hworld t1) = (bound (hworld t))(slot := None)" for t1
    using unbind_run[OF assms(1), of slot t t1] by (auto simp: ret_def split: if_splits)
  obtain t1 t2 t3 where u: "bound (hworld t1) = bound (hworld t) \<or> bound (hworld t1) = (bound (hworld t))(slot := None)"
    and a: "announce_driver env dev slot d t1 = (Inr (), t2)"
    and b: "hwrite env (drv_file d ''bind'') slot t2 = (Inr (), t3)" and c: "clear_override env slot t3 = (Inr (), t')"
    using bind_one_steps[OF assms(1) False assms(2)] start by blast
  have 2: "bound (hworld t2) = bound (hworld t1)"
    using a kernelD(6)[OF assms(1)] kernelD(5)[OF assms(1)]
    by (auto simp: announce_driver_def hask_def gets_def os_error_Inr elim!: bnd_InrE dest!: hwrite_Inr)
  have 3: "bound (hworld t3) = (bound (hworld t2))(slot := Some d)"
    using hwrite_Inr[OF b] kernelD(3)[OF assms(1)] by fastforce
  have "bound (hworld t') = bound (hworld t3)"
    using c kernelD(6)[OF assms(1)] kernelD(5)[OF assms(1)]
    by (auto simp: clear_override_def hask_def gets_def os_error_Inr elim!: bnd_InrE dest!: hwrite_Inr)
  then show ?thesis using 2 3 u by (auto simp: fun_eq_iff)
qed

lemma bind_each:
  assumes "kernel env bound" "for_each slots (bind_one env dev (PStr d)) t = (Inr (), t')"
  shows "bound (hworld t') = (\<lambda>s. if s \<in> set slots then Some d else bound (hworld t) s)"
  using assms(2)
proof (induction slots arbitrary: t)
  case (Cons slot slots)
  then obtain t1 where t1: "bind_one env dev (PStr d) slot t = (Inr (), t1)" "for_each slots (bind_one env dev (PStr d)) t1 = (Inr (), t')"
    by (auto elim!: bnd_InrE)
  show ?case using bind_one_run[OF assms(1) t1(1)] Cons.IH[OF t1(2)] by auto
qed (simp add: ret_def)

text \<open>
  Drivers that take every device they are offered, with unbinding that may fail only as the operating system fails; and the devices that
  share the group of a device.
\<close>

definition willing :: "'w sysfs \<Rightarrow> bool" where
  "willing env \<longleftrightarrow>
     (\<forall>d slot w. d \<noteq> [] \<longrightarrow> fst (fs_write env (drv_file d ''bind'') slot w) = Inr ())
   \<and> (\<forall>slot text w. fst (fs_write env (dev_file slot ''driver_override'') text w) = Inr ())
   \<and> (\<forall>d slot w. fst (fs_write env (drv_file d ''unbind'') slot w) = Inr () \<or> (\<exists>msg. fst (fs_write env (drv_file d ''unbind'') slot w) = Inl (IOError msg)))"

definition grouped :: "'w sysfs \<Rightarrow> (string \<Rightarrow> string list) \<Rightarrow> bool" where
  "grouped env members \<longleftrightarrow>
     (\<forall>slot w. fs_list env (dev_file slot ''iommu_group/devices'') w = Inr (members slot)) \<and> (\<forall>slot. slot \<in> set (members slot))"

lemma hwrite_run: "hwrite env p text t = (fst (fs_write env p text (hworld t)), t\<lparr>hworld := snd (fs_write env p text (hworld t)), writes := writes t @ [(p, text)]\<rparr>)"
  by (simp add: hwrite_def split: prod.split)

lemma override_ok:
  assumes "kernel env bound" "willing env"
  shows "\<exists>t'. announce_driver env dev slot d t = (Inr (), t')" "\<exists>t'. clear_override env slot t = (Inr (), t')"
  using assms(2) kernelD(6)[OF assms(1), of slot "hworld t"]
  by (auto simp: announce_driver_def clear_override_def hask_def gets_def bnd_def os_error_Inr hwrite_run willing_def)

lemma unbind_ok:
  assumes "kernel env bound" "willing env"
  shows "\<exists>t'. unbind_one env slot t = (Inr (), t')"
proof (cases "bound (hworld t) slot")
  case (Some d)
  have d: "d \<noteq> []" using kernelD(2)[OF assms(1) Some] by blast
  have "\<exists>t'. try_except (hwrite env (drv_file d ''unbind'') slot) (\<lambda>e. case e of IOError _ \<Rightarrow> Some (ret ()) | _ \<Rightarrow> None) t = (Inr (), t')"
    using assms(2) unfolding willing_def try_except_def hwrite_run
    by (elim conjE allE[of _ d] allE[of _ slot] allE[of _ "hworld t"]) (auto simp: ret_def)
  then show ?thesis using Some d by (simp add: unbind_one_def with_driver[OF assms(1)])
qed (use current_driver[OF assms(1), of slot t] in \<open>simp add: unbind_one_def bnd_def ret_def\<close>)

lemma bind_one_ok:
  assumes "kernel env bound" "willing env" "d \<noteq> []"
  shows "\<exists>t'. bind_one env dev (PStr d) slot t = (Inr (), t')"
proof -
  obtain t1 where 1: "(if bound (hworld t) slot \<notin> {None, Some []} then unbind_one env slot else ret ()) t = (Inr (), t1)"
    using unbind_ok[OF assms(1, 2), of slot t] ret_def[of "()" t] by (cases "bound (hworld t) slot \<notin> {None, Some []}") auto
  obtain t2 where 2: "announce_driver env dev slot d t1 = (Inr (), t2)" using override_ok(1)[OF assms(1, 2)] by blast
  obtain t3 where 3: "os_error ''HostDeviceBindError'' (hwrite env (drv_file d ''bind'') slot) t2 = (Inr (), t3)"
    using assms(2, 3) by (simp add: os_error_Inr hwrite_run willing_def)
  obtain t4 where 4: "clear_override env slot t3 = (Inr (), t4)" using override_ok(2)[OF assms(1, 2)] by blast
  show ?thesis
    by (simp add: bind_one_def with_driver[OF assms(1)] driver_text_def bnd_Inr[of "if bound (hworld t) slot \<notin> {None, Some []} then _ else _", OF 1]
          bnd_Inr[of "announce_driver _ _ _ _", OF 2] bnd_Inr[of "os_error _ _", OF 3] 4 ret_def del: insert_iff empty_iff)
qed

lemma bind_each_ok:
  assumes "kernel env bound" "willing env" "d \<noteq> []"
  shows "\<exists>t'. for_each slots (bind_one env dev (PStr d)) t = (Inr (), t')"
proof (induction slots arbitrary: t)
  case (Cons slot slots)
  obtain t1 where "bind_one env dev (PStr d) slot t = (Inr (), t1)" using bind_one_ok[OF assms] by blast
  then show ?case using Cons.IH[of t1] by (simp add: bnd_Inr)
qed (simp add: ret_def)

lemma list_dir_run: "list_dir env p t = (fs_list env p (hworld t), t)"
  by (simp add: list_dir_def hask_def gets_def bnd_def lift_res_def)

lemma bind_all_PF: "grouped env members \<Longrightarrow> kind dev = PF \<Longrightarrow> bind_all env dev v = for_each (members (slot_id dev)) (bind_one env dev v)"
  by (rule ext) (simp add: bind_all_def grouped_def bnd_def list_dir_run)

text \<open>What restoring a physical function leaves: the whole group at the driver the managed device had.\<close>

definition restored :: "(string \<Rightarrow> string list) \<Rightarrow> hdev \<Rightarrow> (string \<Rightarrow> string option) \<Rightarrow> string \<Rightarrow> string option" where
  "restored members dev b s = (if s \<in> set (members (slot_id dev)) \<and> origin_driver dev \<notin> {None, Some []} then origin_driver dev else b s)"

lemma restore_PF:
  assumes "kernel env bound" "willing env" "grouped env members" "kind dev = PF"
  shows "\<exists>t'. restore env dev t = (Inr (), t') \<and> bound (hworld t') = restored members dev (bound (hworld t))"
proof (cases "origin_driver dev \<in> {None, Some []}")
  case True
  then show ?thesis using assms(4) by (auto simp: restore_def restore_driver_def ret_def restored_def)
next
  case False
  then obtain d where d: "origin_driver dev = Some d" "d \<noteq> []" by auto
  obtain t' where t': "for_each (members (slot_id dev)) (bind_one env dev (PStr d)) t = (Inr (), t')" using bind_each_ok[OF assms(1, 2) d(2)] by blast
  then have "restore env dev t = (Inr (), t')"
    using assms(4) d bind_all_PF[OF assms(3, 4)] by (simp add: restore_def restore_driver_def bnd_Inr ret_def)
  then show ?thesis using bind_each[OF assms(1) t'] d by (auto simp: restored_def)
qed

lemma restore_all:
  assumes "kernel env bound" "willing env" "grouped env members" "\<forall>d \<in> set devs. kind d = PF"
  shows "\<exists>t'. for_each devs (restore env) t = (Inr (), t') \<and> bound (hworld t') = fold (restored members) devs (bound (hworld t))"
  using assms(4)
proof (induction devs arbitrary: t)
  case (Cons dev devs)
  obtain t1 where "restore env dev t = (Inr (), t1)" "bound (hworld t1) = restored members dev (bound (hworld t))"
    using restore_PF[OF assms(1-3)] Cons.prems by fastforce
  then show ?case using Cons.IH[of t1] Cons.prems by (auto simp: bnd_Inr)
qed (simp add: ret_def)

text \<open>With groups that do not meet, the restorations do not disturb each other.\<close>

definition groups_apart :: "(string \<Rightarrow> string list) \<Rightarrow> hdev list \<Rightarrow> bool" where
  "groups_apart members devs \<longleftrightarrow> distinct (concat (map (\<lambda>d. members (slot_id d)) devs))"

lemma apart_Cons:
  "groups_apart members (dev # devs) \<longleftrightarrow> distinct (members (slot_id dev)) \<and> groups_apart members devs
     \<and> (\<forall>d \<in> set devs. set (members (slot_id dev)) \<inter> set (members (slot_id d)) = {})"
  by (auto simp: groups_apart_def)

lemma apart_rev: "groups_apart members (rev devs) = groups_apart members devs"
proof -
  have "mset (concat (map f (rev xs))) = mset (concat (map f xs))" for f :: "hdev \<Rightarrow> string list" and xs
    by (induction xs) auto
  then show ?thesis unfolding groups_apart_def by (metis mset_eq_imp_distinct_iff)
qed

lemma fold_restored_other: "\<forall>d \<in> set devs. s \<notin> set (members (slot_id d)) \<Longrightarrow> fold (restored members) devs b s = b s"
  by (induction devs arbitrary: b) (auto simp: restored_def)

lemma fold_restored_own:
  assumes "groups_apart members devs" "d \<in> set devs" "s \<in> set (members (slot_id d))"
  shows "fold (restored members) devs b s = (if origin_driver d \<notin> {None, Some []} then origin_driver d else b s)"
  using assms
proof (induction devs arbitrary: b)
  case (Cons dev devs)
  show ?case
  proof (cases "d = dev")
    case True
    then have "\<forall>e \<in> set devs. s \<notin> set (members (slot_id e))" using Cons.prems by (auto simp: apart_Cons)
    then show ?thesis using True Cons.prems(3) by (simp add: fold_restored_other) (simp add: restored_def)
  next
    case False
    then have d: "d \<in> set devs" and "s \<notin> set (members (slot_id dev))" using Cons.prems by (auto simp: apart_Cons)
    moreover have "restored members dev b s = b s" using calculation by (simp add: restored_def)
    ultimately show ?thesis using Cons.IH[OF _ d Cons.prems(3)] Cons.prems(1) by (simp add: apart_Cons)
  qed
qed simp

lemma hread_run: "hread env p t = (fs_read env p (hworld t), t)"
  by (simp add: hread_def hask_def gets_def bnd_def lift_res_def)

lemma map_each_quiet: "(\<And>x t. snd (f x t) = t) \<Longrightarrow> snd (map_each xs f t) = t"
  by (induction xs arbitrary: t) (auto simp: bnd_def ret_def split: prod.split sum.split, (metis snd_conv)+)

text \<open>Making a device object reads only.\<close>

lemma PFDevice_run:
  assumes "kernel env bound" "PFDevice env k slot v t = (Inr dev, t')"
  shows "t' = t" "kind dev = k" "drv dev = v" "slot_id dev = slot" "origin_driver dev = bound (hworld t) slot"
proof -
  have quiet: "snd (map_each nics (nic_address env slot) u) = u" for nics u
    by (rule map_each_quiet) (auto simp: nic_address_def hread_run bnd_def ret_def split: sum.split)
  have "t' = t \<and> kind dev = k \<and> drv dev = v \<and> slot_id dev = slot \<and> origin_driver dev = bound (hworld t) slot"
    using assms(2) quiet
    by (auto simp: PFDevice_def with_driver[OF assms(1)] Let_def hread_run list_dir_run ret_def elim!: bnd_InrE split: if_splits)
       (metis snd_conv)+
  then show "t' = t" "kind dev = k" "drv dev = v" "slot_id dev = slot" "origin_driver dev = bound (hworld t) slot" by auto
qed

lemma bind_one_text: "bind_one env dev v slot t = (Inr (), t') \<Longrightarrow> \<exists>d. v = PStr d"
  by (auto simp: bind_one_def driver_text_def lift_res_def throw_def split: if_splits pyval.splits elim!: bnd_InrE)

lemma config_kind: "config env params dev t = (Inr dev', t') \<Longrightarrow> kind dev' = kind dev"
  by (auto simp: config_def create_vfs_def config_net_vfs_def ret_def throw_def elim!: bnd_InrE split: function_kind.splits if_splits list.splits)

lemma config_PF:
  assumes "kernel env bound" "grouped env members" "kind dev = PF" "config env params dev t = (Inr dev', t')"
  shows "dev' = dev \<and> (\<exists>d. drv dev = PStr d \<and> bound (hworld t') = (\<lambda>s. if s \<in> set (members (slot_id dev)) then Some d else bound (hworld t) s))"
proof -
  have "slot_id dev \<in> set (members (slot_id dev))" using assms(2) by (simp add: grouped_def)
  then obtain slot rest where m: "members (slot_id dev) = slot # rest" by (cases "members (slot_id dev)") auto
  have b: "for_each (members (slot_id dev)) (bind_one env dev (drv dev)) t = (Inr (), t')" "dev' = dev"
    using assms(3, 4) bind_all_PF[OF assms(2, 3)] by (auto simp: config_def ret_def elim!: bnd_InrE)
  then obtain d where d: "drv dev = PStr d" using m bind_one_text[of env dev "drv dev" slot t] by (auto elim!: bnd_InrE)
  show ?thesis using bind_each[OF assms(1), of "members (slot_id dev)" dev d t t'] b d by simp
qed

lemma ready_bound:
  assumes "kernel env bound" "ready_module env v params t = (Inr (), t')"
  shows "bound (hworld t') = bound (hworld t)"
proof (cases "was_loaded env v (hworld t)")
  case (Inr loaded)
  obtain r w where w: "reload_module env v True (dget_default params ''hostdev_driver_module_params'' (PStr [])) (hworld t) = (r, w)" by fastforce
  show ?thesis using assms(2) Inr w kernelD(7)[OF assms(1) w]
    by (cases loaded) (auto simp: ready_module_def hask_def gets_def bnd_def lift_res_def hrun_def ret_def)
qed (use assms(2) in \<open>simp add: ready_module_def hask_def gets_def bnd_def lift_res_def\<close>)

lemma config_hostdev_PF:
  assumes "kernel env bound" "grouped env members" "config_hostdev env slot params t = (Inr dev, t')" "kind dev = PF"
  shows "slot_id dev = slot" "origin_driver dev = bound (hworld t) slot"
    "\<exists>d. drv dev = PStr d \<and> bound (hworld t') = (\<lambda>s. if s \<in> set (members slot) then Some d else bound (hworld t) s)"
proof -
  obtain k t1 dev1 t2 where m: "ready_module env (dget_default params ''hostdev_bind_driver'' PNone) params t = (Inr (), t1)"
    and p: "PFDevice env k slot (dget_default params ''hostdev_bind_driver'' PNone) t1 = (Inr dev1, t2)"
    and c: "config env params dev1 t2 = (Inr dev, t')"
    using assms(3) by (auto simp: config_hostdev_def Let_def throw_def elim!: bnd_InrE split: if_splits)
  note made = PFDevice_run[OF assms(1) p]
  have "kind dev1 = PF" using config_kind[OF c] assms(4) by simp
  from config_PF[OF assms(1, 2) this c] made ready_bound[OF assms(1) m]
  show "slot_id dev = slot" "origin_driver dev = bound (hworld t) slot"
    "\<exists>d. drv dev = PStr d \<and> bound (hworld t') = (\<lambda>s. if s \<in> set (members slot) then Some d else bound (hworld t) s)" by (auto simp: fun_eq_iff)
qed

text \<open>After the set up of physical functions, their groups are at the drivers of the test and every object knows the driver its device had.\<close>

lemma setup_PF:
  assumes "kernel env bound" "grouped env members"
    and "setup_slots env params slots t = (Inr devs, t')" "\<forall>d \<in> set devs. kind d = PF" "groups_apart members devs"
  shows "(\<forall>s. (\<forall>d \<in> set devs. s \<notin> set (members (slot_id d))) \<longrightarrow> bound (hworld t') s = bound (hworld t) s)
    \<and> (\<forall>d \<in> set devs. origin_driver d = bound (hworld t) (slot_id d) \<and> (\<forall>s \<in> set (members (slot_id d)). map_option PStr (bound (hworld t') s) = Some (drv d)))"
  using assms(3-5)
proof (induction slots arbitrary: devs t)
  case (Cons slot slots)
  show ?case
  proof (cases "fs_exists env (PCI_DEV_PATH @ ''/'' @ slot) (hworld t)")
    case True
    then obtain dev t1 devs1 where c: "config_hostdev env slot (slot_params env params slot) t = (Inr dev, t1)"
      and s: "setup_slots env params slots t1 = (Inr devs1, t')" and devs: "devs = dev # devs1"
      using Cons.prems(1) by (auto simp: hask_def gets_def ret_def elim!: bnd_InrE)
    note dev = config_hostdev_PF[OF assms(1, 2) c]
    have own: "slot_id d \<in> set (members (slot_id d))" for d using assms(2) by (simp add: grouped_def)
    have pf: "kind dev = PF" "\<forall>d \<in> set devs1. kind d = PF" and apart: "groups_apart members devs1"
      and away: "\<forall>d \<in> set devs1. set (members slot) \<inter> set (members (slot_id d)) = {}"
      using Cons.prems(2, 3) dev(1) unfolding devs apart_Cons by auto
    obtain d where d: "drv dev = PStr d" "bound (hworld t1) = (\<lambda>s. if s \<in> set (members slot) then Some d else bound (hworld t) s)"
      using dev(3)[OF pf(1)] by blast
    note IH = Cons.IH[OF s pf(2) apart]
    have others: "bound (hworld t1) (slot_id e) = bound (hworld t) (slot_id e)" if "e \<in> set devs1" for e
      using that away own[of e] d(2) by (auto simp: disjoint_iff)
    have mine: "bound (hworld t') s = Some d" if "s \<in> set (members slot)" for s
      using that away IH d(2) by (auto simp: disjoint_iff)
    show ?thesis using IH others mine d dev(1, 2)[OF pf(1)] unfolding devs by (auto split: if_splits)
  qed (use Cons in \<open>auto simp: hask_def gets_def bnd_def\<close>)
qed (simp add: ret_def)


section \<open>A host\<close>

text \<open>A host with two devices in one group, which binds and unbinds what it is told.\<close>

definition path_slot :: "nat \<Rightarrow> string \<Rightarrow> string" where
  "path_slot n p = drop 21 (take (length p - n) p)"

definition host_bound :: "(string \<Rightarrow> string option) \<Rightarrow> string \<Rightarrow> string option" where
  "host_bound w slot = (if w slot = Some [] then None else w slot)"

definition host_members :: "string \<Rightarrow> string list" where
  "host_members slot = (if slot \<in> {''01'', ''02''} then [''01'', ''02''] else [slot])"

definition host_write :: "string \<Rightarrow> string \<Rightarrow> (string \<Rightarrow> string option) \<Rightarrow> unit res \<times> (string \<Rightarrow> string option)" where
  "host_write p text w =
     (if endswith p ''/bind'' then
        (if path_slot 5 p = [] then (Inl (IOError ''No such file''), w) else (Inr (), w(text := Some (path_slot 5 p))))
      else if endswith p ''/unbind'' then (Inr (), w(text := None)) else (Inr (), w))"

definition a_host :: "(string \<Rightarrow> string option) sysfs" where
  "a_host = \<lparr>fs_exists = (\<lambda>p w. endswith p ''/driver'' \<longrightarrow> host_bound w (path_slot 7 p) \<noteq> None), fs_read = (\<lambda>p w. Inr ''0x010802''),
     fs_write = host_write, fs_resolve = (\<lambda>p w. the (w (path_slot 7 p))), fs_list = (\<lambda>p w. Inr (host_members (path_slot 20 p))),
     fs_virtfns = (\<lambda>p w. []), fs_driver_slots = (\<lambda>p w. []), run_host = (\<lambda>c w. (Inr (), w)), random_mac = (\<lambda>w. ([], w)),
     wait_vfs = (\<lambda>n p w. w), slot_params = (\<lambda>p s. p), numeric = (\<lambda>p k. Inr 0), was_loaded = (\<lambda>d w. Inr True),
     reload_module = (\<lambda>d f p w. (Inr (), w))\<rparr>"

lemma host_paths:
  "endswith (dev_file slot ''driver'') ''/driver''" "\<not> endswith (dev_file slot ''driver_override'') ''/driver''"
  "endswith (drv_file d ''bind'') ''/bind''" "\<not> endswith (drv_file d ''unbind'') ''/bind''" "endswith (drv_file d ''unbind'') ''/unbind''"
  "\<not> endswith (dev_file slot ''driver_override'') ''/bind''" "\<not> endswith (dev_file slot ''driver_override'') ''/unbind''"
  "path_slot 7 (dev_file slot ''driver'') = slot" "path_slot 5 (drv_file d ''bind'') = d"
  "path_slot 20 (dev_file slot ''iommu_group/devices'') = slot"
  by (simp_all add: endswith_def startswith_def dev_file_def drv_file_def path_slot_def PCI_DEV_PATH_def PCI_DRV_PATH_def)

lemma a_host_kernel: "kernel a_host host_bound"
  by (auto simp: kernel_def a_host_def host_paths host_write_def host_bound_def fun_eq_iff split: if_splits)

lemma a_host_willing: "willing a_host"
  by (simp add: willing_def a_host_def host_paths host_write_def)

lemma a_host_grouped: "grouped a_host host_members"
  by (simp add: grouped_def a_host_def host_paths host_members_def)

definition host_start :: "(string \<Rightarrow> string option) hstate" where
  "host_start = \<lparr>hworld = [''01'' \<mapsto> ''nvme'', ''02'' \<mapsto> ''pcieport''], writes = []\<rparr>"

definition host_params :: pydict where
  "host_params = [(''setup_hostdev_slots'', PStr ''01''), (''hostdev_bind_driver'', PStr ''vfio-pci'')]"

definition host_dev :: hdev where
  "host_dev = \<lparr>kind = PF, drv = PStr ''vfio-pci'', slot_id = ''01'', origin_driver = Some ''nvme'', pci_class = ''01'', device_id = ''010802'',
     vendor_id = ''010802'', macs = None, num_vfs = 0, vfs = []\<rparr>"


section \<open>The number of virtual functions\<close>

text \<open>
  What the kernel does with \<open>sriov_numvfs\<close> of a device: it reads as the number of functions, a number that is accepted becomes that number,
  and nothing else the code does changes it.
\<close>

definition counted :: "'w sysfs \<Rightarrow> string \<Rightarrow> ('w \<Rightarrow> int) \<Rightarrow> bool" where
  "counted env slot tally \<longleftrightarrow>
     (\<forall>w text. fs_read env (dev_file slot ''sriov_numvfs'') w = Inr text \<longrightarrow> int_of_str (strip_text text) = Inr (tally w))
   \<and> (\<forall>w k w'. fs_write env (dev_file slot ''sriov_numvfs'') (int_str k) w = (Inr (), w') \<longrightarrow> tally w' = k)
   \<and> (\<forall>p text w. p \<noteq> dev_file slot ''sriov_numvfs'' \<longrightarrow> tally (snd (fs_write env p text w)) = tally w)
   \<and> (\<forall>w c. tally (snd (run_host env c w)) = tally w) \<and> (\<forall>w. tally (snd (random_mac env w)) = tally w)
   \<and> (\<forall>n p w. tally (wait_vfs env n p w) = tally w)"

definition same_count :: "('w \<Rightarrow> int) \<Rightarrow> 'w hstate \<Rightarrow> 'w hstate \<Rightarrow> bool" where
  "same_count tally t t' \<longleftrightarrow> tally (hworld t') = tally (hworld t)"

interpretation vf_count: state_relation "same_count tally" for tally
  by unfold_locales (auto simp: same_count_def)

lemma other_files:
  "drv_file d name \<noteq> dev_file slot ''sriov_numvfs''" "dev_file s ''driver_override'' \<noteq> dev_file slot ''sriov_numvfs''"
proof -
  show "drv_file d name \<noteq> dev_file slot ''sriov_numvfs''" by (simp add: drv_file_def dev_file_def PCI_DEV_PATH_def PCI_DRV_PATH_def)
  have "last (dev_file s ''driver_override'') \<noteq> last (dev_file slot ''sriov_numvfs'')" by (simp add: dev_file_def)
  then show "dev_file s ''driver_override'' \<noteq> dev_file slot ''sriov_numvfs''" by metis
qed

lemma write_keeps_count: "counted env slot tally \<Longrightarrow> p \<noteq> dev_file slot ''sriov_numvfs'' \<Longrightarrow> moves (same_count tally) (hwrite env p text)"
  by (rule movesI) (simp add: same_count_def hwrite_run counted_def)

lemma os_error_moves: "moves (same_count tally) m \<Longrightarrow> moves (same_count tally) (os_error cls m)"
  unfolding os_error_def by (rule vf_count.handled) (auto intro: vf_count.unchanged split: exc.splits)

lemma ask_keeps_count: "moves (same_count tally) (hask f)" "moves (same_count tally) (get_current_driver env s)"
  "moves (same_count tally) (hread env p)" "moves (same_count tally) (list_dir env p)"
  by (auto simp: hask_def get_current_driver_def hread_def list_dir_def Let_def intro: vf_count.composed)

lemma bind_keeps_count:
  assumes "counted env slot tally"
  shows "moves (same_count tally) (bind_one env dev v s)"
proof -
  note keep = write_keeps_count[OF assms other_files(1)] write_keeps_count[OF assms other_files(2)]
  have "moves (same_count tally) (unbind_one env s)"
    unfolding unbind_one_def by (auto intro!: vf_count.composed vf_count.handled ask_keeps_count keep split: option.split exc.splits)
  moreover have "moves (same_count tally) (announce_driver env dev s d)" "moves (same_count tally) (clear_override env s)" for d
    unfolding announce_driver_def clear_override_def by (auto intro!: vf_count.composed os_error_moves ask_keeps_count keep)
  ultimately show ?thesis
    unfolding bind_one_def by (intro vf_count.composed os_error_moves ask_keeps_count keep)
qed

lemma read_int_run: "read_int env p t = (Inr n, t') \<Longrightarrow> t' = t \<and> (\<exists>text. fs_read env p (hworld t) = Inr text \<and> int_of_str (strip_text text) = Inr n)"
  by (auto simp: read_int_def hread_run lift_res_def elim!: bnd_InrE)

lemma set_numvfs_run:
  assumes "counted env (slot_id dev) tally" "set_numvfs env dev counts t = (Inr n, t')"
  shows "tally (hworld t') = counts \<and> n = tally (hworld t)
    \<and> (\<exists>total text. counts \<le> total \<and> fs_read env (dev_file (slot_id dev) ''sriov_totalvfs'') (hworld t) = Inr text \<and> int_of_str (strip_text text) = Inr total)"
proof -
  obtain total t1 where r: "read_int env (dev_file (slot_id dev) ''sriov_totalvfs'') t = (Inr total, t1)"
    and rest: "(if counts > total then throw (OtherError ''VFCreateError'' ''Count of VF to be created is larger than sriov_totalvfs'')
       else bnd (read_int env (numvfs_file dev)) (\<lambda>n. bnd (if n \<noteq> 0 then hwrite env (numvfs_file dev) ''0'' else ret ()) (\<lambda>_.
         bnd (hwrite env (numvfs_file dev) (int_str counts)) (\<lambda>_. ret n)))) t1 = (Inr n, t')"
    using assms(2) unfolding set_numvfs_def by (elim bnd_InrE)
  have le: "counts \<le> total" using rest by (auto simp: throw_def split: if_splits)
  then obtain m t2 t3 where n: "read_int env (numvfs_file dev) t1 = (Inr m, t2)" and w: "hwrite env (numvfs_file dev) (int_str counts) t3 = (Inr (), t')" and "n = m"
    using rest by (auto simp: ret_def elim!: bnd_InrE split: if_splits)
  moreover have "tally (hworld t') = counts"
    using hwrite_Inr[OF w] assms(1) by (auto simp: counted_def numvfs_file_def)
  ultimately show ?thesis using assms(1) le read_int_run[OF r] read_int_run[OF n] by (auto simp: counted_def numvfs_file_def)
qed

lemma create_vfs_run:
  assumes "counted env (slot_id dev) tally" "create_vfs env dev counts t = (Inr dev', t')"
  shows "tally (hworld t') = counts" "num_vfs dev' = tally (hworld t)" "dev' = dev\<lparr>num_vfs := num_vfs dev', vfs := vfs dev'\<rparr>"
proof -
  obtain cur t1 n t2 where c: "get_current_driver env (slot_id dev) t = (Inr cur, t1)" and v: "vf_error (set_numvfs env dev counts) t1 = (Inr n, t2)"
    and rest: "tally (hworld t') = tally (hworld t2)" "num_vfs dev' = n" "dev' = dev\<lparr>num_vfs := num_vfs dev', vfs := vfs dev'\<rparr>"
    using assms unfolding create_vfs_def
    by (auto simp: throw_def modify_def hask_def gets_def ret_def counted_def elim!: bnd_InrE split: if_splits)
  have "t1 = t" using c by (simp add: get_current_driver_def Let_def hask_def gets_def)
  moreover have "set_numvfs env dev counts t1 = (Inr n, t2)"
    using v by (auto simp: vf_error_def try_except_def throw_def split: prod.splits sum.splits exc.splits)
  ultimately show "tally (hworld t') = counts" "num_vfs dev' = tally (hworld t)" "dev' = dev\<lparr>num_vfs := num_vfs dev', vfs := vfs dev'\<rparr>"
    using rest set_numvfs_run[OF assms(1)] by auto
qed

lemma map_each_moves: "(\<And>x. moves (same_count tally) (f x)) \<Longrightarrow> moves (same_count tally) (map_each xs f)"
  by (induction xs) (auto intro!: vf_count.seq vf_count.unchanged)

lemma run_keeps_count:
  assumes "counted env slot tally"
  shows "moves (same_count tally) (hrun (run_host env c))" "moves (same_count tally) (hrun (\<lambda>w. case random_mac env w of (m, w') \<Rightarrow> (Inr m, w')))"
  using assms by (auto simp: moves_def hrun_def same_count_def counted_def split: prod.split) (metis snd_conv)+

lemma net_keeps_count:
  assumes "counted env slot tally"
  shows "moves (same_count tally) (config_net_vfs env params dev)"
proof -
  have "moves (same_count tally) (set_vf_mac env params name i)" for name i
    unfolding set_vf_mac_def Let_def by (intro vf_count.composed run_keeps_count[OF assms])
  then show ?thesis unfolding config_net_vfs_def
    by (auto intro!: vf_count.composed map_each_moves ask_keeps_count split: list.split)
qed

lemma bind_all_keeps_count: "counted env slot tally \<Longrightarrow> moves (same_count tally) (bind_all env dev v)"
  unfolding bind_all_def by (auto intro!: vf_count.composed ask_keeps_count bind_keeps_count split: function_kind.split)

lemma config_VF:
  assumes "counted env (slot_id dev) tally" "kind dev = VF" "numeric env params ''hostdev_vf_counts'' = Inr counts" "config env params dev t = (Inr dev', t')"
  shows "tally (hworld t') = counts" "num_vfs dev' = tally (hworld t)" "slot_id dev' = slot_id dev" "kind dev' = VF"
proof -
  obtain dev1 t1 t2 c where k: "create_vfs env dev counts t = (Inr dev1, t1)" and b: "bind_all env dev1 (drv dev1) t1 = (Inr (), t2)"
    and n: "(if take 2 (drop 2 c) = ''02'' then config_net_vfs env params dev1 else ret dev1) t2 = (Inr dev', t')"
    using assms(2-4) by (auto simp: config_def hread_run elim!: bnd_InrE)
  note made = create_vfs_run[OF assms(1) k]
  have id: "slot_id dev1 = slot_id dev" "kind dev1 = VF" using assms(2) by (subst made(3), simp)+
  have "moves (same_count tally) (if take 2 (drop 2 c) = ''02'' then config_net_vfs env params dev1 else ret dev1)"
    by (intro vf_count.composed net_keeps_count[OF assms(1)])
  from movesD[OF this n] movesD[OF bind_all_keeps_count[OF assms(1)] b] made(1) show "tally (hworld t') = counts" by (simp add: same_count_def)
  have "num_vfs dev' = num_vfs dev1 \<and> slot_id dev' = slot_id dev1 \<and> kind dev' = kind dev1"
    using n by (auto simp: config_net_vfs_def ret_def throw_def elim!: bnd_InrE split: if_splits list.splits)
  then show "num_vfs dev' = tally (hworld t)" "slot_id dev' = slot_id dev" "kind dev' = VF" using made(2) id by auto
qed

text \<open>Configuring a device for its virtual functions gives it the number of functions the parameters ask for, and restoring the configured device gives it
  the number it had before, whatever happened to the functions in between.
\<close>

lemma vf_count_restored:
  assumes "counted env (slot_id dev) tally" "kind dev = VF" "numeric env params ''hostdev_vf_counts'' = Inr counts"
    and "config env params dev t = (Inr dev', t1)" "restore env dev' t2 = (Inr (), t3)"
  shows "tally (hworld t1) = counts \<and> tally (hworld t3) = tally (hworld t)"
proof -
  note c = config_VF[OF assms(1-4)]
  obtain s dev2 where "create_vfs env dev' (num_vfs dev') s = (Inr dev2, t3)"
    using assms(5) c(4) by (auto simp: restore_def ret_def elim!: bnd_InrE)
  from create_vfs_run(1)[OF _ this] assms(1) c show ?thesis by simp
qed

text \<open>A device with at most three functions.\<close>

definition sriov_tally :: "int \<Rightarrow> int" where
  "sriov_tally w = (if w = 1 \<or> w = 2 \<or> w = 3 then w else 0)"

definition sriov_write :: "string \<Rightarrow> string \<Rightarrow> int \<Rightarrow> unit res \<times> int" where
  "sriov_write p text w =
     (if p \<noteq> dev_file ''01'' ''sriov_numvfs'' then (Inr (), w)
      else (case parse_int text of
              Some (PInt k, _) \<Rightarrow> if sriov_tally k = k then (Inr (), k) else (Inl (IOError ''Numerical result out of range''), w)
            | _ \<Rightarrow> (Inl (IOError ''Invalid argument''), w)))"

definition sriov_host :: "int sysfs" where
  "sriov_host = \<lparr>fs_exists = (\<lambda>p w. \<not> endswith p ''/driver''),
     fs_read = (\<lambda>p w. Inr (if endswith p ''/sriov_totalvfs'' then ''3'' else if endswith p ''/sriov_numvfs'' then int_str (sriov_tally w) else ''0x010802'')),
     fs_write = sriov_write, fs_resolve = (\<lambda>p w. drop (length p - 1) p), fs_list = (\<lambda>p w. Inr []),
     fs_virtfns = (\<lambda>p w. map (\<lambda>i. ''virtfn'' @ int_str (int i)) [0 ..< nat w]), fs_driver_slots = (\<lambda>p w. []), run_host = (\<lambda>c w. (Inr (), w)),
     random_mac = (\<lambda>w. ([], w)), wait_vfs = (\<lambda>n p w. w), slot_params = (\<lambda>p s. p), numeric = (\<lambda>p k. Inr 2), was_loaded = (\<lambda>d w. Inr True),
     reload_module = (\<lambda>d f p w. (Inr (), w))\<rparr>"

lemma sriov_counted: "counted sriov_host ''01'' sriov_tally"
proof -
  have "int_of_str (strip_text (int_str (sriov_tally w))) = Inr (sriov_tally w)" for w
  proof -
    have "sriov_tally w \<in> {0, 1, 2, 3}" by (simp add: sriov_tally_def)
    moreover have "\<forall>k \<in> {0, 1, 2, 3}. int_of_str (strip_text (int_str k)) = Inr k" by code_simp
    ultimately show ?thesis by blast
  qed
  moreover have "endswith (dev_file ''01'' ''sriov_numvfs'') ''/sriov_numvfs''" "\<not> endswith (dev_file ''01'' ''sriov_numvfs'') ''/sriov_totalvfs''" by code_simp+
  moreover have "parse_int (int_str k) = Some (PInt k, [])" for k using parse_int_str[of "[]" k] by (simp add: num_stop_def)
  ultimately show ?thesis by (auto simp: counted_def sriov_host_def sriov_write_def split: if_splits)
qed

definition sriov_dev :: hdev where
  "sriov_dev = host_dev\<lparr>kind := VF, origin_driver := None\<rparr>"

definition sriov_start :: "int hstate" where
  "sriov_start = \<lparr>hworld = 1, writes = []\<rparr>"

lemma vf_count_restored_example:
  "\<exists>dev' t1 t3. config sriov_host [] sriov_dev sriov_start = (Inr dev', t1) \<and> restore sriov_host dev' t1 = (Inr (), t3)
     \<and> sriov_tally (hworld t1) = 2 \<and> sriov_tally (hworld t3) = 1 \<and> vfs dev' = [''0'', ''1'']"
proof -
  have "(case config sriov_host [] sriov_dev sriov_start of (Inr d, u) \<Rightarrow> fst (restore sriov_host d u) = Inr () \<and> vfs d = [''0'', ''1''] | _ \<Rightarrow> False)" by code_simp
  then obtain dev' t1 t3 where c: "config sriov_host [] sriov_dev sriov_start = (Inr dev', t1)" and r: "restore sriov_host dev' t1 = (Inr (), t3)"
    and v: "vfs dev' = [''0'', ''1'']"
    by (auto split: prod.splits sum.splits) (metis prod.collapse)
  have d: "slot_id sriov_dev = ''01''" "kind sriov_dev = VF" "numeric sriov_host [] ''hostdev_vf_counts'' = Inr 2" "sriov_tally (hworld sriov_start) = 1" by code_simp+
  show ?thesis using vf_count_restored[of sriov_host sriov_dev sriov_tally, OF _ d(2, 3) c r] sriov_counted d c r v by auto
qed

end
