(* ===== verification/Host_Login.thy ===== *)
theory Host_Login
  imports Host_Device Vm_Env
begin

text \<open>
  Logging into a guest by the address of a card (\<^verbatim>\<open>get_guest_ip_from_mac\<close> and \<^verbatim>\<open>ssh_login_from_mac\<close> of
  \<^verbatim>\<open>provider/hostdev/utils.py\<close>).  The guest and the log in are parameters; the state counts the open consoles.
\<close>

record 'w gstate =
  gworld :: 'w
  consoles :: nat

record ('w, 'c) login_guest =
  console_login :: "'w \<Rightarrow> unit res \<times> 'w"
  console_output :: "string \<Rightarrow> 'w \<Rightarrow> string res \<times> 'w"
  console_cmd :: "string \<Rightarrow> 'w \<Rightarrow> unit res \<times> 'w"
  linux_ifnames :: "'w \<Rightarrow> string list res \<times> 'w"
  windows_nic_attribute :: "string \<Rightarrow> string \<Rightarrow> string \<Rightarrow> 'w \<Rightarrow> string res \<times> 'w"
  enable_windows_network :: "string \<Rightarrow> 'w \<Rightarrow> unit res \<times> 'w"
  windows_addrs :: "string \<Rightarrow> 'w \<Rightarrow> pydict res \<times> 'w"
  unicode_escape :: "string \<Rightarrow> string res"
  session_log :: "'w \<Rightarrow> string"
  remote_login :: "string \<Rightarrow> pyval \<Rightarrow> pyval \<Rightarrow> pyval \<Rightarrow> pyval \<Rightarrow> pyval \<Rightarrow> string \<Rightarrow> string \<Rightarrow> 'w \<Rightarrow> 'c res \<times> 'w"

definition gdo :: "('w \<Rightarrow> 'a res \<times> 'w) \<Rightarrow> ('w gstate, 'a) py" where
  "gdo f t = (case f (gworld t) of (r, w) \<Rightarrow> (r, t\<lparr>gworld := w\<rparr>))"

text \<open>\<open>v[0]\<close>.\<close>

definition first_item :: "pyval \<Rightarrow> pyval res" where
  "first_item v =
     (case v of
        PList (x # _) \<Rightarrow> Inr x
      | PList [] \<Rightarrow> Inl IndexError
      | PStr (c # _) \<Rightarrow> Inr (PStr [c])
      | PStr [] \<Rightarrow> Inl IndexError
      | PDict _ \<Rightarrow> Inl (KeyError ''0'')
      | _ \<Rightarrow> Inl (TypeError ''not subscriptable''))"

definition guest_json :: "('w, 'c) login_guest \<Rightarrow> string \<Rightarrow> ('w gstate, pyval) py" where
  "guest_json g cmd =
     bnd (gdo (console_output g cmd)) (\<lambda>out.
       lift_res (case loads out of None \<Rightarrow> Inl (ValueError out) | Some v \<Rightarrow> first_item v))"

fun last_address :: "string \<Rightarrow> pyval \<Rightarrow> pyval list \<Rightarrow> pyval res" where
  "last_address family ip [] = Inr ip"
| "last_address family ip (a # as) =
     rbind (pindex a ''family'') (\<lambda>f.
       if py_eq f (PStr family) then
         rbind (pindex a ''scope'') (\<lambda>s.
           if py_eq s (PStr ''global'') then rbind (pindex a ''local'') (\<lambda>l. last_address family l as) else last_address family ip as)
       else last_address family ip as)"

definition nic_state :: "string \<Rightarrow> string" where
  "nic_state ifname = ''nmcli -g GENERAL.STATE device show '' @ ifname"

definition own_nic :: "('w, 'c) login_guest \<Rightarrow> string \<Rightarrow> string \<Rightarrow> pyval \<Rightarrow> ('w gstate, pyval) py" where
  "own_nic g family ifname ip =
     bnd (gdo (console_output g (nic_state ifname))) (\<lambda>st.
     bnd (if sublist ''(disconnected)'' st then gdo (console_cmd g (''nmcli device up '' @ ifname)) else ret ()) (\<lambda>_.
     bnd (guest_json g (''ip -j addr show '' @ ifname)) (\<lambda>info.
       lift_res (rbind (rbind (pindex info ''addr_info'') py_iter) (last_address family ip)))))"

definition other_nic :: "('w, 'c) login_guest \<Rightarrow> string \<Rightarrow> ('w gstate, unit) py" where
  "other_nic g ifname =
     bnd (gdo (console_output g (nic_state ifname))) (\<lambda>st.
       if sublist ''(connected)'' st then gdo (console_cmd g (''nmcli device down '' @ ifname)) else ret ())"

fun linux_ip :: "('w, 'c) login_guest \<Rightarrow> string \<Rightarrow> string \<Rightarrow> pyval \<Rightarrow> string list \<Rightarrow> ('w gstate, pyval) py" where
  "linux_ip g mac family ip [] = ret ip"
| "linux_ip g mac family ip (ifname # ifnames) =
     bnd (guest_json g (''ip -j link show '' @ ifname)) (\<lambda>info.
     bnd (lift_res (pindex info ''address'')) (\<lambda>a.
       if py_eq a (PStr mac) then bnd (own_nic g family ifname ip) (\<lambda>ip'. linux_ip g mac family ip' ifnames)
       else bnd (other_nic g ifname) (\<lambda>_. linux_ip g mac family ip ifnames)))"

definition windows_ip :: "('w, 'c) login_guest \<Rightarrow> string \<Rightarrow> int \<Rightarrow> ('w gstate, pyval) py" where
  "windows_ip g mac ip_version =
     bnd (gdo (windows_nic_attribute g ''macaddress'' mac ''netconnectionid'')) (\<lambda>ifname.
     bnd (gdo (enable_windows_network g ifname)) (\<lambda>_.
     bnd (gdo (windows_addrs g mac)) (\<lambda>info.
       lift_res (dindex info (if ip_version = 4 then ''ipv4'' else ''ipv6'')))))"

definition open_console :: "('w, 'c) login_guest \<Rightarrow> ('w gstate, unit) py" where
  "open_console g = bnd (gdo (console_login g)) (\<lambda>_. modify (\<lambda>t. t\<lparr>consoles := Suc (consoles t)\<rparr>))"

definition close_console :: "('w gstate, unit) py" where
  "close_console = modify (\<lambda>t. t\<lparr>consoles := consoles t - 1\<rparr>)"

definition get_guest_ip_from_mac :: "('w, 'c) login_guest \<Rightarrow> pydict \<Rightarrow> string \<Rightarrow> int \<Rightarrow> ('w gstate, pyval) py" where
  "get_guest_ip_from_mac g params mac ip_version =
     (if ip_version \<notin> {4, 6} then throw (ValueError ''Unsupported IP version'')
      else
        bnd (lift_res (dindex params ''os_type'')) (\<lambda>os.
        bnd (open_console g) (\<lambda>_.
          try_finally
            (if os = PStr ''linux'' then
               bnd (gdo (linux_ifnames g)) (linux_ip g mac (if ip_version = 4 then ''inet'' else ''inet6'') (PStr []))
             else if os = PStr ''windows'' then windows_ip g mac ip_version
             else throw (ValueError ''Unknown os type''))
            close_console)))"

definition ssh_login_from_mac :: "('w, 'c) login_guest \<Rightarrow> pydict \<Rightarrow> string \<Rightarrow> int \<Rightarrow> ('w gstate, 'c option) py" where
  "ssh_login_from_mac g params mac ip_version =
     bnd (get_guest_ip_from_mac g params mac ip_version) (\<lambda>ip.
       if truthy ip then
         bnd (lift_res (unicode_escape g (str_of (dget_default params ''shell_linesep'' (PStr [CHR 0x0A]))))) (\<lambda>linesep.
         bnd (gets (\<lambda>t. session_log g (gworld t))) (\<lambda>log.
         bnd (gdo (remote_login g ''ssh'' ip (dget_default params ''shell_port'' PNone) (dget_default params ''username'' (PStr []))
                (dget_default params ''password'' (PStr [])) (dget_default params ''shell_prompt'' (PStr (''['' @ [CHR 0x5C] @ ''#'' @ [CHR 0x5C] @ ''$]'' @ [CHR 0x5C] @ ''s*$'')))
                linesep log)) (\<lambda>c. ret (Some c))))
       else ret None)"

section \<open>The console\<close>

definition same_consoles :: "'w gstate \<Rightarrow> 'w gstate \<Rightarrow> bool" where
  "same_consoles t t' \<longleftrightarrow> consoles t' = consoles t"

interpretation logins: state_relation same_consoles
  by unfold_locales (auto simp: same_consoles_def)

lemma gdo_moves: "moves same_consoles (gdo f)"
  by (rule movesI) (auto simp: gdo_def same_consoles_def split: prod.split)

lemma nic_moves: "moves same_consoles (guest_json g cmd)" "moves same_consoles (own_nic g family ifname ip)" "moves same_consoles (other_nic g ifname)"
  "moves same_consoles (windows_ip g mac v)"
proof -
  show j: "moves same_consoles (guest_json g cmd)" for cmd unfolding guest_json_def by (intro logins.composed gdo_moves)
  show "moves same_consoles (own_nic g family ifname ip)" unfolding own_nic_def by (intro logins.composed gdo_moves j)
  show "moves same_consoles (other_nic g ifname)" "moves same_consoles (windows_ip g mac v)"
    unfolding other_nic_def windows_ip_def by (intro logins.composed gdo_moves)+
qed

lemma linux_ip_moves: "moves same_consoles (linux_ip g mac family ip ifnames)"
proof (induction ifnames arbitrary: ip)
  case (Cons ifname ifnames)
  then show ?case unfolding linux_ip.simps by (intro logins.composed nic_moves)
qed (simp add: logins.unchanged)

text \<open>The console that is opened to find the address is closed again, on every path, and a failed search raises after closing it.\<close>

lemma ip_console_closed: "consoles (snd (get_guest_ip_from_mac g params mac v t)) = consoles t"
proof -
  have fin: "consoles (snd (try_finally m close_console (u\<lparr>consoles := Suc (consoles t)\<rparr>))) = consoles t"
    if "moves same_consoles m" for m :: "('a gstate, pyval) py" and u
    using movesD[OF that, of "u\<lparr>consoles := Suc (consoles t)\<rparr>"]
    by (auto simp: try_finally_def close_console_def modify_def same_consoles_def split: prod.split)
  have body: "moves same_consoles (if os = PStr ''linux'' then bnd (gdo (linux_ifnames g)) (linux_ip g mac family (PStr []))
     else if os = PStr ''windows'' then windows_ip g mac v else throw (ValueError ''Unknown os type''))" for os family
    by (intro logins.composed gdo_moves linux_ip_moves nic_moves)
  obtain r w where l: "console_login g (gworld t) = (r, w)" by fastforce
  then show ?thesis using fin[OF body, where u = "t\<lparr>gworld := w\<rparr>"]
    by (cases r) (auto simp: get_guest_ip_from_mac_def open_console_def throw_def bnd_def gdo_def lift_res_def modify_def split: sum.split)
qed

text \<open>The address of a card: of the addresses of the family with global scope, the last.\<close>

definition address_item :: "string \<times> string \<times> string \<Rightarrow> pyval" where
  "address_item x = (case x of (f, s, l) \<Rightarrow> PDict [(''family'', PStr f), (''local'', PStr l), (''scope'', PStr s)])"

lemma last_address_item:
  "last_address family ip (address_item (f, s, l) # as) = last_address family (if f = family \<and> s = ''global'' then PStr l else ip) as"
  by (auto simp: address_item_def pindex_def dindex_def)

lemma last_address_spec:
  "last_address family ip (map address_item xs) =
     Inr (last (ip # map (\<lambda>x. PStr (snd (snd x))) (filter (\<lambda>x. fst x = family \<and> fst (snd x) = ''global'') xs)))"
proof (induction xs arbitrary: ip)
  case (Cons x xs)
  obtain f s l where x: "x = (f, s, l)" by (cases x)
  show ?case unfolding list.map x last_address_item Cons.IH by simp
qed simp

end
