(* ===== verification/Storage_Benchmark.thy ===== *)
theory Storage_Benchmark
  imports Py_Text State_Relation
begin

text \<open>
  The tools that load the disks of a guest (\<^verbatim>\<open>provider/storage_benchmark.py\<close>): installing fio and iozone in a Linux or Windows guest,
  running them and removing them again.  The guest is a parameter; the state of an instance holds the files it has put into the guest, the commands it
  has given and the number of its open sessions.
\<close>

section \<open>Sessions and templates\<close>

record 'w bench =
  bworld :: 'w
  issued :: "string list"
  env_files :: "string list"
  sessions :: nat

record 'w bench_env =
  is_alive :: "'w \<Rightarrow> bool"
  wait_for_login :: "'w \<Rightarrow> unit res \<times> 'w"
  shell :: "string \<Rightarrow> int \<Rightarrow> 'w \<Rightarrow> (int \<times> string) res \<times> 'w"
  poll_for :: "int \<Rightarrow> ('w bench, bool) py \<Rightarrow> ('w bench, bool) py"
  scp_to_guest :: "string \<Rightarrow> pyval \<Rightarrow> pyval \<Rightarrow> string \<Rightarrow> string \<Rightarrow> 'w \<Rightarrow> unit res \<times> 'w"
  winutils_vol :: "string \<Rightarrow> 'w \<Rightarrow> string option res \<times> 'w"
  winutils_letter :: "string \<Rightarrow> 'w \<Rightarrow> string res \<times> 'w"
  deps_dir :: string
  platform_machine :: string
  get_numeric :: "pydict \<Rightarrow> string \<Rightarrow> int \<Rightarrow> int res"

definition bdo :: "('w \<Rightarrow> 'a res \<times> 'w) \<Rightarrow> ('w bench, 'a) py" where
  "bdo f t = (case f (bworld t) of (r, w) \<Rightarrow> (r, t\<lparr>bworld := w\<rparr>))"

text \<open>A shell: \<open>cmd_status_output\<close>, \<open>cmd_output\<close>, and \<open>cmd\<close>, which raises for a status that is not zero.\<close>

definition cmd_status_output :: "'w bench_env \<Rightarrow> string \<Rightarrow> int \<Rightarrow> ('w bench, int \<times> string) py" where
  "cmd_status_output env cmd timeout =
     bnd (modify (\<lambda>t. t\<lparr>issued := issued t @ [cmd]\<rparr>)) (\<lambda>_. bdo (shell env cmd timeout))"

definition cmd_output :: "'w bench_env \<Rightarrow> string \<Rightarrow> int \<Rightarrow> ('w bench, string) py" where
  "cmd_output env cmd timeout = bnd (cmd_status_output env cmd timeout) (\<lambda>so. ret (snd so))"

definition raw_cmd :: "'w bench_env \<Rightarrow> string \<Rightarrow> int \<Rightarrow> ('w bench, string) py" where
  "raw_cmd env cmd timeout =
     bnd (cmd_status_output env cmd timeout) (\<lambda>so. if fst so \<noteq> 0 then throw (OtherError ''ShellCmdError'' cmd) else ret (snd so))"

definition login :: "'w bench_env \<Rightarrow> ('w bench, unit) py" where
  "login env = bnd (bdo (wait_for_login env)) (\<lambda>_. modify (\<lambda>t. t\<lparr>sessions := Suc (sessions t)\<rparr>))"

definition close_session :: "('w bench, unit) py" where
  "close_session = modify (\<lambda>t. t\<lparr>sessions := sessions t - 1\<rparr>)"

definition session :: "'w bench_env \<Rightarrow> ('w bench, unit) py" where
  "session env =
     bnd (gets (\<lambda>t. is_alive env (bworld t))) (\<lambda>b. if b then ret () else bnd close_session (\<lambda>_. login env))"

definition session_cmd :: "'w bench_env \<Rightarrow> string \<Rightarrow> int \<Rightarrow> ('w bench, string) py" where
  "session_cmd env cmd timeout = bnd (session env) (\<lambda>_. raw_cmd env cmd timeout)"

text \<open>The two ways the templates are filled: \<open>%s\<close> in order, and braces, empty or with a number.\<close>

fun percent :: "string \<Rightarrow> string list \<Rightarrow> string" where
  "percent [] as = []"
| "percent (c # d # cs) (a # as) = (if c = CHR ''%'' \<and> d = CHR ''s'' then a @ percent cs as else c # percent (d # cs) (a # as))"
| "percent (c # cs) as = c # percent cs as"

fun braces :: "string \<Rightarrow> string list \<Rightarrow> string" where
  "braces [] as = []"
| "braces (c # d # e # cs) as =
     (if c = CHR ''{'' \<and> d = CHR ''}'' then hd as @ braces (e # cs) (tl as)
      else if c = CHR ''{'' \<and> d = CHR ''0'' \<and> e = CHR ''}'' then as ! 0 @ braces cs as
      else if c = CHR ''{'' \<and> d = CHR ''1'' \<and> e = CHR ''}'' then as ! 1 @ braces cs as
      else if c = CHR ''{'' \<and> d = CHR ''2'' \<and> e = CHR ''}'' then as ! 2 @ braces cs as
      else c # braces (d # e # cs) as)"
| "braces (c # d # []) as = (if c = CHR ''{'' \<and> d = CHR ''}'' then hd as else [c, d])"
| "braces [c] as = [c]"

section \<open>The benchmark\<close>

record instance_of =
  tool :: string
  os_type :: string

definition quote :: string where "quote = [CHR 0x22]"

definition cmds :: "(string \<times> (string \<times> string) list) list" where
  "cmds =
     [(''linux'', [(''_symlinks'', ''ln -s -f %s %s''), (''_list_pid'', ''pgrep -xl %s''),
        (''_kill_pid'', ''killall -s SIGKILL %s''), (''_rm_file'', ''rm -rf {}'')]),
      (''windows'', [(''_symlinks'', ''mklink %s %s''), (''_list_pid'', ''TASKLIST /FI '' @ quote @ ''IMAGENAME eq %s''),
        (''_kill_pid'', ''TASKKILL /F /IM %s /T''), (''_rm_file'', ''RD /S /Q '' @ quote @ ''{}'' @ quote)])]"

definition tar_map :: "(string \<times> string) list" where
  "tar_map = [(''.tar'', ''-xvf''), (''.tar.gz'', ''-xzf''), (''.tar.bz2'', ''-xjf''), (''.tar.Z'', ''-xZf'')]"

definition download_cmds :: "(string \<times> string) list" where
  "download_cmds = [(''git'', ''rm -rf {0} && git clone {1} {0}''), (''curl'', ''curl -o {0} {1}'')]"

text \<open>\<open>__getattr__\<close>, for the names that are commands.\<close>

definition bench_attr :: "instance_of \<Rightarrow> string \<Rightarrow> string res" where
  "bench_attr self item =
     (case rbind (dindex cmds (os_type self)) (\<lambda>d. dindex d item) of
        Inl (KeyError k) \<Rightarrow> Inl (AttributeError k)
      | r \<Rightarrow> r)"

definition keep_file :: "string \<Rightarrow> ('w bench, unit) py" where
  "keep_file dst = modify (\<lambda>t. t\<lparr>env_files := env_files t @ [dst]\<rparr>)"

definition make_symlinks :: "'w bench_env \<Rightarrow> instance_of \<Rightarrow> string \<Rightarrow> string \<Rightarrow> ('w bench, unit) py" where
  "make_symlinks env self src dst =
     bnd (session env) (\<lambda>_.
     bnd (lift_res (bench_attr self ''_symlinks'')) (\<lambda>f.
     bnd (raw_cmd env (percent f [src, dst]) 60) (\<lambda>_. keep_file dst)))"

definition upper_char :: "char \<Rightarrow> char" where
  "upper_char c = (if 97 \<le> (of_char c :: int) \<and> (of_char c :: int) \<le> 122 then char_of ((of_char c :: int) - 32) else c)"

text \<open>\<open>re.search(name, text, re.I)\<close> for a name in which only the dot is special.\<close>

fun starts_like :: "string \<Rightarrow> string \<Rightarrow> bool" where
  "starts_like [] s = True"
| "starts_like (p # ps) [] = False"
| "starts_like (p # ps) (c # cs) = ((if p = CHR ''.'' then c \<noteq> CHR 0x0A else lower_char p = lower_char c) \<and> starts_like ps cs)"

fun search_like :: "string \<Rightarrow> string \<Rightarrow> bool" where
  "search_like p [] = starts_like p []"
| "search_like p (c # cs) = (starts_like p (c # cs) \<or> search_like p cs)"

definition proc_name :: "instance_of \<Rightarrow> string" where
  "proc_name self = (if os_type self = ''linux'' then tool self else map upper_char (tool self) @ ''.EXE'')"

definition procs_gone :: "'w bench_env \<Rightarrow> instance_of \<Rightarrow> ('w bench, bool) py" where
  "procs_gone env self =
     bnd (lift_res (bench_attr self ''_list_pid'')) (\<lambda>f.
     bnd (cmd_output env (percent f [proc_name self]) 60) (\<lambda>out. ret (\<not> search_like (lower (proc_name self)) out)))"

definition wait_procs_done :: "'w bench_env \<Rightarrow> instance_of \<Rightarrow> int \<Rightarrow> ('w bench, unit) py" where
  "wait_procs_done env self timeout =
     bnd (poll_for env timeout (procs_gone env self)) (\<lambda>b.
       if b then ret () else throw (TestError (''Not all '' @ proc_name self @ '' processes done in '' @ int_str timeout @ '' sec.'')))"

definition kill_procs :: "'w bench_env \<Rightarrow> instance_of \<Rightarrow> ('w bench, unit) py" where
  "kill_procs env self =
     bnd (lift_res (bench_attr self ''_kill_pid'')) (\<lambda>f.
     bnd (cmd_output env (percent f [if os_type self = ''linux'' then tool self else tool self @ ''.exe'']) 120) (\<lambda>_. ret ()))"

definition remove_cmd :: "string \<Rightarrow> string list \<Rightarrow> string" where
  "remove_cmd f files = join '' && '' (map (\<lambda>x. braces f [x]) files)"

definition remove_env_files :: "'w bench_env \<Rightarrow> instance_of \<Rightarrow> ('w bench, unit) py" where
  "remove_env_files env self =
     bnd (gets env_files) (\<lambda>files.
     bnd (lift_res (bench_attr self ''_rm_file'')) (\<lambda>f.
     bnd (raw_cmd env (remove_cmd f files) 300) (\<lambda>_. ret ())))"

definition download_benchmark :: "'w bench_env \<Rightarrow> string \<Rightarrow> string \<Rightarrow> string \<Rightarrow> int \<Rightarrow> ('w bench, unit) py" where
  "download_benchmark env mode url dst timeout =
     bnd (session env) (\<lambda>_.
     bnd (lift_res (dindex download_cmds mode)) (\<lambda>f.
     bnd (raw_cmd env (braces f [dst, url]) timeout) (\<lambda>_. keep_file dst)))"

definition scp_benckmark :: "'w bench_env \<Rightarrow> pyval \<Rightarrow> pyval \<Rightarrow> string \<Rightarrow> string \<Rightarrow> ('w bench, unit) py" where
  "scp_benckmark env username password host_path guest_path =
     bnd (bdo (scp_to_guest env ''22'' username password host_path guest_path)) (\<lambda>_. keep_file guest_path)"

text \<open>The suffix the pattern of the archives finds: a point, \<open>tar\<close>, perhaps a point, and word characters up to the end.\<close>

definition word_char :: "char \<Rightarrow> bool" where
  "word_char c \<longleftrightarrow> (case digit_val c of None \<Rightarrow> c = CHR ''_'' | Some _ \<Rightarrow> True)"

definition tar_tail :: "string \<Rightarrow> bool" where
  "tar_tail s \<longleftrightarrow> startswith s ''.tar'' \<and> (let r = drop 4 s in list_all word_char (if startswith r ''.'' then tl r else r))"

fun tar_suffix :: "string \<Rightarrow> string option" where
  "tar_suffix [] = None"
| "tar_suffix (c # cs) = (if tar_tail (c # cs) then Some (c # cs) else tar_suffix cs)"

definition tar_option :: "string \<Rightarrow> string res" where
  "tar_option src = (case tar_suffix src of None \<Rightarrow> Inl (AttributeError ''group'') | Some x \<Rightarrow> dindex tar_map x)"

definition tar_unpack_file :: "'w bench_env \<Rightarrow> string \<Rightarrow> string \<Rightarrow> int \<Rightarrow> ('w bench, unit) py" where
  "tar_unpack_file env src dst timeout =
     bnd (lift_res (tar_option src)) (\<lambda>opt.
     bnd (session_cmd env (braces ''mkdir -p {0} && tar {1} {2} -C {0}'' [dst, opt, src]) timeout) (\<lambda>_. ret ()))"

definition unpack_file :: "'w bench_env \<Rightarrow> string \<Rightarrow> string \<Rightarrow> string \<Rightarrow> int \<Rightarrow> ('w bench, unit) py" where
  "unpack_file env mode src dst timeout =
     bnd (if mode = ''tar'' then tar_unpack_file env src dst timeout else throw (KeyError mode)) (\<lambda>_. keep_file dst)"

definition install_linux :: "'w bench_env \<Rightarrow> string \<Rightarrow> string \<Rightarrow> int \<Rightarrow> ('w bench, unit) py" where
  "install_linux env src dst timeout =
     bnd (session_cmd env (percent ''cd %s && ./configure --prefix=%s && make && make install'' [src, dst]) timeout) (\<lambda>_. ret ())"

definition find_exe_file :: "'w bench_env \<Rightarrow> instance_of \<Rightarrow> string \<Rightarrow> int \<Rightarrow> ('w bench, bool) py" where
  "find_exe_file env self dst timeout =
     bnd (session env) (\<lambda>_.
     bnd (cmd_status_output env (percent (''DIR /S /B '' @ quote @ ''%s'' @ quote @ '' | find '' @ quote @ ''%s.exe'' @ quote) [dst, tool self]) timeout) (\<lambda>so.
       if fst so = 0 then (case splitlines (snd so) of [] \<Rightarrow> throw IndexError | _ \<Rightarrow> ret True) else ret False))"

definition install_win :: "'w bench_env \<Rightarrow> instance_of \<Rightarrow> string \<Rightarrow> string \<Rightarrow> int \<Rightarrow> ('w bench, unit) py" where
  "install_win env self src dst timeout =
     bnd (session env) (\<lambda>_.
     bnd (bdo (winutils_letter env (percent (''msiexec /a '' @ quote @ ''%s'' @ quote @ '' /qn TARGETDIR='' @ quote @ ''%s'' @ quote) [src, dst]))) (\<lambda>cmd.
     bnd (session env) (\<lambda>_.
     bnd (cmd_output env cmd timeout) (\<lambda>_.
     bnd (poll_for env timeout (find_exe_file env self dst timeout)) (\<lambda>b.
       if b then ret () else throw (TestError (''Failed to install fio under '' @ int_str timeout @ ''.00.'')))))))"

definition install :: "'w bench_env \<Rightarrow> instance_of \<Rightarrow> string \<Rightarrow> string \<Rightarrow> int \<Rightarrow> ('w bench, unit) py" where
  "install env self src dst timeout =
     bnd (if os_type self = ''linux'' then install_linux env src dst timeout
          else if os_type self = ''windows'' then install_win env self src dst timeout
          else throw (KeyError (os_type self))) (\<lambda>_. keep_file dst)"

text \<open>The clean up runs in a session of its own, which it closes at the end.\<close>

definition clean :: "'w bench_env \<Rightarrow> instance_of \<Rightarrow> int \<Rightarrow> bool \<Rightarrow> ('w bench, unit) py" where
  "clean env self timeout force =
     bnd (login env) (\<lambda>_.
     bnd (if force then kill_procs env self else wait_procs_done env self timeout) (\<lambda>_.
     bnd (gets env_files) (\<lambda>files.
     bnd (if files \<noteq> [] then remove_env_files env self else ret ()) (\<lambda>_. close_session))))"

fun exc_msg :: "exc \<Rightarrow> string" where
  "exc_msg (KeyError k) = [CHR 0x27] @ k @ [CHR 0x27]"
| "exc_msg (AttributeError m) = m"
| "exc_msg (TypeError m) = m"
| "exc_msg (ValueError m) = m"
| "exc_msg (AssertionError m) = m"
| "exc_msg (RuntimeError m) = m"
| "exc_msg (IOError m) = m"
| "exc_msg (TestFail m) = m"
| "exc_msg (TestError m) = m"
| "exc_msg (TestCancel m) = m"
| "exc_msg (OtherError c m) = m"
| "exc_msg _ = []"

definition clean_env :: "'w bench_env \<Rightarrow> instance_of \<Rightarrow> ('w bench, 'a) py \<Rightarrow> ('w bench, 'a) py" where
  "clean_env env self m =
     try_except m (\<lambda>e. if is_exception e then Some (bnd (clean env self 1800 False) (\<lambda>_. throw (TestError (exc_msg e)))) else None)"

section \<open>Configurations\<close>

text \<open>The steps of a set up, in their order.\<close>

datatype setup_step =
    ScpStep pyval pyval string string
  | UnpackStep string string string
  | InstallStep string string int
  | CmdStep string int

record bench_cfg =
  tool_path :: string
  setups :: "setup_step list"

definition run_step :: "'w bench_env \<Rightarrow> instance_of \<Rightarrow> setup_step \<Rightarrow> ('w bench, unit) py" where
  "run_step env self step =
     (case step of
        ScpStep username password host_path guest_path \<Rightarrow> scp_benckmark env username password host_path guest_path
      | UnpackStep mode src dst \<Rightarrow> unpack_file env mode src dst 300
      | InstallStep src dst timeout \<Rightarrow> install env self src dst timeout
      | CmdStep cmd timeout \<Rightarrow> bnd (session_cmd env cmd timeout) (\<lambda>_. ret ()))"

definition iozone_arch :: "string \<Rightarrow> string" where
  "iozone_arch m =
     (if sublist ''ppc64'' m then ''linux-powerpc64'' else if sublist ''aarch64'' m then ''linux-arm''
      else if sublist ''s390'' m then ''linux-S390X'' else ''linux-AMD64'')"

definition get_str :: "pydict \<Rightarrow> string \<Rightarrow> string \<Rightarrow> string" where
  "get_str params k d = str_of (dget_default params k (PStr d))"

definition IozoneLinuxCfg :: "'w bench_env \<Rightarrow> pydict \<Rightarrow> ('w bench, bench_cfg) py" where
  "IozoneLinuxCfg env params =
     (let pkg = get_str params ''iozone_pkg'' ''iozone3_490.tar.bz2'';
          host_path = path_join (path_join (deps_dir env) ''iozone'') pkg;
          download_path = path_join ''/home'' pkg;
          inst = path_join ''/home'' ''iozone_inst'' in
      ret \<lparr>tool_path = percent ''%s/src/current/iozone'' [inst],
           setups = [ScpStep (dget_default params ''username'' PNone) (dget_default params ''password'' PNone) host_path download_path,
             UnpackStep ''tar'' download_path inst,
             CmdStep (percent ''cd %s/src/current && make clean && make %s'' [inst, iozone_arch (platform_machine env)]) 300]\<rparr>)"

text \<open>Without a drive for the tools there is no letter to put in front of the path.\<close>

definition IozoneWinCfg :: "'w bench_env \<Rightarrow> pydict \<Rightarrow> ('w bench, bench_cfg) py" where
  "IozoneWinCfg env params =
     bnd (bdo (winutils_vol env (get_str params ''win_utils_label'' ''WIN_UTILS''))) (\<lambda>letter.
       case letter of
         None \<Rightarrow> throw (TypeError ''unsupported operand'')
       | Some l \<Rightarrow>
           ret \<lparr>tool_path = l @ '':'' @ [CHR 0x5C] @ ''Iozone'' @ [CHR 0x5C] @ ''iozone.exe'',
                setups = [CmdStep ''set nodosfilewarning=1 && set CYGWIN=nodosfilewarning'' 300]\<rparr>)"

definition FioLinuxCfg :: "'w bench_env \<Rightarrow> pydict \<Rightarrow> ('w bench, bench_cfg) py" where
  "FioLinuxCfg env params =
     (let resource = get_str params ''fio_resource'' ''fio-3.13-48-ga819.tar.bz2'' in
      if resource = ''distro'' then
        bnd (cmd_status_output env ''which fio'' 60) (\<lambda>so.
          if fst so = 0 then ret \<lparr>tool_path = strip_set is_ws (snd so), setups = []\<rparr> else throw (TestError ''No available fio in the distro''))
      else
        (let host_path = path_join (path_join (deps_dir env) ''fio'') resource;
             download_path = path_join ''/home'' resource;
             inst = path_join ''/home'' ''fio_inst'' in
         bnd (lift_res (get_numeric env params ''fio_install_timeout'' 300)) (\<lambda>timeout.
           ret \<lparr>tool_path = percent ''%s/bin/fio'' [inst],
                setups = [ScpStep (dget_default params ''username'' PNone) (dget_default params ''password'' PNone) host_path download_path,
                  UnpackStep ''tar'' download_path inst, InstallStep inst inst timeout]\<rparr>)))"

definition fio_inst :: "(string \<times> string) list" where
  "fio_inst =
     [(''x86_64'', ''C:'' @ [CHR 0x5C] @ ''Program Files (x86)'' @ [CHR 0x5C] @ ''fio''), (''i686'', ''C:'' @ [CHR 0x5C] @ ''Program Files'' @ [CHR 0x5C] @ ''fio'')]"

definition fio_msi :: "string \<Rightarrow> string \<Rightarrow> (string \<times> string) list" where
  "fio_msi letter ver =
     [(''x86_64'', letter @ '':'' @ [CHR 0x5C] @ ver @ ''-x64.msi''), (''i686'', letter @ '':'' @ [CHR 0x5C] @ ver @ ''-x86.msi'')]"

definition FioWinCfg :: "'w bench_env \<Rightarrow> pydict \<Rightarrow> ('w bench, bench_cfg) py" where
  "FioWinCfg env params =
     bnd (bdo (winutils_vol env (get_str params ''win_utils_label'' ''WIN_UTILS''))) (\<lambda>letter.
     let arch = get_str params ''vm_arch_name'' ''x84_64'';
         msi = fio_msi (case letter of None \<Rightarrow> ''None'' | Some l \<Rightarrow> l) (get_str params ''fio_ver'' ''fio-latest'') in
     bnd (lift_res (dindex fio_inst arch)) (\<lambda>inst.
     bnd (lift_res (dindex msi arch)) (\<lambda>m.
       ret \<lparr>tool_path = quote @ inst @ [CHR 0x5C] @ ''fio'' @ [CHR 0x5C] @ ''fio.exe'' @ quote, setups = [InstallStep m inst 300]\<rparr>)))"

section \<open>The tools\<close>

definition tool_cfg :: "'w bench_env \<Rightarrow> string \<Rightarrow> (string \<times> (pydict \<Rightarrow> ('w bench, bench_cfg) py)) list" where
  "tool_cfg env name =
     (if name = ''iozone'' then [(''linux'', IozoneLinuxCfg env), (''windows'', IozoneWinCfg env)]
      else [(''linux'', FioLinuxCfg env), (''windows'', FioWinCfg env)])"

definition bench_init :: "'w bench_env \<Rightarrow> ('w bench, unit) py" where
  "bench_init env = bnd (modify (\<lambda>t. t\<lparr>env_files := []\<rparr>)) (\<lambda>_. login env)"

definition set_up :: "'w bench_env \<Rightarrow> instance_of \<Rightarrow> pydict \<Rightarrow> ('w bench, bench_cfg) py" where
  "set_up env self params =
     bnd (bench_init env) (\<lambda>_.
     bnd (lift_res (dindex (tool_cfg env (tool self)) (os_type self))) (\<lambda>cls.
     bnd (session env) (\<lambda>_.
     bnd (cls params) (\<lambda>cfg.
     bnd (for_each (setups cfg) (run_step env self)) (\<lambda>_. ret cfg)))))"

text \<open>
  Without a type of system the object has no attributes yet when the decorator cleans it: looking one up looks up the type of system, which is
  looked up the same way, until the recursion is too deep.
\<close>

definition new_tool :: "'w bench_env \<Rightarrow> string \<Rightarrow> pydict \<Rightarrow> ('w bench, instance_of \<times> bench_cfg) py" where
  "new_tool env name params =
     (case dget params ''os_type'' of
        None \<Rightarrow> throw (RuntimeError ''maximum recursion depth exceeded'')
      | Some os \<Rightarrow>
          (let self = \<lparr>tool = name, os_type = str_of os\<rparr> in
           bnd (clean_env env self (set_up env self params)) (\<lambda>cfg. ret (self, cfg))))"

definition run_tool :: "'w bench_env \<Rightarrow> bench_cfg \<Rightarrow> string \<Rightarrow> int \<Rightarrow> ('w bench, string) py" where
  "run_tool env cfg cmd_options timeout = session_cmd env (join '' '' [tool_path cfg, cmd_options]) timeout"

definition generate_instance :: "'w bench_env \<Rightarrow> pydict \<Rightarrow> string \<Rightarrow> ('w bench, instance_of \<times> bench_cfg) py" where
  "generate_instance env params name = (if name \<in> {''fio'', ''iozone''} then new_tool env name params else throw (KeyError name))"

section \<open>Files of the guest\<close>

text \<open>Which files a step leaves in the guest, and that a step that fails records none.\<close>

definition step_files :: "setup_step \<Rightarrow> string list" where
  "step_files step =
     (case step of ScpStep _ _ _ dst \<Rightarrow> [dst] | UnpackStep _ _ dst \<Rightarrow> [dst] | InstallStep _ dst _ \<Rightarrow> [dst] | CmdStep _ _ \<Rightarrow> [])"

definition same_env :: "'w bench \<Rightarrow> 'w bench \<Rightarrow> bool" where
  "same_env t t' \<longleftrightarrow> env_files t' = env_files t"

interpretation files: state_relation same_env
  by unfold_locales (auto simp: same_env_def)

text \<open>Polling only repeats what it polls.\<close>

definition fair_poll :: "'w bench_env \<Rightarrow> bool" where
  "fair_poll env \<longleftrightarrow> (\<forall>n m. moves same_env m \<longrightarrow> moves same_env (poll_for env n m))"

lemma bdo_files: "moves same_env (bdo f)"
  by (rule movesI) (auto simp: bdo_def same_env_def split: prod.split)

lemma modify_files: "moves same_env (modify (\<lambda>t. t\<lparr>issued := f t\<rparr>))" "moves same_env (modify (\<lambda>t. t\<lparr>sessions := n t\<rparr>))"
  by (auto intro!: moves_modify simp: same_env_def)

lemma session_files:
  "moves same_env (cmd_status_output env cmd n)" "moves same_env (cmd_output env cmd n)" "moves same_env (raw_cmd env cmd n)" "moves same_env (login env)"
  "moves same_env (session env)" "moves same_env (session_cmd env cmd n)" "moves same_env close_session"
proof -
  show s: "moves same_env (cmd_status_output env cmd n)" "moves same_env (login env)" "moves same_env close_session"
    unfolding cmd_status_output_def login_def close_session_def by (intro files.composed bdo_files modify_files)+
  show r: "moves same_env (cmd_output env cmd n)" "moves same_env (raw_cmd env cmd n)" "moves same_env (session env)"
    unfolding cmd_output_def raw_cmd_def session_def by (intro files.composed s bdo_files modify_files)+
  show "moves same_env (session_cmd env cmd n)" unfolding session_cmd_def by (intro files.composed r)
qed

lemma step_keeps:
  assumes "moves same_env m" "bnd m (\<lambda>_. keep_file dst) t = (r, t')"
  shows "env_files t' = env_files t @ (case r of Inr _ \<Rightarrow> [dst] | Inl _ \<Rightarrow> [])"
proof -
  obtain q u where m: "m t = (q, u)" by fastforce
  show ?thesis using assms(2) m movesD[OF assms(1) m]
    by (cases q) (auto simp: bnd_def keep_file_def modify_def same_env_def)
qed

lemma install_moves: "fair_poll env \<Longrightarrow> moves same_env (install_win env self src dst n)" "moves same_env (install_linux env src dst n)"
  "moves same_env (tar_unpack_file env src dst n)"
proof -
  have f: "moves same_env (find_exe_file env self dst n)"
    unfolding find_exe_file_def by (intro files.composed session_files) (simp split: list.split, auto intro: files.unchanged)
  show "moves same_env (install_win env self src dst n)" if "fair_poll env"
    using that f unfolding install_win_def by (intro files.composed session_files bdo_files) (simp add: fair_poll_def)
  show "moves same_env (install_linux env src dst n)" "moves same_env (tar_unpack_file env src dst n)"
    unfolding install_linux_def tar_unpack_file_def by (intro files.composed session_files)+
qed

lemma run_step_files:
  assumes "fair_poll env" "run_step env self step t = (r, t')"
  shows "env_files t' = env_files t @ (case r of Inr _ \<Rightarrow> step_files step | Inl _ \<Rightarrow> [])"
proof (cases step)
  case (CmdStep cmd n)
  have "moves same_env (run_step env self step)" unfolding run_step_def CmdStep setup_step.case by (intro files.composed session_files)
  from movesD[OF this assms(2)] show ?thesis by (simp add: same_env_def step_files_def CmdStep split: sum.split)
next
  case (ScpStep u p src dst)
  then have "bnd (bdo (scp_to_guest env ''22'' u p src dst)) (\<lambda>_. keep_file dst) t = (r, t')" using assms(2) by (simp add: run_step_def scp_benckmark_def)
  from step_keeps[OF bdo_files this] show ?thesis by (cases r) (simp_all add: step_files_def ScpStep)
next
  case (UnpackStep mode src dst)
  have "moves same_env (if mode = ''tar'' then tar_unpack_file env src dst 300 else throw (KeyError mode))" by (intro files.composed install_moves)
  from step_keeps[OF this] show ?thesis using UnpackStep assms(2) by (cases r) (simp_all add: run_step_def unpack_file_def step_files_def)
next
  case (InstallStep src dst n)
  have "moves same_env (if os_type self = ''linux'' then install_linux env src dst n else if os_type self = ''windows'' then install_win env self src dst n
      else throw (KeyError (os_type self)))" using assms(1) by (intro files.composed install_moves)
  from step_keeps[OF this] show ?thesis using InstallStep assms(2) by (cases r) (simp_all add: run_step_def install_def step_files_def)
qed

lemma steps_files:
  assumes "fair_poll env" "for_each steps (run_step env self) t = (r, t')"
  shows "\<exists>k \<le> length steps. env_files t' = env_files t @ concat (map step_files (take k steps)) \<and> (k = length steps \<longleftrightarrow> r = Inr ())"
  using assms(2)
proof (induction steps arbitrary: t)
  case (Cons step steps)
  obtain q u where q: "run_step env self step t = (q, u)" by fastforce
  note first = run_step_files[OF assms(1) q]
  show ?case
  proof (cases q)
    case (Inl e)
    then show ?thesis using Cons.prems q first by (intro exI[of _ 0]) (auto simp: bnd_def)
  next
    case (Inr x)
    then have "for_each steps (run_step env self) u = (r, t')" using Cons.prems q by (simp add: bnd_def)
    from Cons.IH[OF this] obtain k where "k \<le> length steps" "env_files t' = env_files u @ concat (map step_files (take k steps))"
      "k = length steps \<longleftrightarrow> r = Inr ()" by blast
    then show ?thesis using first Inr by (intro exI[of _ "Suc k"]) simp
  qed
qed (simp add: ret_def)

text \<open>The configurations put nothing into the guest.\<close>

lemma cfg_files: "dindex (tool_cfg env name) os = Inr cls \<Longrightarrow> moves same_env (cls params)"
proof -
  have "moves same_env (IozoneLinuxCfg env params)" "moves same_env (IozoneWinCfg env params)" "moves same_env (FioLinuxCfg env params)" "moves same_env (FioWinCfg env params)"
    unfolding IozoneLinuxCfg_def IozoneWinCfg_def FioLinuxCfg_def FioWinCfg_def Let_def
    by (intro files.composed session_files bdo_files)+
  then show "dindex (tool_cfg env name) os = Inr cls \<Longrightarrow> moves same_env (cls params)"
    by (auto simp: tool_cfg_def dindex_def split: if_splits)
qed

lemma bench_init_files: "bench_init env t = (r, t') \<Longrightarrow> env_files t' = []"
proof -
  assume a: "bench_init env t = (r, t')"
  have "login env (t\<lparr>env_files := []\<rparr>) = (r, t')" using a by (simp add: bench_init_def bnd_def modify_def)
  from movesD[OF session_files(4) this] show "env_files t' = []" by (simp add: same_env_def)
qed

lemma set_up_failed:
  assumes "fair_poll env" "set_up env self params t = (Inl e, t1)"
  shows "env_files t1 = [] \<or> (\<exists>cls cfg u v k. dindex (tool_cfg env (tool self)) (os_type self) = Inr cls \<and> cls params u = (Inr cfg, v)
    \<and> k < length (setups cfg) \<and> env_files t1 = concat (map step_files (take k (setups cfg))))"
proof -
  obtain r0 t0 where i: "bench_init env t = (r0, t0)" by fastforce
  note f0 = bench_init_files[OF i]
  show ?thesis
  proof (cases "r0 = Inr () \<and> (\<exists>cls. dindex (tool_cfg env (tool self)) (os_type self) = Inr cls)")
    case False
    then show ?thesis using assms(2) i f0 by (cases r0; cases "dindex (tool_cfg env (tool self)) (os_type self)") (auto simp: set_up_def bnd_def lift_res_def throw_def)
  next
    case True
    then obtain cls where cls: "dindex (tool_cfg env (tool self)) (os_type self) = Inr cls" and r0: "r0 = Inr ()" by blast
    obtain r2 t2 where s: "session env t0 = (r2, t2)" by fastforce
    have f2: "env_files t2 = []" using movesD[OF session_files(5) s] f0 by (simp add: same_env_def)
    obtain r3 t3 where c: "cls params t2 = (r3, t3)" by fastforce
    have f3: "env_files t3 = []" using movesD[OF cfg_files[OF cls] c] f2 by (simp add: same_env_def)
    show ?thesis
    proof (cases r3)
      case (Inr cfg)
      obtain q u where q: "for_each (setups cfg) (run_step env self) t3 = (q, u)" by fastforce
      obtain k where k: "k \<le> length (setups cfg)" "env_files u = concat (map step_files (take k (setups cfg)))" "k = length (setups cfg) \<longleftrightarrow> q = Inr ()"
        using steps_files[OF assms(1) q] f3 by auto
      have "t1 = t2 \<or> (t1 = u \<and> q \<noteq> Inr ())"
        using assms(2) i r0 cls s c Inr q by (cases r2; cases q) (auto simp: set_up_def bnd_def lift_res_def ret_def)
      then show ?thesis using k f2 cls c Inr by (metis le_neq_implies_less)
    qed (use assms(2) i r0 cls s c f2 f3 in \<open>cases r2; auto simp: set_up_def bnd_def lift_res_def\<close>)
  qed
qed

lemma clean_keeps:
  assumes "fair_poll env"
  shows "moves same_env (wait_procs_done env self n)"
proof -
  have "moves same_env (procs_gone env self)" unfolding procs_gone_def by (intro files.composed session_files)
  then have "moves same_env (poll_for env n (procs_gone env self))" using assms by (simp add: fair_poll_def)
  then show ?thesis unfolding wait_procs_done_def by (intro files.composed)
qed

lemma cmd_logged: "raw_cmd env cmd n t = (r, t') \<Longrightarrow> issued t' = issued t @ [cmd]"
  by (auto simp: raw_cmd_def cmd_status_output_def bnd_def modify_def bdo_def ret_def throw_def split: prod.splits sum.splits if_splits)

lemma clean_done:
  assumes "fair_poll env" "clean env self n False t = (Inr (), t')" "env_files t \<noteq> []"
  shows "\<exists>f. bench_attr self ''_rm_file'' = Inr f \<and> last (issued t') = remove_cmd f (env_files t)"
proof -
  obtain t1 t2 t3 where l: "login env t = (Inr (), t1)" and w: "wait_procs_done env self n t1 = (Inr (), t2)"
    and d: "(if env_files t2 \<noteq> [] then remove_env_files env self else ret ()) t2 = (Inr (), t3)" and c: "close_session t3 = (Inr (), t')"
    using assms(2) by (auto simp: clean_def gets_def elim!: bnd_InrE)
  have f: "env_files t2 = env_files t" using movesD[OF session_files(4) l] movesD[OF clean_keeps[OF assms(1)] w] by (simp add: same_env_def)
  then obtain g u where g: "bench_attr self ''_rm_file'' = Inr g" "raw_cmd env (remove_cmd g (env_files t)) 300 t2 = (Inr u, t3)"
    using d assms(3) by (auto simp: remove_env_files_def gets_def lift_res_def ret_def elim!: bnd_InrE)
  have "issued t' = issued t3" using c by (auto simp: close_session_def modify_def)
  then show ?thesis using g cmd_logged[OF g(2)] by simp
qed


text \<open>A guest in which building the tool fails.\<close>

definition failing_guest :: "unit bench_env" where
  "failing_guest =
     \<lparr>is_alive = (\<lambda>w. True), wait_for_login = (\<lambda>w. (Inr (), w)), shell = (\<lambda>c n w. (Inr (if startswith c ''cd '' then 2 else 0, []), w)),
      poll_for = (\<lambda>n m. m), scp_to_guest = (\<lambda>p u v a b w. (Inr (), w)), winutils_vol = (\<lambda>l w. (Inr None, w)), winutils_letter = (\<lambda>c w. (Inr c, w)),
      deps_dir = ''/deps'', platform_machine = ''x86_64'', get_numeric = (\<lambda>p k d. Inr d)\<rparr>"

definition fresh_bench :: "unit bench" where
  "fresh_bench = \<lparr>bworld = (), issued = [], env_files = [], sessions = 0\<rparr>"


text \<open>In a Windows guest whose architecture the parameters do not name, fio is never set up: the default architecture is not one of those for which there
  is a package.
\<close>

lemma windows_fio_needs_arch:
  assumes "dget params ''os_type'' = Some (PStr ''windows'')" "dget params ''vm_arch_name'' = None"
  shows "fst (new_tool env ''fio'' params t) \<noteq> Inr x"
proof -
  have cfg: "FioWinCfg env params u \<noteq> (Inr c, u')" for u c u'
    using assms(2) by (auto simp: FioWinCfg_def Let_def get_str_def dget_default_def str_of_def fio_inst_def dindex_def throw_def elim!: bnd_InrE)
  have "set_up env \<lparr>tool = ''fio'', os_type = ''windows''\<rparr> params t \<noteq> (Inr c, u)" for c u
    using cfg by (auto simp: set_up_def tool_cfg_def dindex_def elim!: bnd_InrE)
  then have "clean_env env \<lparr>tool = ''fio'', os_type = ''windows''\<rparr> (set_up env \<lparr>tool = ''fio'', os_type = ''windows''\<rparr> params) t \<noteq> (Inr c, u)" for c u
    by (auto simp: clean_env_def try_except_def bnd_def throw_def split: prod.splits sum.splits if_splits option.splits)
  then show ?thesis using assms(1) by (auto simp: new_tool_def Let_def str_of_def bnd_def split: prod.splits sum.splits)
qed

end
