(* ===== verification/Cdrom_Check.thy ===== *)
theory Cdrom_Check
  imports Vm_Env
begin

text \<open>
  Checking the events of a CD drive (\<^verbatim>\<open>provider/cdrom.py\<close>): whether the tray is open, and the check that wraps ejecting and changing a medium.
  The monitors are parameters.
\<close>

section \<open>The tray\<close>

record 'w cd_env =
  info_block :: "'w \<Rightarrow> pyval res \<times> 'w"
  has_blockdev :: "'w \<Rightarrow> bool"
  qdev_by_drive :: "string \<Rightarrow> 'w \<Rightarrow> string option"
  monitor_count :: "'w \<Rightarrow> nat"
  clear_event :: "nat \<Rightarrow> string \<Rightarrow> 'w \<Rightarrow> unit res \<times> 'w"
  wait_for_events :: "'w \<Rightarrow> pyval list option res \<times> 'w"
  block_text :: "pyval \<Rightarrow> string"

record 'w cdcheck =
  cdworld :: 'w
  status_before :: pyval
  status_after :: pyval
  move_count :: int

definition cdo :: "('w \<Rightarrow> 'a res \<times> 'w) \<Rightarrow> ('w cdcheck, 'a) py" where
  "cdo f t = (case f (cdworld t) of (r, w) \<Rightarrow> (r, t\<lparr>cdworld := w\<rparr>))"

definition id_in :: "string option \<Rightarrow> string \<Rightarrow> bool res" where
  "id_in d text = (case d of None \<Rightarrow> Inl (TypeError ''requires string as left operand'') | Some x \<Rightarrow> Inr (sublist x text))"

fun tray_of_lines :: "string option \<Rightarrow> string list \<Rightarrow> pyval res" where
  "tray_of_lines d [] = Inr (PBool False)"
| "tray_of_lines d (b # bs) =
     rbind (id_in d b) (\<lambda>i.
       if i \<and> sublist ''tray open'' b then Inr (PBool True)
       else if i \<and> sublist ''tray closed'' b then Inr (PBool False)
       else tray_of_lines d bs)"

fun tray_of_blocks :: "'w cd_env \<Rightarrow> string option \<Rightarrow> pyval list \<Rightarrow> pyval res" where
  "tray_of_blocks env d [] = Inr (PBool False)"
| "tray_of_blocks env d (b # bs) =
     rbind (id_in d (block_text env b)) (\<lambda>i.
       if i then rbind (py_get b ''tray_open'' PNone) (\<lambda>v. if truthy v then Inr v else tray_of_blocks env d bs)
       else tray_of_blocks env d bs)"

definition is_device_tray_opened :: "'w cd_env \<Rightarrow> string \<Rightarrow> ('w cdcheck, pyval) py" where
  "is_device_tray_opened env device =
     bnd (cdo (info_block env)) (\<lambda>info.
     bnd (gets (\<lambda>t. if has_blockdev env (cdworld t) then qdev_by_drive env device (cdworld t) else Some device)) (\<lambda>d.
       lift_res (case info of PStr text \<Rightarrow> tray_of_lines d (splitlines text) | _ \<Rightarrow> rbind (py_iter info) (tray_of_blocks env d))))"

section \<open>The check\<close>

datatype cd_operation = Eject | Change

definition operation_name :: "cd_operation \<Rightarrow> string" where
  "operation_name op = (case op of Eject \<Rightarrow> ''eject_cdrom'' | Change \<Rightarrow> ''change_media'')"

definition event_to_check :: string where "event_to_check = ''DEVICE_TRAY_MOVED''"

definition status_error :: "string \<Rightarrow> string \<Rightarrow> string \<Rightarrow> string" where
  "status_error device operation status = ''Device '' @ device @ '' tray-open status: '' @ status @ '' after '' @ operation"

definition count_error :: "string \<Rightarrow> string \<Rightarrow> string \<Rightarrow> int \<Rightarrow> string" where
  "count_error device operation event n = int_str n @ '' '' @ [CHR 0x27] @ event @ [CHR 0x27] @ '' received after '' @ operation @ '' '' @ device"

definition check_enter :: "'w cd_env \<Rightarrow> string \<Rightarrow> ('w cdcheck, unit) py" where
  "check_enter env device =
     bnd (is_device_tray_opened env device) (\<lambda>status.
     bnd (modify (\<lambda>t. t\<lparr>status_before := status, status_after := status\<rparr>)) (\<lambda>_.
     bnd (gets (\<lambda>t. monitor_count env (cdworld t))) (\<lambda>n.
       for_each [0 ..< n] (\<lambda>i. cdo (clear_event env i event_to_check)))))"

fun count_events :: "pyval list \<Rightarrow> int \<times> pyval \<Rightarrow> (int \<times> pyval) res" where
  "count_events [] acc = Inr acc"
| "count_events (e # es) acc =
     rbind (pindex e ''event'') (\<lambda>name.
       if py_eq name (PStr ''DEVICE_TRAY_MOVED'') then
         rbind (pindex e ''data'') (\<lambda>d. rbind (pindex d ''tray-open'') (\<lambda>v. count_events es (fst acc + 1, PBool (truthy v))))
       else count_events es acc)"

definition is_status_after_incorrect :: "cd_operation \<Rightarrow> pyval \<Rightarrow> bool" where
  "is_status_after_incorrect op after = (case op of Eject \<Rightarrow> \<not> truthy after | Change \<Rightarrow> truthy after)"

definition is_events_count_incorrect :: "cd_operation \<Rightarrow> pyval \<Rightarrow> int \<Rightarrow> bool" where
  "is_events_count_incorrect op before n =
     (case op of
        Eject \<Rightarrow> (\<not> truthy before \<and> n \<noteq> 1) \<or> (truthy before \<and> n \<noteq> 0)
      | Change \<Rightarrow> (\<not> truthy before \<and> n \<noteq> 2) \<or> (truthy before \<and> n \<noteq> 1))"

text \<open>
  The two errors are raised as failures of the test.  The error of the status is made with its last two arguments swapped.
\<close>

definition judge_events :: "cd_operation \<Rightarrow> string \<Rightarrow> ('w cdcheck, unit) py" where
  "judge_events op device =
     bnd (gets (\<lambda>t. (status_before t, status_after t, move_count t))) (\<lambda>(before, after, n).
       if is_status_after_incorrect op after then throw (TestFail (status_error device (py_str after) (operation_name op)))
       else if is_events_count_incorrect op before n then throw (TestFail (count_error device (operation_name op) event_to_check n))
       else ret ())"

definition event_check :: "'w cd_env \<Rightarrow> cd_operation \<Rightarrow> string \<Rightarrow> ('w cdcheck, unit) py" where
  "event_check env op device =
     bnd (gets (\<lambda>t. monitor_count env (cdworld t))) (\<lambda>n.
       if n = 0 then ret ()
       else
         bnd (cdo (wait_for_events env)) (\<lambda>found.
         bnd (gets status_after) (\<lambda>s.
         bnd (lift_res (count_events (case found of None \<Rightarrow> [] | Some es \<Rightarrow> es) (0, s))) (\<lambda>(k, s').
         bnd (modify (\<lambda>t. t\<lparr>move_count := k, status_after := s'\<rparr>)) (\<lambda>_. judge_events op device)))))"

text \<open>The check as the context of an operation: an operation that raises is not checked.\<close>

definition with_event_check :: "'w cd_env \<Rightarrow> cd_operation \<Rightarrow> string \<Rightarrow> ('w cdcheck, 'a) py \<Rightarrow> ('w cdcheck, 'a) py" where
  "with_event_check env op device body =
     bnd (check_enter env device) (\<lambda>_. bnd body (\<lambda>x. bnd (event_check env op device) (\<lambda>_. ret x)))"

section \<open>What the check accepts\<close>

text \<open>The moves among the events, the moves a tray can make one after the other, and the moves an operation makes.\<close>

fun tray_moves :: "pyval list \<Rightarrow> bool list res" where
  "tray_moves [] = Inr []"
| "tray_moves (e # es) =
     rbind (pindex e ''event'') (\<lambda>name.
       if py_eq name (PStr ''DEVICE_TRAY_MOVED'') then
         rbind (pindex e ''data'') (\<lambda>d. rbind (pindex d ''tray-open'') (\<lambda>v. rbind (tray_moves es) (\<lambda>bs. Inr (truthy v # bs))))
       else tray_moves es)"

fun flips :: "bool \<Rightarrow> bool list \<Rightarrow> bool" where
  "flips b [] = True"
| "flips b (c # cs) = (c \<noteq> b \<and> flips c cs)"

fun operation_moves :: "cd_operation \<Rightarrow> bool \<Rightarrow> bool list" where
  "operation_moves Eject opened = (if opened then [] else [True])"
| "operation_moves Change opened = (if opened then [False] else [True, False])"

lemma count_events_moves:
  "tray_moves es = Inr bs \<Longrightarrow> count_events es (n, s) = Inr (n + int (length bs), if bs = [] then s else PBool (last bs))"
proof (induction es arbitrary: bs n s)
  case (Cons e es)
  obtain name where name: "pindex e ''event'' = Inr name" using Cons.prems by (cases "pindex e ''event''") auto
  show ?case
  proof (cases "py_eq name (PStr ''DEVICE_TRAY_MOVED'')")
    case True
    then obtain d v cs where d: "pindex e ''data'' = Inr d" "pindex d ''tray-open'' = Inr v" and cs: "tray_moves es = Inr cs" "bs = truthy v # cs"
      using Cons.prems name by (auto elim!: rbind_InrE)
    have "count_events (e # es) (n, s) = count_events es (n + 1, PBool (truthy v))"
      unfolding count_events.simps name d rbind_simps using True by simp
    then show ?thesis using Cons.IH[OF cs(1)] cs(2) by simp
  next
    case False
    then have "tray_moves es = Inr bs" using Cons.prems name by simp
    moreover have "count_events (e # es) (n, s) = count_events es (n, s)" unfolding count_events.simps name rbind_simps using False by simp
    ultimately show ?thesis using Cons.IH by simp
  qed
qed simp

lemma verdict_moves:
  assumes "flips b bs"
  shows "(\<not> is_status_after_incorrect op (if bs = [] then PBool b else PBool (last bs)) \<and> \<not> is_events_count_incorrect op (PBool b) (int (length bs)))
    \<longleftrightarrow> bs = operation_moves op b"
proof -
  consider "bs = []" | x where "bs = [x]" | x y where "bs = [x, y]" | x y z zs where "bs = x # y # z # zs"
    by (metis list.exhaust)
  then show ?thesis
    by cases (use assms in \<open>cases op; cases b; auto simp: is_status_after_incorrect_def is_events_count_incorrect_def\<close>)+
qed


definition cd_event :: "string \<Rightarrow> bool \<Rightarrow> pyval" where
  "cd_event name opened = PDict [(''event'', PStr name), (''data'', PDict [(''tray-open'', PBool opened)])]"

definition cd_monitors :: "pyval list cd_env" where
  "cd_monitors = \<lparr>info_block = (\<lambda>w. (Inr (PList []), w)), has_blockdev = (\<lambda>w. False), qdev_by_drive = (\<lambda>d w. None), monitor_count = (\<lambda>w. 1),
     clear_event = (\<lambda>i e w. (Inr (), w)), wait_for_events = (\<lambda>w. (Inr (Some w), [])), block_text = (\<lambda>b. [])\<rparr>"

definition cd_start :: "pyval list cdcheck" where
  "cd_start = \<lparr>cdworld = [cd_event ''DEVICE_TRAY_MOVED'' True, cd_event ''STOP'' False, cd_event ''DEVICE_TRAY_MOVED'' False],
     status_before = PBool False, status_after = PBool False, move_count = 0\<rparr>"


text \<open>The text of the first error names the operation where the status belongs.\<close>

lemma status_error_swapped:
  "fst (judge_events Eject device (t\<lparr>status_after := PBool False\<rparr>)) = Inl (TestFail (''Device '' @ device @ '' tray-open status: eject_cdrom after False''))"
  by (simp add: judge_events_def bnd_def gets_def throw_def is_status_after_incorrect_def status_error_def operation_name_def py_str_def)

end
