(* ===== verification/Guest_Memory.thy ===== *)
theory Guest_Memory
  imports Vm_Env Json Complex_Main
begin

text \<open>
  Checks of the memory a virtio-mem device has plugged (\<^verbatim>\<open>provider/virtio_mem_utils.py\<close>).  The monitor and the conversion of sizes are parameters;
  thresholds and sizes with a fraction are rational numbers.
\<close>

section \<open>The nodes of the guest\<close>

record 'w mem_env =
  mem_info :: "string \<Rightarrow> 'w \<Rightarrow> pyval res \<times> 'w"
  normalize_data_size :: "pyval \<Rightarrow> string \<Rightarrow> rat res"
  wait_true :: "('w, bool) py \<Rightarrow> int \<Rightarrow> ('w, bool) py"

text \<open>\<open>s.split(sep).pop()\<close>: what follows the last separator, separators taken from the left.\<close>

function last_piece :: "string \<Rightarrow> string \<Rightarrow> string \<Rightarrow> string" where
  "last_piece sep acc s =
     (if s = [] then rev acc
      else if sep \<noteq> [] \<and> startswith s sep then last_piece sep [] (drop (length sep) s)
      else last_piece sep (hd s # acc) (tl s))"
  by pat_completeness auto
termination
  by (relation "measure (\<lambda>(sep, acc, s). length s)") auto

declare last_piece.simps [simp del]

definition node_key :: "int \<Rightarrow> string \<Rightarrow> string" where
  "node_key node field = ''node '' @ int_str node @ '' '' @ field @ '': ''"

fun last_field :: "string \<Rightarrow> string list \<Rightarrow> string option \<Rightarrow> string option" where
  "last_field key [] v = v"
| "last_field key (l # ls) v = last_field key ls (if sublist key l then Some (hd (split_char CHR '' '' (last_piece key [] l))) else v)"

definition node_field :: "'w mem_env \<Rightarrow> string \<Rightarrow> string \<Rightarrow> int \<Rightarrow> ('w, int) py" where
  "node_field env field var node =
     bnd (mem_info env ''numa'') (\<lambda>out.
       lift_res (case out of
           PStr text \<Rightarrow> (case last_field (node_key node field) (splitlines text) None of
               None \<Rightarrow> Inl (UnboundLocalError var)
             | Some v \<Rightarrow> int_of_str v)
         | _ \<Rightarrow> Inl (AttributeError ''splitlines'')))"

definition get_node_plugged_size :: "'w mem_env \<Rightarrow> int \<Rightarrow> ('w, int) py" where
  "get_node_plugged_size env node = node_field env ''plugged'' ''node_plugged'' node"

definition get_node_size :: "'w mem_env \<Rightarrow> int \<Rightarrow> ('w, int) py" where
  "get_node_size env node = node_field env ''size'' ''node_size'' node"

text \<open>\<open>int(x)\<close> of a number with a fraction.\<close>

definition trunc :: "rat \<Rightarrow> int" where
  "trunc x = (if x < 0 then \<lceil>x\<rceil> else \<lfloor>x\<rfloor>)"

definition check_numa_plugged_mem :: "'w mem_env \<Rightarrow> int \<Rightarrow> pyval \<Rightarrow> rat \<Rightarrow> ('w, unit) py" where
  "check_numa_plugged_mem env node requested threshold =
     bnd (get_node_plugged_size env node) (\<lambda>plugged.
     bnd (get_node_size env node) (\<lambda>size.
     bnd (lift_res (normalize_data_size env requested ''M'')) (\<lambda>r.
       if plugged \<noteq> trunc r \<and> of_int plugged > of_int (size - plugged) * threshold
       then throw (TestFail ''requested-size does not match with plugged memory'') else ret ())))"

section \<open>The devices\<close>

definition check_memory_device :: "'w mem_env \<Rightarrow> string \<Rightarrow> string \<Rightarrow> rat \<Rightarrow> pyval \<Rightarrow> ('w, unit) py" where
  "check_memory_device env device req_param threshold dev_info =
     bnd (lift_res (py_get dev_info ''data'' PNone)) (\<lambda>data.
     bnd (lift_res (py_get data ''id'' PNone)) (\<lambda>i.
       if \<not> py_eq (PStr device) i then ret ()
       else
         bnd (lift_res (rbind (py_get data ''size'' PNone) py_int)) (\<lambda>size.
         bnd (lift_res (rbind (py_get data ''node'' PNone) py_int)) (\<lambda>node.
         bnd (lift_res (rbind (py_get data ''requested-size'' PNone) py_int)) (\<lambda>requested.
         bnd (get_node_size env node) (\<lambda>node_size.
         bnd (lift_res (normalize_data_size env (PStr (int_str size)) ''M'')) (\<lambda>normalized.
           if size \<noteq> requested \<and> normalized > (of_int node_size - normalized) * threshold
           then throw (TestFail ''size and requested-size are not equals'')
           else
             bnd (if req_param \<noteq> ''0'' then bnd (lift_res (normalize_data_size env (PStr req_param) ''B'')) (\<lambda>x. ret (trunc x))
                  else lift_res (int_of_str req_param)) (\<lambda>req.
               if requested \<noteq> req then throw (TestFail ''requested-size is not the specified in the cfg'') else ret ()))))))))"

definition check_memory_devices :: "'w mem_env \<Rightarrow> string \<Rightarrow> string \<Rightarrow> rat \<Rightarrow> ('w, unit) py" where
  "check_memory_devices env device req_param threshold =
     bnd (bnd (mem_info env ''memory-devices'') (\<lambda>v. lift_res (py_iter v))) (\<lambda>infos.
       for_each infos (check_memory_device env device req_param threshold))"

section \<open>Memory slots\<close>

text \<open>
  The part of a line the pattern \<open>memslot.+id\<close> matches, for an identifier without special characters: from the first \<open>memslot\<close> to the last
  identifier that leaves a character between.
\<close>

fun from_first :: "string \<Rightarrow> string \<Rightarrow> string option" where
  "from_first w [] = None"
| "from_first w (c # cs) = (if startswith (c # cs) w then Some (c # cs) else from_first w cs)"

definition slot_match :: "string \<Rightarrow> string \<Rightarrow> string option" where
  "slot_match i line =
     (case from_first ''memslot'' line of
        None \<Rightarrow> None
      | Some s \<Rightarrow> map_option rev (case from_first (rev i) (rev (drop 8 s)) of None \<Rightarrow> None | Some r \<Rightarrow> Some (r @ rev (take 8 s))))"

definition count_memslots :: "'w mem_env \<Rightarrow> string \<Rightarrow> ('w, nat) py" where
  "count_memslots env i =
     bnd (mem_info env ''mtree'') (\<lambda>out.
       lift_res (case out of PStr text \<Rightarrow> Inr (card (set (List.map_filter (slot_match i) (split_char CHR 0x0A text)))) | _ \<Rightarrow> Inl (TypeError ''expected string'')))"

definition validate_memslots :: "'w mem_env \<Rightarrow> nat \<Rightarrow> string \<Rightarrow> int \<Rightarrow> ('w, unit) py" where
  "validate_memslots env expected i timeout =
     bnd (wait_true env (bnd (count_memslots env i) (\<lambda>n. ret (n = expected))) timeout) (\<lambda>b.
       if b then ret () else throw (TestFail (''The number of memslots is not '' @ int_str (int expected))))"

section \<open>Reading what the monitor prints\<close>

text \<open>The text of \<open>info numa\<close>: per node its processors, its size and its plugged memory.\<close>

definition node_lines :: "int \<times> string \<times> int \<times> int \<Rightarrow> string list" where
  "node_lines n = (case n of (k, cpus, all, plugged) \<Rightarrow>
     [''node '' @ int_str k @ '' cpus:'' @ cpus, node_key k ''size'' @ int_str all @ '' MB'', node_key k ''plugged'' @ int_str plugged @ '' MB''])"

definition numa_text :: "(int \<times> string \<times> int \<times> int) list \<Rightarrow> string" where
  "numa_text nodes = join [CHR 0x0A] ((int_str (int (length nodes)) @ '' nodes'') # concat (map node_lines nodes))"

lemma splitlines_acc_join:
  "\<forall>l \<in> set (x # ls). l \<noteq> [] \<and> (\<forall>c \<in> set l. \<not> is_line_end c) \<Longrightarrow> splitlines (join [CHR 0x0A] (x # ls)) = x # ls"
proof (induction ls arbitrary: x)
  case Nil
  have "\<forall>c \<in> set s. \<not> is_line_end c \<Longrightarrow> acc @ s \<noteq> [] \<Longrightarrow> splitlines_acc acc s = [rev acc @ s]" for acc s
    by (induction s arbitrary: acc) auto
  from this[of x "[]"] show ?case using Nil by (simp add: splitlines_def)
next
  case (Cons y ls)
  have "\<forall>c \<in> set s. \<not> is_line_end c \<Longrightarrow> splitlines_acc acc (s @ CHR 0x0A # t) = (rev acc @ s) # splitlines_acc [] t" for acc s t
    by (induction s arbitrary: acc) (auto simp: is_line_end_def split: list.split)
  from this[of x "[]" "join [CHR 0x0A] (y # ls)"] show ?case using Cons by (simp add: splitlines_def)
qed

lemma last_piece_plain: "sep \<noteq> [] \<Longrightarrow> hd sep \<notin> set s \<Longrightarrow> last_piece sep acc s = rev acc @ s"
proof (induction s arbitrary: acc)
  case (Cons c s)
  then have "\<not> startswith (c # s) sep" by (cases sep) (auto simp: startswith_def)
  then show ?case using Cons by (subst last_piece.simps) simp
qed (simp add: last_piece.simps)

lemma last_piece_prefix: "sep \<noteq> [] \<Longrightarrow> hd sep \<notin> set s \<Longrightarrow> last_piece sep acc (sep @ s) = s"
  by (subst last_piece.simps) (simp add: last_piece_plain)

text \<open>In a line of the text the letter \<open>n\<close> stands only at the start, so a key is found only as the start of a line.\<close>

lemma int_str_chars: "c \<in> set (int_str k) \<Longrightarrow> c = CHR ''-'' \<or> is_digit c"
  using is_digit_nat_digits[of k c] is_digit_nat_digits[of "- k" c] by (auto simp: int_str_def split: if_splits)

lemma int_str_plain: "c \<in> {CHR ''n'', CHR '' '', CHR ''M''} \<Longrightarrow> c \<notin> set (int_str k)"
  using int_str_chars[of c k] by (auto simp: is_digit_def)

lemma sublist_at_start:
  assumes "k \<noteq> []" "hd k \<notin> set (tl l)"
  shows "sublist k l \<longleftrightarrow> startswith l k"
proof
  assume "sublist k l"
  then obtain a b where l: "l = a @ k @ b" by (auto simp: sublist_def)
  have "a = []"
  proof (rule ccontr)
    assume "a \<noteq> []"
    then have "hd k \<in> set (tl l)" using assms(1) by (cases a; cases k) (auto simp: l)
    then show False using assms(2) by simp
  qed
  then show "startswith l k" by (simp add: l)
qed (auto simp: startswith_iff sublist_def intro: exI[of _ "[]"])

lemma space_split: "c \<notin> set a \<Longrightarrow> c \<notin> set b \<Longrightarrow> a @ c # x = b @ c # y \<longleftrightarrow> a = b \<and> x = y"
proof (induction a arbitrary: b)
  case Nil
  then show ?case by (cases b) auto
next
  case (Cons d a)
  then show ?case by (cases b) auto
qed

lemma int_str_inj: "int_str a = int_str b \<Longrightarrow> a = b"
  using parse_int_str[of "[]" a] parse_int_str[of "[]" b] by (simp add: num_stop_def)

lemma key_at_start:
  assumes "CHR '':'' \<notin> set f" "CHR '':'' \<notin> set g"
  shows "startswith (''node '' @ int_str j @ '' '' @ g @ '':'' @ rest) (''node '' @ int_str k @ '' '' @ f @ '': '') \<longleftrightarrow> j = k \<and> f = g \<and> startswith rest '' ''"
proof -
  have "startswith (''node '' @ int_str j @ '' '' @ g @ '':'' @ rest) (''node '' @ int_str k @ '' '' @ f @ '': '') \<longleftrightarrow>
      (\<exists>u. int_str j @ CHR '' '' # (g @ CHR '':'' # rest) = int_str k @ CHR '' '' # (f @ CHR '':'' # (CHR '' '' # u)))"
    by (simp add: startswith_iff)
  also have "\<dots> \<longleftrightarrow> j = k \<and> f = g \<and> (\<exists>u. rest = CHR '' '' # u)"
    using space_split[of "CHR '' ''" "int_str j" "int_str k"] int_str_plain[of "CHR '' ''"] space_split[of "CHR '':''" g f] assms int_str_inj by auto
  finally show ?thesis by (simp add: startswith_iff)
qed

definition plain_cpus :: "string \<Rightarrow> bool" where
  "plain_cpus cpus \<longleftrightarrow> list_all (\<lambda>c. c = CHR '' '' \<or> is_digit c) cpus"

lemma int_of_int_str: "int_of_str (int_str k) = Inr k"
proof -
  have ws: "\<not> is_ws c" if "c = CHR ''-'' \<or> is_digit c" for c using that by (auto simp: is_ws_def is_digit_def)
  have keep: "dropWhile is_ws s = s" if "\<forall>c \<in> set s. \<not> is_ws c" for s using that by (cases s) auto
  have plain: "strip_set is_ws s = s" if "\<forall>c \<in> set s. \<not> is_ws c" for s
    using that keep[of s] keep[of "rev s"] by (simp add: strip_set_def lstrip_set_def rstrip_set_def)
  have s: "strip_set is_ws (int_str k) = int_str k" by (rule plain) (rule ballI, rule ws[OF int_str_chars])
  have u: "unsigned_val 10 (nat_digits n) = Some n" if n0: "0 \<le> n" for n
  proof -
    obtain c cs where c: "nat_digits n = c # cs" by (cases "nat_digits n") auto
    then obtain d :: int where "0 \<le> d" "d < 10" "c = char_of (48 + d)" using nat_digits_are_digits[OF n0, of c] by auto
    then show ?thesis using digits_val_nat_digits[OF n0] c by (simp add: unsigned_val_def)
  qed
  obtain c cs where c: "nat_digits k = c # cs" by (cases "nat_digits k") auto
  have "\<not> k < 0 \<Longrightarrow> c \<noteq> CHR ''-'' \<and> c \<noteq> CHR ''+''" using is_digit_nat_digits[of k c] c by (auto simp: is_digit_def)
  then show ?thesis using s u[of k] u[of "- k"] c by (auto simp: int_of_str_def signed_val_def int_str_def)
qed

lemma key_in_line:
  assumes "f \<in> {''size'', ''plugged''}" "g \<in> {''size'', ''plugged'', ''cpus''}" "CHR ''n'' \<notin> set rest"
  shows "sublist (node_key k f) (''node '' @ int_str j @ '' '' @ g @ '':'' @ rest) \<longleftrightarrow> j = k \<and> f = g \<and> startswith rest '' ''"
proof -
  have "hd (node_key k f) \<notin> set (tl (''node '' @ int_str j @ '' '' @ g @ '':'' @ rest))" "node_key k f \<noteq> []"
    using assms int_str_plain[of "CHR ''n''" j] by (auto simp: node_key_def)
  from sublist_at_start[OF this(2) this(1)] key_at_start[of f g j rest k] assms(1, 2) show ?thesis by (auto simp: node_key_def)
qed

lemma field_value: "hd (split_char CHR '' '' (last_piece (node_key k f) [] (node_key k f @ int_str v @ '' MB''))) = int_str v"
proof -
  have "hd (node_key k f) \<notin> set (int_str v @ '' MB'')" "node_key k f \<noteq> []" using int_str_plain[of "CHR ''n''" v] by (auto simp: node_key_def)
  then have l: "last_piece (node_key k f) [] (node_key k f @ int_str v @ '' MB'') = int_str v @ '' MB''" by (simp add: last_piece_prefix)
  have "CHR '' '' \<notin> set s \<Longrightarrow> hd (split_char CHR '' '' (s @ CHR '' '' # t)) = s" for s t by (induction s) (auto split: list.split)
  then show ?thesis unfolding l using int_str_plain[of "CHR '' ''" v] by simp
qed

lemma node_lines_field:
  assumes "f \<in> {''size'', ''plugged''}" "plain_cpus cpus"
  shows "last_field (node_key k f) (node_lines (j, cpus, all, plugged) @ ls) v =
    last_field (node_key k f) ls (if j = k then Some (int_str (if f = ''size'' then all else plugged)) else v)"
proof -
  have n: "CHR ''n'' \<notin> set ('' '' @ int_str x @ '' MB'')" for x using int_str_plain[of "CHR ''n''" x] by auto
  have "\<not> is_digit CHR ''n''" by (simp add: is_digit_def)
  then have c: "CHR ''n'' \<notin> set cpus" using assms(2)[unfolded plain_cpus_def list_all_iff, rule_format, of "CHR ''n''"] by blast
  have e: "''node '' @ int_str j @ '' cpus:'' @ cpus = ''node '' @ int_str j @ '' '' @ ''cpus'' @ '':'' @ cpus" by simp
  have "f \<noteq> ''cpus''" using assms(1) by auto
  then have 1: "\<not> sublist (node_key k f) (''node '' @ int_str j @ '' cpus:'' @ cpus)"
    unfolding e key_in_line[of f "''cpus''" cpus k j, OF assms(1) insertI2[OF insertI2[OF insertI1]] c] by blast
  have 2: "sublist (node_key k f) (node_key j g @ int_str x @ '' MB'') \<longleftrightarrow> j = k \<and> f = g" if g: "g \<in> {''size'', ''plugged''}" for g x
  proof -
    have "node_key j g @ int_str x @ '' MB'' = ''node '' @ int_str j @ '' '' @ g @ '':'' @ ('' '' @ int_str x @ '' MB'')" by (simp add: node_key_def)
    moreover have "g \<in> {''size'', ''plugged'', ''cpus''}" using g by blast
    ultimately show ?thesis using key_in_line[OF assms(1) _ n[of x], of g k j] startswith_append by metis
  qed
  define val where "val = (\<lambda>l. hd (split_char CHR '' '' (last_piece (node_key k f) [] l)))"
  obtain cl sl pl where lines: "node_lines (j, cpus, all, plugged) = [cl, sl, pl]" and cl: "cl = ''node '' @ int_str j @ '' cpus:'' @ cpus"
    and sl: "sl = node_key j ''size'' @ int_str all @ '' MB''" and pl: "pl = node_key j ''plugged'' @ int_str plugged @ '' MB''"
    unfolding node_lines_def prod.case by blast
  have steps: "last_field (node_key k f) (node_lines (j, cpus, all, plugged) @ ls) v = last_field (node_key k f) ls
      (if sublist (node_key k f) pl then Some (val pl) else if sublist (node_key k f) sl then Some (val sl) else if sublist (node_key k f) cl then Some (val cl) else v)"
    unfolding lines val_def by simp
  have "\<not> sublist (node_key k f) cl" using 1 unfolding cl .
  moreover have "sublist (node_key k f) sl \<longleftrightarrow> j = k \<and> f = ''size''" unfolding sl by (rule 2) blast
  moreover have "sublist (node_key k f) pl \<longleftrightarrow> j = k \<and> f = ''plugged''" unfolding pl by (rule 2) blast
  moreover have "j = k \<Longrightarrow> f = ''size'' \<Longrightarrow> val sl = int_str all" unfolding sl val_def using field_value[of k f all] by blast
  moreover have "j = k \<Longrightarrow> f = ''plugged'' \<Longrightarrow> val pl = int_str plugged" unfolding pl val_def using field_value[of k f plugged] by blast
  ultimately show ?thesis using assms(1) unfolding steps by auto
qed

lemma nodes_field:
  assumes "f \<in> {''size'', ''plugged''}" "\<forall>n \<in> set nodes. plain_cpus (fst (snd n))" "distinct (map fst nodes)"
  shows "last_field (node_key k f) (concat (map node_lines nodes)) v =
    (case map_of nodes k of None \<Rightarrow> v | Some (cpus, all, plugged) \<Rightarrow> Some (int_str (if f = ''size'' then all else plugged)))"
  using assms(2, 3)
proof (induction nodes arbitrary: v)
  case (Cons n nodes)
  obtain j c a p where n: "n = (j, c, a, p)" by (cases n)
  have "plain_cpus c" using Cons.prems(1) n by simp
  note step = node_lines_field[OF assms(1) this, of k j a p]
  have "map_of nodes k = None" if "j = k" using Cons.prems(2) n that by (auto simp: map_of_eq_None_iff)
  then show ?case using Cons step[of "concat (map node_lines nodes)" v] by (auto simp: n)
qed simp

lemma digits_plain: "c = CHR '' '' \<or> c = CHR ''-'' \<or> is_digit c \<Longrightarrow> \<not> is_line_end c"
  by (auto simp: is_line_end_def is_digit_def)

lemma int_str_line: "c \<in> set (int_str k) \<Longrightarrow> \<not> is_line_end c"
  using int_str_chars digits_plain by blast

lemma node_lines_plain:
  assumes "plain_cpus (fst (snd n))" "l \<in> set (node_lines n)"
  shows "l \<noteq> [] \<and> (\<forall>c \<in> set l. \<not> is_line_end c)"
proof -
  obtain k cpus all plugged where n: "n = (k, cpus, all, plugged)" by (cases n)
  have cpus: "\<forall>c \<in> set cpus. \<not> is_line_end c" using assms(1) digits_plain by (auto simp: n plain_cpus_def list_all_iff)
  have words: "\<forall>c \<in> set (''node '' @ '' '' @ '':'' @ '' MB'' @ ''size'' @ ''plugged'' @ ''cpus''). \<not> is_line_end c" by (simp add: is_line_end_def)
  have sub: "set l \<subseteq> set (int_str k) \<union> set (int_str all) \<union> set (int_str plugged) \<union> set cpus \<union> set (''node '' @ '' '' @ '':'' @ '' MB'' @ ''size'' @ ''plugged'' @ ''cpus'')"
    using assms(2) unfolding n node_lines_def node_key_def prod.case by (elim set_ConsD[THEN disjE] insertE) auto
  have "l \<noteq> []" using assms(2) by (auto simp: n node_lines_def node_key_def)
  then show ?thesis using sub cpus words int_str_line by blast
qed

lemma numa_field:
  assumes "f \<in> {''size'', ''plugged''}" "\<forall>n \<in> set nodes. plain_cpus (fst (snd n))" "distinct (map fst nodes)" "map_of nodes k = Some (cpus, all, plugged)"
  shows "last_field (node_key k f) (splitlines (numa_text nodes)) None = Some (int_str (if f = ''size'' then all else plugged))"
proof -
  let ?head = "int_str (int (length nodes)) @ '' nodes''"
  have h: "?head \<noteq> [] \<and> (\<forall>c \<in> set ?head. \<not> is_line_end c)" using int_str_line by (auto simp: is_line_end_def)
  have "splitlines (numa_text nodes) = ?head # concat (map node_lines nodes)"
    unfolding numa_text_def
  proof (rule splitlines_acc_join, rule ballI)
    fix l
    assume "l \<in> set (?head # concat (map node_lines nodes))"
    then consider "l = ?head" | n where "n \<in> set nodes" "l \<in> set (node_lines n)" by auto
    then show "l \<noteq> [] \<and> (\<forall>c \<in> set l. \<not> is_line_end c)"
      by cases (use h assms(2) node_lines_plain in blast)+
  qed
  moreover have "CHR '':'' \<notin> set ?head" using int_str_chars[of "CHR '':''" "int (length nodes)"] by (auto simp: is_digit_def)
  moreover have "CHR '':'' \<in> set (node_key k f)" by (simp add: node_key_def)
  ultimately show ?thesis using nodes_field[OF assms(1-3)] assms(4) set_mono_sublist[of "node_key k f" ?head] by auto
qed

lemma node_sizes:
  assumes "\<forall>n \<in> set nodes. plain_cpus (fst (snd n))" "distinct (map fst nodes)" "map_of nodes k = Some (cpus, all, plugged)"
    and "mem_info env ''numa'' w = (Inr (PStr (numa_text nodes)), w')"
  shows "get_node_size env k w = (Inr all, w')" "get_node_plugged_size env k w = (Inr plugged, w')"
  using numa_field[of "''size''", OF _ assms(1-3)] numa_field[of "''plugged''", OF _ assms(1-3)] assms(4)
  by (simp_all add: get_node_size_def get_node_plugged_size_def node_field_def bnd_def lift_res_def int_of_int_str)

text \<open>The size and the plugged memory of a node are read back from the text the monitor prints for the nodes, for every list of nodes with different
  numbers.
\<close>

lemma numa_read_back:
  assumes "\<forall>n \<in> set nodes. plain_cpus (fst (snd n))" "distinct (map fst nodes)" "map_of nodes k = Some (cpus, all, plugged)"
    and "mem_info env ''numa'' w = (Inr (PStr (numa_text nodes)), w')"
  shows "get_node_size env k w = (Inr all, w') \<and> get_node_plugged_size env k w = (Inr plugged, w')"
  using node_sizes[OF assms] by blast

text \<open>A node that is not printed leaves the result without a value.\<close>

lemma missing_node_unbound:
  assumes "mem_info env ''numa'' w = (Inr (PStr text), w')" "\<forall>l \<in> set (splitlines text). \<not> sublist (node_key k ''size'') l"
  shows "get_node_size env k w = (Inl (UnboundLocalError ''node_size''), w')"
proof -
  have "last_field key ls v = v" if "\<forall>l \<in> set ls. \<not> sublist key l" for key ls v using that by (induction ls) auto
  then show ?thesis using assms by (simp add: get_node_size_def node_field_def bnd_def lift_res_def)
qed

text \<open>
  What the check of the plugged memory of a node accepts: the requested size, and any plugged size that is not more than the threshold's part
  of the memory the node had before.  A node into which nothing has been plugged is accepted whatever was requested.
\<close>

lemma plugged_mem_accepted:
  assumes "\<forall>n \<in> set nodes. plain_cpus (fst (snd n))" "distinct (map fst nodes)" "map_of nodes k = Some (cpus, all, plugged)"
    and "\<forall>w. mem_info env ''numa'' w = (Inr (PStr (numa_text nodes)), w)" "normalize_data_size env requested ''M'' = Inr r"
  shows "(fst (check_numa_plugged_mem env k requested threshold w) = Inr () \<longleftrightarrow> plugged = trunc r \<or> of_int plugged \<le> of_int (all - plugged) * threshold)
    \<and> (plugged = 0 \<and> 0 \<le> all \<and> 0 \<le> threshold \<longrightarrow> fst (check_numa_plugged_mem env k requested threshold w) = Inr ())"
proof -
  have "get_node_size env k u = (Inr all, u) \<and> get_node_plugged_size env k u = (Inr plugged, u)" for u
    using node_sizes[OF assms(1-3) assms(4)[rule_format]] by blast
  then have "fst (check_numa_plugged_mem env k requested threshold w) = Inr () \<longleftrightarrow> plugged = trunc r \<or> of_int plugged \<le> of_int (all - plugged) * threshold"
    using assms(5) by (auto simp: check_numa_plugged_mem_def bnd_def lift_res_def ret_def throw_def)
  then show ?thesis by simp
qed

section \<open>A guest\<close>

definition two_nodes :: "(int \<times> string \<times> int \<times> int) list" where
  "two_nodes = [(0, '' 0 1'', 4096, 0), (1, [], 2048, 1024)]"

definition two_node_guest :: "unit mem_env" where
  "two_node_guest = \<lparr>mem_info = (\<lambda>c w. (Inr (PStr (numa_text two_nodes)), w)), normalize_data_size = (\<lambda>v u. Inr 512), wait_true = (\<lambda>m n. m)\<rparr>"

lemma two_nodes_ok: "\<forall>n \<in> set two_nodes. plain_cpus (fst (snd n))" "distinct (map fst two_nodes)"
  "map_of two_nodes 0 = Some ('' 0 1'', 4096, 0)" "map_of two_nodes 1 = Some ([], 2048, 1024)"
  by (simp_all add: two_nodes_def plain_cpus_def is_digit_def)

lemma two_node_info: "mem_info two_node_guest c w = (Inr (PStr (numa_text two_nodes)), w)"
  by (simp add: two_node_guest_def)

lemma numa_read_back_example:
  "get_node_size two_node_guest 1 () = (Inr 2048, ()) \<and> get_node_plugged_size two_node_guest 1 () = (Inr 1024, ())"
  by (rule numa_read_back[OF two_nodes_ok(1, 2, 4) two_node_info])


end
