(* ===== verification/Guest_Shell.thy ===== *)
theory Guest_Shell
  imports Py_Text State_Relation
begin

text \<open>
  A guest as the scripts of the provider layer see it: a shell that runs commands, and functions of the framework that act on the guest or the
  host.  Both are parameters; every command and every call is recorded, so that the theorems can speak about what was done and in which order.
\<close>

section \<open>Commands and calls\<close>

datatype act = Sh string | Call string "pyval list"

record 'w gst =
  shworld :: 'w
  acts :: "act list"

record 'w genv =
  g_shell :: "string \<Rightarrow> int option \<Rightarrow> 'w \<Rightarrow> (int \<times> string) res \<times> 'w"
  g_call :: "string \<Rightarrow> pyval list \<Rightarrow> 'w \<Rightarrow> pyval res \<times> 'w"
  g_rounds :: "int \<Rightarrow> 'w \<Rightarrow> nat"

definition doing :: "act \<Rightarrow> ('w \<Rightarrow> 'a res \<times> 'w) \<Rightarrow> ('w gst, 'a) py" where
  "doing a f t = (case f (shworld t) of (r, w) \<Rightarrow> (r, t\<lparr>shworld := w, acts := acts t @ [a]\<rparr>))"

text \<open>The methods of a session: \<open>cmd_status_output\<close>, \<open>cmd_output\<close>, \<open>cmd_status\<close>, and \<open>cmd\<close>, which raises for a status that is not zero.\<close>

definition sh_so :: "'w genv \<Rightarrow> string \<Rightarrow> int option \<Rightarrow> ('w gst, int \<times> string) py" where
  "sh_so env cmd timeout = doing (Sh cmd) (g_shell env cmd timeout)"

definition sh_output :: "'w genv \<Rightarrow> string \<Rightarrow> int option \<Rightarrow> ('w gst, string) py" where
  "sh_output env cmd timeout = bnd (sh_so env cmd timeout) (\<lambda>so. ret (snd so))"

definition sh_status :: "'w genv \<Rightarrow> string \<Rightarrow> ('w gst, int) py" where
  "sh_status env cmd = bnd (sh_so env cmd None) (\<lambda>so. ret (fst so))"

definition sh_cmd :: "'w genv \<Rightarrow> string \<Rightarrow> int option \<Rightarrow> ('w gst, string) py" where
  "sh_cmd env cmd timeout =
     bnd (sh_so env cmd timeout) (\<lambda>so. if fst so \<noteq> 0 then throw (OtherError ''ShellCmdError'' cmd) else ret (snd so))"

definition fw :: "'w genv \<Rightarrow> string \<Rightarrow> pyval list \<Rightarrow> ('w gst, pyval) py" where
  "fw env name args = doing (Call name args) (g_call env name args)"

text \<open>A call whose result is used as a text.\<close>

definition fw_str :: "'w genv \<Rightarrow> string \<Rightarrow> pyval list \<Rightarrow> ('w gst, string) py" where
  "fw_str env name args = bnd (fw env name args) (\<lambda>v. ret (py_str v))"

definition fw_unit :: "'w genv \<Rightarrow> string \<Rightarrow> pyval list \<Rightarrow> ('w gst, unit) py" where
  "fw_unit env name args = bnd (fw env name args) (\<lambda>_. ret ())"

text \<open>
  \<open>wait_for(f, timeout)\<close>: the function is called again until it is true or the time is over; how often the time allows is a parameter.
\<close>

fun polls :: "nat \<Rightarrow> ('s, bool) py \<Rightarrow> ('s, bool) py" where
  "polls 0 m = ret False"
| "polls (Suc n) m = bnd m (\<lambda>b. if b then ret True else polls n m)"

definition wait_until :: "'w genv \<Rightarrow> int \<Rightarrow> ('w gst, bool) py \<Rightarrow> ('w gst, bool) py" where
  "wait_until env timeout m = bnd (gets (\<lambda>t. g_rounds env timeout (shworld t))) (\<lambda>n. polls n m)"

text \<open>\<open>template % arguments\<close> for templates whose only directives are \<open>%s\<close> and \<open>%%\<close>.\<close>

fun pct :: "string \<Rightarrow> string list \<Rightarrow> string res" where
  "pct [] [] = Inr []"
| "pct [] (a # as) = Inl (TypeError ''not all arguments converted during string formatting'')"
| "pct [c] as = (if c = CHR ''%'' then Inl (ValueError ''incomplete format'') else rbind (pct [] as) (\<lambda>r. Inr (c # r)))"
| "pct (c # d # cs) as =
     (if c \<noteq> CHR ''%'' then rbind (pct (d # cs) as) (\<lambda>r. Inr (c # r))
      else if d = CHR ''%'' then rbind (pct cs as) (\<lambda>r. Inr (CHR ''%'' # r))
      else if d = CHR ''s'' then
        (case as of [] \<Rightarrow> Inl (TypeError ''not enough arguments for format string'') | a # as' \<Rightarrow> rbind (pct cs as') (\<lambda>r. Inr (a @ r)))
      else Inl (ValueError ''unsupported format character''))"

text \<open>\<open>params[k]\<close> and \<open>params.get(k, d)\<close> for values that are texts; \<open>params.get_numeric\<close> for decimal numbers.\<close>

definition par :: "pydict \<Rightarrow> string \<Rightarrow> ('s, string) py" where
  "par params k = lift_res (rbind (dindex params k) (\<lambda>v. Inr (py_str v)))"

definition par_or :: "pydict \<Rightarrow> string \<Rightarrow> string \<Rightarrow> string" where
  "par_or params k d = py_str (dget_default params k (PStr d))"

definition par_num :: "pydict \<Rightarrow> string \<Rightarrow> int \<Rightarrow> ('s, int) py" where
  "par_num params k d = lift_res (py_int (dget_default params k (PInt d)))"

text \<open>\<open>value[key]\<close>, and \<open>try: ... except Exception: test.fail(...)\<close>.\<close>

definition item :: "pyval \<Rightarrow> string \<Rightarrow> pyval res" where
  "item v k = (case v of PDict d \<Rightarrow> dindex d k | _ \<Rightarrow> Inl (TypeError ''not subscriptable''))"

definition or_fail :: "string \<Rightarrow> ('s, 'a) py \<Rightarrow> ('s, 'a) py" where
  "or_fail msg m = try_except m (\<lambda>e. if is_exception e then Some (throw (TestFail msg)) else None)"

section \<open>What computations do\<close>

text \<open>The record of what was done only grows.\<close>

definition acts_grow :: "'w gst \<Rightarrow> 'w gst \<Rightarrow> bool" where
  "acts_grow t t' \<longleftrightarrow> (\<exists>as. acts t' = acts t @ as)"

interpretation done_acts: state_relation acts_grow
  by unfold_locales (auto simp: acts_grow_def)

lemma doing_grows: "moves acts_grow (doing a f)"
  by (rule movesI) (auto simp: acts_grow_def doing_def split: prod.split)

lemma fw_grows: "moves acts_grow (fw env name args)" "moves acts_grow (fw_str env name args)" "moves acts_grow (fw_unit env name args)"
  unfolding fw_def fw_str_def fw_unit_def by (intro done_acts.composed doing_grows)+

lemma sh_grows: "moves acts_grow (sh_so env cmd n)" "moves acts_grow (sh_output env cmd n)" "moves acts_grow (sh_status env cmd)" "moves acts_grow (sh_cmd env cmd n)"
  unfolding sh_so_def sh_output_def sh_status_def sh_cmd_def by (intro done_acts.composed doing_grows)+

lemma polls_grow: "moves acts_grow m \<Longrightarrow> moves acts_grow (polls n m)"
  by (induction n) (auto intro!: done_acts.composed)

lemma wait_grows: "moves acts_grow m \<Longrightarrow> moves acts_grow (wait_until env n m)"
  unfolding wait_until_def by (intro done_acts.composed polls_grow)

lemma pct_plain: "CHR ''%'' \<notin> set s \<Longrightarrow> pct s [] = Inr s"
proof (induction s)
  case (Cons c s)
  then show ?case by (cases s) auto
qed simp

lemma pct_one: "CHR ''%'' \<notin> set s \<Longrightarrow> CHR ''%'' \<notin> set u \<Longrightarrow> pct (s @ ''%s'' @ u) [a] = Inr (s @ a @ u)"
proof (induction s)
  case Nil
  then show ?case by (simp add: pct_plain)
next
  case (Cons c s)
  then show ?case by (cases s) auto
qed

lemma polls_True: "polls n m t = (Inr True, t') \<Longrightarrow> \<exists>u. m u = (Inr True, t')"
proof (induction n arbitrary: t)
  case (Suc n)
  obtain b u where m: "m t = (Inr b, u)" and rest: "(if b then ret True else polls n m) u = (Inr True, t')"
    using Suc.prems by (auto elim!: bnd_InrE)
  then show ?case using Suc.IH[of u] by (cases b) (auto simp: ret_def)
qed (simp add: ret_def)

text \<open>What a single command or call that returned has done.\<close>

lemma doing_Inr: "doing a f t = (r, t') \<longleftrightarrow> f (shworld t) = (r, shworld t') \<and> acts t' = acts t @ [a] \<and> gst.more t' = gst.more t"
  by (auto simp: doing_def split: prod.splits intro!: gst.equality)

lemma sh_so_Inr: "sh_so env c n t = (r, t') \<Longrightarrow> g_shell env c n (shworld t) = (r, shworld t') \<and> acts t' = acts t @ [Sh c]"
  by (simp add: sh_so_def doing_Inr)

lemma sh_cmd_Inr: "sh_cmd env c n t = (Inr out, t') \<Longrightarrow> g_shell env c n (shworld t) = (Inr (0, out), shworld t') \<and> acts t' = acts t @ [Sh c]"
  by (auto simp: sh_cmd_def ret_def throw_def elim!: bnd_InrE split: if_splits dest!: sh_so_Inr)

lemma sh_output_Inr: "sh_output env c n t = (Inr out, t') \<Longrightarrow> \<exists>s. g_shell env c n (shworld t) = (Inr (s, out), shworld t') \<and> acts t' = acts t @ [Sh c]"
  by (auto simp: sh_output_def ret_def elim!: bnd_InrE dest!: sh_so_Inr)

lemma sh_status_Inr: "sh_status env c t = (Inr s, t') \<Longrightarrow> \<exists>out. g_shell env c None (shworld t) = (Inr (s, out), shworld t') \<and> acts t' = acts t @ [Sh c]"
  by (auto simp: sh_status_def ret_def elim!: bnd_InrE dest!: sh_so_Inr)

lemma fw_Inr: "fw env name args t = (r, t') \<Longrightarrow> g_call env name args (shworld t) = (r, shworld t') \<and> acts t' = acts t @ [Call name args]"
  by (simp add: fw_def doing_Inr)

lemma fw_str_Inr: "fw_str env name args t = (Inr x, t') \<Longrightarrow> \<exists>v. g_call env name args (shworld t) = (Inr v, shworld t') \<and> x = py_str v \<and> acts t' = acts t @ [Call name args]"
  by (auto simp: fw_str_def ret_def elim!: bnd_InrE dest!: fw_Inr)

lemma fw_unit_Inr: "fw_unit env name args t = (Inr (), t') \<Longrightarrow> \<exists>v. g_call env name args (shworld t) = (Inr v, shworld t') \<and> acts t' = acts t @ [Call name args]"
  by (auto simp: fw_unit_def ret_def elim!: bnd_InrE dest!: fw_Inr)

lemmas act_Inr = sh_cmd_Inr sh_output_Inr sh_status_Inr fw_str_Inr fw_unit_Inr sh_so_Inr fw_Inr

text \<open>A body and a clean up that both returned.\<close>

lemma finally_Inr: "try_finally m f t = (Inr x, t') \<Longrightarrow> \<exists>u. m t = (Inr x, u) \<and> f u = (Inr (), t')"
  by (auto simp: try_finally_def split: prod.splits sum.splits)

lemma or_fail_cases: "or_fail msg m t = (Inl e, t') \<Longrightarrow> e = TestFail msg \<or> \<not> is_exception e"
  by (auto simp: or_fail_def try_except_def throw_def split: prod.splits sum.splits option.splits if_splits)

lemma or_fail_Inr: "or_fail msg m t = (Inr x, t') \<Longrightarrow> m t = (Inr x, t')"
  by (auto simp: or_fail_def try_except_def throw_def split: prod.splits sum.splits option.splits if_splits)

end
