(* ===== verification/Guest_Disk.thy ===== *)
theory Guest_Disk
  imports Guest_Shell
begin

text \<open>
  I/O on a new disk of a guest (\<^verbatim>\<open>provider/disk_utils.py\<close>) and helpers around qemu-img (\<^verbatim>\<open>provider/qemu_img_utils.py\<close>).
\<close>

section \<open>Disks\<close>

definition get_disk_by_serial :: "'w genv \<Rightarrow> pyval \<Rightarrow> string \<Rightarrow> ('w gst, pyval) py" where
  "get_disk_by_serial env os serial =
     (if os = PStr ''windows'' then
        bnd (fw env ''get_disk_props_by_serial_number'' [PStr serial, PList [PStr ''Index'']]) (\<lambda>info.
          if truthy info then lift_res (pindex info ''Index'') else ret PNone)
      else fw env ''get_linux_drive_path'' [PStr serial])"

text \<open>The last part of a path; anything but a text has no parts.\<close>

definition disk_id :: "pyval \<Rightarrow> string res" where
  "disk_id did = (case did of PStr d \<Rightarrow> Inr (last (split_char CHR ''/'' d)) | _ \<Rightarrow> Inl (AttributeError ''split''))"

definition opt_val :: "string option \<Rightarrow> pyval" where
  "opt_val o1 = (case o1 of None \<Rightarrow> PNone | Some s \<Rightarrow> PStr s)"

definition init_linux_disk :: "'w genv \<Rightarrow> pyval \<Rightarrow> string \<Rightarrow> string \<Rightarrow> ('w gst, pyval) py" where
  "init_linux_disk env did dst_dir fstype =
     bnd (lift_res (disk_id did)) (\<lambda>i.
     bnd (fw env ''create_filesyetem_linux'' [PStr i, PStr fstype]) (\<lambda>_.
     bnd (fw env ''mount'' [did, PStr dst_dir, PStr fstype]) (\<lambda>m.
       ret (if truthy m then PStr dst_dir else PNone))))"

definition init_windows_disk :: "'w genv \<Rightarrow> pyval \<Rightarrow> pyval \<Rightarrow> ('w gst, pyval) py" where
  "init_windows_disk env did img_size =
     bnd (fw env ''update_windows_disk_attributes'' [did]) (\<lambda>_.
     bnd (fw env ''clean_partition_windows'' [did]) (\<lambda>_.
     bnd (fw env ''configure_empty_disk'' [did, img_size, PStr ''windows'']) (\<lambda>v.
       lift_res (case v of PList (x # _) \<Rightarrow> Inr x | PList [] \<Rightarrow> Inl IndexError | _ \<Rightarrow> Inl (TypeError ''not subscriptable'')))))"

definition init_disk_by_id :: "'w genv \<Rightarrow> (pydict \<Rightarrow> string \<Rightarrow> pydict) \<Rightarrow> pydict \<Rightarrow> pyval \<Rightarrow> string \<Rightarrow> string option \<Rightarrow> string option \<Rightarrow> ('w gst, pyval) py" where
  "init_disk_by_id env object_params params did image_name dst_dir fstype =
     bnd (fw env ''wait_for_login'' []) (\<lambda>_.
     let windows = dget_default params ''os_type'' PNone = PStr ''windows'';
         img_size = dget_default (object_params params image_name) ''image_size'' PNone;
         fs = (case fstype of None \<Rightarrow> if windows then ''ntfs'' else ''xfs'' | Some f \<Rightarrow> f) in
     if windows then init_windows_disk env did img_size
     else if dst_dir \<in> {None, Some []} then
       (let dir = ''/mnt/'' @ image_name in
        bnd (sh_cmd env (''mkdir -p '' @ dir) None) (\<lambda>_. init_linux_disk env did dir fs))
     else init_linux_disk env did (the dst_dir) fs)"

section \<open>I/O\<close>

definition prepare_io :: "'w genv \<Rightarrow> (pydict \<Rightarrow> string \<Rightarrow> pydict) \<Rightarrow> pydict \<Rightarrow> string \<Rightarrow> string \<Rightarrow> string option \<Rightarrow> string option \<Rightarrow> ('w gst, pyval \<times> pyval) py" where
  "prepare_io env object_params params img serial fstype dst_dir =
     bnd (fw env ''wait_for_login'' []) (\<lambda>_.
     bnd (get_disk_by_serial env (dget_default params ''os_type'' PNone) serial) (\<lambda>did.
     bnd (init_disk_by_id env object_params params did img dst_dir fstype) (\<lambda>mp. ret (did, mp))))"

definition run_io :: "'w genv \<Rightarrow> string option \<Rightarrow> pyval \<Rightarrow> bool \<Rightarrow> int \<Rightarrow> ('w gst, unit) py" where
  "run_io env io_command mount_point ignore_all_errors timeout =
     (if io_command \<in> {None, Some []} then ret ()
      else
        bnd (lift_res (pct (the io_command) [py_str mount_point])) (\<lambda>cmd.
        bnd (if ignore_all_errors then sh_output env cmd (Some timeout) else sh_cmd env cmd (Some timeout)) (\<lambda>_. ret ())))"

definition clean_io :: "'w genv \<Rightarrow> pyval \<Rightarrow> pyval \<Rightarrow> pyval \<Rightarrow> string option \<Rightarrow> ('w gst, unit) py" where
  "clean_io env os did mount_point fstype =
     (if os \<noteq> PStr ''windows'' then
        bnd (fw env ''is_mount'' [did, mount_point, opt_val fstype]) (\<lambda>m.
          if truthy m then
            bnd (fw env ''umount'' [did, mount_point, opt_val fstype]) (\<lambda>_.
            bnd (sh_cmd env (''rm -rf '' @ py_str mount_point) None) (\<lambda>_.
            bnd (lift_res (disk_id did)) (\<lambda>i. fw_unit env ''clean_partition'' [PStr i, os])))
          else ret ())
      else fw_unit env ''clean_partition'' [did, os])"

definition execute_io_test ::
  "'w genv \<Rightarrow> (pydict \<Rightarrow> string \<Rightarrow> pydict) \<Rightarrow> pydict \<Rightarrow> string \<Rightarrow> string \<Rightarrow> string option \<Rightarrow> string option \<Rightarrow> string option \<Rightarrow> bool \<Rightarrow> bool \<Rightarrow> int \<Rightarrow> ('w gst, unit) py" where
  "execute_io_test env object_params params img serial fstype dst_dir io_command clean ignore_all_errors timeout =
     bnd (prepare_io env object_params params img serial fstype dst_dir) (\<lambda>(did, mount_point).
       try_finally (run_io env io_command mount_point ignore_all_errors timeout)
         (if clean then clean_io env (dget_default params ''os_type'' PNone) did mount_point fstype else ret ()))"

section \<open>Helpers around qemu-img\<close>

definition boot_vm_with_images :: "'w genv \<Rightarrow> pydict \<Rightarrow> string list \<Rightarrow> string option \<Rightarrow> ('w gst, pydict) py" where
  "boot_vm_with_images env params images vm_name =
     (let p1 = (if images \<noteq> [] then dset ''images'' (PStr (join '' '' images)) params else params);
          p2 = dset ''start_vm'' (PStr ''yes'') p1 in
      bnd (if vm_name \<in> {None, Some []} then par p2 ''main_vm'' else ret (the vm_name)) (\<lambda>vm.
      bnd (lift_res (dindex p2 ''images'')) (\<lambda>_.
      bnd (fw env ''preprocess_vm'' [PDict p2, PStr vm]) (\<lambda>_.
      bnd (fw env ''verify_alive'' [PStr vm]) (\<lambda>_. ret p2)))))"

definition save_random_file_to_vm :: "'w genv \<Rightarrow> string \<Rightarrow> int \<Rightarrow> string \<Rightarrow> int \<Rightarrow> ('w gst, unit) py" where
  "save_random_file_to_vm env save_path n sync_bin blocksize =
     bnd (fw env ''wait_for_login'' []) (\<lambda>_.
     bnd (fw_str env ''NamedTemporaryFile'' []) (\<lambda>name.
     bnd (try_finally
       (bnd (fw env ''process.run'' [PStr (''dd if=/dev/urandom of='' @ name @ '' bs='' @ int_str blocksize @ '' count='' @ int_str n @ '' conv=fsync'')]) (\<lambda>_.
          fw_unit env ''copy_files_to'' [PStr name, PStr save_path]))
       (fw_unit env ''close'' [PStr name])) (\<lambda>_.
     bnd (fw_str env ''set_winutils_letter'' [PStr sync_bin]) (\<lambda>cmd.
     bnd (sh_so env cmd (Some 240)) (\<lambda>so.
       if fst so \<noteq> 0 then throw (IOError (''Fail to execute '' @ cmd @ '': '' @ snd so)) else fw_unit env ''session.close'' [])))))"

text \<open>A digest that differs is a failure of the test.\<close>

definition check_md5sum :: "'w genv \<Rightarrow> string \<Rightarrow> string \<Rightarrow> string option \<Rightarrow> ('w gst, string) py" where
  "check_md5sum env filepath md5sum_bin expected =
     bnd (sh_so env (md5sum_bin @ '' '' @ filepath) (Some 240)) (\<lambda>so.
       if fst so \<noteq> 0 then throw (IOError (''Fail to get md5 value of file: '' @ filepath))
       else
         (case split_ws (snd so) of
            [] \<Rightarrow> throw IndexError
          | md5 # _ \<Rightarrow>
              if expected \<notin> {None, Some []} \<and> expected \<noteq> Some md5
              then throw (TestFail (''md5 values mismatch, got: '' @ md5 @ '', expected: '' @ the expected)) else ret md5))"

definition find_strace :: "'w genv \<Rightarrow> ('w gst, string) py" where
  "find_strace env =
     try_except (fw_str env ''find_command'' [PStr ''strace''])
       (\<lambda>e. case e of OtherError c msg \<Rightarrow> if c = ''CmdNotFoundError'' then Some (throw (TestCancel msg)) else None | _ \<Rightarrow> None)"

text \<open>The command of an image, replaced while its calls are traced.\<close>

record 'w image_state =
  image_cmd :: string
  image_world :: 'w

definition strace_prefix :: "string list \<Rightarrow> string option \<Rightarrow> bool \<Rightarrow> string" where
  "strace_prefix events output_file trace_child =
     join '' '' ([''strace''] @ (if events \<noteq> [] then [''-e'', join '','' events] else [])
       @ (case output_file of None \<Rightarrow> [] | Some f \<Rightarrow> if f = [] then [] else [''-o'', f]) @ (if trace_child then [''-f''] else []))"

definition strace :: "string list \<Rightarrow> string option \<Rightarrow> bool \<Rightarrow> ('w image_state, 'a) py \<Rightarrow> ('w image_state, 'a) py" where
  "strace events output_file trace_child body =
     bnd (gets image_cmd) (\<lambda>cmd.
     bnd (modify (\<lambda>t. t\<lparr>image_cmd := strace_prefix events output_file trace_child @ '' '' @ cmd\<rparr>)) (\<lambda>_.
       try_finally body (modify (\<lambda>t. t\<lparr>image_cmd := cmd\<rparr>))))"

definition check_flag :: "string list \<Rightarrow> string \<Rightarrow> string \<Rightarrow> bool" where
  "check_flag log target_file flag = list_ex (\<lambda>l. sublist flag l) (filter (\<lambda>l. sublist target_file l) log)"

section \<open>Properties\<close>

text \<open>Whatever is done with a traced image, its command is the one it had, and during the body it is the traced one.\<close>

lemma strace_restores:
  assumes "body (t\<lparr>image_cmd := strace_prefix events out child @ '' '' @ image_cmd t\<rparr>) = (r, u)"
  shows "strace events out child body t = (r, u\<lparr>image_cmd := image_cmd t\<rparr>)"
  using assms by (simp add: strace_def bnd_def gets_def modify_def try_finally_def)

text \<open>The calls of a clean up that does not fail on a mounted disk.\<close>

definition clean_works :: "'w genv \<Rightarrow> pyval list \<Rightarrow> string \<Rightarrow> pyval list \<Rightarrow> bool" where
  "clean_works env mount_args rm part_args \<longleftrightarrow>
     (\<forall>w. \<exists>v w'. g_call env ''is_mount'' mount_args w = (Inr v, w') \<and> truthy v) \<and> (\<forall>w. \<exists>v w'. g_call env ''umount'' mount_args w = (Inr v, w'))
   \<and> (\<forall>w. \<exists>out w'. g_shell env rm None w = (Inr (0, out), w')) \<and> (\<forall>w. \<exists>v w'. g_call env ''clean_partition'' part_args w = (Inr v, w'))"

lemma clean_io_linux:
  assumes "os \<noteq> PStr ''windows''" "disk_id did = Inr i" "clean_works env [did, mp, opt_val fstype] (''rm -rf '' @ py_str mp) [PStr i, os]"
  shows "\<exists>t'. clean_io env os did mp fstype t = (Inr (), t') \<and> acts t' = acts t @
    [Call ''is_mount'' [did, mp, opt_val fstype], Call ''umount'' [did, mp, opt_val fstype], Sh (''rm -rf '' @ py_str mp), Call ''clean_partition'' [PStr i, os]]"
proof -
  obtain v w1 where 1: "g_call env ''is_mount'' [did, mp, opt_val fstype] (shworld t) = (Inr v, w1)" "truthy v" using assms(3) unfolding clean_works_def by blast
  obtain v2 w2 where 2: "g_call env ''umount'' [did, mp, opt_val fstype] w1 = (Inr v2, w2)" using assms(3) unfolding clean_works_def by blast
  obtain out w3 where 3: "g_shell env (''rm -rf '' @ py_str mp) None w2 = (Inr (0, out), w3)" using assms(3) unfolding clean_works_def by blast
  obtain v4 w4 where 4: "g_call env ''clean_partition'' [PStr i, os] w3 = (Inr v4, w4)" using assms(3) unfolding clean_works_def by blast
  show ?thesis using assms(1, 2) 1 2 3 4
    by (simp add: clean_io_def fw_def fw_unit_def sh_cmd_def sh_so_def doing_def bnd_def lift_res_def ret_def)
qed

text \<open>C19.
  An I/O test on a disk of a Linux guest that asks for a clean up ends with it on every path: whether the I/O command returned or raised, the disk
  is unmounted before its mount point is removed, and its partitions are cleaned last; the result of the command is the result of the test.
\<close>

theorem io_test_cleans_up:
  assumes "dget_default params ''os_type'' PNone \<noteq> PStr ''windows''"
    and "prepare_io env object_params params img serial fstype dst_dir t = (Inr (did, mp), t0)" "disk_id did = Inr i"
    and "run_io env io_command mp ignore timeout t0 = (r, t1)"
    and "clean_works env [did, mp, opt_val fstype] (''rm -rf '' @ py_str mp) [PStr i, dget_default params ''os_type'' PNone]"
  shows "\<exists>t'. execute_io_test env object_params params img serial fstype dst_dir io_command True ignore timeout t = (r, t') \<and> acts t' = acts t1 @
    [Call ''is_mount'' [did, mp, opt_val fstype], Call ''umount'' [did, mp, opt_val fstype], Sh (''rm -rf '' @ py_str mp),
     Call ''clean_partition'' [PStr i, dget_default params ''os_type'' PNone]]"
  using clean_io_linux[OF assms(1, 3, 5), of t1] assms(2, 4) by (auto simp: execute_io_test_def bnd_def try_finally_def)

text \<open>A disk that could not be mounted has no mount point, and the command runs on the text of that.\<close>

lemma unmounted_io:
  assumes "CHR ''%'' \<notin> set a" "CHR ''%'' \<notin> set b" "run_io env (Some (a @ ''%s'' @ b)) PNone ignore timeout t = (r, t')"
  shows "acts t' = acts t @ [Sh (a @ ''None'' @ b)]"
proof -
  have "pct (a @ ''%s'' @ b) [''None''] = Inr (a @ ''None'' @ b)" by (rule pct_one[OF assms(1, 2)])
  then have "bnd (if ignore then sh_output env (a @ ''None'' @ b) (Some timeout) else sh_cmd env (a @ ''None'' @ b) (Some timeout)) (\<lambda>_. ret ()) t = (r, t')"
    using assms(3) by (cases ignore) (simp_all add: run_io_def py_str_def)
  then show ?thesis
    by (auto simp: bnd_def sh_output_def sh_cmd_def ret_def throw_def split: prod.splits sum.splits if_splits dest!: sh_so_Inr)
qed

section \<open>A guest\<close>

definition disk_guest :: "unit genv" where
  "disk_guest = \<lparr>g_shell = (\<lambda>cmd n w. (Inr (if startswith cmd ''dd '' then 1 else 0, []), w)),
     g_call = (\<lambda>name args w. (Inr (PStr ''/dev/vdb''), w)), g_rounds = (\<lambda>n w. 3)\<rparr>"

theorem io_test_cleans_up_witness:
  "\<exists>t'. execute_io_test disk_guest (\<lambda>p n. p) [(''os_type'', PStr ''linux'')] ''stg0'' ''s1'' None None (Some ''dd of=%s/f'') True False 60 \<lparr>shworld = (), acts = []\<rparr>
     = (Inl (OtherError ''ShellCmdError'' ''dd of=/mnt/stg0/f''), t') \<and> last (acts t') = Call ''clean_partition'' [PStr ''vdb'', PStr ''linux'']"
proof -
  let ?ps = "[(''os_type'', PStr ''linux'')]"
  let ?t = "\<lparr>shworld = (), acts = []\<rparr> :: unit gst"
  let ?p = "prepare_io disk_guest (\<lambda>p n. p) ?ps ''stg0'' ''s1'' None None ?t"
  let ?r = "run_io disk_guest (Some ''dd of=%s/f'') (PStr ''/mnt/stg0'') False 60 (snd ?p)"
  have h: "dget_default ?ps ''os_type'' PNone \<noteq> PStr ''windows''" "?p = (Inr (PStr ''/dev/vdb'', PStr ''/mnt/stg0''), snd ?p)"
    "disk_id (PStr ''/dev/vdb'') = Inr ''vdb''" "?r = (Inl (OtherError ''ShellCmdError'' ''dd of=/mnt/stg0/f''), snd ?r)"
    and lin: "dget_default ?ps ''os_type'' PNone = PStr ''linux''"
    by code_simp+
  have c: "clean_works disk_guest [PStr ''/dev/vdb'', PStr ''/mnt/stg0'', opt_val None] (''rm -rf '' @ py_str (PStr ''/mnt/stg0'')) [PStr ''vdb'', dget_default ?ps ''os_type'' PNone]"
    by (simp add: clean_works_def disk_guest_def startswith_def)
  show ?thesis using io_test_cleans_up[OF h(1-4) c] lin by auto
qed

end
