(* ===== verification/Netperf.thy ===== *)
theory Netperf
  imports Complex_Main Guest_Shell
begin

text \<open>
  Network benchmarks: the stress test of \<^verbatim>\<open>provider/netperf_test.py\<close>, the class of \<^verbatim>\<open>provider/netperf.py\<close> and the helpers and the table of results of
  \<^verbatim>\<open>provider/netperf_base.py\<close>.  The client and the server are objects of the framework, represented by what their constructors return.
\<close>

section \<open>Client and server\<close>

text \<open>\<open>s.encode().decode("unicode_escape")\<close> for the escapes of a single letter.\<close>

definition escaped_char :: "char \<Rightarrow> char option" where
  "escaped_char c =
     (if c = CHR ''n'' then Some (CHR 0x0A) else if c = CHR ''r'' then Some (CHR 0x0D) else if c = CHR ''t'' then Some (CHR 0x09)
      else if c = CHR 0x5C then Some (CHR 0x5C) else None)"

fun unescape :: "string \<Rightarrow> string" where
  "unescape [] = []"
| "unescape [c] = [c]"
| "unescape (c # d # cs) =
     (if c = CHR 0x5C then (case escaped_char d of Some e \<Rightarrow> e # unescape cs | None \<Rightarrow> c # unescape (d # cs)) else c # unescape (d # cs))"

definition pget :: "pydict \<Rightarrow> string \<Rightarrow> pyval" where
  "pget params k = dget_default params k PNone"

text \<open>\<open>os.path.join(data_dir.get_deps_dir("netperf"), params.get(k))\<close>.\<close>

definition netperf_source :: "'w genv \<Rightarrow> pydict \<Rightarrow> string \<Rightarrow> ('w gst, string) py" where
  "netperf_source env params k =
     bnd (fw_str env ''get_deps_dir'' [PStr ''netperf'']) (\<lambda>d.
       case pget params k of PStr s \<Rightarrow> ret (path_join d s) | _ \<Rightarrow> throw (TypeError ''join() argument must be str''))"

definition new_client :: "'w genv \<Rightarrow> pydict \<Rightarrow> string \<Rightarrow> string \<Rightarrow> ('w gst, pyval) py" where
  "new_client env params path_key link_key =
     bnd (fw env ''get_address'' []) (\<lambda>address.
     bnd (netperf_source env params link_key) (\<lambda>src.
       fw env ''NetperfClient'' [address, pget params path_key, PStr src, pget params ''shell_client'', pget params ''shell_port'', pget params ''username'',
         pget params ''password'', pget params ''shell_prompt'', PStr (unescape (par_or params ''shell_linesep'' [CHR 0x0A])),
         dget_default params ''status_test_command'' (PStr []), dget_default params ''compile_option'' (PStr [])]))"

definition new_server :: "'w genv \<Rightarrow> pydict \<Rightarrow> pyval \<Rightarrow> pyval \<Rightarrow> ('w gst, pyval) py" where
  "new_server env params server_ip passwd =
     bnd (netperf_source env params ''netperf_server_link'') (\<lambda>src.
       fw env ''NetperfServer'' [server_ip, dget_default params ''server_path'' (PStr ''/var/tmp''), PStr src, passwd, dget_default params ''compile_option'' (PStr [])])"

text \<open>\<open>" -f %s" % unit\<close> for a unit that occurs in the text of all units; a unit that is missing cannot be looked for.\<close>

definition unit_option :: "pydict \<Rightarrow> string res" where
  "unit_option params =
     (case pget params ''netperf_output_unit'' of
        PStr u \<Rightarrow> Inr (if sublist u ''GMKgmk'' then '' -f '' @ u else [])
      | _ \<Rightarrow> Inl (TypeError ''requires string as left operand''))"

definition bg_start :: "'w genv \<Rightarrow> pydict \<Rightarrow> pyval \<Rightarrow> string \<Rightarrow> ('w gst, unit) py" where
  "bg_start env params client option =
     bnd (fw env ''get_host_ip_address'' []) (\<lambda>ip.
     bnd (par_num params ''netperf_para_sessions'' 0) (\<lambda>n.
       fw_unit env ''bg_start'' [client, ip, PStr option, PInt n, dget_default params ''netperf_cmd_prefix'' (PStr []), pget params ''netperf_sizes'']))"

definition is_netperf_running :: "'w genv \<Rightarrow> pyval \<Rightarrow> ('w gst, bool) py" where
  "is_netperf_running env client = bnd (fw env ''is_netperf_running'' [client]) (\<lambda>v. ret (truthy v))"

section \<open>The class NetperfTest\<close>

definition netperf_client :: "'w genv \<Rightarrow> pydict \<Rightarrow> ('w gst, pyval) py" where
  "netperf_client env params = new_client env params ''netperf_client_path'' ''netperf_client_bin''"

definition netperf_server :: "'w genv \<Rightarrow> pydict \<Rightarrow> string \<Rightarrow> pyval \<Rightarrow> ('w gst, pyval) py" where
  "netperf_server env params server_ip server_passwd =
     (if server_ip = ''localhost'' then
        bnd (fw env ''get_host_ip_address'' []) (\<lambda>ip. new_server env params ip (pget params ''hostpassword''))
      else new_server env params (PStr server_ip) server_passwd)"

definition NetperfTest :: "'w genv \<Rightarrow> pydict \<Rightarrow> ('w gst, pyval \<times> pyval) py" where
  "NetperfTest env params =
     bnd (netperf_client env params) (\<lambda>client.
     bnd (par params ''netperf_server'') (\<lambda>ip.
     bnd (netperf_server env params ip PNone) (\<lambda>server. ret (client, server))))"

definition start_netperf_test :: "'w genv \<Rightarrow> pydict \<Rightarrow> pyval \<times> pyval \<Rightarrow> ('w gst, bool) py" where
  "start_netperf_test env params obj =
     bnd (fw_unit env ''server.start'' [snd obj]) (\<lambda>_.
     bnd (par_num params ''netperf_test_duration'' 120) (\<lambda>duration.
     bnd (lift_res (unit_option params)) (\<lambda>unit.
     let option = par_or params ''extra_netperf_option'' [] @ '' -l '' @ int_str duration
           @ (if pget params ''netperf_remote_cpu'' = PStr ''yes'' then '' -C'' else if pget params ''netperf_local_cpu'' = PStr ''yes'' then '' -c'' else [])
           @ unit @ '' -t '' @ py_str (pget params ''test_protocol'') in
     bnd (bg_start env params (fst obj) option) (\<lambda>_. wait_until env 30 (is_netperf_running env (fst obj))))))"

section \<open>The stress test\<close>

text \<open>The clock of the host in milliseconds is read off the world.\<close>

definition stress_round :: "'w genv \<Rightarrow> ('w \<Rightarrow> int) \<Rightarrow> pyval \<Rightarrow> int \<Rightarrow> int \<Rightarrow> ('w gst, int) py" where
  "stress_round env now client test_duration start_time =
     bnd (fw_unit env ''sleep'' [PInt 10]) (\<lambda>_.
     bnd (gets (\<lambda>t. now (shworld t) - start_time)) (\<lambda>duration.
     bnd (is_netperf_running env client) (\<lambda>status.
       if \<not> status \<and> duration < 1000 * (test_duration - 10) then throw (TestFail ''netperf terminated unexpectedly'') else ret duration)))"

partial_function (option) stress_rounds ::
    "'w genv \<Rightarrow> ('w \<Rightarrow> int) \<Rightarrow> pyval \<Rightarrow> int \<Rightarrow> int \<Rightarrow> int \<Rightarrow> int \<Rightarrow> 'w gst \<Rightarrow> (unit res \<times> 'w gst) option" where
  "stress_rounds env now client test_duration max_run_time start_time duration t =
     (if duration < 1000 * max_run_time then
        (case stress_round env now client test_duration start_time t of
           (Inl e, t') \<Rightarrow> Some (Inl e, t')
         | (Inr d, t') \<Rightarrow> stress_rounds env now client test_duration max_run_time start_time d t')
      else Some (Inr (), t))"

declare stress_rounds.simps [code]

definition stress_option :: "pydict \<Rightarrow> int \<Rightarrow> string \<Rightarrow> string" where
  "stress_option params test_duration unit = par_or params ''test_option'' [] @ '' -l '' @ int_str test_duration
     @ (if pget params ''netperf_remote_cpu'' = PStr ''yes'' then '' -C'' else []) @ (if pget params ''netperf_local_cpu'' = PStr ''yes'' then '' -c'' else [])
     @ unit @ '' -t '' @ py_str (pget params ''test_protocol'')"

text \<open>Until the benchmark has started: its duration and the deviation that is allowed.\<close>

definition stress_start :: "'w genv \<Rightarrow> pydict \<Rightarrow> pyval \<Rightarrow> pyval \<Rightarrow> ('w gst, int \<times> int) py" where
  "stress_start env params client server =
     bnd (fw_unit env ''server.start'' [server]) (\<lambda>_.
     bnd (par_num params ''netperf_test_duration'' 0) (\<lambda>test_duration.
     bnd (par_num params ''deviation_time'' 0) (\<lambda>deviation_time.
     bnd (lift_res (unit_option params)) (\<lambda>unit.
     bnd (bg_start env params client (stress_option params test_duration unit)) (\<lambda>_.
     bnd (wait_until env 10 (is_netperf_running env client)) (\<lambda>started.
       if started then ret (test_duration, deviation_time) else throw (TestError ''Can not start netperf client.'')))))))"

definition stress_verdict :: "'w genv \<Rightarrow> pyval \<Rightarrow> ('w gst, unit) py" where
  "stress_verdict env client =
     bnd (is_netperf_running env client) (\<lambda>status. if status then throw (TestFail ''netperf still running, netperf hangs'') else ret ())"

definition stress_body :: "'w genv \<Rightarrow> ('w \<Rightarrow> int) \<Rightarrow> pydict \<Rightarrow> pyval \<Rightarrow> pyval \<Rightarrow> 'w gst \<Rightarrow> (unit res \<times> 'w gst) option" where
  "stress_body env now params client server t =
     (case stress_start env params client server t of
        (Inl e, t1) \<Rightarrow> Some (Inl e, t1)
      | (Inr (test_duration, deviation_time), t1) \<Rightarrow>
          (case stress_rounds env now client test_duration (test_duration + deviation_time) (now (shworld t1)) 0 t1 of
             None \<Rightarrow> None
           | Some (Inl e, t2) \<Rightarrow> Some (Inl e, t2)
           | Some (Inr _, t2) \<Rightarrow> Some (stress_verdict env client t2)))"

definition stress_clean :: "'w genv \<Rightarrow> pyval \<Rightarrow> pyval \<Rightarrow> ('w gst, unit) py" where
  "stress_clean env client server =
     bnd (fw_unit env ''server.stop'' [server]) (\<lambda>_.
     bnd (fw_unit env ''server.cleanup'' [server, PBool True]) (\<lambda>_. fw_unit env ''client.cleanup'' [client, PBool True]))"

definition stress_objects :: "'w genv \<Rightarrow> pydict \<Rightarrow> ('w gst, pyval \<times> pyval) py" where
  "stress_objects env params =
     bnd (new_client env params ''client_path'' ''netperf_client_link'') (\<lambda>client.
     bnd (fw env ''get_host_ip_address'' []) (\<lambda>ip.
     bnd (new_server env params ip (pget params ''hostpassword'')) (\<lambda>server. ret (client, server))))"

definition netperf_stress :: "'w genv \<Rightarrow> ('w \<Rightarrow> int) \<Rightarrow> pydict \<Rightarrow> 'w gst \<Rightarrow> (unit res \<times> 'w gst) option" where
  "netperf_stress env now params t =
     (case stress_objects env params t of
        (Inl e, t1) \<Rightarrow> Some (Inl e, t1)
      | (Inr (client, server), t1) \<Rightarrow>
          (case stress_body env now params client server t1 of
             None \<Rightarrow> None
           | Some (r, t2) \<Rightarrow> Some (try_finally (\<lambda>_. (r, t2)) (stress_clean env client server) t2)))"

section \<open>Helpers of the benchmark\<close>

datatype pin_target = Node int | Value pyval

definition pin_vm_threads :: "'w genv \<Rightarrow> pin_target \<Rightarrow> ('w gst, pin_target) py" where
  "pin_vm_threads env node =
     (case node of
        Node n \<Rightarrow> bnd (fw env ''pin_vm_threads'' [PInt n]) (\<lambda>_. ret node)
      | Value v \<Rightarrow>
          if \<not> truthy v then ret node
          else bnd (lift_res (py_int v)) (\<lambda>n. bnd (fw env ''pin_vm_threads'' [PInt n]) (\<lambda>_. ret (Node n))))"

text \<open>A session is a name; \<open>localhost\<close> stands for the host itself.\<close>

definition ssh_cmd :: "'w genv \<Rightarrow> string \<Rightarrow> string \<Rightarrow> bool \<Rightarrow> ('w gst, string) py" where
  "ssh_cmd env session cmd ignore_status =
     (if session = ''localhost'' then fw_str env ''process.system_output'' [PStr cmd, PInt 120, PBool ignore_status]
      else fw_str env ''session.cmd'' [PStr session, PStr cmd, PInt 120, PBool ignore_status])"

definition version_of :: "'w genv \<Rightarrow> string \<Rightarrow> string \<Rightarrow> ('w gst, string) py" where
  "version_of env session cmd = bnd (ssh_cmd env session cmd False) (\<lambda>out. ret (strip_set is_ws out))"

definition record_env_version :: "'w genv \<Rightarrow> pydict \<Rightarrow> string \<Rightarrow> string \<Rightarrow> int \<Rightarrow> ('w gst, unit) py" where
  "record_env_version env params host server_ctl test_duration =
     (let ver_cmd = par_or params ''ver_cmd'' ''rpm -q qemu-kvm''; guest_ver_cmd = par_or params ''guest_ver_cmd'' ''uname -r'';
          nl = [CHR 0x0A] in
      bnd (version_of env host ver_cmd) (\<lambda>v1.
      bnd (fw_unit env ''write_test_keyval'' [PDict [(''kvm-userspace-ver'', PStr v1)]]) (\<lambda>_.
      bnd (version_of env server_ctl guest_ver_cmd) (\<lambda>v2.
      bnd (fw_unit env ''write_test_keyval'' [PDict [(''guest-kernel-ver'', PStr v2)]]) (\<lambda>_.
      bnd (fw_unit env ''write_test_keyval'' [PDict [(''session-length'', PInt test_duration)]]) (\<lambda>_.
      bnd (version_of env host ver_cmd) (\<lambda>v3.
      bnd (fw_unit env ''fd.write'' [PStr (''### kvm-userspace-ver : '' @ v3 @ nl)]) (\<lambda>_.
      bnd (version_of env server_ctl guest_ver_cmd) (\<lambda>v4.
      bnd (fw_unit env ''fd.write'' [PStr (''### guest-kernel-ver : '' @ v4 @ nl)]) (\<lambda>_.
      bnd (fw_str env ''os.uname'' [PInt 2]) (\<lambda>release.
      bnd (fw_unit env ''fd.write'' [PStr (''### kvm_version : '' @ release @ nl)]) (\<lambda>_.
        fw_unit env ''fd.write'' [PStr (''### session-length : '' @ int_str test_duration @ nl)]))))))))))))"

definition env_setup :: "'w genv \<Rightarrow> pydict \<Rightarrow> string \<Rightarrow> string \<Rightarrow> string \<Rightarrow> string \<Rightarrow> string \<Rightarrow> string \<Rightarrow> ('w gst, unit) py" where
  "env_setup env params virtdir session ip username shell_port password =
     (let scp = (\<lambda>src. fw env ''scp_to_remote'' [PStr ip, PStr shell_port, PStr username, PStr password, PStr src, PStr ''/tmp'']) in
      bnd (if truthy (pget params ''env_setup_cmd'') then bnd (ssh_cmd env session (py_str (pget params ''env_setup_cmd'')) True) (\<lambda>_. ret ()) else ret ()) (\<lambda>_.
      bnd (par params ''netperf_pkg'') (\<lambda>pkg.
      bnd (fw_str env ''get_deps_dir'' []) (\<lambda>d.
      bnd (scp (path_join d pkg)) (\<lambda>_.
      bnd (ssh_cmd env session (py_str (pget params ''setup_cmd'')) False) (\<lambda>_.
      bnd (scp (path_join virtdir ''scripts/netperf_agent.py'')) (\<lambda>_. ret ())))))))"

definition set_profile :: "'w genv \<Rightarrow> pydict \<Rightarrow> string \<Rightarrow> string \<Rightarrow> ('w gst, unit) py" where
  "set_profile env params k session =
     (if truthy (pget params k) then bnd (ssh_cmd env session (py_str (pget params k)) False) (\<lambda>_. ret ()) else ret ())"

definition tweak_tuned_profile :: "'w genv \<Rightarrow> pydict \<Rightarrow> string \<Rightarrow> string \<Rightarrow> string \<Rightarrow> ('w gst, unit) py" where
  "tweak_tuned_profile env params server_ctl client host =
     bnd (set_profile env params ''server_tuned_profile'' server_ctl) (\<lambda>_.
     bnd (set_profile env params ''client_tuned_profile'' client) (\<lambda>_. set_profile env params ''host_tuned_profile'' host))"

definition netperf_thread :: "'w genv \<Rightarrow> pydict \<Rightarrow> bool \<Rightarrow> string \<Rightarrow> string \<Rightarrow> string \<Rightarrow> ('w gst, unit) py" where
  "netperf_thread env params numa_enable client_s option fname =
     bnd (if numa_enable then
            bnd (lift_res (py_int (pget params ''numa_node''))) (\<lambda>i.
              let n = int_str (\<bar>i\<bar> - 1) in ret (''numactl --cpunodebind='' @ n @ '' --membind='' @ n @ '' ''))
          else ret []) (\<lambda>prefix.
     bnd (ssh_cmd env client_s (prefix @ option @ '' >> '' @ fname) False) (\<lambda>_. ret ()))"

section \<open>The table of results\<close>

text \<open>A result is a value or a floating point number, which is a rational number here; its last digit is rounded, ties to the even digit.\<close>

datatype result_val = RVal pyval | RFloat rat

definition round_even :: "rat \<Rightarrow> int" where
  "round_even x = (let f = \<lfloor>x\<rfloor>; d = x - of_int f in if d < 1 / 2 then f else if 1 / 2 < d then f + 1 else if even f then f else f + 1)"

definition pad_left :: "char \<Rightarrow> nat \<Rightarrow> string \<Rightarrow> string" where
  "pad_left c n s = replicate (n - length s) c @ s"

definition fixed :: "nat \<Rightarrow> rat \<Rightarrow> string" where
  "fixed k x =
     (let n = round_even (\<bar>x\<bar> * 10 ^ k) in
      (if x < 0 then ''-'' else []) @ int_str (n div 10 ^ k) @ (if k = 0 then [] else ''.'' @ pad_left (CHR ''0'') k (int_str (n mod 10 ^ k))))"

definition type_name :: "pyval \<Rightarrow> string" where
  "type_name v = (case v of PNone \<Rightarrow> ''NoneType'' | PBool _ \<Rightarrow> ''bool'' | PInt _ \<Rightarrow> ''int'' | PStr _ \<Rightarrow> ''str'' | PList _ \<Rightarrow> ''list'' | PDict _ \<Rightarrow> ''dict'')"

definition format_result :: "nat \<Rightarrow> nat \<Rightarrow> result_val \<Rightarrow> string res" where
  "format_result base fbase result =
     (case result of
        RVal (PStr s) \<Rightarrow> Inr (pad_left (CHR '' '') base s)
      | RVal (PInt i) \<Rightarrow> Inr (pad_left (CHR '' '') base (int_str i))
      | RVal (PBool b) \<Rightarrow> Inr (pad_left (CHR '' '') base (int_str (if b then 1 else 0)))
      | RVal v \<Rightarrow> Inl (TypeError (''unexpected result type: '' @ type_name v))
      | RFloat x \<Rightarrow> Inr (pad_left (CHR '' '') base (fixed fbase x)))"

definition record_keys :: "(string \<times> result_val) list \<Rightarrow> string list \<Rightarrow> string list" where
  "record_keys results filter_list = filter (\<lambda>k. din k results) filter_list"

text \<open>A row: every field followed by a bar, and the bars at the end of the record removed.\<close>

definition bars :: "string list \<Rightarrow> string" where
  "bars cols = concat (map (\<lambda>f. f @ ''|'') cols)"

definition no_bar_end :: "string \<Rightarrow> string" where
  "no_bar_end = rstrip_set (\<lambda>c. c = CHR ''|'')"

definition netperf_record :: "(string \<times> result_val) list \<Rightarrow> string list \<Rightarrow> bool \<Rightarrow> nat \<Rightarrow> nat \<Rightarrow> (string \<times> string list) res" where
  "netperf_record results filter_list header base fbase =
     (let keys = record_keys results filter_list in
      rbind (rmap (\<lambda>k. format_result base fbase (RVal (PStr k))) (if header then keys else [])) (\<lambda>names.
      rbind (rmap (\<lambda>k. rbind (dindex results k) (format_result base fbase)) keys) (\<lambda>cols.
        Inr (no_bar_end ((if header then no_bar_end (bars names) @ [CHR 0x0A] else []) @ bars cols), keys))))"

section \<open>Properties of the stress test\<close>

text \<open>Time never goes back, and sleeping takes at least as long as asked.\<close>

definition clock_passes :: "'w genv \<Rightarrow> ('w \<Rightarrow> int) \<Rightarrow> bool" where
  "clock_passes env now \<longleftrightarrow>
     (\<forall>name args w. now w \<le> now (snd (g_call env name args w))) \<and> (\<forall>n w. now w + 1000 * n \<le> now (snd (g_call env ''sleep'' [PInt n] w)))"

lemma clock_passesD:
  assumes "clock_passes env now"
  shows "g_call env name args w = (r, w') \<Longrightarrow> now w \<le> now w'" "g_call env ''sleep'' [PInt n] w = (r, w') \<Longrightarrow> now w + 1000 * n \<le> now w'"
  using assms unfolding clock_passes_def by (metis snd_conv)+

lemma stress_round_Inr:
  assumes "clock_passes env now" "stress_round env now c td start t = (Inr d, t')"
  shows "now (shworld t) + 10000 \<le> start + d" "start + d \<le> now (shworld t')"
proof -
  obtain t1 b where s: "fw_unit env ''sleep'' [PInt 10] t = (Inr (), t1)" and d: "d = now (shworld t1) - start" and r: "is_netperf_running env c t1 = (Inr b, t')"
    using assms(2) unfolding stress_round_def by (auto simp: gets_def throw_def ret_def elim!: bnd_InrE split: if_splits)
  show "now (shworld t) + 10000 \<le> start + d" using fw_unit_Inr[OF s] clock_passesD(2)[OF assms(1), of 10] d by fastforce
  show "start + d \<le> now (shworld t')"
    using r d clock_passesD(1)[OF assms(1)] unfolding is_netperf_running_def by (auto simp: ret_def elim!: bnd_InrE dest!: fw_Inr)
qed

text \<open>A benchmark that is running exactly at the given times, and a guest on which sleeping and the clean up return.\<close>

definition running_at :: "'w genv \<Rightarrow> ('w \<Rightarrow> int) \<Rightarrow> pyval \<Rightarrow> (int \<Rightarrow> bool) \<Rightarrow> bool" where
  "running_at env now c alive \<longleftrightarrow> (\<forall>w. \<exists>v w'. g_call env ''is_netperf_running'' [c] w = (Inr v, w') \<and> truthy v = alive (now w))"

definition call_returns :: "'w genv \<Rightarrow> string \<Rightarrow> pyval list \<Rightarrow> bool" where
  "call_returns env name args \<longleftrightarrow> (\<forall>w. \<exists>v w'. g_call env name args w = (Inr v, w'))"

lemma running_run:
  assumes "running_at env now c alive"
  shows "\<exists>t'. is_netperf_running env c t = (Inr (alive (now (shworld t))), t')"
proof -
  obtain v w' where "g_call env ''is_netperf_running'' [c] (shworld t) = (Inr v, w')" "truthy v = alive (now (shworld t))"
    using assms unfolding running_at_def by blast
  then show ?thesis by (simp add: is_netperf_running_def bnd_def fw_def doing_def ret_def)
qed

lemma bench_call_run:
  assumes "call_returns env name args"
  shows "\<exists>t'. fw_unit env name args t = (Inr (), t') \<and> acts t' = acts t @ [Call name args]"
proof -
  obtain v w' where "g_call env name args (shworld t) = (Inr v, w')" using assms unfolding call_returns_def by blast
  then show ?thesis by (simp add: fw_unit_def bnd_def fw_def doing_def ret_def)
qed

lemma stress_round_runs:
  assumes "running_at env now c alive" "call_returns env ''sleep'' [PInt 10]" "\<forall>x < start + 1000 * (td - 10). alive x"
  shows "\<exists>d t'. stress_round env now c td start t = (Inr d, t')"
proof -
  obtain t1 where s: "fw_unit env ''sleep'' [PInt 10] t = (Inr (), t1)" using bench_call_run[OF assms(2)] by blast
  obtain t2 where r: "is_netperf_running env c t1 = (Inr (alive (now (shworld t1))), t2)" using running_run[OF assms(1)] by blast
  have "alive (now (shworld t1)) \<or> \<not> now (shworld t1) - start < 1000 * (td - 10)" using assms(3) by fastforce
  then show ?thesis using s r by (auto simp: stress_round_def bnd_def gets_def ret_def)
qed

text \<open>The loop ends on every guest; with a benchmark that does not stop too early it ends without an error.\<close>

lemma stress_rounds_end:
  assumes "clock_passes env now" "start + duration \<le> now (shworld t)"
  shows "\<exists>r t'. stress_rounds env now c td limit start duration t = Some (r, t') \<and> (r = Inr () \<longrightarrow> start + 1000 * limit \<le> now (shworld t'))
    \<and> (running_at env now c alive \<and> call_returns env ''sleep'' [PInt 10] \<and> (\<forall>x < start + 1000 * (td - 10). alive x) \<longrightarrow> r = Inr ())"
  using assms(2)
proof (induction "nat (1000 * limit - duration)" arbitrary: duration t rule: less_induct)
  case less
  show ?case
  proof (cases "duration < 1000 * limit")
    case True
    obtain r t1 where r: "stress_round env now c td start t = (r, t1)" by fastforce
    show ?thesis
    proof (cases r)
      case (Inl e)
      then show ?thesis using True r stress_round_runs[of env now c alive start td t] by (subst stress_rounds.simps) auto
    next
      case (Inr d)
      note d = stress_round_Inr[OF assms(1) r[unfolded Inr]]
      have "nat (1000 * limit - d) < nat (1000 * limit - duration)" using d(1) less.prems True by linarith
      from less.hyps[OF this d(2)] show ?thesis using True r Inr by (subst stress_rounds.simps) simp
    qed
  next
    case False
    then show ?thesis using less.prems by (subst stress_rounds.simps) simp
  qed
qed

lemma stress_clean_runs:
  assumes "call_returns env ''server.stop'' [s]" "call_returns env ''server.cleanup'' [s, PBool True]" "call_returns env ''client.cleanup'' [c, PBool True]"
  shows "\<exists>t'. stress_clean env c s t = (Inr (), t')
    \<and> acts t' = acts t @ [Call ''server.stop'' [s], Call ''server.cleanup'' [s, PBool True], Call ''client.cleanup'' [c, PBool True]]"
proof -
  obtain t1 where 1: "fw_unit env ''server.stop'' [s] t = (Inr (), t1)" "acts t1 = acts t @ [Call ''server.stop'' [s]]" using bench_call_run[OF assms(1)] by blast
  obtain t2 where 2: "fw_unit env ''server.cleanup'' [s, PBool True] t1 = (Inr (), t2)" "acts t2 = acts t1 @ [Call ''server.cleanup'' [s, PBool True]]"
    using bench_call_run[OF assms(2)] by blast
  obtain t3 where 3: "fw_unit env ''client.cleanup'' [c, PBool True] t2 = (Inr (), t3)" "acts t3 = acts t2 @ [Call ''client.cleanup'' [c, PBool True]]"
    using bench_call_run[OF assms(3)] by blast
  show ?thesis using 1 2 3 by (simp add: stress_clean_def bnd_def)
qed


section \<open>Properties of the table\<close>

lemma pad_left_length: "n \<le> length (pad_left c n s)" "length s \<le> n \<Longrightarrow> length (pad_left c n s) = n"
  by (simp_all add: pad_left_def)

lemma no_bar_int: "CHR ''|'' \<notin> set (int_str i)"
proof -
  have "CHR ''|'' \<notin> set (nat_digits n)" if n: "0 \<le> n" for n
  proof
    assume "CHR ''|'' \<in> set (nat_digits n)"
    then obtain d :: int where d: "0 \<le> d" "d < 10" "CHR ''|'' = (char_of (48 + d) :: char)" using nat_digits_are_digits[OF n] by blast
    have "digit_val (CHR ''|'') = Some d" unfolding d(3) using d(1, 2) by simp
    then show False by (simp add: digit_val_def)
  qed
  then show ?thesis by (auto simp: int_str_def)
qed

lemma no_bar_pad: "CHR ''|'' \<notin> set s \<Longrightarrow> c \<noteq> CHR ''|'' \<Longrightarrow> CHR ''|'' \<notin> set (pad_left c n s)"
  by (auto simp: pad_left_def)

lemma no_bar_fixed: "CHR ''|'' \<notin> set (fixed k x)"
  using no_bar_int no_bar_pad[of _ "CHR ''0''"] by (auto simp: fixed_def Let_def)

lemma bars_join: "cols \<noteq> [] \<Longrightarrow> bars cols = join ''|'' cols @ ''|''"
  by (induction "''|''" cols rule: join.induct) (auto simp: bars_def)

lemma join_last: "cols \<noteq> [] \<Longrightarrow> last cols \<noteq> [] \<Longrightarrow> join ''|'' cols \<noteq> [] \<and> last (join ''|'' cols) = last (last cols)"
  by (induction "''|''" cols rule: join.induct) auto

lemma no_bar_end_stop: "x \<noteq> [] \<Longrightarrow> last x \<noteq> CHR ''|'' \<Longrightarrow> no_bar_end (x @ ''|'') = x"
  by (induction x rule: rev_induct) (auto simp: no_bar_end_def rstrip_set_def)

lemma row_end:
  assumes "cols \<noteq> []" "\<forall>f \<in> set cols. f \<noteq> [] \<and> CHR ''|'' \<notin> set f"
  shows "no_bar_end (p @ bars cols) = p @ join ''|'' cols"
proof -
  have l: "last cols \<noteq> []" "CHR ''|'' \<notin> set (last cols)" using assms last_in_set by blast+
  then have "last (last cols) \<noteq> CHR ''|''" by (metis last_in_set)
  then show ?thesis using join_last[OF assms(1) l(1)] no_bar_end_stop[of "p @ join ''|'' cols"] by (simp add: bars_join[OF assms(1)])
qed

text \<open>Values that have a format and whose text does not contain the separator.\<close>

definition plain_result :: "result_val \<Rightarrow> bool" where
  "plain_result v = (case v of RVal (PStr s) \<Rightarrow> CHR ''|'' \<notin> set s | RVal (PInt _) \<Rightarrow> True | RVal (PBool _) \<Rightarrow> True | RVal _ \<Rightarrow> False | RFloat _ \<Rightarrow> True)"

lemma format_plain:
  assumes "plain_result v" "1 \<le> base"
  shows "\<exists>f. format_result base fbase v = Inr f \<and> base \<le> length f \<and> f \<noteq> [] \<and> CHR ''|'' \<notin> set f"
proof -
  have "\<exists>s. format_result base fbase v = Inr (pad_left (CHR '' '') base s) \<and> CHR ''|'' \<notin> set s"
    using assms(1) no_bar_int no_bar_fixed by (auto simp: plain_result_def format_result_def split: result_val.splits pyval.splits)
  then show ?thesis using assms(2) pad_left_length(1)[of base "CHR '' ''"] no_bar_pad[of _ "CHR '' ''" base] by fastforce
qed

lemma rmap_each: "\<forall>x \<in> set xs. \<exists>y. f x = Inr y \<and> P y \<Longrightarrow> \<exists>ys. rmap f xs = Inr ys \<and> list_all2 (\<lambda>x y. f x = Inr y \<and> P y) xs ys"
  by (induction xs) auto

lemma list_all2_all: "list_all2 (\<lambda>x y. Q x y \<and> P y) xs ys \<Longrightarrow> \<forall>y \<in> set ys. P y"
  by (induction rule: list_all2_induct) auto

text \<open>C36.
  The table of the results: a record with a header is two lines, of which the second is the record without a header; cut at the bars, the header gives
  the names of the recorded keys and the second line the values of the same keys in the same order, every field at least as wide as asked.
\<close>

theorem record_columns:
  assumes "1 \<le> base" "keys = record_keys results filter_list" "keys \<noteq> []" "\<forall>k \<in> set keys. CHR ''|'' \<notin> set k \<and> plain_result (the (dget results k))"
  shows "\<exists>h v. netperf_record results filter_list True base fbase = Inr (h @ [CHR 0x0A] @ v, keys)
    \<and> netperf_record results filter_list False base fbase = Inr (v, keys)
    \<and> split_char (CHR ''|'') h = map (pad_left (CHR '' '') base) keys
    \<and> list_all2 (\<lambda>k f. format_result base fbase (the (dget results k)) = Inr f \<and> base \<le> length f) keys (split_char (CHR ''|'') v)"
proof -
  let ?P = "\<lambda>f. base \<le> length f \<and> f \<noteq> [] \<and> CHR ''|'' \<notin> set f"
  let ?n = "map (pad_left (CHR '' '') base) keys"
  have din: "rbind (dindex results k) (format_result base fbase) = format_result base fbase (the (dget results k))" if k: "k \<in> set keys" for k
    using k assms(2) by (auto simp: record_keys_def din_iff dindex_def)
  have names: "rmap (\<lambda>k. format_result base fbase (RVal (PStr k))) xs = Inr (map (pad_left (CHR '' '') base) xs)" for xs
    by (induction xs) (auto simp: format_result_def)
  have "pad_left (CHR '' '') base k \<noteq> []" for k using assms(1) pad_left_length(1)[of base "CHR '' ''" k] by auto
  then have n: "?n \<noteq> []" "\<forall>f \<in> set ?n. f \<noteq> [] \<and> CHR ''|'' \<notin> set f" using assms(3, 4) by (auto simp: no_bar_pad)
  have "\<forall>k \<in> set keys. \<exists>f. rbind (dindex results k) (format_result base fbase) = Inr f \<and> ?P f"
    using format_plain[OF _ assms(1), of _ fbase] assms(4) by (simp add: din)
  from rmap_each[OF this] obtain cols where c: "rmap (\<lambda>k. rbind (dindex results k) (format_result base fbase)) keys = Inr cols"
    and a: "list_all2 (\<lambda>k f. rbind (dindex results k) (format_result base fbase) = Inr f \<and> ?P f) keys cols" by (elim exE conjE)
  have p: "cols \<noteq> []" "\<forall>f \<in> set cols. f \<noteq> [] \<and> CHR ''|'' \<notin> set f" using list_all2_lengthD[OF a] assms(3) list_all2_all[OF a] by auto
  have rows: "no_bar_end (bars ?n) = join ''|'' ?n" "no_bar_end (q @ bars cols) = q @ join ''|'' cols" for q using row_end[OF n, of "[]"] row_end[OF p] by simp_all
  have "netperf_record results filter_list True base fbase = Inr (join ''|'' ?n @ [CHR 0x0A] @ join ''|'' cols, keys)"
    "netperf_record results filter_list False base fbase = Inr (join ''|'' cols, keys)"
    using names c rows rows(2)[of "[]"] rows(2)[of "join ''|'' ?n @ [CHR 0x0A]"] assms(2) by (simp_all add: netperf_record_def Let_def)
  moreover have "split_char (CHR ''|'') (join ''|'' ?n) = ?n" "split_char (CHR ''|'') (join ''|'' cols) = cols" using split_join n p by blast+
  moreover have "list_all2 (\<lambda>k f. format_result base fbase (the (dget results k)) = Inr f \<and> base \<le> length f) keys cols"
    using a din by (auto simp: list_all2_conv_all_nth)
  ultimately show ?thesis by (intro exI[of _ "join ''|'' ?n"] exI[of _ "join ''|'' cols"]) simp
qed

section \<open>Examples\<close>

theorem record_columns_witness:
  "\<exists>h v. netperf_record [(''size'', RVal (PInt 64)), (''throughput'', RFloat (1883 / 16)), (''note'', RVal (PStr ''x''))] [''throughput'', ''missing'', ''size''] True 12 2
       = Inr (h @ [CHR 0x0A] @ v, [''throughput'', ''size''])
     \<and> split_char (CHR ''|'') h = [''  throughput'', ''        size''] \<and> length (split_char (CHR ''|'') v) = 2"
proof -
  let ?r = "[(''size'', RVal (PInt 64)), (''throughput'', RFloat (1883 / 16)), (''note'', RVal (PStr ''x''))]"
  have h: "1 \<le> (12 :: nat)" "[''throughput'', ''size''] = record_keys ?r [''throughput'', ''missing'', ''size'']" "[''throughput'', ''size''] \<noteq> []"
    "\<forall>k \<in> set [''throughput'', ''size'']. CHR ''|'' \<notin> set k \<and> plain_result (the (dget ?r k))"
    by (auto simp: record_keys_def din_def plain_result_def)
  have n: "map (pad_left (CHR '' '') 12) [''throughput'', ''size''] = [''  throughput'', ''        size'']" by (simp add: pad_left_def numeral_eq_Suc)
  show ?thesis using record_columns[OF h, of 2] list_all2_lengthD unfolding n by fastforce
qed

text \<open>A host whose clock is its world, on which a benchmark of one minute starts at second 7 and ends at second 65.\<close>

definition netperf_host :: "int genv" where
  "netperf_host = \<lparr>g_shell = (\<lambda>c n w. (Inr (0, []), w)),
     g_call = (\<lambda>name args w. if name = ''sleep'' then (Inr PNone, w + (case args of [PInt n] \<Rightarrow> 1000 * max n 0 + 7 | _ \<Rightarrow> 0))
       else if name = ''is_netperf_running'' then (Inr (PBool (w < 65000)), w) else (Inr (PStr ''x''), w + 1)),
     g_rounds = (\<lambda>n w. 3)\<rparr>"

definition netperf_params :: pydict where
  "netperf_params = [(''netperf_client_link'', PStr ''c''), (''netperf_server_link'', PStr ''s''), (''netperf_output_unit'', PStr ''m''),
     (''netperf_test_duration'', PStr ''60''), (''deviation_time'', PStr ''10'')]"


end
