(* ===== verification/Pktgen.thy ===== *)
theory Pktgen
  imports Netperf
begin

text \<open>
  Packet rates with pktgen (\<^verbatim>\<open>provider/pktgen_utils.py\<close>): the configuration of a run, the measurement on a guest or on the host, and the file of results.
  The machine and the session may be missing, as the arguments of the source may be; a method of a missing object raises.  The width of a column,
  the parameter \<open>format_base\<close>, is an argument, and rates are rational numbers.
\<close>

section \<open>Configuration\<close>

text \<open>A runner is the \<open>cmd\<close> of the session in the guest or \<open>process.system_output\<close> on the host.\<close>

datatype runner = Session_Cmd | System_Output

record pktgen_config =
  p_interface :: pyval
  p_dsc :: pyval
  p_runner :: "runner option"

definition PktgenConfig :: pktgen_config where
  "PktgenConfig = \<lparr>p_interface = PNone, p_dsc = PNone, p_runner = None\<rparr>"

definition on_object :: "'w genv \<Rightarrow> bool \<Rightarrow> string \<Rightarrow> pyval list \<Rightarrow> ('w gst, pyval) py" where
  "on_object env present name args = (if present then fw env name args else throw (AttributeError name))"

definition vp_vdpa_steps :: "'w genv \<Rightarrow> bool \<Rightarrow> ('w gst, unit) py" where
  "vp_vdpa_steps env session =
     bnd (fw env ''get_pci_id_using_filter'' [PStr ''Virtio 1.0 network'']) (\<lambda>pci_list.
       case pci_list of
         PList (p # _) \<Rightarrow>
           bnd (fw_str env ''get_full_pci_id'' [p]) (\<lambda>pci_id.
           bnd (fw_unit env ''unbind_device_driver'' [PStr pci_id]) (\<lambda>_.
           if \<not> session then throw (AttributeError ''cmd'')
           else
             bnd (sh_cmd env ''modprobe vp_vdpa && modprobe virtio_vdpa'' None) (\<lambda>_.
             bnd (fw_unit env ''bind_device_driver'' [PStr pci_id, PStr ''vp-vdpa'']) (\<lambda>_.
             bnd (sh_cmd env (''vdpa dev add name vdpa0 mgmtdev pci/'' @ pci_id) None) (\<lambda>_.
             bnd (fw_unit env ''sleep'' [PInt 5]) (\<lambda>_.
             bnd (sh_output env ''vdpa dev list'' None) (\<lambda>out.
               if sublist ''vdpa0'' out then ret () else throw (ValueError ''vDPA device vdpa0 not found in the output of vdpa dev list''))))))))
       | _ \<Rightarrow> throw (ValueError ''No PCI devices found matching Virtio 1.0 network.''))"

definition vp_vdpa_bind :: "'w genv \<Rightarrow> bool \<Rightarrow> ('w gst, unit) py" where
  "vp_vdpa_bind env session = try_except (vp_vdpa_steps env session) (\<lambda>e. if is_exception e then Some (ret ()) else None)"

definition copy_to_host :: "'w genv \<Rightarrow> string \<Rightarrow> ('w gst, unit) py" where
  "copy_to_host env local_path = fw_unit env ''process.run'' [PStr (''cp -r '' @ local_path @ '' /tmp/'')]"

definition configure_pktgen :: "'w genv \<Rightarrow> pydict \<Rightarrow> string \<Rightarrow> string \<Rightarrow> bool \<Rightarrow> bool \<Rightarrow> bool \<Rightarrow> pyval \<Rightarrow> pktgen_config \<Rightarrow> ('w gst, pktgen_config) py" where
  "configure_pktgen env params script pkt_cate test_vm vm session interface cfg =
     bnd (fw_str env ''get_shared_dir'' []) (\<lambda>d.
     let local_path = path_join d ''scripts/pktgen_perf'';
         on_session = (\<lambda>c. if session then ret c else throw (AttributeError ''cmd'')) in
     if pkt_cate = ''tx'' then
       bnd (on_object env vm ''copy_files_to'' [PStr local_path, PStr ''/tmp/'']) (\<lambda>_.
       bnd (on_object env vm ''get_mac_address'' [PInt 0]) (\<lambda>guest_mac.
       bnd (fw env ''get_linux_ifname'' [guest_mac]) (\<lambda>ifname.
       bnd (on_object env vm ''get_ifname'' [PInt 0]) (\<lambda>host_if.
       bnd (fw env ''get_mac'' [host_if]) (\<lambda>dsc.
         on_session (cfg\<lparr>p_interface := ifname, p_dsc := dsc, p_runner := Some Session_Cmd\<rparr>))))))
     else if pkt_cate = ''rx'' then
       bnd (copy_to_host env local_path) (\<lambda>_.
       bnd (fw env ''Interface'' [dget_default params ''netdst'' (PStr ''switch'')]) (\<lambda>_.
       bnd (if script = ''pktgen_perf'' then on_object env vm ''wait_for_get_address'' [PInt 0, PInt 5] else on_object env vm ''get_mac_address'' [PInt 0]) (\<lambda>dsc.
       bnd (on_object env vm ''get_ifname'' [PInt 0]) (\<lambda>ifname.
         ret (cfg\<lparr>p_interface := ifname, p_dsc := dsc, p_runner := Some System_Output\<rparr>)))))
     else if pkt_cate = ''loopback'' then
       (if test_vm then
          bnd (on_object env vm ''copy_files_to'' [PStr local_path, PStr ''/tmp/'']) (\<lambda>_.
          bnd (on_object env vm ''get_mac_address'' [PInt 1]) (\<lambda>guest_mac.
          bnd (fw env ''get_linux_ifname'' [guest_mac]) (\<lambda>ifname.
          bnd (on_object env vm ''get_mac_address'' [PInt 1]) (\<lambda>dsc.
            on_session (cfg\<lparr>p_interface := ifname, p_dsc := dsc, p_runner := Some Session_Cmd\<rparr>)))))
        else
          bnd (copy_to_host env local_path) (\<lambda>_.
            ret (cfg\<lparr>p_interface := interface, p_dsc := dget_default params ''mac'' PNone, p_runner := Some System_Output\<rparr>)))
     else ret cfg)"

text \<open>\<open>script in "pktgen_perf"\<close> holds for every part of the name; a command on the guest is started in the background.\<close>

definition generate_pktgen_cmd :: "string \<Rightarrow> string \<Rightarrow> pktgen_config \<Rightarrow> string \<Rightarrow> string \<Rightarrow> string \<Rightarrow> bool \<Rightarrow> string" where
  "generate_pktgen_cmd script pkt_cate cfg threads sz burst session =
     (let path = ''/tmp/pktgen_perf/'' @ script @ ''.sh''; ifname = py_str (p_interface cfg); dsc = py_str (p_dsc cfg) in
      (if sublist script ''pktgen_perf'' then
         path @ '' -i '' @ ifname @ '' '' @ (if pkt_cate = ''tx'' then ''-m'' else ''-d'') @ '' '' @ dsc @ '' -t '' @ threads @ '' -s '' @ sz
       else path @ '' -i '' @ ifname @ '' -m '' @ dsc @ '' -n 0 -t '' @ threads @ '' -s '' @ sz @ '' -b '' @ burst @ '' -c 0'')
      @ (if session \<and> p_runner cfg = Some Session_Cmd then '' &'' else []))"

section \<open>Measurement\<close>

definition run_with :: "'w genv \<Rightarrow> runner option \<Rightarrow> string \<Rightarrow> int option \<Rightarrow> ('w gst, string) py" where
  "run_with env runner cmd timeout =
     (case runner of
        None \<Rightarrow> throw (TypeError ''NoneType object is not callable'')
      | Some Session_Cmd \<Rightarrow> sh_cmd env cmd timeout
      | Some System_Output \<Rightarrow> fw_str env ''process.system_output'' (PStr cmd # (case timeout of None \<Rightarrow> [] | Some n \<Rightarrow> [PInt n])))"

definition attempt :: "('s, 'a) py \<Rightarrow> ('s, 'a res) py" where
  "attempt m t = (case m t of (r, t') \<Rightarrow> (Inr r, t'))"

definition packets_cmd :: "pyval \<Rightarrow> string" where
  "packets_cmd interface = ''cat /sys/class/net/'' @ py_str interface @ ''/statistics/tx_packets''"

definition kill_cmd :: "string \<Rightarrow> string" where
  "kill_cmd script = ''kill -9 `ps -ef | grep '' @ script @ '' --color | grep -v grep | awk '' @ [CHR 0x27] @ ''{print $2}'' @ [CHR 0x27] @ ''`''"

text \<open>The handlers: on a timeout of the guest the script is killed; the number of packets is read again.\<close>

definition packets_after :: "'w genv \<Rightarrow> runner option \<Rightarrow> string \<Rightarrow> pyval \<Rightarrow> exc \<Rightarrow> ('w gst, string) py" where
  "packets_after env runner script interface e =
     (case e of
        OtherError c _ \<Rightarrow>
          if c = ''ShellTimeoutError'' then bnd (run_with env runner (kill_cmd script) None) (\<lambda>_. run_with env runner (packets_cmd interface) None)
          else if c = ''CmdError'' then run_with env runner (packets_cmd interface) None else throw e
      | _ \<Rightarrow> throw e)"

text \<open>\<open>int(packet_a) - int(packet_b)\<close>, where the first may be \<open>None\<close> and the second unbound.\<close>

definition packet_count :: "string option \<Rightarrow> string option \<Rightarrow> int res" where
  "packet_count packet_a packet_b =
     (case packet_a of
        None \<Rightarrow> Inl (TypeError ''int() argument must be a string, a bytes-like object or a real number, not NoneType'')
      | Some a \<Rightarrow> rbind (int_of_str a) (\<lambda>i.
          case packet_b of None \<Rightarrow> Inl (UnboundLocalError ''packet_b'') | Some b \<Rightarrow> rbind (int_of_str b) (\<lambda>j. Inr (i - j))))"

definition mpps :: "int \<Rightarrow> int \<Rightarrow> string res" where
  "mpps n timeout = (if timeout = 0 then Inl (OtherError ''ZeroDivisionError'' []) else Inr (fixed 2 (of_int n / of_int timeout / 10 ^ 6)))"

definition run_pktgen :: "'w genv \<Rightarrow> string \<Rightarrow> string \<Rightarrow> runner option \<Rightarrow> pyval \<Rightarrow> int \<Rightarrow> ('w gst, string) py" where
  "run_pktgen env script cmd runner interface timeout =
     bnd (attempt (run_with env runner (packets_cmd interface) None)) (\<lambda>before.
     bnd (case before of
            Inl e \<Rightarrow> bnd (packets_after env runner script interface e) (\<lambda>a. ret (Some a, None))
          | Inr b \<Rightarrow>
              bnd (attempt (run_with env runner cmd (Some timeout))) (\<lambda>done.
                case done of
                  Inl e \<Rightarrow> bnd (packets_after env runner script interface e) (\<lambda>a. ret (Some a, Some b))
                | Inr _ \<Rightarrow> ret (None, Some b))) (\<lambda>(packet_a, packet_b).
     bnd (lift_res (packet_count packet_a packet_b)) (\<lambda>n. lift_res (mpps n timeout))))"

definition install_package :: "'w genv \<Rightarrow> string \<Rightarrow> string \<Rightarrow> bool \<Rightarrow> bool \<Rightarrow> ('w gst, unit) py" where
  "install_package env ver pagesize vm session =
     (let kernel_ver = (if pagesize \<noteq> [] then ''kernel-'' @ pagesize @ ''-modules-internal-'' @ hd (split_char (CHR ''+'') ver) else ''kernel-modules-internal-'' @ ver);
          cmd_install = ''cd /tmp && rpm -ivh  '' @ kernel_ver @ ''.rpm --force --nodeps'';
          cmd_clean = ''rm -rf /tmp/'' @ kernel_ver @ ''.rpm'' in
      bnd (fw_unit env ''process.getoutput'' [PStr (''cd /tmp && brew download-build '' @ kernel_ver @ '' --rpm'')]) (\<lambda>_.
        if session then
          bnd (on_object env vm ''copy_files_to'' [PStr (''/tmp/'' @ kernel_ver @ ''.rpm''), PStr ''/tmp/'']) (\<lambda>_.
          bnd (sh_output env cmd_install None) (\<lambda>_. bnd (sh_output env cmd_clean None) (\<lambda>_. ret ())))
        else bnd (fw_unit env ''process.getoutput'' [PStr cmd_install]) (\<lambda>_. fw_unit env ''process.getoutput'' [PStr cmd_clean])))"

text \<open>The number after the first \<open>el\<close> that has one.\<close>

fun el_number :: "string \<Rightarrow> int option" where
  "el_number s =
     (case s of
        c # d # cs \<Rightarrow>
          if c = CHR ''e'' \<and> d = CHR ''l'' \<and> takeWhile (\<lambda>x. x \<in> set ''0123456789'') cs \<noteq> [] then digits_val 10 0 (takeWhile (\<lambda>x. x \<in> set ''0123456789'') cs)
          else el_number (d # cs)
      | _ \<Rightarrow> None)"

definition is_version_lt_rhel7 :: "string \<Rightarrow> bool" where
  "is_version_lt_rhel7 uname_str = (case el_number uname_str of None \<Rightarrow> False | Some v \<Rightarrow> v > 7)"

section \<open>The runs of a category\<close>

text \<open>A loop whose body returns the configuration of the next turn.\<close>

fun fold_each :: "'a list \<Rightarrow> ('a \<Rightarrow> 'c \<Rightarrow> ('s, 'c) py) \<Rightarrow> 'c \<Rightarrow> ('s, 'c) py" where
  "fold_each [] f c = ret c"
| "fold_each (x # xs) f c = bnd (f x c) (fold_each xs f)"

lemma fold_each_run [code]: "fold_each [] f c s = (Inr c, s)" "fold_each (x # xs) f c s = bnd (f x c) (fold_each xs f) s"
  by (simp_all add: ret_def)

definition column :: "nat \<Rightarrow> string \<Rightarrow> string" where
  "column base s = pad_left (CHR '' '') base s"

definition result_line :: "nat \<Rightarrow> string \<Rightarrow> string \<Rightarrow> string \<Rightarrow> string \<Rightarrow> string" where
  "result_line base sz threads burst rate = column base sz @ ''|'' @ column base threads @ ''|'' @ column base burst @ ''|'' @ column base rate @ [CHR 0x0A]"

record pktgen_run =
  r_test_vm :: bool
  r_vm :: bool
  r_session :: bool
  r_interface :: pyval

definition put_text :: "'w genv \<Rightarrow> string \<Rightarrow> ('w gst, unit) py" where
  "put_text env s = fw_unit env ''result_file.write'' [PStr s]"

text \<open>One measurement: a loopback on the host has neither machine nor session.\<close>

definition measure_rate :: "'w genv \<Rightarrow> pydict \<Rightarrow> pktgen_run \<Rightarrow> int \<Rightarrow> nat \<Rightarrow> string \<Rightarrow> string \<Rightarrow> string \<Rightarrow> string \<Rightarrow> string \<Rightarrow> pktgen_config \<Rightarrow> ('w gst, pktgen_config) py" where
  "measure_rate env params run timeout base script pkt_cate sz threads burst cfg =
     (let on_host = (pkt_cate = ''loopback'' \<and> \<not> r_test_vm run) in
      bnd (configure_pktgen env params script pkt_cate (r_test_vm run) (r_vm run \<and> \<not> on_host) (r_session run \<and> \<not> on_host)
             (if on_host then r_interface run else PNone) cfg) (\<lambda>cfg'.
      bnd (run_pktgen env script (generate_pktgen_cmd script pkt_cate cfg' threads sz burst (r_session run \<and> \<not> on_host)) (p_runner cfg') (p_interface cfg') timeout) (\<lambda>rate.
      bnd (put_text env (result_line base sz threads burst rate)) (\<lambda>_. ret cfg'))))"

definition param_words :: "pydict \<Rightarrow> string \<Rightarrow> string list" where
  "param_words params k = split_ws (par_or params k [])"

definition header_line :: "nat \<Rightarrow> string list \<Rightarrow> string" where
  "header_line base records = no_bar_end (bars (map (column base) records)) @ [CHR 0x0A]"

definition run_category :: "'w genv \<Rightarrow> pydict \<Rightarrow> pktgen_run \<Rightarrow> int \<Rightarrow> nat \<Rightarrow> string list \<Rightarrow> string \<Rightarrow> string \<Rightarrow> pktgen_config \<Rightarrow> ('w gst, pktgen_config) py" where
  "run_category env params run timeout base records script pkt_cate cfg =
     bnd (put_text env (''Script:'' @ script @ '' '')) (\<lambda>_.
     bnd (put_text env (''Category:'' @ pkt_cate @ [CHR 0x0A])) (\<lambda>_.
     bnd (put_text env (header_line base records)) (\<lambda>_.
       fold_each (param_words params ''pkt_size'') (\<lambda>sz.
       fold_each (param_words params ''pktgen_threads'') (\<lambda>threads.
       fold_each (param_words params ''burst'') (\<lambda>burst. measure_rate env params run timeout base script pkt_cate sz threads burst))) cfg)))"

text \<open>\<open>float(text)\<close> for whole seconds, and the words of a parameter that has to be there.\<close>

definition words_of :: "pydict \<Rightarrow> string \<Rightarrow> ('s, string list) py" where
  "words_of params k = (case dget params k of Some v \<Rightarrow> ret (split_ws (py_str v)) | None \<Rightarrow> throw (AttributeError ''split''))"

definition run_tests_for_category :: "'w genv \<Rightarrow> pydict \<Rightarrow> pktgen_run \<Rightarrow> bool \<Rightarrow> nat \<Rightarrow> ('w gst, unit) py" where
  "run_tests_for_category env params run vp_vdpa base =
     bnd (par_num params ''pktgen_test_timeout'' 240) (\<lambda>timeout.
     bnd (words_of params ''record_list'') (\<lambda>records.
     bnd (if vp_vdpa then vp_vdpa_bind env (r_session run) else ret ()) (\<lambda>_.
     bnd (words_of params ''pktgen_script'') (\<lambda>scripts.
     bnd (fold_each scripts (\<lambda>script cfg.
            bnd (words_of params ''category'') (\<lambda>cates. fold_each cates (run_category env params run timeout base records script) cfg)) PktgenConfig) (\<lambda>_. ret ())))))"

section \<open>Properties\<close>

text \<open>A script that ends before its timeout cannot be measured: the number of packets is read again only when the command raised, so the subtraction fails with
  \<open>TypeError\<close>, on the guest and on the host; on the guest the command is started in the background and ends at once.
\<close>

lemma ended_script_not_measured:
  assumes "run_with env r (packets_cmd ifc) None t = (Inr b, t1)" "run_with env r cmd (Some timeout) t1 = (Inr out, t2)"
  shows "\<exists>m. run_pktgen env script cmd r ifc timeout t = (Inl (TypeError m), t2)"
  using assms by (simp add: run_pktgen_def attempt_def bnd_def packet_count_def throw_def ret_def)

text \<open>The text of the file of results after a sequence of calls; everything but the writes leaves it.\<close>

definition text_of :: "act \<Rightarrow> string" where
  "text_of a = (case a of Call n [PStr s] \<Rightarrow> if n = ''result_file.write'' then s else [] | _ \<Rightarrow> [])"

definition file_text :: "'w gst \<Rightarrow> string" where
  "file_text t = concat (map text_of (acts t))"

definition same_file :: "'w gst \<Rightarrow> 'w gst \<Rightarrow> bool" where
  "same_file t t' \<longleftrightarrow> file_text t' = file_text t"

interpretation results: state_relation same_file
  by unfold_locales (auto simp: same_file_def)

lemma sh_same: "moves same_file (sh_so env cmd n)" "moves same_file (sh_cmd env cmd n)" "moves same_file (sh_output env cmd n)"
proof -
  show so: "moves same_file (sh_so env cmd n)"
    by (rule movesI) (auto simp: same_file_def file_text_def text_of_def sh_so_def doing_def split: prod.split)
  show "moves same_file (sh_cmd env cmd n)" "moves same_file (sh_output env cmd n)"
    unfolding sh_cmd_def sh_output_def by (intro results.composed so)+
qed

lemma fw_same:
  assumes "name \<noteq> ''result_file.write''"
  shows "moves same_file (fw env name args)" "moves same_file (fw_unit env name args)" "moves same_file (fw_str env name args)"
proof -
  have "text_of (Call name args) = []" using assms by (simp add: text_of_def split: list.split pyval.split)
  then show f: "moves same_file (fw env name args)"
    by (intro movesI) (simp add: same_file_def file_text_def fw_def doing_def split: prod.split)
  show "moves same_file (fw_unit env name args)" "moves same_file (fw_str env name args)"
    unfolding fw_unit_def fw_str_def by (intro results.composed f)+
qed

lemma on_object_same: "name \<noteq> ''result_file.write'' \<Longrightarrow> moves same_file (on_object env b name args)"
  by (simp add: on_object_def fw_same results.unchanged)

lemma run_with_same: "moves same_file (run_with env r cmd n)"
  by (auto simp: run_with_def sh_same fw_same results.unchanged split: option.split runner.split)

lemma attempt_same: "moves same_file m \<Longrightarrow> moves same_file (attempt m)"
  by (rule movesI) (auto simp: attempt_def split: prod.split dest: movesD)

lemma packets_after_same: "moves same_file (packets_after env r script ifc e)"
  by (auto simp: packets_after_def split: exc.split intro!: results.composed run_with_same)

lemma run_pktgen_same: "moves same_file (run_pktgen env script cmd r ifc n)"
  unfolding run_pktgen_def by (auto intro!: results.composed attempt_same run_with_same packets_after_same split: sum.split)

lemma configure_same: "moves same_file (configure_pktgen env params script cate test_vm vm session ifc cfg)"
  unfolding configure_pktgen_def copy_to_host_def Let_def by (intro results.composed fw_same on_object_same) simp_all

lemma vp_vdpa_same: "moves same_file (vp_vdpa_bind env session)"
proof -
  have "moves same_file (vp_vdpa_steps env session)"
    unfolding vp_vdpa_steps_def by (auto intro!: results.composed sh_same fw_same split: pyval.split list.split)
  then show ?thesis unfolding vp_vdpa_bind_def by (rule results.handled) (auto simp: results.unchanged split: if_splits)
qed

lemma put_text_run: "put_text env s t = (Inr u, t') \<Longrightarrow> file_text t' = file_text t @ s"
  by (auto simp: put_text_def file_text_def text_of_def dest!: fw_unit_Inr)

lemma measure_rate_writes:
  assumes "measure_rate env params run timeout base script cate sz threads burst cfg t = (Inr cfg', t')"
  shows "\<exists>rate. file_text t' = file_text t @ result_line base sz threads burst rate"
proof -
  obtain c1 t1 rate t2 u where c: "configure_pktgen env params script cate (r_test_vm run) (r_vm run \<and> \<not> (cate = ''loopback'' \<and> \<not> r_test_vm run))
      (r_session run \<and> \<not> (cate = ''loopback'' \<and> \<not> r_test_vm run)) (if cate = ''loopback'' \<and> \<not> r_test_vm run then r_interface run else PNone) cfg t = (Inr c1, t1)"
    and r: "run_pktgen env script (generate_pktgen_cmd script cate c1 threads sz burst (r_session run \<and> \<not> (cate = ''loopback'' \<and> \<not> r_test_vm run))) (p_runner c1) (p_interface c1) timeout t1
      = (Inr rate, t2)"
    and w: "put_text env (result_line base sz threads burst rate) t2 = (Inr u, t')"
    using assms unfolding measure_rate_def Let_def by (auto simp: ret_def elim!: bnd_InrE)
  show ?thesis using put_text_run[OF w] movesD[OF configure_same c] movesD[OF run_pktgen_same r] by (auto simp: same_file_def)
qed

text \<open>Loops that write for every element.\<close>

lemma fold_each_append: "fold_each (xs @ ys) f c = bnd (fold_each xs f c) (fold_each ys f)"
proof (induction xs arbitrary: c)
  case (Cons x xs)
  then have "fold_each (xs @ ys) f = (\<lambda>c. bnd (fold_each xs f c) (fold_each ys f))" by blast
  then show ?case by (simp add: bnd_assoc)
qed simp

lemma fold_each_map: "fold_each (map g xs) f c = fold_each xs (\<lambda>x. f (g x)) c"
proof (induction xs arbitrary: c)
  case (Cons x xs)
  then have "fold_each (map g xs) f = fold_each xs (\<lambda>x. f (g x))" by blast
  then show ?case by simp
qed simp

lemma fold_each_product: "fold_each xs (\<lambda>x. fold_each ys (f x)) c = fold_each (List.product xs ys) (\<lambda>(x, y). f x y) c"
proof (induction xs arbitrary: c)
  case (Cons x xs)
  then have "fold_each xs (\<lambda>x. fold_each ys (f x)) = fold_each (List.product xs ys) (\<lambda>(x, y). f x y)" by blast
  then show ?case by (simp add: fold_each_append fold_each_map)
qed simp

lemma fold_each_product3:
  "fold_each xs (\<lambda>x. fold_each ys (\<lambda>y. fold_each zs (f x y))) c = fold_each (List.product xs (List.product ys zs)) (\<lambda>(x, y, z). f x y z) c"
proof -
  have "fold_each ys (\<lambda>y. fold_each zs (f x y)) = fold_each (List.product ys zs) (\<lambda>(y, z). f x y z)" for x by (rule ext) (rule fold_each_product)
  then show ?thesis by (simp only: fold_each_product)
qed

lemma fold_each_writes:
  assumes "\<forall>x c t c' t'. f x c t = (Inr c', t') \<longrightarrow> (\<exists>w. file_text t' = file_text t @ w \<and> P x w)"
  shows "fold_each xs f c t = (Inr c', t') \<Longrightarrow> \<exists>ws. file_text t' = file_text t @ concat ws \<and> list_all2 P xs ws"
proof (induction xs arbitrary: c t)
  case (Cons x xs)
  then obtain c1 t1 where 1: "f x c t = (Inr c1, t1)" and 2: "fold_each xs f c1 t1 = (Inr c', t')" by (auto elim!: bnd_InrE)
  obtain w ws where "file_text t1 = file_text t @ w" "P x w" "file_text t' = file_text t1 @ concat ws" "list_all2 P xs ws"
    using assms[rule_format, OF 1] Cons.IH[OF 2] by blast
  then show ?case by (intro exI[of _ "w # ws"]) simp
qed (simp add: ret_def)

lemma fold_each_returns: "\<forall>x \<in> set xs. \<forall>c t. \<exists>c' t'. f x c t = (Inr c', t') \<Longrightarrow> \<exists>c' t'. fold_each xs f c t = (Inr c', t')"
proof (induction xs arbitrary: c t)
  case (Cons x xs)
  obtain c1 t1 where "f x c t = (Inr c1, t1)" using Cons.prems by fastforce
  then show ?case using Cons.IH[of c1 t1] Cons.prems by (simp add: bnd_def)
qed (simp add: ret_def)

text \<open>The lines of a script and a category.\<close>

definition block_text :: "pydict \<Rightarrow> nat \<Rightarrow> string list \<Rightarrow> string \<times> string \<Rightarrow> string \<Rightarrow> bool" where
  "block_text params base records = (\<lambda>(script, cate) block. \<exists>rows. block = ''Script:'' @ script @ '' Category:'' @ cate @ [CHR 0x0A] @ header_line base records @ concat rows
     \<and> list_all2 (\<lambda>(sz, threads, burst) row. \<exists>rate. row = result_line base sz threads burst rate)
         (List.product (param_words params ''pkt_size'') (List.product (param_words params ''pktgen_threads'') (param_words params ''burst''))) rows)"

lemma run_category_writes:
  assumes "run_category env params run timeout base records script cate cfg t = (Inr cfg', t')"
  shows "\<exists>block. file_text t' = file_text t @ block \<and> block_text params base records (script, cate) block"
proof -
  let ?f = "\<lambda>(sz, threads, burst). measure_rate env params run timeout base script cate sz threads burst"
  let ?xs = "List.product (param_words params ''pkt_size'') (List.product (param_words params ''pktgen_threads'') (param_words params ''burst''))"
  have flat: "fold_each (param_words params ''pkt_size'') (\<lambda>sz. fold_each (param_words params ''pktgen_threads'') (\<lambda>threads. fold_each (param_words params ''burst'')
       (\<lambda>burst. measure_rate env params run timeout base script cate sz threads burst))) cfg = fold_each ?xs ?f cfg"
    by (rule fold_each_product3)
  obtain u1 t1 u2 t2 u3 t3 where p: "put_text env (''Script:'' @ script @ '' '') t = (Inr u1, t1)" "put_text env (''Category:'' @ cate @ [CHR 0x0A]) t1 = (Inr u2, t2)"
      "put_text env (header_line base records) t2 = (Inr u3, t3)"
    and f: "fold_each ?xs ?f cfg t3 = (Inr cfg', t')"
    using assms unfolding run_category_def flat by (elim bnd_InrE)
  have "\<forall>x c u c' u'. ?f x c u = (Inr c', u') \<longrightarrow> (\<exists>w. file_text u' = file_text u @ w \<and> (\<lambda>(sz, threads, burst) row. \<exists>rate. row = result_line base sz threads burst rate) x w)"
    using measure_rate_writes by (fastforce split: prod.splits)
  from fold_each_writes[OF this f] obtain rows where "file_text t' = file_text t3 @ concat rows"
    "list_all2 (\<lambda>(sz, threads, burst) row. \<exists>rate. row = result_line base sz threads burst rate) ?xs rows" by blast
  then show ?thesis using p[THEN put_text_run] unfolding block_text_def by auto
qed

lemma words_of_Inr: "words_of params k t = (Inr ws, t') \<Longrightarrow> ws = param_words params k \<and> t' = t \<and> dget params k \<noteq> None"
  by (auto simp: words_of_def param_words_def par_or_def dget_default_def ret_def throw_def split: option.splits)

text \<open>The file of results of a run that returned: for every script and every category, in order, a heading, the names of the columns, and exactly one line for
  every combination of packet size, threads and burst, in the order of the parameters, which starts with these three.
\<close>

lemma results_complete:
  assumes "run_tests_for_category env params run vp_vdpa base t = (Inr (), t')"
  shows "\<exists>blocks. file_text t' = file_text t @ concat blocks
    \<and> list_all2 (block_text params base (param_words params ''record_list'')) (List.product (param_words params ''pktgen_script'') (param_words params ''category'')) blocks"
proof -
  let ?r = "param_words params ''record_list''"
  let ?body = "\<lambda>n script. fold_each (param_words params ''category'') (run_category env params run n base ?r script)"
  obtain n u t2 cfg where v: "(if vp_vdpa then vp_vdpa_bind env (r_session run) else ret ()) t = (Inr u, t2)"
    and f: "fold_each (param_words params ''pktgen_script'') (\<lambda>script cfg. bnd (words_of params ''category'') (\<lambda>cates. fold_each cates (run_category env params run n base ?r script) cfg))
      PktgenConfig t2 = (Inr cfg, t')"
    using assms unfolding run_tests_for_category_def
    by (auto simp: par_num_def lift_res_def ret_def elim!: bnd_InrE dest!: words_of_Inr)
  have s: "same_file t t2" using v movesD[OF vp_vdpa_same] by (auto simp: ret_def same_file_def split: if_splits)
  have body: "bnd (words_of params ''category'') (\<lambda>cates. fold_each cates (run_category env params run n base ?r script) c) x = (Inr c', x')
      \<Longrightarrow> ?body n script c x = (Inr c', x')" for script c x c' x'
    by (auto elim!: bnd_InrE dest!: words_of_Inr)
  have "\<forall>cate c y c' y'. run_category env params run n base ?r script cate c y = (Inr c', y')
      \<longrightarrow> (\<exists>w. file_text y' = file_text y @ w \<and> block_text params base ?r (script, cate) w)" for script using run_category_writes by blast
  note cats = fold_each_writes[OF this]
  have script: "\<exists>w. file_text x' = file_text x @ w \<and> (\<exists>bs. w = concat bs \<and> list_all2 (block_text params base ?r) (map (Pair script) (param_words params ''category'')) bs)"
    if b: "bnd (words_of params ''category'') (\<lambda>cates. fold_each cates (run_category env params run n base ?r script) c) x = (Inr c', x')" for script c x c' x'
    using cats[OF body[OF b]] by (auto simp: list.rel_map)
  have "\<forall>script c x c' x'. bnd (words_of params ''category'') (\<lambda>cates. fold_each cates (run_category env params run n base ?r script) c) x = (Inr c', x')
      \<longrightarrow> (\<exists>w. file_text x' = file_text x @ w \<and> (\<exists>bs. w = concat bs \<and> list_all2 (block_text params base ?r) (map (Pair script) (param_words params ''category'')) bs))"
    using script by blast
  from fold_each_writes[OF this f]
  obtain ws where w: "file_text t' = file_text t2 @ concat ws"
    "list_all2 (\<lambda>script w. \<exists>bs. w = concat bs \<and> list_all2 (block_text params base ?r) (map (Pair script) (param_words params ''category'')) bs) (param_words params ''pktgen_script'') ws"
    by blast
  have "\<exists>bs. concat ws = concat bs \<and> list_all2 (block_text params base ?r) (List.product scripts (param_words params ''category'')) bs"
    if "list_all2 (\<lambda>script w. \<exists>bs. w = concat bs \<and> list_all2 (block_text params base ?r) (map (Pair script) (param_words params ''category'')) bs) scripts ws" for scripts ws
    using that
  proof (induction rule: list_all2_induct)
    case (Cons script scripts w ws)
    then obtain b1 b2 where "w = concat b1" "list_all2 (block_text params base ?r) (map (Pair script) (param_words params ''category'')) b1"
      "concat ws = concat b2" "list_all2 (block_text params base ?r) (List.product scripts (param_words params ''category'')) b2" by blast
    then show ?case by (intro exI[of _ "b1 @ b2"]) (simp add: list_all2_appendI)
  qed simp
  from this[OF w(2)] show ?thesis using w(1) s by (auto simp: same_file_def)
qed

section \<open>A guest\<close>

text \<open>A host on which the script runs until its timeout and sends a million packets.\<close>

definition pktgen_host :: "bool genv" where
  "pktgen_host = \<lparr>g_shell = (\<lambda>c n w. (Inr (0, []), w)),
     g_call = (\<lambda>name args w.
       if name = ''process.system_output'' then
         (case args of
            [PStr c] \<Rightarrow> (Inr (PStr (if w then ''5000000'' else ''0'')), w)
          | _ \<Rightarrow> (Inl (OtherError ''CmdError'' []), True))
       else (Inr (PStr ''eth0''), w)),
     g_rounds = (\<lambda>n w. 3)\<rparr>"

definition pktgen_params :: pydict where
  "pktgen_params = [(''record_list'', PStr ''size mpps''), (''pktgen_script'', PStr ''pktgen_perf''), (''category'', PStr ''rx''), (''pkt_size'', PStr ''64 256''),
     (''pktgen_threads'', PStr ''1''), (''burst'', PStr ''32''), (''pktgen_test_timeout'', PStr ''5'')]"

abbreviation guest_run :: pktgen_run where
  "guest_run \<equiv> \<lparr>r_test_vm = True, r_vm = True, r_session = True, r_interface = PNone\<rparr>"

lemma pktgen_host_measures: "\<exists>c t'. measure_rate pktgen_host params guest_run 5 6 ''pktgen_perf'' ''rx'' sz threads burst cfg t = (Inr c, t')"
proof -
  have i: "int_of_str ''5000000'' = Inr 5000000" "int_of_str ''0'' = Inr 0" by code_simp+
  have o: "on_object pktgen_host True name args t = (Inr (PStr ''eth0''), t\<lparr>acts := acts t @ [Call name args]\<rparr>)" if "name \<noteq> ''process.system_output''" for name args t
    using that by (simp add: on_object_def fw_def doing_def pktgen_host_def)
  have f: "fw pktgen_host name args t = (Inr (PStr ''eth0''), t\<lparr>acts := acts t @ [Call name args]\<rparr>)" if "name \<noteq> ''process.system_output''" for name args t
    using that by (simp add: fw_def doing_def pktgen_host_def)
  obtain c1 t1 where c: "configure_pktgen pktgen_host params ''pktgen_perf'' ''rx'' True True True PNone cfg t = (Inr c1, t1)" "p_runner c1 = Some System_Output"
    by (simp add: configure_pktgen_def copy_to_host_def fw_unit_def fw_str_def bnd_def f o ret_def Let_def)
  have b: "run_with pktgen_host (Some System_Output) cmd None t = (Inr (if shworld t then ''5000000'' else ''0''), t\<lparr>acts := acts t @ [Call ''process.system_output'' [PStr cmd]]\<rparr>)" for cmd t
    by (simp add: run_with_def fw_str_def fw_def doing_def bnd_def ret_def pktgen_host_def py_str_def)
  have r: "run_with pktgen_host (Some System_Output) cmd (Some 5) t
    = (Inl (OtherError ''CmdError'' []), t\<lparr>shworld := True, acts := acts t @ [Call ''process.system_output'' [PStr cmd, PInt 5]]\<rparr>)" for cmd t
    by (simp add: run_with_def fw_str_def fw_def doing_def bnd_def ret_def pktgen_host_def)
  have "\<exists>rate t2. run_pktgen pktgen_host ''pktgen_perf'' cmd (Some System_Output) ifc 5 t1 = (Inr rate, t2)" for cmd ifc
    by (cases "shworld t1") (simp_all add: run_pktgen_def attempt_def bnd_def b r packets_after_def ret_def lift_res_def packet_count_def i mpps_def)
  then obtain rate t2 where "run_pktgen pktgen_host ''pktgen_perf'' (generate_pktgen_cmd ''pktgen_perf'' ''rx'' c1 threads sz burst True) (Some System_Output) (p_interface c1) 5 t1 = (Inr rate, t2)"
    by blast
  then show ?thesis using c by (simp add: measure_rate_def bnd_def ret_def put_text_def fw_unit_def f)
qed

lemma results_complete_example:
  "\<exists>blocks. file_text (snd (run_tests_for_category pktgen_host pktgen_params guest_run False 6 \<lparr>shworld = False, acts = []\<rparr>))
     = concat blocks \<and> length blocks = 1"
proof -
  let ?t = "\<lparr>shworld = False, acts = []\<rparr> :: bool gst"
  let ?r = "run_tests_for_category pktgen_host pktgen_params guest_run False 6 ?t"
  have sw: "split_ws ''size mpps'' = [''size'', ''mpps'']" "split_ws ''pktgen_perf'' = [''pktgen_perf'']" "split_ws ''rx'' = [''rx'']" "int_of_str ''5'' = Inr 5" by code_simp+
  have w: "words_of pktgen_params ''record_list'' = ret [''size'', ''mpps'']" "words_of pktgen_params ''pktgen_script'' = ret [''pktgen_perf'']" "words_of pktgen_params ''category'' = ret [''rx'']"
    "par_num pktgen_params ''pktgen_test_timeout'' 240 = ret 5"
    by (simp_all add: words_of_def pktgen_params_def py_str_def sw par_num_def py_int_def lift_res_def ret_def fun_eq_iff dget_default_def)
  have p: "put_text pktgen_host x t = (Inr (), t\<lparr>acts := acts t @ [Call ''result_file.write'' [PStr x]]\<rparr>)" for x t
    by (simp add: put_text_def fw_unit_def fw_def doing_def bnd_def ret_def pktgen_host_def)
  have "\<exists>c t'. run_category pktgen_host pktgen_params guest_run 5 6 rs ''pktgen_perf'' ''rx'' cfg t = (Inr c, t')" for rs cfg t
    unfolding run_category_def by (simp add: bnd_def p) (intro fold_each_returns ballI allI pktgen_host_measures)
  then obtain c t' where "run_category pktgen_host pktgen_params guest_run 5 6 [''size'', ''mpps''] ''pktgen_perf'' ''rx'' PktgenConfig ?t = (Inr c, t')" by blast
  then have "fst ?r = Inr ()" by (simp add: run_tests_for_category_def w bnd_def ret_def)
  then have "?r = (Inr (), snd ?r)" by (metis prod.collapse)
  from results_complete[OF this] obtain blocks where b: "file_text (snd ?r) = file_text ?t @ concat blocks"
    "list_all2 (block_text pktgen_params 6 (param_words pktgen_params ''record_list'')) (List.product (param_words pktgen_params ''pktgen_script'') (param_words pktgen_params ''category'')) blocks" by blast
  have "length (param_words pktgen_params ''pktgen_script'') = 1" "length (param_words pktgen_params ''category'') = 1" by code_simp+
  then show ?thesis using b list_all2_lengthD[OF b(2)] by (auto simp: file_text_def)
qed

lemma ended_script_not_measured_example:
  "\<exists>m t'. run_pktgen pktgen_host ''pktgen_perf'' ''true'' (Some Session_Cmd) (PStr ''eth0'') 5 \<lparr>shworld = False, acts = []\<rparr> = (Inl (TypeError m), t')"
proof -
  let ?t = "\<lparr>shworld = False, acts = []\<rparr> :: bool gst"
  have h: "run_with pktgen_host (Some Session_Cmd) (packets_cmd (PStr ''eth0'')) None ?t = (Inr [], snd (run_with pktgen_host (Some Session_Cmd) (packets_cmd (PStr ''eth0'')) None ?t))"
    "run_with pktgen_host (Some Session_Cmd) ''true'' (Some 5) (snd (run_with pktgen_host (Some Session_Cmd) (packets_cmd (PStr ''eth0'')) None ?t))
     = (Inr [], snd (run_with pktgen_host (Some Session_Cmd) ''true'' (Some 5) (snd (run_with pktgen_host (Some Session_Cmd) (packets_cmd (PStr ''eth0'')) None ?t))))"
    by code_simp+
  show ?thesis using ended_script_not_measured[OF h] by blast
qed

end
