(* ===== verification/Vdpa.thy ===== *)
theory Vdpa
  imports Guest_Shell
begin

text \<open>
  vDPA devices on the host: the simulators of \<^verbatim>\<open>provider/vdpa_sim_utils.py\<close> and the bridges of \<^verbatim>\<open>provider/vdpa_utils.py\<close>.  The shell is that of the
  host here; kernel modules, Open vSwitch and the searches of the framework are its calls.
\<close>

section \<open>Commands of the host\<close>

text \<open>\<open>process.run(cmd, shell=True)\<close> raises for a status that is not zero; with \<open>ignore_status\<close> it returns the status.\<close>

definition host_run :: "'w genv \<Rightarrow> string \<Rightarrow> ('w gst, string) py" where
  "host_run env cmd = bnd (sh_so env cmd None) (\<lambda>so. if fst so \<noteq> 0 then throw (OtherError ''CmdError'' cmd) else ret (snd so))"

definition host_line :: "'w genv \<Rightarrow> string \<Rightarrow> ('w gst, string) py" where
  "host_line env cmd = bnd (host_run env cmd) (\<lambda>out. ret (strip_set is_ws out))"

section \<open>The simulators\<close>

datatype simulator = VDPABlkNetSimulatorTest | VhostVdpaBlkSimulatorTest | VirtioVdpaBlkSimulatorTest | VhostVdpaNetSimulatorTest | VirtioVdpaNetSimulatorTest

fun sim_modules :: "simulator \<Rightarrow> string list" where
  "sim_modules VDPABlkNetSimulatorTest = []"
| "sim_modules VhostVdpaBlkSimulatorTest = [''vhost-vdpa'', ''vdpa-sim-blk'']"
| "sim_modules VirtioVdpaBlkSimulatorTest = [''virtio-vdpa'', ''vdpa-sim-blk'']"
| "sim_modules VhostVdpaNetSimulatorTest = [''vhost-vdpa'', ''vdpa-sim'', ''vdpa-sim-net'']"
| "sim_modules VirtioVdpaNetSimulatorTest = [''vdpa'', ''virtio-vdpa'', ''vdpa_sim'', ''vdpa-sim-net'']"

definition unload_modules :: "'w genv \<Rightarrow> simulator \<Rightarrow> ('w gst, unit) py" where
  "unload_modules env sim = for_each (sim_modules sim) (\<lambda>m. fw_unit env ''unload_module'' [PStr m])"

definition load_modules :: "'w genv \<Rightarrow> simulator \<Rightarrow> (string \<times> string) list \<Rightarrow> ('w gst, unit) py" where
  "load_modules env sim opts =
     bnd (unload_modules env sim) (\<lambda>_.
       for_each (sim_modules sim) (\<lambda>m. fw_unit env ''reload_module'' [PStr m, PBool True, PStr (dget_default opts m [])]))"

definition sim_setup :: "'w genv \<Rightarrow> simulator \<Rightarrow> (string \<times> string) list \<Rightarrow> ('w gst, unit) py" where
  "sim_setup env sim opts = load_modules env sim opts"

definition sim_cleanup :: "'w genv \<Rightarrow> simulator \<Rightarrow> ('w gst, unit) py" where
  "sim_cleanup env sim = unload_modules env sim"

definition sim_error :: "string \<Rightarrow> exc" where
  "sim_error msg = OtherError ''VDPABlkNetSimulatorError'' msg"

definition list_cmd :: "string \<Rightarrow> string" where
  "list_cmd name = ''vdpa dev list -jp '' @ name"

definition del_cmd :: "string \<Rightarrow> string" where
  "del_cmd name = ''vdpa dev del '' @ name"

definition remove_dev :: "'w genv \<Rightarrow> string \<Rightarrow> ('w gst, unit) py" where
  "remove_dev env name =
     bnd (sh_so env (del_cmd name) None) (\<lambda>_.
     bnd (sh_so env (list_cmd name) None) (\<lambda>so.
       if fst so = 0 then throw (sim_error (''The vdpa device '' @ name @ '' still exist'')) else ret ()))"

text \<open>The command that adds a device, and the listing that shows that it is there.\<close>

definition create_dev :: "'w genv \<Rightarrow> string \<Rightarrow> string \<Rightarrow> ('w gst, unit) py" where
  "create_dev env cmd name = bnd (host_run env cmd) (\<lambda>_. bnd (host_run env (list_cmd name)) (\<lambda>_. ret ()))"

definition blk_cmd :: "string \<Rightarrow> string" where
  "blk_cmd name = ''vdpa dev add mgmtdev vdpasim_blk name '' @ name"

definition net_cmd :: "string \<Rightarrow> string \<Rightarrow> string" where
  "net_cmd name mac = ''vdpa dev add name '' @ name @ '' mgmtdev vdpasim_net mac '' @ mac"

definition vhost_dev :: "'w genv \<Rightarrow> string \<Rightarrow> ('w gst, string) py" where
  "vhost_dev env name =
     bnd (fw_unit env ''sleep'' [PInt 2]) (\<lambda>_.
       try_except (bnd (fw_str env ''get_image_filename'' [PStr name]) (\<lambda>f. ret (replace_str ''vdpa://'' [] f)))
         (\<lambda>e. if is_exception e then Some (throw (sim_error (''vdpa dev add '' @ name @ '' failed''))) else None))"

definition disk_cmd :: string where
  "disk_cmd = ''lsblk -nd -o name ''"

definition host_disks :: "'w genv \<Rightarrow> ('w gst, string list) py" where
  "host_disks env = bnd (host_run env disk_cmd) (\<lambda>out. ret (split_ws out))"

text \<open>Which element of the set of new disks is the first one of its list is a parameter.\<close>

definition virtio_blk_dev :: "'w genv \<Rightarrow> (string list \<Rightarrow> string) \<Rightarrow> string \<Rightarrow> ('w gst, string) py" where
  "virtio_blk_dev env first name =
     bnd (host_disks env) (\<lambda>before.
     bnd (create_dev env (blk_cmd name) name) (\<lambda>_.
     bnd (fw_unit env ''sleep'' [PInt 2]) (\<lambda>_.
     bnd (host_disks env) (\<lambda>after.
       let host_dev = filter (\<lambda>d. d \<notin> set before) (remdups after) in
       if host_dev = [] then throw (sim_error (''vdpa dev add '' @ name @ '' failed'')) else ret (first host_dev)))))"

fun wait_value :: "nat \<Rightarrow> ('s, pyval) py \<Rightarrow> ('s, pyval) py" where
  "wait_value 0 m = ret PNone"
| "wait_value (Suc n) m = bnd m (\<lambda>v. if truthy v then ret v else wait_value n m)"

text \<open>The message of the last error has two places and one argument.\<close>

definition virtio_net_dev :: "'w genv \<Rightarrow> string \<Rightarrow> string \<Rightarrow> ('w gst, string) py" where
  "virtio_net_dev env name mac =
     bnd (create_dev env (net_cmd name mac) name) (\<lambda>_.
     bnd (gets (\<lambda>t. g_rounds env 2 (shworld t))) (\<lambda>n.
     bnd (wait_value n (fw env ''glob'' [PStr (''/sys/bus/vdpa/devices/'' @ name @ ''/virtio*/net/*'')])) (\<lambda>v.
       case v of
         PList (p # _) \<Rightarrow> ret (last (split_char (CHR ''/'') (py_str p)))
       | _ \<Rightarrow> bnd (lift_res (pct ''vdpa dev add %s failed:%s'' [name])) (\<lambda>msg. throw (sim_error msg)))))"

definition add_dev :: "'w genv \<Rightarrow> (string list \<Rightarrow> string) \<Rightarrow> simulator \<Rightarrow> string \<Rightarrow> string \<Rightarrow> ('w gst, string) py" where
  "add_dev env first sim name mac =
     (case sim of
        VDPABlkNetSimulatorTest \<Rightarrow> throw (sim_error ''Please implement add_dev'')
      | VhostVdpaBlkSimulatorTest \<Rightarrow> bnd (create_dev env (blk_cmd name) name) (\<lambda>_. vhost_dev env name)
      | VirtioVdpaBlkSimulatorTest \<Rightarrow> virtio_blk_dev env first name
      | VhostVdpaNetSimulatorTest \<Rightarrow> bnd (create_dev env (net_cmd name mac) name) (\<lambda>_. vhost_dev env name)
      | VirtioVdpaNetSimulatorTest \<Rightarrow> virtio_net_dev env name mac)"

section \<open>Bridges\<close>

definition check_ovs_status :: "'w genv \<Rightarrow> ('w gst, bool) py" where
  "check_ovs_status env = bnd (sh_status env ''which ovs-vsctl && systemctl status openvswitch.service'') (\<lambda>s. ret (s = 0))"

definition get_vf_pci_address :: "'w genv \<Rightarrow> string \<Rightarrow> ('w gst, string) py" where
  "get_vf_pci_address env nic_netdst = host_line env (''vdpa dev show | grep '' @ nic_netdst @ '' | grep -o '' @ [CHR 0x27] @ ''pci/[^[:space:]]*'' @ [CHR 0x27]
     @ '' | awk -F/ '' @ [CHR 0x27] @ ''{print $2}'' @ [CHR 0x27])"

definition get_pf_pci_address :: "'w genv \<Rightarrow> string \<Rightarrow> ('w gst, string) py" where
  "get_pf_pci_address env vf_pci = host_line env (''grep PCI_SLOT_NAME /sys/bus/pci/devices/'' @ vf_pci @ ''/physfn/uevent | cut -d'' @ [CHR 0x27] @ ''='' @ [CHR 0x27] @ '' -f2'')"

definition get_pf_port :: "'w genv \<Rightarrow> string \<Rightarrow> ('w gst, string) py" where
  "get_pf_port env pf_pci = host_line env (''ls /sys/bus/pci/devices/'' @ pf_pci @ ''/net/ | head -n 1'')"

definition add_flows_to_ovs_bridge :: "'w genv \<Rightarrow> string \<Rightarrow> ('w gst, unit) py" where
  "add_flows_to_ovs_bridge env bridge =
     bnd (fw_unit env ''openflow_manager'' [PStr bridge, PStr ''add-flow'', PStr ''in_port=1,idle_timeout=0,actions=output:2'']) (\<lambda>_.
     bnd (fw_unit env ''openflow_manager'' [PStr bridge, PStr ''add-flow'', PStr ''in_port=2,idle_timeout=0,actions=output:1'']) (\<lambda>_.
       fw_unit env ''openflow_manager'' [PStr bridge, PStr ''dump-flows'']))"

record nic =
  nettype :: string
  netdst :: string

text \<open>The manager and the bridge of an interface; the search returns a pair, and raises \<open>NotImplementedError\<close> for an unknown kind of bridge.\<close>

definition as_pair :: "pyval \<Rightarrow> (pyval \<times> pyval) res" where
  "as_pair v = (case v of PList [a, b] \<Rightarrow> Inr (a, b) | _ \<Rightarrow> Inl (TypeError ''cannot unpack''))"

definition find_bridge :: "'w genv \<Rightarrow> string \<Rightarrow> ('w gst, pyval \<times> pyval) py" where
  "find_bridge env iface = bnd (fw env ''find_current_bridge'' [PStr iface]) (\<lambda>v. lift_res (as_pair v))"

definition nic_bridge :: "'w genv \<Rightarrow> nic \<Rightarrow> ('w gst, pyval \<times> pyval) py" where
  "nic_bridge env nic =
     (if nettype nic = ''vdpa'' then
        bnd (get_vf_pci_address env (netdst nic)) (\<lambda>vf.
        bnd (get_pf_pci_address env vf) (\<lambda>pf.
        bnd (get_pf_port env pf) (\<lambda>port. find_bridge env port)))
      else try_except (find_bridge env (netdst nic)) (\<lambda>e. if e = NotImplementedError then Some (ret (PNone, PNone)) else None))"

definition port_names :: "pyval \<Rightarrow> string list" where
  "port_names v = (case v of PList ps \<Rightarrow> map py_str ps | _ \<Rightarrow> [])"

text \<open>The order in which a set of ports is listed is a parameter.\<close>

definition nic_ifaces :: "'w genv \<Rightarrow> (string set \<Rightarrow> string list) \<Rightarrow> bool \<Rightarrow> bool \<Rightarrow> nic \<Rightarrow> ('w gst, string list) py" where
  "nic_ifaces env listed add_flows return_ports nic =
     bnd (nic_bridge env nic) (\<lambda>(manager, br).
       if \<not> truthy br then ret []
       else
         bnd (if add_flows then add_flows_to_ovs_bridge env (py_str br) else ret ()) (\<lambda>_.
           if \<not> return_ports then ret []
           else
             bnd (if truthy manager then bnd (fw env ''list_ports'' [manager, br]) (\<lambda>v. ret (listed (set (port_names v)))) else ret []) (\<lambda>ports.
               ret (ports @ [py_str br]))))"

definition get_vdpa_ovs_info :: "'w genv \<Rightarrow> (string set \<Rightarrow> string list) \<Rightarrow> bool \<Rightarrow> nic list \<Rightarrow> bool \<Rightarrow> bool \<Rightarrow> ('w gst, string list) py" where
  "get_vdpa_ovs_info env listed ovs virtnet add_flows return_ports =
     (if \<not> ovs then ret [] else bnd (map_each virtnet (nic_ifaces env listed add_flows return_ports)) (\<lambda>lists. ret (concat lists)))"

section \<open>Properties\<close>

lemma host_run_Inr: "host_run env c t = (Inr out, t') \<Longrightarrow> g_shell env c None (shworld t) = (Inr (0, out), shworld t') \<and> acts t' = acts t @ [Sh c]"
  by (auto simp: host_run_def throw_def ret_def elim!: bnd_InrE split: if_splits dest!: sh_so_Inr)

lemma host_disks_Inr:
  "host_disks env t = (Inr ds, t') \<Longrightarrow> \<exists>out. ds = split_ws out \<and> g_shell env disk_cmd None (shworld t) = (Inr (0, out), shworld t') \<and> acts t' = acts t @ [Sh disk_cmd]"
  by (auto simp: host_disks_def ret_def elim!: bnd_InrE dest!: host_run_Inr)

lemma create_dev_Inr: "create_dev env cmd name t = (Inr u, t') \<Longrightarrow> acts t' = acts t @ [Sh cmd, Sh (list_cmd name)]"
  by (auto simp: create_dev_def ret_def elim!: bnd_InrE dest!: host_run_Inr)

text \<open>
  A device of the virtio block simulator: what is returned is a disk that the listing after the command shows and the listing before
  does not, and the command that adds the device was run between the two.
\<close>

lemma new_disk_returned:
  assumes "\<forall>xs. xs \<noteq> [] \<longrightarrow> first xs \<in> set xs" "add_dev env first VirtioVdpaBlkSimulatorTest name mac t = (Inr dev, t')"
  shows "\<exists>before after w w'. g_shell env disk_cmd None (shworld t) = (Inr (0, before), w')
    \<and> g_shell env disk_cmd None w = (Inr (0, after), shworld t') \<and> dev \<in> set (split_ws after) \<and> dev \<notin> set (split_ws before)
    \<and> acts t' = acts t @ [Sh disk_cmd, Sh (blk_cmd name), Sh (list_cmd name), Call ''sleep'' [PInt 2], Sh disk_cmd]"
proof -
  obtain before t1 u1 t2 u2 t3 after t4 where 1: "host_disks env t = (Inr before, t1)" and 2: "create_dev env (blk_cmd name) name t1 = (Inr u1, t2)"
    and 3: "fw_unit env ''sleep'' [PInt 2] t2 = (Inr u2, t3)" and 4: "host_disks env t3 = (Inr after, t4)"
    and d: "(let host_dev = filter (\<lambda>d. d \<notin> set before) (remdups after) in
       if host_dev = [] then throw (sim_error (''vdpa dev add '' @ name @ '' failed'')) else ret (first host_dev)) t4 = (Inr dev, t')"
    using assms(2) unfolding add_dev_def virtio_blk_dev_def simulator.case by (elim bnd_InrE)
  have n: "filter (\<lambda>d. d \<notin> set before) (remdups after) \<noteq> []" and f: "dev = first (filter (\<lambda>d. d \<notin> set before) (remdups after))" "t4 = t'"
    using d unfolding Let_def by (auto simp only: throw_def ret_def split: if_splits)
  from assms(1)[rule_format, OF n] have "dev \<in> set after" "dev \<notin> set before" unfolding f(1)[symmetric] by simp_all
  then show ?thesis using host_disks_Inr[OF 1] create_dev_Inr[OF 2] fw_unit_Inr[OF 3[unfolded unit_eq[of u2]]] host_disks_Inr[OF 4] f(2) by auto blast
qed

text \<open>A device is removed only when the listing no longer finds it.\<close>

lemma remove_dev_gone:
  "remove_dev env name t = (Inr (), t') \<Longrightarrow> \<exists>w s out. g_shell env (list_cmd name) None w = (Inr (s, out), shworld t') \<and> s \<noteq> 0"
  by (auto simp: remove_dev_def throw_def ret_def elim!: bnd_InrE split: if_splits dest!: sh_so_Inr) blast

text \<open>What the kernel does with its modules: loading makes a module loaded, unloading makes it gone, and both return.\<close>

definition kernel_modules :: "'w genv \<Rightarrow> ('w \<Rightarrow> string set) \<Rightarrow> bool" where
  "kernel_modules env loaded \<longleftrightarrow>
     (\<forall>m w. \<exists>v w'. g_call env ''unload_module'' [PStr m] w = (Inr v, w') \<and> loaded w' = loaded w - {m})
   \<and> (\<forall>m opt w. \<exists>v w'. g_call env ''reload_module'' [PStr m, PBool True, PStr opt] w = (Inr v, w') \<and> loaded w' = insert m (loaded w))"

lemma for_each_modules:
  assumes "\<And>m u. \<exists>u'. f m u = (Inr (), u') \<and> loaded (shworld u') = g m (loaded (shworld u))"
  shows "\<exists>t'. for_each ms f t = (Inr (), t') \<and> loaded (shworld t') = fold g ms (loaded (shworld t))"
proof (induction ms arbitrary: t)
  case (Cons m ms)
  obtain u where "f m t = (Inr (), u)" "loaded (shworld u) = g m (loaded (shworld t))" using assms by blast
  then show ?case using Cons.IH[of u] by (auto simp: thn_def bnd_def)
qed (simp add: ret_def)

lemma unload_modules_run:
  assumes "kernel_modules env loaded"
  shows "\<exists>t'. unload_modules env sim t = (Inr (), t') \<and> loaded (shworld t') = loaded (shworld t) - set (sim_modules sim)"
proof -
  have "\<exists>u'. fw_unit env ''unload_module'' [PStr m] u = (Inr (), u') \<and> loaded (shworld u') = loaded (shworld u) - {m}" for m u
  proof -
    from conjunct1[OF assms[unfolded kernel_modules_def], rule_format, of m "shworld u"]
    obtain v w' where "g_call env ''unload_module'' [PStr m] (shworld u) = (Inr v, w')" "loaded w' = loaded (shworld u) - {m}" by (elim exE conjE)
    then show ?thesis by (simp add: fw_unit_def fw_def doing_def bnd_def ret_def)
  qed
  moreover have "fold (\<lambda>m L. L - {m}) ms L = L - set ms" for ms and L :: "string set" by (induction ms arbitrary: L) auto
  ultimately show ?thesis unfolding unload_modules_def
    using for_each_modules[of "\<lambda>m. fw_unit env ''unload_module'' [PStr m]" loaded "\<lambda>m L. L - {m}" "sim_modules sim" t] by simp
qed

lemma load_modules_run:
  assumes "kernel_modules env loaded"
  shows "\<exists>t'. load_modules env sim opts t = (Inr (), t') \<and> loaded (shworld t') = loaded (shworld t) \<union> set (sim_modules sim)"
proof -
  obtain t1 where t1: "unload_modules env sim t = (Inr (), t1)" "loaded (shworld t1) = loaded (shworld t) - set (sim_modules sim)"
    using unload_modules_run[OF assms] by blast
  have "\<exists>u'. fw_unit env ''reload_module'' [PStr m, PBool True, PStr (dget_default opts m [])] u = (Inr (), u') \<and> loaded (shworld u') = insert m (loaded (shworld u))" for m u
  proof -
    from conjunct2[OF assms[unfolded kernel_modules_def], rule_format, of m "dget_default opts m []" "shworld u"]
    obtain v w' where "g_call env ''reload_module'' [PStr m, PBool True, PStr (dget_default opts m [])] (shworld u) = (Inr v, w')" "loaded w' = insert m (loaded (shworld u))"
      by (elim exE conjE)
    then show ?thesis by (simp add: fw_unit_def fw_def doing_def bnd_def ret_def)
  qed
  from for_each_modules[of "\<lambda>m. fw_unit env ''reload_module'' [PStr m, PBool True, PStr (dget_default opts m [])]" loaded insert "sim_modules sim" t1, OF this]
  obtain t2 where t2: "for_each (sim_modules sim) (\<lambda>m. fw_unit env ''reload_module'' [PStr m, PBool True, PStr (dget_default opts m [])]) t1 = (Inr (), t2)"
    "loaded (shworld t2) = fold insert (sim_modules sim) (loaded (shworld t1))"
    by (elim exE conjE)
  have "fold insert ms L = set ms \<union> L" for ms and L :: "string set" by (induction ms arbitrary: L) auto
  then show ?thesis using t1 t2 by (auto simp: load_modules_def bnd_def)
qed

text \<open>
  Setting up a simulator and cleaning it up: after the set up all modules of the simulator are loaded and no other module has changed, and
  after the clean up none of its modules is; neither raises.
\<close>

lemma simulator_modules:
  assumes "kernel_modules env loaded"
  shows "\<exists>u v. sim_setup env sim opts t = (Inr (), u) \<and> loaded (shworld u) = loaded (shworld t) \<union> set (sim_modules sim)
    \<and> sim_cleanup env sim u = (Inr (), v) \<and> loaded (shworld v) = loaded (shworld t) - set (sim_modules sim)"
proof -
  obtain u where u: "sim_setup env sim opts t = (Inr (), u)" "loaded (shworld u) = loaded (shworld t) \<union> set (sim_modules sim)"
    using load_modules_run[OF assms] unfolding sim_setup_def by blast
  moreover obtain v where "sim_cleanup env sim u = (Inr (), v)" "loaded (shworld v) = loaded (shworld u) - set (sim_modules sim)"
    using unload_modules_run[OF assms] unfolding sim_cleanup_def by blast
  ultimately show ?thesis by blast
qed

text \<open>The failure to find a network device of a simulator ends with an error of the message instead of the message.\<close>

lemma net_failure_message:
  assumes "create_dev env (net_cmd name mac) name t = (Inr (), t1)" "g_rounds env 2 (shworld t1) = 0"
  shows "\<exists>m t'. add_dev env first VirtioVdpaNetSimulatorTest name mac t = (Inl (TypeError m), t')"
  using assms by (simp add: add_dev_def virtio_net_dev_def bnd_def gets_def ret_def throw_def)

text \<open>Every bridge of a card that was looked up is in the result.\<close>

lemma bridge_listed:
  assumes "nic_ifaces env listed add_flows True nic t = (Inr ifs, t')" "nic_bridge env nic t = (Inr (manager, br), t1)" "truthy br"
  shows "last ifs = py_str br \<and> ifs \<noteq> []"
  using assms by (auto simp: nic_ifaces_def ret_def elim!: bnd_InrE)

section \<open>A host\<close>

definition vdpa_host :: "string set genv" where
  "vdpa_host = \<lparr>g_shell = (\<lambda>c n w. (Inr (0, if c = disk_cmd then (if ''vdpa0'' \<in> w then ''sda vda'' else ''sda'') else []), if startswith c ''vdpa dev add'' then insert ''vdpa0'' w else w)),
     g_call = (\<lambda>name args w. (Inr PNone, if name = ''unload_module'' then w - {py_str (hd args)} else if name = ''reload_module'' then insert (py_str (hd args)) w else w)),
     g_rounds = (\<lambda>n w. 3)\<rparr>"

lemma simulator_modules_example:
  "\<exists>u v. sim_setup vdpa_host VhostVdpaBlkSimulatorTest [] \<lparr>shworld = {''kvm'', ''vhost-vdpa''}, acts = []\<rparr> = (Inr (), u) \<and> shworld u = {''kvm'', ''vhost-vdpa'', ''vdpa-sim-blk''}
     \<and> sim_cleanup vdpa_host VhostVdpaBlkSimulatorTest u = (Inr (), v) \<and> shworld v = {''kvm''}"
proof -
  have k: "kernel_modules vdpa_host id" by (simp add: kernel_modules_def vdpa_host_def py_str_def)
  show ?thesis using simulator_modules[OF k, of VhostVdpaBlkSimulatorTest "[]" "\<lparr>shworld = {''kvm'', ''vhost-vdpa''}, acts = []\<rparr>"] by auto
qed

lemma new_disk_returned_example:
  "\<exists>after. ''vda'' \<in> set (split_ws after) \<and> (\<exists>w w'. g_shell vdpa_host disk_cmd None w = (Inr (0, after), w'))"
proof -
  let ?a = "add_dev vdpa_host hd VirtioVdpaBlkSimulatorTest ''vdpa0'' [] \<lparr>shworld = {}, acts = []\<rparr>"
  have f: "\<forall>xs :: string list. xs \<noteq> [] \<longrightarrow> hd xs \<in> set xs" by simp
  have "fst ?a = Inr ''vda''" by code_simp
  then have "?a = (Inr ''vda'', snd ?a)" by (metis prod.collapse)
  from new_disk_returned[OF f this] show ?thesis by blast
qed

end
