(* ===== verification/Dpdk.thy ===== *)
theory Dpdk
  imports Guest_Shell
begin

text \<open>
  Packet forwarding with testpmd (\<^verbatim>\<open>provider/dpdk_utils.py\<close>): kernel modules and devices, the program behind an SSH channel, and the rates it prints.
  The library paramiko is the calls \<open>connect\<close>, \<open>invoke_shell\<close>, \<open>send\<close>, \<open>recv\<close> and \<open>close\<close>.
\<close>

section \<open>Packages, modules and devices\<close>

text \<open>Importing the file: a program that fails raises, and only the import is caught.\<close>

fun ensure_paramiko :: "'w genv \<Rightarrow> string list \<Rightarrow> ('w gst, unit) py" where
  "ensure_paramiko env [] = throw (SystemExit 1)"
| "ensure_paramiko env (pip # pips) =
     try_except
       (bnd (fw_unit env ''subprocess.check_call'' [PList [PStr pip, PStr ''install'', PStr ''--default-timeout=100'', PStr ''paramiko'']]) (\<lambda>_.
          fw_unit env ''import paramiko'' []))
       (\<lambda>e. case e of OtherError c _ \<Rightarrow> if c = ''ImportError'' then Some (ensure_paramiko env pips) else None | _ \<Rightarrow> None)"

definition install_dpdk :: "'w genv \<Rightarrow> pydict \<Rightarrow> ('w gst, unit) py" where
  "install_dpdk env params = bnd (sh_output env (''yum install -y '' @ py_str (dget_default params ''env_pkg'' PNone)) (Some 360)) (\<lambda>_. ret ())"

definition remove_when_absent :: "'w genv \<Rightarrow> string \<Rightarrow> string \<Rightarrow> ('w gst, unit) py" where
  "remove_when_absent env check remove =
     bnd (sh_status env check) (\<lambda>s. if s \<noteq> 0 then bnd (sh_cmd env remove None) (\<lambda>_. ret ()) else ret ())"

definition load_vfio_modules :: "'w genv \<Rightarrow> ('w gst, unit) py" where
  "load_vfio_modules env =
     bnd (remove_when_absent env ''lsmod | grep -wq vfio'' ''modprobe -r vfio-pci'') (\<lambda>_.
     bnd (remove_when_absent env ''lsmod | grep -wq vfio_pci'' ''modprobe -r vfio'') (\<lambda>_.
     bnd (sh_output env ''modprobe vfio enable_unsafe_noiommu_mode=Y'' None) (\<lambda>_.
     bnd (sh_output env ''modprobe vfio-pci'' None) (\<lambda>_. ret ()))))"

text \<open>A device that cannot be bound is only reported on the screen.\<close>

definition bind_report :: "string \<Rightarrow> int \<times> string \<Rightarrow> string" where
  "bind_report pci_id so =
     (if fst so = 0 then ''PCI device '' @ pci_id @ '' bound to vfio-pci successfully.''
      else if sublist ''already bound to driver vfio-pci'' (snd so) then ''PCI device '' @ pci_id @ '' is already bound to vfio-pci.''
      else ''Failed to bind PCI device '' @ pci_id @ '' to vfio-pci'')"

definition bind_pci_device_to_vfio :: "'w genv \<Rightarrow> string \<Rightarrow> ('w gst, unit) py" where
  "bind_pci_device_to_vfio env pci_id =
     bnd (sh_so env (''dpdk-devbind.py --bind=vfio-pci '' @ pci_id) None) (\<lambda>so. fw_unit env ''print'' [PStr (bind_report pci_id so)])"

section \<open>The class TestPMD\<close>

record testpmd =
  t_host :: string
  t_username :: string
  t_password :: string
  t_session :: "pyval option"
  t_channel :: "pyval option"

definition TestPMD :: "string \<Rightarrow> string \<Rightarrow> string \<Rightarrow> testpmd" where
  "TestPMD host username password = \<lparr>t_host = host, t_username = username, t_password = password, t_session = None, t_channel = None\<rparr>"

definition prompt :: string where
  "prompt = ''testpmd>''"

partial_function (option) expect_prompt :: "'w genv \<Rightarrow> pyval \<Rightarrow> string \<Rightarrow> 'w gst \<Rightarrow> (string res \<times> 'w gst) option" where
  "expect_prompt env channel output t =
     (case fw_str env ''recv'' [channel, PInt 16384] t of
        (Inl e, t') \<Rightarrow> Some (Inl e, t')
      | (Inr data, t') \<Rightarrow> if sublist prompt (output @ data) then Some (Inr (output @ data), t') else expect_prompt env channel (output @ data) t')"

declare expect_prompt.simps [code]

text \<open>The first \<open>key:\<close> that white space and a number follow.\<close>

definition pps_digit :: "char \<Rightarrow> bool" where
  "pps_digit c \<longleftrightarrow> c \<in> set ''0123456789''"

definition number_after :: "string \<Rightarrow> string option" where
  "number_after s = (let r = dropWhile is_ws s; ds = takeWhile pps_digit r in if r \<noteq> s \<and> ds \<noteq> [] then Some ds else None)"

fun find_pps :: "string \<Rightarrow> string \<Rightarrow> string option" where
  "find_pps key [] = (if key = [] then number_after [] else None)"
| "find_pps key (c # s) =
     (case (if startswith (c # s) key then number_after (drop (length key) (c # s)) else None) of Some ds \<Rightarrow> Some ds | None \<Rightarrow> find_pps key s)"

definition pps_number :: "string \<Rightarrow> string \<Rightarrow> int res" where
  "pps_number key output = (case find_pps key output of None \<Rightarrow> Inl (AttributeError ''group'') | Some ds \<Rightarrow> int_of_str ds)"

definition extract_pps_value :: "string \<Rightarrow> string \<Rightarrow> int res" where
  "extract_pps_value output forward_mode =
     (if forward_mode = ''txonly'' then pps_number ''Tx-pps:'' output
      else if forward_mode = ''rxonly'' then pps_number ''Rx-pps:'' output
      else Inl (ValueError (''unexpected forward mode: '' @ forward_mode)))"

text \<open>Every error of the connection is printed; the client stays the session of the object.\<close>

definition login_testpmd :: "'w genv \<Rightarrow> testpmd \<Rightarrow> ('w gst, testpmd \<times> pyval option) py" where
  "login_testpmd env obj =
     bnd (fw env ''SSHClient'' []) (\<lambda>client.
     bnd (fw_unit env ''set_missing_host_key_policy'' [client]) (\<lambda>_.
       try_except
         (bnd (fw_unit env ''connect'' [client, PStr (t_host obj), PStr (t_username obj), PStr (t_password obj)]) (\<lambda>_. ret (obj\<lparr>t_session := Some client\<rparr>, Some client)))
         (\<lambda>e. if is_exception e then Some (ret (obj\<lparr>t_session := Some client\<rparr>, None)) else None)))"

definition testpmd_cmd :: "string \<Rightarrow> int \<Rightarrow> string \<Rightarrow> string \<Rightarrow> string \<Rightarrow> string \<Rightarrow> string option \<Rightarrow> string" where
  "testpmd_cmd path cores pci_id forward_mode queue pkts mac =
     (let side = (if forward_mode = ''txonly'' then ''tx'' else ''rx''); n = int_str (cores - 1) in
      path @ '' -l 0-'' @ n @ '' -a '' @ pci_id @ '' --file-prefix '' @ side @ '' -- --port-topology=chained --disable-rss -i --rxq='' @ queue @ '' --txq='' @ queue
      @ '' --rxd=256 --txd=256 --nb-cores='' @ n @ '' --burst=64 --auto-start --forward-mode='' @ forward_mode @ '' --'' @ side @ ''pkts='' @ pkts @ '' ''
      @ (case mac of None \<Rightarrow> [] | Some m \<Rightarrow> if m = [] then [] else ''--eth-peer='' @ m @ '' '') @ (if forward_mode = ''txonly'' then ''--txonly-multi-flow '' else []))"

definition open_testpmd :: "'w genv \<Rightarrow> testpmd \<Rightarrow> string \<Rightarrow> string \<Rightarrow> string \<Rightarrow> string \<Rightarrow> string \<Rightarrow> string \<Rightarrow> string option \<Rightarrow> ('w gst, testpmd \<times> pyval) py" where
  "open_testpmd env obj path cpu_cores pci_id forward_mode queue pkts mac =
     bnd (lift_res (int_of_str cpu_cores)) (\<lambda>cores.
     case t_session obj of
       None \<Rightarrow> throw (AttributeError ''invoke_shell'')
     | Some session \<Rightarrow>
         bnd (fw env ''invoke_shell'' [session]) (\<lambda>channel.
         bnd (fw_unit env ''send'' [channel, PStr (testpmd_cmd path cores pci_id forward_mode queue pkts mac @ [CHR 0x0A])]) (\<lambda>_.
           ret (obj\<lparr>t_channel := Some channel\<rparr>, channel))))"

definition launch_testpmd :: "'w genv \<Rightarrow> testpmd \<Rightarrow> string \<Rightarrow> string \<Rightarrow> string \<Rightarrow> string \<Rightarrow> string \<Rightarrow> string \<Rightarrow> string option \<Rightarrow> 'w gst \<Rightarrow> (testpmd res \<times> 'w gst) option" where
  "launch_testpmd env obj path cpu_cores pci_id forward_mode queue pkts mac t =
     (case open_testpmd env obj path cpu_cores pci_id forward_mode queue pkts mac t of
        (Inl e, t1) \<Rightarrow> Some (Inl e, t1)
      | (Inr (obj', channel), t1) \<Rightarrow>
          (case expect_prompt env channel [] t1 of
             None \<Rightarrow> None
           | Some (Inl e, t2) \<Rightarrow> Some (Inl e, t2)
           | Some (Inr _, t2) \<Rightarrow> Some (Inr obj', t2)))"

definition send_line :: "'w genv \<Rightarrow> testpmd \<Rightarrow> string \<Rightarrow> ('w gst, pyval) py" where
  "send_line env obj line =
     (case t_channel obj of
        None \<Rightarrow> throw (AttributeError ''sendall'')
      | Some channel \<Rightarrow> bnd (fw_unit env ''sendall'' [channel, PStr (line @ [CHR 0x0A])]) (\<lambda>_. ret channel))"

definition show_port_stats_all :: "'w genv \<Rightarrow> testpmd \<Rightarrow> 'w gst \<Rightarrow> (string res \<times> 'w gst) option" where
  "show_port_stats_all env obj t =
     (case send_line env obj ''show port stats all'' t of
        (Inl e, t1) \<Rightarrow> Some (Inl e, t1)
      | (Inr channel, t1) \<Rightarrow> expect_prompt env channel [] t1)"

definition quit_testpmd :: "'w genv \<Rightarrow> testpmd \<Rightarrow> ('w gst, unit) py" where
  "quit_testpmd env obj = bnd (send_line env obj ''quit'') (\<lambda>_. ret ())"

definition logout :: "'w genv \<Rightarrow> testpmd \<Rightarrow> ('w gst, unit) py" where
  "logout env obj = (case t_session obj of None \<Rightarrow> ret () | Some s \<Rightarrow> fw_unit env ''close'' [s])"

section \<open>Waiting for the prompt\<close>

text \<open>
  What a channel delivers: the chunks that are still to come, one with every call, and the empty text when the channel is closed.
\<close>

definition delivers :: "'w genv \<Rightarrow> pyval \<Rightarrow> ('w \<Rightarrow> string list) \<Rightarrow> bool" where
  "delivers env channel pending \<longleftrightarrow>
     (\<forall>w. \<exists>w'. g_call env ''recv'' [channel, PInt 16384] w = (Inr (PStr (case pending w of [] \<Rightarrow> [] | c # _ \<Rightarrow> c)), w') \<and> pending w' = tl (pending w))"

lemma recv_run:
  assumes "delivers env ch pending"
  shows "\<exists>t'. fw_str env ''recv'' [ch, PInt 16384] t = (Inr (concat (take 1 (pending (shworld t)))), t') \<and> pending (shworld t') = tl (pending (shworld t))"
proof -
  obtain w' where "g_call env ''recv'' [ch, PInt 16384] (shworld t) = (Inr (PStr (case pending (shworld t) of [] \<Rightarrow> [] | c # _ \<Rightarrow> c)), w')" "pending w' = tl (pending (shworld t))"
    using assms[unfolded delivers_def, rule_format, of "shworld t"] by blast
  then show ?thesis by (cases "pending (shworld t)") (simp_all add: fw_str_def fw_def doing_def bnd_def ret_def py_str_def)
qed

lemma concat_chunks: "concat (take 1 xs) @ concat (take k (tl xs)) = concat (take (Suc k) xs)"
  by (cases xs) simp_all

lemma prompt_needed:
  assumes "expect_prompt env ch out t = Some y" "delivers env ch pending"
  shows "\<exists>k. sublist prompt (out @ concat (take (Suc k) (pending (shworld t))))"
proof -
  have "delivers env ch pending \<longrightarrow> (\<exists>k. sublist prompt (out @ concat (take (Suc k) (pending (shworld t)))))"
  proof (rule expect_prompt.raw_induct[of "\<lambda>env ch out t y. delivers env ch pending \<longrightarrow> (\<exists>k. sublist prompt (out @ concat (take (Suc k) (pending (shworld t)))))", OF _ assms(1)], intro impI)
    fix rec :: "'a genv \<Rightarrow> pyval \<Rightarrow> string \<Rightarrow> 'a gst \<Rightarrow> (string res \<times> 'a gst) option" and env ch out t y
    assume IH: "\<And>env ch out t y. rec env ch out t = Some y \<Longrightarrow> delivers env ch pending \<longrightarrow> (\<exists>k. sublist prompt (out @ concat (take (Suc k) (pending (shworld t)))))"
      and body: "(case fw_str env ''recv'' [ch, PInt 16384] t of (Inl e, t') \<Rightarrow> Some (Inl e, t')
        | (Inr data, t') \<Rightarrow> if sublist prompt (out @ data) then Some (Inr (out @ data), t') else rec env ch (out @ data) t') = Some y"
      and d: "delivers env ch pending"
    obtain t1 where t1: "fw_str env ''recv'' [ch, PInt 16384] t = (Inr (concat (take 1 (pending (shworld t)))), t1)" "pending (shworld t1) = tl (pending (shworld t))"
      using recv_run[OF d] by blast
    show "\<exists>k. sublist prompt (out @ concat (take (Suc k) (pending (shworld t))))"
    proof (cases "sublist prompt (out @ concat (take 1 (pending (shworld t))))")
      case True
      then show ?thesis by (intro exI[of _ 0]) simp
    next
      case False
      then have "rec env ch (out @ concat (take 1 (pending (shworld t)))) t1 = Some y" using body t1(1) by simp
      from IH[OF this] obtain k where "sublist prompt (out @ concat (take 1 (pending (shworld t))) @ concat (take (Suc k) (tl (pending (shworld t)))))" using d t1(2) by auto
      then show ?thesis unfolding concat_chunks by blast
    qed
  qed
  then show ?thesis using assms(2) by blast
qed

lemma prompt_found:
  assumes "delivers env ch pending"
  shows "sublist prompt (out @ concat (take (Suc k) (pending (shworld t)))) \<Longrightarrow> \<forall>j < k. \<not> sublist prompt (out @ concat (take (Suc j) (pending (shworld t)))) \<Longrightarrow>
    \<exists>t'. expect_prompt env ch out t = Some (Inr (out @ concat (take (Suc k) (pending (shworld t)))), t')"
proof (induction k arbitrary: out t)
  case 0
  then show ?case using recv_run[OF assms, of t] by (subst expect_prompt.simps) auto
next
  case (Suc k)
  obtain t1 where t1: "fw_str env ''recv'' [ch, PInt 16384] t = (Inr (concat (take 1 (pending (shworld t)))), t1)" "pending (shworld t1) = tl (pending (shworld t))"
    using recv_run[OF assms] by blast
  have n: "\<not> sublist prompt (out @ concat (take 1 (pending (shworld t))))" using Suc.prems(2) by auto
  have e: "(out @ concat (take 1 (pending (shworld t)))) @ concat (take (Suc j) (pending (shworld t1))) = out @ concat (take (Suc (Suc j)) (pending (shworld t)))" for j
    using concat_chunks[of "pending (shworld t)" "Suc j"] t1(2) by simp
  have "\<exists>t'. expect_prompt env ch (out @ concat (take 1 (pending (shworld t)))) t1 = Some (Inr ((out @ concat (take 1 (pending (shworld t)))) @ concat (take (Suc k) (pending (shworld t1)))), t')"
    by (rule Suc.IH) (use Suc.prems in \<open>simp_all only: e, auto\<close>)
  then show ?case unfolding e using t1(1) n by (subst expect_prompt.simps) simp
qed

text \<open>C37.
  Waiting for the prompt of testpmd.  When the prompt is in what the channel delivers, the wait returns, with everything up to the first chunk that
  completes the prompt; otherwise it never returns, also on a channel that has been closed, and whatever the timeout.
\<close>

theorem prompt_wait:
  assumes "delivers env ch pending"
  shows "(\<forall>k. sublist prompt (concat (take (Suc k) (pending (shworld t)))) \<and> (\<forall>j < k. \<not> sublist prompt (concat (take (Suc j) (pending (shworld t)))))
      \<longrightarrow> (\<exists>t'. expect_prompt env ch [] t = Some (Inr (concat (take (Suc k) (pending (shworld t)))), t')))
    \<and> (\<not> sublist prompt (concat (pending (shworld t))) \<longrightarrow> expect_prompt env ch [] t = None)"
proof (intro conjI allI impI)
  fix k assume "sublist prompt (concat (take (Suc k) (pending (shworld t)))) \<and> (\<forall>j < k. \<not> sublist prompt (concat (take (Suc j) (pending (shworld t)))))"
  then show "\<exists>t'. expect_prompt env ch [] t = Some (Inr (concat (take (Suc k) (pending (shworld t)))), t')"
    using prompt_found[OF assms, of "[]" k t] by simp
next
  assume n: "\<not> sublist prompt (concat (pending (shworld t)))"
  have sub: "sublist prompt (concat (take k xs)) \<Longrightarrow> sublist prompt (concat xs)" for k xs
  proof -
    have "concat xs = concat (take k xs) @ concat (drop k xs)" by (metis append_take_drop_id concat_append)
    then show "sublist prompt (concat (take k xs)) \<Longrightarrow> sublist prompt (concat xs)" by (auto simp: sublist_def) blast
  qed
  show "expect_prompt env ch [] t = None"
  proof (cases "expect_prompt env ch [] t")
    case (Some y)
    from prompt_needed[OF Some assms] obtain k where "sublist prompt (concat (take (Suc k) (pending (shworld t))))" unfolding append_Nil by (elim exE)
    with sub n show ?thesis by blast
  qed simp
qed

text \<open>The rate that follows the first mark is the value.\<close>

lemma digit_not_ws: "pps_digit c \<Longrightarrow> \<not> is_ws c"
  by (auto simp: pps_digit_def is_ws_def)

lemma number_after_digits:
  assumes "w \<noteq> []" "\<forall>c \<in> set w. is_ws c" "ds \<noteq> []" "\<forall>c \<in> set ds. pps_digit c" "rest = [] \<or> \<not> pps_digit (hd rest)"
  shows "number_after (w @ ds @ rest) = Some ds"
proof -
  obtain d ds' where ds: "ds = d # ds'" using assms(3) by (cases ds) auto
  have "\<not> is_ws d" using assms(4) ds digit_not_ws by simp
  then have d: "dropWhile is_ws (w @ ds @ rest) = ds @ rest" using assms(2) by (simp add: ds)
  have "takeWhile pps_digit (ds @ rest) = ds" using assms(4, 5) by (cases rest) simp_all
  then show ?thesis using assms(1, 3) by (simp add: number_after_def d Let_def)
qed

lemma find_pps_first:
  assumes "hd key \<notin> set pre" "key \<noteq> []" "number_after s = Some ds"
  shows "find_pps key (pre @ key @ s) = Some ds"
  using assms
proof (induction pre)
  case Nil
  then show ?case by (cases key) (auto simp: startswith_def)
next
  case (Cons c pre)
  have "\<not> startswith ((c # pre) @ key @ s) key" using Cons.prems(1, 2) by (cases key) (auto simp: startswith_def)
  then show ?case using Cons by simp
qed

lemma pps_read_back:
  assumes "CHR ''T'' \<notin> set pre" "w \<noteq> []" "\<forall>c \<in> set w. is_ws c" "ds \<noteq> []" "\<forall>c \<in> set ds. pps_digit c" "rest = [] \<or> \<not> pps_digit (hd rest)"
  shows "extract_pps_value (pre @ ''Tx-pps:'' @ w @ ds @ rest) ''txonly'' = int_of_str ds"
  using find_pps_first[of "''Tx-pps:''" pre "w @ ds @ rest" ds] number_after_digits[OF assms(2-6)] assms(1)
  by (simp add: extract_pps_value_def pps_number_def)

section \<open>A channel\<close>

definition pmd_channel :: "string list genv" where
  "pmd_channel = \<lparr>g_shell = (\<lambda>c n w. (Inr (0, []), w)),
     g_call = (\<lambda>name args w. if name = ''recv'' then (Inr (PStr (case w of [] \<Rightarrow> [] | c # _ \<Rightarrow> c)), tl w) else (Inr PNone, w)), g_rounds = (\<lambda>n w. 3)\<rparr>"

theorem prompt_wait_witness:
  "(\<exists>t'. expect_prompt pmd_channel PNone [] \<lparr>shworld = [''EAL: test'', ''pmd> '', ''more''], acts = []\<rparr> = Some (Inr ''EAL: testpmd> '', t'))
   \<and> expect_prompt pmd_channel PNone [] \<lparr>shworld = [''EAL: error''], acts = []\<rparr> = None"
proof -
  have d: "delivers pmd_channel PNone id" by (auto simp: delivers_def pmd_channel_def split: list.split)
  have p: "sublist prompt ''EAL: testpmd> ''" "\<not> sublist prompt ''EAL: test''" "\<not> sublist prompt ''EAL: error''" by code_simp+
  have "\<forall>j < Suc 0. \<not> sublist prompt (concat (take (Suc j) [''EAL: test'', ''pmd> '', ''more'']))" using p(2) by simp
  then have "\<exists>t'. expect_prompt pmd_channel PNone [] \<lparr>shworld = [''EAL: test'', ''pmd> '', ''more''], acts = []\<rparr> = Some (Inr ''EAL: testpmd> '', t')"
    using conjunct1[OF prompt_wait[OF d, of "\<lparr>shworld = [''EAL: test'', ''pmd> '', ''more''], acts = []\<rparr>"], rule_format, of "Suc 0"] p(1) by simp
  moreover have "expect_prompt pmd_channel PNone [] \<lparr>shworld = [''EAL: error''], acts = []\<rparr> = None"
    using conjunct2[OF prompt_wait[OF d, of "\<lparr>shworld = [''EAL: error''], acts = []\<rparr>"]] p(3) by simp
  ultimately show ?thesis by blast
qed

end
