(* ===== verification/Guest_Cpu.thy ===== *)
theory Guest_Cpu
  imports Guest_Shell
begin

text \<open>
  The processors of a guest (\<^verbatim>\<open>provider/cpu_utils.py\<close>, \<^verbatim>\<open>provider/cpuflags.py\<close>): identifiers, topology, flags and number of the processors as the guest
  prints them.  A pattern of \<open>re\<close> is a function that matches at the start of a text and returns what it found and the text after the match.
\<close>

section \<open>Patterns\<close>

type_synonym 'a pattern = "string \<Rightarrow> ('a \<times> string) option"

text \<open>\<open>re.findall\<close> for a pattern that never matches the empty text.\<close>

function find_all :: "'a pattern \<Rightarrow> string \<Rightarrow> 'a list" where
  "find_all m s =
     (case s of
        [] \<Rightarrow> []
      | c # cs \<Rightarrow> (case m s of Some (x, rest) \<Rightarrow> if length rest < length s then x # find_all m rest else find_all m cs | None \<Rightarrow> find_all m cs))"
  by pat_completeness auto
termination by (relation "measure (\<lambda>(m, s). length s)") auto

declare find_all.simps [simp del]

lemma find_all_Nil [simp]: "find_all m [] = []"
  by (simp add: find_all.simps)

lemma find_all_match: "m s = Some (x, rest) \<Longrightarrow> length rest < length s \<Longrightarrow> find_all m s = x # find_all m rest"
  by (subst find_all.simps) (cases s, auto)

lemma find_all_skip: "m (c # s) = None \<Longrightarrow> find_all m (c # s) = find_all m s"
  by (subst find_all.simps) simp

abbreviation nl :: char where
  "nl \<equiv> CHR 0x0A"

definition digit :: "char \<Rightarrow> bool" where
  "digit c \<longleftrightarrow> 48 \<le> (of_char c :: nat) \<and> (of_char c :: nat) \<le> 57"

definition upper :: "char \<Rightarrow> bool" where
  "upper c \<longleftrightarrow> 65 \<le> (of_char c :: nat) \<and> (of_char c :: nat) \<le> 90"

definition word_chr :: "char \<Rightarrow> bool" where
  "word_chr c \<longleftrightarrow> digit c \<or> upper c \<or> (97 \<le> (of_char c :: nat) \<and> (of_char c :: nat) \<le> 122) \<or> c = CHR ''_''"

definition digits :: "string pattern" where
  "digits s = (if takeWhile digit s = [] then None else Some (takeWhile digit s, dropWhile digit s))"

text \<open>\<open>processor\s+(?::\s)?(\d+)\<close>.\<close>

definition processor_pat :: "string pattern" where
  "processor_pat s =
     (if \<not> startswith s ''processor'' then None
      else
        (let r = drop 9 s; r1 = dropWhile is_ws r in
         if r1 = r then None
         else (case r1 of c # d # r2 \<Rightarrow> if c = CHR '':'' \<and> is_ws d then digits r2 else digits r1 | _ \<Rightarrow> digits r1)))"

text \<open>
  \<open>([A-Z].+):\s+(.+)\<close>: the last colon of the line that white space and a text follow.  White space may end the line; when nothing else follows,
  the text is the last white space that is not the end of a line.
\<close>

definition ws_tail :: "string \<Rightarrow> (string \<times> string) option" where
  "ws_tail ws = (case filter (\<lambda>i. ws ! i \<noteq> nl) [1 ..< length ws] of [] \<Rightarrow> None
     | i # is \<Rightarrow> let r = drop (last (i # is)) ws in Some (takeWhile (\<lambda>c. c \<noteq> nl) r, dropWhile (\<lambda>c. c \<noteq> nl) r))"

definition after_colon :: "string \<Rightarrow> (string \<times> string) option" where
  "after_colon r =
     (let rest = dropWhile is_ws r in
      if takeWhile is_ws r = [] then None
      else if rest \<noteq> [] then Some (takeWhile (\<lambda>c. c \<noteq> nl) rest, dropWhile (\<lambda>c. c \<noteq> nl) rest)
      else ws_tail r)"

fun last_colon :: "string \<Rightarrow> nat list \<Rightarrow> (string \<times> string \<times> string) option" where
  "last_colon s [] = None"
| "last_colon s (p # ps) =
     (if s ! p = CHR '':'' then
        (case after_colon (drop (Suc p) s) of Some (v, rest) \<Rightarrow> Some (take p s, v, rest) | None \<Rightarrow> last_colon s ps)
      else last_colon s ps)"

definition lscpu_pat :: "(string \<times> string) pattern" where
  "lscpu_pat s =
     (case s of
        [] \<Rightarrow> None
      | c # _ \<Rightarrow>
          if \<not> upper c then None
          else (case last_colon s (rev [2 ..< length (takeWhile (\<lambda>c. c \<noteq> nl) s)]) of Some (k, v, rest) \<Rightarrow> Some ((k, v), rest) | None \<Rightarrow> None))"

text \<open>\<open>(\w+)\s+:\s(\d+)\<close> and \<open>(\w+)=(\d+)\<close>.\<close>

definition powershell_pat :: "(string \<times> string) pattern" where
  "powershell_pat s =
     (let w = takeWhile word_chr s; r = dropWhile word_chr s; r1 = dropWhile is_ws r in
      if w = [] \<or> r1 = r then None
      else (case r1 of c # d # r2 \<Rightarrow> if c = CHR '':'' \<and> is_ws d then map_option (\<lambda>(n, rest). ((w, n), rest)) (digits r2) else None | _ \<Rightarrow> None))"

definition wmic_pat :: "(string \<times> string) pattern" where
  "wmic_pat s =
     (let w = takeWhile word_chr s in
      if w = [] then None
      else (case dropWhile word_chr s of c # r \<Rightarrow> if c = CHR ''='' then map_option (\<lambda>(n, rest). ((w, n), rest)) (digits r) else None | _ \<Rightarrow> None))"

text \<open>\<open>dict(pairs)\<close> and \<open>text.split("\n\n")\<close>.\<close>

definition pairs_dict :: "(string \<times> string) list \<Rightarrow> (string \<times> string) list" where
  "pairs_dict ps = fold (\<lambda>(k, v) d. dset k v d) ps []"

fun split_blank :: "string \<Rightarrow> string \<Rightarrow> string list" where
  "split_blank acc [] = [acc]"
| "split_blank acc [c] = [acc @ [c]]"
| "split_blank acc (c # d # cs) = (if c = nl \<and> d = nl then acc # split_blank [] cs else split_blank (acc @ [c]) (d # cs))"

section \<open>Operations\<close>

definition cmd_output_safe :: "'w genv \<Rightarrow> string \<Rightarrow> ('w gst, string) py" where
  "cmd_output_safe env cmd = sh_output env cmd None"

definition get_guest_cpu_ids :: "'w genv \<Rightarrow> string \<Rightarrow> ('w gst, int set) py" where
  "get_guest_cpu_ids env os_type =
     (if os_type = ''windows'' then ret {}
      else bnd (sh_output env ''grep processor /proc/cpuinfo'' None) (\<lambda>out. bnd (lift_res (rmap int_of_str (find_all processor_pat out))) (\<lambda>ids. ret (set ids))))"

record cpuinfo =
  c_sockets :: int
  c_cores :: int
  c_threads :: int

definition int_at :: "(string \<times> string) list \<Rightarrow> string \<Rightarrow> int res" where
  "int_at d k = rbind (dindex d k) int_of_str"

definition linux_topology :: "string \<Rightarrow> (int \<times> int \<times> int) res" where
  "linux_topology out =
     (let cpu_info = pairs_dict (find_all lscpu_pat out) in
      rbind (dindex cpu_info ''Architecture'') (\<lambda>arch.
      rbind (int_at cpu_info (if arch = ''s390x'' then ''Socket(s) per book'' else ''Socket(s)'')) (\<lambda>sockets.
      rbind (int_at cpu_info ''Core(s) per socket'') (\<lambda>cores.
      rbind (int_at cpu_info ''Thread(s) per core'') (\<lambda>threads. Inr (sockets, cores, threads))))))"

definition windows_topology :: "(string \<times> string) pattern \<Rightarrow> string \<Rightarrow> (int \<times> int \<times> int) res" where
  "windows_topology pat out =
     (let cpu_info = map (\<lambda>o1. pairs_dict (find_all pat o1)) (split_blank [] out) in
      rbind (int_at (hd cpu_info) ''NumberOfCores'') (\<lambda>cores.
      rbind (int_at (hd cpu_info) ''ThreadCount'') (\<lambda>threads. Inr (int (length cpu_info), cores, threads))))"

definition powershell_cmd :: string where
  "powershell_cmd = ''powershell '' @ [CHR 0x22] @ ''Get-WmiObject Win32_processor | Format-List NumberOfCores,ThreadCount'' @ [CHR 0x22]"

definition wmic_cmd :: string where
  "wmic_cmd = ''wmic CPU get NumberOfCores,ThreadCount /Format:list''"

text \<open>A missing key of the first command is answered by the second, and a missing key of the second by \<open>None\<close>.\<close>

definition ask_windows :: "'w genv \<Rightarrow> ('w gst, (int \<times> int \<times> int) option) py" where
  "ask_windows env =
     bnd (cmd_output_safe env powershell_cmd) (\<lambda>o1.
       case windows_topology powershell_pat (strip_set is_ws o1) of
         Inr x \<Rightarrow> ret (Some x)
       | Inl (KeyError _) \<Rightarrow>
           bnd (cmd_output_safe env wmic_cmd) (\<lambda>o2.
             case windows_topology wmic_pat (strip_set is_ws o2) of
               Inr x \<Rightarrow> ret (Some x)
             | Inl (KeyError _) \<Rightarrow> ret None
             | Inl e \<Rightarrow> throw e)
       | Inl e \<Rightarrow> throw e)"

text \<open>Up to QEMU 8.1 the threads of a Windows guest are not compared; whether the version is in the interval is a call of the framework.\<close>

definition windows_threads :: "'w genv \<Rightarrow> string option \<Rightarrow> int \<Rightarrow> int \<Rightarrow> int \<Rightarrow> ('w gst, bool) py" where
  "windows_threads env qemu_version threads cores wanted =
     (case qemu_version of
        None \<Rightarrow> throw (TestFail ''Variable devices must be defined for Windows guest.'')
      | Some v \<Rightarrow>
          bnd (fw env ''VersionInterval'' [PStr ''[, 8.1.0)'', PStr v]) (\<lambda>old.
            if truthy old then ret True
            else if cores = 0 then throw (OtherError ''ZeroDivisionError'' []) else ret (threads div cores = wanted)))"

definition check_if_vm_vcpu_topology_match :: "'w genv \<Rightarrow> string \<Rightarrow> cpuinfo \<Rightarrow> string option \<Rightarrow> ('w gst, bool) py" where
  "check_if_vm_vcpu_topology_match env os_type cpuinfo qemu_version =
     (if os_type = ''linux'' then
        bnd (cmd_output_safe env ''lscpu'') (\<lambda>out.
        bnd (lift_res (linux_topology out)) (\<lambda>(sockets, cores, threads).
          ret (c_sockets cpuinfo = sockets \<and> c_cores cpuinfo = cores \<and> c_threads cpuinfo = threads)))
      else
        bnd (ask_windows env) (\<lambda>answer.
          case answer of
            None \<Rightarrow> ret False
          | Some (sockets, cores, threads) \<Rightarrow>
              bnd (windows_threads env qemu_version threads cores (c_threads cpuinfo)) (\<lambda>matched.
                ret (c_sockets cpuinfo = sockets \<and> c_cores cpuinfo = cores \<and> matched))))"

definition flags_cmd :: string where
  "flags_cmd = ''lscpu | grep Flags | awk -F '' @ [CHR 0x27] @ '':'' @ [CHR 0x27] @ ''  '' @ [CHR 0x27] @ ''{print $2}'' @ [CHR 0x27]"

definition check_cpu_flags :: "'w genv \<Rightarrow> pydict \<Rightarrow> string \<Rightarrow> bool \<Rightarrow> ('w gst, unit) py" where
  "check_cpu_flags env params flags session =
     bnd (if session then sh_output env flags_cmd None else fw_str env ''process.getoutput'' [PStr flags_cmd]) (\<lambda>o1.
     let out = split_ws o1; missing = filter (\<lambda>f. f \<notin> set out) (split_ws flags) in
     if session then
       (if missing \<noteq> [] then throw (TestFail (''Flag '' @ join '', '' missing @ '' not in guest''))
        else
          (let err_flags = filter (\<lambda>f. f \<in> set out) (split_ws (par_or params ''no_flags'' [])) in
           if err_flags \<noteq> [] then throw (TestFail (''Flag '' @ join '', '' err_flags @ '' should not be present in guest'')) else ret ()))
     else if missing \<noteq> [] then throw (TestCancel (''This host does not support flag '' @ join '', '' missing)) else ret ())"

definition isdigit :: "string \<Rightarrow> bool" where
  "isdigit s \<longleftrightarrow> s \<noteq> [] \<and> list_all digit s"

definition check_if_vm_vcpu_match :: "'w genv \<Rightarrow> pyval \<Rightarrow> ('w gst, bool) py" where
  "check_if_vm_vcpu_match env vcpu_desire =
     bnd (fw env ''get_cpu_count'' [PStr ''cpu_chk_cmd'']) (\<lambda>actual.
     bnd (case vcpu_desire of PStr s \<Rightarrow> if isdigit s then lift_res (rbind (int_of_str s) (\<lambda>i. Inr (PInt i))) else ret vcpu_desire | _ \<Rightarrow> ret vcpu_desire) (\<lambda>desire.
       ret (py_eq desire actual)))"

text \<open>Which devices are enabled, \<open>params.object_params(d).get_boolean("vcpu_enable")\<close>, is a parameter.\<close>

definition check_if_vm_vcpus_match_qemu :: "'w genv \<Rightarrow> pydict \<Rightarrow> (string \<Rightarrow> bool) \<Rightarrow> int \<Rightarrow> ('w gst, bool) py" where
  "check_if_vm_vcpus_match_qemu env params enabled smp =
     bnd (par_num params ''vcpus_count'' 1) (\<lambda>vcpus_count.
       check_if_vm_vcpu_match env (PInt (smp + int (length (filter enabled (objects params ''vcpu_devices''))) * vcpus_count)))"

definition VMStressBinding :: "'w genv \<Rightarrow> string \<Rightarrow> ('w gst, unit) py" where
  "VMStressBinding env stress_args = bnd (fw_unit env ''VMStress'' [PStr ''stress'', PStr stress_args]) (\<lambda>_. fw_unit env ''install'' [])"

definition load_stress_tool :: "'w genv \<Rightarrow> string \<Rightarrow> string \<Rightarrow> int \<Rightarrow> string \<Rightarrow> ('w gst, unit) py" where
  "load_stress_tool env stress_cmds stress_args timeout cpu_id =
     bnd (fw_unit env ''cmd_launch'' [PStr (''setsid taskset -c '' @ cpu_id @ '' '' @ stress_cmds @ '' '' @ stress_args @ '' > /dev/null'')]) (\<lambda>_.
     bnd (wait_until env timeout (bnd (fw env ''app_running'' []) (\<lambda>v. ret (truthy v)))) (\<lambda>b.
       if b then ret () else throw (OtherError ''StressError'' ''Stress does not running as expected.'')))"

definition install_cpuflags_util_on_vm :: "'w genv \<Rightarrow> string \<Rightarrow> string \<Rightarrow> ('w gst, unit) py" where
  "install_cpuflags_util_on_vm env dst_dir extra_flags =
     bnd (fw env ''get_deps_dir'' [PStr ''cpu_flags'']) (\<lambda>src.
     let dst = path_join dst_dir ''cpu_flags'' in
     bnd (fw_unit env ''wait_for_login'' []) (\<lambda>_.
     bnd (sh_cmd env (''rm -rf '' @ dst) None) (\<lambda>_.
     bnd (sh_cmd env ''sync'' None) (\<lambda>_.
     bnd (fw_unit env ''copy_files_to'' [src, PStr dst_dir]) (\<lambda>_.
     bnd (sh_cmd env ''sync'' None) (\<lambda>_.
     bnd (sh_cmd env (''cd '' @ dst @ ''; cd src; make EXTRA_FLAGS='' @ [CHR 0x27] @ extra_flags @ [CHR 0x27] @ '';'') None) (\<lambda>_.
     bnd (sh_cmd env ''sync'' None) (\<lambda>_. fw_unit env ''session.close'' []))))))))"

section \<open>Properties\<close>

text \<open>The lines that \<open>lscpu\<close> prints for names and values: a name, a colon, spaces and the value.\<close>

definition lscpu_line :: "string \<times> nat \<times> string \<Rightarrow> string" where
  "lscpu_line = (\<lambda>(k, n, v). k @ '':'' @ replicate (Suc n) (CHR '' '') @ v @ [nl])"

definition lscpu_entry :: "string \<times> nat \<times> string \<Rightarrow> bool" where
  "lscpu_entry = (\<lambda>(k, n, v). 2 \<le> length k \<and> upper (hd k) \<and> v \<noteq> [] \<and> \<not> is_ws (hd v) \<and> CHR '':'' \<notin> set (k @ v) \<and> nl \<notin> set (k @ v))"

lemma last_colon_skip: "\<forall>p \<in> set ps. s ! p \<noteq> CHR '':'' \<Longrightarrow> last_colon s (ps @ qs) = last_colon s qs"
  by (induction ps) auto

lemma lscpu_pat_upper:
  "s \<noteq> [] \<Longrightarrow> upper (hd s) \<Longrightarrow>
   lscpu_pat s = (case last_colon s (rev [2 ..< length (takeWhile (\<lambda>c. c \<noteq> nl) s)]) of Some (k, v, rest) \<Rightarrow> Some ((k, v), rest) | None \<Rightarrow> None)"
  by (cases s) (simp_all add: lscpu_pat_def)

lemma lscpu_pat_line:
  assumes "lscpu_entry (k, n, v)"
  shows "lscpu_pat (lscpu_line (k, n, v) @ s) = Some ((k, v), nl # s)"
proof -
  let ?l = "k @ '':'' @ replicate (Suc n) (CHR '' '') @ v"
  have e: "lscpu_line (k, n, v) @ s = ?l @ nl # s" by (simp add: lscpu_line_def)
  have a: "2 \<le> length k" "upper (hd k)" "v \<noteq> []" "\<not> is_ws (hd v)" "CHR '':'' \<notin> set k" "CHR '':'' \<notin> set v" "nl \<notin> set k" "nl \<notin> set v"
    using assms by (auto simp: lscpu_entry_def)
  have t: "takeWhile (\<lambda>c. c \<noteq> nl) (?l @ nl # s) = ?l" using a(7, 8) by (subst takeWhile_append2) auto
  have r: "rev [2 ..< length ?l] = rev [Suc (length k) ..< length ?l] @ length k # rev [2 ..< length k]"
    using a(1) upt_add_eq_append[of 2 "length k" "Suc (Suc n + length v)"] by (simp add: upt_conv_Cons[of "length k"] del: upt_Suc)
  have no: "\<forall>p \<in> set (rev [Suc (length k) ..< length ?l]). (?l @ nl # s) ! p \<noteq> CHR '':''"
  proof
    fix p assume "p \<in> set (rev [Suc (length k) ..< length ?l])"
    then have p: "length k < p" "p < length ?l" by auto
    then have "(?l @ nl # s) ! p = ?l ! p" by (simp only: nth_append if_True)
    also have "\<dots> = (replicate (Suc n) (CHR '' '') @ v) ! (p - Suc (length k))" using p(1) nth_append[of "k @ '':''" "replicate (Suc n) (CHR '' '') @ v" p] by simp
    also have "\<dots> \<in> set (replicate (Suc n) (CHR '' '') @ v)" using p by (intro nth_mem) auto
    finally show "(?l @ nl # s) ! p \<noteq> CHR '':''" using a(6) by auto
  qed
  have d: "drop (Suc (length k)) (?l @ nl # s) = replicate (Suc n) (CHR '' '') @ v @ nl # s" by simp
  have w: "is_ws (CHR '' '')" by (simp add: is_ws_def)
  have "dropWhile is_ws (replicate m (CHR '' '') @ x # xs) = x # xs" if x: "\<not> is_ws x" for m x xs using w x by (induction m) auto
  then have "dropWhile is_ws (replicate (Suc n) (CHR '' '') @ v @ nl # s) = v @ nl # s" "takeWhile is_ws (replicate (Suc n) (CHR '' '') @ v @ nl # s) \<noteq> []"
    using a(3, 4) w by (cases v, auto)
  moreover have "takeWhile (\<lambda>c. c \<noteq> nl) (v @ nl # s) = v" "dropWhile (\<lambda>c. c \<noteq> nl) (v @ nl # s) = nl # s" using a(8) by (induction v) auto
  ultimately have "after_colon (replicate (Suc n) (CHR '' '') @ v @ nl # s) = Some (v, nl # s)"
    using a(3) unfolding after_colon_def Let_def by simp
  then have lc: "last_colon (?l @ nl # s) (rev [2 ..< length ?l]) = Some (k, v, nl # s)"
    unfolding r last_colon_skip[OF no] last_colon.simps(2) d by (simp add: nth_append)
  have ne: "?l @ nl # s \<noteq> []" "upper (hd (?l @ nl # s))" using a(1, 2) by (auto simp: hd_append)
  show ?thesis unfolding e lscpu_pat_upper[OF ne] t lc by simp
qed

lemma lscpu_read_back: "list_all lscpu_entry es \<Longrightarrow> find_all lscpu_pat (concat (map lscpu_line es)) = map (\<lambda>(k, n, v). (k, v)) es"
proof (induction es)
  case (Cons e es)
  obtain k n v where e: "e = (k, n, v)" by (cases e)
  have nlp: "lscpu_pat (nl # s) = None" for s by (simp add: lscpu_pat_def upper_def)
  have "lscpu_entry (k, n, v)" using Cons.prems e by simp
  note m = find_all_match[of lscpu_pat "lscpu_line (k, n, v) @ concat (map lscpu_line es)", OF lscpu_pat_line[OF this, of "concat (map lscpu_line es)"]]
  have "length (nl # concat (map lscpu_line es)) < length (lscpu_line (k, n, v) @ concat (map lscpu_line es))" by (simp add: lscpu_line_def)
  from m[OF this] show ?case using Cons by (simp add: e find_all_skip[of lscpu_pat, OF nlp])
qed simp

lemma fold_dset_out: "k \<notin> fst ` set ps \<Longrightarrow> dget (fold (\<lambda>(k, v) d. dset k v d) ps d) k = dget d k"
  by (induction ps arbitrary: d) auto

lemma pairs_dict_in:
  assumes "distinct (map fst ps)" "(k, v) \<in> set ps"
  shows "dget (pairs_dict ps) k = Some v"
proof -
  have "dget (fold (\<lambda>(k, v) d. dset k v d) ps d) k = Some v" for d
    using assms by (induction ps arbitrary: d) (auto simp: fold_dset_out)
  then show ?thesis by (simp add: pairs_dict_def)
qed


text \<open>The flags of a guest: the check returns exactly when the guest prints every wanted flag and none of the unwanted ones, and otherwise it fails the test.
\<close>

lemma guest_flags_verdict:
  assumes "g_shell env flags_cmd None (shworld t) = (Inr (n, out), w')"
  shows "(fst (check_cpu_flags env params flags True t) = Inr () \<longleftrightarrow>
      set (split_ws flags) \<subseteq> set (split_ws out) \<and> set (split_ws (par_or params ''no_flags'' [])) \<inter> set (split_ws out) = {})
    \<and> (fst (check_cpu_flags env params flags True t) \<noteq> Inr () \<longrightarrow> (\<exists>m. fst (check_cpu_flags env params flags True t) = Inl (TestFail m)))"
proof -
  have "check_cpu_flags env params flags True t =
     (if filter (\<lambda>f. f \<notin> set (split_ws out)) (split_ws flags) \<noteq> [] then Inl (TestFail (''Flag '' @ join '', '' (filter (\<lambda>f. f \<notin> set (split_ws out)) (split_ws flags)) @ '' not in guest''))
      else if filter (\<lambda>f. f \<in> set (split_ws out)) (split_ws (par_or params ''no_flags'' [])) \<noteq> []
      then Inl (TestFail (''Flag '' @ join '', '' (filter (\<lambda>f. f \<in> set (split_ws out)) (split_ws (par_or params ''no_flags'' []))) @ '' should not be present in guest''))
      else Inr (), t\<lparr>shworld := w', acts := acts t @ [Sh flags_cmd]\<rparr>)"
    using assms by (simp add: check_cpu_flags_def sh_output_def sh_so_def doing_def bnd_def ret_def throw_def Let_def)
  then show ?thesis by (auto simp: filter_empty_conv)
qed

section \<open>A guest\<close>

definition cpu_lines :: "(string \<times> nat \<times> string) list" where
  "cpu_lines = [(''Architecture'', 3, ''x86_64''), (''Thread(s) per core'', 0, ''2''), (''Core(s) per socket'', 1, ''4''), (''Socket(s)'', 7, ''1'')]"

definition cpu_guest :: "unit genv" where
  "cpu_guest = \<lparr>g_shell = (\<lambda>c n w. (Inr (0, if c = ''lscpu'' then concat (map lscpu_line cpu_lines) else ''fpu vme ssse3''), w)),
     g_call = (\<lambda>name args w. (Inr PNone, w)), g_rounds = (\<lambda>n w. 3)\<rparr>"


lemma guest_flags_verdict_example: "fst (check_cpu_flags cpu_guest [] ''vme'' True \<lparr>shworld = (), acts = []\<rparr>) = Inr ()"
proof -
  have h: "g_shell cpu_guest flags_cmd None (shworld (\<lparr>shworld = (), acts = []\<rparr> :: unit gst)) = (Inr (0, ''fpu vme ssse3''), ())"
    by (simp add: cpu_guest_def flags_cmd_def)
  have "set (split_ws ''vme'') \<subseteq> set (split_ws ''fpu vme ssse3'') \<and> set (split_ws (par_or [] ''no_flags'' [])) \<inter> set (split_ws ''fpu vme ssse3'') = {}" by code_simp
  then show ?thesis using guest_flags_verdict[OF h, of "[]" "''vme''"] by blast
qed

end
