(* ===== verification/Hlk.thy ===== *)
theory Hlk
  imports Guest_Cpu Json
begin

text \<open>
  The Windows Hardware Lab Kit, \<^verbatim>\<open>provider/win_hlk_suite.py\<close>: a server that is controlled by the commands of a PowerShell script, whose answers are
  lines of JSON or text.  The session with the script is the shell of the state; calls of the framework and of the host are calls by name.
\<close>

section \<open>Answers\<close>

text \<open>\<open>[json.loads(line) for line in out.splitlines()]\<close>, and \<open>None\<close> for an entry that is missing.\<close>

definition json_lines :: "string \<Rightarrow> pyval list res" where
  "json_lines out = rmap (\<lambda>l. case loads l of None \<Rightarrow> Inl (ValueError ''JSONDecodeError'') | Some v \<Rightarrow> Inr v) (splitlines out)"

definition of_option :: "pyval option \<Rightarrow> pyval" where
  "of_option v = (case v of None \<Rightarrow> PNone | Some x \<Rightarrow> x)"

text \<open>The loops of \<open>get_project\<close> and \<open>get_target_test\<close>: the first entry of the name, or none.\<close>

fun find_named :: "string \<Rightarrow> string \<Rightarrow> pyval list \<Rightarrow> pyval option res" where
  "find_named key name [] = Inr None"
| "find_named key name (p # ps) = rbind (item p key) (\<lambda>v. if py_eq v (PStr name) then Inr (Some p) else find_named key name ps)"

text \<open>A target is a line of three fields; a line with fewer fields cannot be logged.\<close>

fun find_target :: "string \<Rightarrow> string list \<Rightarrow> string list option res" where
  "find_target target_name [] = Inr None"
| "find_target target_name (l # ls) =
     (if sublist target_name l then
        (let fs = split_char (CHR '','') l in if length fs < 3 then Inl IndexError else Inr (Some fs))
      else find_target target_name ls)"

text \<open>\<open>Test result index :\s+(\d+)\<close>.\<close>

definition index_pat :: "string pattern" where
  "index_pat s =
     (if \<not> startswith s ''Test result index :'' then None
      else (let r = drop 19 s; r1 = dropWhile is_ws r in if r1 = r then None else digits r1))"

section \<open>The server\<close>

definition STATE_READY :: string where
  "STATE_READY = ''Ready''"

definition HLKError :: "string \<Rightarrow> exc" where
  "HLKError msg = OtherError ''HLKError'' msg"

definition HLKRunError :: "string \<Rightarrow> exc" where
  "HLKRunError msg = OtherError ''HLKRunError'' msg"

definition HLKServer :: "'w genv \<Rightarrow> ('w gst, unit) py" where
  "HLKServer env =
     bnd (fw_str env ''get_deps_dir'' [PStr ''hlk'']) (\<lambda>d.
     bnd (fw_unit env ''copy_files_to'' [PStr (path_join d ''hlk_studio.ps1''), PStr (''c:'' @ [CHR 0x5C]), PInt 60]) (\<lambda>_.
     bnd (fw_unit env ''wait_for_login'' [PInt 360]) (\<lambda>_.
     bnd (sh_cmd env ''hostname'' None) (\<lambda>out.
     bnd (fw_unit env ''set_prompt'' [PStr (''toolsHLK@'' @ strip_set is_ws out)]) (\<lambda>_.
     bnd (sh_output env (''powershell -command '' @ [CHR 0x22] @ ''c:'' @ [CHR 0x5C] @ ''hlk_studio.ps1'' @ [CHR 0x22]) None) (\<lambda>_. ret ()))))))"

definition hlk_close :: "'w genv \<Rightarrow> ('w gst, unit) py" where
  "hlk_close env = fw_unit env ''session.close'' []"

text \<open>A command whose answer is not looked at.\<close>

definition tell :: "'w genv \<Rightarrow> string list \<Rightarrow> int option \<Rightarrow> ('w gst, unit) py" where
  "tell env ws timeout = bnd (sh_output env (join '' '' ws) timeout) (\<lambda>_. ret ())"

definition get_default_pool :: "'w genv \<Rightarrow> ('w gst, pyval list) py" where
  "get_default_pool env = bnd (sh_output env ''getdefaultpool'' None) (\<lambda>out. lift_res (json_lines out))"

definition create_pool :: "'w genv \<Rightarrow> string \<Rightarrow> ('w gst, unit) py" where
  "create_pool env name = tell env [''createpool'', name] None"

definition move_machine_from_default_pool :: "'w genv \<Rightarrow> string \<Rightarrow> string \<Rightarrow> ('w gst, unit) py" where
  "move_machine_from_default_pool env machine_name dst_pool_name = tell env [''movemachinefromdefaultpool'', machine_name, dst_pool_name] None"

definition set_machine_state :: "'w genv \<Rightarrow> string \<Rightarrow> string \<Rightarrow> string \<Rightarrow> int \<Rightarrow> ('w gst, unit) py" where
  "set_machine_state env machine_name pool_name state timeout = tell env [''setmachinestate'', machine_name, pool_name, state] (Some timeout)"

definition list_machine_targets :: "'w genv \<Rightarrow> string \<Rightarrow> string \<Rightarrow> int \<Rightarrow> ('w gst, string list) py" where
  "list_machine_targets env machine_name pool_name timeout =
     bnd (sh_output env (join '' '' [''listmachinetargets'', machine_name, pool_name]) (Some timeout)) (\<lambda>out. ret (splitlines out))"

definition get_machine_target :: "'w genv \<Rightarrow> string \<Rightarrow> string \<Rightarrow> string \<Rightarrow> int \<Rightarrow> ('w gst, string list option) py" where
  "get_machine_target env target_name machine_name pool_name timeout =
     bnd (list_machine_targets env machine_name pool_name timeout) (\<lambda>targets. lift_res (find_target target_name targets))"

text \<open>No target is \<open>None\<close>, which has no items.\<close>

definition get_machine_target_key :: "'w genv \<Rightarrow> string \<Rightarrow> string \<Rightarrow> string \<Rightarrow> int \<Rightarrow> ('w gst, string) py" where
  "get_machine_target_key env target_name machine_name pool_name timeout =
     bnd (get_machine_target env target_name machine_name pool_name timeout) (\<lambda>target.
       case target of
         Some (_ # key # _) \<Rightarrow> ret (replace_str ''&'' [CHR 0x22, CHR ''&'', CHR 0x22] key)
       | Some _ \<Rightarrow> throw IndexError
       | None \<Rightarrow> throw (TypeError ''not subscriptable''))"

definition list_projects :: "'w genv \<Rightarrow> ('w gst, pyval list) py" where
  "list_projects env = bnd (sh_output env ''listprojects'' (Some 60)) (\<lambda>out. lift_res (json_lines out))"

definition get_project :: "'w genv \<Rightarrow> string \<Rightarrow> ('w gst, pyval option) py" where
  "get_project env name = bnd (list_projects env) (\<lambda>ps. lift_res (find_named ''project_name'' name ps))"

definition create_project :: "'w genv \<Rightarrow> string \<Rightarrow> ('w gst, unit) py" where
  "create_project env name = tell env [''createproject'', name] None"

text \<open>What most commands end with: the key of the target, the project, the machine and the pool.\<close>

record hlk_target =
  h_key :: string
  h_project :: string
  h_machine :: string
  h_pool :: string

definition target_words :: "hlk_target \<Rightarrow> string list" where
  "target_words tgt = [h_key tgt, h_project tgt, h_machine tgt, h_pool tgt]"

definition create_project_target :: "'w genv \<Rightarrow> hlk_target \<Rightarrow> int \<Rightarrow> ('w gst, unit) py" where
  "create_project_target env tgt timeout = tell env (''createprojecttarget'' # target_words tgt) (Some timeout)"

definition list_tests :: "'w genv \<Rightarrow> hlk_target \<Rightarrow> int \<Rightarrow> ('w gst, pyval list) py" where
  "list_tests env tgt timeout = bnd (sh_output env (join '' '' (''listtests'' # target_words tgt)) (Some timeout)) (\<lambda>out. lift_res (json_lines out))"

definition get_target_test :: "'w genv \<Rightarrow> string \<Rightarrow> hlk_target \<Rightarrow> int \<Rightarrow> ('w gst, pyval option) py" where
  "get_target_test env test_name tgt timeout = bnd (list_tests env tgt timeout) (\<lambda>ts. lift_res (find_named ''test_name'' test_name ts))"

definition get_target_test_id :: "'w genv \<Rightarrow> string \<Rightarrow> hlk_target \<Rightarrow> int \<Rightarrow> ('w gst, string) py" where
  "get_target_test_id env test_name tgt timeout =
     bnd (get_target_test env test_name tgt timeout) (\<lambda>v. lift_res (rbind (item (of_option v) ''test_id'') (\<lambda>i. Inr (py_str i))))"

definition queue_cmd :: "hlk_target \<Rightarrow> string \<Rightarrow> string" where
  "queue_cmd tgt test_id = join '' '' (''queuetest'' # test_id # target_words tgt)"

definition queue_test :: "'w genv \<Rightarrow> hlk_target \<Rightarrow> string \<Rightarrow> ('w gst, unit) py" where
  "queue_test env tgt test_id = bnd (sh_output env (queue_cmd tgt test_id) None) (\<lambda>_. ret ())"

definition zip_test_result_logs :: "'w genv \<Rightarrow> hlk_target \<Rightarrow> string \<Rightarrow> string \<Rightarrow> ('w gst, string) py" where
  "zip_test_result_logs env tgt test_id result_index = sh_output env (join '' '' (''ziptestresultlogs'' # result_index # test_id # target_words tgt)) None"

definition results_cmd :: "hlk_target \<Rightarrow> string \<Rightarrow> string" where
  "results_cmd tgt test_id = join '' '' (''listtestresults'' # test_id # target_words tgt)"

definition list_test_results :: "'w genv \<Rightarrow> hlk_target \<Rightarrow> string \<Rightarrow> ('w gst, string) py" where
  "list_test_results env tgt test_id = sh_output env (results_cmd tgt test_id) None"

text \<open>The logs of one result: they are packed in the guest and copied to the host.\<close>

definition upload_logs :: "'w genv \<Rightarrow> hlk_target \<Rightarrow> string \<Rightarrow> string \<Rightarrow> string \<Rightarrow> ('w gst, unit) py" where
  "upload_logs env tgt host_path test_id result_index =
     bnd (zip_test_result_logs env tgt test_id result_index) (\<lambda>out.
       if splitlines out = [] then throw IndexError else fw_unit env ''copy_files_from'' [PStr (last (splitlines out)), PStr host_path])"

definition test_results :: "'w genv \<Rightarrow> hlk_target \<Rightarrow> string \<Rightarrow> string \<Rightarrow> ('w gst, string) py" where
  "test_results env tgt host_path test_id =
     bnd (list_test_results env tgt test_id) (\<lambda>out.
     bnd (for_each (find_all index_pat out) (upload_logs env tgt host_path test_id)) (\<lambda>_. ret out))"

definition list_tests_results :: "'w genv \<Rightarrow> string \<Rightarrow> hlk_target \<Rightarrow> string list \<Rightarrow> ('w gst, string) py" where
  "list_tests_results env resultsdir tgt tests_id =
     (let host_path = path_join resultsdir ''hlk_test_result_logs'' in
      bnd (fw env ''os.path.exists'' [PStr host_path]) (\<lambda>b.
      bnd (if truthy b then ret () else fw_unit env ''os.makedirs'' [PStr host_path]) (\<lambda>_.
      bnd (map_each tests_id (test_results env tgt host_path)) (\<lambda>outs. ret (concat outs)))))"

definition project_stopped :: "'w genv \<Rightarrow> string \<Rightarrow> ('w gst, bool) py" where
  "project_stopped env project_name =
     bnd (get_project env project_name) (\<lambda>v. bnd (lift_res (item (of_option v) ''status'')) (\<lambda>s. ret (py_eq (PStr ''NotRunning'') s)))"

definition error_mark :: string where
  "error_mark = ''Task error message''"

definition error_lines :: "string \<Rightarrow> string list" where
  "error_lines results = map (strip_set is_ws) (filter (sublist error_mark) (splitlines results))"

definition run_tests :: "'w genv \<Rightarrow> string \<Rightarrow> hlk_target \<Rightarrow> string list \<Rightarrow> int \<Rightarrow> ('w gst, unit) py" where
  "run_tests env resultsdir tgt tests_id timeout =
     bnd (for_each tests_id (queue_test env tgt)) (\<lambda>_.
     bnd (wait_until env timeout (project_stopped env (h_project tgt))) (\<lambda>stopped.
       if \<not> stopped then throw (HLKRunError ''Timeout for running tests.'')
       else
         bnd (list_tests_results env resultsdir tgt tests_id) (\<lambda>results.
           if error_lines results \<noteq> [] then throw (HLKRunError (''Found task error messages:'' @ join '', '' (error_lines results))) else ret ())))"

definition simple_run_test :: "'w genv \<Rightarrow> string \<Rightarrow> string \<Rightarrow> string \<Rightarrow> string \<Rightarrow> string list \<Rightarrow> int \<Rightarrow> ('w gst, unit) py" where
  "simple_run_test env resultsdir pool_name project_name target_name tests_name timeout =
     bnd (get_default_pool env) (\<lambda>machines.
     bnd (case machines of [] \<Rightarrow> throw IndexError | m # _ \<Rightarrow> lift_res (rbind (item m ''machine_name'') (\<lambda>v. Inr (py_str v)))) (\<lambda>machine_name.
     bnd (create_pool env pool_name) (\<lambda>_.
     bnd (move_machine_from_default_pool env machine_name pool_name) (\<lambda>_.
     bnd (set_machine_state env machine_name pool_name STATE_READY 360) (\<lambda>_.
     bnd (fw_unit env ''sleep'' [PInt 60]) (\<lambda>_.
     bnd (create_project env project_name) (\<lambda>_.
     bnd (get_machine_target_key env target_name machine_name pool_name 60) (\<lambda>target_key.
     let tgt = \<lparr>h_key = target_key, h_project = project_name, h_machine = machine_name, h_pool = pool_name\<rparr> in
     bnd (create_project_target env tgt 60) (\<lambda>_.
     bnd (map_each tests_name (\<lambda>n. get_target_test_id env n tgt 60)) (\<lambda>tests_id.
       run_tests env resultsdir tgt tests_id timeout))))))))))"

section \<open>Client and image of the server\<close>

definition install_hlk_client :: "'w genv \<Rightarrow> string \<Rightarrow> int \<Rightarrow> ('w gst, unit) py" where
  "install_hlk_client env server_mac timeout =
     bnd (fw_unit env ''vm_client.wait_for_login'' [PInt 600]) (\<lambda>_.
     bnd (fw_unit env ''vm_server.wait_for_login'' [PInt 600]) (\<lambda>_.
     bnd (fw_str env ''get_guest_ip_addr'' [PStr server_mac, PStr ''windows'']) (\<lambda>server_ip.
     bnd (sh_cmd env (''REG DELETE HKCR'' @ [CHR 0x5C] @ ''pysFile /f'') None) (\<lambda>_.
     bnd (sh_cmd env ([CHR 0x5C, CHR 0x5C] @ server_ip @ [CHR 0x5C] @ ''HLKInstall'' @ [CHR 0x5C] @ ''Client'' @ [CHR 0x5C] @ ''Setup.cmd /qn ICFAGREE=Yes'') (Some timeout)) (\<lambda>_.
       ret ())))))"

text \<open>\<open>(^http:)|(^https:)|(^ftp")|(^ftps:")\<close>, with the quotation marks of the source.\<close>

definition uri_supported :: "string \<Rightarrow> bool" where
  "uri_supported uri \<longleftrightarrow> startswith uri ''http:'' \<or> startswith uri ''https:'' \<or> startswith uri (''ftp'' @ [CHR 0x22]) \<or> startswith uri (''ftps:'' @ [CHR 0x22])"

definition fetch_image :: "'w genv \<Rightarrow> string \<Rightarrow> string \<Rightarrow> int \<Rightarrow> ('w gst, unit) py" where
  "fetch_image env uri dst timeout =
     bnd (fw_str env ''process.run'' [PStr (''curl -I -L -k -m 120 '' @ uri)]) (\<lambda>out.
       if sublist ''File not found'' out then throw (HLKError (''Invalid URI '' @ uri @ ''.''))
       else fw_unit env ''process.run'' [PStr (''curl -o '' @ dst @ '' '' @ uri), PInt timeout])"

definition image_dict :: "string \<Rightarrow> pydict res" where
  "image_dict out =
     (case loads out of
        None \<Rightarrow> Inl (ValueError ''JSONDecodeError'')
      | Some v \<Rightarrow>
          rbind (item v ''filename'') (\<lambda>f. rbind (item v ''virtual-size'') (\<lambda>n. rbind (item v ''format'') (\<lambda>fmt.
            Inr [(''image_name'', PStr (hd (split_char (CHR ''.'') (py_str f)))), (''image_size'', n), (''image_format'', fmt)]))))"

text \<open>The name of an image has no slash, so the directory of its path is the directory of the images.\<close>

definition download_hlk_server_image :: "'w genv \<Rightarrow> string \<Rightarrow> string \<Rightarrow> int \<Rightarrow> ('w gst, pydict) py" where
  "download_hlk_server_image env data_dir src_img_uri timeout =
     (if \<not> uri_supported src_img_uri then throw (HLKError (''No supported URI: '' @ src_img_uri @ ''.''))
      else
        (let dst_img_dir = path_join data_dir ''images''; dst_img_path = path_join dst_img_dir (last (split_char (CHR ''/'') src_img_uri)) in
         bnd (fw env ''os.path.exists'' [PStr dst_img_path]) (\<lambda>there.
         bnd (if truthy there then ret () else fetch_image env src_img_uri dst_img_path timeout) (\<lambda>_.
         bnd (fw env ''is_archive'' [PStr dst_img_path]) (\<lambda>packed.
         bnd (if truthy packed then bnd (fw_str env ''uncompress'' [PStr dst_img_path, PStr dst_img_dir]) (\<lambda>n. ret (path_join dst_img_dir n)) else ret dst_img_path) (\<lambda>path.
         bnd (fw_str env ''get_qemu_img_binary'' []) (\<lambda>qemu_binary.
         bnd (fw_str env ''process.run'' [PStr (qemu_binary @ '' info '' @ path @ '' --output=json'')]) (\<lambda>out. lift_res (image_dict out)))))))))"

section \<open>Lines and texts\<close>

text \<open>A text without line ends that occurs in a text occurs in one of its lines.\<close>

lemma sublist_around: "sublist p (u @ c # v) \<Longrightarrow> c \<notin> set p \<Longrightarrow> sublist p u \<or> sublist p v"
  by (auto simp: sublist_append sublist_Cons_right prefix_Cons dest: suffix_imp_sublist)

lemma splitlines_acc_contains:
  assumes "p \<noteq> []" "\<forall>c \<in> set p. \<not> is_line_end c"
  shows "sublist p (rev acc @ s) \<Longrightarrow> \<exists>l \<in> set (splitlines_acc acc s). sublist p l"
proof (induction acc s rule: splitlines_acc.induct)
  case (1 acc)
  then show ?case using assms(1) by auto
next
  case (2 acc c cs)
  show ?case
  proof (cases "is_line_end c")
    case False
    then show ?thesis using 2 by auto
  next
    case True
    then have c: "c \<notin> set p" using assms(2) by auto
    from sublist_around[OF 2(5) c] consider (line) "sublist p (rev acc)" | (rest) "sublist p cs" by blast
    then show ?thesis
    proof cases
      case line
      then show ?thesis using True by simp
    next
      case rest
      show ?thesis
      proof (cases cs)
        case (Cons d ds)
        show ?thesis
        proof (cases "c = CHR 0x0D \<and> d = CHR 0x0A")
          case both: True
          then have "d \<notin> set p" using assms(2) by (auto simp: is_line_end_def)
          then have "sublist p ds" using rest Cons sublist_around[of p "[]" d ds] assms(1) by auto
          then show ?thesis using 2(2)[OF True Cons both] True Cons both by auto
        next
          case False
          then show ?thesis using 2(3)[OF True Cons] rest True Cons by auto
        qed
      qed (use rest assms(1) in simp)
    qed
  qed
qed

lemma no_error_lines: "error_lines results = [] \<Longrightarrow> \<not> sublist error_mark results"
  using splitlines_acc_contains[of error_mark "[]" results]
  by (auto simp: error_lines_def splitlines_def error_mark_def is_line_end_def filter_empty_conv)

section \<open>Properties\<close>

lemma queued: "for_each ids (queue_test env tgt) t = (Inr u, t') \<Longrightarrow> acts t' = acts t @ map (\<lambda>i. Sh (queue_cmd tgt i)) ids"
proof (induction ids arbitrary: t)
  case (Cons i ids)
  from Cons.prems obtain u1 t1 where 1: "queue_test env tgt i t = (Inr u1, t1)" and 2: "for_each ids (queue_test env tgt) t1 = (Inr u, t')"
    by (auto elim!: bnd_InrE)
  from 1 have "acts t1 = acts t @ [Sh (queue_cmd tgt i)]" by (auto simp: queue_test_def ret_def elim!: bnd_InrE dest!: sh_output_Inr)
  then show ?case using Cons.IH[OF 2] by simp
qed (simp add: ret_def)

lemma project_stopped_True:
  "project_stopped env name t = (Inr True, t') \<Longrightarrow>
     \<exists>s out ps d. g_shell env ''listprojects'' (Some 60) (shworld t) = (Inr (s, out), shworld t') \<and> json_lines out = Inr ps
       \<and> find_named ''project_name'' name ps = Inr (Some (PDict d)) \<and> dget d ''status'' = Some (PStr ''NotRunning'')"
  by (auto simp: project_stopped_def get_project_def list_projects_def lift_res_def ret_def of_option_def item_def split: option.splits pyval.splits sum.splits
      elim!: bnd_InrE dest!: sh_output_Inr)

definition answer :: "'w genv \<Rightarrow> hlk_target \<Rightarrow> string \<Rightarrow> string \<Rightarrow> bool" where
  "answer env tgt i out \<longleftrightarrow> (\<exists>w s w'. g_shell env (results_cmd tgt i) None w = (Inr (s, out), w'))"

lemma results_answered:
  "map_each ids (test_results env tgt host_path) t = (Inr outs, t') \<Longrightarrow> list_all2 (answer env tgt) ids outs"
proof (induction ids arbitrary: t outs t')
  case (Cons i ids)
  from Cons.prems obtain out t1 os t2 where 1: "test_results env tgt host_path i t = (Inr out, t1)"
    and 2: "map_each ids (test_results env tgt host_path) t1 = (Inr os, t2)" and o: "outs = out # os"
    by (auto simp: ret_def elim!: bnd_InrE)
  from 1 obtain u where "sh_output env (results_cmd tgt i) None t = (Inr out, u)"
    by (auto simp: test_results_def list_test_results_def ret_def elim!: bnd_InrE)
  then have "answer env tgt i out" unfolding answer_def using sh_output_Inr by blast
  then show ?case using Cons.IH[OF 2] o by simp
qed (simp add: ret_def)

definition project_seen_stopped :: "'w genv \<Rightarrow> string \<Rightarrow> bool" where
  "project_seen_stopped env name \<longleftrightarrow> (\<exists>w s out w' ps d. g_shell env ''listprojects'' (Some 60) w = (Inr (s, out), w') \<and> json_lines out = Inr ps
     \<and> find_named ''project_name'' name ps = Inr (Some (PDict d)) \<and> dget d ''status'' = Some (PStr ''NotRunning''))"

lemma wait_stopped: "wait_until env n (project_stopped env name) t = (Inr True, t') \<Longrightarrow> project_seen_stopped env name"
  unfolding wait_until_def
proof (erule bnd_InrE)
  fix k u
  assume "polls k (project_stopped env name) u = (Inr True, t')"
  from polls_True[OF this] obtain v where "project_stopped env name v = (Inr True, t')" by (rule exE)
  from project_stopped_True[OF this] show ?thesis unfolding project_seen_stopped_def by (elim exE) (intro exI)
qed

lemma map_each_grows: "(\<And>x. moves acts_grow (f x)) \<Longrightarrow> moves acts_grow (map_each xs f)"
  by (induction xs) (auto intro!: done_acts.composed)

lemma hlk_grows:
  "moves acts_grow (project_stopped env name)" "moves acts_grow (list_tests_results env dir tgt ids)"
proof -
  show "moves acts_grow (project_stopped env name)"
    unfolding project_stopped_def get_project_def list_projects_def by (intro done_acts.composed sh_grows)
  have "moves acts_grow (test_results env tgt host_path i)" for host_path i
    unfolding test_results_def list_test_results_def upload_logs_def zip_test_result_logs_def by (intro done_acts.composed sh_grows fw_grows)
  then show "moves acts_grow (list_tests_results env dir tgt ids)"
    unfolding list_tests_results_def Let_def by (intro done_acts.composed fw_grows map_each_grows)
qed

lemma run_tests_Inr:
  assumes "run_tests env dir tgt ids n t = (Inr u, t')"
  shows "\<exists>outs rest. acts t' = acts t @ map (\<lambda>i. Sh (queue_cmd tgt i)) ids @ rest \<and> project_seen_stopped env (h_project tgt)
    \<and> list_all2 (answer env tgt) ids outs \<and> \<not> sublist error_mark (concat outs)"
proof -
  obtain t1 t2 results where q: "for_each ids (queue_test env tgt) t = (Inr (), t1)" and w: "wait_until env n (project_stopped env (h_project tgt)) t1 = (Inr True, t2)"
    and r: "list_tests_results env dir tgt ids t2 = (Inr results, t')" and e: "error_lines results = []"
    using assms by (auto simp: run_tests_def throw_def ret_def elim!: bnd_InrE split: if_splits)
  from r obtain outs host_path u where "map_each ids (test_results env tgt host_path) u = (Inr outs, t')" "results = concat outs"
    by (auto simp: list_tests_results_def Let_def ret_def elim!: bnd_InrE)
  moreover obtain as bs where "acts t2 = acts t1 @ as" "acts t' = acts t2 @ bs"
    using movesD[OF wait_grows[OF hlk_grows(1)] w] movesD[OF hlk_grows(2) r] by (auto simp: acts_grow_def)
  ultimately have "acts t' = acts t @ map (\<lambda>i. Sh (queue_cmd tgt i)) ids @ (as @ bs)" "list_all2 (answer env tgt) ids outs" "\<not> sublist error_mark (concat outs)"
    using queued[OF q] results_answered no_error_lines[OF e] by auto
  with wait_stopped[OF w] show ?thesis by blast
qed

lemma tests_listed:
  "map_each ns (\<lambda>n. get_target_test_id env n tgt 60) v = (Inr ids, v') \<Longrightarrow>
     length ids = length ns \<and> acts v' = acts v @ replicate (length ns) (Sh (join '' '' (''listtests'' # target_words tgt)))"
proof (induction ns arbitrary: v ids v')
  case (Cons m ns)
  from Cons.prems obtain i v1 js v2 where 1: "get_target_test_id env m tgt 60 v = (Inr i, v1)" and 2: "map_each ns (\<lambda>n. get_target_test_id env n tgt 60) v1 = (Inr js, v2)"
    and j: "ids = i # js" "v2 = v'" by (auto simp: ret_def elim!: bnd_InrE)
  from 1 have "acts v1 = acts v @ [Sh (join '' '' (''listtests'' # target_words tgt))]"
    by (auto simp: get_target_test_id_def get_target_test_def list_tests_def lift_res_def elim!: bnd_InrE dest!: sh_output_Inr)
  then show ?case using Cons.IH[OF 2] j by simp
qed (simp add: ret_def)

lemma sublist_of_concat: "x \<in> set xs \<Longrightarrow> sublist x (concat xs)"
  by (auto simp: sublist_def dest!: split_list) blast

lemma machine_keeps:
  "(case machines of [] \<Rightarrow> throw IndexError | m # _ \<Rightarrow> lift_res (rbind (item m ''machine_name'') (\<lambda>v. Inr (py_str v)))) s = (Inr x, s') \<Longrightarrow> s' = s"
  by (auto simp: throw_def lift_res_def split: list.splits)

lemma told: "tell env ws k v = (Inr x, v') \<Longrightarrow> acts v' = acts v @ [Sh (join '' '' ws)]"
  by (auto simp: tell_def ret_def elim!: bnd_InrE dest!: sh_output_Inr)



text \<open>An address of the file transfer protocol is refused, since its pattern has a quotation mark in it.\<close>

lemma ftp_refused: "download_hlk_server_image env d (''ftp://'' @ uri) n t = (Inl (HLKError (''No supported URI: ftp://'' @ uri @ ''.'')), t)"
  by (simp add: download_hlk_server_image_def uri_supported_def startswith_def throw_def)

section \<open>A server\<close>

text \<open>A server with one machine, one target and one test, which ran without errors.\<close>

definition json_object :: "(string \<times> string) list \<Rightarrow> string" where
  "json_object ps = ''{'' @ join '', '' (map (\<lambda>(k, v). [CHR 0x22] @ k @ [CHR 0x22] @ '': '' @ [CHR 0x22] @ v @ [CHR 0x22]) ps) @ ''}''"

definition hlk_answers :: "string \<Rightarrow> string" where
  "hlk_answers c =
     (if startswith c ''getd'' then json_object [(''machine_name'', ''m1'')] else if startswith c ''listm'' then ''disk,k&1,t''
      else if startswith c ''listp'' then json_object [(''project_name'', ''p''), (''status'', ''NotRunning'')]
      else if startswith c ''listtests'' then json_object [(''test_name'', ''a''), (''test_id'', ''7'')] else ''passed'')"

definition hlk_host :: "unit genv" where
  "hlk_host = \<lparr>g_shell = (\<lambda>c n w. (Inr (0, hlk_answers c), w)), g_call = (\<lambda>name args w. (Inr (PBool True), w)), g_rounds = (\<lambda>n w. 2)\<rparr>"

abbreviation hlk_tgt :: hlk_target where
  "hlk_tgt \<equiv> \<lparr>h_key = [CHR ''k'', CHR 0x22, CHR ''&'', CHR 0x22, CHR ''1''], h_project = ''p'', h_machine = ''m1'', h_pool = ''q''\<rparr>"

lemma host_answers: "sh_output hlk_host c n t = (Inr (hlk_answers c), t\<lparr>acts := acts t @ [Sh c]\<rparr>)"
  by (simp add: sh_output_def sh_so_def doing_def hlk_host_def bnd_def ret_def)

lemma host_calls: "fw hlk_host c as t = (Inr (PBool True), t\<lparr>acts := acts t @ [Call c as]\<rparr>)"
  by (simp add: fw_def doing_def hlk_host_def)

lemma answers_parsed:
  "json_lines (hlk_answers ''getdefaultpool'') = Inr [PDict [(''machine_name'', PStr ''m1'')]]"
  "json_lines (hlk_answers ''listprojects'') = Inr [PDict [(''project_name'', PStr ''p''), (''status'', PStr ''NotRunning'')]]"
  "json_lines (hlk_answers (join '' '' (''listtests'' # target_words hlk_tgt))) = Inr [PDict [(''test_name'', PStr ''a''), (''test_id'', PStr ''7'')]]"
  "find_target ''disk'' (splitlines (hlk_answers (join '' '' [''listmachinetargets'', ''m1'', ''q'']))) = Inr (Some [''disk'', ''k&1'', ''t''])"
  "hlk_answers (results_cmd hlk_tgt ''7'') = ''passed''" "find_all index_pat ''passed'' = []" "error_lines ''passed'' = []"
  "replace_str ''&'' [CHR 0x22, CHR ''&'', CHR 0x22] ''k&1'' = h_key hlk_tgt"
  by code_simp+

lemma host_tells: "tell hlk_host ws n t = (Inr (), t\<lparr>acts := acts t @ [Sh (join '' '' ws)]\<rparr>)"
  by (simp add: tell_def bnd_def host_answers ret_def)

lemma host_runs:
  "\<exists>t'. run_tests hlk_host dir hlk_tgt [''7''] n t = (Inr (), t')"
proof -
  have q: "queue_test hlk_host hlk_tgt i t = (Inr (), t\<lparr>acts := acts t @ [Sh (queue_cmd hlk_tgt i)]\<rparr>)" for i t
    by (simp add: queue_test_def bnd_def host_answers ret_def)
  have s: "project_stopped hlk_host ''p'' t = (Inr True, t\<lparr>acts := acts t @ [Sh ''listprojects'']\<rparr>)" for t
    by (simp add: project_stopped_def get_project_def list_projects_def bnd_def host_answers answers_parsed lift_res_def ret_def item_def of_option_def dindex_def)
  have r: "g_rounds hlk_host = (\<lambda>n w. 2)" by (simp add: hlk_host_def)
  have "wait_until hlk_host n (project_stopped hlk_host ''p'') t = (Inr True, t\<lparr>acts := acts t @ [Sh ''listprojects'']\<rparr>)" for t
    using r by (simp add: wait_until_def gets_def bnd_def numeral_2_eq_2 s ret_def)
  moreover obtain t' where "list_tests_results hlk_host dir hlk_tgt [''7''] (t\<lparr>acts := acts t @ [Sh (queue_cmd hlk_tgt ''7''), Sh ''listprojects'']\<rparr>) = (Inr ''passed'', t')"
    by (simp add: list_tests_results_def Let_def bnd_def host_calls ret_def test_results_def list_test_results_def host_answers answers_parsed)
  ultimately show ?thesis by (simp add: run_tests_def bnd_def q ret_def answers_parsed)
qed


end
