(* ===== verification/Slof.thy ===== *)
theory Slof
  imports Guest_Shell
begin

text \<open>
  The firmware of a pSeries machine (\<^verbatim>\<open>provider/slof.py\<close>): its part of the serial log, read again and again while the machine boots, and the device it booted
  from.  The serial log is a list of lines, each with its line end.
\<close>

section \<open>Patterns\<close>

fun suffixes_of :: "string \<Rightarrow> string list" where
  "suffixes_of [] = [[]]"
| "suffixes_of (c # s) = (c # s) # suffixes_of s"

text \<open>\<open>\s+SLOF\S+\s+\*+\<close> and \<open>\s+Successfully loaded$\<close>, searched in a line.\<close>

definition start_at :: "string \<Rightarrow> bool" where
  "start_at s \<longleftrightarrow>
     (case s of
        [] \<Rightarrow> False
      | c # r \<Rightarrow>
          is_ws c \<and> startswith r ''SLOF'' \<and>
          (let r1 = drop 4 r; r2 = dropWhile (\<lambda>c. \<not> is_ws c) r1; r3 = dropWhile is_ws r2 in r2 \<noteq> r1 \<and> r3 \<noteq> r2 \<and> startswith r3 ''*''))"

definition START_PATTERN :: "string \<Rightarrow> bool" where
  "START_PATTERN line \<longleftrightarrow> list_ex start_at (suffixes_of line)"

definition end_at :: "string \<Rightarrow> bool" where
  "end_at s \<longleftrightarrow> (case s of [] \<Rightarrow> False | c # r \<Rightarrow> is_ws c \<and> (r = ''Successfully loaded'' \<or> r = ''Successfully loaded'' @ [CHR 0x0A]))"

definition END_PATTERN :: "string \<Rightarrow> bool" where
  "END_PATTERN line \<longleftrightarrow> list_ex end_at (suffixes_of line)"

section \<open>The serial log\<close>

text \<open>The loop over the lines from a position on: the content so far and the position of the last start line.\<close>

fun scan_log :: "(string \<Rightarrow> bool) \<Rightarrow> (string \<Rightarrow> bool) \<Rightarrow> nat \<Rightarrow> nat \<Rightarrow> string list \<Rightarrow> nat \<Rightarrow> string list \<Rightarrow> string list option \<times> nat" where
  "scan_log start_str end_str start_pos pos content start_str_pos [] = (None, start_str_pos)"
| "scan_log start_str end_str start_pos pos content start_str_pos (line # lines) =
     (if pos \<ge> start_pos then
        (if start_str line then scan_log start_str end_str start_pos (Suc pos) (content @ [line]) pos lines
         else if content \<noteq> [] then
           (if end_str line then (Some (content @ [line]), Suc pos)
            else scan_log start_str end_str start_pos (Suc pos) (content @ [line]) start_str_pos lines)
         else scan_log start_str end_str start_pos (Suc pos) content start_str_pos lines)
      else scan_log start_str end_str start_pos (Suc pos) content (Suc pos) lines)"

definition get_boot_content :: "(string \<Rightarrow> bool) \<Rightarrow> (string \<Rightarrow> bool) \<Rightarrow> nat \<Rightarrow> string list \<Rightarrow> string list option \<times> nat" where
  "get_boot_content start_str end_str start_pos log = scan_log start_str end_str start_pos 0 [] 0 log"

text \<open>Reading the log, with the errors of opening it; the number of rounds that the timeout allows is a parameter.\<close>

definition read_log :: "'w genv \<Rightarrow> ('w gst, string list) py" where
  "read_log env = bnd (fw env ''open'' [PStr ''serial_console_log'']) (\<lambda>v. ret (case v of PList ls \<Rightarrow> map py_str ls | _ \<Rightarrow> []))"

fun read_rounds :: "'w genv \<Rightarrow> (string \<Rightarrow> bool) \<Rightarrow> (string \<Rightarrow> bool) \<Rightarrow> nat \<Rightarrow> nat \<Rightarrow> ('w gst, string list \<times> nat) py" where
  "read_rounds env start_str end_str 0 start_pos = throw (TestFail ''No found corresponding SLOF info in serial log'')"
| "read_rounds env start_str end_str (Suc n) start_pos =
     bnd (read_log env) (\<lambda>log.
       case get_boot_content start_str end_str start_pos log of
         (Some content, pos) \<Rightarrow> ret (content, pos)
       | (None, pos) \<Rightarrow> read_rounds env start_str end_str n pos)"

definition wait_for_loaded :: "'w genv \<Rightarrow> (string \<Rightarrow> bool) \<Rightarrow> (string \<Rightarrow> bool) \<Rightarrow> nat \<Rightarrow> int \<Rightarrow> ('w gst, string list \<times> nat) py" where
  "wait_for_loaded env start_str end_str start_pos timeout =
     bnd (wait_until env 30 (bnd (fw env ''os.path.isfile'' [PStr ''serial_console_log'']) (\<lambda>v. ret (truthy v)))) (\<lambda>found.
       if \<not> found then throw (TestError ''No found serial log in 30 sec.'')
       else bnd (gets (\<lambda>t. g_rounds env timeout (shworld t))) (\<lambda>n. read_rounds env start_str end_str n start_pos))"

section \<open>The boot device\<close>

text \<open>\<open>(\s+Trying to load:\s+from:\s)(/.+)(\s+\.\.\.)\<close>: the longest text from the slash that white space and three points follow.\<close>

fun longest_name :: "string \<Rightarrow> nat list \<Rightarrow> string option" where
  "longest_name s [] = None"
| "longest_name s (n # ns) = (let r = drop n s in if dropWhile is_ws r \<noteq> r \<and> startswith (dropWhile is_ws r) ''...'' then Some (take n s) else longest_name s ns)"

definition device_at :: "string \<Rightarrow> string option" where
  "device_at s =
     (case s of
        [] \<Rightarrow> None
      | c # r \<Rightarrow>
          if \<not> is_ws c \<or> \<not> startswith r ''Trying to load:'' then None
          else
            (let r1 = drop 15 r; r2 = dropWhile is_ws r1 in
             if r2 = r1 \<or> \<not> startswith r2 ''from:'' then None
             else
               (case drop 5 r2 of
                  w # r3 \<Rightarrow> if is_ws w \<and> startswith r3 ''/'' then longest_name r3 (rev [2 ..< Suc (length (takeWhile (\<lambda>c. c \<noteq> CHR 0x0A) r3))]) else None
                | [] \<Rightarrow> None)))"

fun first_some :: "('a \<Rightarrow> 'b option) \<Rightarrow> 'a list \<Rightarrow> 'b option" where
  "first_some f [] = None"
| "first_some f (x # xs) = (case f x of Some y \<Rightarrow> Some y | None \<Rightarrow> first_some f xs)"

definition booted_device :: "string \<Rightarrow> string option" where
  "booted_device line = first_some device_at (suffixes_of line)"

text \<open>The devices are numbered in the order of their lines.\<close>

definition get_booted_devices :: "string list \<Rightarrow> string list" where
  "get_booted_devices content = concat (map (\<lambda>l. case booted_device l of None \<Rightarrow> [] | Some d \<Rightarrow> [d]) content)"

definition name_char :: "char \<Rightarrow> bool" where
  "name_char c \<longleftrightarrow> (let n = (of_char c :: int) in (48 \<le> n \<and> n \<le> 57) \<or> (65 \<le> n \<and> n \<le> 90) \<or> (97 \<le> n \<and> n \<le> 122) \<or> c = CHR ''_'')"

text \<open>\<open>/\w+.{1}\w+@\<close> at the start of a text: what is left after the match, for the longest first part.\<close>

fun node_rest :: "string \<Rightarrow> nat list \<Rightarrow> string option" where
  "node_rest s [] = None"
| "node_rest s (n # ns) =
     (case drop n s of
        b # r \<Rightarrow>
          if b \<noteq> CHR 0x0A \<and> takeWhile name_char r \<noteq> [] \<and> startswith (dropWhile name_char r) ''@'' then Some (tl (dropWhile name_char r)) else node_rest s ns
      | [] \<Rightarrow> node_rest s ns)"

definition node_at :: "string \<Rightarrow> string option" where
  "node_at s = (case s of [] \<Rightarrow> None | c # r \<Rightarrow> if c = CHR ''/'' then node_rest r (rev [1 ..< Suc (length (takeWhile name_char r))]) else None)"

text \<open>\<open>pattern.split(name)\<close>.\<close>

function split_nodes :: "string \<Rightarrow> string \<Rightarrow> string list" where
  "split_nodes acc s =
     (case s of
        [] \<Rightarrow> [acc]
      | c # cs \<Rightarrow> (case node_at s of Some r \<Rightarrow> if length r < length s then acc # split_nodes [] r else [acc] | None \<Rightarrow> split_nodes (acc @ [c]) cs))"
  by pat_completeness auto
termination by (relation "measure (\<lambda>(acc, s). length s)") auto

declare split_nodes.simps [simp del]

text \<open>\<open>re.sub("^0x0?", "", addr)\<close>.\<close>

definition strip_hex :: "string \<Rightarrow> string" where
  "strip_hex a = (if startswith a ''0x0'' then drop 3 a else if startswith a ''0x'' then drop 2 a else a)"

definition part :: "string list \<Rightarrow> nat \<Rightarrow> string res" where
  "part xs i = (if i < length xs then Inr (xs ! i) else Inl IndexError)"

text \<open>The result is \<open>True\<close>, \<open>False\<close> or, when the addresses differ, \<open>None\<close>.\<close>

definition verify_boot_device :: "string list \<Rightarrow> string \<Rightarrow> string \<Rightarrow> string \<Rightarrow> string \<Rightarrow> nat \<Rightarrow> bool option res" where
  "verify_boot_device content parent_bus_type child_bus_type child_addr sub_child_addr position =
     (let addr = strip_hex child_addr; sub_addr = strip_hex sub_child_addr; devices = get_booted_devices content in
      if position < length devices then
        (let parts = split_nodes [] (devices ! position) in
         if parent_bus_type = ''pci'' then
           (if child_bus_type = ''scsi'' \<or> child_bus_type = ''ethernet'' then rbind (part parts 2) (\<lambda>p. Inr (if addr = p then Some True else None))
            else if child_bus_type = ''pci-bridge'' \<or> child_bus_type = ''usb'' then
              rbind (part parts 2) (\<lambda>p. if addr = p then rbind (part parts 3) (\<lambda>q. Inr (if sub_addr = q then Some True else None)) else Inr None)
            else Inr None)
         else if parent_bus_type = ''vdevice'' then
           (if child_bus_type = ''v-scsi'' \<or> child_bus_type = ''l-lan'' then rbind (part parts 1) (\<lambda>p. Inr (if addr = p then Some True else None)) else Inr None)
         else Inr (Some False))
      else Inr (Some False))"

definition check_error :: "string list \<Rightarrow> unit res" where
  "check_error content = (case filter (\<lambda>l. sublist ''error'' (lower l)) content of [] \<Rightarrow> Inr () | l # _ \<Rightarrow> Inl (TestFail (''Found errors: '' @ l)))"

section \<open>Properties\<close>

lemma scan_skip:
  "start_pos \<le> pos + length xs \<Longrightarrow> pos \<le> start_pos \<Longrightarrow>
   scan_log st en start_pos pos [] (if pos = 0 then 0 else pos) (xs @ ys) = scan_log st en start_pos start_pos [] start_pos (drop (start_pos - pos) xs @ ys)"
proof (induction xs arbitrary: pos)
  case (Cons x xs)
  then show ?case
  proof (cases "pos = start_pos")
    case False
    then have "scan_log st en start_pos (Suc pos) [] (if Suc pos = 0 then 0 else Suc pos) (xs @ ys) = scan_log st en start_pos start_pos [] start_pos (drop (start_pos - Suc pos) xs @ ys)"
      using Cons.prems by (intro Cons.IH) auto
    moreover have "start_pos - pos = Suc (start_pos - Suc pos)" using Cons.prems False by simp
    ultimately show ?thesis using Cons.prems False by simp
  qed simp
qed auto

lemma scan_no_start:
  "\<forall>l \<in> set xs. \<not> st l \<Longrightarrow> start_pos \<le> pos \<Longrightarrow> scan_log st en start_pos pos [] p (xs @ ys) = scan_log st en start_pos (pos + length xs) [] p ys"
  by (induction xs arbitrary: pos) auto

lemma scan_body:
  "\<forall>l \<in> set xs. \<not> st l \<and> \<not> en l \<Longrightarrow> start_pos \<le> pos \<Longrightarrow> c \<noteq> [] \<Longrightarrow>
   scan_log st en start_pos pos c p (xs @ ys) = scan_log st en start_pos (pos + length xs) (c @ xs) p ys"
  by (induction xs arbitrary: pos c) auto

lemma get_boot_from:
  assumes "start_pos \<le> length pre" "\<forall>l \<in> set (drop start_pos pre). \<not> st l"
  shows "get_boot_content st en start_pos (pre @ ys) = scan_log st en start_pos (length pre) [] start_pos ys"
  using scan_skip[of start_pos 0 pre st en ys] scan_no_start[OF assms(2), of start_pos start_pos en start_pos ys] assms(1) by (simp add: get_boot_content_def)

text \<open>C39.
  The part of the log that belongs to the firmware: from the first start line on, the lines up to the first end line, and the position after it.  Reading a log that
  has not got its end line yet gives the position of the start line, or the position the reading began at when there is no start line, and reading the
  longer log from there gives the same part as reading it from the beginning.
\<close>

theorem boot_content_resumes:
  assumes "start_pos \<le> length pre" "\<forall>l \<in> set (drop start_pos pre). \<not> st l" "st s" "\<forall>l \<in> set body. \<not> st l \<and> \<not> en l" "en e" "\<not> st e"
  shows "get_boot_content st en start_pos (pre @ s # body @ e # rest) = (Some (s # body @ [e]), length pre + length body + 2)
    \<and> (\<forall>k \<le> length body. get_boot_content st en start_pos (pre @ s # take k body) = (None, length pre)
        \<and> get_boot_content st en (length pre) (pre @ s # body @ e # rest) = (Some (s # body @ [e]), length pre + length body + 2))
    \<and> get_boot_content st en start_pos pre = (None, start_pos)"
proof (intro conjI allI impI)
  have go: "scan_log st en q (length pre) [] q (s # body @ e # rest) = (Some (s # body @ [e]), length pre + length body + 2)" if q: "q \<le> length pre" for q
    using q assms(3, 5, 6) scan_body[OF assms(4), of q "Suc (length pre)" "[s]" "length pre" "e # rest"] by simp
  show "get_boot_content st en start_pos (pre @ s # body @ e # rest) = (Some (s # body @ [e]), length pre + length body + 2)"
    using get_boot_from[OF assms(1, 2)] go[OF assms(1)] by simp
  show "get_boot_content st en (length pre) (pre @ s # body @ e # rest) = (Some (s # body @ [e]), length pre + length body + 2)" for k :: nat
    using get_boot_from[of "length pre" pre st en] go[of "length pre"] by simp
  show "get_boot_content st en start_pos pre = (None, start_pos)" using get_boot_from[OF assms(1, 2), of en "[]"] by simp
  fix k
  have "\<forall>l \<in> set (take k body). \<not> st l \<and> \<not> en l" using assms(4) in_set_takeD by fast
  from scan_body[OF this, of start_pos "Suc (length pre)" "[s]" "length pre" "[]"]
  show "get_boot_content st en start_pos (pre @ s # take k body) = (None, length pre)"
    using get_boot_from[OF assms(1, 2), of en "s # take k body"] assms(1, 3) by simp
qed

text \<open>The path of a device behind a PCI bus: names of at least three characters, addresses and names of word characters.\<close>

definition node :: "string \<Rightarrow> string \<Rightarrow> string" where
  "node x b = ''/'' @ x @ ''@'' @ b"

definition plain_node :: "string \<Rightarrow> string \<Rightarrow> bool" where
  "plain_node x b \<longleftrightarrow> 3 \<le> length x \<and> list_all name_char x \<and> list_all name_char b"

definition boot_line :: "string \<Rightarrow> string" where
  "boot_line name = '' Trying to load:  from: '' @ name @ '' ...'' @ [CHR 0x0A]"

lemma name_char_no: "\<not> name_char (CHR ''/'')" "\<not> name_char (CHR ''@'')"
  by (simp_all add: name_char_def)

lemma take_words: "list_all name_char b \<Longrightarrow> rest = [] \<or> \<not> name_char (hd rest) \<Longrightarrow> takeWhile name_char (b @ rest) = b \<and> dropWhile name_char (b @ rest) = rest"
  by (induction b) (auto simp: list_all_iff, (cases rest; simp)+)

lemma node_at_plain:
  assumes "plain_node x b" "rest = [] \<or> hd rest = CHR ''/''"
  shows "node_at (node x b @ rest) = Some (b @ rest)"
proof -
  have len: "3 \<le> length x" using assms(1) by (simp add: plain_node_def)
  obtain x1 d where x1: "x = x1 @ [d]" using len by (cases x rule: rev_cases) auto
  obtain y c where y: "x1 = y @ [c]" using len x1 by (cases x1 rule: rev_cases) auto
  have x: "x = y @ [c, d]" "y \<noteq> []" using len x1 y by auto
  have w: "list_all name_char x" "list_all name_char b" "name_char d" "c \<noteq> CHR 0x0A" using assms(1) x by (auto simp: plain_node_def name_char_def)
  have t: "takeWhile name_char (x @ ''@'' @ b @ rest) = x" using take_words[OF w(1), of "''@'' @ b @ rest"] name_char_no by simp
  have r: "rev [1 ..< Suc (length x)] = length x # Suc (length y) # length y # rev [1 ..< length y]"
    using x(2) by (simp add: x(1) Suc_le_eq)
  have e: "rest = [] \<or> \<not> name_char (hd rest)" "\<not> startswith rest ''@''" using assms(2) name_char_no by (cases rest; auto simp: startswith_def)+
  have 1: "\<not> startswith (dropWhile name_char (b @ rest)) ''@''" using take_words[OF w(2) e(1)] e(2) by simp
  have 2: "takeWhile name_char (''@'' @ b @ rest) = []" using name_char_no by simp
  have 3: "takeWhile name_char (d # ''@'' @ b @ rest) = [d]" "dropWhile name_char (d # ''@'' @ b @ rest) = ''@'' @ b @ rest" using w(3) name_char_no by simp_all
  show ?thesis unfolding node_def node_at_def using t r w(4) 1 2 3 by (simp add: x(1) startswith_def)
qed

lemma split_nodes_word: "c \<noteq> CHR ''/'' \<Longrightarrow> split_nodes acc (c # s) = split_nodes (acc @ [c]) s"
  by (subst split_nodes.simps) (simp add: node_at_def)

lemma split_nodes_words: "list_all name_char b \<Longrightarrow> split_nodes acc (b @ rest) = split_nodes (acc @ b) rest"
proof (induction b arbitrary: acc)
  case (Cons c b)
  then have "c \<noteq> CHR ''/''" using name_char_no by auto
  then show ?case using Cons by (simp add: split_nodes_word)
qed simp

lemma split_nodes_node:
  assumes "plain_node x b" "rest = [] \<or> hd rest = CHR ''/''"
  shows "split_nodes acc (node x b @ rest) = acc # split_nodes b rest"
proof -
  have "split_nodes acc (node x b @ rest) = acc # split_nodes [] (b @ rest)"
    using node_at_plain[OF assms] by (subst split_nodes.simps) (simp add: node_def)
  then show ?thesis using split_nodes_words[of b "[]" rest] assms(1) by (simp add: plain_node_def)
qed

lemma booted_line:
  assumes "2 \<le> length name" "hd name = CHR ''/''" "list_all (\<lambda>c. \<not> is_ws c) name"
  shows "booted_device (boot_line name) = Some name"
proof -
  let ?r = "name @ '' ...'' @ [CHR 0x0A]"
  have ws: "is_ws (CHR '' '')" "is_ws (CHR 0x0A)" "\<not> is_ws (CHR ''.'')" "\<not> is_ws (CHR ''f'')" by (simp_all add: is_ws_def)
  have n: "CHR 0x0A \<notin> set name" using assms(3) ws(2) by (auto simp: list_all_iff)
  have l: "takeWhile (\<lambda>c. c \<noteq> CHR 0x0A) ?r = name @ '' ...''" using n by (subst takeWhile_append2) auto
  have u: "rev [2 ..< Suc (length (name @ '' ...''))] = (length name + 4) # (length name + 3) # (length name + 2) # (length name + 1) # length name # rev [2 ..< length name]"
    using assms(1) by (simp add: numeral_eq_Suc)
  have d: "longest_name ?r (rev [2 ..< Suc (length (name @ '' ...''))]) = Some name"
    unfolding u using ws by (simp add: startswith_def numeral_eq_Suc)
  have f: "startswith ?r ''/''" using assms(1, 2) by (cases name) (auto simp: startswith_def)
  have "device_at (boot_line name) = Some name" unfolding device_at_def boot_line_def using ws f d l by (simp add: startswith_def)
  then show ?thesis by (simp add: booted_device_def boot_line_def)
qed

text \<open>The boot device behind a PCI bus: when the firmware tried to load from the given paths, the check of a position reads the address of the second node of the path at
  that position; it is \<open>True\<close> exactly when this is the wanted address without its prefix, and \<open>None\<close>, not \<open>False\<close>, when it is another one.
\<close>

lemma boot_device_verdict:
  assumes "content = map (\<lambda>(x, b, y, c). boot_line (node x b @ node y c)) devs" "\<forall>(x, b, y, c) \<in> set devs. plain_node x b \<and> plain_node y c"
    and "position < length devs" "devs ! position = (x, b, y, c)"
  shows "verify_boot_device content ''pci'' ''scsi'' addr sub position = Inr (if strip_hex addr = c then Some True else None)"
proof -
  have word: "\<not> is_ws ch" if "name_char ch" for ch using that by (auto simp: name_char_def is_ws_def Let_def)
  have "booted_device (boot_line (node x b @ node y c)) = Some (node x b @ node y c)" if "plain_node x b" "plain_node y c" for x b y c
    using that word by (intro booted_line) (auto simp: node_def plain_node_def list_all_iff is_ws_def)
  then have "get_booted_devices content = map (\<lambda>(x, b, y, c). node x b @ node y c) ds" if "content = map (\<lambda>(x, b, y, c). boot_line (node x b @ node y c)) ds"
      "\<forall>(x, b, y, c) \<in> set ds. plain_node x b \<and> plain_node y c" for ds content
    using that by (induction ds arbitrary: content) (auto simp: get_booted_devices_def)
  from this[OF assms(1, 2)] have g: "get_booted_devices content = map (\<lambda>(x, b, y, c). node x b @ node y c) devs" .
  have "(x, b, y, c) \<in> set devs" using assms(3, 4) by (metis nth_mem)
  then have p: "plain_node x b" "plain_node y c" using assms(2) by auto
  have "split_nodes [] (node x b @ node y c) = [[], b, c]"
    using split_nodes_node[OF p(1), of "node y c" "[]"] split_nodes_node[OF p(2), of "[]" b] split_nodes.simps[of c "[]"] by (simp add: node_def)
  then show ?thesis using assms(3, 4) by (simp add: verify_boot_device_def g part_def Let_def)
qed

section \<open>Examples\<close>

lemma boot_device_verdict_example:
  "verify_boot_device [boot_line ''/pci@800000020000000/scsi@3''] ''pci'' ''scsi'' ''0x03'' [] 0 = Inr (Some True)"
proof -
  have h: "[boot_line ''/pci@800000020000000/scsi@3''] = map (\<lambda>(x, b, y, c). boot_line (node x b @ node y c)) [(''pci'', ''800000020000000'', ''scsi'', ''3'')]"
    "\<forall>(x, b, y, c) \<in> set [(''pci'', ''800000020000000'', ''scsi'', ''3'')]. plain_node x b \<and> plain_node y c"
    by (simp_all add: node_def plain_node_def name_char_def)
  show ?thesis using boot_device_verdict[OF h, of 0] by (simp add: strip_hex_def startswith_def)
qed

theorem boot_content_resumes_witness:
  "get_boot_content START_PATTERN END_PATTERN 1 [''x'', '' SLOF[0m ***'', ''  loading'', ''  Successfully loaded''] = (Some ['' SLOF[0m ***'', ''  loading'', ''  Successfully loaded''], 4)
   \<and> get_boot_content START_PATTERN END_PATTERN 1 [''x'', '' SLOF[0m ***''] = (None, 1)"
proof -
  have h: "(1 :: nat) \<le> length [''x'']" "\<forall>l \<in> set (drop 1 [''x'']). \<not> START_PATTERN l" "START_PATTERN '' SLOF[0m ***''" "\<forall>l \<in> set [''  loading'']. \<not> START_PATTERN l \<and> \<not> END_PATTERN l"
    "END_PATTERN ''  Successfully loaded''" "\<not> START_PATTERN ''  Successfully loaded''"
    by code_simp+
  show ?thesis using boot_content_resumes[OF h, of "[]"] by (auto dest: spec[of _ "0 :: nat"])
qed

end
