(* ===== verification/Viofs.thy ===== *)
theory Viofs
  imports Guest_Shell
begin

text \<open>
  Tests of shared directories (\<^verbatim>\<open>provider/virtio_fs_utils.py\<close>): writing a file in the guest and comparing its digest on both sides, folders, and the
  service of a Windows guest.
\<close>

abbreviation bslash :: string where "bslash \<equiv> [CHR 0x5C]"

abbreviation dquote :: string where "dquote \<equiv> [CHR 0x22]"

section \<open>Files and folders\<close>

definition get_virtiofs_driver_letter :: "'w genv \<Rightarrow> string \<Rightarrow> ('w gst, string) py" where
  "get_virtiofs_driver_letter env fs_target =
     bnd (fw env ''get_winutils_vol'' [PStr fs_target]) (\<lambda>v.
       if v = PNone then throw (TestFail ''Could not get virtio-fs mounted driver letter.'') else ret (py_str v))"

definition first_word :: "string \<Rightarrow> string res" where
  "first_word s = (case split_ws s of [] \<Rightarrow> Inl IndexError | w # _ \<Rightarrow> Inr w)"

fun dd_until_ready :: "'w genv \<Rightarrow> nat \<Rightarrow> string \<Rightarrow> ('w gst, unit) py" where
  "dd_until_ready env 0 cmd = throw (TestError ''Volume is not ready for io'')"
| "dd_until_ready env (Suc n) cmd =
     bnd (sh_so env cmd None) (\<lambda>so.
       if sublist (lower ''The system cannot find the file specified'') (lower (snd so)) then
         bnd (fw env ''sleep'' [PInt 2]) (\<lambda>_. dd_until_ready env n cmd)
       else if fst so \<noteq> 0 then throw (TestFail ''dd command failed on virtiofs.'') else ret ())"

definition compare_md5 :: "'w genv \<Rightarrow> string \<Rightarrow> string \<Rightarrow> int \<Rightarrow> ('w gst, unit) py" where
  "compare_md5 env cmd_md5_vm host_data io_timeout =
     bnd (sh_output env cmd_md5_vm (Some io_timeout)) (\<lambda>o1.
     bnd (lift_res (first_word o1)) (\<lambda>md5_guest.
     bnd (fw_str env ''process.run'' [PStr (''md5sum '' @ host_data), PInt io_timeout]) (\<lambda>o2.
     bnd (lift_res (first_word o2)) (\<lambda>md5_host.
       if md5_guest \<noteq> md5_host then throw (TestFail ''The md5 value of host is not same to guest.'') else ret ()))))"

definition win_path :: "string \<Rightarrow> string" where
  "win_path p = replace_str ''/'' bslash p"

definition io_windows :: "'w genv \<Rightarrow> pydict \<Rightarrow> string \<Rightarrow> string \<Rightarrow> string \<Rightarrow> int \<Rightarrow> ('w gst, string) py" where
  "io_windows env params fs_target test_file host_data io_timeout =
     bnd (get_virtiofs_driver_letter env fs_target) (\<lambda>letter.
     let fs_dest = letter @ '':''; guest_file = path_join fs_dest test_file in
     bnd (lift_res (pct (par_or params ''virtio_fs_cmd_dd'' ''dd if=/dev/random of=%s bslash=1M count=100'') [guest_file])) (\<lambda>dd.
     bnd (gets (\<lambda>t. g_rounds env io_timeout (shworld t))) (\<lambda>n.
     bnd (dd_until_ready env n dd) (\<lambda>_.
     bnd (lift_res (pct (par_or params ''cmd_md5'' ''%s: && md5sum.exe %s'') [letter, win_path guest_file])) (\<lambda>md5.
     bnd (compare_md5 env md5 host_data io_timeout) (\<lambda>_. ret fs_dest))))))"

definition io_linux :: "'w genv \<Rightarrow> pydict \<Rightarrow> string \<Rightarrow> string \<Rightarrow> int \<Rightarrow> ('w gst, unit) py" where
  "io_linux env params guest_file host_data io_timeout =
     bnd (lift_res (pct (par_or params ''virtio_fs_cmd_dd'' ''dd if=/dev/urandom of=%s bslash=1M count=100 iflag=fullblock'') [guest_file])) (\<lambda>dd.
     bnd (sh_cmd env dd (Some io_timeout)) (\<lambda>_.
     bnd (lift_res (pct (par_or params ''cmd_md5'' ''md5sum %s'') [guest_file])) (\<lambda>md5.
       compare_md5 env md5 host_data io_timeout)))"

text \<open>A folder that does not appear on the host is an entry in the log only.\<close>

definition create_sub_folder_test :: "'w genv \<Rightarrow> pydict \<Rightarrow> string \<Rightarrow> string \<Rightarrow> ('w gst, unit) py" where
  "create_sub_folder_test env params guest_dest host_dir =
     (let linux = dget params ''os_type'' = Some (PStr ''linux'');
          folder = par_or params ''sub_folder_name'' ''virtio_fs_folder_test'' in
      try_finally
        (bnd (sh_cmd env (if linux then ''mkdir -p '' @ guest_dest @ ''/'' @ folder @ ''/a''
                          else ''md '' @ win_path guest_dest @ bslash @ folder @ bslash @ ''a'') None) (\<lambda>_.
           fw_unit env ''os.path.exists'' [PStr (host_dir @ ''/'' @ folder @ ''/a'')]))
        (bnd (sh_cmd env (if linux then ''rm -rf '' @ guest_dest @ ''/'' @ folder
                          else ''rmdir /s/q '' @ guest_dest @ bslash @ folder) None) (\<lambda>_. ret ())))"

definition host_source :: "'w genv \<Rightarrow> pydict \<Rightarrow> ('w gst, string) py" where
  "host_source env params =
     bnd (fw_str env ''get_data_dir'' []) (\<lambda>data_dir.
     let fs_source = par_or params ''fs_source_dir'' ''virtio_fs_test/''; base_dir = par_or params ''fs_source_base_dir'' data_dir in
     ret (if startswith fs_source ''/'' then fs_source else path_join base_dir fs_source))"

definition basic_io_test :: "'w genv \<Rightarrow> pydict \<Rightarrow> ('w gst, unit) py" where
  "basic_io_test env params =
     (let test_file = par_or params ''virtio_fs_test_file'' ''virtio_fs_test_file'';
          windows = dget_default params ''os_type'' (PStr ''windows'') = PStr ''windows'';
          fs_target = par_or params ''fs_target'' ''myfs'' in
      bnd (par_num params ''fs_io_timeout'' 120) (\<lambda>io_timeout.
      bnd (host_source env params) (\<lambda>fs_source.
      let host_data = path_join fs_source test_file in
      if windows then
        bnd (io_windows env params fs_target test_file host_data io_timeout) (\<lambda>fs_dest. create_sub_folder_test env params fs_dest fs_source)
      else
        (let fs_dest = par_or params ''fs_dest'' (''/mnt/'' @ fs_target); guest_file = path_join fs_dest test_file in
         bnd (try_finally (io_linux env params guest_file host_data io_timeout)
                (bnd (sh_cmd env (''rm -rf '' @ guest_file) None) (\<lambda>_. ret ()))) (\<lambda>_.
           create_sub_folder_test env params fs_dest fs_source)))))"

section \<open>The test by another user\<close>

definition install_psexec :: "'w genv \<Rightarrow> ('w gst, string) py" where
  "install_psexec env =
     bnd (fw_str env ''get_deps_dir'' [PStr ''psexec'']) (\<lambda>d.
     let dest = ''%systemdrive%'' @ bslash in
     bnd (fw env ''copy_files_to'' [PStr (path_join d ''PsExec.exe''), PStr dest]) (\<lambda>_. ret (path_join dest ''PsExec.exe'')))"

definition psexec_cmd :: "string \<Rightarrow> string \<Rightarrow> string \<Rightarrow> string \<Rightarrow> string \<Rightarrow> string" where
  "psexec_cmd psexec domain user pwd bat = psexec @ '' /accepteula -u '' @ domain @ user @ '' -p '' @ pwd @ '' '' @ bat"

definition psexec_io :: "'w genv \<Rightarrow> pydict \<Rightarrow> string \<Rightarrow> string \<Rightarrow> string \<Rightarrow> string \<Rightarrow> int \<Rightarrow> ('w gst, unit) py" where
  "psexec_io env params cmd letter guest_file host_data io_timeout =
     try_finally
       (bnd (sh_cmd env cmd None) (\<lambda>_.
        bnd (lift_res (pct (par_or params ''cmd_md5'' ''%s: && md5sum.exe %s'') [letter, win_path guest_file])) (\<lambda>md5.
          compare_md5 env md5 host_data io_timeout)))
       (fw_unit env ''os.remove'' [PStr host_data])"

definition psexec_folder :: "'w genv \<Rightarrow> pydict \<Rightarrow> string \<Rightarrow> string \<Rightarrow> (string \<Rightarrow> string) \<Rightarrow> ('w gst, unit) py" where
  "psexec_folder env params fs_dest fs_source run_bat =
     (let bat = ''%systemdrive%'' @ bslash @ ''cmd_create_folder_test.bat'';
          folder = par_or params ''sub_folder_name'' ''virtio_fs_folder_test'' in
      try_finally
        (bnd (sh_cmd env (''echo md '' @ fs_dest @ bslash @ folder @ bslash @ ''a > '' @ bat) None) (\<lambda>_.
         bnd (sh_cmd env (run_bat bat) None) (\<lambda>_. fw_unit env ''os.path.exists'' [PStr (fs_source @ ''/'' @ folder @ ''/a'')])))
        (bnd (sh_cmd env (''rmdir /s /q '' @ fs_dest @ bslash @ folder) None) (\<lambda>_. ret ())))"

definition basic_io_test_via_psexec :: "'w genv \<Rightarrow> pydict \<Rightarrow> string \<Rightarrow> string \<Rightarrow> ('w gst, unit) py" where
  "basic_io_test_via_psexec env params usernm pwd =
     (if dget_default params ''os_type'' (PStr ''windows'') \<noteq> PStr ''windows'' then ret ()
      else
        (let test_file = par_or params ''virtio_fs_test_file'' ''virtio_fs_test_file'';
             bat = ''%systemdrive%'' @ bslash @ ''cmd_io_test.bat'' in
         bnd (par_num params ''fs_io_timeout'' 120) (\<lambda>io_timeout.
         bnd (host_source env params) (\<lambda>fs_source.
         bnd (fw env ''wait_for_login'' []) (\<lambda>_.
         bnd (get_virtiofs_driver_letter env (par_or params ''fs_target'' ''myfs'')) (\<lambda>letter.
         let fs_dest = letter @ '':''; guest_file = path_join fs_dest test_file in
         bnd (lift_res (pct (par_or params ''virtio_fs_cmd_dd_win'' (''C:'' @ bslash @ ''tools'' @ bslash @ ''dd.exe if=/dev/random of=%s bslash=1M count=100'')) [guest_file])) (\<lambda>dd.
         bnd (sh_cmd env (''echo '' @ dd @ '' > '' @ bat) (Some io_timeout)) (\<lambda>_.
         bnd (install_psexec env) (\<lambda>psexec.
         let dns = par_or params ''domain_dns'' []; domain = dns @ (if dns \<noteq> [] then bslash else []) in
         bnd (psexec_io env params (psexec_cmd psexec domain usernm pwd bat) letter guest_file (path_join fs_source test_file) io_timeout) (\<lambda>_.
           psexec_folder env params fs_dest fs_source (psexec_cmd psexec domain usernm pwd)))))))))))"

section \<open>The service of a Windows guest\<close>

text \<open>
  The file of a driver on the medium of the drivers: the medium must be of a known type, and drive, product and architecture must be found.
\<close>

definition media_file :: "'w genv \<Rightarrow> string \<Rightarrow> string \<Rightarrow> int option \<Rightarrow> exc \<Rightarrow> ('w gst, string) py" where
  "media_file env media_type file timeout unknown =
     bnd (fw env ''hasattr'' [PStr ''virtio_win'', PStr (''drive_letter_'' @ media_type)]) (\<lambda>known.
     if \<not> truthy known then throw unknown
     else
       bnd (fw env (''drive_letter_'' @ media_type) []) (\<lambda>letter.
       if \<not> truthy letter then throw (TestError ''Could not find virtio-win drive in guest'')
       else
         bnd (fw env (''product_dirname_'' @ media_type) []) (\<lambda>name.
         if \<not> truthy name then throw (TestError ''Could not get product dirname of the vm'')
         else
           bnd (fw env (''arch_dirname_'' @ media_type) []) (\<lambda>arch.
           if \<not> truthy arch then throw (TestError ''Could not get architecture dirname of the vm'')
           else
             (let middle = (if media_type = ''iso'' then py_str name @ bslash @ py_str arch else py_str arch @ bslash @ py_str name) in
              bnd (sh_cmd env (''dir /b /s '' @ py_str letter @ bslash @ file @ '' | findstr '' @ dquote @ bslash @ middle @ bslash @ bslash @ dquote) timeout) (\<lambda>out.
                ret (strip_set is_ws out)))))))"

text \<open>For a medium of an unknown type \<open>error\<close> is called with two arguments, and takes one.\<close>

definition get_viofs_exe_path :: "'w genv \<Rightarrow> pydict \<Rightarrow> ('w gst, string) py" where
  "get_viofs_exe_path env params =
     bnd (par params ''virtio_win_media_type'') (\<lambda>media. media_file env media ''virtiofs.exe'' None (TypeError ''error() takes one message''))"

definition query_viofs_service :: "'w genv \<Rightarrow> pydict \<Rightarrow> ('w gst, string) py" where
  "query_viofs_service env params = sh_output env (par_or params ''viofs_sc_query_cmd'' ''sc query VirtioFsSvc'') None"

definition installed :: "'w genv \<Rightarrow> string \<Rightarrow> ('w gst, bool) py" where
  "installed env cmd = bnd (sh_status env cmd) (\<lambda>s. ret (s = 0))"

definition install_winfsp :: "'w genv \<Rightarrow> pydict \<Rightarrow> ('w gst, unit) py" where
  "install_winfsp env params =
     bnd (par_num params ''cmd_timeout'' 120) (\<lambda>timeout.
     bnd (par params ''install_winfsp_path'') (\<lambda>path.
     bnd (lift_res (pct (par_or params ''check_winfsp_installed_cmd'' (''dir '' @ dquote @ ''%s'' @ dquote @ '' |findstr /I winfsp'')) [path])) (\<lambda>check_cmd.
     let install_cmd = par_or params ''install_winfsp_cmd'' (''msiexec /i WIN_UTILS:'' @ bslash @ ''winfsp.msi /qn'') in
     bnd (installed env check_cmd) (\<lambda>b.
       if b then ret ()
       else
         bnd (fw_str env ''set_winutils_letter'' [PStr install_cmd]) (\<lambda>cmd.
         bnd (sh_cmd env cmd (Some timeout)) (\<lambda>_.
         bnd (wait_until env 60 (installed env check_cmd)) (\<lambda>ok.
           if ok then ret () else throw (TestError ''Winfsp tool is not installed.'')))))))) "

definition stop_viofs_service :: "'w genv \<Rightarrow> pydict \<Rightarrow> ('w gst, unit) py" where
  "stop_viofs_service env params =
     bnd (query_viofs_service env params) (\<lambda>out.
       if sublist ''RUNNING'' out then bnd (sh_cmd env (par_or params ''viofs_sc_stop_cmd'' ''sc stop VirtioFsSvc'') None) (\<lambda>_. ret ()) else ret ())"

definition sc_create_default :: string where
  "sc_create_default = ''sc create VirtioFsSvc binpath='' @ dquote @ ''c:'' @ bslash @ ''virtiofs.exe'' @ dquote @ '' start=auto  depend='' @ dquote @ ''WinFsp.Launcher/VirtioFsDrv'' @ dquote
     @ '' DisplayName='' @ dquote @ ''Virtio FS Service'' @ dquote"

definition create_own_service :: "'w genv \<Rightarrow> pydict \<Rightarrow> string \<Rightarrow> ('w gst, unit) py" where
  "create_own_service env params exe_path =
     bnd (query_viofs_service env params) (\<lambda>out.
       if \<not> sublist ''not exist as an installed service'' out then ret ()
       else
         bnd (lift_res (pct (par_or params ''viofs_exe_copy_cmd'' (''xcopy %s C:'' @ bslash @ '' /Y'')) [exe_path])) (\<lambda>copy.
         bnd (sh_cmd env copy None) (\<lambda>_.
         bnd (sh_so env (par_or params ''viofs_sc_create_cmd'' sc_create_default) None) (\<lambda>so.
           if fst so \<noteq> 0 then throw (TestFail ''Failed to create virtiofs service'') else ret ()))))"

definition use_launcher :: "'w genv \<Rightarrow> pydict \<Rightarrow> string \<Rightarrow> ('w gst, unit) py" where
  "use_launcher env params exe_path =
     bnd (stop_viofs_service env params) (\<lambda>_.
     bnd (lift_res (pct (par_or params ''viofs_exe_copy_cmd'' (''xcopy %s C:'' @ bslash @ '' /Y'')) [exe_path])) (\<lambda>copy.
     bnd (sh_cmd env copy None) (\<lambda>_.
     bnd (par params ''viofs_sc_create_cmd'') (\<lambda>create.
     bnd (sh_output env create None) (\<lambda>out.
       if \<not> sublist ''completed successfully'' (lower out) then throw (TestFail ''MultiFS: Config WinFsp.Launcher failed'') else ret ())))))"

definition create_viofs_service :: "'w genv \<Rightarrow> pydict \<Rightarrow> string \<Rightarrow> ('w gst, unit) py" where
  "create_viofs_service env params service =
     bnd (install_winfsp env params) (\<lambda>_.
     bnd (get_viofs_exe_path env params) (\<lambda>exe_path.
     bnd (if service = ''VirtioFsSvc'' then create_own_service env params exe_path else ret ()) (\<lambda>_.
       if service = ''WinFSP.Launcher'' then use_launcher env params exe_path else ret ())))"

definition delete_viofs_serivce :: "'w genv \<Rightarrow> pydict \<Rightarrow> ('w gst, unit) py" where
  "delete_viofs_serivce env params =
     bnd (query_viofs_service env params) (\<lambda>out.
       if sublist ''not exist as an installed service'' out then ret ()
       else
         bnd (sh_status env (par_or params ''viofs_sc_delete_cmd'' ''sc delete VirtioFsSvc'')) (\<lambda>s.
           if s = 0 then ret () else throw (TestError ''Failed to delete the viofs service...'')))"

definition start_viofs_service :: "'w genv \<Rightarrow> pydict \<Rightarrow> ('w gst, unit) py" where
  "start_viofs_service env params =
     bnd (query_viofs_service env params) (\<lambda>out.
       if sublist ''RUNNING'' out then ret ()
       else
         bnd (sh_status env (par_or params ''viofs_sc_start_cmd'' ''sc start VirtioFsSvc'')) (\<lambda>s.
           if s = 0 then ret () else throw (TestError ''Failed to start the viofs service...'')))"

definition run_viofs_service :: "'w genv \<Rightarrow> pydict \<Rightarrow> ('w gst, unit) py" where
  "run_viofs_service env params =
     bnd (create_viofs_service env params ''VirtioFsSvc'') (\<lambda>_. start_viofs_service env params)"

section \<open>Debug logs\<close>

definition reg_commands :: "pydict \<Rightarrow> string \<Rightarrow> string \<Rightarrow> ('w gst, string list) py" where
  "reg_commands params operation reg =
     (let flags = sublist ''debugflags'' (lower reg); log = sublist ''debuglogfile'' (lower reg) in
      if operation = ''enable'' then
        bnd (par params ''viofs_debug_enable_cmd'') (\<lambda>a. bnd (par params ''viofs_log_enable_cmd'') (\<lambda>b. ret (if \<not> flags \<or> \<not> log then [a, b] else [])))
      else if operation = ''disable'' then
        bnd (par params ''viofs_debug_delete_cmd'') (\<lambda>a. bnd (par params ''viofs_log_delete_cmd'') (\<lambda>b. ret (if flags \<or> log then [a, b] else [])))
      else throw (TestError ''Please give a right operation.''))"

definition run_reg_cmd :: "'w genv \<Rightarrow> string \<Rightarrow> ('w gst, unit) py" where
  "run_reg_cmd env cmd = bnd (sh_so env cmd None) (\<lambda>so. if fst so \<noteq> 0 then throw (TestFail (''Fail command: '' @ cmd)) else ret ())"

definition operate_debug_log :: "'w genv \<Rightarrow> pydict \<Rightarrow> string \<Rightarrow> ('w gst, unit) py" where
  "operate_debug_log env params operation =
     bnd (sh_output env (par_or params ''viofs_reg_query_cmd'' (''reg query HKLM'' @ bslash @ ''Software'' @ bslash @ ''VirtIO-FS'')) None) (\<lambda>reg.
     bnd (reg_commands params operation reg) (\<lambda>cmds.
     bnd (for_each cmds (run_reg_cmd env)) (\<lambda>_.
       if cmds \<noteq> [] then fw_unit env ''reboot'' [] else ret ())))"

section \<open>What a test that returned has done\<close>

text \<open>The guest printed a digest for a command and the host printed the same one for its file right after it.\<close>

definition shares_content :: "'w genv \<Rightarrow> string \<Rightarrow> string \<Rightarrow> int \<Rightarrow> bool" where
  "shares_content env cmd host n \<longleftrightarrow>
     (\<exists>w1 s o1 w2 v w3 d. g_shell env cmd (Some n) w1 = (Inr (s, o1), w2)
        \<and> g_call env ''process.run'' [PStr (''md5sum '' @ host), PInt n] w2 = (Inr v, w3) \<and> first_word o1 = Inr d \<and> first_word (py_str v) = Inr d)"

lemma compare_md5_Inr:
  assumes "compare_md5 env cmd host n t = (Inr (), t')"
  shows "acts t' = acts t @ [Sh cmd, Call ''process.run'' [PStr (''md5sum '' @ host), PInt n]]
    \<and> shares_content env cmd host n"
proof -
  obtain o1 t1 d t2 o2 t3 e t4 where s: "sh_output env cmd (Some n) t = (Inr o1, t1)" and d: "lift_res (first_word o1) t1 = (Inr d, t2)"
    and c: "fw_str env ''process.run'' [PStr (''md5sum '' @ host), PInt n] t2 = (Inr o2, t3)"
    and h: "lift_res (first_word o2) t3 = (Inr e, t4)"
    and r: "(if d \<noteq> e then throw (TestFail ''The md5 value of host is not same to guest.'') else ret ()) t4 = (Inr (), t')"
    using assms unfolding compare_md5_def by (elim bnd_InrE)
  have "t2 = t1" "first_word o1 = Inr d" using d by (auto simp: lift_res_def)
  moreover have "t' = t3" "first_word o2 = Inr d" using h r by (auto simp: lift_res_def ret_def throw_def split: if_splits)
  ultimately show ?thesis using sh_output_Inr[OF s] fw_str_Inr[OF c] unfolding shares_content_def by (metis append.assoc append_Cons append_Nil)
qed

lemma folder_Inr:
  assumes "dget params ''os_type'' = Some (PStr ''linux'')" "create_sub_folder_test env params dest host t = (Inr (), t')"
  shows "\<exists>folder. acts t' = acts t @ [Sh (''mkdir -p '' @ dest @ ''/'' @ folder @ ''/a''), Call ''os.path.exists'' [PStr (host @ ''/'' @ folder @ ''/a'')],
    Sh (''rm -rf '' @ dest @ ''/'' @ folder)]"
proof -
  define folder where "folder = par_or params ''sub_folder_name'' ''virtio_fs_folder_test''"
  obtain o1 t1 t2 o2 where m: "sh_cmd env (''mkdir -p '' @ dest @ ''/'' @ folder @ ''/a'') None t = (Inr o1, t1)"
    and e: "fw_unit env ''os.path.exists'' [PStr (host @ ''/'' @ folder @ ''/a'')] t1 = (Inr (), t2)"
    and r: "sh_cmd env (''rm -rf '' @ dest @ ''/'' @ folder) None t2 = (Inr o2, t')"
    using assms by (auto simp: create_sub_folder_test_def Let_def folder_def ret_def dest!: finally_Inr elim!: bnd_InrE)
  show ?thesis using sh_cmd_Inr[OF m] fw_unit_Inr[OF e] sh_cmd_Inr[OF r] by auto
qed

lemma host_source_Inr: "host_source env params t = (Inr src, t') \<Longrightarrow> acts t' = acts t @ [Call ''get_data_dir'' []]"
  by (auto simp: host_source_def Let_def ret_def elim!: bnd_InrE dest!: fw_str_Inr)

lemma io_linux_Inr:
  assumes "io_linux env params file host n t = (Inr (), t')"
  shows "\<exists>dd md5. pct (par_or params ''cmd_md5'' ''md5sum %s'') [file] = Inr md5
    \<and> acts t' = acts t @ [Sh dd, Sh md5, Call ''process.run'' [PStr (''md5sum '' @ host), PInt n]]
    \<and> shares_content env md5 host n"
proof -
  obtain dd t1 out t2 md5 t3 where d: "lift_res (pct (par_or params ''virtio_fs_cmd_dd'' ''dd if=/dev/urandom of=%s bslash=1M count=100 iflag=fullblock'') [file]) t = (Inr dd, t1)"
    and c: "sh_cmd env dd (Some n) t1 = (Inr out, t2)" and m: "lift_res (pct (par_or params ''cmd_md5'' ''md5sum %s'') [file]) t2 = (Inr md5, t3)"
    and r: "compare_md5 env md5 host n t3 = (Inr (), t')"
    using assms unfolding io_linux_def by (elim bnd_InrE)
  show ?thesis using d m sh_cmd_Inr[OF c] compare_md5_Inr[OF r] by (auto simp: lift_res_def)
qed


section \<open>The life of the service\<close>

datatype svc_state = Absent | Stopped | Running

text \<open>What the service manager of the guest does with the commands of the parameters.\<close>

definition service_guest :: "'w genv \<Rightarrow> pydict \<Rightarrow> string \<Rightarrow> ('w \<Rightarrow> svc_state) \<Rightarrow> bool" where
  "service_guest env params copy svc \<longleftrightarrow>
     (\<forall>w. \<exists>s out. g_shell env (par_or params ''viofs_sc_query_cmd'' ''sc query VirtioFsSvc'') None w = (Inr (s, out), w)
        \<and> (sublist ''not exist as an installed service'' out \<longleftrightarrow> svc w = Absent) \<and> (sublist ''RUNNING'' out \<longleftrightarrow> svc w = Running))
   \<and> (\<forall>w. \<exists>out w'. g_shell env copy None w = (Inr (0, out), w') \<and> svc w' = svc w)
   \<and> (\<forall>w. svc w = Absent \<longrightarrow> (\<exists>out w'. g_shell env (par_or params ''viofs_sc_create_cmd'' sc_create_default) None w = (Inr (0, out), w') \<and> svc w' = Stopped))
   \<and> (\<forall>w. svc w = Stopped \<longrightarrow> (\<exists>out w'. g_shell env (par_or params ''viofs_sc_start_cmd'' ''sc start VirtioFsSvc'') None w = (Inr (0, out), w') \<and> svc w' = Running))
   \<and> (\<forall>w. svc w = Running \<longrightarrow> (\<exists>out w'. g_shell env (par_or params ''viofs_sc_stop_cmd'' ''sc stop VirtioFsSvc'') None w = (Inr (0, out), w') \<and> svc w' = Stopped))
   \<and> (\<forall>w. svc w \<noteq> Absent \<longrightarrow> (\<exists>out w'. g_shell env (par_or params ''viofs_sc_delete_cmd'' ''sc delete VirtioFsSvc'') None w = (Inr (0, out), w') \<and> svc w' = Absent))"

lemma query_run:
  assumes "service_guest env params copy svc"
  obtains out t1 where "query_viofs_service env params t = (Inr out, t1)" "shworld t1 = shworld t"
    "sublist ''not exist as an installed service'' out \<longleftrightarrow> svc (shworld t) = Absent" "sublist ''RUNNING'' out \<longleftrightarrow> svc (shworld t) = Running"
proof -
  obtain s out where "g_shell env (par_or params ''viofs_sc_query_cmd'' ''sc query VirtioFsSvc'') None (shworld t) = (Inr (s, out), shworld t)"
    "sublist ''not exist as an installed service'' out \<longleftrightarrow> svc (shworld t) = Absent" "sublist ''RUNNING'' out \<longleftrightarrow> svc (shworld t) = Running"
    using assms unfolding service_guest_def by blast
  then show ?thesis using that by (simp add: query_viofs_service_def sh_output_def sh_so_def doing_def bnd_def ret_def)
qed

lemma shell_run: "g_shell env c n (shworld t) = (Inr (k, out), w) \<Longrightarrow> \<exists>t'. sh_so env c n t = (Inr (k, out), t') \<and> shworld t' = w"
  by (simp add: sh_so_def doing_def)

lemma start_ok:
  assumes "service_guest env params copy svc" "svc (shworld t) \<noteq> Absent"
  shows "\<exists>t'. start_viofs_service env params t = (Inr (), t') \<and> svc (shworld t') = Running"
proof -
  obtain out t1 where q: "query_viofs_service env params t = (Inr out, t1)" "shworld t1 = shworld t" "sublist ''RUNNING'' out \<longleftrightarrow> svc (shworld t) = Running"
    using query_run[OF assms(1)] by metis
  show ?thesis
  proof (cases "svc (shworld t) = Running")
    case False
    then have "svc (shworld t1) = Stopped" using assms(2) q(2) by (cases "svc (shworld t)") auto
    then obtain o2 w where "g_shell env (par_or params ''viofs_sc_start_cmd'' ''sc start VirtioFsSvc'') None (shworld t1) = (Inr (0, o2), w)" "svc w = Running"
      using assms(1) unfolding service_guest_def by blast
    then obtain t2 where "sh_so env (par_or params ''viofs_sc_start_cmd'' ''sc start VirtioFsSvc'') None t1 = (Inr (0, o2), t2)" "shworld t2 = w" by (metis shell_run)
    then show ?thesis using q False \<open>svc w = Running\<close> by (simp add: start_viofs_service_def sh_status_def bnd_def ret_def)
  qed (use q in \<open>simp add: start_viofs_service_def bnd_def ret_def\<close>)
qed

lemma stop_ok:
  assumes "service_guest env params copy svc" "svc (shworld t) = Running"
  shows "\<exists>t'. stop_viofs_service env params t = (Inr (), t') \<and> svc (shworld t') = Stopped"
proof -
  obtain out t1 where q: "query_viofs_service env params t = (Inr out, t1)" "shworld t1 = shworld t" "sublist ''RUNNING'' out" using query_run[OF assms(1)] assms(2) by metis
  obtain o2 w where "g_shell env (par_or params ''viofs_sc_stop_cmd'' ''sc stop VirtioFsSvc'') None (shworld t1) = (Inr (0, o2), w)" "svc w = Stopped"
    using assms q(2) unfolding service_guest_def by metis
  moreover then obtain t2 where "sh_so env (par_or params ''viofs_sc_stop_cmd'' ''sc stop VirtioFsSvc'') None t1 = (Inr (0, o2), t2)" "shworld t2 = w" by (metis shell_run)
  ultimately show ?thesis using q by (simp add: stop_viofs_service_def sh_cmd_def bnd_def ret_def)
qed

lemma delete_ok:
  assumes "service_guest env params copy svc"
  shows "\<exists>t'. delete_viofs_serivce env params t = (Inr (), t') \<and> svc (shworld t') = Absent"
proof -
  obtain out t1 where q: "query_viofs_service env params t = (Inr out, t1)" "shworld t1 = shworld t"
    "sublist ''not exist as an installed service'' out \<longleftrightarrow> svc (shworld t) = Absent" using query_run[OF assms] by metis
  show ?thesis
  proof (cases "svc (shworld t) = Absent")
    case False
    then obtain o2 w where "g_shell env (par_or params ''viofs_sc_delete_cmd'' ''sc delete VirtioFsSvc'') None (shworld t1) = (Inr (0, o2), w)" "svc w = Absent"
      using assms q(2) unfolding service_guest_def by metis
    moreover then obtain t2 where "sh_so env (par_or params ''viofs_sc_delete_cmd'' ''sc delete VirtioFsSvc'') None t1 = (Inr (0, o2), t2)" "shworld t2 = w" by (metis shell_run)
    ultimately show ?thesis using q False by (simp add: delete_viofs_serivce_def sh_status_def bnd_def ret_def)
  qed (use q in \<open>simp add: delete_viofs_serivce_def bnd_def ret_def\<close>)
qed

lemma create_ok:
  assumes "service_guest env params copy svc" "pct (par_or params ''viofs_exe_copy_cmd'' (''xcopy %s C:'' @ bslash @ '' /Y'')) [exe] = Inr copy"
  shows "\<exists>t'. create_own_service env params exe t = (Inr (), t') \<and> svc (shworld t') \<noteq> Absent"
proof -
  obtain out t1 where q: "query_viofs_service env params t = (Inr out, t1)" "shworld t1 = shworld t"
    "sublist ''not exist as an installed service'' out \<longleftrightarrow> svc (shworld t) = Absent" using query_run[OF assms(1)] by metis
  show ?thesis
  proof (cases "svc (shworld t) = Absent")
    case True
    obtain o2 w2 where "g_shell env copy None (shworld t1) = (Inr (0, o2), w2)" and w2: "svc w2 = Absent" using assms(1) q(2) True unfolding service_guest_def by metis
    then obtain t2 where t2: "sh_so env copy None t1 = (Inr (0, o2), t2)" "shworld t2 = w2" by (metis shell_run)
    obtain o3 w3 where "g_shell env (par_or params ''viofs_sc_create_cmd'' sc_create_default) None (shworld t2) = (Inr (0, o3), w3)" and w3: "svc w3 = Stopped"
      using assms(1) w2 t2(2) unfolding service_guest_def by metis
    then obtain t3 where t3: "sh_so env (par_or params ''viofs_sc_create_cmd'' sc_create_default) None t2 = (Inr (0, o3), t3)" "shworld t3 = w3" by (metis shell_run)
    have "sublist ''not exist as an installed service'' out" using q True by simp
    then have "create_own_service env params exe t = (Inr (), t3)"
      using q(1) t2(1) t3(1) assms(2) by (simp add: create_own_service_def bnd_def lift_res_def sh_cmd_def ret_def)
    then show ?thesis using w3 t3(2) by simp
  qed (use q in \<open>simp add: create_own_service_def bnd_def ret_def\<close>)
qed


section \<open>Guests\<close>

definition svc_shell :: "string \<Rightarrow> int option \<Rightarrow> svc_state \<Rightarrow> (int \<times> string) res \<times> svc_state" where
  "svc_shell cmd n w =
     (if cmd = ''sc query VirtioFsSvc'' then
        (Inr (0, case w of Absent \<Rightarrow> ''does not exist as an installed service'' | Stopped \<Rightarrow> ''STATE: STOPPED'' | Running \<Rightarrow> ''STATE: RUNNING''), w)
      else if cmd = sc_create_default then (Inr (0, []), Stopped)
      else if cmd = ''sc start VirtioFsSvc'' then (if w = Absent then (Inr (1060, []), w) else (Inr (0, []), Running))
      else if cmd = ''sc stop VirtioFsSvc'' then (Inr (0, []), Stopped)
      else if cmd = ''sc delete VirtioFsSvc'' then (Inr (0, []), Absent)
      else (Inr (0, ''C:''), w))"

definition windows_guest :: "svc_state genv" where
  "windows_guest = \<lparr>g_shell = svc_shell, g_call = (\<lambda>name args w. (Inr (PStr ''E:''), w)), g_rounds = (\<lambda>n w. 3)\<rparr>"

definition viofs_params :: pydict where
  "viofs_params = [(''install_winfsp_path'', PStr ''C:''), (''virtio_win_media_type'', PStr ''iso'')]"

definition viofs_copy :: string where
  "viofs_copy = ''xcopy C: C:'' @ bslash @ '' /Y''"

lemma windows_guest_service: "service_guest windows_guest viofs_params viofs_copy (\<lambda>w. w)"
proof -
  have p: "par_or viofs_params ''viofs_sc_query_cmd'' d = d" "par_or viofs_params ''viofs_sc_create_cmd'' d = d" "par_or viofs_params ''viofs_sc_start_cmd'' d = d"
    "par_or viofs_params ''viofs_sc_stop_cmd'' d = d" "par_or viofs_params ''viofs_sc_delete_cmd'' d = d" for d
    by (simp_all add: par_or_def viofs_params_def dget_default_def py_str_def)
  have "\<exists>s out. svc_shell ''sc query VirtioFsSvc'' None w = (Inr (s, out), w)
      \<and> (sublist ''not exist as an installed service'' out \<longleftrightarrow> w = Absent) \<and> (sublist ''RUNNING'' out \<longleftrightarrow> w = Running)" for w
  proof -
    have f: "sublist ''not exist as an installed service'' ''does not exist as an installed service''" "\<not> sublist ''RUNNING'' ''does not exist as an installed service''"
      "\<not> sublist ''not exist as an installed service'' ''STATE: STOPPED''" "\<not> sublist ''RUNNING'' ''STATE: STOPPED''"
      "\<not> sublist ''not exist as an installed service'' ''STATE: RUNNING''" "sublist ''RUNNING'' ''STATE: RUNNING''" by code_simp+
    show ?thesis using f unfolding svc_shell_def by (cases w) (simp_all only: if_True simp_thms svc_state.case Pair_inject sum.inject, auto)
  qed
  moreover have "svc_shell viofs_copy None w = (Inr (0, ''C:''), w)" "svc_shell sc_create_default None w = (Inr (0, []), Stopped)"
    "svc_shell ''sc start VirtioFsSvc'' None Stopped = (Inr (0, []), Running)" "svc_shell ''sc stop VirtioFsSvc'' None w = (Inr (0, []), Stopped)"
    "svc_shell ''sc delete VirtioFsSvc'' None w = (Inr (0, []), Absent)" for w
    by (simp_all add: svc_shell_def viofs_copy_def sc_create_default_def)
  ultimately show ?thesis unfolding service_guest_def p by (simp add: windows_guest_def)
qed


text \<open>A Linux guest and a host that print the same digest.\<close>

definition linux_guest :: "unit genv" where
  "linux_guest = \<lparr>g_shell = (\<lambda>cmd n w. (Inr (0, ''d41d8cd9  file''), w)), g_call = (\<lambda>name args w. (Inr (PStr (if name = ''get_data_dir'' then ''/data'' else ''d41d8cd9  file'')), w)),
     g_rounds = (\<lambda>n w. 3)\<rparr>"

definition linux_params :: pydict where
  "linux_params = [(''os_type'', PStr ''linux'')]"


end
