(* ===== verification/Win_Driver.thy ===== *)
theory Win_Driver
  imports Viofs
begin

text \<open>
  Drivers of Windows guests (\<^verbatim>\<open>provider/win_driver_utils.py\<close>): installing, removing, enabling and disabling drivers, the installer, and the check for
  memory leaks that unloads and loads a driver.
\<close>

section \<open>The drivers\<close>

definition hw :: "string \<Rightarrow> string" where
  "hw x = dquote @ x @ dquote"

definition pci_id :: "string \<Rightarrow> string" where
  "pci_id dev = hw (''PCI'' @ bslash @ ''VEN_1AF4&DEV_'' @ dev)"

definition driver_info_dict :: "(string \<times> string \<times> string) list" where
  "driver_info_dict =
     [(''netkvm'', pci_id ''1000'' @ '' '' @ pci_id ''1041'', ''Red Hat VirtIO Ethernet Adapter''),
      (''viorng'', pci_id ''1005'' @ '' '' @ pci_id ''1044'', ''VirtIO RNG Device''),
      (''vioser'', pci_id ''1003'' @ '' '' @ pci_id ''1043'', ''VirtIO Serial Driver''),
      (''balloon'', pci_id ''1002'' @ '' '' @ pci_id ''1045'', ''VirtIO Balloon Driver''),
      (''pvpanic'', hw (''ACPI'' @ bslash @ ''QEMU0001''), ''QEMU PVPanic Device''),
      (''vioinput'', pci_id ''1052'', ''VirtIO Input Driver''),
      (''viofs'', pci_id ''105A'', ''VirtIO FS Device''),
      (''viostor'', pci_id ''1001'' @ '' '' @ pci_id ''1042'', ''Red Hat VirtIO SCSI controller''),
      (''vioscsi'', pci_id ''1004'' @ '' '' @ pci_id ''1048'', ''Red Hat VirtIO SCSI pass-through controller''),
      (''fwcfg'', hw (''ACPI'' @ bslash @ ''VEN_QEMU&DEV_0002'') @ '' '' @ hw (''ACPI'' @ bslash @ ''QEMU0002''), ''QEMU FWCfg Device''),
      (''viomem'', pci_id ''1002'' @ '' '' @ pci_id ''1058'', ''VirtIO Viomem Driver''),
      (''viosock'', pci_id ''1053'' @ '' '' @ pci_id ''1012'', ''VirtIO Socket Driver'')]"

definition device_hwid :: "string \<Rightarrow> ('s, string) py" where
  "device_hwid driver = lift_res (rbind (dindex driver_info_dict driver) (\<lambda>i. Inr (fst i)))"

definition device_name :: "string \<Rightarrow> ('s, string) py" where
  "device_name driver = lift_res (rbind (dindex driver_info_dict driver) (\<lambda>i. Inr (snd i)))"

definition pnpdrv_info :: "'w genv \<Rightarrow> string \<Rightarrow> string \<Rightarrow> ('w gst, string list) py" where
  "pnpdrv_info env name_pattern prop =
     bnd (fw_str env ''wmic.make_query'' [PStr ''path win32_pnpsigneddriver'', PStr (''DeviceName like '' @ [CHR 0x27] @ name_pattern @ [CHR 0x27]), PList [PStr prop]]) (\<lambda>cmd.
     bnd (sh_cmd env cmd (Some 360)) (\<lambda>out.
     bnd (fw env ''wmic.parse_list'' [PStr out]) (\<lambda>v. ret (case v of PList xs \<Rightarrow> map py_str xs | _ \<Rightarrow> []))))"

definition found_devcon :: "'w genv \<Rightarrow> string \<Rightarrow> ('w gst, string) py" where
  "found_devcon env devcon_path =
     bnd (fw_str env ''set_winutils_letter'' [PStr devcon_path]) (\<lambda>p.
     bnd (sh_so env (''dir '' @ p) (Some 120)) (\<lambda>so.
       if fst so \<noteq> 0 then throw (TestError (''Not found devcon.exe, details: '' @ snd so)) else ret p))"

section \<open>Removing and installing\<close>

text \<open>Which of the names of a set comes first is not defined: it is the parameter \<open>pick\<close>.\<close>

definition uninstall_driver :: "'w genv \<Rightarrow> (string list \<Rightarrow> string) \<Rightarrow> string \<Rightarrow> string \<Rightarrow> string \<Rightarrow> string \<Rightarrow> ('w gst, unit) py" where
  "uninstall_driver env pick devcon_path driver_name dev_name hwid =
     bnd (found_devcon env devcon_path) (\<lambda>devcon.
     bnd (pnpdrv_info env dev_name ''InfName'') (\<lambda>infs.
       if infs = [] then ret ()
       else
         bnd (fw_str env ''system.version'' []) (\<lambda>ver.
         bnd (lift_res (if length (split_char CHR ''.'' ver) > 2 then int_of_str (split_char CHR ''.'' ver ! 2) else Inl IndexError)) (\<lambda>build.
         let inf = pick infs in
         bnd (sh_so env (if build > 14393 then ''pnputil /delete-driver '' @ inf @ '' /uninstall /force'' else ''pnputil /f /d '' @ inf) (Some 360)) (\<lambda>so.
         bnd (if fst so \<notin> {0, 3010} then throw (TestError (''Failed to uninstall driver '' @ driver_name @ '' from store'')) else ret ()) (\<lambda>_.
         bnd (sh_so env (devcon @ '' remove '' @ hwid) (Some 360)) (\<lambda>so2.
           if fst so2 > 1 then throw (TestError (''Failed to uninstall driver '' @ driver_name)) else ret ())))))))"

definition get_driver_inf_path :: "'w genv \<Rightarrow> string \<Rightarrow> string \<Rightarrow> ('w gst, string) py" where
  "get_driver_inf_path env media_type driver_name =
     media_file env media_type (driver_name @ ''.inf'') (Some 120) (TestError (''Not supported virtio win media type '' @ media_type))"

definition update_device :: "'w genv \<Rightarrow> string \<Rightarrow> string \<Rightarrow> string \<Rightarrow> string \<Rightarrow> ('w gst, unit) py" where
  "update_device env devcon media_type driver_name hwid =
     bnd (get_driver_inf_path env media_type driver_name) (\<lambda>inf.
     bnd (sh_so env (devcon @ '' updateni '' @ inf @ '' '' @ hwid) (Some 360)) (\<lambda>so.
       if fst so > 1 then throw (TestFail (''Failed to install driver '' @ driver_name)) else ret ()))"

fun update_devices :: "'w genv \<Rightarrow> string \<Rightarrow> string \<Rightarrow> string \<Rightarrow> bool \<Rightarrow> string list \<Rightarrow> ('w gst, bool) py" where
  "update_devices env devcon media_type driver_name any [] = ret any"
| "update_devices env devcon media_type driver_name any (hwid # hwids) =
     bnd (sh_output env (devcon @ '' find '' @ hwid) None) (\<lambda>out.
       if sublist (lower ''No matching devices found'') (lower out) then update_devices env devcon media_type driver_name any hwids
       else bnd (update_device env devcon media_type driver_name hwid) (\<lambda>_. update_devices env devcon media_type driver_name True hwids))"

definition install_driver_by_virtio_media :: "'w genv \<Rightarrow> string \<Rightarrow> string \<Rightarrow> string \<Rightarrow> string \<Rightarrow> ('w gst, unit) py" where
  "install_driver_by_virtio_media env devcon_path media_type driver_name hwid =
     bnd (found_devcon env devcon_path) (\<lambda>devcon.
     bnd (update_devices env devcon media_type driver_name False (split_ws hwid)) (\<lambda>any.
       if any then ret () else throw (TestError (''Failed to find target devices by hwids: '' @ hwid))))"

section \<open>The installer\<close>

definition shell_error :: "exc \<Rightarrow> bool" where
  "shell_error e = (case e of OtherError c _ \<Rightarrow> c \<in> {''ShellTimeoutError'', ''ShellProcessTerminatedError'', ''ShellStatusError''} | _ \<Rightarrow> False)"

definition autoit_installer_check :: "'w genv \<Rightarrow> pydict \<Rightarrow> ('w gst, bool) py" where
  "autoit_installer_check env params =
     try_except (bnd (sh_status env (par_or params ''autoit_check_cmd'' ''tasklist |findstr /i autoit3_.*exe'')) (\<lambda>s. ret (s = 0)))
       (\<lambda>e. if shell_error e then Some (ret False) else None)"

text \<open>The version in the name of the medium: digits, a point, digits, perhaps a point and digits, a dash and digits.\<close>

definition is_num :: "char \<Rightarrow> bool" where
  "is_num c \<longleftrightarrow> (case digit_val c of None \<Rightarrow> False | Some d \<Rightarrow> d < 10)"

definition digits1 :: "string \<Rightarrow> (string \<times> string) option" where
  "digits1 s = (let d = takeWhile is_num s in if d = [] then None else Some (d, dropWhile is_num s))"

definition after_char :: "char \<Rightarrow> string \<Rightarrow> string option" where
  "after_char c s = (case s of [] \<Rightarrow> None | x # xs \<Rightarrow> if x = c then Some xs else None)"

definition dotted :: "string \<Rightarrow> (string \<times> string) option" where
  "dotted s = (case after_char CHR ''.'' s of None \<Rightarrow> None | Some r \<Rightarrow> digits1 r)"

definition version_at :: "string \<Rightarrow> string option" where
  "version_at s =
     (case digits1 s of None \<Rightarrow> None | Some (a, r) \<Rightarrow>
      (case dotted r of None \<Rightarrow> None | Some (b, r1) \<Rightarrow>
       (let (c, r2) = (case dotted r1 of None \<Rightarrow> ([], r1) | Some (d, r') \<Rightarrow> (''.'' @ d, r')) in
        (case after_char CHR ''-'' r2 of None \<Rightarrow> None | Some r3 \<Rightarrow>
         (case digits1 r3 of None \<Rightarrow> None | Some (e, _) \<Rightarrow> Some (a @ ''.'' @ b @ c @ ''.'' @ e))))))"

fun media_version :: "string \<Rightarrow> string option" where
  "media_version [] = None"
| "media_version (c # cs) =
     (case (if startswith (c # cs) ''virtio-win-'' then version_at (drop 11 (c # cs)) else None) of
        Some v \<Rightarrow> Some v
      | None \<Rightarrow> media_version cs)"

definition version_in :: "'w genv \<Rightarrow> string \<Rightarrow> string \<Rightarrow> ('w gst, bool) py" where
  "version_in env v interval = bnd (fw env ''VersionInterval'' [PStr v, PStr interval]) (\<lambda>b. ret (truthy b))"

definition run_installer :: "'w genv \<Rightarrow> pydict \<Rightarrow> string \<Rightarrow> ('w gst, unit) py" where
  "run_installer env params run_cmd =
     bnd (par params ''cdrom_virtio'') (\<lambda>cdrom.
     bnd (fw_str env ''cdrom_basename'' [PStr cdrom]) (\<lambda>base.
     bnd (lift_res (case media_version base of None \<Rightarrow> Inl (AttributeError ''group'') | Some v \<Rightarrow> Inr v)) (\<lambda>ver.
     bnd (fw_str env ''set_winutils_letter'' [PStr run_cmd]) (\<lambda>cmd.
     bnd (sh_cmd env cmd None) (\<lambda>_.
     bnd (wait_until env 240 (bnd (autoit_installer_check env params) (\<lambda>b. ret (\<not> b)))) (\<lambda>ok.
     if \<not> ok then throw (TestFail ''Autoit exe stop there for 240s, please have a check.'')
     else
       bnd (version_in env ver (par_or params ''installer_restart_version'' ''[1.9.37.0, 1.9.40.0]'')) (\<lambda>restarts.
       bnd (if restarts \<or> sublist ''repair'' cmd then
              bnd (wait_until env 120 (bnd (fw env ''is_responsive'' []) (\<lambda>b. ret (\<not> truthy b)))) (\<lambda>down.
                if down then fw_unit env ''wait_for_login'' [] else throw (TestFail ''The previous session still exists''))
            else ret ()) (\<lambda>_.
       bnd (version_in env ver ''(,1.9.37.0)'') (\<lambda>early.
         if early then fw_unit env ''reboot'' [] else ret ())))))))))"

definition remove_driver_by_msi :: "'w genv \<Rightarrow> pydict \<Rightarrow> ('w gst, unit) py" where
  "remove_driver_by_msi env params =
     bnd (fw env (''drive_letter_'' @ par_or params ''virtio_win_media_type'' ''iso'') []) (\<lambda>letter.
     bnd (lift_res (case letter of PStr l \<Rightarrow> Inr l | _ \<Rightarrow> Inl (TypeError ''unsupported operand''))) (\<lambda>l.
     bnd (par params ''msi_name'') (\<lambda>msi.
     bnd (par params ''msi_uninstall_cmd'') (\<lambda>template.
     bnd (lift_res (pct template [l @ bslash @ msi])) (\<lambda>cmd.
     bnd (fw env ''send_key'' [PStr ''meta_l-d'']) (\<lambda>_.
     bnd (sh_cmd env cmd None) (\<lambda>_.
     bnd (fw env ''sleep'' [PInt 15]) (\<lambda>_. fw_unit env ''wait_for_login'' []))))))))"

definition winutils_path :: "'w genv \<Rightarrow> pydict \<Rightarrow> string \<Rightarrow> ('w gst, string) py" where
  "winutils_path env params k = bnd (par params k) (\<lambda>p. fw_str env ''set_winutils_letter'' [PStr p])"

definition copy_one :: "'w genv \<Rightarrow> string \<Rightarrow> ('w gst, unit) py" where
  "copy_one env src =
     bnd (sh_so env (''xcopy '' @ src @ '' C:'' @ bslash @ bslash @ '' /Y'') None) (\<lambda>so.
       if fst so \<noteq> 0 then throw (TestError (''Copy file error, the detailed info: '' @ snd so)) else ret ())"

definition copy_file_to_samepath :: "'w genv \<Rightarrow> pydict \<Rightarrow> ('w gst, unit) py" where
  "copy_file_to_samepath env params =
     bnd (fw_str env ''get_win_disk_vol'' [PStr (''VolumeName like '' @ [CHR 0x27] @ ''%virtio-win%'' @ [CHR 0x27])]) (\<lambda>vol.
     bnd (map_each [''install_script_path'', ''repair_script_path'', ''uninstall_script_path''] (winutils_path env params)) (\<lambda>scripts.
     bnd (if truthy (dget_default params ''msi_name'' PNone) then
            bnd (winutils_path env params ''uninstall_msi_script_path'') (\<lambda>p. ret [vol @ '':'' @ bslash @ par_or params ''msi_name'' [], p])
          else ret []) (\<lambda>more.
       for_each ([vol @ '':'' @ bslash @ ''virtio-win-guest-tools.exe''] @ scripts @ more) (copy_one env))))"

section \<open>Enabling and disabling\<close>

definition enable_driver :: "'w genv \<Rightarrow> string \<Rightarrow> ('w gst, unit) py" where
  "enable_driver env cmd =
     bnd (fw_str env ''set_winutils_letter'' [PStr cmd]) (\<lambda>c.
     bnd (sh_so env c None) (\<lambda>so. if fst so \<noteq> 0 then throw (TestFail (''failed to enable driver, '' @ snd so)) else ret ()))"

definition disable_driver :: "'w genv \<Rightarrow> string \<Rightarrow> ('w gst, unit) py" where
  "disable_driver env cmd =
     bnd (fw_str env ''set_winutils_letter'' [PStr cmd]) (\<lambda>c.
     bnd (sh_so env c None) (\<lambda>so.
       if fst so \<noteq> 0 then
         (if sublist ''reboot'' (snd so) then fw_unit env ''reboot'' [] else throw (TestFail (''failed to disable driver, '' @ snd so)))
       else ret ()))"

text \<open>The part of an identifier between the quotes, and the identifiers of a driver.\<close>

definition unquoted :: "string \<Rightarrow> string res" where
  "unquoted h = (case split_char CHR 0x22 h of _ # x # _ \<Rightarrow> Inr x | _ \<Rightarrow> Inl IndexError)"

fun find_devices :: "string \<Rightarrow> bool \<Rightarrow> string list \<Rightarrow> bool res" where
  "find_devices device_id found [] = Inr found"
| "find_devices device_id found (h # hs) = rbind (unquoted h) (\<lambda>x. find_devices device_id (found \<or> sublist x device_id) hs)"

definition get_device_id :: "'w genv \<Rightarrow> string \<Rightarrow> ('w gst, string) py" where
  "get_device_id env driver_name =
     bnd (device_name driver_name) (\<lambda>dev_name.
     bnd (device_hwid driver_name) (\<lambda>hwid.
     bnd (pnpdrv_info env dev_name ''DeviceID'') (\<lambda>out.
       case out of
         [] \<Rightarrow> throw IndexError
       | first # _ \<Rightarrow>
           (let device_id = replace_str ''&amp;'' ''&'' first in
            bnd (lift_res (find_devices device_id False (split_ws hwid))) (\<lambda>found.
              if found then ret device_id else throw (TestFail ''Did not find driver info from guest''))))))"

text \<open>The installation is called with four of its six arguments.\<close>

definition load_driver :: "'w genv \<Rightarrow> pydict \<Rightarrow> string \<Rightarrow> ('w gst, unit) py" where
  "load_driver env params load_method =
     bnd (par params ''driver_name'') (\<lambda>driver.
     bnd (par params ''devcon_path'') (\<lambda>devcon.
     bnd (if load_method \<noteq> ''enable'' then
            bnd (device_hwid driver) (\<lambda>_. throw (TypeError ''install_driver_by_virtio_media() missing 2 required positional arguments''))
          else
            bnd (get_device_id env driver) (\<lambda>i. enable_driver env (devcon @ '' enable '' @ dquote @ ''@'' @ i @ dquote))) (\<lambda>_.
       fw_unit env ''windrv_verify_running'' [PStr driver])))"

definition unload_driver :: "'w genv \<Rightarrow> (string list \<Rightarrow> string) \<Rightarrow> pydict \<Rightarrow> string \<Rightarrow> ('w gst, unit) py" where
  "unload_driver env pick params load_method =
     bnd (par params ''driver_name'') (\<lambda>driver.
     bnd (par params ''devcon_path'') (\<lambda>devcon.
       if load_method \<noteq> ''enable'' then
         bnd (device_name driver) (\<lambda>n. bnd (device_hwid driver) (\<lambda>h. uninstall_driver env pick devcon driver n h))
       else bnd (get_device_id env driver) (\<lambda>i. disable_driver env (devcon @ '' disable '' @ dquote @ ''@'' @ i @ dquote))))"

definition memory_leak_check :: "'w genv \<Rightarrow> (string list \<Rightarrow> string) \<Rightarrow> pydict \<Rightarrow> string \<Rightarrow> ('w gst, unit) py" where
  "memory_leak_check env pick params load_method =
     bnd (fw env ''wait_for_login'' []) (\<lambda>_.
     bnd (unload_driver env pick params load_method) (\<lambda>_.
     bnd (fw env ''sleep'' [PInt 10]) (\<lambda>_.
     bnd (fw env ''is_alive'' []) (\<lambda>alive.
     bnd (if alive = PBool False then throw (TestFail ''VM is not alive after uninstall driver'') else ret ()) (\<lambda>_.
     bnd (if load_method \<noteq> ''enable'' then fw_unit env ''reboot'' [] else ret ()) (\<lambda>_.
     bnd (load_driver env params load_method) (\<lambda>_. fw_unit env ''session.close'' [])))))))"

section \<open>Properties\<close>

text \<open>
  A device whose update ran: the guest did not answer that there is no such device, and the command of the update ended with zero or with the wish
  to reboot.
\<close>

definition updated :: "'w genv \<Rightarrow> 'w gst \<Rightarrow> string \<Rightarrow> string \<Rightarrow> string \<Rightarrow> bool" where
  "updated env t devcon f hwid \<longleftrightarrow> Sh (devcon @ '' updateni '' @ f @ '' '' @ hwid) \<in> set (acts t)
     \<and> (\<exists>w s out w'. g_shell env (devcon @ '' updateni '' @ f @ '' '' @ hwid) (Some 360) w = (Inr (s, out), w') \<and> s \<le> 1)"

definition unmatched :: "'w genv \<Rightarrow> 'w gst \<Rightarrow> string \<Rightarrow> string \<Rightarrow> bool" where
  "unmatched env t devcon hwid \<longleftrightarrow> Sh (devcon @ '' find '' @ hwid) \<in> set (acts t)
     \<and> (\<exists>w s out w'. g_shell env (devcon @ '' find '' @ hwid) None w = (Inr (s, out), w') \<and> sublist (lower ''No matching devices found'') (lower out))"

lemma handled_later:
  assumes "acts_grow t t'"
  shows "updated env t devcon f hwid \<Longrightarrow> updated env t' devcon f hwid" "unmatched env t devcon hwid \<Longrightarrow> unmatched env t' devcon hwid"
  using assms by (auto simp: acts_grow_def updated_def unmatched_def)

lemma update_devices_grow: "moves acts_grow (update_devices env devcon media driver any hwids)"
proof (induction hwids arbitrary: any)
  case (Cons h hwids)
  then show ?case unfolding update_devices.simps update_device_def get_driver_inf_path_def media_file_def Let_def
    by (intro done_acts.composed sh_grows fw_grows)
qed (simp add: done_acts.unchanged)

lemma update_device_Inr:
  assumes "update_device env devcon media driver hwid t = (Inr (), t')"
  shows "\<exists>f. updated env t' devcon f hwid"
proof -
  obtain f t1 so where s: "sh_so env (devcon @ '' updateni '' @ f @ '' '' @ hwid) (Some 360) t1 = (Inr so, t')" and "\<not> fst so > 1"
    using assms by (auto simp: update_device_def throw_def ret_def elim!: bnd_InrE split: if_splits)
  then show ?thesis using sh_so_Inr[OF s] unfolding updated_def by (cases so) fastforce
qed

lemma update_devices_Inr:
  "update_devices env devcon media driver any hwids t = (Inr b, t') \<Longrightarrow>
     (\<forall>h \<in> set hwids. unmatched env t' devcon h \<or> (\<exists>f. updated env t' devcon f h)) \<and> (b \<longrightarrow> any \<or> (\<exists>h \<in> set hwids. \<exists>f. updated env t' devcon f h))"
proof (induction hwids arbitrary: any t)
  case (Cons h hwids)
  obtain out t1 where f: "sh_output env (devcon @ '' find '' @ h) None t = (Inr out, t1)"
    and r: "(if sublist (lower ''No matching devices found'') (lower out) then update_devices env devcon media driver any hwids
       else bnd (update_device env devcon media driver h) (\<lambda>_. update_devices env devcon media driver True hwids)) t1 = (Inr b, t')"
    using Cons.prems unfolding update_devices.simps by (elim bnd_InrE)
  show ?case
  proof (cases "sublist (lower ''No matching devices found'') (lower out)")
    case True
    then have s: "update_devices env devcon media driver any hwids t1 = (Inr b, t')" using r by simp
    have "unmatched env t1 devcon h" using sh_output_Inr[OF f] True unfolding unmatched_def by auto
    then have "unmatched env t' devcon h" by (rule handled_later(2)[OF movesD[OF update_devices_grow s]])
    then show ?thesis using Cons.IH[OF s] by auto
  next
    case False
    then obtain t2 where u: "update_device env devcon media driver h t1 = (Inr (), t2)" and s: "update_devices env devcon media driver True hwids t2 = (Inr b, t')"
      using r by (auto elim!: bnd_InrE)
    have "\<exists>f. updated env t' devcon f h" using update_device_Inr[OF u] handled_later(1)[OF movesD[OF update_devices_grow s]] by blast
    then show ?thesis using Cons.IH[OF s] by auto
  qed
qed (simp add: ret_def)

text \<open>An installation from the medium that returns has handled every hardware identifier of the driver: it asked the guest for the device and the guest
  has none, or it ran the update of the device and the update ended with an accepted status; and at least one device was updated.
\<close>

lemma media_install_updates:
  assumes "install_driver_by_virtio_media env path media driver hwid t = (Inr (), t')"
  shows "\<exists>devcon. (\<forall>h \<in> set (split_ws hwid). unmatched env t' devcon h \<or> (\<exists>f. updated env t' devcon f h))
    \<and> (\<exists>h \<in> set (split_ws hwid). \<exists>f. updated env t' devcon f h)"
proof -
  obtain devcon t1 any t2 where u: "update_devices env devcon media driver False (split_ws hwid) t1 = (Inr any, t2)"
    and "(if any then ret () else throw (TestError (''Failed to find target devices by hwids: '' @ hwid))) t2 = (Inr (), t')"
    using assms unfolding install_driver_by_virtio_media_def by (elim bnd_InrE)
  then have "any" "t2 = t'" by (auto simp: throw_def ret_def split: if_splits)
  then show ?thesis using update_devices_Inr[OF u] by auto
qed

text \<open>The check for memory leaks never succeeds with a load method other than \<open>enable\<close>: loading the driver again calls the installation with too few
  arguments, on every guest.
\<close>

lemma leak_check_never_reinstalls:
  assumes "method \<noteq> ''enable''"
  shows "fst (memory_leak_check env pick params method t) \<noteq> Inr ()"
proof -
  have "load_driver env params method u \<noteq> (Inr (), u')" for u u'
    using assms by (auto simp: load_driver_def throw_def elim!: bnd_InrE)
  then have "memory_leak_check env pick params method t \<noteq> (Inr (), t')" for t' by (auto simp: memory_leak_check_def elim!: bnd_InrE)
  then show ?thesis by (metis prod.collapse)
qed

section \<open>A guest with one device\<close>

definition one_device_guest :: "unit genv" where
  "one_device_guest = \<lparr>g_shell = (\<lambda>cmd n w. (Inr (0, if endswith cmd (pci_id ''1041'') \<and> sublist '' find '' cmd then ''No matching devices found.'' else ''E:''), w)),
     g_call = (\<lambda>name args w. (Inr (PStr ''E:''), w)), g_rounds = (\<lambda>n w. 3)\<rparr>"

lemma media_install_updates_example:
  "\<exists>devcon. (\<exists>h \<in> set (split_ws (pci_id ''1000'' @ '' '' @ pci_id ''1041'')). \<exists>f. updated one_device_guest (snd (install_driver_by_virtio_media one_device_guest ''devcon.exe'' ''iso'' ''netkvm''
     (pci_id ''1000'' @ '' '' @ pci_id ''1041'') \<lparr>shworld = (), acts = []\<rparr>)) devcon f h)"
proof -
  let ?i = "install_driver_by_virtio_media one_device_guest ''devcon.exe'' ''iso'' ''netkvm'' (pci_id ''1000'' @ '' '' @ pci_id ''1041'') \<lparr>shworld = (), acts = []\<rparr>"
  have "fst ?i = Inr ()" by code_simp
  then have "?i = (Inr (), snd ?i)" by (metis prod.collapse)
  from media_install_updates[OF this] show ?thesis by blast
qed

lemma leak_check_never_reinstalls_example:
  "fst (memory_leak_check one_device_guest hd [(''driver_name'', PStr ''netkvm''), (''devcon_path'', PStr ''devcon.exe'')] ''install'' \<lparr>shworld = (), acts = []\<rparr>) \<noteq> Inr ()"
  by (rule leak_check_never_reinstalls) simp

end
