(* ===== verification/Win_Installer.thy ===== *)
theory Win_Installer
  imports Win_Driver Guest_Memory
begin

text \<open>
  The tests of the installer of Windows drivers (\<^verbatim>\<open>provider/win_driver_installer_test.py\<close>), on top of the drivers, of virtio-fs and of the checks of
  virtio-mem.  The lists of drivers and devices are variables of the module which one of the tests changes; they are arguments here, with
  their value after the test.
\<close>

section \<open>The lists\<close>

definition driver_name_list :: "string list" where
  "driver_name_list = [''balloon'', ''viostor'', ''vioscsi'', ''viorng'', ''viofs'', ''vioser'', ''pvpanic'', ''netkvm'', ''vioinput'', ''fwcfg'', ''viomem'']"

definition device_hwid_list :: "string list" where
  "device_hwid_list =
     [pci_id ''1002'' @ '' '' @ pci_id ''1045'', pci_id ''1001'' @ '' '' @ pci_id ''1042'', pci_id ''1004'' @ '' '' @ pci_id ''1048'',
      pci_id ''1005'' @ '' '' @ pci_id ''1044'', pci_id ''105A'', pci_id ''1003'' @ '' '' @ pci_id ''1043'', hw (''ACPI'' @ bslash @ ''QEMU0001''),
      pci_id ''1000'' @ '' '' @ pci_id ''1041'', pci_id ''1052'', hw (''ACPI'' @ bslash @ ''VEN_QEMU&DEV_0002''), pci_id ''1002'' @ '' '' @ pci_id ''1058'']"

definition device_name_list :: "string list" where
  "device_name_list =
     [''VirtIO Balloon Driver'', ''Red Hat VirtIO SCSI controller'', ''Red Hat VirtIO SCSI pass-through controller'', ''VirtIO RNG Device'', ''VirtIO FS Device'',
      ''VirtIO Serial Driver'', ''QEMU PVPanic Device'', ''Red Hat VirtIO Ethernet Adapter'', ''VirtIO Input Driver'', ''QEMU FwCfg Device'', ''VirtIO Viomem Driver'']"

record module_lists =
  l_drivers :: "string list"
  l_devices :: "string list"

definition loaded_lists :: module_lists where
  "loaded_lists = \<lparr>l_drivers = driver_name_list, l_devices = device_name_list\<rparr>"

text \<open>\<open>driver_check\<close> assigns the lists before anything else it does with a guest.\<close>

definition check_lists :: "pydict \<Rightarrow> module_lists \<Rightarrow> module_lists res" where
  "check_lists params ml =
     (if truthy (dget_default params ''driver_name'' PNone) then
        rbind (dindex params ''driver_name'') (\<lambda>d. rbind (dindex params ''device_name'') (\<lambda>v. Inr \<lparr>l_drivers = [py_str d], l_devices = [py_str v]\<rparr>))
      else Inr ml)"

definition without_viomem :: "pydict \<Rightarrow> string \<Rightarrow> bool" where
  "without_viomem params driver_name \<longleftrightarrow> dget_default params ''boot_with_viomem'' (PStr ''no'') = PStr ''no'' \<and> driver_name = ''viomem''"

section \<open>Guest agent and drivers\<close>

definition before_last :: "string \<Rightarrow> string res" where
  "before_last out = (let ws = split_ws out in if length ws < 2 then Inl IndexError else Inr (ws ! (length ws - 2)))"

definition install_gagent :: "'w genv \<Rightarrow> string \<Rightarrow> string \<Rightarrow> string \<Rightarrow> ('w gst, string) py" where
  "install_gagent env qemu_ga_pkg gagent_install_cmd gagent_pkg_info_cmd =
     bnd (fw_str env ''get_win_disk_vol'' [PStr (''VolumeName like '' @ [CHR 0x27] @ ''%virtio-win%'' @ [CHR 0x27])]) (\<lambda>vol.
     bnd (lift_res (pct gagent_install_cmd [vol @ '':'' @ bslash @ ''guest-agent'' @ bslash @ qemu_ga_pkg])) (\<lambda>cmd.
     bnd (sh_so env cmd None) (\<lambda>so.
       if fst so \<noteq> 0 then throw (TestFail (''qemu-guest-agent install failed, the detailed info: '' @ snd so))
       else bnd (sh_output env gagent_pkg_info_cmd None) (\<lambda>out. lift_res (before_last out)))))"

definition uninstall_gagent :: "'w genv \<Rightarrow> string \<Rightarrow> ('w gst, unit) py" where
  "uninstall_gagent env cmd = bnd (sh_so env cmd None) (\<lambda>so. if fst so \<noteq> 0 then throw (TestFail ''Could not uninstall qemu-guest-agent package '') else ret ())"

definition check_gagent_version :: "'w genv \<Rightarrow> string \<Rightarrow> string \<Rightarrow> ('w gst, unit) py" where
  "check_gagent_version env gagent_pkg_info_cmd expected =
     bnd (sh_output env gagent_pkg_info_cmd None) (\<lambda>out.
     bnd (lift_res (before_last out)) (\<lambda>v. if v \<noteq> expected then throw (TestFail ''gagent version is not right'') else ret ()))"

definition win_uninstall_all_drivers :: "'w genv \<Rightarrow> (string list \<Rightarrow> string) \<Rightarrow> pydict \<Rightarrow> module_lists \<Rightarrow> ('w gst, unit) py" where
  "win_uninstall_all_drivers env pick params ml =
     bnd (par params ''devcon_path'') (\<lambda>devcon_path.
       for_each (zip (l_drivers ml) (zip (l_devices ml) device_hwid_list)) (\<lambda>(driver_name, dev_name, hwid).
         if without_viomem params driver_name then ret () else uninstall_driver env pick devcon_path driver_name dev_name hwid))"

definition run_installer_with_interaction :: "'w genv \<Rightarrow> pydict \<Rightarrow> string \<Rightarrow> pydict option \<Rightarrow> ('w gst, unit) py" where
  "run_installer_with_interaction env params run_installer_cmd copy_files_params =
     bnd (fw env ''send_key'' [PStr ''meta_l-d'']) (\<lambda>_.
     bnd (fw env ''sleep'' [PInt 30]) (\<lambda>_.
     bnd (case copy_files_params of None \<Rightarrow> ret () | Some ps \<Rightarrow> if ps = [] then ret () else copy_file_to_samepath env ps) (\<lambda>_.
       run_installer env params run_installer_cmd)))"

definition win_installer_test :: "'w genv \<Rightarrow> pydict \<Rightarrow> ('w gst, unit) py" where
  "win_installer_test env params =
     bnd (par params ''signed_check_cmd'') (\<lambda>cmd.
     bnd (sh_status env cmd) (\<lambda>s. if s \<noteq> 0 then throw (TestFail ''Installer not signed by redhat.'') else ret ()))"

text \<open>\<open>text.strip().split(",", 1)[-1]\<close>.\<close>

definition version_part :: "string \<Rightarrow> string" where
  "version_part out = last (split_char1 (CHR '','') (strip_set is_ws out))"

text \<open>What the check finds out about one driver: whether its version is wrong and whether it is not signed.\<close>

definition check_driver :: "'w genv \<Rightarrow> pydict \<Rightarrow> int \<Rightarrow> string \<Rightarrow> string \<Rightarrow> string \<Rightarrow> ('w gst, bool \<times> bool) py" where
  "check_driver env params chk_timeout media_type driver_name dev_name =
     bnd (get_driver_inf_path env media_type driver_name) (\<lambda>inf_path.
     bnd (sh_cmd env (''type '' @ inf_path @ '' | findstr /i /r DriverVer.*='') (Some 360)) (\<lambda>out.
     let expected_ver = version_part out in
     if expected_ver = [] then throw (TestError ''Failed to find driver version from inf file'')
     else
       bnd (pnpdrv_info env dev_name ''DriverVersion'') (\<lambda>ver_list.
       bnd (par params ''vio_driver_chk_cmd'') (\<lambda>template.
       bnd (lift_res (pct template [take 30 dev_name])) (\<lambda>chk_cmd.
       bnd (sh_output env chk_cmd (Some chk_timeout)) (\<lambda>chk.
         if sublist ''FALSE'' chk then ret (expected_ver \<notin> set ver_list, True)
         else if \<not> sublist ''TRUE'' chk then throw (TestError (''Device '' @ dev_name @ '' is not found in guest''))
         else ret (expected_ver \<notin> set ver_list, False)))))))"

definition driver_check :: "'w genv \<Rightarrow> pydict \<Rightarrow> module_lists \<Rightarrow> ('w gst, unit) py" where
  "driver_check env params ml =
     bnd (par_num params ''chk_timeout'' 240) (\<lambda>chk_timeout.
     bnd (par params ''virtio_win_media_type'') (\<lambda>media_type.
     bnd (lift_res (check_lists params ml)) (\<lambda>ls.
     bnd (map_each (filter (\<lambda>(d, v). \<not> without_viomem params d) (zip (l_drivers ls) (l_devices ls))) (\<lambda>(d, v).
            bnd (check_driver env params chk_timeout media_type d v) (\<lambda>r. ret (d, r)))) (\<lambda>rs.
     let wrong = filter (\<lambda>(d, w, u). w) rs; unsign = filter (\<lambda>(d, w, u). u) rs in
     if wrong \<noteq> [] then throw (TestFail (join '', '' (map fst wrong) @ '' not the expected driver version''))
     else if unsign \<noteq> [] then throw (TestFail (join '', '' (map fst unsign) @ '' not digitally signed!''))
     else ret ()))))"

section \<open>Function tests\<close>

definition first_letter :: "pyval \<Rightarrow> string res" where
  "first_letter v = (case v of PList (x # _) \<Rightarrow> Inr (py_str x) | _ \<Rightarrow> Inl (TypeError ''not subscriptable''))"

definition get_drive_letter :: "'w genv \<Rightarrow> pyval \<Rightarrow> ('w gst, string) py" where
  "get_drive_letter env img_size =
     bnd (fw env ''wait_for_login'' []) (\<lambda>_.
     bnd (fw env ''get_windows_disks_index'' [img_size]) (\<lambda>disk_index.
     if \<not> truthy disk_index then throw (TestError ''Failed to get the disk index'')
     else
       bnd (fw env ''update_windows_disk_attributes'' [disk_index]) (\<lambda>b.
       if \<not> truthy b then throw (TestError ''Failed to enable data disk'')
       else
         bnd (lift_res (first_letter disk_index)) (\<lambda>d.
         bnd (fw env ''configure_empty_windows_disk'' [PStr d, img_size]) (\<lambda>letters.
           if \<not> truthy letters then throw (TestError ''Failed to format the data disk'') else lift_res (first_letter letters))))))"

text \<open>\<open>re.findall("0x\w", output)\<close>.\<close>

definition word_letter :: "char \<Rightarrow> bool" where
  "word_letter c \<longleftrightarrow> (let n = (of_char c :: nat) in (48 \<le> n \<and> n \<le> 57) \<or> (65 \<le> n \<and> n \<le> 90) \<or> (97 \<le> n \<and> n \<le> 122) \<or> c = CHR ''_'')"

fun hex_marks :: "string \<Rightarrow> nat" where
  "hex_marks (a # b # c # s) = (if a = CHR ''0'' \<and> b = CHR ''x'' \<and> word_letter c then Suc (hex_marks s) else hex_marks (b # c # s))"
| "hex_marks _ = 0"

definition rng_test :: "'w genv \<Rightarrow> pydict \<Rightarrow> ('w gst, unit) py" where
  "rng_test env params =
     bnd (fw env ''wait_for_login'' []) (\<lambda>_.
     bnd (winutils_path env params ''read_rng_cmd'') (\<lambda>cmd.
     bnd (sh_output env cmd None) (\<lambda>out. if hex_marks out < 2 then throw (TestFail (''Unable to read random numbers from guest: '' @ out)) else ret ())))"

text \<open>The benchmark object: setting it up, running a command and cleaning up.\<close>

record 'w iozone_ops =
  iozone_new :: "('w gst, unit) py"
  iozone_run :: "string \<Rightarrow> ('w gst, unit) py"
  iozone_clean :: "('w gst, unit) py"

definition iozone_test :: "'w genv \<Rightarrow> 'w iozone_ops \<Rightarrow> pydict \<Rightarrow> string \<Rightarrow> ('w gst, unit) py" where
  "iozone_test env iozone params images =
     bnd (iozone_new iozone) (\<lambda>_.
       for_each (split_ws images) (\<lambda>img.
         bnd (lift_res (dindex params (''image_size_'' @ img))) (\<lambda>img_size.
         bnd (get_drive_letter env img_size) (\<lambda>letter.
           try_finally
             (bnd (par params ''iozone_cmd_opitons'') (\<lambda>template. bnd (lift_res (pct template [letter])) (\<lambda>cmd. iozone_run iozone cmd)))
             (iozone_clean iozone)))))"

definition viofs_basic_io_test :: "'w genv \<Rightarrow> pydict \<Rightarrow> ('w gst, unit) py" where
  "viofs_basic_io_test env params =
     bnd (fw env ''wait_for_login'' []) (\<lambda>_. bnd (basic_io_test env params) (\<lambda>_. fw_unit env ''session.close'' []))"

text \<open>\<open>int(random.uniform(a, b))\<close> is the call \<open>random.uniform\<close> with an integer as its result.\<close>

definition balloon_test :: "'w genv \<Rightarrow> pydict \<Rightarrow> ('w gst, unit) py" where
  "balloon_test env params =
     bnd (fw env ''wait_for_login'' []) (\<lambda>_.
     bnd (fw env ''configure_balloon_service'' []) (\<lambda>_.
     bnd (fw env ''get_memory_boundary'' [PStr ''evict'']) (\<lambda>bounds.
     bnd (fw env ''random.uniform'' [bounds]) (\<lambda>expect_mem.
     bnd (fw env ''run_ballooning_test'' [expect_mem, PStr ''evict'']) (\<lambda>_.
     bnd (if par_or params ''mem_check'' ''yes'' = ''yes'' then
            bnd (par params ''mem_stat_check_list'') (\<lambda>names. for_each (split_ws names) (\<lambda>n. fw_unit env ''memory_stats_check'' [PStr n, PBool True]))
          else ret ()) (\<lambda>_.
     bnd (fw env ''reset_memory'' []) (\<lambda>_. fw_unit env ''session.close'' [])))))))"

definition pvpanic_test :: "'w genv \<Rightarrow> pydict \<Rightarrow> ('w gst, unit) py" where
  "pvpanic_test env params =
     bnd (fw env ''wait_for_login'' []) (\<lambda>_.
     bnd (sh_so env (py_str (dget_default params ''set_panic_cmd'' PNone)) None) (\<lambda>so.
     if fst so \<noteq> 0 then throw (TestError ''Command failed'')
     else
       bnd (fw env ''reboot'' []) (\<lambda>_.
       bnd (fw env ''nmi'' []) (\<lambda>_.
       bnd (wait_until env 60 (bnd (fw env ''get_event'' [dget_default params ''expect_event'' PNone]) (\<lambda>v. ret (truthy v)))) (\<lambda>seen.
         if seen then ret () else throw (TestFail ''Not found expect event''))))))"

definition vioser_test :: "'w genv \<Rightarrow> ('w gst, unit) py" where
  "vioser_test env =
     bnd (fw env ''transfer_data'' [PStr ''both'']) (\<lambda>result. if result \<noteq> PBool True then throw (TestFail ''Test failed.'') else ret ())"

definition netkvm_test :: "'w genv \<Rightarrow> pydict \<Rightarrow> ('w gst, unit) py" where
  "netkvm_test env params =
     bnd (par params ''get_host_ip_cmd'') (\<lambda>cmd.
     bnd (fw env ''wait_for_login'' []) (\<lambda>_.
     bnd (fw_str env ''process.system_output'' [PStr cmd]) (\<lambda>ip. fw_unit env ''ping'' [PStr ip, PInt 20])))"

definition fwcfg_test :: "'w genv \<Rightarrow> pydict \<Rightarrow> ('w gst, unit) py" where
  "fwcfg_test env params =
     bnd (par params ''tmp_dir'') (\<lambda>tmp_dir.
     bnd (fw env ''os.path.isdir'' [PStr tmp_dir]) (\<lambda>isdir.
     bnd (if truthy isdir then ret () else fw_unit env ''process.system'' [PStr (''mkdir '' @ tmp_dir)]) (\<lambda>_.
     bnd (fw_str env ''generate_random_string'' [PInt 4]) (\<lambda>r.
     let dump_file = tmp_dir @ ''/'' @ r @ ''Memory.dmp'' in
     bnd (fw_str env ''human_monitor_cmd'' [PStr (''dump-guest-memory -w '' @ dump_file)]) (\<lambda>out.
     if out \<noteq> [] \<and> \<not> sublist ''warning'' out then throw (TestFail (''Save dump file failed as: '' @ out))
     else
       bnd (fw_str env ''process.getoutput'' [PStr (''ls -l '' @ dump_file @ '' | awk '' @ [CHR 0x27] @ ''{print $5}'' @ [CHR 0x27])]) (\<lambda>sz.
       bnd (lift_res (int_of_str sz)) (\<lambda>dump_size.
       bnd (fw env ''process.system'' [PStr (''rm -rf '' @ dump_file)]) (\<lambda>_.
         if dump_size = 0 then throw (TestFail ''The dump file is empty'') else ret ()))))))))"

text \<open>The monitor of the machine as the checks of virtio-mem use it.\<close>

definition mem_of :: "'w genv \<Rightarrow> (pyval \<Rightarrow> string \<Rightarrow> rat res) \<Rightarrow> 'w gst mem_env" where
  "mem_of env to_bytes = \<lparr>mem_info = (\<lambda>name. fw env ''info'' [PStr name]), normalize_data_size = to_bytes, wait_true = (\<lambda>m n. wait_until env n m)\<rparr>"

definition set_requested :: "'w genv \<Rightarrow> (pyval \<Rightarrow> string \<Rightarrow> rat res) \<Rightarrow> rat \<Rightarrow> string \<Rightarrow> string \<Rightarrow> ('w gst, unit) py" where
  "set_requested env to_bytes threshold device_id requested_size =
     bnd (lift_res (to_bytes (PStr requested_size) ''B'')) (\<lambda>n.
     bnd (fw env ''qom_set'' [PStr device_id, PStr ''requested-size'', PInt (if n < 0 then \<lceil>n\<rceil> else \<lfloor>n\<rfloor>)]) (\<lambda>_.
     bnd (fw env ''sleep'' [PInt 30]) (\<lambda>_.
     bnd (fw env ''reboot'' []) (\<lambda>_. check_memory_devices (mem_of env to_bytes) device_id requested_size threshold))))"

fun viomem_devices :: "'w genv \<Rightarrow> (pyval \<Rightarrow> string \<Rightarrow> rat res) \<Rightarrow> pydict \<Rightarrow> rat \<Rightarrow> nat \<Rightarrow> string list \<Rightarrow> ('w gst, unit) py" where
  "viomem_devices env to_bytes params threshold i [] = ret ()"
| "viomem_devices env to_bytes params threshold i (device_id # ids) =
     bnd (case dget params (''requested-size_test_vmem'' @ int_str (int i)) of None \<Rightarrow> throw (AttributeError ''split'') | Some v \<Rightarrow> ret (split_ws (py_str v))) (\<lambda>sizes.
     bnd (for_each sizes (set_requested env to_bytes threshold device_id)) (\<lambda>_. viomem_devices env to_bytes params threshold (Suc i) ids))"

definition viomem_test :: "'w genv \<Rightarrow> (pyval \<Rightarrow> string \<Rightarrow> rat res) \<Rightarrow> pydict \<Rightarrow> rat \<Rightarrow> ('w gst, unit) py" where
  "viomem_test env to_bytes params threshold =
     bnd (fw env ''get_by_params'' [PDict [(''driver'', PStr ''virtio-mem-pci'')]]) (\<lambda>v.
       viomem_devices env to_bytes params threshold 0 (case v of PList ds \<Rightarrow> map py_str ds | _ \<Rightarrow> []))"

section \<open>Properties\<close>

text \<open>The lists of the installer tests against the table of the drivers: for every driver but the firmware configuration device, the hardware identifiers and the name of the
  device at its place in the lists are those of the table.
\<close>

lemma lists_agree_with_table:
  "\<forall>(d, v, h) \<in> set (zip driver_name_list (zip device_name_list device_hwid_list)).
     d \<noteq> ''fwcfg'' \<longrightarrow> dget driver_info_dict d = Some (h, v)"
  by (simp add: driver_name_list_def device_name_list_def device_hwid_list_def driver_info_dict_def)


section \<open>Examples\<close>

lemma lists_agree_with_table_example: "dget driver_info_dict ''netkvm'' = Some (pci_id ''1000'' @ '' '' @ pci_id ''1041'', ''Red Hat VirtIO Ethernet Adapter'')"
proof -
  have "(''netkvm'', ''Red Hat VirtIO Ethernet Adapter'', pci_id ''1000'' @ '' '' @ pci_id ''1041'') \<in> set (zip driver_name_list (zip device_name_list device_hwid_list))"
    by (simp add: driver_name_list_def device_name_list_def device_hwid_list_def)
  from bspec[OF lists_agree_with_table this] show ?thesis by simp
qed


end
