(* ===== verification/Spec2Isabelle.thy ===== *)
theory Spec2Isabelle
  imports Input_Pipeline Throttle Nbd_Export Qsd Block_Plug Storage_Pool Input_Tests Blockdev_Commit Host_Login Storage_Benchmark Cdrom_Check Guest_Memory Guest_Disk
    Pktgen Vdpa Dpdk Hlk Slof Win_Installer
begin

text \<open>
  A verification library for tp-qemu, the test provider for QEMU of the avocado-vt framework.

  \<^bold>\<open>The program.\<close>  tp-qemu holds test cases (\<^verbatim>\<open>qemu/tests\<close>, \<^verbatim>\<open>generic/tests\<close>) and the provider layer they share (\<^verbatim>\<open>provider/\<close>), with
  the programs that run inside guests (\<^verbatim>\<open>deps/\<close>).  This library models the provider layer: the input event path and the tests on it, block jobs, dirty
  bitmaps and backups, the classes that the tests of block jobs extend, message queues between hosts, I/O throttling, NBD exports, the storage
  daemon, the plugging of block devices, storage pools, storage benchmarks, host devices, the checks of CD drives, virtio-mem, new
  disks and virtio-fs, the drivers of Windows guests, their installer and the hardware lab kit, network benchmarks and devices, and checks of processors
  and firmware.  The framework (virttest, avocado, aexpect), the guest, the monitor of QEMU and the operating system are not
  part of the repository; each is a record of functions, an argument of the definitions that use it.

  \<^bold>\<open>How the code is translated.\<close>  A function that may raise is a computation of type \<^typ>\<open>('s, 'a) py\<close>: from a state to a result,
  an exception or a value, and the state after it.  Exceptions are values of \<^typ>\<open>exc\<close>; \<open>try/except\<close> and \<open>try/finally\<close>
  are \<^const>\<open>try_except\<close> and \<^const>\<open>try_finally\<close>; dictionaries are association lists in insertion order; dynamically typed values are
  \<^typ>\<open>pyval\<close>.  Loops over data are recursive functions; loops that depend on a clock are \<open>partial_function\<close>s or
  have fuel, and the theorems about them say that they end.

  \<^bold>\<open>Theories.\<close>
  \<^item> \<open>Py_Base\<close>: values, exceptions, computations, dictionaries, strings and numbers of Python, with the rules that run them.
  \<^item> \<open>State_Relation\<close>: a locale for what computations keep of their state; instantiated by \<open>Qsd\<close>, \<open>Block_Plug\<close>, \<open>Storage_Pool\<close>,
    \<open>Input_Tests\<close>, \<open>Host_Device\<close>, \<open>Host_Login\<close>, \<open>Storage_Benchmark\<close>, \<open>Guest_Shell\<close>, \<open>Pktgen\<close> and the \<open>Blockdev\<close> theories.
  \<^item> \<open>Py_Text\<close>: \<open>str.replace\<close> and the words of a parameter, with the condition under which replacing text is replacing words.
  \<^item> \<open>Json\<close>: \<open>json.dumps\<close> and \<open>json.loads\<close> on the values the program exchanges; the round trip, that the fuel of the parser is
    enough, and line-wise decoding of a stream (locale \<open>line_codec\<close>).
  \<^item> \<open>Input_Tables\<close>, \<open>Agent_Messages\<close>, \<open>Input_Agent_Linux\<close>, \<open>Input_Agent_Win\<close>: the two agents
    \<^verbatim>\<open>deps/input_event/input_event_linux.py\<close> and \<^verbatim>\<open>input_event_win.py\<close>, down to the bytes of a kernel record and the words of a Windows
    hook; the order of the messages, which devices are opened and closed, what a failed read does.
  \<^item> \<open>Input_Proxy\<close>, \<open>Input_Pipeline\<close>: the listener \<^verbatim>\<open>provider/input_event_proxy.py\<close>; the two platforms interpret the locale
    \<open>platform_listener\<close>, whose refinement says that the queued events are those of an abstract decoder.  The last section below puts agents
    and listeners together.
  \<^item> \<open>Input_Tests\<close>: \<^verbatim>\<open>provider/input_tests.py\<close> and \<^verbatim>\<open>provider/vioinput_basic.py\<close> on top of the listener; the verdicts of the key, scroll and
    move tests, and what is left of the agent after a test.  The guest answers a console with batches of lines; the slope of a line is a rational number.
  \<^item> \<open>Vm_Env\<close>: the monitor of a machine with the log of the commands sent to it, events, sleeping and polling.
  \<^item> \<open>Job_Utils\<close>, \<open>Dirty_Bitmap\<close>, \<open>Backup_Utils\<close>, \<open>Backup_Host\<close>: \<^verbatim>\<open>provider/job_utils.py\<close>,
    \<^verbatim>\<open>provider/block_dirty_bitmap.py\<close> and \<^verbatim>\<open>provider/backup_utils.py\<close>; which commands are sent and in which order, that a job that is waited for has
    completed, that a bitmap operation was seen to have happened, transactions, cluster sizes, the reads of \<open>copyif\<close>, files and mounts
    of the guest.  Locales \<open>job_service\<close> and \<open>bitmap_operation\<close> are the interfaces between them.
  \<^item> \<open>Message_Queue\<close>: \<^verbatim>\<open>provider/message_queuing.py\<close>; events are confirmed, and the message loop ends.
  \<^item> \<open>Throttle\<close>: \<^verbatim>\<open>provider/throttle_utils.py\<close>; the blocks of the output of fio, expected rates and times of a burst, the verdict on
    measured rates, and the verdict on groups in parallel.  Measured rates are rational numbers.
  \<^item> \<open>Nbd_Export\<close>: \<^verbatim>\<open>provider/nbd_image_export.py\<close>; removal of an export is complete before its server stops.
  \<^item> \<open>Qsd\<close>: \<^verbatim>\<open>provider/qsd.py\<close>; the block graph of an image and its address, the command line, start and stop, the guest devices.
  \<^item> \<open>Block_Plug\<close>: \<^verbatim>\<open>provider/block_devices_plug.py\<close>; order of devices, retries on locked monitors, the disks of the guest, threads.
  \<^item> \<open>Storage_Pool\<close>: \<^verbatim>\<open>provider/virt_storage\<close>; pools and volumes defined by parameters, created, acquired, removed and plugged.  The volumes of a
    pool are a Python set, modelled with the hash each entry was stored under; a backing volume is allocated before the volume on top of it.
  \<^item> \<open>Blockdev_Env\<close>, \<open>Blockdev_Base\<close>, \<open>Blockdev_Live\<close>, \<open>Blockdev_Backup\<close>, \<open>Blockdev_Snapshot\<close>, \<open>Blockdev_Commit\<close>: the classes
    \<^verbatim>\<open>provider/blockdev_*.py\<close> for tests of block jobs, on top of jobs, backups and storage pools.  A class is a record of the methods that subclasses
    override.  A test that returned has completed jobs and files verified on a machine that runs on the result; a prepared test is cleaned
    up whatever its body does, and which images a clean-up leaves behind.  What the framework does with machines and images is a
    function on the world, and every call is logged with the commands of the monitors.
  \<^item> \<open>Host_Device\<close>, \<open>Host_Login\<close>: \<^verbatim>\<open>provider/hostdev\<close>; binding PCI devices to the driver of a test and back, virtual functions, the searches for
    devices and the log in by the address of a card.  What the kernel does with the writes to its file system is a hypothesis, shown to hold on a model of a host.
  \<^item> \<open>Storage_Benchmark\<close>: \<^verbatim>\<open>provider/storage_benchmark.py\<close>; setting up, running and removing fio and iozone, and what a failed set up leaves behind.
  \<^item> \<open>Cdrom_Check\<close>: \<^verbatim>\<open>provider/cdrom.py\<close>; the check of the tray and its events against the moves of an operation.
  \<^item> \<open>Guest_Memory\<close>: \<^verbatim>\<open>provider/virtio_mem_utils.py\<close>; reading the sizes of nodes back from the text of the monitor, and the checks on them.
  \<^item> \<open>Guest_Shell\<close>: a guest as the scripts of the providers see it, its shell and the functions of the framework, with a record of every command and call.
  \<^item> \<open>Viofs\<close>: \<^verbatim>\<open>provider/virtio_fs_utils.py\<close>; the I/O tests of a shared directory, and the life of the service in a Windows guest.
  \<^item> \<open>Win_Driver\<close>: \<^verbatim>\<open>provider/win_driver_utils.py\<close>; installing, removing and reloading the drivers of a Windows guest, the installer and its versions.
  \<^item> \<open>Guest_Disk\<close>: \<^verbatim>\<open>provider/disk_utils.py\<close> and \<^verbatim>\<open>provider/qemu_img_utils.py\<close>; I/O on a new disk with its clean up, and the tracing of an image.
  \<^item> \<open>Win_Installer\<close>: \<^verbatim>\<open>provider/win_driver_installer_test.py\<close>; the lists of drivers, which a check changes for everything that follows, and the function tests.
  \<^item> \<open>Hlk\<close>: \<^verbatim>\<open>provider/win_hlk_suite.py\<close>; the commands and answers of the hardware lab kit, and what a test that returned has done and seen.
  \<^item> \<open>Netperf\<close>, \<open>Pktgen\<close>: \<^verbatim>\<open>provider/netperf*.py\<close> and \<^verbatim>\<open>provider/pktgen_utils.py\<close>; the stress test ends and cleans up, the table of results is read back
    column by column, and what is written for a category of packets.
  \<^item> \<open>Vdpa\<close>, \<open>Dpdk\<close>: \<^verbatim>\<open>provider/vdpa_*.py\<close> and \<^verbatim>\<open>provider/dpdk_utils.py\<close>; simulated devices and the modules they load, bridges, and waiting for
    the prompt of testpmd.
  \<^item> \<open>Guest_Cpu\<close>, \<open>Slof\<close>: \<^verbatim>\<open>provider/cpu_utils.py\<close>, \<^verbatim>\<open>provider/cpuflags.py\<close> and \<^verbatim>\<open>provider/slof.py\<close>; the regular expressions that read the output
    of a guest are functions on texts, and the verdicts are related to the lines a guest prints.

  \<^bold>\<open>Bounds and fuel.\<close>  The parser of JSON has fuel \<open>2 * length + 2\<close>, enough for every input.  \<open>read_loop\<close> and \<open>msg_rounds\<close> are
  partial functions, and so are \<open>stress_rounds\<close> and \<open>expect_prompt\<close>; theorems give the condition under which they return.  \<open>plug_rounds\<close> has one unit of fuel per attempt, and one per
  millisecond of its timeout is enough on a clock that runs.  \<open>collect_nodes\<close> has one unit per node of a drive.
  \<open>volume_define_by_params\<close> and \<open>acquire_volume\<close> have one unit per volume of a backing chain.  Threads run under an
  arbitrary schedule, a list of thread numbers; a pool of \<open>multiprocessing\<close> and \<open>utils_misc.parallel\<close> are the order in which their jobs are run.  Polling functions
  of the framework are assumed to call their function until it is true or time is over; in \<open>Guest_Shell\<close> how often the time allows is a parameter.

  \<^bold>\<open>Not modelled.\<close>  Logging; GTK and Tk windows beyond the callbacks they make; \<open>make_transaction_action\<close>, which changes a dictionary
  while it is iterated over; wrappers that only call the storage administration.  The other providers (checks of SGX, TDX and upgrades, a
  wrapper of ansible, dumps of Windows guests) and the small programs for guests are sequences of commands whose behaviour is that of the commands.
  The test cases are scripts over the framework and these providers.
\<close>

section \<open>The input path from the guest to the test\<close>



text \<open>
  C2. A key message of a Windows guest: the hook writes one line, and the listener queues one event with
  the translated name, which is a Linux key name or the marker for keys without one.  The six
  virtual keys that name mouse buttons and the break key have no translation: their line raises
  \<open>KeyError\<close> in the listener and nothing is queued.
\<close>

theorem win_key_end_to_end:
  assumes "w \<in> {0x100, 0x101, 0x104, 0x105}" and "(uint (vkCode k), vk) \<in> set VK_CODES"
  shows "\<exists>line r. LowLevelKeyboardProc api (HC_ACTION api) w k a = (Inr r, a\<lparr>wout := wout a @ [line]\<rparr>)
    \<and> (if vk \<in> set untranslated then win_parse line l = (Inl (KeyError vk), l)
       else \<exists>kc. (kc = UNMAPPED \<or> kc \<in> key_names) \<and> dget VK2Linux vk = Some kc
         \<and> win_parse line l = (Inr (), l\<lparr>events := events l @ [[(''keyCode'', PStr kc),
             (''scanCode'', PInt (uint (scanCode k))),
             (''type'', PStr (if w \<in> {0x100, 0x104} then ''KEYDOWN'' else ''KEYUP'')), (''device'', PStr ''keyboard'')]]\<rparr>))"
proof -
  have vk: "dget VK_CODES (uint (vkCode k)) = Some vk" using assms(2) VK_CODES_ok by (simp add: dict_ok_def)
  have "if vk \<in> set untranslated then dget VK2Linux vk = None else \<exists>kc. dget VK2Linux vk = Some kc"
    using VK2Linux_missing VK_CODES_translated[OF vk] by (auto split: if_splits)
  then show ?thesis using win_key_parse[OF assms, of l] VK2Linux_names
    by (auto simp: keyboard_proc_run win_key_line_def intro!: exI split: if_splits)
qed

theorem win_key_end_to_end_witness:
  "win_parse (win_key_line 0x100 \<lparr>vkCode = 3, scanCode = 70, kflags = 0, ktime = 0\<rparr>) listener_fresh =
     (Inl (KeyError ''VK_CANCEL''), listener_fresh)"
proof -
  have "(3, ''VK_CANCEL'') \<in> set VK_CODES" by (simp add: VK_CODES_def VK_CODES_1_def)
  then show ?thesis
    using win_key_end_to_end[of "0x100" "\<lparr>vkCode = 3, scanCode = 70, kflags = 0, ktime = 0\<rparr>" "''VK_CANCEL''"
        "\<lparr>HC_ACTION = 0, VK_F11 = 122, WH_KEYBOARD_LL = 13, WH_MOUSE_LL = 14, SetWindowsHook = (\<lambda>_. 1),
          CallNextHookEx = (\<lambda>_ _ _. 0)\<rparr>" win_start listener_fresh]
    by (auto simp: keyboard_proc_run win_key_line_def untranslated_def win_start_def)
qed

end
